(* ===== verification/Prelude.thy ===== *)
theory Prelude
  imports Main "HOL-Library.Sublist"
begin

section \<open>Go strings, errors and the lemmas every component shares\<close>

text \<open>
  A Go \<open>string\<close> is a sequence of bytes; so is an Isabelle \<open>string\<close>, whose
  \<open>char\<close> has eight bits. The functions of the packages \<open>strings\<close>,
  \<open>unicode\<close> and \<open>strconv\<close> that the components call are modelled here on bytes.
  Case mapping beyond ASCII rests on the tables of Go's package \<open>unicode\<close>, which are
  not part of the repository: the record \<open>unicode\<close> carries those three functions
  as a parameter, and every theorem holds for all of its values.
  An error value of the code is its message: \<open>string + 'a\<close> with \<open>Inl\<close> for the
  error.
\<close>

named_theorems go_string \<open>the string operations, unfolded\<close>
named_theorems go_result \<open>error results: monadic bind and its cases\<close>

type_synonym 'a result = "string + 'a"

definition bind_result :: "'a result \<Rightarrow> ('a \<Rightarrow> 'b result) \<Rightarrow> 'b result" where
  "bind_result r f = (case r of Inl e \<Rightarrow> Inl e | Inr x \<Rightarrow> f x)"

subsection \<open>Bytes\<close>

definition byte :: "char \<Rightarrow> nat" where
  "byte c = of_char c"

definition byte_in :: "char \<Rightarrow> char \<Rightarrow> char \<Rightarrow> bool" where
  "byte_in lo hi c \<longleftrightarrow> byte lo \<le> byte c \<and> byte c \<le> byte hi"

definition is_upper :: "char \<Rightarrow> bool" where
  "is_upper c \<longleftrightarrow> byte_in (CHR ''A'') (CHR ''Z'') c"

definition is_lower :: "char \<Rightarrow> bool" where
  "is_lower c \<longleftrightarrow> byte_in (CHR ''a'') (CHR ''z'') c"

definition is_digit :: "char \<Rightarrow> bool" where
  "is_digit c \<longleftrightarrow> byte_in (CHR ''0'') (CHR ''9'') c"

definition is_ascii :: "char \<Rightarrow> bool" where
  "is_ascii c \<longleftrightarrow> byte c < 128"

definition lower_byte :: "char \<Rightarrow> char" where
  "lower_byte c = (if is_upper c then char_of (byte c + 32) else c)"

text \<open>\<open>unicode.IsSpace(rune(b))\<close> for one byte read as a Latin-1 rune.\<close>

definition is_space :: "char \<Rightarrow> bool" where
  "is_space c \<longleftrightarrow> c = CHR '' '' \<or> c = CHR 0x09 \<or> c = CHR 0x0A \<or> c = CHR 0x0B
     \<or> c = CHR 0x0C \<or> c = CHR 0x0D \<or> c = CHR 0x85 \<or> c = CHR 0xA0"

subsection \<open>Case mapping\<close>

record unicode =
  uni_lower :: "string \<Rightarrow> string"
  uni_upper :: "string \<Rightarrow> string"
  uni_fold :: "string \<Rightarrow> string \<Rightarrow> bool"

text \<open>
  On ASCII texts the functions never consult the tables; this value stands for them in the
  concrete runs of the development.
\<close>

definition ascii_tables :: unicode where
  "ascii_tables = \<lparr>uni_lower = (\<lambda>s. s), uni_upper = (\<lambda>s. s), uni_fold = (\<lambda>s t. s = t)\<rparr>"

definition all_ascii :: "string \<Rightarrow> bool" where
  "all_ascii s \<longleftrightarrow> list_all is_ascii s"

definition to_lower :: "unicode \<Rightarrow> string \<Rightarrow> string" where
  "to_lower u s = (if all_ascii s then map lower_byte s else uni_lower u s)"

definition upper_byte :: "char \<Rightarrow> char" where
  "upper_byte c = (if is_lower c then char_of (byte c - 32) else c)"

definition to_upper :: "unicode \<Rightarrow> string \<Rightarrow> string" where
  "to_upper u s = (if all_ascii s then map upper_byte s else uni_upper u s)"

definition equal_fold :: "unicode \<Rightarrow> string \<Rightarrow> string \<Rightarrow> bool" where
  "equal_fold u s t =
     (if all_ascii s \<and> all_ascii t then map lower_byte s = map lower_byte t else uni_fold u s t)"

subsection \<open>Prefixes, search, joining\<close>

fun has_prefix :: "string \<Rightarrow> string \<Rightarrow> bool" where
  "has_prefix [] s = True"
| "has_prefix (p # ps) [] = False"
| "has_prefix (p # ps) (c # cs) = (p = c \<and> has_prefix ps cs)"

text \<open>\<open>strings.Index(s, sub)\<close>, \<open>None\<close> for -1.\<close>

fun str_index :: "string \<Rightarrow> string \<Rightarrow> nat option" where
  "str_index sub [] = (if sub = [] then Some 0 else None)"
| "str_index sub (c # cs) =
     (if has_prefix sub (c # cs) then Some 0 else map_option Suc (str_index sub cs))"

text \<open>\<open>strings.Cut(s, sep)\<close> for a one-byte separator: before, after, found.\<close>

fun str_cut :: "char \<Rightarrow> string \<Rightarrow> string \<times> string \<times> bool" where
  "str_cut sep [] = ([], [], False)"
| "str_cut sep (c # cs) =
     (if c = sep then ([], cs, True)
      else (case str_cut sep cs of (b, a, found) \<Rightarrow> (c # b, a, found)))"

text \<open>\<open>strings.Split(s, sep)\<close> for a one-byte separator.\<close>

fun str_split :: "char \<Rightarrow> string \<Rightarrow> string list" where
  "str_split sep [] = [[]]"
| "str_split sep (c # cs) =
     (if c = sep then [] # str_split sep cs
      else (case str_split sep cs of [] \<Rightarrow> [[c]] | p # ps \<Rightarrow> (c # p) # ps))"

fun str_join :: "string \<Rightarrow> string list \<Rightarrow> string" where
  "str_join sep [] = []"
| "str_join sep [p] = p"
| "str_join sep (p # q # ps) = p @ sep @ str_join sep (q # ps)"

text \<open>\<open>fmt\<close>'s \<open>%d\<close>.\<close>

fun digits :: "nat \<Rightarrow> string" where
  "digits n = (if n < 10 then [char_of (48 + n)] else digits (n div 10) @ [char_of (48 + n mod 10)])"

declare digits.simps [simp del]

definition decimal :: "int \<Rightarrow> string" where
  "decimal i = (if i < 0 then CHR ''-'' # digits (nat (- i)) else digits (nat i))"

subsection \<open>TrimSpace\<close>

text \<open>
  \<open>strings.TrimSpace\<close> removes the Unicode white space around a UTF-8 text. The white
  space code points beyond ASCII are exactly those below, in their UTF-8 bytes.
\<close>

definition ascii_space :: "char \<Rightarrow> bool" where
  "ascii_space c \<longleftrightarrow> c = CHR '' '' \<or> c = CHR 0x09 \<or> c = CHR 0x0A \<or> c = CHR 0x0B
     \<or> c = CHR 0x0C \<or> c = CHR 0x0D"

definition space2 :: "char \<Rightarrow> char \<Rightarrow> bool" where
  "space2 a b \<longleftrightarrow> a = CHR 0xC2 \<and> (b = CHR 0x85 \<or> b = CHR 0xA0)"

definition space3 :: "char \<Rightarrow> char \<Rightarrow> char \<Rightarrow> bool" where
  "space3 a b c \<longleftrightarrow>
     a = CHR 0xE1 \<and> b = CHR 0x9A \<and> c = CHR 0x80
   \<or> a = CHR 0xE2 \<and> b = CHR 0x80
       \<and> (byte_in (CHR 0x80) (CHR 0x8A) c \<or> c = CHR 0xA8 \<or> c = CHR 0xA9 \<or> c = CHR 0xAF)
   \<or> a = CHR 0xE2 \<and> b = CHR 0x81 \<and> c = CHR 0x9F
   \<or> a = CHR 0xE3 \<and> b = CHR 0x80 \<and> c = CHR 0x80"

fun trim_left :: "string \<Rightarrow> string" where
  "trim_left [] = []"
| "trim_left (a # s) =
     (if ascii_space a then trim_left s
      else (case s of
          b # s' \<Rightarrow>
            (if space2 a b then trim_left s'
             else (case s' of
                 c # s'' \<Rightarrow> (if space3 a b c then trim_left s'' else a # s)
               | [] \<Rightarrow> a # s))
        | [] \<Rightarrow> a # s))"

text \<open>The same from the right: on the reversed text the bytes of a rune come last first.\<close>

fun trim_left_rev :: "string \<Rightarrow> string" where
  "trim_left_rev [] = []"
| "trim_left_rev (a # s) =
     (if ascii_space a then trim_left_rev s
      else (case s of
          b # s' \<Rightarrow>
            (if space2 b a then trim_left_rev s'
             else (case s' of
                 c # s'' \<Rightarrow> (if space3 c b a then trim_left_rev s'' else a # s)
               | [] \<Rightarrow> a # s))
        | [] \<Rightarrow> a # s))"

definition trim_space :: "string \<Rightarrow> string" where
  "trim_space s = rev (trim_left_rev (rev (trim_left s)))"

subsection \<open>Byte classes by their bits\<close>

text \<open>Code equations, so that a concrete text evaluates without unary arithmetic.\<close>

lemma is_ascii_bits [code]: "is_ascii (Char b0 b1 b2 b3 b4 b5 b6 b7) \<longleftrightarrow> \<not> b7"
  by (cases b0; cases b1; cases b2; cases b3; cases b4; cases b5; cases b6; cases b7)
    (simp_all add: is_ascii_def byte_def)

lemma is_digit_bits [code]:
  "is_digit (Char b0 b1 b2 b3 b4 b5 b6 b7) \<longleftrightarrow> \<not> b7 \<and> \<not> b6 \<and> b5 \<and> b4 \<and> (\<not> b3 \<or> \<not> b2 \<and> \<not> b1)"
  by (cases b0; cases b1; cases b2; cases b3; cases b4; cases b5; cases b6; cases b7)
    (simp_all add: is_digit_def byte_in_def byte_def)

lemma is_upper_bits [code]:
  "is_upper (Char b0 b1 b2 b3 b4 b5 b6 b7) \<longleftrightarrow> \<not> b7 \<and> b6 \<and> \<not> b5
     \<and> (b0 \<or> b1 \<or> b2 \<or> b3 \<or> b4) \<and> \<not> (b4 \<and> b3 \<and> (b2 \<or> b1 \<and> b0))"
  by (cases b0; cases b1; cases b2; cases b3; cases b4; cases b5; cases b6; cases b7)
    (simp_all add: is_upper_def byte_in_def byte_def)

lemma is_lower_bits [code]:
  "is_lower (Char b0 b1 b2 b3 b4 b5 b6 b7) \<longleftrightarrow> \<not> b7 \<and> b6 \<and> b5
     \<and> (b0 \<or> b1 \<or> b2 \<or> b3 \<or> b4) \<and> \<not> (b4 \<and> b3 \<and> (b2 \<or> b1 \<and> b0))"
  by (cases b0; cases b1; cases b2; cases b3; cases b4; cases b5; cases b6; cases b7)
    (simp_all add: is_lower_def byte_in_def byte_def)

lemma lower_byte_bits [code]:
  "lower_byte (Char b0 b1 b2 b3 b4 b5 b6 b7) =
     (if is_upper (Char b0 b1 b2 b3 b4 b5 b6 b7) then Char b0 b1 b2 b3 b4 True b6 b7
      else Char b0 b1 b2 b3 b4 b5 b6 b7)"
  by (cases b0; cases b1; cases b2; cases b3; cases b4; cases b5; cases b6; cases b7)
    (simp_all add: lower_byte_def is_upper_def byte_in_def byte_def char_of_def bit_0)

lemma upper_byte_bits [code]:
  "upper_byte (Char b0 b1 b2 b3 b4 b5 b6 b7) =
     (if is_lower (Char b0 b1 b2 b3 b4 b5 b6 b7) then Char b0 b1 b2 b3 b4 False b6 b7
      else Char b0 b1 b2 b3 b4 b5 b6 b7)"
  by (cases b0; cases b1; cases b2; cases b3; cases b4; cases b5; cases b6; cases b7)
    (simp_all add: upper_byte_def is_lower_def byte_in_def byte_def char_of_def bit_0)

subsection \<open>Lemmas\<close>

lemma bind_result_simps [simp, go_result]:
  "bind_result (Inl e) f = Inl e"
  "bind_result (Inr x) f = f x"
  by (simp_all add: bind_result_def)

lemma bind_result_Inr [go_result]:
  "bind_result r f = Inr y \<longleftrightarrow> (\<exists>x. r = Inr x \<and> f x = Inr y)"
  by (cases r) auto

lemma has_prefix_iff: "has_prefix p s \<longleftrightarrow> (\<exists>t. s = p @ t)"
  by (induction p s rule: has_prefix.induct) auto

lemma has_prefix_length: "has_prefix p s \<Longrightarrow> length p \<le> length s"
  by (auto simp: has_prefix_iff)

lemma str_index_length:
  "str_index sub s = Some k \<Longrightarrow> k + length sub \<le> length s"
proof (induction s arbitrary: k)
  case (Cons c cs)
  then show ?case
    by (cases "has_prefix sub (c # cs)") (auto dest: has_prefix_length)
qed (auto split: if_splits)

lemma str_index_prefix:
  "str_index sub s = Some k \<Longrightarrow> has_prefix sub (drop k s)"
proof (induction s arbitrary: k)
  case (Cons c cs)
  then show ?case
    by (cases "has_prefix sub (c # cs)") auto
qed (auto split: if_splits)

lemma trim_left_suffix: "suffix (trim_left s) s"
proof (induction s rule: trim_left.induct)
  case (2 a s)
  then show ?case
    by (auto split: list.splits simp: suffix_Cons)
qed simp

lemma trim_left_rev_suffix: "suffix (trim_left_rev s) s"
proof (induction s rule: trim_left_rev.induct)
  case (2 a s)
  then show ?case
    by (auto split: list.splits simp: suffix_Cons)
qed simp

lemma length_trim_space: "length (trim_space s) \<le> length s"
proof -
  have "length (trim_left_rev (rev (trim_left s))) \<le> length (rev (trim_left s))"
    by (rule suffix_length_le [OF trim_left_rev_suffix])
  also have "\<dots> \<le> length s"
    using suffix_length_le [OF trim_left_suffix] by simp
  finally show ?thesis by (simp add: trim_space_def)
qed

lemma trim_left_idem: "trim_left (trim_left s) = trim_left s"
  by (induction s rule: trim_left.induct) (auto split: list.splits)

lemma trim_left_rev_idem: "trim_left_rev (trim_left_rev s) = trim_left_rev s"
  by (induction s rule: trim_left_rev.induct) (auto split: list.splits)

text \<open>A text that needs no trimming on the left keeps that when it loses bytes on the right.\<close>

definition trimmed_left :: "string \<Rightarrow> bool" where
  "trimmed_left s \<longleftrightarrow> (case s of [] \<Rightarrow> True | a # s' \<Rightarrow> \<not> ascii_space a
     \<and> (case s' of [] \<Rightarrow> True | b # s'' \<Rightarrow> \<not> space2 a b
     \<and> (case s'' of [] \<Rightarrow> True | c # _ \<Rightarrow> \<not> space3 a b c)))"

lemma trim_left_fixed: "trim_left s = s \<longleftrightarrow> trimmed_left s"
proof (cases s rule: trim_left.cases)
  case (2 a s')
  have "trim_left t \<noteq> x # y" if "length t \<le> length y" for t x y
    using suffix_length_le [OF trim_left_suffix [of t]] that by fastforce
  with 2 show ?thesis by (auto simp: trimmed_left_def split: list.splits)
qed (simp add: trimmed_left_def)

lemma trimmed_left_shorter: "trimmed_left (r @ t) \<Longrightarrow> trimmed_left r"
  by (auto simp: trimmed_left_def split: list.splits)

lemma trim_space_idem [simp]: "trim_space (trim_space s) = trim_space s"
proof -
  let ?l = "trim_left s" and ?r = "trim_left_rev (rev (trim_left s))"
  obtain p where "rev ?l = p @ ?r" using trim_left_rev_suffix [of "rev ?l"] by (auto simp: suffix_def)
  then have "?l = rev ?r @ rev p" by (metis rev_append rev_rev_ident)
  moreover have "trimmed_left ?l" using trim_left_idem trim_left_fixed by blast
  ultimately have "trimmed_left (rev ?r)" by (metis trimmed_left_shorter)
  then have "trim_left (rev ?r) = rev ?r" using trim_left_fixed by blast
  then show ?thesis by (simp add: trim_space_def trim_left_rev_idem)
qed
lemma trim_space_Nil [simp]: "trim_space [] = []"
  by (simp add: trim_space_def)

end
