(* ===== verification/Lexer.thy ===== *)
theory Lexer
  imports Prelude
begin

section \<open>The SQL lexer and the statement splitter (sqlguard/parser.go)\<close>

text \<open>
  \<open>LexDialect\<close> walks the text with an index \<open>i\<close>; here \<open>rest\<close> is \<open>sql[i:]\<close>, so a
  slice of the source becomes \<open>take\<close>, and the index is kept beside it for the
  positions of the tokens. One turn of the Go loop is \<open>lex_step\<close>; its result is how many
  bytes the turn consumes, the new parenthesis and executable-comment depths, and the token
  it appends, if any. \<open>lex_loop\<close> repeats it.
\<close>

subsection \<open>Dialects and tokens\<close>

datatype dialect = DialectGeneric | DialectPostgres | DialectMySQL | DialectMSSQL
  | DialectOther string

definition dialect_valid :: "dialect \<Rightarrow> bool" where
  "dialect_valid d = (case d of
      DialectGeneric \<Rightarrow> True | DialectPostgres \<Rightarrow> True | DialectMySQL \<Rightarrow> True
    | DialectMSSQL \<Rightarrow> True | DialectOther _ \<Rightarrow> False)"

definition dialect_for_engine :: "unicode \<Rightarrow> string \<Rightarrow> dialect" where
  "dialect_for_engine u engine =
     (let e = to_lower u (trim_space engine) in
      if e \<in> {''postgres'', ''postgresql'', ''cockroach'', ''cockroachdb''} then DialectPostgres
      else if e \<in> {''mysql'', ''mariadb''} then DialectMySQL
      else if e \<in> {''mssql'', ''sqlserver''} then DialectMSSQL
      else DialectGeneric)"

definition hash_starts_comment :: "dialect \<Rightarrow> bool" where
  "hash_starts_comment d \<longleftrightarrow> d = DialectMySQL \<or> d = DialectGeneric"

definition nests_comments :: "dialect \<Rightarrow> bool" where
  "nests_comments d \<longleftrightarrow> d \<noteq> DialectMySQL"

definition backslash_escapes :: "dialect \<Rightarrow> bool" where
  "backslash_escapes d \<longleftrightarrow> d = DialectMySQL"

record Token =
  Text :: string
  Lower :: string
  Start :: nat
  End :: nat
  Depth :: nat
  Identifier :: bool
  Quoted :: bool

definition keyword :: "Token \<Rightarrow> string \<Rightarrow> bool" where
  "keyword t word \<longleftrightarrow> \<not> Quoted t \<and> Lower t = word"

definition reserved :: "string set" where
  "reserved = {''from'', ''into'', ''outfile'', ''dumpfile'', ''where'', ''join'', ''left'',
     ''right'', ''full'', ''inner'', ''outer'', ''cross'', ''on'', ''group'', ''order'',
     ''limit'', ''offset'', ''fetch'', ''returning'', ''union'', ''intersect'', ''except'',
     ''set'', ''values'', ''using'', ''with'', ''use'', ''force'', ''ignore'', ''window'',
     ''qualify'', ''for'', ''having''}"

definition reserved_word :: "Token \<Rightarrow> bool" where
  "reserved_word t \<longleftrightarrow> \<not> Quoted t \<and> Lower t \<in> reserved"

subsection \<open>The inner loops of the lexer: how many bytes each consumes\<close>

definition is_ident :: "char \<Rightarrow> bool" where
  "is_ident c \<longleftrightarrow> c = CHR ''_'' \<or> c = CHR ''$'' \<or> \<not> is_ascii c
     \<or> is_lower c \<or> is_upper c \<or> is_digit c"

fun line_bytes :: "string \<Rightarrow> nat" where
  "line_bytes [] = 0"
| "line_bytes (c # cs) = (if c = CHR 0x0A then 0 else Suc (line_bytes cs))"

fun ident_bytes :: "string \<Rightarrow> nat" where
  "ident_bytes [] = 0"
| "ident_bytes (c # cs) = (if is_ident c then Suc (ident_bytes cs) else 0)"

fun digit_bytes :: "string \<Rightarrow> nat" where
  "digit_bytes [] = 0"
| "digit_bytes (c # cs) = (if is_digit c then Suc (digit_bytes cs) else 0)"

definition executable_comment_marker :: "dialect \<Rightarrow> string \<Rightarrow> nat" where
  "executable_comment_marker d s =
     (if d \<noteq> DialectMySQL \<and> d \<noteq> DialectGeneric then 0
      else if \<not> has_prefix ''/*!'' s then 0
      else 3 + digit_bytes (drop 3 s))"

text \<open>The body of a block comment after its opening; \<open>None\<close> when it is not closed.\<close>

fun comment_bytes :: "dialect \<Rightarrow> nat \<Rightarrow> string \<Rightarrow> nat option" where
  "comment_bytes d 0 s = Some 0"
| "comment_bytes d (Suc n) [] = None"
| "comment_bytes d (Suc n) [a] = None"
| "comment_bytes d (Suc n) (a # b # s) =
     (if a = CHR ''/'' \<and> b = CHR ''*'' \<and> nests_comments d
        then map_option (\<lambda>k. k + 2) (comment_bytes d (Suc (Suc n)) s)
      else if a = CHR ''*'' \<and> b = CHR ''/''
        then map_option (\<lambda>k. k + 2) (comment_bytes d n s)
      else map_option Suc (comment_bytes d (Suc n) (b # s)))"

text \<open>The loop over a string literal, from the byte after its opening quote.\<close>

fun string_bytes :: "dialect \<Rightarrow> string \<Rightarrow> nat" where
  "string_bytes d [] = 0"
| "string_bytes d [a] = 1"
| "string_bytes d (a # b # s) =
     (if a = CHR 0x5C \<and> backslash_escapes d then 2 + string_bytes d s
      else if a = CHR 0x27 then
        (if b = CHR 0x27 then 2 + string_bytes d s else 1)
      else Suc (string_bytes d (b # s)))"

text \<open>The loop over a quoted identifier: the bytes before its closing quote.\<close>

fun quoted_bytes :: "char \<Rightarrow> string \<Rightarrow> nat option" where
  "quoted_bytes cl [] = None"
| "quoted_bytes cl [a] = (if a = cl then Some 0 else None)"
| "quoted_bytes cl (a # b # s) =
     (if a = cl then
        (if b = cl then map_option (\<lambda>k. k + 2) (quoted_bytes cl s) else Some 0)
      else map_option Suc (quoted_bytes cl (b # s)))"

text \<open>
  \<open>dollarQuoteDelimiter\<close>: \<open>$\<close>, an optional tag of letters, digits (not first) and
  underscores, \<open>$\<close>. The recursion carries the index of the byte.
\<close>

fun dollar_tag :: "nat \<Rightarrow> string \<Rightarrow> nat option" where
  "dollar_tag i [] = None"
| "dollar_tag i (c # cs) =
     (if c = CHR ''$'' then Some (Suc i)
      else if \<not> (c = CHR ''_'' \<or> is_lower c \<or> is_upper c \<or> 1 < i \<and> is_digit c) then None
      else dollar_tag (Suc i) cs)"

definition dollar_quote_delimiter :: "string \<Rightarrow> string option" where
  "dollar_quote_delimiter s =
     (case s of
        [] \<Rightarrow> None
      | c # cs \<Rightarrow>
          (if length s < 2 \<or> c \<noteq> CHR ''$'' then None
           else map_option (\<lambda>n. take n s) (dollar_tag 1 cs)))"

text \<open>\<open>strings.Trim(text, "\"`[]")\<close>.\<close>

definition quote_char :: "char \<Rightarrow> bool" where
  "quote_char c \<longleftrightarrow> c = CHR 0x22 \<or> c = CHR 0x60 \<or> c = CHR ''['' \<or> c = CHR '']''"

definition trim_quotes :: "string \<Rightarrow> string" where
  "trim_quotes s = rev (dropWhile quote_char (rev (dropWhile quote_char s)))"

subsection \<open>One turn of the loop\<close>

record lex_out =
  consumed :: nat
  depth_after :: nat
  exec_after :: nat
  emitted :: "(string \<times> nat \<times> bool \<times> bool) option"

text \<open>\<open>emitted\<close> holds the \<open>Lower\<close>, \<open>Depth\<close>, \<open>Identifier\<close> and \<open>Quoted\<close> of the token;
  its \<open>Text\<close> is the bytes consumed.\<close>

definition skip_out :: "nat \<Rightarrow> nat \<Rightarrow> nat \<Rightarrow> lex_out result" where
  "skip_out n depth exec =
     Inr \<lparr>consumed = n, depth_after = depth, exec_after = exec, emitted = None\<rparr>"

definition emit_out ::
  "nat \<Rightarrow> nat \<Rightarrow> nat \<Rightarrow> string \<Rightarrow> nat \<Rightarrow> bool \<Rightarrow> bool \<Rightarrow> lex_out result" where
  "emit_out n depth exec low tdepth ident quot =
     Inr \<lparr>consumed = n, depth_after = depth, exec_after = exec,
          emitted = Some (low, tdepth, ident, quot)\<rparr>"

definition lex_quote :: "unicode \<Rightarrow> nat \<Rightarrow> nat \<Rightarrow> string \<Rightarrow> char \<Rightarrow> lex_out result" where
  "lex_quote u depth exec rest opening =
     (let closing = (if opening = CHR ''['' then CHR '']'' else opening) in
      case quoted_bytes closing (tl rest) of
        None \<Rightarrow> Inl ''unterminated quoted identifier''
      | Some k \<Rightarrow>
          emit_out (k + 2) depth exec (to_lower u (trim_quotes (take (k + 2) rest))) depth True True)"

definition lex_string :: "dialect \<Rightarrow> nat \<Rightarrow> nat \<Rightarrow> string \<Rightarrow> lex_out result" where
  "lex_string d depth exec rest =
     (let n = Suc (string_bytes d (tl rest)) in
      if last (take n rest) \<noteq> CHR 0x27 then Inl ''unterminated string''
      else emit_out n depth exec ''?'' depth False False)"

definition lex_plain :: "unicode \<Rightarrow> nat \<Rightarrow> nat \<Rightarrow> string \<Rightarrow> char \<Rightarrow> lex_out result" where
  "lex_plain u depth exec rest c =
     (if is_ident c then
        (let n = Suc (ident_bytes (tl rest)) in
         emit_out n depth exec (to_lower u (take n rest)) depth True False)
      else if c = CHR ''('' then emit_out 1 (Suc depth) exec ''('' depth False False
      else if c = CHR '')'' then
        (if depth = 0 then Inl ''unbalanced parenthesis''
         else emit_out 1 (depth - 1) exec '')'' (depth - 1) False False)
      else emit_out 1 depth exec (to_lower u [c]) depth False False)"

definition lex_token :: "unicode \<Rightarrow> dialect \<Rightarrow> nat \<Rightarrow> nat \<Rightarrow> string \<Rightarrow> char \<Rightarrow> lex_out result" where
  "lex_token u d depth exec rest c =
     (if c = CHR 0x27 then lex_string d depth exec rest
      else if c = CHR 0x22 \<or> c = CHR 0x60 \<or> c = CHR ''['' then lex_quote u depth exec rest c
      else lex_plain u depth exec rest c)"

definition lex_step ::
  "unicode \<Rightarrow> dialect \<Rightarrow> nat \<Rightarrow> nat \<Rightarrow> string \<Rightarrow> char \<Rightarrow> lex_out result" where
  "lex_step u d depth exec rest c =
     (if is_space c then skip_out 1 depth exec
      else if has_prefix ''--'' rest then
        skip_out (2 + line_bytes (drop 2 rest)) depth exec
      else if c = CHR ''#'' \<and> hash_starts_comment d then
        skip_out (1 + line_bytes (drop 1 rest)) depth exec
      else if has_prefix ''/*'' rest then
        (let marker = executable_comment_marker d rest in
         if 0 < marker then skip_out marker depth (Suc exec)
         else (case comment_bytes d 1 (drop 2 rest) of
                 None \<Rightarrow> Inl ''unterminated comment''
               | Some k \<Rightarrow> skip_out (2 + k) depth exec))
      else if 0 < exec \<and> has_prefix ''*/'' rest then skip_out 2 depth (exec - 1)
      else if c = CHR ''$'' then
        (case dollar_quote_delimiter rest of
           Some delimiter \<Rightarrow>
             (case str_index delimiter (drop (length delimiter) rest) of
                None \<Rightarrow> Inl ''unterminated dollar-quoted string''
              | Some closing \<Rightarrow>
                  emit_out (length delimiter + closing + length delimiter) depth exec ''?''
                    depth False False)
         | None \<Rightarrow> lex_token u d depth exec rest c)
      else lex_token u d depth exec rest c)"

lemma skip_out_iff [simp]:
  "skip_out n depth exec = Inr r \<longleftrightarrow>
     r = \<lparr>consumed = n, depth_after = depth, exec_after = exec, emitted = None\<rparr>"
  by (auto simp: skip_out_def)

lemma emit_out_iff [simp]:
  "emit_out n depth exec low td idf q = Inr r \<longleftrightarrow>
     r = \<lparr>consumed = n, depth_after = depth, exec_after = exec, emitted = Some (low, td, idf, q)\<rparr>"
  by (auto simp: emit_out_def)

lemma line_bytes_le: "line_bytes s \<le> length s"
  by (induction s) auto

lemma ident_bytes_le: "ident_bytes s \<le> length s"
  by (induction s) auto

lemma digit_bytes_le: "digit_bytes s \<le> length s"
  by (induction s) auto

lemma comment_bytes_le: "comment_bytes d n s = Some k \<Longrightarrow> k \<le> length s"
proof (induction d n s arbitrary: k rule: comment_bytes.induct)
  case (4 d n a b s)
  then show ?case by (fastforce split: if_splits)
qed auto

lemma string_bytes_le: "string_bytes d s \<le> length s"
  by (induction d s rule: string_bytes.induct) auto

lemma quoted_bytes_less: "quoted_bytes cl s = Some k \<Longrightarrow> k < length s"
proof (induction cl s arbitrary: k rule: quoted_bytes.induct)
  case (3 cl a b s)
  then show ?case by (fastforce split: if_splits)
qed (auto split: if_splits)

lemma dollar_tag_le: "dollar_tag i s = Some n \<Longrightarrow> i < n \<and> n \<le> i + length s"
  by (induction i s rule: dollar_tag.induct) (auto split: if_splits)

lemma dollar_quote_delimiter_shape:
  assumes "dollar_quote_delimiter s = Some delim"
  shows "has_prefix delim s" and "0 < length delim" and "length delim \<le> length s"
proof -
  from assms obtain c cs n where s: "s = c # cs" and n: "dollar_tag 1 cs = Some n"
    and delim: "delim = take n s"
    by (auto simp: dollar_quote_delimiter_def split: list.splits if_splits)
  from dollar_tag_le [OF n] s have "1 < n" "n \<le> length s" by auto
  with delim show "0 < length delim" "length delim \<le> length s" by auto
  show "has_prefix delim s"
    unfolding has_prefix_iff delim by (metis append_take_drop_id)
qed

lemma executable_comment_marker_le: "executable_comment_marker d s \<le> length s"
proof -
  have "has_prefix ''/*!'' s \<Longrightarrow> 3 + digit_bytes (drop 3 s) \<le> length s"
    using digit_bytes_le [of "drop 3 s"] has_prefix_length [of "''/*!''" s] by simp
  then show ?thesis by (auto simp: executable_comment_marker_def)
qed

text \<open>Every turn consumes at least one byte and at most what is left.\<close>

lemma lex_plain_consumed:
  "lex_plain u depth exec (c # cs) c' = Inr r \<Longrightarrow> 0 < consumed r \<and> consumed r \<le> length (c # cs)"
  using ident_bytes_le [of cs] by (auto simp: lex_plain_def Let_def split: if_splits)

lemma lex_token_consumed:
  "lex_token u d depth exec (c # cs) c' = Inr r \<Longrightarrow> 0 < consumed r \<and> consumed r \<le> length (c # cs)"
  using lex_plain_consumed [of u depth exec c cs c' r] string_bytes_le [of d cs]
  by (auto simp: lex_token_def lex_string_def lex_quote_def Let_def
      dest!: quoted_bytes_less split: if_splits option.splits)

lemma lex_step_consumed:
  assumes "lex_step u d depth exec (c # cs) c = Inr r"
  shows "0 < consumed r \<and> consumed r \<le> length (c # cs)"
proof -
  note le = line_bytes_le [of "tl cs"] line_bytes_le [of cs]
    executable_comment_marker_le [of d "c # cs"]
  show ?thesis
    using assms le
    by (auto simp: lex_step_def Let_def drop_Suc numeral_2_eq_2
        dest!: has_prefix_length comment_bytes_le lex_token_consumed str_index_length
          dollar_quote_delimiter_shape(2) split: if_splits option.splits)
qed

subsection \<open>The loop\<close>

definition lex_tokens :: "nat \<Rightarrow> string \<Rightarrow> lex_out \<Rightarrow> Token list" where
  "lex_tokens i rest r =
     (case emitted r of
        None \<Rightarrow> []
      | Some (low, td, idf, q) \<Rightarrow>
          [\<lparr>Text = take (consumed r) rest, Lower = low, Start = i, End = i + consumed r,
            Depth = td, Identifier = idf, Quoted = q\<rparr>])"

function lex_loop ::
  "unicode \<Rightarrow> dialect \<Rightarrow> nat \<Rightarrow> nat \<Rightarrow> nat \<Rightarrow> string \<Rightarrow> Token list result" where
  "lex_loop u d i depth exec [] =
     (if depth \<noteq> 0 then Inl ''unbalanced parenthesis'' else Inr [])"
| "lex_loop u d i depth exec (c # cs) =
     (case lex_step u d depth exec (c # cs) c of
        Inl e \<Rightarrow> Inl e
      | Inr r \<Rightarrow>
          bind_result
            (lex_loop u d (i + consumed r) (depth_after r) (exec_after r)
              (drop (consumed r) (c # cs)))
            (\<lambda>out. Inr (lex_tokens i (c # cs) r @ out)))"
  by pat_completeness auto
termination
  by (relation "measure (\<lambda>(u, d, i, depth, exec, rest). length rest)")
    (auto dest: lex_step_consumed)

definition LexDialect :: "unicode \<Rightarrow> dialect \<Rightarrow> string \<Rightarrow> Token list result" where
  "LexDialect u d sql = lex_loop u d 0 0 0 sql"

end
