(* ===== verification/Lexer_Correct.thy ===== *)
theory Lexer_Correct
  imports Lexer
begin

section \<open>What the lexer guarantees\<close>

text \<open>
  Facts about every run of \<open>LexDialect\<close>: its tokens are slices of the text at the
  positions they name, in order and apart; their depths follow the parentheses, which
  balance; and the text between them is white space and comments only.
\<close>

subsection \<open>Positions\<close>

definition at_position :: "nat \<Rightarrow> string \<Rightarrow> Token \<Rightarrow> bool" where
  "at_position i rest t \<longleftrightarrow>
     i \<le> Start t \<and> Start t < End t \<and> End t \<le> i + length rest
     \<and> Text t = take (End t - Start t) (drop (Start t - i) rest)"

lemma at_position_shift:
  assumes "at_position (i + n) (drop n rest) t" and "n \<le> length rest"
  shows "at_position i rest t"
  using assms by (auto simp: at_position_def algebra_simps)

lemma lex_tokens_position:
  assumes "lex_step u d depth exec (c # cs) c = Inr r" and "t \<in> set (lex_tokens i (c # cs) r)"
  shows "at_position i (c # cs) t \<and> End t = i + consumed r"
  using assms(2) lex_step_consumed [OF assms(1)]
  by (auto simp: lex_tokens_def at_position_def split: option.splits)

lemma lex_loop_positions:
  "lex_loop u d i depth exec rest = Inr ts \<Longrightarrow>
     (\<forall>t \<in> set ts. at_position i rest t) \<and> sorted_wrt (\<lambda>a b. End a \<le> Start b) ts"
proof (induction u d i depth exec rest arbitrary: ts rule: lex_loop.induct)
  case (2 u d i depth exec c cs)
  then obtain r out where step: "lex_step u d depth exec (c # cs) c = Inr r"
    and rec: "lex_loop u d (i + consumed r) (depth_after r) (exec_after r)
      (drop (consumed r) (c # cs)) = Inr out"
    and ts: "ts = lex_tokens i (c # cs) r @ out"
    by (auto simp: bind_result_Inr split: sum.splits)
  from "2.IH" [OF step rec]
  have out: "\<forall>t \<in> set out. at_position (i + consumed r) (drop (consumed r) (c # cs)) t"
    and sorted: "sorted_wrt (\<lambda>a b. End a \<le> Start b) out" by auto
  from out lex_step_consumed [OF step] have "\<forall>t \<in> set out. at_position i (c # cs) t"
    by (blast intro: at_position_shift)
  moreover have "\<forall>a \<in> set (lex_tokens i (c # cs) r). \<forall>b \<in> set out. End a \<le> Start b"
    using out lex_tokens_position [OF step] by (fastforce simp: at_position_def)
  moreover have "sorted_wrt (\<lambda>a b. End a \<le> Start b) (lex_tokens i (c # cs) r)"
    by (auto simp: lex_tokens_def split: option.splits)
  ultimately show ?case
    using lex_tokens_position [OF step] sorted by (auto simp: ts sorted_wrt_append)
qed (auto split: if_splits)

subsection \<open>Depths\<close>

fun depths_ok :: "nat \<Rightarrow> Token list \<Rightarrow> bool" where
  "depths_ok n [] \<longleftrightarrow> n = 0"
| "depths_ok n (t # ts) \<longleftrightarrow>
     (if Text t = ''('' then Depth t = n \<and> depths_ok (Suc n) ts
      else if Text t = '')'' then 0 < n \<and> Depth t = n - 1 \<and> depths_ok (n - 1) ts
      else Depth t = n \<and> depths_ok n ts)"

definition step_depth_ok :: "nat \<Rightarrow> string \<Rightarrow> lex_out \<Rightarrow> bool" where
  "step_depth_ok depth rest r \<longleftrightarrow>
     (case emitted r of
        None \<Rightarrow> depth_after r = depth
      | Some (low, td, idf, q) \<Rightarrow>
          (let text = take (consumed r) rest in
           if text = ''('' then td = depth \<and> depth_after r = Suc depth
           else if text = '')'' then 0 < depth \<and> td = depth - 1 \<and> depth_after r = depth - 1
           else td = depth \<and> depth_after r = depth))"

lemma is_ident_paren: "\<not> is_ident (CHR ''('')" "\<not> is_ident (CHR '')'')"
  by (simp_all add: is_ident_def is_ascii_def byte_def is_lower_def is_upper_def is_digit_def
      byte_in_def)

lemma lex_plain_depth:
  "lex_plain u depth exec (c # cs) c = Inr r \<Longrightarrow> step_depth_ok depth (c # cs) r"
  using is_ident_paren
  by (auto simp: lex_plain_def step_depth_ok_def Let_def split: if_splits)

lemma lex_token_depth:
  "lex_token u d depth exec (c # cs) c = Inr r \<Longrightarrow> step_depth_ok depth (c # cs) r"
  using lex_plain_depth [of u depth exec c cs r]
  by (auto simp: lex_token_def lex_string_def lex_quote_def step_depth_ok_def Let_def
      split: if_splits option.splits)

lemma lex_step_depth:
  "lex_step u d depth exec (c # cs) c = Inr r \<Longrightarrow> step_depth_ok depth (c # cs) r"
  using lex_token_depth [of u d depth exec c cs r]
  by (auto simp: lex_step_def step_depth_ok_def Let_def take_Cons' split: if_splits option.splits
      dest!: dollar_quote_delimiter_shape(2))

lemma lex_loop_depths: "lex_loop u d i depth exec rest = Inr ts \<Longrightarrow> depths_ok depth ts"
proof (induction u d i depth exec rest arbitrary: ts rule: lex_loop.induct)
  case (2 u d i depth exec c cs)
  then obtain r out where step: "lex_step u d depth exec (c # cs) c = Inr r"
    and rec: "lex_loop u d (i + consumed r) (depth_after r) (exec_after r)
      (drop (consumed r) (c # cs)) = Inr out"
    and ts: "ts = lex_tokens i (c # cs) r @ out"
    by (auto simp: bind_result_Inr split: sum.splits)
  show ?case
    using "2.IH" [OF step rec] lex_step_depth [OF step]
    by (auto simp: ts lex_tokens_def step_depth_ok_def Let_def split: option.splits if_splits)
qed (auto split: if_splits)

subsection \<open>What is dropped\<close>

definition blank :: "string \<Rightarrow> bool" where
  "blank p = (case p of [c] \<Rightarrow> is_space c | _ \<Rightarrow> False)"

text \<open>
  Block comments as the databases define them, apart from the code. On MySQL a comment ends
  at the first closing mark. Elsewhere comments nest: read from the left in opening marks,
  closing marks and other bytes, the comment is over when as many were closed as opened, and
  not before.
\<close>

datatype mark = Opens | Closes | Byte char

fun marks :: "string \<Rightarrow> mark list" where
  "marks (a # b # s) =
     (if a = CHR ''/'' \<and> b = CHR ''*'' then Opens # marks s
      else if a = CHR ''*'' \<and> b = CHR ''/'' then Closes # marks s
      else Byte a # marks (b # s))"
| "marks [a] = [Byte a]"
| "marks [] = []"

definition closes_at_end :: "nat \<Rightarrow> mark list \<Rightarrow> bool" where
  "closes_at_end n ms \<longleftrightarrow>
     count_list ms Closes = n + count_list ms Opens
   \<and> (\<forall>k < length ms. count_list (take k ms) Closes < n + count_list (take k ms) Opens)"

definition nested_comment :: "string \<Rightarrow> bool" where
  "nested_comment p \<longleftrightarrow> (\<exists>s. p = ''/*'' @ s \<and> closes_at_end 1 (marks s))"

definition flat_comment :: "string \<Rightarrow> bool" where
  "flat_comment p \<longleftrightarrow>
     (\<exists>s. p = ''/*'' @ s @ ''*/'' \<and> \<not> (\<exists>x y. s @ ''*'' = x @ ''*/'' @ y))"

text \<open>MySQL, and the generic dialect that must read MySQL as well, start a comment with a
  hash and run what stands in a comment that opens with an exclamation mark.\<close>

definition reads_mysql :: "dialect \<Rightarrow> bool" where
  "reads_mysql d \<longleftrightarrow> d = DialectMySQL \<or> d = DialectGeneric"

definition exec_marker :: "dialect \<Rightarrow> string \<Rightarrow> bool" where
  "exec_marker d p \<longleftrightarrow> reads_mysql d \<and> has_prefix ''/*!'' p \<and> list_all is_digit (drop 3 p)"

definition trivia :: "dialect \<Rightarrow> string \<Rightarrow> bool" where
  "trivia d p \<longleftrightarrow>
     blank p
   \<or> has_prefix ''--'' p \<and> CHR 0x0A \<notin> set p
   \<or> reads_mysql d \<and> has_prefix ''#'' p \<and> CHR 0x0A \<notin> set p
   \<or> (if d = DialectMySQL then flat_comment p else nested_comment p)
      \<and> \<not> (reads_mysql d \<and> has_prefix ''/*!'' p)
   \<or> exec_marker d p
   \<or> reads_mysql d \<and> p = ''*/''"

lemma line_bytes_no_newline: "CHR 0x0A \<notin> set (take (line_bytes s) s)"
  by (induction s) auto

lemma digit_bytes_digits: "list_all is_digit (take (digit_bytes s) s)"
  by (induction s) auto

lemma closes_at_end_Byte: "closes_at_end (Suc n) ms \<Longrightarrow> closes_at_end (Suc n) (Byte c # ms)"
  unfolding closes_at_end_def
  by (auto simp: take_Cons split: nat.splits)

lemma closes_at_end_Opens: "closes_at_end (Suc (Suc n)) ms \<Longrightarrow> closes_at_end (Suc n) (Opens # ms)"
  unfolding closes_at_end_def
  by (auto simp: take_Cons split: nat.splits)

lemma closes_at_end_Closes: "closes_at_end n ms \<Longrightarrow> closes_at_end (Suc n) (Closes # ms)"
  unfolding closes_at_end_def
  by (auto simp: take_Cons split: nat.splits)

lemma comment_bytes_pos: "comment_bytes d (Suc n) s = Some k \<Longrightarrow> 0 < k"
  by (induction d "Suc n" s arbitrary: k rule: comment_bytes.induct) (auto split: if_splits)

lemma comment_bytes_nested:
  "comment_bytes d n s = Some k \<Longrightarrow> nests_comments d \<Longrightarrow> closes_at_end n (marks (take k s))"
proof (induction d n s arbitrary: k rule: comment_bytes.induct)
  case (1 d s)
  then show ?case by (simp add: closes_at_end_def)
next
  case (4 d n a b s)
  consider (nest) "a = CHR ''/'' \<and> b = CHR ''*'' \<and> nests_comments d"
    | (closing) "\<not> (a = CHR ''/'' \<and> b = CHR ''*'' \<and> nests_comments d)" "a = CHR ''*'' \<and> b = CHR ''/''"
    | (other) "\<not> (a = CHR ''/'' \<and> b = CHR ''*'' \<and> nests_comments d)"
        "\<not> (a = CHR ''*'' \<and> b = CHR ''/'')"
    by blast
  then show ?case
  proof cases
    case nest
    with "4.prems" obtain j where "comment_bytes d (Suc (Suc n)) s = Some j" "k = j + 2" by auto
    with "4.IH"(1) [OF nest] nest "4.prems"(2) show ?thesis by (simp add: closes_at_end_Opens)
  next
    case closing
    with "4.prems" obtain j where "comment_bytes d n s = Some j" "k = j + 2" by auto
    with "4.IH"(2) [OF closing] closing "4.prems"(2) show ?thesis by (simp add: closes_at_end_Closes)
  next
    case other
    with "4.prems" obtain j where j: "comment_bytes d (Suc n) (b # s) = Some j" "k = Suc j" by auto
    from comment_bytes_pos [OF j(1)] obtain i where i: "j = Suc i" by (cases j) simp_all
    from "4.IH"(3) [OF other j(1) "4.prems"(2)] have "closes_at_end (Suc n) (marks (b # take i s))" by (simp add: i)
    then have "closes_at_end (Suc n) (Byte a # marks (b # take i s))" by (rule closes_at_end_Byte)
    with other "4.prems"(2) show ?thesis by (auto simp: i j(2))
  qed
qed auto

lemma comment_bytes_flat:
  "comment_bytes d n s = Some k \<Longrightarrow> \<not> nests_comments d \<Longrightarrow> n = 1 \<Longrightarrow>
    \<exists>p. take k s = p @ ''*/'' \<and> \<not> (\<exists>x y. p @ ''*'' = x @ ''*/'' @ y)"
proof (induction d n s arbitrary: k rule: comment_bytes.induct)
  case (4 d n a b s)
  show ?case
  proof (cases "a = CHR ''*'' \<and> b = CHR ''/''")
    case True
    with "4.prems" have "take k (a # b # s) = [] @ ''*/''" by auto
    moreover have "\<not> (\<exists>x y. [] @ ''*'' = x @ ''*/'' @ y)" by (auto simp: Cons_eq_append_conv)
    ultimately show ?thesis by blast
  next
    case False
    have step: "comment_bytes d (Suc n) (a # b # s) = map_option Suc (comment_bytes d (Suc n) (b # s))"
      using False "4.prems"(2) by auto
    from "4.prems"(1) [unfolded step] obtain j
      where j: "comment_bytes d (Suc n) (b # s) = Some j" "k = Suc j" by blast
    from "4.IH"(3) [OF _ False j(1)] "4.prems"(2,3) obtain p
      where p: "take j (b # s) = p @ ''*/''" "\<not> (\<exists>x y. p @ ''*'' = x @ ''*/'' @ y)" by auto
    then have hd: "b = hd (p @ ''*'')" by (cases j; cases p) auto
    have "\<not> (\<exists>x y. (a # p) @ ''*'' = x @ ''*/'' @ y)"
    proof
      assume "\<exists>x y. (a # p) @ ''*'' = x @ ''*/'' @ y"
      then obtain x y where xy: "a # p @ ''*'' = x @ ''*/'' @ y" by auto
      show False
      proof (cases x)
        case Nil
        with xy hd False show False by auto
      next
        case (Cons c x')
        with xy p(2) show False by auto
      qed
    qed
    with p(1) j(2) show ?thesis by (intro exI [of _ "a # p"]) simp
  qed
next
  case (1 d s)
  from "1.prems"(3) show ?case by simp
next
  case (2 d n)
  from "2.prems"(1) show ?case by simp
next
  case (3 d n a)
  from "3.prems"(1) show ?case by simp
qed

lemma trivia_line:
  assumes "has_prefix ''--'' rest"
  shows "trivia d (take (2 + line_bytes (drop 2 rest)) rest)"
proof -
  from assms obtain s where "rest = ''--'' @ s" by (auto simp: has_prefix_iff)
  then show ?thesis using line_bytes_no_newline [of s] by (simp add: trivia_def)
qed

lemma trivia_hash:
  assumes "hash_starts_comment d"
  shows "trivia d (take (Suc (line_bytes cs)) (CHR ''#'' # cs))"
  using assms line_bytes_no_newline [of cs]
  by (simp add: trivia_def reads_mysql_def hash_starts_comment_def)

lemma trivia_block:
  assumes "has_prefix ''/*'' rest" and "comment_bytes d 1 (drop 2 rest) = Some k"
    and "executable_comment_marker d rest = 0"
  shows "trivia d (take (2 + k) rest) \<and> \<not> exec_marker d (take (2 + k) rest)"
proof -
  from assms(1) obtain s where rest: "rest = ''/*'' @ s" by (auto simp: has_prefix_iff)
  then have t: "take (2 + k) rest = ''/*'' @ take k s" by simp
  have "\<not> (reads_mysql d \<and> has_prefix ''/*!'' (take (2 + k) rest))"
    using assms(3) unfolding t
    by (cases k; cases s) (auto simp: rest executable_comment_marker_def reads_mysql_def split: if_splits)
  moreover have "if d = DialectMySQL then flat_comment (take (2 + k) rest)
      else nested_comment (take (2 + k) rest)"
    using comment_bytes_nested [of d 1 s k] comment_bytes_flat [of d 1 s k] assms(2)
    unfolding t flat_comment_def nested_comment_def
    by (auto simp: rest nests_comments_def)
  ultimately show ?thesis unfolding trivia_def exec_marker_def by blast
qed

lemma exec_marker_taken:
  assumes "0 < executable_comment_marker d rest"
  shows "exec_marker d (take (executable_comment_marker d rest) rest)"
proof -
  from assms have d: "reads_mysql d" and p: "has_prefix ''/*!'' rest"
    by (auto simp: executable_comment_marker_def reads_mysql_def split: if_splits)
  from p obtain s where rest: "rest = ''/*!'' @ s" by (auto simp: has_prefix_iff)
  from assms have "executable_comment_marker d rest = 3 + digit_bytes s"
    by (auto simp: executable_comment_marker_def rest split: if_splits)
  with d show ?thesis
    using digit_bytes_digits [of s] by (simp add: rest exec_marker_def numeral_3_eq_3)
qed

text \<open>The number of executable comments open after a piece that is no token; a closing mark
  is dropped only while one is open.\<close>

definition exec_count :: "dialect \<Rightarrow> nat \<Rightarrow> string \<Rightarrow> nat" where
  "exec_count d n p = (if exec_marker d p then Suc n else if p = ''*/'' then n - 1 else n)"

definition dropped_ok :: "dialect \<Rightarrow> nat \<Rightarrow> string \<Rightarrow> bool" where
  "dropped_ok d n p \<longleftrightarrow> trivia d p \<and> (p = ''*/'' \<longrightarrow> 0 < n)"

text \<open>What a turn that emits nothing drops, and the executable comments it leaves open.\<close>

definition step_drops :: "dialect \<Rightarrow> nat \<Rightarrow> string \<Rightarrow> nat \<Rightarrow> bool" where
  "step_drops d exec p exec' \<longleftrightarrow> dropped_ok d exec p \<and> exec' = exec_count d exec p"

lemma plain_dropped:
  assumes "trivia d p" and "\<not> exec_marker d p" and "p \<noteq> ''*/''"
  shows "step_drops d exec p exec"
  using assms by (simp add: step_drops_def dropped_ok_def exec_count_def)

lemma lex_token_emits:
  "lex_token u d depth exec rest c = Inr r \<Longrightarrow> emitted r \<noteq> None \<and> exec_after r = exec"
  by (auto simp: lex_token_def lex_string_def lex_quote_def lex_plain_def Let_def
      split: if_splits option.splits)

lemma lex_step_drops:
  assumes step: "lex_step u d depth exec (c # cs) c = Inr r"
    and mysql: "0 < exec \<Longrightarrow> reads_mysql d"
  shows "if emitted r = None then step_drops d exec (take (consumed r) (c # cs)) (exec_after r)
    else exec_after r = exec"
proof -
  let ?rest = "c # cs" and ?marker = "executable_comment_marker d (c # cs)"
  consider (space) "is_space c"
    | (line) "\<not> is_space c" "has_prefix ''--'' ?rest"
    | (hash) "\<not> is_space c" "\<not> has_prefix ''--'' ?rest" "c = CHR ''#''" "hash_starts_comment d"
    | (block) "\<not> is_space c" "\<not> has_prefix ''--'' ?rest"
        "\<not> (c = CHR ''#'' \<and> hash_starts_comment d)" "has_prefix ''/*'' ?rest"
    | (closing) "\<not> is_space c" "\<not> has_prefix ''--'' ?rest"
        "\<not> (c = CHR ''#'' \<and> hash_starts_comment d)" "\<not> has_prefix ''/*'' ?rest"
        "0 < exec" "has_prefix ''*/'' ?rest"
    | (token) "emitted r \<noteq> None" "exec_after r = exec"
    using step lex_token_emits [of u d depth exec ?rest c r] unfolding lex_step_def
    by (cases "c = CHR ''$''") (auto split: option.splits if_splits)
  then show ?thesis
  proof cases
    case space
    then have "blank [c]" by (simp add: blank_def)
    moreover from this have "\<not> exec_marker d [c]" by (simp add: exec_marker_def)
    ultimately have "step_drops d exec [c] exec" by (intro plain_dropped) (simp_all add: trivia_def)
    with space step show ?thesis by (simp add: lex_step_def)
  next
    case line
    let ?p = "take (2 + line_bytes (drop 2 ?rest)) ?rest"
    from line(2) have "has_prefix ''--'' ?p" by (auto simp: has_prefix_iff)
    then have "\<not> exec_marker d ?p" "?p \<noteq> ''*/''" by (auto simp: exec_marker_def has_prefix_iff)
    with trivia_line [OF line(2)] have "step_drops d exec ?p exec" by (intro plain_dropped)
    with line step show ?thesis by (simp add: lex_step_def del: has_prefix.simps)
  next
    case hash
    let ?p = "take (Suc (line_bytes cs)) (CHR ''#'' # cs)"
    have "\<not> exec_marker d ?p" "?p \<noteq> ''*/''" by (simp_all add: exec_marker_def)
    with trivia_hash [OF hash(4)] have "step_drops d exec ?p exec" by (intro plain_dropped)
    with hash step show ?thesis by (simp add: lex_step_def del: has_prefix.simps)
  next
    case block
    show ?thesis
    proof (cases "0 < ?marker")
      case True
      have "exec_marker d (take ?marker ?rest)" by (rule exec_marker_taken [OF True])
      then have "step_drops d exec (take ?marker ?rest) (Suc exec)"
        by (auto simp: step_drops_def dropped_ok_def exec_count_def trivia_def exec_marker_def)
      moreover from True block step have "consumed r = ?marker" "exec_after r = Suc exec" "emitted r = None"
        by (simp_all add: lex_step_def Let_def del: has_prefix.simps split: if_splits)
      ultimately show ?thesis by simp
    next
      case False
      with block step obtain k where k: "comment_bytes d 1 (drop 2 ?rest) = Some k"
        and r: "consumed r = 2 + k" "exec_after r = exec" "emitted r = None"
        by (auto simp: lex_step_def Let_def simp del: has_prefix.simps split: option.splits)
      let ?p = "take (2 + k) ?rest"
      have "trivia d ?p" "\<not> exec_marker d ?p" using trivia_block [OF block(4) k] False by simp_all
      moreover have "has_prefix ''/*'' ?p" using block(4) by (auto simp: has_prefix_iff)
      then have "?p \<noteq> ''*/''" by (auto simp: has_prefix_iff)
      ultimately have "step_drops d exec ?p exec" by (intro plain_dropped)
      with r show ?thesis by simp
    qed
  next
    case closing
    then have "step_drops d exec ''*/'' (exec - 1)"
      using mysql by (simp add: step_drops_def dropped_ok_def exec_count_def trivia_def exec_marker_def)
    moreover from closing(6) have "take 2 ?rest = ''*/''" by (auto simp: has_prefix_iff)
    ultimately show ?thesis
      using closing step by (simp add: lex_step_def del: has_prefix.simps)
  next
    case token
    then show ?thesis unfolding if_not_P [OF token(1)] by simp
  qed
qed

text \<open>A text in pieces, each flagged as a token or not, from \<open>n\<close> open executable comments on.\<close>

type_synonym pieces = "(bool \<times> string) list"

fun pieces_ok :: "dialect \<Rightarrow> nat \<Rightarrow> pieces \<Rightarrow> bool" where
  "pieces_ok d n [] = True"
| "pieces_ok d n ((token, p) # ps) =
     (if token then pieces_ok d n ps else dropped_ok d n p \<and> pieces_ok d (exec_count d n p) ps)"

definition splits_into :: "dialect \<Rightarrow> nat \<Rightarrow> string \<Rightarrow> Token list \<Rightarrow> pieces \<Rightarrow> bool" where
  "splits_into d n sql ts ps \<longleftrightarrow>
     concat (map snd ps) = sql \<and> map snd (filter fst ps) = map Text ts \<and> pieces_ok d n ps"

lemma exec_count_mysql: "trivia d p \<Longrightarrow> 0 < exec_count d n p \<Longrightarrow> (0 < n \<Longrightarrow> reads_mysql d) \<Longrightarrow> reads_mysql d"
  by (auto simp: exec_count_def exec_marker_def split: if_splits)

lemma lex_loop_pieces:
  "lex_loop u d i depth exec rest = Inr ts \<Longrightarrow> (0 < exec \<Longrightarrow> reads_mysql d) \<Longrightarrow>
     \<exists>ps. splits_into d exec rest ts ps"
proof (induction u d i depth exec rest arbitrary: ts rule: lex_loop.induct)
  case (1 u d i depth exec)
  then have "splits_into d exec [] ts []" by (auto simp: splits_into_def split: if_splits)
  then show ?case by blast
next
  case (2 u d i depth exec c cs)
  then obtain r out where step: "lex_step u d depth exec (c # cs) c = Inr r"
    and rec: "lex_loop u d (i + consumed r) (depth_after r) (exec_after r)
      (drop (consumed r) (c # cs)) = Inr out"
    and ts: "ts = lex_tokens i (c # cs) r @ out"
    by (auto simp: bind_result_Inr split: sum.splits)
  note drops = lex_step_drops [OF step "2.prems"(2)]
  have "reads_mysql d" if "0 < exec_after r"
    using drops that "2.prems"(2)
    by (auto simp: step_drops_def dropped_ok_def dest: exec_count_mysql split: if_splits)
  from "2.IH" [OF step rec this] obtain ps
    where ps: "splits_into d (exec_after r) (drop (consumed r) (c # cs)) out ps" by blast
  let ?p = "(emitted r \<noteq> None, take (consumed r) (c # cs))"
  have "splits_into d exec (c # cs) ts (?p # ps)"
    using ps drops
    by (cases "emitted r") (auto simp: splits_into_def ts lex_tokens_def step_drops_def)
  then show ?case by blast
qed

end
