(* ===== verification/Splitter.thy ===== *)
theory Splitter
  imports Lexer_Correct
begin

section \<open>Splitting a script into statements (splitStatements)\<close>

text \<open>
  A semicolon at parenthesis depth 0 ends a statement, except inside the body of a
  procedure, function, trigger or event definition. The loop of \<open>splitStatements\<close> runs
  over \<open>tokens[index:]\<close> with the variables \<open>start\<close>, \<open>routine\<close>, \<open>depth\<close> and
  \<open>first\<close> of the code.
\<close>

definition next_lower :: "Token list \<Rightarrow> string" where
  "next_lower rest = (case rest of _ # t # _ \<Rightarrow> Lower t | _ \<Rightarrow> [])"

fun routine_scan :: "Token list \<Rightarrow> bool" where
  "routine_scan [] = False"
| "routine_scan (t # ts) =
     (if Depth t \<noteq> 0 then False
      else if Lower t \<in> {''procedure'', ''proc'', ''function'', ''trigger'', ''event''} then True
      else if Lower t \<in> {''table'', ''view'', ''index'', ''unique'', ''schema'', ''database'',
             ''sequence'', ''type'', ''user'', ''role'', ''materialized'', ''temporary'', ''temp'',
             ''extension'', ''as'', ''select''} then False
      else routine_scan ts)"

definition routine_definition :: "Token list \<Rightarrow> bool" where
  "routine_definition tokens =
     (case tokens of
        [] \<Rightarrow> False
      | t # _ \<Rightarrow> if Lower t \<noteq> ''create'' then False else routine_scan (tl (take 16 tokens)))"

record split_state =
  split_start :: nat
  split_routine :: bool
  split_depth :: nat
  split_first :: bool

text \<open>The switch on \<open>case\<close>, \<open>begin\<close> and \<open>end\<close> inside a routine.\<close>

definition block_depth :: "bool \<Rightarrow> nat \<Rightarrow> Token list \<Rightarrow> nat" where
  "block_depth routine depth rest =
     (case rest of
        [] \<Rightarrow> depth
      | t # _ \<Rightarrow>
          (if \<not> (routine \<and> Depth t = 0) then depth
           else if Lower t = ''case'' then Suc depth
           else if Lower t = ''begin'' then
             (if next_lower rest \<notin> {''tran'', ''transaction'', ''distributed'', ''work''}
              then Suc depth else depth)
           else if Lower t = ''end'' then
             (if 0 < depth \<and> next_lower rest \<notin> {''if'', ''loop'', ''while'', ''repeat''}
              then depth - 1 else depth)
           else depth))"

definition substring :: "string \<Rightarrow> nat \<Rightarrow> nat \<Rightarrow> string" where
  "substring s a b = take (b - a) (drop a s)"

definition nonempty_part :: "string \<Rightarrow> string list" where
  "nonempty_part s = (let part = trim_space s in if part \<noteq> [] then [part] else [])"

definition ends_statement :: "Token \<Rightarrow> bool \<Rightarrow> nat \<Rightarrow> bool" where
  "ends_statement t routine depth \<longleftrightarrow>
     Text t = '';'' \<and> Depth t = 0 \<and> (\<not> routine \<or> depth = 0)"

fun split_loop :: "string \<Rightarrow> split_state \<Rightarrow> Token list \<Rightarrow> string list" where
  "split_loop sql st [] = nonempty_part (drop (split_start st) sql)"
| "split_loop sql st (t # ts) =
     (let routine = (if split_first st then routine_definition (t # ts) else split_routine st);
          depth = block_depth routine (split_depth st) (t # ts)
      in if ends_statement t routine depth
         then nonempty_part (substring sql (split_start st) (Start t))
                @ split_loop sql (\<lparr>split_start = End t, split_routine = routine, split_depth = 0,
                                  split_first = True\<rparr>) ts
         else split_loop sql (\<lparr>split_start = split_start st, split_routine = routine,
                              split_depth = depth, split_first = False\<rparr>) ts)"

definition splitStatements :: "unicode \<Rightarrow> dialect \<Rightarrow> string \<Rightarrow> string list result" where
  "splitStatements u d sql =
     bind_result (LexDialect u d sql)
       (\<lambda>tokens. Inr (split_loop sql \<lparr>split_start = 0, split_routine = False, split_depth = 0,
                                      split_first = True\<rparr> tokens))"

subsection \<open>What the split guarantees\<close>

lemma set_nonempty_part: "p \<in> set (nonempty_part s) \<longleftrightarrow> p = trim_space s \<and> p \<noteq> []"
  by (auto simp: nonempty_part_def Let_def)

lemma nonempty_part_length: "length (nonempty_part s) \<le> 1"
  by (simp add: nonempty_part_def Let_def)

text \<open>Every part is the trimmed substring of the script between two positions.\<close>

lemma split_loop_parts:
  assumes "p \<in> set (split_loop sql st ts)"
    and "\<forall>t \<in> set ts. End t \<le> length sql" and "split_start st \<le> length sql"
  shows "p \<noteq> [] \<and> (\<exists>a b. a \<le> length sql \<and> p = trim_space (substring sql a b))"
  using assms
proof (induction sql st ts rule: split_loop.induct)
  case (1 sql st)
  then have "p \<noteq> [] \<and> p = trim_space (substring sql (split_start st) (length sql))"
    by (auto simp: set_nonempty_part substring_def)
  with 1 show ?case by blast
next
  case (2 sql st t ts)
  show ?case
    using "2.prems" "2.IH"
    by (fastforce simp: Let_def set_nonempty_part split: if_splits)
qed

text \<open>Without a routine definition every top-level semicolon ends a statement.\<close>

definition top_semicolons :: "Token list \<Rightarrow> nat" where
  "top_semicolons ts = length (filter (\<lambda>t. Text t = '';'' \<and> Depth t = 0) ts)"

lemma block_depth_no_routine [simp]: "block_depth False n ts = n"
  by (simp add: block_depth_def split: list.splits)

lemma split_loop_length: "length (split_loop sql st ts) \<le> Suc (top_semicolons ts)"
proof (induction sql st ts rule: split_loop.induct)
  case (1 sql st)
  then show ?case using nonempty_part_length by (simp add: top_semicolons_def)
next
  case (2 sql st t ts)
  show ?case
    using "2.IH" nonempty_part_length [of "substring sql (split_start st) (Start t)"]
    by (fastforce simp: Let_def top_semicolons_def ends_statement_def)
qed

lemma split_loop_no_semicolon:
  "top_semicolons ts = 0 \<Longrightarrow> split_loop sql st ts = nonempty_part (drop (split_start st) sql)"
proof (induction sql st ts rule: split_loop.induct)
  case (2 sql st t ts)
  then show ?case
    by (auto simp: Let_def top_semicolons_def ends_statement_def split: if_splits)
qed simp

end
