(* ===== verification/Strconv.thy ===== *)
theory Strconv
  imports Prelude
begin

section \<open>The number parsers of package strconv\<close>

text \<open>
  \<open>strconv.Atoi\<close> and \<open>strconv.ParseFloat\<close> as the components call them. A finite
  \<open>float64\<close> is \<open>m * 2 ^ e\<close>, rounded half to even from the exact decimal or hexadecimal
  value, with the range error above the largest finite one.
\<close>

subsection \<open>Atoi\<close>

definition digit_value :: "char \<Rightarrow> nat" where
  "digit_value c = byte c - byte (CHR ''0'')"

definition digits_value :: "string \<Rightarrow> int" where
  "digits_value s = foldl (\<lambda>n c. 10 * n + int (digit_value c)) 0 s"

definition max_int64 :: int where "max_int64 = 2 ^ 63 - 1"
definition min_int64 :: int where "min_int64 = - (2 ^ 63)"

text \<open>The value returned and whether the error is nil; a range error returns the bound.\<close>

definition atoi :: "string \<Rightarrow> int \<times> bool" where
  "atoi s =
     (let neg = (case s of c # _ \<Rightarrow> c = CHR ''-'' | [] \<Rightarrow> False);
          ds = (case s of c # cs \<Rightarrow> if c = CHR ''-'' \<or> c = CHR ''+'' then cs else s | [] \<Rightarrow> []);
          n = digits_value ds in
      if ds = [] \<or> \<not> list_all is_digit ds then (0, False)
      else if neg then (if - n < min_int64 then (min_int64, False) else (- n, True))
      else if max_int64 < n then (max_int64, False)
      else (n, True))"

lemma digits_value_nonneg: "0 \<le> digits_value s"
proof -
  have "0 \<le> n \<Longrightarrow> 0 \<le> foldl (\<lambda>n c. 10 * n + int (digit_value c)) n s" for n
    by (induction s arbitrary: n) auto
  then show ?thesis by (simp add: digits_value_def)
qed

lemma atoi_range: "min_int64 \<le> fst (atoi s) \<and> fst (atoi s) \<le> max_int64"
  using digits_value_nonneg [of s] digits_value_nonneg [of "tl s"]
  by (auto simp: atoi_def Let_def min_int64_def max_int64_def split: list.splits)

subsection \<open>Rounding to float64\<close>

datatype go_float = FNaN | FInf bool | FFin int int

fun bit_count :: "int \<Rightarrow> int" where
  "bit_count n = (if n \<le> 0 then 0 else 1 + bit_count (n div 2))"

declare bit_count.simps [simp del]

definition round_div :: "int \<Rightarrow> int \<Rightarrow> int" where
  "round_div a b =
     (let q = a div b; r = a mod b in
      if b < 2 * r \<or> 2 * r = b \<and> odd q then q + 1 else q)"

text \<open>\<open>scaled a b e\<close> is the fraction \<open>a / (b * 2 ^ e)\<close> as numerator and denominator.\<close>

definition scaled :: "int \<Rightarrow> int \<Rightarrow> int \<Rightarrow> int \<times> int" where
  "scaled a b e = (if 0 \<le> e then (a, b * 2 ^ nat e) else (a * 2 ^ nat (- e), b))"

definition round_fraction :: "int \<Rightarrow> int \<Rightarrow> int \<times> int" where
  "round_fraction a b =
     (if a = 0 then (0, 0)
      else
        (let e0 = bit_count a - bit_count b - 53;
             e1 = (case scaled a b e0 of (x, y) \<Rightarrow> if 2 ^ 53 \<le> x div y then e0 + 1 else e0);
             e = max e1 (- 1074)
         in (case scaled a b e of (x, y) \<Rightarrow> (round_div x y, e))))"

definition float_of_fraction :: "bool \<Rightarrow> int \<Rightarrow> int \<Rightarrow> go_float option" where
  "float_of_fraction neg a b =
     (case round_fraction a b of (m, e) \<Rightarrow>
        if 1024 < bit_count m + e then None
        else Some (FFin (if neg then - m else m) e))"

definition fin_less :: "int \<Rightarrow> int \<Rightarrow> int \<Rightarrow> int \<Rightarrow> bool" where
  "fin_less m1 e1 m2 e2 \<longleftrightarrow>
     (let e = min e1 e2 in m1 * 2 ^ nat (e1 - e) < m2 * 2 ^ nat (e2 - e))"

fun float_less :: "go_float \<Rightarrow> go_float \<Rightarrow> bool" where
  "float_less FNaN y = False"
| "float_less x FNaN = False"
| "float_less (FInf n1) (FInf n2) = (n1 \<and> \<not> n2)"
| "float_less (FInf n) (FFin m e) = n"
| "float_less (FFin m e) (FInf n) = (\<not> n)"
| "float_less (FFin m1 e1) (FFin m2 e2) = fin_less m1 e1 m2 e2"

fun float_le :: "go_float \<Rightarrow> go_float \<Rightarrow> bool" where
  "float_le FNaN y = False"
| "float_le x FNaN = False"
| "float_le x y = (\<not> float_less y x)"

subsection \<open>ParseFloat\<close>

definition is_hex_letter :: "char \<Rightarrow> bool" where
  "is_hex_letter c \<longleftrightarrow> byte_in (CHR ''a'') (CHR ''f'') (lower_byte c)"

definition hex_value :: "char \<Rightarrow> nat" where
  "hex_value c = (if is_digit c then digit_value c else byte (lower_byte c) - byte (CHR ''a'') + 10)"

record mantissa =
  mant :: int
  frac_digits :: nat
  saw_dot :: bool
  saw_digits :: bool
  underscores :: bool

fun scan_mantissa :: "bool \<Rightarrow> mantissa \<Rightarrow> string \<Rightarrow> mantissa \<times> string" where
  "scan_mantissa hex st [] = (st, [])"
| "scan_mantissa hex st (c # cs) =
     (if c = CHR ''_'' then scan_mantissa hex (st\<lparr>underscores := True\<rparr>) cs
      else if c = CHR ''.'' then
        (if saw_dot st then (st, c # cs) else scan_mantissa hex (st\<lparr>saw_dot := True\<rparr>) cs)
      else if is_digit c \<or> hex \<and> is_hex_letter c then
        scan_mantissa hex
          (st\<lparr>mant := mant st * (if hex then 16 else 10) + int (hex_value c),
              frac_digits := (if saw_dot st then Suc (frac_digits st) else frac_digits st),
              saw_digits := True\<rparr>) cs
      else (st, c # cs))"

fun scan_exponent :: "int \<Rightarrow> bool \<Rightarrow> string \<Rightarrow> int \<times> bool \<times> string" where
  "scan_exponent e us [] = (e, us, [])"
| "scan_exponent e us (c # cs) =
     (if c = CHR ''_'' then scan_exponent e True cs
      else if is_digit c then
        scan_exponent (if e < 10000 then 10 * e + int (digit_value c) else e) us cs
      else (e, us, c # cs))"

text \<open>\<open>underscoreOK\<close>: \<open>saw\<close> is the class of the byte before.\<close>

fun underscore_loop :: "bool \<Rightarrow> char \<Rightarrow> string \<Rightarrow> bool" where
  "underscore_loop hex saw [] = (saw \<noteq> CHR ''_'')"
| "underscore_loop hex saw (c # cs) =
     (if is_digit c \<or> hex \<and> is_hex_letter c then underscore_loop hex (CHR ''0'') cs
      else if c = CHR ''_'' then (saw = CHR ''0'' \<and> underscore_loop hex (CHR ''_'') cs)
      else saw \<noteq> CHR ''_'' \<and> underscore_loop hex (CHR ''!'') cs)"

definition drop_sign :: "string \<Rightarrow> string" where
  "drop_sign s = (case s of c # cs \<Rightarrow> if c = CHR ''-'' \<or> c = CHR ''+'' then cs else s | [] \<Rightarrow> [])"

definition base_prefixed :: "string \<Rightarrow> bool" where
  "base_prefixed s =
     (case s of a # b # _ \<Rightarrow> a = CHR ''0'' \<and> lower_byte b \<in> {CHR ''b'', CHR ''o'', CHR ''x''}
      | _ \<Rightarrow> False)"

definition hex_prefixed :: "string \<Rightarrow> bool" where
  "hex_prefixed s = (case s of a # b # _ \<Rightarrow> a = CHR ''0'' \<and> lower_byte b = CHR ''x'' | _ \<Rightarrow> False)"

definition underscore_ok :: "string \<Rightarrow> bool" where
  "underscore_ok s =
     (let t = drop_sign s in
      if base_prefixed t then underscore_loop (hex_prefixed t) (CHR ''0'') (drop 2 t)
      else underscore_loop False (CHR ''^'') t)"

definition exponent_part :: "char \<Rightarrow> string \<Rightarrow> (int \<times> bool) option" where
  "exponent_part mark s =
     (case s of
        [] \<Rightarrow> Some (0, False)
      | c # cs \<Rightarrow>
          (if lower_byte c \<noteq> mark then None
           else
             (let neg = (case cs of a # _ \<Rightarrow> a = CHR ''-'' | [] \<Rightarrow> False); ds = drop_sign cs in
              (case ds of
                 [] \<Rightarrow> None
               | a # _ \<Rightarrow>
                   (if \<not> is_digit a then None
                    else (case scan_exponent 0 False ds of (e, us, rest) \<Rightarrow>
                            if rest \<noteq> [] then None
                            else Some ((if neg then - e else e), us)))))))"

definition special_float :: "string \<Rightarrow> go_float option" where
  "special_float s =
     (let l = map lower_byte s; t = drop_sign l;
          neg = (case s of c # _ \<Rightarrow> c = CHR ''-'' | [] \<Rightarrow> False) in
      if l = ''nan'' then Some FNaN
      else if t = ''inf'' \<or> t = ''infinity'' then Some (FInf neg)
      else None)"

definition parse_float :: "string \<Rightarrow> go_float option" where
  "parse_float s =
     (case special_float s of
        Some x \<Rightarrow> Some x
      | None \<Rightarrow>
          (let neg = (case s of c # _ \<Rightarrow> c = CHR ''-'' | [] \<Rightarrow> False);
               t = drop_sign s;
               hex = hex_prefixed t \<and> 2 < length t;
               st0 = \<lparr>mant = 0, frac_digits = 0, saw_dot = False, saw_digits = False,
                      underscores = False\<rparr>
           in (case scan_mantissa hex st0 (if hex then drop 2 t else t) of (st, rest) \<Rightarrow>
             if \<not> saw_digits st \<or> hex \<and> rest = [] then None
             else (case exponent_part (if hex then CHR ''p'' else CHR ''e'') rest of
                None \<Rightarrow> None
              | Some (e, us) \<Rightarrow>
                  (if (underscores st \<or> us) \<and> \<not> underscore_ok s then None
                   else if mant st = 0 then Some (FFin 0 0)
                   else if hex then
                     (let k = e - 4 * int (frac_digits st) in
                      float_of_fraction neg (mant st * 2 ^ nat k) (2 ^ nat (- k)))
                   else
                     (let k = e - int (frac_digits st) in
                      float_of_fraction neg (mant st * 10 ^ nat k) (10 ^ nat (- k))))))))"

end
