(* ===== verification/Constant.thy ===== *)
theory Constant
  imports Lexer Strconv
begin

section \<open>Constant conditions (constantBoolean and the tautology tests)\<close>

text \<open>
  \<open>constantBoolean\<close> decides whether a condition has the same value on every row. The Go
  loop over an operator cuts the tokens at the operator's occurrences at the depth of the
  first token and evaluates every part; here \<open>cut_at\<close> gives the parts and
  \<open>fold_known\<close> runs the body of the loop over their results, with its early returns.
\<close>

definition wraps_all :: "Token list \<Rightarrow> bool" where
  "wraps_all ts =
     (if length ts < 2 \<or> Text (hd ts) \<noteq> ''('' \<or> Text (last ts) \<noteq> '')''
         \<or> Depth (hd ts) \<noteq> Depth (last ts) then False
      else list_all (\<lambda>t. Depth (hd ts) < Depth t) (butlast (tl ts)))"

lemma length_inner [simp]: "length (butlast (tl ts)) = length ts - 2"
  by (cases ts) simp_all

lemma wraps_all_length: "wraps_all ts \<Longrightarrow> 2 \<le> length ts"
  by (simp add: wraps_all_def split: if_splits)

function strip_wraps :: "Token list \<Rightarrow> Token list" where
  "strip_wraps ts = (if wraps_all ts then strip_wraps (butlast (tl ts)) else ts)"
  by pat_completeness auto
termination
  by (relation "measure length") (auto dest: wraps_all_length)

declare strip_wraps.simps [simp del]

lemma strip_wraps_length: "length (strip_wraps ts) \<le> length ts"
proof (induction ts rule: strip_wraps.induct)
  case (1 ts)
  then show ?case by (subst strip_wraps.simps) fastforce
qed

definition literal_token :: "string \<Rightarrow> bool" where
  "literal_token text \<longleftrightarrow>
     parse_float text \<noteq> None \<or> has_prefix [CHR 0x27] text
     \<or> has_prefix [CHR ''N'', CHR 0x27] text \<or> has_prefix [CHR ''n'', CHR 0x27] text"

text \<open>The parts between the occurrences of the operator at one depth.\<close>

fun cut_at :: "string \<Rightarrow> nat \<Rightarrow> Token list \<Rightarrow> Token list list" where
  "cut_at op depth [] = [[]]"
| "cut_at op depth (t # ts) =
     (if Depth t = depth \<and> keyword t op then [] # cut_at op depth ts
      else (case cut_at op depth ts of [] \<Rightarrow> [[t]] | p # ps \<Rightarrow> (t # p) # ps))"

lemma cut_at_nonempty: "cut_at op depth ts \<noteq> []"
  by (induction ts) (auto split: list.splits)

lemma cut_at_total: "length (cut_at op depth ts) + sum_list (map length (cut_at op depth ts)) = Suc (length ts)"
  by (induction ts) (auto split: list.splits simp: cut_at_nonempty)

lemma cut_at_shorter:
  assumes "p \<in> set (cut_at op depth ts)" and "1 < length (cut_at op depth ts)"
  shows "length p < length ts"
proof -
  have "length p \<le> sum_list (map length (cut_at op depth ts))"
    using assms(1) by (simp add: member_le_sum_list)
  with cut_at_total [of op depth ts] assms(2) show ?thesis by simp
qed

text \<open>The loop body over the parts: \<open>all_known\<close>, \<open>result\<close> and the early returns.\<close>

fun fold_known :: "string \<Rightarrow> bool \<Rightarrow> bool \<Rightarrow> (bool \<times> bool) list \<Rightarrow> bool \<times> bool" where
  "fold_known op all_known result [] = (if all_known then (True, result) else (False, False))"
| "fold_known op all_known result ((known, value) # rest) =
     (if known \<and> op = ''or'' \<and> value then (True, True)
      else if known \<and> op = ''and'' \<and> \<not> value then (True, False)
      else fold_known op (all_known \<and> known)
             (result \<and> value \<or> op = ''or'' \<and> (result \<or> value)) rest)"

definition compare_three :: "unicode \<Rightarrow> string \<Rightarrow> string \<Rightarrow> string \<Rightarrow> bool \<times> bool" where
  "compare_three u left op right =
     (if op = ''='' then
        (if equal_fold u left right then (True, True)
         else if literal_token left \<and> literal_token right then (True, False)
         else (False, False))
      else (case (parse_float left, parse_float right) of
              (Some l, Some r) \<Rightarrow>
                (if op = ''>'' then (True, float_less r l)
                 else if op = ''<'' then (True, float_less l r)
                 else (False, False))
            | _ \<Rightarrow> (False, False)))"

definition compare_four :: "unicode \<Rightarrow> string \<Rightarrow> string \<Rightarrow> string \<Rightarrow> bool \<times> bool" where
  "compare_four u left op right =
     (if op \<in> {''!='', ''<>''} then
        (if equal_fold u left right then (True, False)
         else if literal_token left \<and> literal_token right then (True, True)
         else (False, False))
      else if op \<in> {''<='', ''>=''} then
        (case (parse_float left, parse_float right) of
           (Some l, Some r) \<Rightarrow> (True, op = ''<='' \<and> float_le l r \<or> op = ''>='' \<and> float_le r l)
         | _ \<Rightarrow> (False, False))
      else (False, False))"

definition constant_atom :: "unicode \<Rightarrow> Token list \<Rightarrow> bool \<times> bool" where
  "constant_atom u ts =
     (case ts of
        [a, b, c] \<Rightarrow> compare_three u (Text a) (Text b) (Text c)
      | [a, b, c, e] \<Rightarrow> compare_four u (Text a) (Text b @ Text c) (Text e)
      | _ \<Rightarrow> (False, False))"

function constant_boolean :: "unicode \<Rightarrow> Token list \<Rightarrow> bool \<times> bool" where
  "constant_boolean u ts0 =
     (let ts = strip_wraps ts0 in
      case ts of
        [] \<Rightarrow> (False, False)
      | t # rest \<Rightarrow>
          (let ors = cut_at ''or'' (Depth t) ts; ands = cut_at ''and'' (Depth t) ts in
           if 1 < length ors then fold_known ''or'' True False (map (constant_boolean u) ors)
           else if 1 < length ands then fold_known ''and'' True True (map (constant_boolean u) ands)
           else if rest = [] \<and> \<not> Quoted t \<and> Lower t = ''true'' then (True, True)
           else if rest = [] \<and> \<not> Quoted t \<and> Lower t = ''false'' then (True, False)
           else if rest \<noteq> [] \<and> keyword t ''not'' then
             (case constant_boolean u rest of (known, value) \<Rightarrow> (known, \<not> value))
           else constant_atom u ts))"
  by pat_completeness auto
termination
proof (relation "measure (\<lambda>(u, ts). length ts)", goal_cases)
  case 1
  show ?case by simp
next
  case (2 u ts0 ts t rest ors ands p)
  with strip_wraps_length [of ts0] cut_at_shorter [of p "''or''" "Depth t" ts] show ?case by simp
next
  case (3 u ts0 ts t rest ors ands p)
  with strip_wraps_length [of ts0] cut_at_shorter [of p "''and''" "Depth t" ts] show ?case by simp
next
  case (4 u ts0 ts t rest ors ands)
  then have "length (t # rest) \<le> length ts0" using strip_wraps_length [of ts0] by metis
  then show ?case by simp
qed

declare constant_boolean.simps [simp del]

subsection \<open>The tautology tests\<close>

text \<open>\<open>whereIsTautology\<close>: the expression after the first top-level WHERE.\<close>

fun after_where :: "Token list \<Rightarrow> Token list" where
  "after_where [] = []"
| "after_where (t # ts) = (if keyword t ''where'' \<and> Depth t = 0 then ts else after_where ts)"

fun until_clause :: "Token list \<Rightarrow> Token list" where
  "until_clause [] = []"
| "until_clause (t # ts) =
     (if Depth t = 0 \<and> reserved_word t \<and> Lower t \<noteq> ''where'' then [] else t # until_clause ts)"

definition where_is_tautology :: "unicode \<Rightarrow> Token list \<Rightarrow> bool" where
  "where_is_tautology u ts =
     (case constant_boolean u (until_clause (after_where ts)) of (known, value) \<Rightarrow> known \<and> value)"

fun until_depth :: "nat \<Rightarrow> Token list \<Rightarrow> Token list" where
  "until_depth depth [] = []"
| "until_depth depth (t # ts) =
     (if Depth t < depth \<or> Depth t = depth \<and> reserved_word t then [] else t # until_depth depth ts)"

definition where_at_depth_is_tautology :: "unicode \<Rightarrow> Token list \<Rightarrow> nat \<Rightarrow> bool" where
  "where_at_depth_is_tautology u ts depth =
     (case constant_boolean u (until_depth depth ts) of (known, value) \<Rightarrow> known \<and> value)"

text \<open>The tokens after the WHERE of a verb at \<open>depth\<close>, if it has one.\<close>

fun find_where :: "nat \<Rightarrow> Token list \<Rightarrow> Token list option" where
  "find_where depth [] = None"
| "find_where depth (t # ts) =
     (if Depth t < depth then None
      else if Depth t = depth \<and> keyword t ''where'' then Some ts
      else find_where depth ts)"

definition write_verb :: "Token \<Rightarrow> bool" where
  "write_verb t \<longleftrightarrow> keyword t ''update'' \<or> keyword t ''merge'' \<or> keyword t ''delete''"

text \<open>\<open>after_for\<close> says that the token before is the keyword FOR.\<close>

fun effective_where_loop :: "unicode \<Rightarrow> bool \<Rightarrow> bool \<Rightarrow> Token list \<Rightarrow> bool" where
  "effective_where_loop u found after_for [] = found"
| "effective_where_loop u found after_for (t # ts) =
     (if \<not> write_verb t \<or> after_for then effective_where_loop u found (keyword t ''for'') ts
      else (case find_where (Depth t) ts of
              None \<Rightarrow> False
            | Some rest \<Rightarrow>
                (if where_at_depth_is_tautology u rest (Depth t) then False
                 else effective_where_loop u True (keyword t ''for'') ts)))"

definition writes_have_effective_where :: "unicode \<Rightarrow> Token list \<Rightarrow> bool" where
  "writes_have_effective_where u ts = effective_where_loop u False False ts"

end
