(* ===== verification/Classify.thy ===== *)
theory Classify
  imports Splitter Constant
begin

section \<open>The security IR and the classification of one statement (sqlguard/parser.go)\<close>

text \<open>
  \<open>Info\<close> is what every later check reads: the kind of the statement, its tables and its
  flags. The definitions below follow the functions of the source one by one; a Go function
  that returns \<open>(Info, error)\<close> gives a pair here, since callers read the \<open>Info\<close> of an
  error too.
\<close>

subsection \<open>Kinds and Info\<close>

datatype kind = Select | Insert | Update | Delete | DDL | Session | Other | Unknown | Multi | NoKind

fun kind_string :: "kind \<Rightarrow> string" where
  "kind_string Select = ''select''"
| "kind_string Insert = ''insert''"
| "kind_string Update = ''update''"
| "kind_string Delete = ''delete''"
| "kind_string DDL = ''ddl''"
| "kind_string Session = ''session''"
| "kind_string Other = ''other''"
| "kind_string Unknown = ''unknown''"
| "kind_string Multi = ''multi''"
| "kind_string NoKind = []"

record TableRef =
  Schema :: string
  Name :: string
  Alias :: string

record Info =
  Dialect :: dialect
  Kind :: kind
  Command :: kind
  Tables :: "TableRef list"
  HasWhere :: bool
  IsDrop :: bool
  IsTruncate :: bool
  TouchesSession :: bool
  ControlsTransaction :: bool
  SwitchesDatabase :: bool
  IsScript :: bool
  Unscoped :: "kind list"
  Raw :: string
  Tokens :: "Token list"

definition zero_info :: "dialect \<Rightarrow> string \<Rightarrow> Info" where
  "zero_info d raw = \<lparr>Dialect = d, Kind = NoKind, Command = NoKind, Tables = [], HasWhere = False,
     IsDrop = False, IsTruncate = False, TouchesSession = False, ControlsTransaction = False,
     SwitchesDatabase = False, IsScript = False, Unscoped = [], Raw = raw, Tokens = []\<rparr>"

definition unknown_info :: "dialect \<Rightarrow> string \<Rightarrow> Info" where
  "unknown_info d raw = (zero_info d raw)\<lparr>Kind := Unknown\<rparr>"

definition lacks_where :: "Info \<Rightarrow> kind \<Rightarrow> bool" where
  "lacks_where i k \<longleftrightarrow> Kind i = k \<and> \<not> HasWhere i \<or> k \<in> set (Unscoped i)"

definition is_write :: "kind \<Rightarrow> bool" where
  "is_write k \<longleftrightarrow> k = Insert \<or> k = Update \<or> k = Delete \<or> k = DDL"

subsection \<open>Kinds of single words\<close>

definition token_kind :: "string \<Rightarrow> kind option" where
  "token_kind w =
     (if w \<in> {''select'', ''values'', ''table''} then Some Select
      else if w \<in> {''insert'', ''replace'', ''upsert''} then Some Insert
      else if w \<in> {''update'', ''merge''} then Some Update
      else if w = ''delete'' then Some Delete
      else None)"

text \<open>\<open>classifyWith\<close>: \<open>prev\<close> is the lower-cased word before the current token.\<close>

fun with_loop :: "string \<Rightarrow> kind \<Rightarrow> kind \<Rightarrow> Token list \<Rightarrow> kind \<times> kind" where
  "with_loop prev command risk [] = (if risk = Select then command else risk, command)"
| "with_loop prev command risk (t # ts) =
     (if prev = ''for'' then with_loop (Lower t) command risk ts
      else (case token_kind (Lower t) of
              None \<Rightarrow> with_loop (Lower t) command risk ts
            | Some k \<Rightarrow>
                with_loop (Lower t) (if Depth t = 0 then k else command)
                  (if k = Insert \<or> k = Update \<or> k = Delete then k else risk) ts))"

definition classify_with :: "Token list \<Rightarrow> kind \<times> kind" where
  "classify_with tokens =
     (case tokens of [] \<Rightarrow> (Select, Select) | t # ts \<Rightarrow> with_loop (Lower t) Select Select ts)"

definition explain_runs :: "Token list \<Rightarrow> bool" where
  "explain_runs tokens = list_ex (\<lambda>t. keyword t ''analyze'' \<or> keyword t ''analyse'') (tl tokens)"

definition block_rank :: "kind \<Rightarrow> nat" where
  "block_rank k = (case k of Select \<Rightarrow> 1 | Insert \<Rightarrow> 2 | Update \<Rightarrow> 2 | Delete \<Rightarrow> 2 | DDL \<Rightarrow> 3 | _ \<Rightarrow> 0)"

definition block_ddl_words :: "string set" where
  "block_ddl_words = {''create'', ''alter'', ''grant'', ''revoke'', ''exec'', ''execute'', ''call'',
     ''backup'', ''restore'', ''rename''}"

text \<open>The body of the loop of \<open>classifyBlock\<close>.\<close>

definition block_step :: "Info \<Rightarrow> Token \<Rightarrow> Info" where
  "block_step info t =
     (let w = Lower t;
          op = (case token_kind w of
                  Some k \<Rightarrow> Some k
                | None \<Rightarrow>
                    (if w = ''drop'' \<or> w = ''truncate'' \<or> w \<in> block_ddl_words then Some DDL else None));
          info1 = (if w = ''drop'' then info\<lparr>IsDrop := True\<rparr>
                   else if w = ''truncate'' then info\<lparr>IsTruncate := True\<rparr> else info)
      in case op of
           None \<Rightarrow> info1
         | Some k \<Rightarrow>
             (if block_rank (Kind info1) < block_rank k
              then info1\<lparr>Kind := k, Command := k\<rparr> else info1))"

definition classify_block :: "Info \<Rightarrow> Info" where
  "classify_block info =
     foldl block_step (info\<lparr>Kind := Session, Command := Session\<rparr>) (tl (Tokens info))"

subsection \<open>Session effects\<close>

definition session_state_verbs :: "string set" where
  "session_state_verbs = {''set'', ''declare'', ''open'', ''close'', ''deallocate'', ''fetch'',
     ''print'', ''raiserror'', ''throw'', ''waitfor'', ''listen'', ''unlisten'', ''prepare'',
     ''discard'', ''reset''}"

definition transaction_verbs :: "string set" where
  "transaction_verbs = {''commit'', ''rollback'', ''savepoint'', ''release''}"

text \<open>The loop over the tokens of \<open>markSessionEffects\<close>; \<open>first\<close> marks index 0.\<close>

fun temporary_loop :: "string \<Rightarrow> bool \<Rightarrow> Token list \<Rightarrow> bool" where
  "temporary_loop verb first [] = False"
| "temporary_loop verb first (t # ts) =
     (if Quoted t then temporary_loop verb False ts
      else if has_prefix ''#'' (Lower t) then True
      else if Lower t \<in> {''temporary'', ''temp''} \<and> \<not> first
          \<and> verb \<in> {''create'', ''drop'', ''declare''} then True
      else temporary_loop verb False ts)"

definition mark_session_effects :: "Info \<Rightarrow> Info" where
  "mark_session_effects info =
     (case Tokens info of
        [] \<Rightarrow> info
      | t # ts \<Rightarrow>
          (if Quoted t then info
           else
             (let w = Lower t; next = next_lower (t # ts);
                  info1 =
                    (if w \<in> transaction_verbs then info\<lparr>ControlsTransaction := True\<rparr>
                     else if w = ''start'' \<or> w = ''begin'' then
                       (if next \<in> {''transaction'', ''tran'', ''work'', []}
                           \<or> next \<in> {''isolation'', ''deferrable'', ''read'', ''not''}
                        then info\<lparr>ControlsTransaction := True\<rparr> else info)
                     else if w = ''use'' then info\<lparr>SwitchesDatabase := True\<rparr>
                     else info)
              in if w \<in> session_state_verbs \<or> temporary_loop w True (t # ts)
                 then info1\<lparr>TouchesSession := True\<rparr> else info1)))"

subsection \<open>Tables\<close>

fun qualified_parts :: "string list \<Rightarrow> Token list \<Rightarrow> string list \<times> Token list" where
  "qualified_parts parts (dot # t # ts) =
     (if Text dot = ''.'' \<and> Identifier t then qualified_parts (parts @ [Lower t]) ts
      else (parts, dot # t # ts))"
| "qualified_parts parts ts = (parts, ts)"

text \<open>The reference that starts at \<open>tokens[j:]\<close>, lines 1145 to 1163.\<close>

definition table_ref :: "Token list \<Rightarrow> TableRef option" where
  "table_ref tokens =
     (case tokens of
        [] \<Rightarrow> None
      | t # ts \<Rightarrow>
          (if Text t = ''('' \<or> \<not> Identifier t then None
           else
             (case qualified_parts [Lower t] ts of (parts, rest) \<Rightarrow>
               (let rest1 = (case rest of a # as \<Rightarrow> if Lower a = ''as'' then as else rest | [] \<Rightarrow> []);
                    alias = (case rest1 of
                               a # _ \<Rightarrow> if Identifier a \<and> Lower a \<notin> reserved then Lower a else []
                             | [] \<Rightarrow> [])
                in Some \<lparr>Schema = (if 1 < length parts then parts ! (length parts - 2) else []),
                         Name = last parts, Alias = alias\<rparr>))))"

definition table_key :: "TableRef \<Rightarrow> string" where
  "table_key r = Schema r @ ''.'' @ Name r @ ''.'' @ Alias r"

text \<open>The word at index i introduces a table: \<open>prev\<close> is \<open>tokens[i-1]\<close>, \<open>ts\<close> what follows.\<close>

definition introduces_table :: "Token option \<Rightarrow> Token \<Rightarrow> Token list \<Rightarrow> bool" where
  "introduces_table prev t ts =
     (let w = Lower t; nxt = (case ts of n # _ \<Rightarrow> Some n | [] \<Rightarrow> None) in
      if w = ''delete'' \<and> (case nxt of Some n \<Rightarrow> Lower n = ''from'' | None \<Rightarrow> False) then False
      else if w = ''update'' \<and> (case prev of Some p \<Rightarrow> keyword p ''key'' | None \<Rightarrow> False) then False
      else if w = ''into'' \<and> (case nxt of
                 Some n \<Rightarrow> keyword n ''outfile'' \<or> keyword n ''dumpfile'' | None \<Rightarrow> False) then False
      else w \<in> {''from'', ''join'', ''update'', ''into'', ''truncate''}
             \<or> prev = None \<and> w = ''table'')"

definition after_table_word :: "Token \<Rightarrow> Token list \<Rightarrow> Token list" where
  "after_table_word t ts =
     (case ts of n # ns \<Rightarrow> if Lower n = ''table'' \<and> Lower t \<noteq> ''table'' then ns else ts | [] \<Rightarrow> [])"

fun extract_loop :: "Token option \<Rightarrow> string list \<Rightarrow> Token list \<Rightarrow> TableRef list" where
  "extract_loop prev seen [] = []"
| "extract_loop prev seen (t # ts) =
     (if introduces_table prev t ts then
        (case table_ref (after_table_word t ts) of
           None \<Rightarrow> extract_loop (Some t) seen ts
         | Some r \<Rightarrow>
             (if table_key r \<in> set seen then extract_loop (Some t) seen ts
              else r # extract_loop (Some t) (table_key r # seen) ts))
      else extract_loop (Some t) seen ts)"

definition extract_tables :: "Token list \<Rightarrow> TableRef list" where
  "extract_tables tokens = extract_loop None [] tokens"

subsection \<open>Writes that hide behind another verb\<close>

fun into_loop :: "Token list \<Rightarrow> bool" where
  "into_loop (t # n # ts) =
     (if keyword t ''into'' \<and> Depth t = 0 then \<not> has_prefix ''@'' (Text n)
      else into_loop (n # ts))"
| "into_loop _ = False"

definition select_creates_something :: "Info \<Rightarrow> bool" where
  "select_creates_something info = (if Kind info \<noteq> Select then False else into_loop (Tokens info))"

fun target_loop :: "kind \<Rightarrow> Token list \<Rightarrow> string" where
  "target_loop k (t # n # ts) =
     (if Lower t = ''into'' \<or> Lower t = ''update'' \<or> Lower t = ''from'' \<and> k = Delete then Text n
      else target_loop k (n # ts))"
| "target_loop k _ = []"

definition writes_only_to_a_table_variable :: "Info \<Rightarrow> bool" where
  "writes_only_to_a_table_variable info =
     (if Tables info \<noteq> [] \<or> Kind info \<noteq> Insert \<and> Kind info \<noteq> Update \<and> Kind info \<noteq> Delete
      then False
      else has_prefix ''@'' (target_loop (Kind info) (Tokens info)))"

definition dangerous_words :: "string set" where
  "dangerous_words = {''into'', ''insert'', ''update'', ''delete'', ''merge'', ''lock'', ''nextval'',
     ''setval'', ''pg_advisory_lock'', ''get_lock'', ''release_lock'', ''openrowset'',
     ''opendatasource''}"

fun secondary_loop :: "Token list \<Rightarrow> bool" where
  "secondary_loop [] = True"
| "secondary_loop (t # ts) =
     (if Lower t \<in> dangerous_words then False
      else if Lower t = ''for'' \<and> (case ts of n # _ \<Rightarrow> Lower n \<in> {''update'', ''share''} | [] \<Rightarrow> False)
        then False
      else secondary_loop ts)"

definition secondary_safe :: "Info \<Rightarrow> bool" where
  "secondary_safe info = (if Kind info \<noteq> Select then False else secondary_loop (Tokens info))"

end
