(* ===== verification/Statement.thy ===== *)
theory Statement
  imports Classify
begin

section \<open>One statement, or a script read as one (classifyStatement, mergeScript)\<close>

subsection \<open>classifyStatement\<close>

definition session_words :: "string set" where
  "session_words = {''use'', ''start'', ''commit'', ''rollback'', ''savepoint'', ''release'',
     ''discard'', ''declare'', ''print'', ''open'', ''close'', ''deallocate'', ''throw'',
     ''raiserror'', ''return'', ''break'', ''continue'', ''goto'', ''go'', ''listen'',
     ''unlisten'', ''notify''}"

definition ddl_words :: "string set" where
  "ddl_words = {''create'', ''alter'', ''rename'', ''comment'', ''grant'', ''revoke'', ''call'',
     ''copy'', ''execute'', ''exec'', ''vacuum'', ''analyze'', ''attach'', ''detach'', ''do'',
     ''load'', ''bulk'', ''optimize'', ''system'', ''kill'', ''put'', ''get'', ''remove'',
     ''undrop'', ''refresh'', ''reindex'', ''cluster'', ''dbcc'', ''backup'', ''restore'',
     ''checkpoint'', ''shutdown'', ''reconfigure'', ''flush'', ''reset'', ''lock'', ''unlock'',
     ''repair'', ''install'', ''uninstall''}"

text \<open>The switch on the first word, lines 292 to 351.\<close>

definition classify_first :: "Info \<Rightarrow> Info" where
  "classify_first info =
     (let tokens = Tokens info; first = (case tokens of t # _ \<Rightarrow> Lower t | [] \<Rightarrow> []) in
      if first \<in> {''select'', ''values'', ''table'', ''show'', ''describe'', ''desc'', ''pragma'',
                  ''fetch''} then info\<lparr>Kind := Select\<rparr>
      else if first = ''explain'' then
        (if explain_runs tokens then classify_block (info\<lparr>Kind := Select\<rparr>)
         else info\<lparr>Kind := Select\<rparr>)
      else if first = ''with'' then
        (case classify_with tokens of (k, c) \<Rightarrow> info\<lparr>Kind := k, Command := c\<rparr>)
      else if first \<in> {''insert'', ''replace'', ''upsert''} then info\<lparr>Kind := Insert\<rparr>
      else if first \<in> {''update'', ''merge''} then info\<lparr>Kind := Update\<rparr>
      else if first = ''delete'' then info\<lparr>Kind := Delete\<rparr>
      else if first = ''drop'' then info\<lparr>Kind := DDL, IsDrop := True\<rparr>
      else if first = ''truncate'' then info\<lparr>Kind := DDL, IsTruncate := True\<rparr>
      else if first \<in> {''begin'', ''if'', ''while'', ''else''} then classify_block info
      else if first = ''set'' then
        (if next_lower tokens \<in> {''global'', ''persist'', ''persist_only''}
         then info\<lparr>Kind := DDL\<rparr> else info\<lparr>Kind := Session\<rparr>)
      else if first \<in> session_words then info\<lparr>Kind := Session\<rparr>
      else if first \<in> ddl_words then info\<lparr>Kind := DDL\<rparr>
      else info\<lparr>Kind := Other\<rparr>)"

definition default_command :: "Info \<Rightarrow> Info" where
  "default_command info = (if Command info = NoKind then info\<lparr>Command := Kind info\<rparr> else info)"

definition top_level_where :: "Token list \<Rightarrow> bool" where
  "top_level_where tokens = list_ex (\<lambda>t. Depth t = 0 \<and> keyword t ''where'') tokens"

text \<open>\<open>HasWhere\<close>, lines 355 to 365.\<close>

definition judge_where :: "unicode \<Rightarrow> Info \<Rightarrow> Info" where
  "judge_where u info =
     (let tokens = Tokens info; has = top_level_where tokens in
      info\<lparr>HasWhere :=
        (if Kind info = Update \<or> Kind info = Delete then writes_have_effective_where u tokens
         else if has \<and> Kind info = Select \<and> where_is_tautology u tokens then False
         else has)\<rparr>)"

definition reclassify :: "Info \<Rightarrow> Info" where
  "reclassify info =
     (let info1 = (if writes_only_to_a_table_variable info then info\<lparr>Kind := Session\<rparr> else info) in
      if select_creates_something info1 then info1\<lparr>Kind := DDL, Command := DDL\<rparr> else info1)"

definition classify_tokens :: "unicode \<Rightarrow> Info \<Rightarrow> Info" where
  "classify_tokens u info =
     (let info1 = mark_session_effects (judge_where u (default_command (classify_first info))) in
      reclassify (info1\<lparr>Tables := extract_tables (Tokens info1)\<rparr>))"

type_synonym parsed = "Info \<times> string option"

definition classify_statement :: "unicode \<Rightarrow> dialect \<Rightarrow> string \<Rightarrow> parsed" where
  "classify_statement u d statement =
     (let raw = trim_space statement in
      case LexDialect u d raw of
        Inl e \<Rightarrow> (unknown_info d raw, Some (''unclassifiable SQL: '' @ e))
      | Inr [] \<Rightarrow> (unknown_info d raw, Some ''unclassifiable SQL: %!w(<nil>)'')
      | Inr tokens \<Rightarrow> (classify_tokens u ((zero_info d raw)\<lparr>Tokens := tokens\<rparr>), None))"

subsection \<open>mergeScript\<close>

definition script_rank :: "kind \<Rightarrow> nat" where
  "script_rank k = (case k of Session \<Rightarrow> 0 | Select \<Rightarrow> 1 | Insert \<Rightarrow> 2 | Update \<Rightarrow> 2 | Delete \<Rightarrow> 2
     | DDL \<Rightarrow> 3 | Other \<Rightarrow> 4 | Unknown \<Rightarrow> 5 | Multi \<Rightarrow> 0 | NoKind \<Rightarrow> 0)"

definition script_part :: "unicode \<Rightarrow> dialect \<Rightarrow> string \<Rightarrow> Info" where
  "script_part u d statement =
     (case classify_statement u d statement of
        (part, None) \<Rightarrow> part
      | (part, Some _) \<Rightarrow> part\<lparr>Kind := Unknown, Command := Unknown\<rparr>)"

definition script_parts :: "unicode \<Rightarrow> dialect \<Rightarrow> string list \<Rightarrow> Info list" where
  "script_parts u d statements =
     map (script_part u d) (filter (\<lambda>s. trim_space s \<noteq> []) statements)"

text \<open>The first loop: the riskiest kind and the union of the flags.\<close>

definition absorb :: "Info \<Rightarrow> Info \<Rightarrow> Info" where
  "absorb merged part =
     (let m = (if script_rank (Kind merged) < script_rank (Kind part)
               then merged\<lparr>Kind := Kind part, Command := Kind part\<rparr> else merged) in
      m\<lparr>IsDrop := IsDrop m \<or> IsDrop part,
        IsTruncate := IsTruncate m \<or> IsTruncate part,
        TouchesSession := TouchesSession m \<or> TouchesSession part,
        ControlsTransaction := ControlsTransaction m \<or> ControlsTransaction part,
        SwitchesDatabase := SwitchesDatabase m \<or> SwitchesDatabase part\<rparr>)"

text \<open>The second loop: a WHERE counts when every part of the deciding kind has one.\<close>

definition script_has_where :: "kind \<Rightarrow> Info list \<Rightarrow> bool" where
  "script_has_where k parts =
     (let deciding = filter (\<lambda>p. Kind p = k) parts in deciding \<noteq> [] \<and> list_all HasWhere deciding)"

text \<open>The third loop: the kinds a part performs without a WHERE of its own.\<close>

definition records_unscoped :: "Info \<Rightarrow> bool" where
  "records_unscoped part \<longleftrightarrow>
     Kind part = Update \<or> Kind part = Delete \<or> Kind part = Select \<and> Tables part \<noteq> []"

definition note_unscoped :: "Info \<Rightarrow> Info \<Rightarrow> Info" where
  "note_unscoped merged part =
     (if HasWhere part \<or> lacks_where merged (Kind part) \<or> \<not> records_unscoped part then merged
      else merged\<lparr>Unscoped := Unscoped merged @ [Kind part]\<rparr>)"

text \<open>The fourth loop: every table once, in order of first mention.\<close>

fun distinct_tables :: "TableRef list \<Rightarrow> TableRef list \<Rightarrow> TableRef list" where
  "distinct_tables seen [] = []"
| "distinct_tables seen (r # rs) =
     (if r \<in> set seen then distinct_tables seen rs else r # distinct_tables (r # seen) rs)"

definition empty_script :: "dialect \<Rightarrow> string \<Rightarrow> Info" where
  "empty_script d sql = (zero_info d sql)\<lparr>Kind := Session, Command := Session, IsScript := True\<rparr>"

definition merge_parts :: "unicode \<Rightarrow> dialect \<Rightarrow> string \<Rightarrow> Info list \<Rightarrow> Info" where
  "merge_parts u d sql parts =
     (let merged = foldl absorb (empty_script d sql) parts in
      if parts = [] then merged\<lparr>Kind := Unknown, Command := Unknown\<rparr>
      else
        (let m1 = (case LexDialect u d sql of Inl _ \<Rightarrow> merged | Inr ts \<Rightarrow> merged\<lparr>Tokens := ts\<rparr>);
             m2 = m1\<lparr>HasWhere := script_has_where (Kind m1) parts\<rparr>;
             m3 = foldl note_unscoped m2 parts
         in m3\<lparr>Tables := Tables m3 @ distinct_tables [] (concat (map Tables parts))\<rparr>))"

definition merge_script :: "unicode \<Rightarrow> dialect \<Rightarrow> string \<Rightarrow> string list \<Rightarrow> Info" where
  "merge_script u d sql statements = merge_parts u d sql (script_parts u d statements)"

subsection \<open>parseDialect\<close>

definition parse_dialect :: "unicode \<Rightarrow> dialect \<Rightarrow> string \<Rightarrow> parsed" where
  "parse_dialect u d sql =
     (case splitStatements u d sql of
        Inl e \<Rightarrow> (unknown_info d sql, Some e)
      | Inr [] \<Rightarrow> (unknown_info d sql, Some ''empty SQL'')
      | Inr [s] \<Rightarrow> classify_statement u d s
      | Inr statements \<Rightarrow> (merge_script u d sql statements, None))"

end
