(* ===== verification/Statement_Correct.thy ===== *)
theory Statement_Correct
  imports Statement
begin

section \<open>What a merged script says about its statements\<close>

text \<open>
  The abstract contract of \<open>mergeScript\<close>: the kind is the riskiest of the parts, the flags
  are their union, the tables are those of the parts, and every part that updates or deletes
  without a WHERE of its own is still visible through \<open>LacksWhere\<close>.
\<close>

named_theorems script_simps \<open>fields of the intermediate records of mergeScript\<close>

lemma absorb_fields [script_simps]:
  "Kind (absorb m p) = (if script_rank (Kind m) < script_rank (Kind p) then Kind p else Kind m)"
  "Command (absorb m p) =
     (if script_rank (Kind m) < script_rank (Kind p) then Kind p else Command m)"
  "IsDrop (absorb m p) \<longleftrightarrow> IsDrop m \<or> IsDrop p"
  "IsTruncate (absorb m p) \<longleftrightarrow> IsTruncate m \<or> IsTruncate p"
  "TouchesSession (absorb m p) \<longleftrightarrow> TouchesSession m \<or> TouchesSession p"
  "ControlsTransaction (absorb m p) \<longleftrightarrow> ControlsTransaction m \<or> ControlsTransaction p"
  "SwitchesDatabase (absorb m p) \<longleftrightarrow> SwitchesDatabase m \<or> SwitchesDatabase p"
  "Unscoped (absorb m p) = Unscoped m" "Tables (absorb m p) = Tables m"
  "IsScript (absorb m p) = IsScript m" "HasWhere (absorb m p) = HasWhere m"
  by (simp_all add: absorb_def Let_def)

lemma fold_absorb_frame [script_simps]:
  "Unscoped (foldl absorb m ps) = Unscoped m" "Tables (foldl absorb m ps) = Tables m"
  "IsScript (foldl absorb m ps) = IsScript m"
  by (induction ps arbitrary: m) (simp_all add: script_simps)

lemma fold_absorb_flags [script_simps]:
  "IsDrop (foldl absorb m ps) \<longleftrightarrow> IsDrop m \<or> (\<exists>p \<in> set ps. IsDrop p)"
  "IsTruncate (foldl absorb m ps) \<longleftrightarrow> IsTruncate m \<or> (\<exists>p \<in> set ps. IsTruncate p)"
  "TouchesSession (foldl absorb m ps) \<longleftrightarrow> TouchesSession m \<or> (\<exists>p \<in> set ps. TouchesSession p)"
  "ControlsTransaction (foldl absorb m ps) \<longleftrightarrow>
     ControlsTransaction m \<or> (\<exists>p \<in> set ps. ControlsTransaction p)"
  "SwitchesDatabase (foldl absorb m ps) \<longleftrightarrow>
     SwitchesDatabase m \<or> (\<exists>p \<in> set ps. SwitchesDatabase p)"
  by (induction ps arbitrary: m) (auto simp: script_simps)

lemma fold_absorb_kind:
  "Kind (foldl absorb m ps) \<in> insert (Kind m) (Kind ` set ps)
   \<and> script_rank (Kind m) \<le> script_rank (Kind (foldl absorb m ps))
   \<and> (\<forall>p \<in> set ps. script_rank (Kind p) \<le> script_rank (Kind (foldl absorb m ps)))"
proof (induction ps arbitrary: m)
  case (Cons p ps)
  then show ?case
    using Cons.IH [of "absorb m p"] by (force simp: absorb_fields(1) split: if_splits)
qed simp

lemma note_unscoped_frame [script_simps]:
  "Kind (note_unscoped m p) = Kind m" "HasWhere (note_unscoped m p) = HasWhere m"
  "Tables (note_unscoped m p) = Tables m" "IsDrop (note_unscoped m p) = IsDrop m"
  "IsTruncate (note_unscoped m p) = IsTruncate m" "IsScript (note_unscoped m p) = IsScript m"
  "TouchesSession (note_unscoped m p) = TouchesSession m"
  "ControlsTransaction (note_unscoped m p) = ControlsTransaction m"
  "SwitchesDatabase (note_unscoped m p) = SwitchesDatabase m"
  "Command (note_unscoped m p) = Command m"
  by (simp_all add: note_unscoped_def)

lemma fold_note_frame [script_simps]:
  "Kind (foldl note_unscoped m ps) = Kind m" "HasWhere (foldl note_unscoped m ps) = HasWhere m"
  "Tables (foldl note_unscoped m ps) = Tables m" "IsDrop (foldl note_unscoped m ps) = IsDrop m"
  "IsTruncate (foldl note_unscoped m ps) = IsTruncate m"
  "IsScript (foldl note_unscoped m ps) = IsScript m"
  "TouchesSession (foldl note_unscoped m ps) = TouchesSession m"
  "ControlsTransaction (foldl note_unscoped m ps) = ControlsTransaction m"
  "SwitchesDatabase (foldl note_unscoped m ps) = SwitchesDatabase m"
  by (induction ps arbitrary: m) (simp_all add: script_simps)

text \<open>A fold of \<open>note_unscoped\<close> records exactly the kinds some part lacks a WHERE for.\<close>

lemma note_unscoped_lacks:
  "lacks_where (note_unscoped m p) k \<longleftrightarrow>
     lacks_where m k \<or> Kind p = k \<and> \<not> HasWhere p \<and> records_unscoped p"
  by (auto simp: note_unscoped_def lacks_where_def)

lemma fold_note_lacks:
  "lacks_where (foldl note_unscoped m ps) k \<longleftrightarrow>
     lacks_where m k \<or> (\<exists>p \<in> set ps. Kind p = k \<and> \<not> HasWhere p \<and> records_unscoped p)"
  by (induction ps arbitrary: m) (auto simp: note_unscoped_lacks)

lemma lacks_where_cong:
  "Kind m = Kind n \<Longrightarrow> HasWhere m = HasWhere n \<Longrightarrow> Unscoped m = Unscoped n \<Longrightarrow>
     lacks_where m k = lacks_where n k"
  by (simp add: lacks_where_def)

lemma distinct_tables_set: "set (distinct_tables seen rs) = set rs - set seen"
  by (induction seen rs rule: distinct_tables.induct) auto

lemma distinct_tables_distinct: "distinct (distinct_tables seen rs)"
  by (induction seen rs rule: distinct_tables.induct) (auto simp: distinct_tables_set)

subsection \<open>The merged record\<close>

definition risk_of_parts :: "dialect \<Rightarrow> string \<Rightarrow> Info list \<Rightarrow> kind" where
  "risk_of_parts d sql parts = Kind (foldl absorb (empty_script d sql) parts)"

lemma merge_parts_fields:
  assumes "parts \<noteq> []"
  shows "Kind (merge_parts u d sql parts) = risk_of_parts d sql parts"
    and "HasWhere (merge_parts u d sql parts) = script_has_where (risk_of_parts d sql parts) parts"
    and "Tables (merge_parts u d sql parts) = distinct_tables [] (concat (map Tables parts))"
    and "IsDrop (merge_parts u d sql parts) \<longleftrightarrow> (\<exists>p \<in> set parts. IsDrop p)"
    and "IsTruncate (merge_parts u d sql parts) \<longleftrightarrow> (\<exists>p \<in> set parts. IsTruncate p)"
    and "TouchesSession (merge_parts u d sql parts) \<longleftrightarrow> (\<exists>p \<in> set parts. TouchesSession p)"
    and "ControlsTransaction (merge_parts u d sql parts) \<longleftrightarrow>
      (\<exists>p \<in> set parts. ControlsTransaction p)"
    and "SwitchesDatabase (merge_parts u d sql parts) \<longleftrightarrow> (\<exists>p \<in> set parts. SwitchesDatabase p)"
    and "IsScript (merge_parts u d sql parts)"
  using assms
  by (simp_all add: merge_parts_def Let_def script_simps risk_of_parts_def empty_script_def
      zero_info_def split: sum.splits)

lemma merge_parts_lacks:
  assumes "parts \<noteq> []"
  shows "lacks_where (merge_parts u d sql parts) k \<longleftrightarrow>
     risk_of_parts d sql parts = k \<and> \<not> script_has_where k parts
     \<or> (\<exists>p \<in> set parts. Kind p = k \<and> \<not> HasWhere p \<and> records_unscoped p)"
proof -
  let ?m = "foldl absorb (empty_script d sql) parts"
  define m2 where "m2 = (case LexDialect u d sql of Inl _ \<Rightarrow> ?m | Inr ts \<Rightarrow> ?m\<lparr>Tokens := ts\<rparr>)
    \<lparr>HasWhere := script_has_where (risk_of_parts d sql parts) parts\<rparr>"
  have m2: "Kind m2 = risk_of_parts d sql parts" "Unscoped m2 = []"
    "HasWhere m2 = script_has_where (risk_of_parts d sql parts) parts"
    by (simp_all add: m2_def risk_of_parts_def script_simps empty_script_def zero_info_def
        split: sum.splits)
  have "lacks_where (merge_parts u d sql parts) k = lacks_where (foldl note_unscoped m2 parts) k"
    using assms
    by (auto simp: merge_parts_def Let_def m2_def risk_of_parts_def lacks_where_def
        split: sum.splits)
  also have "\<dots> \<longleftrightarrow> lacks_where m2 k
      \<or> (\<exists>p \<in> set parts. Kind p = k \<and> \<not> HasWhere p \<and> records_unscoped p)"
    by (rule fold_note_lacks)
  also have "lacks_where m2 k \<longleftrightarrow>
      risk_of_parts d sql parts = k \<and> \<not> script_has_where k parts"
    using m2 by (auto simp: lacks_where_def)
  finally show ?thesis .
qed

lemma risk_of_parts_max:
  "p \<in> set parts \<Longrightarrow> script_rank (Kind p) \<le> script_rank (risk_of_parts d sql parts)"
  using fold_absorb_kind [of "empty_script d sql" parts] by (auto simp: risk_of_parts_def)

lemma risk_of_parts_among:
  "risk_of_parts d sql parts \<in> insert Session (Kind ` set parts)"
  using fold_absorb_kind [of "empty_script d sql" parts]
  by (auto simp: risk_of_parts_def empty_script_def)

text \<open>For updates and deletes \<open>LacksWhere\<close> is exact on a script.\<close>

lemma merge_parts_lacks_write:
  assumes "parts \<noteq> []" and k: "k = Update \<or> k = Delete"
  shows "lacks_where (merge_parts u d sql parts) k \<longleftrightarrow>
     (\<exists>p \<in> set parts. Kind p = k \<and> \<not> HasWhere p)"
proof -
  have "risk_of_parts d sql parts = k \<Longrightarrow> k \<in> Kind ` set parts"
    using risk_of_parts_among [of d sql parts] k by auto
  then have "risk_of_parts d sql parts = k \<Longrightarrow> \<exists>p \<in> set parts. Kind p = k"
    by (metis imageE)
  then show ?thesis
    using k unfolding merge_parts_lacks [OF assms(1)]
    by (auto simp: script_has_where_def Let_def list_all_iff records_unscoped_def
        filter_empty_conv)
qed

subsection \<open>What parsing a script returns\<close>

lemma parse_dialect_script:
  assumes "splitStatements u d sql = Inr ss" and "2 \<le> length ss"
  shows "parse_dialect u d sql = (merge_script u d sql ss, None)"
  using assms by (cases ss; cases "tl ss") (auto simp: parse_dialect_def)

lemma splitStatements_parts:
  assumes "splitStatements u d sql = Inr ss" and "s \<in> set ss"
  shows "s \<noteq> [] \<and> (\<exists>a b. a \<le> length sql \<and> s = trim_space (substring sql a b))"
proof -
  from assms(1) obtain ts where lex: "LexDialect u d sql = Inr ts"
    and ss: "ss = split_loop sql \<lparr>split_start = 0, split_routine = False, split_depth = 0,
      split_first = True\<rparr> ts"
    by (auto simp: splitStatements_def bind_result_Inr)
  from lex lex_loop_positions [of u d 0 0 0 sql ts] have "\<forall>t \<in> set ts. End t \<le> length sql"
    by (auto simp: LexDialect_def at_position_def)
  with split_loop_parts [of s sql] assms(2) ss show ?thesis by fastforce
qed

text \<open>The statements of a split are trimmed already, so none is dropped by the merge.\<close>

lemma script_parts_split:
  assumes "splitStatements u d sql = Inr ss"
  shows "script_parts u d ss = map (script_part u d) ss"
proof -
  have "trim_space s \<noteq> []" if "s \<in> set ss" for s
    using splitStatements_parts [OF assms that] by auto
  then show ?thesis by (simp add: script_parts_def filter_id_conv)
qed

end
