(* ===== verification/Policy.thy ===== *)
theory Policy
  imports Statement_Correct
begin

section \<open>The guardrails (internal/policy/policy.go)\<close>

text \<open>
  \<open>Evaluate\<close> is the verdict of the built-in guardrails on one \<open>Info\<close>, followed by the
  rules registered with \<open>AddRule\<close>. The repository registers none: the list of rules is the
  parameter \<open>rules\<close>, each a function that answers with a decision or not at all. A rule may
  decide an effect of its own, which the query path holds for review.
\<close>

subsection \<open>Decisions and inputs\<close>

datatype effect = Allow | Deny | OtherEffect string

datatype risk = Low | Medium | High | Critical

record Decision =
  Effect :: effect
  PolicyID :: string
  Reason :: string
  Risk :: risk

record Input =
  Statement :: Info
  Role :: string
  ReadOnly :: bool
  Environment :: string
  Cleared :: bool
  Disabled :: "string \<Rightarrow> bool"
  Enabled :: "string \<Rightarrow> bool"

type_synonym Rule = "Input \<Rightarrow> Decision option"

definition denied :: "string \<Rightarrow> string \<Rightarrow> risk \<Rightarrow> Decision" where
  "denied key reason risk = \<lparr>Effect = Deny, PolicyID = key, Reason = reason, Risk = risk\<rparr>"

text \<open>The closure \<open>deny\<close>: nothing for a cleared statement or a disabled rule.\<close>

definition deny :: "Input \<Rightarrow> string \<Rightarrow> string \<Rightarrow> risk \<Rightarrow> Decision option" where
  "deny input key reason risk =
     (if Cleared input \<or> Disabled input key then None else Some (denied key reason risk))"

definition guard :: "bool \<Rightarrow> Decision option \<Rightarrow> Decision option" where
  "guard c d = (if c then d else None)"

fun first_some :: "Decision option list \<Rightarrow> Decision option" where
  "first_some [] = None"
| "first_some (Some d # ds) = Some d"
| "first_some (None # ds) = first_some ds"

subsection \<open>Evaluate\<close>

text \<open>The guardrails in the order of the code; the first that answers decides.\<close>

definition guardrails :: "Input \<Rightarrow> Decision option list" where
  "guardrails input =
     (let stmt = Statement input in
      [guard (IsScript stmt \<and> Enabled input ''deny_multi_statement'')
         (deny input ''deny_multi_statement'' ''running several SQL statements at once is forbidden, and this workspace's policies keep it that way'' High),
       guard (Kind stmt = Unknown)
         (Some (denied ''unknown_statement'' ''unclassifiable SQL is forbidden'' Critical)),
       guard (Kind stmt = Other \<and> ReadOnly input \<and> \<not> Cleared input)
         (Some (denied ''read_only_unclassified'' ''Rowset does not recognise this statement's shape, and a read-only role may only run statements it can judge'' High)),
       guard (Kind stmt = Other \<and> Enabled input ''deny_unclassified'')
         (deny input ''deny_unclassified'' ''Rowset does not recognise this statement's shape and the guardrail blocks what it cannot judge; it can be turned off in policies, and the statement reported so a later release recognises it'' High),
       guard (lacks_where stmt Select \<and> Tables stmt \<noteq> [])
         (deny input ''deny_select_without_where'' ''SELECT from a table without WHERE is forbidden'' Medium),
       guard (lacks_where stmt Delete)
         (deny input ''deny_delete_without_where'' ''DELETE without WHERE is forbidden'' Critical),
       guard (lacks_where stmt Update)
         (deny input ''deny_update_without_where'' ''UPDATE without WHERE is forbidden'' Critical),
       guard (IsDrop stmt) (deny input ''deny_drop'' ''DROP is forbidden'' Critical),
       guard (IsTruncate stmt) (deny input ''deny_truncate'' ''TRUNCATE is forbidden'' High),
       guard (ReadOnly input \<and> is_write (Kind stmt) \<and> \<not> Cleared input)
         (Some (denied ''read_only_role'' ''read-only role may not run write statements'' High))])"

definition allowed :: Decision where
  "allowed = \<lparr>Effect = Allow, PolicyID = [], Reason = [], Risk = Low\<rparr>"

definition Evaluate :: "Rule list \<Rightarrow> Input \<Rightarrow> Decision" where
  "Evaluate rules input =
     (case first_some (guardrails input @ map (\<lambda>rule. rule input) rules) of
        Some d \<Rightarrow> d | None \<Rightarrow> allowed)"

subsection \<open>Which guardrail answers\<close>

lemma first_some_append:
  "first_some (xs @ ys) = (case first_some xs of Some d \<Rightarrow> Some d | None \<Rightarrow> first_some ys)"
  by (induction xs rule: first_some.induct) auto

lemma first_some_None: "first_some xs = None \<longleftrightarrow> set xs \<subseteq> {None}"
  by (induction xs rule: first_some.induct) auto

lemma first_some_mem: "first_some xs = Some d \<Longrightarrow> Some d \<in> set xs"
  by (induction xs rule: first_some.induct) auto

lemma guard_eq_Some [simp]: "guard c d = Some x \<longleftrightarrow> c \<and> d = Some x"
  and guard_eq_None [simp]: "guard c d = None \<longleftrightarrow> (c \<longrightarrow> d = None)"
  and guard_eq_Some_sym [simp]: "Some x = guard c d \<longleftrightarrow> c \<and> d = Some x"
  by (auto simp: guard_def)

lemma deny_eq [simp]:
  "deny i key reason risk = Some x \<longleftrightarrow>
     \<not> Cleared i \<and> \<not> Disabled i key \<and> x = denied key reason risk"
  "deny i key reason risk = None \<longleftrightarrow> Cleared i \<or> Disabled i key"
  by (auto simp: deny_def)

lemma denied_effect [simp]: "Effect (denied key reason risk) = Deny"
  by (simp add: denied_def)

lemma guardrails_deny: "Some d \<in> set (guardrails input) \<Longrightarrow> Effect d = Deny"
  by (auto simp: guardrails_def Let_def)

text \<open>One guardrail that answers is enough for a denial.\<close>

lemma Evaluate_denies:
  assumes "Some d \<in> set (guardrails input)"
  shows "Effect (Evaluate rules input) = Deny"
proof -
  from assms obtain x where x: "first_some (guardrails input) = Some x"
    using first_some_None [of "guardrails input"] by (cases "first_some (guardrails input)") auto
  from guardrails_deny [OF first_some_mem [OF x]] x show ?thesis
    by (simp add: Evaluate_def first_some_append)
qed

lemma Evaluate_passes:
  "set (guardrails input) \<subseteq> {None} \<Longrightarrow>
     Evaluate rules input =
       (case first_some (map (\<lambda>rule. rule input) rules) of Some d \<Rightarrow> d | None \<Rightarrow> allowed)"
  by (simp add: Evaluate_def first_some_append first_some_None [symmetric])

text \<open>What it takes to pass every guardrail.\<close>

definition passes :: "Input \<Rightarrow> bool" where
  "passes input \<longleftrightarrow>
     (let stmt = Statement input;
          off = (\<lambda>key. Cleared input \<or> Disabled input key) in
      (IsScript stmt \<and> Enabled input ''deny_multi_statement'' \<longrightarrow> off ''deny_multi_statement'')
      \<and> Kind stmt \<noteq> Unknown
      \<and> \<not> (Kind stmt = Other \<and> ReadOnly input \<and> \<not> Cleared input)
      \<and> (Kind stmt = Other \<and> Enabled input ''deny_unclassified'' \<longrightarrow> off ''deny_unclassified'')
      \<and> (lacks_where stmt Select \<and> Tables stmt \<noteq> [] \<longrightarrow> off ''deny_select_without_where'')
      \<and> (lacks_where stmt Delete \<longrightarrow> off ''deny_delete_without_where'')
      \<and> (lacks_where stmt Update \<longrightarrow> off ''deny_update_without_where'')
      \<and> (IsDrop stmt \<longrightarrow> off ''deny_drop'')
      \<and> (IsTruncate stmt \<longrightarrow> off ''deny_truncate'')
      \<and> \<not> (ReadOnly input \<and> is_write (Kind stmt) \<and> \<not> Cleared input))"

lemma guardrails_pass_iff: "set (guardrails input) \<subseteq> {None} \<longleftrightarrow> passes input"
  by (simp add: guardrails_def passes_def Let_def)

lemma Evaluate_no_rules: "Evaluate [] input = allowed \<longleftrightarrow> passes input"
  and Evaluate_effect: "Effect (Evaluate [] input) = (if passes input then Allow else Deny)"
proof -
  show effect: "Effect (Evaluate [] input) = (if passes input then Allow else Deny)"
  proof (cases "passes input")
    case True
    then show ?thesis
      using Evaluate_passes [of input "[]"] guardrails_pass_iff by (simp add: allowed_def)
  next
    case False
    then obtain d where "Some d \<in> set (guardrails input)"
      using guardrails_pass_iff [of input] by (metis insertI1 not_None_eq subsetI)
    then show ?thesis using False Evaluate_denies [of d input "[]"] by simp
  qed
  show "Evaluate [] input = allowed \<longleftrightarrow> passes input"
    using effect Evaluate_passes [of input "[]"] guardrails_pass_iff [of input]
    by (auto simp: allowed_def split: if_splits)
qed

end
