(* ===== verification/Memo.thy ===== *)
theory Memo
  imports Prelude
begin

section \<open>The contract of a memo table\<close>

text \<open>
  Several parts of the program keep results beside the function that computes them: the
  parse cache of \<open>sqlguard\<close>, the column-origin cache of the engine. They share
  one contract: a table that only ever holds results of the function may be asked first. The
  locale states it; each cache discharges it on its own model.
\<close>

locale memo_table =
  fixes inv :: "'s \<Rightarrow> bool"
    and lookup :: "'s \<Rightarrow> 'k \<Rightarrow> 'v option"
    and insert_entry :: "'k \<Rightarrow> 'v \<Rightarrow> 's \<Rightarrow> 's"
    and result :: "'k \<Rightarrow> 'v \<Rightarrow> bool"
  assumes lookup_result: "inv s \<Longrightarrow> lookup s k = Some v \<Longrightarrow> result k v"
    and insert_inv: "inv s \<Longrightarrow> result k v \<Longrightarrow> inv (insert_entry k v s)"
begin

text \<open>Ask the table, else compute and, where \<open>keep\<close> allows, store.\<close>

definition memoized :: "bool \<Rightarrow> 'v \<Rightarrow> 's \<Rightarrow> 'k \<Rightarrow> 'v \<times> 's" where
  "memoized keep computed s k =
     (case lookup s k of
        Some v \<Rightarrow> (v, s)
      | None \<Rightarrow> (computed, if keep then insert_entry k computed s else s))"

lemma memoized_inv:
  "inv s \<Longrightarrow> (keep \<Longrightarrow> result k computed) \<Longrightarrow> inv (snd (memoized keep computed s k))"
  by (auto simp: memoized_def insert_inv split: option.splits)

lemma memoized_result:
  assumes "inv s" and "\<And>v. result k v \<Longrightarrow> v = computed"
  shows "fst (memoized keep computed s k) = computed"
  using assms by (auto simp: memoized_def dest: lookup_result split: option.splits)

end

end
