(* ===== verification/Parse_Cache.thy ===== *)
theory Parse_Cache
  imports Statement_Correct Memo "HOL-Library.Word"
begin

section \<open>The bounded, sharded parse cache and ParseDialect (sqlguard/parser.go)\<close>

text \<open>
  Sixteen shards, each a map of at most 512 parsed statements and a ring of its keys. A shard
  that is full forgets its oldest key. The state of the whole cache is a function from the
  shard number; the locks of the code make every lookup and every insertion atomic, so the
  operations are functions on that state.
\<close>

unbundle bit_operations_syntax

definition parse_cache_shards :: nat where "parse_cache_shards = 16"
definition parse_cache_shard_limit :: nat where "parse_cache_shard_limit = 512"
definition max_cached_sql_bytes :: nat where "max_cached_sql_bytes = 16 * 1024"

type_synonym cache_key = "dialect \<times> string"

record shard =
  entries :: "cache_key \<Rightarrow> Info option"
  order :: "cache_key list"
  next_slot :: nat

type_synonym parse_cache = "nat \<Rightarrow> shard"

definition empty_shard :: shard where
  "empty_shard = \<lparr>entries = Map.empty, order = [], next_slot = 0\<rparr>"

definition empty_cache :: parse_cache where
  "empty_cache = (\<lambda>_. empty_shard)"

fun dialect_string :: "dialect \<Rightarrow> string" where
  "dialect_string DialectGeneric = ''generic''"
| "dialect_string DialectPostgres = ''postgres''"
| "dialect_string DialectMySQL = ''mysql''"
| "dialect_string DialectMSSQL = ''mssql''"
| "dialect_string (DialectOther s) = s"

definition fnv_step :: "32 word \<Rightarrow> char \<Rightarrow> 32 word" where
  "fnv_step hash c = (hash XOR word_of_nat (byte c)) * 16777619"

definition parse_cache_index :: "cache_key \<Rightarrow> nat" where
  "parse_cache_index key =
     unat (foldl fnv_step (foldl fnv_step 2166136261 (dialect_string (fst key))) (snd key)
           AND word_of_nat (parse_cache_shards - 1))"

definition shard_insert :: "cache_key \<Rightarrow> Info \<Rightarrow> shard \<Rightarrow> shard" where
  "shard_insert key info sh =
     (if entries sh key \<noteq> None then sh
      else
        (let sh1 =
           (if length (order sh) < parse_cache_shard_limit
            then sh\<lparr>order := order sh @ [key]\<rparr>
            else sh\<lparr>entries := (entries sh)(order sh ! next_slot sh := None),
                    order := (order sh)[next_slot sh := key],
                    next_slot := (next_slot sh + 1) mod parse_cache_shard_limit\<rparr>)
         in sh1\<lparr>entries := (entries sh1)(key \<mapsto> info)\<rparr>))"

definition cache_parsed :: "cache_key \<Rightarrow> Info \<Rightarrow> parse_cache \<Rightarrow> parse_cache" where
  "cache_parsed key info c =
     (let i = parse_cache_index key in c(i := shard_insert key info (c i)))"

definition cache_lookup :: "parse_cache \<Rightarrow> cache_key \<Rightarrow> Info option" where
  "cache_lookup c key = entries (c (parse_cache_index key)) key"

definition unsupported_dialect :: "dialect \<Rightarrow> string" where
  "unsupported_dialect d =
     ''unsupported SQL dialect '' @ [CHR 0x22] @ dialect_string d @ [CHR 0x22]"

definition ParseDialect :: "unicode \<Rightarrow> dialect \<Rightarrow> string \<Rightarrow> parse_cache \<Rightarrow> parsed \<times> parse_cache" where
  "ParseDialect u d sql c =
     (if \<not> dialect_valid d then ((unknown_info d sql, Some (unsupported_dialect d)), c)
      else
        (let key = (d, sql); small = length sql \<le> max_cached_sql_bytes in
         case (if small then cache_lookup c key else None) of
           Some info \<Rightarrow> ((info, None), c)
         | None \<Rightarrow>
             (case parse_dialect u d sql of
                (info, err) \<Rightarrow>
                  ((info, err), if err = None \<and> small then cache_parsed key info c else c))))"

text \<open>What \<open>ParseDialect\<close> computes, without the cache.\<close>

definition parse_uncached :: "unicode \<Rightarrow> dialect \<Rightarrow> string \<Rightarrow> parsed" where
  "parse_uncached u d sql =
     (if dialect_valid d then parse_dialect u d sql
      else (unknown_info d sql, Some (unsupported_dialect d)))"

subsection \<open>The ring is a bounded queue of keys\<close>

definition shard_ok :: "shard \<Rightarrow> bool" where
  "shard_ok sh \<longleftrightarrow> dom (entries sh) = set (order sh) \<and> distinct (order sh)
     \<and> length (order sh) \<le> parse_cache_shard_limit
     \<and> (if length (order sh) < parse_cache_shard_limit then next_slot sh = 0
        else next_slot sh < parse_cache_shard_limit)"

text \<open>The keys from the oldest to the newest.\<close>

definition age_order :: "shard \<Rightarrow> cache_key list" where
  "age_order sh = rotate (next_slot sh) (order sh)"

definition queue_insert :: "cache_key \<Rightarrow> cache_key list \<Rightarrow> cache_key list" where
  "queue_insert key q =
     (if key \<in> set q then q
      else if length q < parse_cache_shard_limit then q @ [key]
      else tl q @ [key])"

lemma rotate_list_update:
  assumes "n < length xs"
  shows "rotate (Suc n mod length xs) (xs[n := x]) = tl (rotate n xs) @ [x]"
proof -
  have "rotate (Suc n mod length xs) (xs[n := x]) = rotate1 (rotate n (xs[n := x]))"
    by (metis length_list_update rotate_Suc rotate_conv_mod)
  also have "rotate n (xs[n := x]) = drop n (xs[n := x]) @ take n (xs[n := x])"
    using assms by (simp add: rotate_drop_take)
  also have "\<dots> = x # drop (Suc n) xs @ take n xs"
    using assms by (simp add: drop_update_swap Cons_nth_drop_Suc [symmetric] upd_conv_take_nth_drop)
  also have "rotate1 \<dots> = drop (Suc n) xs @ take n xs @ [x]" by simp
  finally show ?thesis
    using assms by (simp add: rotate_drop_take Cons_nth_drop_Suc [symmetric])
qed

lemma shard_ok_empty [simp]: "shard_ok empty_shard"
  by (simp add: shard_ok_def empty_shard_def parse_cache_shard_limit_def)

lemma shard_insert_age:
  assumes "shard_ok sh"
  shows "age_order (shard_insert key info sh) = queue_insert key (age_order sh)"
proof -
  have known: "entries sh key \<noteq> None \<longleftrightarrow> key \<in> set (order sh)"
    using assms by (auto simp: shard_ok_def)
  show ?thesis
  proof (cases "key \<in> set (order sh)")
    case True
    with known show ?thesis by (simp add: shard_insert_def queue_insert_def age_order_def)
  next
    case False
    with known have none: "entries sh key = None" by auto
    show ?thesis
    proof (cases "length (order sh) < parse_cache_shard_limit")
      case True
      with assms False none show ?thesis
        by (simp add: shard_insert_def queue_insert_def age_order_def shard_ok_def)
    next
      case full: False
      with assms have "length (order sh) = parse_cache_shard_limit" "next_slot sh < length (order sh)"
        by (auto simp: shard_ok_def)
      then show ?thesis
        using False none full rotate_list_update [of "next_slot sh" "order sh" key]
        by (simp add: shard_insert_def queue_insert_def age_order_def)
    qed
  qed
qed

lemma distinct_update_notin:
  "distinct xs \<Longrightarrow> x \<notin> set xs \<Longrightarrow> distinct (xs[n := x])"
  by (metis distinct_list_update DiffD1)

lemma shard_insert_ok:
  assumes "shard_ok sh"
  shows "shard_ok (shard_insert key info sh)"
proof (cases "entries sh key = None")
  case None: True
  then have new: "key \<notin> set (order sh)" using assms by (auto simp: shard_ok_def)
  show ?thesis
  proof (cases "length (order sh) < parse_cache_shard_limit")
    case True
    with assms new None show ?thesis
      by (auto simp: shard_insert_def shard_ok_def parse_cache_shard_limit_def)
  next
    case False
    with assms have len: "length (order sh) = parse_cache_shard_limit"
      "next_slot sh < length (order sh)" by (auto simp: shard_ok_def)
    moreover have "distinct ((order sh)[next_slot sh := key])"
      using assms new by (simp add: shard_ok_def distinct_update_notin)
    moreover have "set ((order sh)[next_slot sh := key])
        = insert key (set (order sh) - {order sh ! next_slot sh})"
      using assms len by (simp add: shard_ok_def set_update_distinct)
    ultimately show ?thesis
      using assms None False by (auto simp: shard_insert_def shard_ok_def parse_cache_shard_limit_def)
  qed
qed (use assms in \<open>simp add: shard_insert_def\<close>)

lemma shard_insert_lookup:
  "entries (shard_insert key info sh) k = Some v \<Longrightarrow> entries sh k = Some v \<or> k = key \<and> v = info"
  by (auto simp: shard_insert_def Let_def split: if_splits)

subsection \<open>The cache as a memo table of the parser\<close>

definition parse_result :: "unicode \<Rightarrow> cache_key \<Rightarrow> Info \<Rightarrow> bool" where
  "parse_result u key info \<longleftrightarrow> parse_uncached u (fst key) (snd key) = (info, None)"

definition cache_ok :: "unicode \<Rightarrow> parse_cache \<Rightarrow> bool" where
  "cache_ok u c \<longleftrightarrow>
     (\<forall>i. shard_ok (c i) \<and> (\<forall>k v. entries (c i) k = Some v \<longrightarrow> parse_result u k v))"

lemma cache_ok_empty [simp]: "cache_ok u empty_cache"
  by (simp add: cache_ok_def empty_cache_def) (simp add: empty_shard_def)

interpretation parse_memo: memo_table "cache_ok u" cache_lookup cache_parsed "parse_result u"
  for u
proof (unfold_locales, goal_cases)
  case (1 s k v)
  then show ?case unfolding cache_ok_def cache_lookup_def by blast
next
  case (2 s k v)
  then show ?case
    unfolding cache_ok_def cache_parsed_def Let_def
    by (auto simp: shard_insert_ok simp del: split_paired_All dest!: shard_insert_lookup)
qed

text \<open>\<open>ParseDialect\<close> is the memoized parser: same answer, and the cache stays sound.\<close>

lemma ParseDialect_transparent:
  assumes "cache_ok u c"
  shows "fst (ParseDialect u d sql c) = parse_uncached u d sql \<and> cache_ok u (snd (ParseDialect u d sql c))"
proof (cases "cache_lookup c (d, sql)")
  case None
  then show ?thesis
    using assms parse_memo.insert_inv [OF assms, of "(d, sql)"]
    by (auto simp: ParseDialect_def parse_uncached_def parse_result_def Let_def split: prod.splits)
next
  case (Some info)
  from parse_memo.lookup_result [OF assms Some] have "parse_uncached u d sql = (info, None)"
    by (simp add: parse_result_def)
  with Some assms show ?thesis
    using parse_memo.insert_inv [OF assms, of "(d, sql)" info]
    by (auto simp: ParseDialect_def parse_uncached_def parse_result_def Let_def
        split: prod.splits if_splits)
qed

end
