(* ===== verification/Cql.thy ===== *)
theory Cql
  imports Parse_Cache
begin

section \<open>CQL statements and batches (sqlguard/cql.go)\<close>

text \<open>
  \<open>ParseCQL\<close> reads one CQL statement, or one Cassandra batch whose children are folded into
  the most restrictive \<open>Info\<close>. The cache of \<open>ParseDialect\<close> is threaded through the
  calls.
\<close>

definition cql_refused :: "string \<Rightarrow> string \<Rightarrow> parsed" where
  "cql_refused raw message = (unknown_info (DialectOther []) raw, Some message)"

text \<open>The position of APPLY BATCH: the tokens before \<open>apply\<close> are skipped.\<close>

fun find_apply :: "Token list \<Rightarrow> Token option" where
  "find_apply (t # n # ts) =
     (if Lower t = ''apply'' \<and> Lower n = ''batch'' then Some t else find_apply (n # ts))"
| "find_apply _ = None"

definition batch_start :: "string \<Rightarrow> Info" where
  "batch_start raw = (zero_info (DialectOther []) raw)\<lparr>Kind := Insert, Command := Insert, HasWhere := True\<rparr>"

text \<open>The body of the loop over the children.\<close>

definition batch_absorb :: "Info \<Rightarrow> Info \<Rightarrow> Info" where
  "batch_absorb acc info =
     (let a1 = acc\<lparr>Tables := Tables acc @ Tables info\<rparr>;
          a2 = (if (Kind info = Update \<or> Kind info = Delete) \<and> \<not> HasWhere info
                then a1\<lparr>HasWhere := False\<rparr> else a1)
      in if Kind info = Delete then a2\<lparr>Kind := Delete, Command := Delete\<rparr>
         else if Kind info = Update \<and> Kind a2 \<noteq> Delete then a2\<lparr>Kind := Update, Command := Update\<rparr>
         else a2)"

definition batch_child_ok :: "parsed \<Rightarrow> bool" where
  "batch_child_ok p \<longleftrightarrow>
     snd p = None \<and> (Kind (fst p) = Insert \<or> Kind (fst p) = Update \<or> Kind (fst p) = Delete)"

fun batch_loop ::
  "unicode \<Rightarrow> string \<Rightarrow> Info \<Rightarrow> string list \<Rightarrow> parse_cache \<Rightarrow> parsed \<times> parse_cache" where
  "batch_loop u raw acc [] c = ((acc, None), c)"
| "batch_loop u raw acc (child # rest) c =
     (case ParseDialect u DialectGeneric child c of
        (p, c') \<Rightarrow>
          (if \<not> batch_child_ok p
           then (cql_refused raw ''CQL batch contains an unsupported statement'', c')
           else batch_loop u raw (batch_absorb acc (fst p)) rest c'))"

text \<open>The tokens from the BATCH keyword on, after BEGIN and UNLOGGED or COUNTER.\<close>

definition batch_tokens :: "Token list \<Rightarrow> Token list" where
  "batch_tokens tokens =
     (case tl tokens of
        t # ts \<Rightarrow> if Lower t \<in> {''unlogged'', ''counter''} then ts else t # ts
      | [] \<Rightarrow> [])"

definition parse_batch ::
  "unicode \<Rightarrow> string \<Rightarrow> Token \<Rightarrow> Token list \<Rightarrow> parse_cache \<Rightarrow> parsed \<times> parse_cache" where
  "parse_batch u raw batch rest c =
     (case find_apply rest of
        None \<Rightarrow> (cql_refused raw ''CQL batch is missing APPLY BATCH'', c)
      | Some apply_tok \<Rightarrow>
          (case splitStatements u DialectGeneric (substring raw (End batch) (Start apply_tok)) of
             Inr (child # children) \<Rightarrow> batch_loop u raw (batch_start raw) (child # children) c
           | _ \<Rightarrow> (cql_refused raw ''CQL batch has no statements'', c)))"

definition ParseCQL :: "unicode \<Rightarrow> string \<Rightarrow> parse_cache \<Rightarrow> parsed \<times> parse_cache" where
  "ParseCQL u cql c =
     (let raw = trim_space cql in
      case LexDialect u DialectGeneric raw of
        Inl e \<Rightarrow> (cql_refused raw (''unclassifiable CQL: '' @ e), c)
      | Inr [] \<Rightarrow> (cql_refused raw ''unclassifiable CQL: %!w(<nil>)'', c)
      | Inr (first # tail) \<Rightarrow>
          (if Lower first \<noteq> ''begin'' then
             (case ParseDialect u DialectGeneric raw c of
                ((info, err), c') \<Rightarrow>
                  (if err = None \<and> IsScript info
                   then (cql_refused raw ''one CQL statement at a time, or a BEGIN BATCH'', c')
                   else ((info, err), c')))
           else
             (case batch_tokens (first # tail) of
                [] \<Rightarrow> ParseDialect u DialectGeneric raw c
              | batch # rest \<Rightarrow>
                  (if Lower batch \<noteq> ''batch'' then ParseDialect u DialectGeneric raw c
                   else parse_batch u raw batch rest c))))"

subsection \<open>A batch is as restrictive as its children\<close>

lemma batch_absorb_fields:
  "Tables (batch_absorb acc info) = Tables acc @ Tables info"
  "HasWhere (batch_absorb acc info) \<longleftrightarrow>
     HasWhere acc \<and> \<not> ((Kind info = Update \<or> Kind info = Delete) \<and> \<not> HasWhere info)"
  "Kind (batch_absorb acc info) =
     (if Kind info = Delete then Delete
      else if Kind info = Update \<and> Kind acc \<noteq> Delete then Update else Kind acc)"
  "Unscoped (batch_absorb acc info) = Unscoped acc" "IsScript (batch_absorb acc info) = IsScript acc"
  by (auto simp: batch_absorb_def Let_def)

lemma batch_fold_fields:
  "set (Tables (foldl batch_absorb acc infos)) = set (Tables acc) \<union> (\<Union>i \<in> set infos. set (Tables i))"
  "HasWhere (foldl batch_absorb acc infos) \<longleftrightarrow>
     HasWhere acc \<and> (\<forall>i \<in> set infos. Kind i = Update \<or> Kind i = Delete \<longrightarrow> HasWhere i)"
  "Kind (foldl batch_absorb acc infos) =
     (if Kind acc = Delete \<or> (\<exists>i \<in> set infos. Kind i = Delete) then Delete
      else if \<exists>i \<in> set infos. Kind i = Update then Update else Kind acc)"
  by (induction infos arbitrary: acc) (auto simp: batch_absorb_fields)

lemma batch_loop_fold:
  assumes "cache_ok u c"
  shows "batch_loop u raw acc children c = (r, c') \<Longrightarrow> snd r = None \<Longrightarrow>
    fst r = foldl batch_absorb acc (map (\<lambda>s. fst (parse_uncached u DialectGeneric s)) children)
    \<and> (\<forall>s \<in> set children. batch_child_ok (parse_uncached u DialectGeneric s))"
  using assms
proof (induction children arbitrary: acc c)
  case (Cons child rest)
  obtain p d where p: "ParseDialect u DialectGeneric child c = (p, d)" by fastforce
  with ParseDialect_transparent [OF Cons.prems(3), of DialectGeneric child]
  have "p = parse_uncached u DialectGeneric child" and d: "cache_ok u d" by auto
  moreover have "batch_child_ok p"
    using Cons.prems(1,2) p by (auto simp: cql_refused_def split: if_splits)
  ultimately show ?case using Cons.IH [OF _ Cons.prems(2) d] Cons.prems(1) p by auto
qed auto

end
