(* ===== verification/Guard_Properties.thy ===== *)
theory Guard_Properties
  imports Policy Cql
begin

section \<open>The properties of the SQL guard (internal/sqlguard, internal/policy)\<close>

text \<open>
  The contracts of the parser and of the guardrails that read it, stated on the definitions
  of the theories below. The lemmas of those theories carry the proofs.
\<close>

subsection \<open>Conditions of a WHERE, and what they mean on a row\<close>

text \<open>
  The reference: the value of a condition on one row in the three-valued logic of SQL, given
  the values \<open>env\<close> of its comparisons and other atoms. OR binds weaker than AND, AND weaker
  than NOT.
\<close>

definition or3 :: "bool option list \<Rightarrow> bool option" where
  "or3 vs = (if Some True \<in> set vs then Some True else if None \<in> set vs then None else Some False)"

definition and3 :: "bool option list \<Rightarrow> bool option" where
  "and3 vs = (if Some False \<in> set vs then Some False else if None \<in> set vs then None else Some True)"

function cond_value :: "(Token list \<Rightarrow> bool option) \<Rightarrow> Token list \<Rightarrow> bool option" where
  "cond_value env ts0 =
     (let ts = strip_wraps ts0 in
      case ts of
        [] \<Rightarrow> None
      | t # rest \<Rightarrow>
          (let ors = cut_at ''or'' (Depth t) ts; ands = cut_at ''and'' (Depth t) ts in
           if 1 < length ors then or3 (map (cond_value env) ors)
           else if 1 < length ands then and3 (map (cond_value env) ands)
           else if rest \<noteq> [] \<and> keyword t ''not'' then map_option Not (cond_value env rest)
           else env ts))"
  by pat_completeness auto
termination
proof (relation "measure (\<lambda>(env, ts). length ts)", goal_cases)
  case 1
  show ?case by simp
next
  case (2 env ts0 ts t rest ors ands p)
  with strip_wraps_length [of ts0] cut_at_shorter [of p "''or''" "Depth t" ts] show ?case by simp
next
  case (3 env ts0 ts t rest ors ands p)
  with strip_wraps_length [of ts0] cut_at_shorter [of p "''and''" "Depth t" ts] show ?case by simp
next
  case (4 env ts0 ts t rest ors ands)
  then have "length (t # rest) \<le> length ts0" using strip_wraps_length [of ts0] by metis
  then show ?case by simp
qed

declare cond_value.simps [simp del]

text \<open>
  The atoms, on a row that gives each operand a value, NULL as \<open>None\<close>: TRUE, FALSE and the
  comparisons of two operands, whose operator is one token or two; \<open>other\<close> is the value of
  every other atom.
\<close>

definition compare3 :: "string \<Rightarrow> 'v::linorder option \<Rightarrow> 'v option \<Rightarrow> bool option" where
  "compare3 op l r =
     (case (l, r) of
        (Some x, Some y) \<Rightarrow>
          Some (if op = ''='' then x = y else if op = ''<'' then x < y else if op = ''>'' then y < x
                else if op = ''<='' then x \<le> y else if op = ''>='' then y \<le> x else x \<noteq> y)
      | _ \<Rightarrow> None)"

definition atom_value ::
  "(string \<Rightarrow> 'v::linorder option) \<Rightarrow> (Token list \<Rightarrow> bool option) \<Rightarrow> Token list \<Rightarrow> bool option" where
  "atom_value val other ts =
     (case ts of
        [t] \<Rightarrow> if Quoted t then other ts
               else if Lower t = ''true'' then Some True
               else if Lower t = ''false'' then Some False else other ts
      | [a, b, c] \<Rightarrow>
          if Text b \<in> {''='', ''<'', ''>''} then compare3 (Text b) (val (Text a)) (val (Text c)) else other ts
      | [a, b, c, e] \<Rightarrow>
          if Text b @ Text c \<in> {''!='', ''<>'', ''<='', ''>=''}
          then compare3 (Text b @ Text c) (val (Text a)) (val (Text e)) else other ts
      | _ \<Rightarrow> other ts)"

text \<open>
  What the row must give two operands that are compared. Spellings that differ in case only
  name one value, and that value is not NULL; two literals of different spelling are different
  values; numbers are ordered as the numbers they spell.
\<close>

definition reads_pair :: "unicode \<Rightarrow> (string \<Rightarrow> 'v::linorder option) \<Rightarrow> string \<Rightarrow> string \<Rightarrow> bool" where
  "reads_pair u val l r \<longleftrightarrow>
     (equal_fold u l r \<longrightarrow> (\<exists>a. val l = Some a \<and> val r = Some a))
   \<and> (\<not> equal_fold u l r \<and> literal_token l \<and> literal_token r \<longrightarrow>
        (\<exists>a b. val l = Some a \<and> val r = Some b \<and> a \<noteq> b))
   \<and> (\<forall>x y. parse_float l = Some x \<and> parse_float r = Some y \<longrightarrow>
        (\<exists>a b. val l = Some a \<and> val r = Some b
           \<and> (a < b \<longleftrightarrow> float_less x y) \<and> (b < a \<longleftrightarrow> float_less y x)
           \<and> (a \<le> b \<longleftrightarrow> float_le x y) \<and> (b \<le> a \<longleftrightarrow> float_le y x)))"

text \<open>The pairs a condition compares: two tokens with an operator of one or two tokens between
  them.\<close>

definition reads_row :: "unicode \<Rightarrow> (string \<Rightarrow> 'v::linorder option) \<Rightarrow> Token list \<Rightarrow> bool" where
  "reads_row u val ts \<longleftrightarrow>
     (\<forall>l op r. sublist (l # op @ [r]) ts \<and> op \<noteq> [] \<and> length op \<le> 2
        \<and> concat (map Text op) \<in> {''='', ''<'', ''>'', ''!='', ''<>'', ''<='', ''>=''} \<longrightarrow>
        reads_pair u val (Text l) (Text r))"

lemma reads_row_sublist: "reads_row u val ts \<Longrightarrow> sublist ts' ts \<Longrightarrow> reads_row u val ts'"
  unfolding reads_row_def by (meson sublist_order.order_trans)

lemma compare_three_reads:
  assumes "compare_three u l op r = (True, v)" and "reads_pair u val l r" and "op \<in> {''='', ''<'', ''>''}"
  shows "compare3 op (val l) (val r) = Some v"
proof -
  from assms(1,3) consider
      (same) "op = ''=''" "equal_fold u l r" v
    | (differ) "op = ''=''" "\<not> equal_fold u l r" "literal_token l" "literal_token r" "\<not> v"
    | (less) x y where "op = ''<''" "parse_float l = Some x" "parse_float r = Some y" "v \<longleftrightarrow> float_less x y"
    | (greater) x y where "op = ''>''" "parse_float l = Some x" "parse_float r = Some y" "v \<longleftrightarrow> float_less y x"
    by (auto simp: compare_three_def split: if_splits option.splits)
  then show ?thesis
    using assms(2) by cases (auto simp: reads_pair_def compare3_def)
qed

lemma compare_four_reads:
  assumes "compare_four u l op r = (True, v)" and "reads_pair u val l r"
    and "op \<in> {''!='', ''<>'', ''<='', ''>=''}"
  shows "compare3 op (val l) (val r) = Some v"
proof -
  from assms(1,3) consider
      (same) "op = ''!='' \<or> op = ''<>''" "equal_fold u l r" "\<not> v"
    | (differ) "op = ''!='' \<or> op = ''<>''" "\<not> equal_fold u l r" "literal_token l" "literal_token r" v
    | (less) x y where "op = ''<=''" "parse_float l = Some x" "parse_float r = Some y" "v \<longleftrightarrow> float_le x y"
    | (greater) x y where "op = ''>=''" "parse_float l = Some x" "parse_float r = Some y" "v \<longleftrightarrow> float_le y x"
    by (auto simp: compare_four_def split: if_splits option.splits)
  then show ?thesis
    using assms(2) by cases (auto simp: reads_pair_def compare3_def)
qed

lemma compare_operators:
  "compare_three u l op r = (True, v) \<Longrightarrow> op \<in> {''='', ''<'', ''>''}"
  "compare_four u l op r = (True, v) \<Longrightarrow> op \<in> {''!='', ''<>'', ''<='', ''>=''}"
  by (auto simp: compare_three_def compare_four_def split: if_splits option.splits)

lemma constant_atom_reads:
  assumes "constant_atom u ts = (True, v)" and "reads_row u val ts"
  shows "atom_value val other ts = Some v"
proof -
  from assms(1) consider
      (three) a b c where "ts = [a, b, c]" "compare_three u (Text a) (Text b) (Text c) = (True, v)"
    | (four) a b c e where "ts = [a, b, c, e]"
        "compare_four u (Text a) (Text b @ Text c) (Text e) = (True, v)"
    by (auto simp: constant_atom_def split: list.splits)
  then show ?thesis
  proof cases
    case three
    note op = compare_operators(1) [OF three(2)]
    from assms(2) have "reads_pair u val (Text a) (Text c)"
      unfolding reads_row_def three(1) using op by (elim allE [of _ a] allE [of _ "[b]"] allE [of _ c]) auto
    from compare_three_reads [OF three(2) this op] op show ?thesis
      by (simp add: atom_value_def three(1))
  next
    case four
    note op = compare_operators(2) [OF four(2)]
    from assms(2) have "reads_pair u val (Text a) (Text e)"
      unfolding reads_row_def four(1) using op by (elim allE [of _ a] allE [of _ "[b, c]"] allE [of _ e]) auto
    from compare_four_reads [OF four(2) this op] op show ?thesis
      by (simp add: atom_value_def four(1))
  qed
qed

lemma strip_wraps_sublist: "sublist (strip_wraps ts) ts"
proof (induction ts rule: strip_wraps.induct)
  case (1 ts)
  show ?case
  proof (cases "wraps_all ts")
    case True
    have "sublist (butlast (tl ts)) ts"
      by (meson sublist_butlast sublist_order.order_trans sublist_tl)
    with 1 [OF True] True show ?thesis
      by (subst strip_wraps.simps) (auto intro: sublist_order.order_trans)
  qed (simp add: strip_wraps.simps [of ts])
qed

lemma sublist_tail: "sublist p ts \<Longrightarrow> sublist p (t # ts)"
  by (auto simp: sublist_Cons_right)

lemma cut_at_hd: "prefix (hd (cut_at op depth ts)) ts"
  by (induction ts) (auto split: list.splits)

lemma cut_at_sublist: "p \<in> set (cut_at op depth ts) \<Longrightarrow> sublist p ts"
proof (induction ts arbitrary: p)
  case (Cons t ts)
  show ?case
  proof (cases "Depth t = depth \<and> keyword t op")
    case True
    with Cons show ?thesis by (auto intro: sublist_tail)
  next
    case False
    from cut_at_nonempty obtain q qs where q: "cut_at op depth ts = q # qs" by (meson list.exhaust)
    with cut_at_hd [of op depth ts] have "prefix (t # q) (t # ts)" by simp
    then have "sublist (t # q) (t # ts)" by (rule prefix_imp_sublist)
    moreover have "sublist x (t # ts)" if "x \<in> set qs" for x
      using Cons.IH [of x] that q by (simp add: sublist_tail)
    ultimately show ?thesis using Cons.prems False q by auto
  qed
qed simp

lemma fold_known_or:
  assumes "fold_known ''or'' k r xs = (True, v)"
    and "list_all2 (\<lambda>x w. fst x \<longrightarrow> w = Some (snd x)) xs vs"
  shows "v \<and> (Some True \<in> set vs \<or> k \<and> r) \<or> \<not> v \<and> k \<and> \<not> r \<and> set vs \<subseteq> {Some False}"
  using assms(2,1)
proof (induction xs vs arbitrary: k r rule: list_all2_induct)
  case (Cons x xs w vs)
  then show ?case by (cases x) (fastforce split: if_splits)
qed (auto split: if_splits)

lemma fold_known_and:
  assumes "fold_known ''and'' k r xs = (True, v)"
    and "list_all2 (\<lambda>x w. fst x \<longrightarrow> w = Some (snd x)) xs vs"
  shows "\<not> v \<and> (Some False \<in> set vs \<or> k \<and> \<not> r) \<or> v \<and> k \<and> r \<and> set vs \<subseteq> {Some True}"
  using assms(2,1)
proof (induction xs vs arbitrary: k r rule: list_all2_induct)
  case (Cons x xs w vs)
  then show ?case by (cases x) (fastforce split: if_splits)
qed (auto split: if_splits)

lemma fold_known_or3:
  assumes "list_all2 (\<lambda>x w. fst x \<longrightarrow> w = Some (snd x)) xs vs"
    and "fold_known ''or'' True False xs = (True, v)"
  shows "or3 vs = Some v"
  using fold_known_or [OF assms(2,1)] by (auto simp: or3_def)

lemma fold_known_and3:
  assumes "list_all2 (\<lambda>x w. fst x \<longrightarrow> w = Some (snd x)) xs vs"
    and "fold_known ''and'' True True xs = (True, v)"
  shows "and3 vs = Some v"
  using fold_known_and [OF assms(2,1)] by (auto simp: and3_def)

lemma known_parts:
  assumes "\<And>p v. p \<in> set ps \<Longrightarrow> f p = (True, v) \<Longrightarrow> g p = Some v"
  shows "list_all2 (\<lambda>x w. fst x \<longrightarrow> w = Some (snd x)) (map f ps) (map g ps)"
proof -
  have "fst (f p) \<longrightarrow> g p = Some (snd (f p))" if "p \<in> set ps" for p
    using assms [OF that, of "snd (f p)"] by (cases "f p") auto
  then show ?thesis by (auto simp: list_all2_conv_all_nth)
qed

lemma constant_boolean_known:
  "constant_boolean u ts = (True, v) \<Longrightarrow> reads_row u val ts \<Longrightarrow>
     cond_value (atom_value val other) ts = Some v"
proof (induction u ts arbitrary: v rule: constant_boolean.induct)
  case (1 u ts0)
  let ?ts = "strip_wraps ts0" and ?env = "atom_value val other"
  note reads = reads_row_sublist [OF "1.prems"(2) strip_wraps_sublist]
  show ?case
  proof (cases ?ts)
    case Nil
    with "1.prems" show ?thesis by (simp add: constant_boolean.simps [of u ts0])
  next
    case (Cons t rest)
    let ?ors = "cut_at ''or'' (Depth t) ?ts" and ?ands = "cut_at ''and'' (Depth t) ?ts"
    note run = "1.prems"(1) [unfolded constant_boolean.simps [of u ts0]]
    note spec = cond_value.simps [of ?env ts0]
    show ?thesis
    proof (cases "1 < length ?ors")
      case True
      have "list_all2 (\<lambda>x w. fst x \<longrightarrow> w = Some (snd x))
          (map (constant_boolean u) ?ors) (map (cond_value ?env) ?ors)"
        by (rule known_parts, rule "1.IH"(1) [OF refl Cons refl refl True])
          (assumption | rule reads_row_sublist [OF reads cut_at_sublist])+
      moreover have "fold_known ''or'' True False (map (constant_boolean u) ?ors) = (True, v)"
        using run Cons True by (simp add: Let_def)
      ultimately have "or3 (map (cond_value ?env) ?ors) = Some v"
        by (rule fold_known_or3)
      with Cons True show ?thesis by (simp add: spec Let_def)
    next
      case no_or: False
      show ?thesis
      proof (cases "1 < length ?ands")
        case True
        have "list_all2 (\<lambda>x w. fst x \<longrightarrow> w = Some (snd x))
            (map (constant_boolean u) ?ands) (map (cond_value ?env) ?ands)"
          by (rule known_parts, rule "1.IH"(2) [OF refl Cons refl refl no_or True])
            (assumption | rule reads_row_sublist [OF reads cut_at_sublist])+
        moreover have "fold_known ''and'' True True (map (constant_boolean u) ?ands) = (True, v)"
          using run Cons no_or True by (simp add: Let_def)
        ultimately have "and3 (map (cond_value ?env) ?ands) = Some v"
          by (rule fold_known_and3)
        with Cons no_or True show ?thesis by (simp add: spec Let_def)
      next
        case no_and: False
        note cuts = no_or no_and
        show ?thesis
        proof (cases "rest \<noteq> [] \<and> keyword t ''not''")
          case True
          then show ?thesis
            using run Cons cuts "1.IH"(3) [OF refl Cons refl refl] reads_row_sublist [OF reads [unfolded Cons] sublist_tail [OF sublist_order.order_refl]]
            by (auto simp: spec Let_def split: prod.splits)
        next
          case False
          have is_atom: "cond_value ?env ts0 = ?env (t # rest)"
            using False Cons cuts by (auto simp: spec Let_def simp del: cut_at.simps)
          have "constant_boolean u ts0 =
              (if rest = [] \<and> \<not> Quoted t \<and> Lower t = ''true'' then (True, True)
               else if rest = [] \<and> \<not> Quoted t \<and> Lower t = ''false'' then (True, False)
               else constant_atom u (t # rest))"
            using False Cons cuts by (auto simp: constant_boolean.simps [of u ts0] Let_def simp del: cut_at.simps)
          with "1.prems"(1) consider (word) "rest = []" "\<not> Quoted t" "Lower t = (if v then ''true'' else ''false'')"
            | (atom) "constant_atom u (t # rest) = (True, v)"
            by (auto split: if_splits)
          then show ?thesis
          proof cases
            case word
            then show ?thesis unfolding is_atom by (simp add: atom_value_def)
          next
            case atom
            then show ?thesis
              unfolding is_atom by (rule constant_atom_reads [OF _ reads [unfolded Cons]])
          qed
        qed
      qed
    qed
  qed
qed

subsection \<open>Concrete runs\<close>

text \<open>
  The tokens of a text, for the witnesses.
\<close>

definition lexed :: "dialect \<Rightarrow> string \<Rightarrow> Token list" where
  "lexed d sql = (case LexDialect ascii_tables d sql of Inr ts \<Rightarrow> ts | Inl _ \<Rightarrow> [])"

lemma lexed_call: "LexDialect ascii_tables DialectPostgres ''f(a)--x'' = Inr (lexed DialectPostgres ''f(a)--x'')"
  by code_simp

subsection \<open>The lexer\<close>

text \<open>The tokens \<open>LexDialect\<close> returns are slices of the text at the positions they name,
  within its bounds, and they come in the order of the text without overlapping.\<close>

lemma lex_tokens_are_slices:
  assumes "LexDialect u d sql = Inr ts"
  shows "(\<forall>t \<in> set ts. Start t < End t \<and> End t \<le> length sql
            \<and> Text t = substring sql (Start t) (End t))
         \<and> sorted_wrt (\<lambda>a b. End a \<le> Start b) ts"
  using lex_loop_positions [of u d 0 0 0 sql ts] assms
  by (auto simp: LexDialect_def at_position_def substring_def)

lemma lex_tokens_are_slices_witness:
  "list_all (\<lambda>t. End t \<le> length ''f(a)--x'') (lexed DialectPostgres ''f(a)--x'')"
  using lex_tokens_are_slices [OF lexed_call] unfolding list_all_iff by blast

text \<open>In the tokens of a text that lexes, the parentheses balance, never close more than
  was opened, and the depth of every token is the number of parentheses open around it.\<close>

theorem lex_parentheses_balance:
  assumes "LexDialect u d sql = Inr ts"
  shows "depths_ok 0 ts"
  using lex_loop_depths assms unfolding LexDialect_def by blast

lemma lex_parentheses_balance_witness: "depths_ok 0 (lexed DialectPostgres ''f(a)--x'')"
  by (rule lex_parentheses_balance [OF lexed_call])


lemma lexed_comments:
  "LexDialect ascii_tables DialectMySQL ''a/*/*b*/c/*!1d*/'' =
     Inr (lexed DialectMySQL ''a/*/*b*/c/*!1d*/'')"
  by code_simp


subsection \<open>The splitter\<close>

text \<open>\<open>splitStatements\<close> returns non-empty trimmed substrings of the script, at most one
  more than it has semicolons outside parentheses; without such a semicolon the script is one
  statement.\<close>

lemma split_is_by_semicolons:
  assumes "LexDialect u d sql = Inr ts"
  shows "\<exists>ss. splitStatements u d sql = Inr ss
           \<and> (\<forall>s \<in> set ss. s \<noteq> [] \<and> (\<exists>a b. a \<le> length sql \<and> s = trim_space (substring sql a b)))
           \<and> length ss \<le> Suc (top_semicolons ts)
           \<and> (top_semicolons ts = 0 \<longrightarrow> ss = nonempty_part sql)"
proof -
  from assms have "splitStatements u d sql = Inr (split_loop sql \<lparr>split_start = 0,
      split_routine = False, split_depth = 0, split_first = True\<rparr> ts)"
    by (simp add: splitStatements_def)
  with splitStatements_parts [OF this] split_loop_length split_loop_no_semicolon show ?thesis
    by fastforce
qed

lemma split_is_by_semicolons_witness:
  "\<exists>ss. splitStatements ascii_tables DialectPostgres ''f(a)--x'' = Inr ss
     \<and> length ss \<le> Suc (top_semicolons (lexed DialectPostgres ''f(a)--x''))"
  using split_is_by_semicolons [OF lexed_call] by blast

subsection \<open>Conditions\<close>


text \<open>The pairs a list of token texts compares, to check a row on a concrete condition.\<close>

definition comparison :: "string \<Rightarrow> bool" where
  "comparison op \<longleftrightarrow> op \<in> {''='', ''<'', ''>'', ''!='', ''<>'', ''<='', ''>=''}"

fun compared :: "string list \<Rightarrow> (string \<times> string) list" where
  "compared (a # b # c # ws) =
     (if comparison b then [(a, c)] else [])
     @ (if ws \<noteq> [] \<and> comparison (b @ c) then [(a, hd ws)] else [])
     @ compared (b # c # ws)"
| "compared _ = []"

lemma compared_prefix:
  assumes "prefix (l # op @ [r]) ws" and "op \<noteq> []" and "length op \<le> 2" and "comparison (concat op)"
  shows "(l, r) \<in> set (compared ws)"
proof -
  from assms(2,3) consider x where "op = [x]" | x y where "op = [x, y]"
    by (cases op; cases "tl op"; cases "tl (tl op)") auto
  then show ?thesis
    using assms(1,4) by cases (auto simp: prefix_def)
qed

lemma compared_sublist:
  assumes "sublist (l # op @ [r]) ws" and "op \<noteq> []" and "length op \<le> 2" and "comparison (concat op)"
  shows "(l, r) \<in> set (compared ws)"
  using assms(1)
proof (induction ws)
  case (Cons w ws)
  then consider "prefix (l # op @ [r]) (w # ws)" | "sublist (l # op @ [r]) ws"
    by (auto simp: sublist_Cons_right)
  then show ?case
  proof cases
    case 1
    then show ?thesis by (rule compared_prefix [OF _ assms(2-4)])
  next
    case 2
    from Cons.IH [OF 2] show ?thesis by (cases ws; cases "tl ws") auto
  qed
qed simp

lemma reads_row_texts:
  assumes "map Text ts = ws" and "\<And>l r. (l, r) \<in> set (compared ws) \<Longrightarrow> reads_pair u val l r"
  shows "reads_row u val ts"
  unfolding reads_row_def
proof (intro allI impI)
  fix l op r
  assume *: "sublist (l # op @ [r]) ts \<and> op \<noteq> [] \<and> length op \<le> 2
    \<and> concat (map Text op) \<in> {''='', ''<'', ''>'', ''!='', ''<>'', ''<='', ''>=''}"
  then have "sublist (map Text (l # op @ [r])) ws"
    unfolding assms(1) [symmetric] by (blast intro: map_mono_sublist)
  with * have "(Text l, Text r) \<in> set (compared ws)"
    by (intro compared_sublist [where op = "map Text op"]) (auto simp: comparison_def)
  then show "reads_pair u val (Text l) (Text r)" by (rule assms(2))
qed

text \<open>A row on which everything but the numbers is NULL.\<close>

definition digits_value :: "string \<Rightarrow> nat option" where
  "digits_value s = (if s = ''1'' then Some 1 else if s = ''2'' then Some 2 else None)"

lemma or_tokens:
  "map Text (lexed DialectGeneric ''(1<2 OR a=b)'') = [''('', ''1'', ''<'', ''2'', ''OR'', ''a'', ''='', ''b'', '')'']"
  by code_simp

lemma or_operands:
  "parse_float ''a'' = None" "parse_float ''b'' = None"
  "\<not> equal_fold ascii_tables ''1'' ''2''" "\<not> equal_fold ascii_tables ''a'' ''b''"
  "\<not> literal_token ''a''"
  "parse_float ''1'' = Some (FFin 4503599627370496 (- 52))"
  "parse_float ''2'' = Some (FFin 4503599627370496 (- 51))"
  "fin_less 4503599627370496 (- 52) 4503599627370496 (- 51)"
  "\<not> fin_less 4503599627370496 (- 51) 4503599627370496 (- 52)"
  by code_simp+


text \<open>Two spellings of one number are taken for two values, so a condition that always holds
  passes for one that restricts.\<close>

lemma spellings_differ:
  "constant_boolean ascii_tables (lexed DialectGeneric ''1=01'') = (True, False)"
  by code_simp

subsection \<open>The effective WHERE of the writes\<close>

text \<open>
  The declarative reading: the positions of the writing verbs (a verb right after FOR locks
  rows, it does not write), and those with a WHERE at their own depth, before that depth is
  left, whose condition is not a constant TRUE.
\<close>

definition write_positions :: "Token list \<Rightarrow> nat set" where
  "write_positions ts =
     {i. i < length ts \<and> write_verb (ts ! i) \<and> \<not> (0 < i \<and> keyword (ts ! (i - 1)) ''for'')}"

definition scoped :: "unicode \<Rightarrow> Token \<Rightarrow> Token list \<Rightarrow> bool" where
  "scoped u t after \<longleftrightarrow>
     (case find_where (Depth t) after of
        None \<Rightarrow> False
      | Some rest \<Rightarrow> \<not> where_at_depth_is_tautology u rest (Depth t))"

definition scoped_positions :: "unicode \<Rightarrow> Token list \<Rightarrow> nat set" where
  "scoped_positions u ts = {i. i < length ts \<and> scoped u (ts ! i) (drop (Suc i) ts)}"

definition verbs_from :: "bool \<Rightarrow> Token list \<Rightarrow> nat set" where
  "verbs_from after_for ts =
     {i. i < length ts \<and> write_verb (ts ! i)
         \<and> \<not> (if i = 0 then after_for else keyword (ts ! (i - 1)) ''for'')}"

lemma verbs_from_Cons:
  "verbs_from b (t # ts) =
     (if write_verb t \<and> \<not> b then insert 0 (Suc ` verbs_from (keyword t ''for'') ts)
      else Suc ` verbs_from (keyword t ''for'') ts)"
proof -
  have "i \<in> verbs_from b (t # ts) \<longleftrightarrow> i \<in> (if write_verb t \<and> \<not> b
      then insert 0 (Suc ` verbs_from (keyword t ''for'') ts)
      else Suc ` verbs_from (keyword t ''for'') ts)" for i
    by (cases i) (auto simp: verbs_from_def nth_Cons' image_iff)
  then show ?thesis by blast
qed

lemma scoped_positions_Cons:
  "scoped_positions u (t # ts) =
     (if scoped u t ts then {0} else {}) \<union> Suc ` scoped_positions u ts"
proof -
  have "i \<in> scoped_positions u (t # ts) \<longleftrightarrow>
      i \<in> (if scoped u t ts then {0} else {}) \<union> Suc ` scoped_positions u ts" for i
    by (cases i) (auto simp: scoped_positions_def image_iff)
  then show ?thesis by blast
qed

lemma effective_where_loop_iff:
  "effective_where_loop u found b ts \<longleftrightarrow>
     (found \<or> verbs_from b ts \<noteq> {}) \<and> verbs_from b ts \<subseteq> scoped_positions u ts"
proof (induction u found b ts rule: effective_where_loop.induct)
  case (1 u found b)
  then show ?case by (simp add: verbs_from_def)
next
  case (2 u found b t ts)
  then show ?case
    by (auto simp: verbs_from_Cons scoped_positions_Cons scoped_def inj_image_subset_iff split: option.splits)
qed

text \<open>\<open>writesHaveEffectiveWhere\<close> holds exactly when the statement has a writing verb and
  every writing verb in it, nested ones included, is governed by a WHERE at its own depth
  whose condition is not constantly true.\<close>

lemma effective_where_covers_every_write:
  "writes_have_effective_where u ts \<longleftrightarrow>
     write_positions ts \<noteq> {} \<and> write_positions ts \<subseteq> scoped_positions u ts"
proof -
  have "verbs_from False ts = write_positions ts"
    by (auto simp: verbs_from_def write_positions_def split: if_splits)
  then show ?thesis
    by (simp add: writes_have_effective_where_def effective_where_loop_iff)
qed

subsection \<open>Scripts\<close>

text \<open>The record of a script of several statements describes all of them: its kind is the
  riskiest of theirs, its flags are their union, and its tables are the tables of all of
  them, each once.\<close>

lemma script_describes_every_statement:
  assumes "splitStatements u d sql = Inr ss" and "2 \<le> length ss"
  shows "snd (parse_dialect u d sql) = None
    \<and> (let info = fst (parse_dialect u d sql); parts = set (map (script_part u d) ss) in
         (\<forall>p \<in> parts. script_rank (Kind p) \<le> script_rank (Kind info))
       \<and> Kind info \<in> insert Session (Kind ` parts)
       \<and> (IsDrop info \<longleftrightarrow> (\<exists>p \<in> parts. IsDrop p))
       \<and> (IsTruncate info \<longleftrightarrow> (\<exists>p \<in> parts. IsTruncate p))
       \<and> (TouchesSession info \<longleftrightarrow> (\<exists>p \<in> parts. TouchesSession p))
       \<and> (ControlsTransaction info \<longleftrightarrow> (\<exists>p \<in> parts. ControlsTransaction p))
       \<and> (SwitchesDatabase info \<longleftrightarrow> (\<exists>p \<in> parts. SwitchesDatabase p))
       \<and> set (Tables info) = (\<Union>p \<in> parts. set (Tables p)) \<and> distinct (Tables info)
       \<and> IsScript info)"
proof -
  have parts: "map (script_part u d) ss \<noteq> []" using assms(2) by auto
  show ?thesis
    unfolding parse_dialect_script [OF assms] merge_script_def script_parts_split [OF assms(1)]
    using risk_of_parts_max [of _ "map (script_part u d) ss" d sql]
      risk_of_parts_among [of d sql "map (script_part u d) ss"]
    by (simp add: merge_parts_fields [OF parts] distinct_tables_set distinct_tables_distinct
        del: set_map) simp
qed

text \<open>The script the witnesses run on.\<close>

lemma two_statements:
  "splitStatements ascii_tables DialectPostgres ''use a; delete from t'' =
     Inr [''use a'', ''delete from t'']"
  by code_simp

lemma script_describes_every_statement_witness:
  "script_rank (Kind (script_part ascii_tables DialectPostgres ''delete from t''))
     \<le> script_rank (Kind (fst (parse_dialect ascii_tables DialectPostgres ''use a; delete from t'')))"
  using script_describes_every_statement [OF two_statements] by (simp add: Let_def)

text \<open>\<open>LacksWhere\<close> is exact on a script: it answers true for UPDATE (or DELETE) if and only
  if some statement of the script is an UPDATE (a DELETE) without an effective WHERE; a WHERE
  elsewhere in the script never hides one, and a scoped statement is never blamed.\<close>

lemma script_lacks_where_exact:
  assumes "splitStatements u d sql = Inr ss" and "2 \<le> length ss"
    and "k = Update \<or> k = Delete"
  shows "lacks_where (fst (parse_dialect u d sql)) k \<longleftrightarrow>
     (\<exists>s \<in> set ss. Kind (script_part u d s) = k \<and> \<not> HasWhere (script_part u d s))"
proof -
  have parts: "map (script_part u d) ss \<noteq> []" using assms(2) by auto
  show ?thesis
    by (simp add: parse_dialect_script [OF assms(1,2)] merge_script_def
        script_parts_split [OF assms(1)] merge_parts_lacks_write [OF parts assms(3)])
qed

lemma delete_part:
  "Kind (script_part ascii_tables DialectPostgres ''delete from t'') = Delete"
  "\<not> HasWhere (script_part ascii_tables DialectPostgres ''delete from t'')"
  by code_simp+

lemma script_lacks_where_exact_witness:
  "lacks_where (fst (parse_dialect ascii_tables DialectPostgres ''use a; delete from t'')) Delete"
  using script_lacks_where_exact [OF two_statements, of Delete] delete_part by simp

subsection \<open>The verdict on a text\<close>

text \<open>Every classified statement has one of the eight kinds of the code.\<close>

definition proper_kind :: "kind \<Rightarrow> bool" where
  "proper_kind k \<longleftrightarrow> k \<noteq> Multi \<and> k \<noteq> NoKind"

lemma proper_kind_simps [simp]:
  "proper_kind Select" "proper_kind Insert" "proper_kind Update" "proper_kind Delete"
  "proper_kind DDL" "proper_kind Session" "proper_kind Other" "proper_kind Unknown"
  by (simp_all add: proper_kind_def)

lemma token_kind_proper: "token_kind w = Some k \<Longrightarrow> proper_kind k"
  by (auto simp: token_kind_def proper_kind_def split: if_splits)

lemma with_loop_proper:
  "proper_kind command \<Longrightarrow> proper_kind risk \<Longrightarrow> proper_kind (fst (with_loop prev command risk ts))"
proof (induction prev command risk ts rule: with_loop.induct)
  case (2 prev command risk t ts)
  then show ?case
    using token_kind_proper [of "Lower t"] by (cases "token_kind (Lower t)") auto
qed simp

lemma block_step_proper: "proper_kind (Kind info) \<Longrightarrow> proper_kind (Kind (block_step info t))"
  by (auto simp: block_step_def Let_def proper_kind_def split: option.splits if_splits
      dest!: token_kind_proper)

lemma classify_block_proper: "proper_kind (Kind (classify_block info))"
proof -
  have "proper_kind (Kind (foldl block_step i ts))" if "proper_kind (Kind i)" for i ts
    using that by (induction ts arbitrary: i) (simp_all add: block_step_proper)
  then show ?thesis by (simp add: classify_block_def proper_kind_def)
qed

lemma classify_with_proper: "proper_kind (fst (classify_with ts))"
  by (simp add: classify_with_def with_loop_proper split: list.splits)

lemma classify_first_proper: "proper_kind (Kind (classify_first info))"
  using classify_block_proper classify_with_proper [of "Tokens info"]
  by (simp add: classify_first_def Let_def case_prod_beta split: list.splits)

lemma classify_tokens_proper: "proper_kind (Kind (classify_tokens u info))"
proof -
  have "Kind (mark_session_effects i) = Kind i" for i
    by (simp add: mark_session_effects_def Let_def split: list.splits)
  then show ?thesis
    using classify_first_proper [of info]
    by (simp add: classify_tokens_def reclassify_def judge_where_def default_command_def Let_def
        proper_kind_def)
qed

lemma script_part_proper: "proper_kind (Kind (script_part u d s))"
  using classify_tokens_proper
  by (auto simp: script_part_def classify_statement_def Let_def unknown_info_def proper_kind_def
      split: sum.splits list.splits)

text \<open>The record of a text, one statement or several, against its statements.\<close>

lemma parse_dialect_kind:
  assumes split: "splitStatements u d sql = Inr ss" and s: "s \<in> set ss"
  shows "script_rank (Kind (script_part u d s)) \<le> script_rank (Kind (fst (parse_dialect u d sql)))"
proof (cases "2 \<le> length ss")
  case True
  then have "map (script_part u d) ss \<noteq> []" by auto
  then show ?thesis
    using risk_of_parts_max [of "script_part u d s" "map (script_part u d) ss" d sql] s
    by (simp add: parse_dialect_script [OF split True] merge_script_def
        script_parts_split [OF split] merge_parts_fields)
next
  case False
  with s have "ss = [s]" by (cases ss; cases "tl ss") auto
  then show ?thesis
    using split by (auto simp: parse_dialect_def script_part_def classify_statement_def Let_def
        unknown_info_def split: sum.splits list.splits)
qed

lemma parse_dialect_lacks:
  assumes split: "splitStatements u d sql = Inr ss" and s: "s \<in> set ss"
    and k: "Kind (script_part u d s) = k" "k = Update \<or> k = Delete" "\<not> HasWhere (script_part u d s)"
  shows "lacks_where (fst (parse_dialect u d sql)) k"
proof (cases "2 \<le> length ss")
  case True
  then have "map (script_part u d) ss \<noteq> []" by auto
  from merge_parts_lacks_write [OF this k(2)] show ?thesis
    using s k by (auto simp: parse_dialect_script [OF split True] merge_script_def
        script_parts_split [OF split])
next
  case False
  with s have "ss = [s]" by (cases ss; cases "tl ss") auto
  then show ?thesis
    using split k by (auto simp: parse_dialect_def script_part_def lacks_where_def
        split: prod.splits option.splits)
qed

definition where_policy :: "kind \<Rightarrow> string" where
  "where_policy k = (if k = Delete then ''deny_delete_without_where'' else ''deny_update_without_where'')"

lemma passes_scoped:
  assumes "passes input" and "k = Update \<or> k = Delete" and "lacks_where (Statement input) k"
  shows "Cleared input \<or> Disabled input (where_policy k)"
proof -
  note p = assms(1) [unfolded passes_def Let_def]
  from assms(2) show ?thesis
  proof
    assume k: "k = Update"
    with p assms(3) show ?thesis by (simp only: where_policy_def kind.distinct if_False) 
  next
    assume k: "k = Delete"
    with p assms(3) show ?thesis by (simp only: where_policy_def if_True simp_thms)
  qed
qed

lemma unscoped_write_fails:
  assumes "splitStatements u d sql = Inr ss" and "s \<in> set ss"
    and "Kind (script_part u d s) = k" and "k = Update \<or> k = Delete"
    and "\<not> HasWhere (script_part u d s)"
    and "Statement input = fst (parse_dialect u d sql)"
    and "\<not> Cleared input" and "\<not> Disabled input (where_policy k)"
  shows "\<exists>x. Some x \<in> set (guardrails input)"
proof -
  have "\<not> passes input"
  proof
    assume "passes input"
    from passes_scoped [OF this assms(4)] parse_dialect_lacks [OF assms(1-5)] assms(6-8)
    show False by simp
  qed
  then show ?thesis
    unfolding guardrails_pass_iff [symmetric] by (metis insertI1 not_None_eq subsetI)
qed

text \<open>A WHERE of an UPDATE or DELETE counts exactly when it covers every writing verb of the
  statement, those of its data-changing CTEs included.\<close>

definition every_write_scoped :: "unicode \<Rightarrow> Info \<Rightarrow> bool" where
  "every_write_scoped u info \<longleftrightarrow>
     write_positions (Tokens info) \<noteq> {} \<and> write_positions (Tokens info) \<subseteq> scoped_positions u (Tokens info)"

lemma classify_block_tokens: "Tokens (classify_block info) = Tokens info"
proof -
  have "Tokens (foldl block_step i ts) = Tokens i" for i ts
    by (induction ts arbitrary: i) (simp_all add: block_step_def Let_def split: option.splits)
  then show ?thesis by (simp add: classify_block_def)
qed

lemma classify_first_tokens: "Tokens (classify_first info) = Tokens info"
  by (simp add: classify_first_def Let_def classify_block_tokens case_prod_beta split: list.splits)

lemma mark_session_effects_fields:
  "Tokens (mark_session_effects info) = Tokens info" "Kind (mark_session_effects info) = Kind info"
  "HasWhere (mark_session_effects info) = HasWhere info"
  by (simp_all add: mark_session_effects_def Let_def split: list.splits)

lemma classify_tokens_where:
  assumes "Kind (classify_tokens u info) = Update \<or> Kind (classify_tokens u info) = Delete"
  shows "HasWhere (classify_tokens u info) \<longleftrightarrow> every_write_scoped u (classify_tokens u info)"
  using assms
  by (auto simp: classify_tokens_def reclassify_def judge_where_def default_command_def Let_def
      mark_session_effects_fields classify_first_tokens every_write_scoped_def
      effective_where_covers_every_write split: if_splits)

lemma script_part_where:
  assumes "Kind (script_part u d s) = Update \<or> Kind (script_part u d s) = Delete"
  shows "HasWhere (script_part u d s) \<longleftrightarrow> every_write_scoped u (script_part u d s)"
  using assms classify_tokens_where
  by (auto simp: script_part_def classify_statement_def Let_def unknown_info_def
      split: sum.splits list.splits)


text \<open>An input nobody cleared and whose workspace changed no guardrail.\<close>

definition default_input :: "Info \<Rightarrow> bool \<Rightarrow> Input" where
  "default_input stmt read_only = \<lparr>Statement = stmt, Role = ''user'', ReadOnly = read_only,
     Environment = [], Cleared = False, Disabled = (\<lambda>_. False), Enabled = (\<lambda>_. False)\<rparr>"


text \<open>What the classifier records of such a text.\<close>

definition cte_text :: string where
  "cte_text = ''with d as(delete from t)insert into u''"

definition cte_tokens :: Info where
  "cte_tokens = (zero_info DialectPostgres cte_text)\<lparr>Tokens := lexed DialectPostgres cte_text\<rparr>"

lemma cte_first:
  "Kind (classify_first cte_tokens) = Insert" "IsDrop (classify_first cte_tokens) = False"
  "IsTruncate (classify_first cte_tokens) = False" "IsScript (classify_first cte_tokens) = False"
  "Unscoped (classify_first cte_tokens) = []" "extract_tables (Tokens cte_tokens) = [] \<longleftrightarrow> False"
  "writes_have_effective_where ascii_tables (Tokens cte_tokens) = False"
  by code_simp+

lemma cte_parsed: "fst (parse_dialect ascii_tables DialectPostgres cte_text) = classify_tokens ascii_tables cte_tokens"
proof -
  have "splitStatements ascii_tables DialectPostgres cte_text = Inr [cte_text]"
    "LexDialect ascii_tables DialectPostgres cte_text = Inr (lexed DialectPostgres cte_text)"
    "trim_space cte_text = cte_text" "lexed DialectPostgres cte_text = [] \<longleftrightarrow> False" by code_simp+
  then show ?thesis
    by (simp add: parse_dialect_def classify_statement_def cte_tokens_def Let_def split: list.splits)
qed

lemma mark_session_effects_flags:
  "IsDrop (mark_session_effects info) = IsDrop info" "IsTruncate (mark_session_effects info) = IsTruncate info"
  "IsScript (mark_session_effects info) = IsScript info" "Unscoped (mark_session_effects info) = Unscoped info"
  by (simp_all add: mark_session_effects_def Let_def split: list.splits)

lemma insert_stays:
  assumes "Kind (classify_first info) = Insert" and "extract_tables (Tokens info) \<noteq> []"
  shows "Kind (classify_tokens u info) = Insert"
    "IsDrop (classify_tokens u info) = IsDrop (classify_first info)"
    "IsTruncate (classify_tokens u info) = IsTruncate (classify_first info)"
    "IsScript (classify_tokens u info) = IsScript (classify_first info)"
    "Unscoped (classify_tokens u info) = Unscoped (classify_first info)"
  using assms
  by (simp_all add: classify_tokens_def reclassify_def judge_where_def default_command_def Let_def
      mark_session_effects_flags mark_session_effects_fields classify_first_tokens writes_only_to_a_table_variable_def
      select_creates_something_def)

lemma delete_before_insert_passes:
  "Effect (Evaluate [] (default_input (fst (parse_dialect ascii_tables DialectPostgres cte_text)) False))
     = Allow"
  "\<not> every_write_scoped ascii_tables cte_tokens"
  using insert_stays [OF cte_first(1)] cte_first
  by (simp_all add: Evaluate_effect passes_def default_input_def lacks_where_def Let_def cte_parsed
      is_write_def every_write_scoped_def effective_where_covers_every_write [symmetric])

text \<open>C2: what a read-only role is allowed to run reads: unless the statement was cleared, every
  statement of an allowed text is a SELECT or a session statement, in whatever script it
  stands.\<close>

theorem read_only_runs_only_reads:
  assumes "splitStatements u d sql = Inr ss" and "s \<in> set ss"
    and "Statement input = fst (parse_dialect u d sql)"
    and "ReadOnly input" and "\<not> Cleared input" and "Effect (Evaluate rules input) \<noteq> Deny"
  shows "Kind (script_part u d s) = Select \<or> Kind (script_part u d s) = Session"
proof -
  let ?k = "Kind (fst (parse_dialect u d sql))"
  have "passes input"
    using assms(6) Evaluate_denies [of _ input rules] guardrails_pass_iff [of input]
    by (metis insertI1 not_None_eq subsetI)
  then have "\<not> is_write ?k \<and> ?k \<noteq> Other \<and> ?k \<noteq> Unknown"
    using assms(3-5) by (simp add: passes_def Let_def)
  then have "script_rank ?k \<le> 1" by (cases ?k) (auto simp: is_write_def script_rank_def)
  with parse_dialect_kind [OF assms(1,2)]
  have "script_rank (Kind (script_part u d s)) \<le> 1" by simp
  with script_part_proper [of u d s] show ?thesis
    by (cases "Kind (script_part u d s)") (auto simp: script_rank_def proper_kind_def)
qed

lemma one_read:
  "splitStatements ascii_tables DialectPostgres ''use a'' = Inr [''use a'']"
  "fst (parse_dialect ascii_tables DialectPostgres ''use a'') =
     (zero_info DialectPostgres ''use a'')\<lparr>Kind := Session, Command := Session,
       SwitchesDatabase := True, Tokens := lexed DialectPostgres ''use a''\<rparr>"
  by code_simp+

lemma read_only_runs_only_reads_witness:
  "Kind (script_part ascii_tables DialectPostgres ''use a'') \<in> {Select, Session}"
proof -
  let ?input = "default_input (fst (parse_dialect ascii_tables DialectPostgres ''use a'')) True"
  have "passes ?input"
    by (simp add: one_read(2) passes_def default_input_def zero_info_def lacks_where_def is_write_def)
  then have "Effect (Evaluate [] ?input) \<noteq> Deny" by (simp add: Evaluate_effect)
  then show ?thesis
    using read_only_runs_only_reads [OF one_read(1), of "''use a''" ?input "[]"]
    by (simp add: default_input_def)
qed

text \<open>C3: a text the parser cannot read is never run: when the lexer, the splitter or the
  classification of any one of its statements fails, every role is denied, a cleared
  statement included.\<close>

theorem unreadable_text_denied:
  assumes "snd (parse_dialect u d sql) \<noteq> None
       \<or> (\<exists>ss s. splitStatements u d sql = Inr ss \<and> s \<in> set ss \<and> snd (classify_statement u d s) \<noteq> None)"
    and "Statement input = fst (parse_dialect u d sql)"
  shows "Effect (Evaluate rules input) = Deny"
proof -
  have unknown: "Kind (script_part u d s) = Unknown" if "snd (classify_statement u d s) \<noteq> None" for s
    using that by (auto simp: script_part_def split: prod.splits option.splits)
  have error_unknown: "snd (parse_dialect u d sql) \<noteq> None \<Longrightarrow> Kind (fst (parse_dialect u d sql)) = Unknown"
    by (auto simp: parse_dialect_def classify_statement_def Let_def unknown_info_def
        split: sum.splits list.splits)
  have max_unknown: "5 \<le> script_rank k \<Longrightarrow> k = Unknown" for k
    by (cases k) (auto simp: script_rank_def)
  have "Kind (Statement input) = Unknown"
  proof (cases "snd (parse_dialect u d sql) = None")
    case True
    with assms(1) obtain ss s where s: "splitStatements u d sql = Inr ss" "s \<in> set ss"
      and "snd (classify_statement u d s) \<noteq> None" by blast
    with unknown parse_dialect_kind [OF s] show ?thesis
      by (simp add: assms(2) script_rank_def max_unknown)
  next
    case False
    with error_unknown assms(2) show ?thesis by simp
  qed
  then have "Some (denied ''unknown_statement'' ''unclassifiable SQL is forbidden'' Critical)
      \<in> set (guardrails input)"
    by (simp add: guardrails_def Let_def)
  then show ?thesis by (rule Evaluate_denies)
qed

lemma unreadable_text_denied_witness:
  "Effect (Evaluate [] (default_input (fst (parse_dialect ascii_tables DialectPostgres [])) False)) = Deny"
  by (rule unreadable_text_denied [of ascii_tables DialectPostgres "[]"])
    (simp_all add: default_input_def parse_dialect_def splitStatements_def LexDialect_def
      nonempty_part_def)

subsection \<open>The parse cache\<close>

text \<open>A sequence of calls of \<open>ParseDialect\<close> on one cache, and their answers.\<close>

fun parse_all :: "unicode \<Rightarrow> (dialect \<times> string) list \<Rightarrow> parse_cache \<Rightarrow> parsed list" where
  "parse_all u [] c = []"
| "parse_all u ((d, sql) # calls) c =
     (case ParseDialect u d sql c of (p, c') \<Rightarrow> p # parse_all u calls c')"

lemma parse_all_uncached:
  "cache_ok u c \<Longrightarrow> parse_all u calls c = map (\<lambda>(d, sql). parse_uncached u d sql) calls"
proof (induction u calls c rule: parse_all.induct)
  case (2 u d sql calls c)
  with ParseDialect_transparent [OF 2(2), of d sql] show ?case by (auto split: prod.splits)
qed simp

text \<open>C31: the cache never changes an answer: for every sequence of calls from the empty cache,
  with its evictions and its shared shards, every call of \<open>ParseDialect\<close> returns what the
  parser computes on that text and dialect.\<close>

theorem parse_cache_is_transparent:
  "parse_all u calls empty_cache = map (\<lambda>(d, sql). parse_uncached u d sql) calls"
  by (rule parse_all_uncached [OF cache_ok_empty])

text \<open>The ring of a shard implements a bounded first-in-first-out queue: after any sequence
  of insertions the shard holds exactly the keys of the abstract queue, in its age order, and
  never more than the limit.\<close>

lemma shard_is_bounded_fifo:
  "let sh = foldl (\<lambda>sh (k, info). shard_insert k info sh) empty_shard ins;
       q = foldl (\<lambda>q (k, info). queue_insert k q) [] ins in
   age_order sh = q \<and> dom (entries sh) = set q \<and> distinct q \<and> length q \<le> parse_cache_shard_limit"
proof -
  have "shard_ok sh \<Longrightarrow> shard_ok (foldl (\<lambda>sh (k, info). shard_insert k info sh) sh ins)
      \<and> age_order (foldl (\<lambda>sh (k, info). shard_insert k info sh) sh ins)
        = foldl (\<lambda>q (k, info). queue_insert k q) (age_order sh) ins" for sh
  proof (induction ins arbitrary: sh)
    case (Cons i ins)
    obtain k info where i: "i = (k, info)" by (cases i)
    from Cons.IH [OF shard_insert_ok [OF Cons.prems, of k info]] shard_insert_age [OF Cons.prems]
    show ?case by (simp add: i)
  qed simp
  from this [OF shard_ok_empty] show ?thesis
    by (auto simp: Let_def shard_ok_def age_order_def empty_shard_def
        dest!: sym [of "rotate _ _"])
qed

subsection \<open>CQL\<close>

text \<open>A CQL batch the guard accepts is as restrictive as its most restrictive child: all of
  its statements are inserts, updates or deletes, its tables are theirs, it has a WHERE only
  if every update and delete has one, and it is a delete (an update) when a child is.\<close>

lemma cql_batch_covers_children:
  assumes "cache_ok u c" and "batch_loop u raw (batch_start raw) children c = ((info, None), c')"
  shows "let parsed = map (\<lambda>s. parse_uncached u DialectGeneric s) children; infos = map fst parsed in
     list_all batch_child_ok parsed
     \<and> set (Tables info) = (\<Union>i \<in> set infos. set (Tables i))
     \<and> (HasWhere info \<longleftrightarrow> list_all (\<lambda>i. is_write (Kind i) \<longrightarrow> Kind i = Insert \<or> HasWhere i) infos)
     \<and> Kind info = (if \<exists>i \<in> set infos. Kind i = Delete then Delete
                    else if \<exists>i \<in> set infos. Kind i = Update then Update else Insert)"
proof -
  from batch_loop_fold [OF assms] have info: "info = foldl batch_absorb (batch_start raw)
      (map (\<lambda>s. fst (parse_uncached u DialectGeneric s)) children)"
    and ok: "\<forall>s \<in> set children. batch_child_ok (parse_uncached u DialectGeneric s)" by auto
  from ok show ?thesis
    unfolding info Let_def batch_fold_fields
    by (auto simp: list_all_iff batch_start_def zero_info_def is_write_def batch_child_ok_def)
qed

lemma cql_child:
  "fst (batch_loop ascii_tables [] (batch_start []) [''delete from t''] empty_cache) =
     (batch_absorb (batch_start []) (script_part ascii_tables DialectGeneric ''delete from t''), None)"
  by code_simp

lemma cql_batch_covers_children_witness:
  "Kind (batch_absorb (batch_start []) (script_part ascii_tables DialectGeneric ''delete from t'')) \<in> {Delete, Update, Insert}"
proof -
  obtain c' where "batch_loop ascii_tables [] (batch_start []) [''delete from t''] empty_cache =
      ((batch_absorb (batch_start []) (script_part ascii_tables DialectGeneric ''delete from t''), None), c')"
    using cql_child by (metis prod.collapse)
  from cql_batch_covers_children [OF cache_ok_empty this] show ?thesis
    by (simp add: Let_def)
qed

subsection \<open>Where the code differs from what it means\<close>

text \<open>
  Facts about concrete texts, each the model's answer where a database reads the text
  differently. They are the evidence for the findings of the manifest.
\<close>

text \<open>A string that is never closed is accepted when its last byte is a quote.\<close>

lemma unterminated_string_accepted:
  "map Text (lexed DialectGeneric [CHR 0x27]) = [[CHR 0x27]]"
  by code_simp

text \<open>PostgreSQL ends the escape string at the second quote, and runs the DELETE after it.\<close>

lemma postgres_escape_string_hides_delete:
  "Kind (fst (parse_dialect ascii_tables DialectPostgres
     (''select E'' @ [CHR 0x27, CHR 0x5C, CHR 0x27, CHR 0x27] @ ''; delete from t; --'' @ [CHR 0x27]))) = Select"
  by code_simp

text \<open>MySQL reads a comment only where white space follows the two dashes.\<close>

lemma mysql_double_minus_hides_condition:
  "writes_have_effective_where ascii_tables (lexed DialectMySQL ''delete from t where a=b --c or true'')"
  by code_simp

text \<open>Two tables whose quoted names differ only in where the dot stands share one key.\<close>

lemma table_keys_collide:
  "table_key \<lparr>Schema = ''x.y'', Name = ''z'', Alias = []\<rparr>
   = table_key \<lparr>Schema = ''x'', Name = ''y.z'', Alias = []\<rparr>"
  by (simp add: table_key_def)

end
