(* ===== verification/Domain.thy ===== *)
theory Domain
  imports Prelude Strconv
begin

section \<open>The domain records (internal/domain/models.go) and what handlers answer\<close>

text \<open>
  The structs of \<open>domain\<close> that the modelled components read, field by field; a pointer that
  may be nil is an option. Fields carry a prefix, since Isabelle's records share one name
  space. An HTTP handler of the program writes one response: its status and, for an error,
  the code and message of \<open>writeError\<close>.
\<close>

record Identity =
  UserID :: string
  OrgID :: string
  Email :: string
  IRole :: string

record Connection =
  conn_ID :: string
  conn_OrgID :: string
  conn_Name :: string
  conn_Engine :: string
  conn_Host :: string
  conn_Port :: int
  conn_Database :: string
  conn_Environment :: string
  conn_TLSRequired :: bool
  conn_TLSMode :: string
  conn_QueryTimeoutSeconds :: int
  conn_ReadOnly :: bool

record ConnectionNode =
  node_ID :: string
  node_Host :: string
  node_Port :: int
  node_DetectedRole :: string
  node_Health :: string
  node_ReadOnly :: bool
  node_LastCheckedAt :: "string option"

record PolicyOverride =
  ovr_Key :: string
  ovr_Enabled :: bool
  ovr_Config :: "string option"

record CustomPolicy =
  cp_ID :: string
  cp_OrgID :: string
  cp_Name :: string
  cp_Kind :: string
  cp_Config :: string
  cp_ConnectionID :: "string option"
  cp_RoleName :: "string option"
  cp_Enabled :: bool
  cp_CreatedAt :: string

definition equalFoldASCII :: "string \<Rightarrow> string \<Rightarrow> bool" where
  "equalFoldASCII a b \<longleftrightarrow>
     (if length a \<noteq> length b then False
      else list_all2 (\<lambda>ac bc. lower_byte ac = lower_byte bc) a b)"

definition IsAdmin :: "Identity \<Rightarrow> bool" where
  "IsAdmin i \<longleftrightarrow> equalFoldASCII (IRole i) ''admin''"

definition LegacyTLSMode :: "unicode \<Rightarrow> string \<Rightarrow> bool \<Rightarrow> string" where
  "LegacyTLSMode u engine required =
     (if \<not> required then ''disable''
      else if equal_fold u engine ''mysql'' \<or> equal_fold u engine ''mariadb'' then ''verify-full''
      else ''require'')"

definition EffectiveTLSMode :: "unicode \<Rightarrow> Connection \<Rightarrow> string" where
  "EffectiveTLSMode u c =
     (if conn_TLSMode c \<noteq> [] then conn_TLSMode c
      else LegacyTLSMode u (conn_Engine c) (conn_TLSRequired c))"

datatype response = Answer nat | Refused nat string string

fun status :: "response \<Rightarrow> nat" where
  "status (Answer n) = n"
| "status (Refused n code message) = n"

text \<open>\<open>writeStoreError\<close> on the three kinds of error a store method returns.\<close>

datatype store_error = Duplicate | NotFound | DatabaseError

fun writeStoreError :: "store_error \<Rightarrow> response" where
  "writeStoreError Duplicate = Refused 409 ''ALIAS_EXISTS'' ''resource already exists''"
| "writeStoreError NotFound = Refused 404 ''NOT_FOUND'' ''resource not found''"
| "writeStoreError DatabaseError = Refused 500 ''INTERNAL'' ''database error''"

text \<open>\<open>stringValue\<close>: the empty string for a nil pointer.\<close>

definition stringValue :: "string option \<Rightarrow> string" where
  "stringValue v = (case v of None \<Rightarrow> [] | Some s \<Rightarrow> s)"

lemma equalFoldASCII_equal_fold:
  "all_ascii a \<Longrightarrow> all_ascii b \<Longrightarrow> equalFoldASCII a b = equal_fold u a b"
proof -
  have "(map lower_byte a = map lower_byte b) \<longleftrightarrow>
      length a = length b \<and> list_all2 (\<lambda>ac bc. lower_byte ac = lower_byte bc) a b" for a b
    by (auto simp: list_all2_conv_all_nth list_eq_iff_nth_eq)
  then show "all_ascii a \<Longrightarrow> all_ascii b \<Longrightarrow> equalFoldASCII a b = equal_fold u a b"
    by (simp add: equalFoldASCII_def equal_fold_def)
qed

end
