(* ===== verification/Keyed_Store.thy ===== *)
theory Keyed_Store
  imports Prelude
begin

section \<open>The contract of a table with a unique key\<close>

text \<open>
  The handlers rely on the tables of the store as on maps: what a lookup by key returns after
  an insert-or-update and after a delete. \<open>merge\<close> says what an update keeps of the row it
  finds (the \<open>COALESCE\<close> of an upsert). The locale states these laws and derives what any
  sequence of operations leaves behind; each store discharges the laws on its own table.
\<close>

datatype ('k, 'v) table_op = Put 'k 'v | Remove 'k

locale keyed_store =
  fixes inv :: "'t \<Rightarrow> bool"
    and lookup :: "'t \<Rightarrow> 'k \<Rightarrow> 'v option"
    and put :: "'k \<Rightarrow> 'v \<Rightarrow> 't \<Rightarrow> 't"
    and remove :: "'k \<Rightarrow> 't \<Rightarrow> 't"
    and merge :: "'v option \<Rightarrow> 'v \<Rightarrow> 'v"
  assumes put_inv: "inv t \<Longrightarrow> inv (put k v t)"
    and remove_inv: "inv t \<Longrightarrow> inv (remove k t)"
    and lookup_put: "inv t \<Longrightarrow> lookup (put k v t) = (lookup t)(k \<mapsto> merge (lookup t k) v)"
    and lookup_remove: "inv t \<Longrightarrow> lookup (remove k t) = (lookup t)(k := None)"
begin

fun run :: "('k, 'v) table_op list \<Rightarrow> 't \<Rightarrow> 't" where
  "run [] t = t"
| "run (Put k v # ops) t = run ops (put k v t)"
| "run (Remove k # ops) t = run ops (remove k t)"

fun run_map :: "('k, 'v) table_op list \<Rightarrow> ('k \<Rightarrow> 'v option) \<Rightarrow> 'k \<Rightarrow> 'v option" where
  "run_map [] m = m"
| "run_map (Put k v # ops) m = run_map ops (m(k \<mapsto> merge (m k) v))"
| "run_map (Remove k # ops) m = run_map ops (m(k := None))"

lemma run_refines: "inv t \<Longrightarrow> inv (run ops t) \<and> lookup (run ops t) = run_map ops (lookup t)"
  by (induction ops t rule: run.induct)
    (simp_all add: put_inv remove_inv lookup_put lookup_remove)

lemma put_elsewhere: "inv t \<Longrightarrow> k \<noteq> j \<Longrightarrow> lookup (put k v t) j = lookup t j"
  by (simp add: lookup_put)

lemma remove_put_same: "inv t \<Longrightarrow> lookup (remove k (put k v t)) = lookup (remove k t)"
  by (simp add: lookup_put lookup_remove put_inv)

end

end
