(* ===== verification/Overrides.thy ===== *)
theory Overrides
  imports Domain Policy Keyed_Store "HOL-Library.Multiset"
begin

section \<open>Policy overrides: the table, the handlers and what a request resolves (api/policies.go,
  store/governance.go, resolvePolicies of api/query.go)\<close>

text \<open>
  The table \<open>policies\<close> is the list of its rows; \<open>(org_id, rule_type)\<close> is unique in
  it. A store method returns its error or the new table; a fault of the database itself is
  the parameter \<open>fault\<close>, under which the statement has no effect. The catalog's texts for
  the screen are left out; \<open>registered\<close> are the definitions added with \<open>RegisterPolicy\<close>.
\<close>

subsection \<open>The catalog\<close>

record policyDefinition =
  def_Key :: string
  def_Risk :: string
  def_HasValue :: bool
  def_Default :: bool
  def_Shared :: bool

definition entry :: "string \<Rightarrow> string \<Rightarrow> bool \<Rightarrow> bool \<Rightarrow> policyDefinition" where
  "entry key risk has_value dflt =
     \<lparr>def_Key = key, def_Risk = risk, def_HasValue = has_value, def_Default = dflt, def_Shared = False\<rparr>"

definition policyCatalog :: "policyDefinition list" where
  "policyCatalog =
     [entry ''deny_select_without_where'' ''medium'' False False,
      entry ''deny_delete_without_where'' ''critical'' False True,
      entry ''deny_update_without_where'' ''critical'' False True,
      entry ''deny_drop'' ''critical'' False True,
      entry ''deny_truncate'' ''high'' False True,
      entry ''limit_rows'' ''low'' True True,
      entry ''query_timeout_seconds'' ''medium'' True False,
      entry ''deny_multi_statement'' ''high'' False False,
      entry ''deny_unclassified'' ''high'' False False]"

text \<open>\<open>RegisterPolicy\<close> appends to the catalog; every registered definition is shared.\<close>

definition RegisterPolicy :: "policyDefinition \<Rightarrow> policyDefinition list \<Rightarrow> policyDefinition list" where
  "RegisterPolicy d catalog = catalog @ [d\<lparr>def_Shared := True\<rparr>]"

definition policyKnown :: "policyDefinition list \<Rightarrow> string \<Rightarrow> policyDefinition option" where
  "policyKnown catalog key = find (\<lambda>item. def_Key item = key) catalog"

subsection \<open>The table\<close>

record policy_row =
  row_OrgID :: string
  row_Key :: string
  row_Enabled :: bool
  row_Config :: "string option"

type_synonym policy_table = "policy_row list"

definition has_row :: "string \<Rightarrow> string \<Rightarrow> policy_row \<Rightarrow> bool" where
  "has_row org key row \<longleftrightarrow> row_OrgID row = org \<and> row_Key row = key"

definition ListPolicyOverrides :: "policy_table \<Rightarrow> string \<Rightarrow> PolicyOverride list" where
  "ListPolicyOverrides table org =
     map (\<lambda>row. \<lparr>ovr_Key = row_Key row, ovr_Enabled = row_Enabled row, ovr_Config = row_Config row\<rparr>)
       (filter (\<lambda>row. row_OrgID row = org) table)"

text \<open>The upsert: \<open>config=COALESCE(excluded.config,policies.config)\<close>.\<close>

definition SetPolicyOverride ::
  "string \<Rightarrow> string \<Rightarrow> bool \<Rightarrow> string option \<Rightarrow> policy_table \<Rightarrow> policy_table" where
  "SetPolicyOverride org key enabled config table =
     (if list_ex (has_row org key) table
      then map (\<lambda>row. if has_row org key row
                      then row\<lparr>row_Enabled := enabled,
                               row_Config := (if config = None then row_Config row else config)\<rparr>
                      else row) table
      else table @ [\<lparr>row_OrgID = org, row_Key = key, row_Enabled = enabled, row_Config = config\<rparr>])"

definition DeletePolicyOverride :: "string \<Rightarrow> string \<Rightarrow> policy_table \<Rightarrow> policy_table" where
  "DeletePolicyOverride org key table = filter (\<lambda>row. \<not> has_row org key row) table"

text \<open>The table as a map: what one organisation stores under one key.\<close>

definition override_at :: "policy_table \<Rightarrow> string \<times> string \<Rightarrow> (bool \<times> string option) option" where
  "override_at table ok =
     map_option (\<lambda>row. (row_Enabled row, row_Config row)) (find (has_row (fst ok) (snd ok)) table)"

definition coalesce :: "(bool \<times> string option) option \<Rightarrow> bool \<times> string option \<Rightarrow> bool \<times> string option" where
  "coalesce old new =
     (fst new, if snd new = None then (case old of None \<Rightarrow> None | Some o1 \<Rightarrow> snd o1) else snd new)"

definition unique_rows :: "policy_table \<Rightarrow> bool" where
  "unique_rows table \<longleftrightarrow> distinct (map (\<lambda>row. (row_OrgID row, row_Key row)) table)"

lemma unique_rows_Cons:
  "unique_rows (r # t) \<longleftrightarrow> \<not> list_ex (has_row (row_OrgID r) (row_Key r)) t \<and> unique_rows t"
  by (auto simp: unique_rows_def list_ex_iff has_row_def image_iff)

lemma find_append: "find P (xs @ ys) = (case find P xs of None \<Rightarrow> find P ys | Some x \<Rightarrow> Some x)"
  by (induction xs) auto

lemma find_None_ex: "find P xs = None \<longleftrightarrow> \<not> list_ex P xs"
  by (auto simp: find_None_iff list_ex_iff)

lemma set_override_rows:
  "map (\<lambda>row. (row_OrgID row, row_Key row))
       (map (\<lambda>row. if has_row org key row
                   then row\<lparr>row_Enabled := e, row_Config := f row\<rparr> else row) table)
   = map (\<lambda>row. (row_OrgID row, row_Key row)) table"
  by (induction table) auto

lemma set_override_unique: "unique_rows t \<Longrightarrow> unique_rows (SetPolicyOverride org key e c t)"
proof (cases "list_ex (has_row org key) t")
  case True
  then show "unique_rows t \<Longrightarrow> ?thesis"
    by (simp only: SetPolicyOverride_def unique_rows_def set_override_rows if_True)
next
  case False
  then show "unique_rows t \<Longrightarrow> ?thesis"
    by (auto simp: SetPolicyOverride_def unique_rows_def list_ex_iff has_row_def)
qed

lemma find_map: "find P (map f xs) = map_option f (find (P \<circ> f) xs)"
  by (induction xs) auto

lemma find_holds: "find P xs = Some x \<Longrightarrow> P x"
  by (auto simp: find_Some_iff)

lemma set_override_at:
  "override_at (SetPolicyOverride org key e c t) =
     (override_at t)((org, key) \<mapsto> coalesce (override_at t (org, key)) (e, c))"
proof (cases "list_ex (has_row org key) t")
  case True
  let ?f = "\<lambda>row. if has_row org key row
     then row\<lparr>row_Enabled := e, row_Config := (if c = None then row_Config row else c)\<rparr> else row"
  have kept: "has_row o1 k1 \<circ> ?f = has_row o1 k1" for o1 k1
    by (auto simp: has_row_def fun_eq_iff)
  from True obtain r where r: "find (has_row org key) t = Some r"
    by (cases "find (has_row org key) t") (auto simp: find_None_ex)
  have "find (has_row o1 k1) (map ?f t) = map_option ?f (find (has_row o1 k1) t)" for o1 k1
    by (simp only: find_map kept)
  then have at: "override_at (SetPolicyOverride org key e c t) (o1, k1) =
      map_option (\<lambda>row. (row_Enabled row, row_Config row))
        (map_option ?f (find (has_row o1 k1) t))" for o1 k1
    by (simp only: SetPolicyOverride_def override_at_def True if_True fst_conv snd_conv)
  have "override_at (SetPolicyOverride org key e c t) (o1, k1) =
      ((override_at t)((org, key) \<mapsto> coalesce (override_at t (org, key)) (e, c))) (o1, k1)" for o1 k1
  proof (cases "(o1, k1) = (org, key)")
    case True
    with r find_holds [OF r] show ?thesis
      unfolding at by (auto simp: override_at_def coalesce_def)
  next
    case False
    have "map_option ?f (find (has_row o1 k1) t) = find (has_row o1 k1) t"
      using False find_holds [of "has_row o1 k1" t]
      by (cases "find (has_row o1 k1) t") (auto simp: has_row_def)
    with False show ?thesis unfolding at by (auto simp: override_at_def)
  qed
  then show ?thesis by auto
next
  case False
  then have "find (has_row org key) t = None" by (simp add: find_None_ex)
  with False show ?thesis
    by (auto simp: SetPolicyOverride_def override_at_def find_append coalesce_def has_row_def
        fun_eq_iff split: option.splits)
qed

lemma find_filter_other: "(\<And>x. P x \<Longrightarrow> Q x) \<Longrightarrow> find P (filter Q xs) = find P xs"
  by (induction xs) auto

lemma find_filter_none: "(\<And>x. P x \<Longrightarrow> \<not> Q x) \<Longrightarrow> find P (filter Q xs) = None"
  by (auto simp: find_None_iff)

lemma delete_override_at:
  "override_at (DeletePolicyOverride org key t) = (override_at t)((org, key) := None)"
proof
  fix ok
  show "override_at (DeletePolicyOverride org key t) ok = ((override_at t)((org, key) := None)) ok"
  proof (cases "ok = (org, key)")
    case True
    then show ?thesis by (simp add: override_at_def DeletePolicyOverride_def find_filter_none)
  next
    case False
    then have "has_row (fst ok) (snd ok) row \<Longrightarrow> \<not> has_row org key row" for row
      by (auto simp: has_row_def)
    with False show ?thesis
      by (simp add: override_at_def DeletePolicyOverride_def find_filter_other)
  qed
qed

lemma delete_override_unique: "unique_rows t \<Longrightarrow> unique_rows (DeletePolicyOverride org key t)"
  by (auto simp: DeletePolicyOverride_def unique_rows_def distinct_map intro: inj_on_subset)

interpretation override_store: keyed_store unique_rows override_at
  "\<lambda>k v. SetPolicyOverride (fst k) (snd k) (fst v) (snd v)"
  "\<lambda>k. DeletePolicyOverride (fst k) (snd k)" coalesce
  by unfold_locales
    (simp_all add: set_override_unique delete_override_unique set_override_at delete_override_at)

text \<open>\<open>seedDefaultPolicies\<close>: the rows a new organisation starts with.\<close>

definition defaultPolicies :: "(string \<times> string \<times> bool) list" where
  "defaultPolicies =
     [(''deny_select_without_where'', [], False), (''deny_delete_without_where'', [], True),
      (''deny_update_without_where'', [], True), (''deny_drop'', [], True),
      (''deny_truncate'', [], True), (''deny_unclassified'', [], False),
      (''deny_multi_statement'', [], False), (''limit_rows'', ''10000'', True)]"

definition seed_row :: "string \<Rightarrow> string \<times> string \<times> bool \<Rightarrow> policy_table \<Rightarrow> policy_table" where
  "seed_row org p table =
     (case p of (key, config, enabled) \<Rightarrow>
       if list_ex (has_row org key) table then table
       else table @ [\<lparr>row_OrgID = org, row_Key = key, row_Enabled = enabled,
                      row_Config = (if config \<noteq> [] then Some config else None)\<rparr>])"

definition seedDefaultPolicies :: "string \<Rightarrow> policy_table \<Rightarrow> policy_table" where
  "seedDefaultPolicies org table = fold (seed_row org) defaultPolicies table"

subsection \<open>The handlers\<close>

definition names_scope :: "string option \<Rightarrow> bool" where
  "names_scope v = (case v of None \<Rightarrow> False | Some s \<Rightarrow> trim_space s \<noteq> [] \<and> s \<noteq> ''*'')"

definition scopedPolicyKey :: "string \<Rightarrow> string option \<Rightarrow> string option \<Rightarrow> string" where
  "scopedPolicyKey key connectionID role =
     (if names_scope role then key @ ''@role:'' @ trim_space (stringValue role)
      else if names_scope connectionID then key @ ''@'' @ trim_space (stringValue connectionID)
      else key)"

text \<open>\<open>personalPolicyAllowed\<close>; \<open>custom_shared\<close> says whether \<open>customRules\<close> has the kind, and if so
  whether it is shared.\<close>

definition personalPolicyAllowed ::
  "policyDefinition list \<Rightarrow> (string \<Rightarrow> bool option) \<Rightarrow> bool \<Rightarrow> string \<Rightarrow> string option \<Rightarrow> response option" where
  "personalPolicyAllowed catalog custom_shared shared kind role =
     (if shared then None
      else
        (let scoped = (case role of None \<Rightarrow> False
                       | Some s \<Rightarrow> trim_space s \<noteq> [] \<and> trim_space s \<noteq> ''*'');
             builtin_shared = (case policyKnown catalog kind of None \<Rightarrow> False | Some d \<Rightarrow> def_Shared d)
         in if scoped \<or> builtin_shared \<or> custom_shared kind = Some True
            then Some (Refused 403 ''PERSONAL_WORKSPACE'' ''This policy is not available in a personal workspace'')
            else None))"

record togglePolicyInput =
  tog_Enabled :: bool
  tog_ConnectionID :: "string option"
  tog_Role :: "string option"
  tog_Value :: "string option"

definition toggle_value :: "string option \<Rightarrow> string option" where
  "toggle_value v = (case v of None \<Rightarrow> None
     | Some s \<Rightarrow> if trim_space s \<noteq> [] then Some (trim_space s) else None)"

definition valid_number :: "string \<Rightarrow> bool" where
  "valid_number s \<longleftrightarrow> (case atoi s of (n, ok) \<Rightarrow> ok \<and> 0 < n \<and> n \<le> 86400)"

definition togglePolicy ::
  "policyDefinition list \<Rightarrow> (string \<Rightarrow> bool option) \<Rightarrow> bool \<Rightarrow> store_error option \<Rightarrow> string \<Rightarrow> string \<Rightarrow>
   togglePolicyInput \<Rightarrow> policy_table \<Rightarrow> response \<times> policy_table" where
  "togglePolicy catalog custom_shared shared fault org key input table =
     (case policyKnown catalog key of
        None \<Rightarrow> (Refused 404 ''NOT_FOUND'' ''unknown policy'', table)
      | Some d \<Rightarrow>
          (case personalPolicyAllowed catalog custom_shared shared key (tog_Role input) of
             Some refusal \<Rightarrow> (refusal, table)
           | None \<Rightarrow>
               (let value = toggle_value (tog_Value input) in
                if def_HasValue d \<and> tog_Enabled input \<and> \<not> valid_number (stringValue value)
                then (Refused 400 ''BAD_REQUEST''
                        ''this policy requires a numeric value between 1 and 86400'', table)
                else if \<not> (def_HasValue d \<and> tog_Enabled input) \<and> \<not> def_HasValue d \<and> value \<noteq> None
                then (Refused 400 ''BAD_REQUEST'' ''this policy does not take a value'', table)
                else
                  (case fault of
                     Some e \<Rightarrow> (writeStoreError e, table)
                   | None \<Rightarrow>
                       (Answer 200,
                        SetPolicyOverride org
                          (scopedPolicyKey key (tog_ConnectionID input) (tog_Role input))
                          (tog_Enabled input) value table)))))"

definition query_value :: "string \<Rightarrow> string option" where
  "query_value v = (if trim_space v \<noteq> [] then Some (trim_space v) else None)"

definition deletePolicyScope ::
  "policyDefinition list \<Rightarrow> store_error option \<Rightarrow> string \<Rightarrow> string \<Rightarrow> string \<Rightarrow> string \<Rightarrow> policy_table \<Rightarrow>
   response \<times> policy_table" where
  "deletePolicyScope catalog fault org key connectionId role table =
     (if policyKnown catalog key = None then (Refused 404 ''NOT_FOUND'' ''unknown policy'', table)
      else
        (case fault of
           Some e \<Rightarrow> (writeStoreError e, table)
         | None \<Rightarrow>
             (Answer 204,
              DeletePolicyOverride org
                (scopedPolicyKey key (query_value connectionId) (query_value role)) table)))"

subsection \<open>listPolicies\<close>

record policy_view =
  view_Key :: string
  view_Enabled :: bool
  view_Value :: "string option"
  view_Scope :: string
  view_GlobalEnabled :: bool
  view_Overrides :: "(string \<times> string \<times> bool \<times> string option) list"

definition view_overrides ::
  "string \<Rightarrow> PolicyOverride list \<Rightarrow> (string \<times> string \<times> bool \<times> string option) list" where
  "view_overrides key items =
     concat (map (\<lambda>item.
       (case str_cut (CHR ''@'') (ovr_Key item) of (base, target, ok) \<Rightarrow>
          (if \<not> ok \<or> base \<noteq> key then []
           else if has_prefix ''role:'' target
           then [(''role'', drop 5 target, ovr_Enabled item, ovr_Config item)]
           else [(''connection'', target, ovr_Enabled item, ovr_Config item)]))) items)"

definition view_step :: "string \<Rightarrow> string \<Rightarrow> PolicyOverride \<Rightarrow> policy_view \<Rightarrow> policy_view" where
  "view_step key scope item v =
     (if ovr_Key item = key
      then v\<lparr>view_Enabled := ovr_Enabled item, view_Value := ovr_Config item, view_Scope := scope\<rparr>
      else v)"

definition list_policy ::
  "PolicyOverride list \<Rightarrow> string \<Rightarrow> string \<Rightarrow> policyDefinition \<Rightarrow> policy_view" where
  "list_policy items connectionID role d =
     (let global = (case find (\<lambda>item. ovr_Key item = def_Key d) items of
            None \<Rightarrow> \<lparr>view_Key = def_Key d, view_Enabled = def_Default d, view_Value = None,
                     view_Scope = ''global'', view_GlobalEnabled = def_Default d,
                     view_Overrides = view_overrides (def_Key d) items\<rparr>
          | Some item \<Rightarrow> \<lparr>view_Key = def_Key d, view_Enabled = ovr_Enabled item,
                     view_Value = ovr_Config item, view_Scope = ''global'',
                     view_GlobalEnabled = ovr_Enabled item,
                     view_Overrides = view_overrides (def_Key d) items\<rparr>);
          v1 = (if connectionID \<noteq> [] \<and> connectionID \<noteq> ''*''
                then fold (view_step (def_Key d @ ''@'' @ connectionID) ''connection'') items global
                else global)
      in if role \<noteq> [] \<and> role \<noteq> ''*''
         then fold (view_step (def_Key d @ ''@role:'' @ role) ''role'') items v1 else v1)"

definition listPolicies ::
  "policyDefinition list \<Rightarrow> bool \<Rightarrow> policy_table \<Rightarrow> string \<Rightarrow> string \<Rightarrow> string \<Rightarrow> policy_view list" where
  "listPolicies catalog shared table org connectionId role =
     map (list_policy (ListPolicyOverrides table org) (trim_space connectionId) (trim_space role))
       (filter (\<lambda>d. \<not> def_Shared d \<or> shared) catalog)"

subsection \<open>resolvePolicies\<close>

record resolved =
  res_disabled :: "string \<Rightarrow> bool"
  res_enabled :: "string \<Rightarrow> bool"
  res_rowLimit :: int
  res_queryTimeout :: int

text \<open>The closure \<open>apply\<close>: the row and the timeout limit it returns, -1 for none.\<close>

definition override_limits :: "PolicyOverride \<Rightarrow> int \<times> int" where
  "override_limits item =
     (if ovr_Key item = ''limit_rows'' \<and> \<not> ovr_Enabled item then (0, -1)
      else if ovr_Key item = ''limit_rows'' \<and> ovr_Config item \<noteq> None
        then (fst (atoi (trim_space (stringValue (ovr_Config item)))), -1)
      else if ovr_Key item = ''query_timeout_seconds'' \<and> \<not> ovr_Enabled item then (-1, 0)
      else if ovr_Key item = ''query_timeout_seconds'' \<and> ovr_Config item \<noteq> None
        then (-1, fst (atoi (trim_space (stringValue (ovr_Config item)))))
      else (-1, -1))"

definition apply_override :: "resolved \<Rightarrow> PolicyOverride \<Rightarrow> resolved" where
  "apply_override r item =
     (let r1 = r\<lparr>res_disabled := (res_disabled r)(ovr_Key item := \<not> ovr_Enabled item),
                res_enabled := (res_enabled r)(ovr_Key item := ovr_Enabled item)\<rparr>
      in case override_limits item of (rows, timeout) \<Rightarrow>
           if 0 \<le> rows then r1\<lparr>res_rowLimit := rows\<rparr>
           else if 0 \<le> timeout then r1\<lparr>res_queryTimeout := timeout\<rparr>
           else r1)"

text \<open>The three groups the loop makes of the items: \<open>base_item\<close> is the override without its
  scope.\<close>

definition base_item :: "PolicyOverride \<Rightarrow> PolicyOverride" where
  "base_item item = item\<lparr>ovr_Key := fst (str_cut (CHR ''@'') (ovr_Key item))\<rparr>"

definition item_scope :: "PolicyOverride \<Rightarrow> string option" where
  "item_scope item =
     (case str_cut (CHR ''@'') (ovr_Key item) of (key, target, scoped) \<Rightarrow>
        if scoped then Some target else None)"

definition role_target :: "unicode \<Rightarrow> string \<Rightarrow> string \<Rightarrow> bool" where
  "role_target u role target \<longleftrightarrow>
     has_prefix ''role:'' target \<and> equal_fold u (drop 5 target) role"

definition global_items :: "PolicyOverride list \<Rightarrow> PolicyOverride list" where
  "global_items items = map base_item (filter (\<lambda>i. item_scope i = None) items)"

definition connection_items :: "string \<Rightarrow> PolicyOverride list \<Rightarrow> PolicyOverride list" where
  "connection_items conn items = map base_item (filter (\<lambda>i. item_scope i = Some conn) items)"

definition role_items :: "unicode \<Rightarrow> string \<Rightarrow> PolicyOverride list \<Rightarrow> PolicyOverride list" where
  "role_items u role items =
     map base_item (filter (\<lambda>i. case item_scope i of None \<Rightarrow> False | Some t \<Rightarrow> role_target u role t) items)"

definition nothing_resolved :: resolved where
  "nothing_resolved = \<lparr>res_disabled = (\<lambda>_. False), res_enabled = (\<lambda>_. False),
     res_rowLimit = 0, res_queryTimeout = 0\<rparr>"

definition resolve_items :: "unicode \<Rightarrow> string \<Rightarrow> string \<Rightarrow> PolicyOverride list \<Rightarrow> resolved" where
  "resolve_items u conn role items =
     foldl apply_override nothing_resolved
       (global_items items @ connection_items conn items @ role_items u role items)"

definition resolvePolicies ::
  "unicode \<Rightarrow> policy_table \<Rightarrow> Identity \<Rightarrow> Connection \<Rightarrow> resolved" where
  "resolvePolicies u table identity connection =
     resolve_items u (conn_ID connection) (IRole identity)
       (ListPolicyOverrides table (OrgID identity))"

subsection \<open>The last override with a key decides\<close>

definition last_for :: "string \<Rightarrow> PolicyOverride list \<Rightarrow> PolicyOverride option" where
  "last_for key items = find (\<lambda>i. ovr_Key i = key) (rev items)"

lemma last_for_Nil [simp]: "last_for key [] = None"
  by (simp add: last_for_def)

lemma last_for_snoc [simp]:
  "last_for key (items @ [i]) = (if ovr_Key i = key then Some i else last_for key items)"
  by (simp add: last_for_def)

lemma last_for_append:
  "last_for key (xs @ ys) = (case last_for key ys of None \<Rightarrow> last_for key xs | Some i \<Rightarrow> Some i)"
  by (induction ys rule: rev_induct) (simp_all flip: append_assoc)

lemma last_for_mem: "last_for key items = Some i \<Longrightarrow> i \<in> set items \<and> ovr_Key i = key"
  by (auto simp: last_for_def find_Some_iff) (metis nth_mem set_rev length_rev)

lemma apply_override_switches:
  "res_disabled (apply_override r i) = (res_disabled r)(ovr_Key i := \<not> ovr_Enabled i)"
  "res_enabled (apply_override r i) = (res_enabled r)(ovr_Key i := ovr_Enabled i)"
  by (simp_all add: apply_override_def Let_def split: prod.splits)

lemma fold_override_switches:
  "res_disabled (foldl apply_override r items) key =
     (case last_for key items of None \<Rightarrow> res_disabled r key | Some i \<Rightarrow> \<not> ovr_Enabled i)"
  "res_enabled (foldl apply_override r items) key =
     (case last_for key items of None \<Rightarrow> res_enabled r key | Some i \<Rightarrow> ovr_Enabled i)"
  by (induction items rule: rev_induct) (auto simp: apply_override_switches)

text \<open>The override that counts: the role's, else the connection's, else the workspace's.\<close>

definition effective_override ::
  "unicode \<Rightarrow> string \<Rightarrow> string \<Rightarrow> PolicyOverride list \<Rightarrow> string \<Rightarrow> PolicyOverride option" where
  "effective_override u conn role items key =
     (case last_for key (role_items u role items) of
        Some i \<Rightarrow> Some i
      | None \<Rightarrow>
          (case last_for key (connection_items conn items) of
             Some i \<Rightarrow> Some i
           | None \<Rightarrow> last_for key (global_items items)))"

lemma resolve_items_switches:
  "res_disabled (resolve_items u conn role items) key =
     (case effective_override u conn role items key of None \<Rightarrow> False | Some i \<Rightarrow> \<not> ovr_Enabled i)"
  "res_enabled (resolve_items u conn role items) key =
     (case effective_override u conn role items key of None \<Rightarrow> False | Some i \<Rightarrow> ovr_Enabled i)"
  by (auto simp: resolve_items_def fold_override_switches last_for_append effective_override_def
      nothing_resolved_def split: option.splits)

subsection \<open>The order of the rows does not matter\<close>

lemma override_limits_other:
  "ovr_Key i \<noteq> ''limit_rows'' \<Longrightarrow> fst (override_limits i) = -1"
  "ovr_Key i \<noteq> ''query_timeout_seconds'' \<Longrightarrow> snd (override_limits i) = -1"
  by (simp_all add: override_limits_def)

lemma apply_override_limits:
  "res_rowLimit (apply_override r i) =
     (if 0 \<le> fst (override_limits i) then fst (override_limits i) else res_rowLimit r)"
  "res_queryTimeout (apply_override r i) =
     (if \<not> 0 \<le> fst (override_limits i) \<and> 0 \<le> snd (override_limits i)
      then snd (override_limits i) else res_queryTimeout r)"
  by (simp_all add: apply_override_def Let_def split: prod.splits)

lemma apply_override_commute:
  assumes "ovr_Key a \<noteq> ovr_Key b"
  shows "apply_override (apply_override r a) b = apply_override (apply_override r b) a"
proof -
  have "fst (override_limits a) = -1 \<or> fst (override_limits b) = -1"
    and "snd (override_limits a) = -1 \<or> snd (override_limits b) = -1"
    using assms override_limits_other by metis+
  then show ?thesis
    using assms
    by (intro resolved.equality)
      (auto simp only: apply_override_switches apply_override_limits fun_upd_twist split: if_splits,
        simp_all)
qed

lemma foldl_override_perm:
  assumes "mset xs = mset ys" and "distinct (map ovr_Key xs)"
  shows "foldl apply_override r xs = foldl apply_override r ys"
proof -
  have "fold (\<lambda>i r. apply_override r i) xs = fold (\<lambda>i r. apply_override r i) ys"
  proof (rule fold_multiset_equiv [OF _ assms(1)])
    fix x y assume "x \<in> set xs" "y \<in> set xs"
    then have "x = y \<or> ovr_Key x \<noteq> ovr_Key y"
      using assms(2) by (auto simp: distinct_map inj_on_def)
    then show "(\<lambda>r. apply_override r x) \<circ> (\<lambda>r. apply_override r y) =
        (\<lambda>r. apply_override r y) \<circ> (\<lambda>r. apply_override r x)"
      using apply_override_commute by fastforce
  qed
  then show ?thesis by (simp add: foldl_conv_fold)
qed

lemma resolve_items_perm:
  assumes "mset xs = mset ys"
    and "distinct (map ovr_Key (global_items xs))" "distinct (map ovr_Key (connection_items conn xs))"
    and "distinct (map ovr_Key (role_items u role xs))"
  shows "resolve_items u conn role xs = resolve_items u conn role ys"
proof -
  have "foldl apply_override r (global_items xs) = foldl apply_override r (global_items ys)" for r
    using assms(1) by (intro foldl_override_perm assms(2)) (simp add: global_items_def)
  moreover have "foldl apply_override r (connection_items conn xs)
      = foldl apply_override r (connection_items conn ys)" for r
    using assms(1) by (intro foldl_override_perm assms(3)) (simp add: connection_items_def)
  moreover have "foldl apply_override r (role_items u role xs)
      = foldl apply_override r (role_items u role ys)" for r
    using assms(1) by (intro foldl_override_perm assms(4)) (simp add: role_items_def)
  ultimately show ?thesis by (simp only: resolve_items_def foldl_append)
qed

lemma str_cut_join: "(case str_cut c s of (b, a, found) \<Rightarrow> if found then b @ [c] @ a else b) = s"
  by (induction s) (auto split: if_splits prod.splits)

text \<open>Rows with distinct keys give distinct keys within the workspace and the connection group.\<close>

lemma key_of_parts:
  "ovr_Key i = (case item_scope i of None \<Rightarrow> ovr_Key (base_item i)
     | Some t \<Rightarrow> ovr_Key (base_item i) @ ''@'' @ t)"
  using str_cut_join [of "CHR ''@''" "ovr_Key i"]
  by (auto simp: item_scope_def base_item_def split: prod.splits if_splits)

lemma distinct_scope_group:
  assumes "distinct (map ovr_Key items)"
  shows "distinct (map ovr_Key (map base_item (filter (\<lambda>i. item_scope i = s) items)))"
proof -
  have "ovr_Key x = ovr_Key y"
    if "item_scope x = s" "item_scope y = s" "ovr_Key (base_item x) = ovr_Key (base_item y)" for x y
    using that key_of_parts [of x] key_of_parts [of y] by (cases s) simp_all
  with assms show ?thesis
    unfolding distinct_map map_map inj_on_def by (auto simp: distinct_map inj_on_def)
qed

end
