(* ===== verification/Custom_Policies.thy ===== *)
theory Custom_Policies
  imports Overrides
begin

section \<open>Custom policies (api/policies.go, store/governance.go, applyCustomPolicies of
  api/query.go)\<close>

text \<open>
  A custom policy is one row of \<open>custom_policies\<close>. \<open>customRules\<close> are the kinds other packages
  register; the repository registers none, so they are a parameter, and so are the clock
  (\<open>now\<close>, the minute of the day), the connections of the workspace and its roles.
\<close>

subsection \<open>Times of day: time.Parse("15:04", s)\<close>

fun clock_minute :: "string \<Rightarrow> nat option" where
  "clock_minute [c, a, b] =
     (if c = CHR '':'' \<and> is_digit a \<and> is_digit b
      then (let m = digit_value a * 10 + digit_value b in if m < 60 then Some m else None)
      else None)"
| "clock_minute _ = None"

definition clock_at :: "nat \<Rightarrow> string \<Rightarrow> nat option" where
  "clock_at hour rest =
     (if hour < 24 then map_option (\<lambda>m. hour * 60 + m) (clock_minute rest) else None)"

fun parse_clock :: "string \<Rightarrow> nat option" where
  "parse_clock (a # b # s) =
     (if \<not> is_digit a then None
      else if is_digit b then clock_at (digit_value a * 10 + digit_value b) s
      else clock_at (digit_value a) (b # s))"
| "parse_clock _ = None"

subsection \<open>Rules\<close>

record customRule =
  rule_statementConfig :: bool
  rule_shared :: bool
  rule_evaluate :: "CustomPolicy \<Rightarrow> Info \<Rightarrow> bool \<Rightarrow> Decision \<Rightarrow> Decision option"

type_synonym customRules = "string \<Rightarrow> customRule option"

definition customKinds :: "string set" where
  "customKinds = {''deny_table'', ''deny_schema'', ''deny_statement'', ''limit_rows'',
     ''deny_write_outside_hours''}"

definition validateCustom :: "customRules \<Rightarrow> string \<Rightarrow> string \<Rightarrow> string" where
  "validateCustom rules kind config =
     (if kind \<notin> customKinds \<and> rules kind = None then ''unknown policy kind''
      else if (kind = ''deny_statement''
               \<or> (case rules kind of None \<Rightarrow> False | Some r \<Rightarrow> rule_statementConfig r))
              \<and> config \<notin> {''insert'', ''update'', ''delete'', ''ddl''}
        then ''statement config must be one of insert, update, delete, ddl''
      else if kind = ''limit_rows'' then
        (case atoi config of (value, ok) \<Rightarrow>
           if \<not> ok \<or> value \<le> 0 then ''limit_rows requires a positive row count'' else [])
      else if kind = ''deny_write_outside_hours'' then
        (let parts = str_split (CHR ''-'') config in
         if length parts \<noteq> 2 \<or> list_ex (\<lambda>p. parse_clock (trim_space p) = None) parts
         then ''time window must look like 09:00-18:00'' else [])
      else [])"

subsection \<open>The table and the handlers\<close>

type_synonym custom_table = "CustomPolicy list"

definition ListCustomPolicies :: "custom_table \<Rightarrow> string \<Rightarrow> CustomPolicy list" where
  "ListCustomPolicies table org = filter (\<lambda>p. cp_OrgID p = org) table"

definition custom_row :: "string \<Rightarrow> string \<Rightarrow> CustomPolicy \<Rightarrow> bool" where
  "custom_row pid org p \<longleftrightarrow> cp_ID p = pid \<and> cp_OrgID p = org"

definition CreateCustomPolicy :: "CustomPolicy \<Rightarrow> custom_table \<Rightarrow> store_error + custom_table" where
  "CreateCustomPolicy item table =
     (if list_ex (\<lambda>p. cp_ID p = cp_ID item) table then Inl Duplicate else Inr (table @ [item]))"

definition change_custom ::
  "string \<Rightarrow> string \<Rightarrow> (CustomPolicy \<Rightarrow> CustomPolicy) \<Rightarrow> custom_table \<Rightarrow> store_error + custom_table" where
  "change_custom pid org f table =
     (if list_ex (custom_row pid org) table
      then Inr (map (\<lambda>p. if custom_row pid org p then f p else p) table)
      else Inl NotFound)"

definition UpdateCustomPolicy :: "CustomPolicy \<Rightarrow> custom_table \<Rightarrow> store_error + custom_table" where
  "UpdateCustomPolicy item =
     change_custom (cp_ID item) (cp_OrgID item)
       (\<lambda>p. p\<lparr>cp_Name := cp_Name item, cp_Kind := cp_Kind item, cp_Config := cp_Config item,
              cp_ConnectionID := cp_ConnectionID item, cp_RoleName := cp_RoleName item,
              cp_Enabled := cp_Enabled item\<rparr>)"

definition SetCustomPolicyEnabled ::
  "string \<Rightarrow> string \<Rightarrow> bool \<Rightarrow> custom_table \<Rightarrow> store_error + custom_table" where
  "SetCustomPolicyEnabled pid org enabled = change_custom pid org (\<lambda>p. p\<lparr>cp_Enabled := enabled\<rparr>)"

definition DeleteCustomPolicy :: "string \<Rightarrow> string \<Rightarrow> custom_table \<Rightarrow> store_error + custom_table" where
  "DeleteCustomPolicy pid org table =
     (if list_ex (custom_row pid org) table then Inr (filter (\<lambda>p. \<not> custom_row pid org p) table)
      else Inl NotFound)"

definition stored :: "nat \<Rightarrow> (store_error + custom_table) \<Rightarrow> custom_table \<Rightarrow> response \<times> custom_table" where
  "stored code result table =
     (case result of Inl e \<Rightarrow> (writeStoreError e, table) | Inr table' \<Rightarrow> (Answer code, table'))"

record customPolicyInput =
  in_Name :: string
  in_Kind :: string
  in_Config :: string
  in_ConnectionID :: "string option"
  in_Role :: "string option"

text \<open>The workspace a handler looks things up in: connection id to organisation, its roles.\<close>

record workspace =
  ws_catalog :: "policyDefinition list"
  ws_rules :: customRules
  ws_shared :: bool
  ws_org :: string
  ws_connections :: "string \<Rightarrow> string option"
  ws_roles :: "string \<Rightarrow> bool"

definition narrowed :: "string option \<Rightarrow> string option" where
  "narrowed v = (if names_scope v then v else None)"

definition putCustomPolicy ::
  "workspace \<Rightarrow> string \<Rightarrow> string \<Rightarrow> string \<Rightarrow> bool \<Rightarrow> customPolicyInput \<Rightarrow> custom_table \<Rightarrow> response \<times> custom_table" where
  "putCustomPolicy ws path_id new_id now create input table =
     (let name = trim_space (in_Name input); kind = trim_space (in_Kind input);
          config = trim_space (in_Config input);
          connectionID = narrowed (in_ConnectionID input); roleName = narrowed (in_Role input);
          message = validateCustom (ws_rules ws) kind config;
          item = \<lparr>cp_ID = (if create then new_id else path_id), cp_OrgID = ws_org ws, cp_Name = name,
                  cp_Kind = kind, cp_Config = config, cp_ConnectionID = connectionID,
                  cp_RoleName = roleName, cp_Enabled = True, cp_CreatedAt = now\<rparr>
      in case personalPolicyAllowed (ws_catalog ws) (\<lambda>k. map_option rule_shared (ws_rules ws k))
               (ws_shared ws) kind (in_Role input) of
           Some refusal \<Rightarrow> (refusal, table)
         | None \<Rightarrow>
             (if name = [] \<or> config = []
              then (Refused 400 ''BAD_REQUEST'' ''name and config are required'', table)
              else if message \<noteq> [] then (Refused 400 ''BAD_REQUEST'' message, table)
              else if connectionID \<noteq> None \<and> ws_connections ws (stringValue connectionID) \<noteq> Some (ws_org ws)
              then (Refused 400 ''BAD_REQUEST'' ''unknown connection'', table)
              else if roleName \<noteq> None \<and> \<not> ws_roles ws (stringValue roleName)
              then (Refused 400 ''BAD_REQUEST'' ''unknown role'', table)
              else if create then stored 201 (CreateCustomPolicy item table) table
              else stored 200 (UpdateCustomPolicy item table) table))"

definition createCustomPolicy ::
  "workspace \<Rightarrow> string \<Rightarrow> string \<Rightarrow> customPolicyInput \<Rightarrow> custom_table \<Rightarrow> response \<times> custom_table" where
  "createCustomPolicy ws new_id now input table = putCustomPolicy ws [] new_id now True input table"

definition updateCustomPolicy ::
  "workspace \<Rightarrow> string \<Rightarrow> string \<Rightarrow> customPolicyInput \<Rightarrow> custom_table \<Rightarrow> response \<times> custom_table" where
  "updateCustomPolicy ws path_id now input table = putCustomPolicy ws path_id [] now False input table"

definition patchCustomPolicy ::
  "workspace \<Rightarrow> string \<Rightarrow> bool \<Rightarrow> custom_table \<Rightarrow> response \<times> custom_table" where
  "patchCustomPolicy ws path_id enabled table =
     stored 200 (SetCustomPolicyEnabled path_id (ws_org ws) enabled table) table"

definition deleteCustomPolicy ::
  "workspace \<Rightarrow> string \<Rightarrow> custom_table \<Rightarrow> response \<times> custom_table" where
  "deleteCustomPolicy ws path_id table =
     stored 204 (DeleteCustomPolicy path_id (ws_org ws) table) table"

subsection \<open>applyCustomPolicies\<close>

text \<open>What the loop reads besides the policies.\<close>

record custom_env =
  env_rules :: customRules
  env_role :: string
  env_connection :: string
  env_info :: Info
  env_cleared :: bool
  env_minute :: nat

definition in_scope :: "unicode \<Rightarrow> custom_env \<Rightarrow> CustomPolicy \<Rightarrow> bool" where
  "in_scope u env item \<longleftrightarrow>
     cp_Enabled item
     \<and> (case cp_ConnectionID item of None \<Rightarrow> True | Some c \<Rightarrow> c = env_connection env)
     \<and> (case cp_RoleName item of None \<Rightarrow> True | Some r \<Rightarrow> equal_fold u r (env_role env))"

definition blocks :: "CustomPolicy \<Rightarrow> string \<Rightarrow> Decision" where
  "blocks item reason =
     \<lparr>Effect = Deny, PolicyID = ''custom:'' @ cp_ID item, Reason = reason, Risk = High\<rparr>"

definition match_table :: "unicode \<Rightarrow> custom_env \<Rightarrow> CustomPolicy \<Rightarrow> bool" where
  "match_table u env item \<longleftrightarrow>
     list_ex (\<lambda>t. equal_fold u (Name t) (trim_space (cp_Config item))) (Tables (env_info env))"

definition match_schema :: "unicode \<Rightarrow> custom_env \<Rightarrow> CustomPolicy \<Rightarrow> bool" where
  "match_schema u env item \<longleftrightarrow>
     list_ex (\<lambda>t. equal_fold u (Schema t) (trim_space (cp_Config item))) (Tables (env_info env))"

definition inside_window :: "nat \<Rightarrow> nat \<Rightarrow> nat \<Rightarrow> bool" where
  "inside_window minute start stop =
     (if stop < start then start \<le> minute \<or> minute \<le> stop else start \<le> minute \<and> minute \<le> stop)"

definition outside_hours :: "nat \<Rightarrow> string \<Rightarrow> bool" where
  "outside_hours minute config =
     (case str_split (CHR ''-'') config of
        [a, b] \<Rightarrow>
          (case (parse_clock (trim_space a), parse_clock (trim_space b)) of
             (Some start, Some stop) \<Rightarrow> \<not> inside_window minute start stop
           | _ \<Rightarrow> False)
      | _ \<Rightarrow> False)"

definition tighten :: "string \<Rightarrow> int \<Rightarrow> int" where
  "tighten config limit =
     (case atoi (trim_space config) of (value, ok) \<Rightarrow>
        if ok \<and> 0 < value \<and> (limit = 0 \<or> value < limit) then value else limit)"

text \<open>One turn of the loop: \<open>Inl\<close> for its early return.\<close>

definition custom_step ::
  "unicode \<Rightarrow> custom_env \<Rightarrow> CustomPolicy \<Rightarrow> Decision \<Rightarrow> int \<Rightarrow> Decision + Decision \<times> int" where
  "custom_step u env item decision limit =
     (let kind = cp_Kind item; info = env_info env; config = cp_Config item;
          reason = (\<lambda>s. ''policy '' @ [CHR 0x27] @ cp_Name item @ [CHR 0x27] @ s);
          go = Inr (decision, limit) in
      if \<not> in_scope u env item then go
      else if kind = ''deny_table'' then
        (if \<not> env_cleared env \<and> match_table u env item
         then Inl (blocks item (reason ('' blocks table '' @ config))) else go)
      else if kind = ''deny_schema'' then
        (if \<not> env_cleared env \<and> match_schema u env item
         then Inl (blocks item (reason ('' blocks schema '' @ config))) else go)
      else if kind = ''deny_statement'' then
        (if \<not> env_cleared env \<and> equal_fold u (kind_string (Kind info)) (trim_space config)
         then Inl (blocks item (reason ('' blocks '' @ config @ '' statements''))) else go)
      else if kind = ''limit_rows'' then
        (if Kind info = Select then Inr (decision, tighten config limit) else go)
      else if kind = ''deny_write_outside_hours'' then
        (if \<not> env_cleared env \<and> is_write (Kind info) \<and> outside_hours (env_minute env) config
         then Inl (blocks item (reason ('' blocks writes outside '' @ config))) else go)
      else
        (case env_rules env kind of
           None \<Rightarrow> go
         | Some rule \<Rightarrow>
             (if env_cleared env then go
              else (case rule_evaluate rule item info (match_table u env item) decision of
                      None \<Rightarrow> go
                    | Some d \<Rightarrow> Inr (d, limit)))))"

fun custom_loop ::
  "unicode \<Rightarrow> custom_env \<Rightarrow> CustomPolicy list \<Rightarrow> Decision \<Rightarrow> int \<Rightarrow> Decision \<times> int" where
  "custom_loop u env [] decision limit = (decision, limit)"
| "custom_loop u env (item # items) decision limit =
     (case custom_step u env item decision limit of
        Inl d \<Rightarrow> (d, limit)
      | Inr (d, l) \<Rightarrow> custom_loop u env items d l)"

definition applyCustomPolicies ::
  "unicode \<Rightarrow> customRules \<Rightarrow> nat \<Rightarrow> custom_table \<Rightarrow> Identity \<Rightarrow> Connection \<Rightarrow> Info \<Rightarrow> bool \<Rightarrow>
   Decision \<Rightarrow> int \<Rightarrow> Decision \<times> int" where
  "applyCustomPolicies u rules minute table identity connection info cleared decision limit =
     custom_loop u \<lparr>env_rules = rules, env_role = IRole identity, env_connection = conn_ID connection,
         env_info = info, env_cleared = cleared, env_minute = minute\<rparr>
       (ListCustomPolicies table (OrgID identity)) decision limit"

subsection \<open>What the loop can change\<close>

lemma custom_step_deny: "custom_step u env item decision limit = Inl d \<Longrightarrow> Effect d = Deny"
  by (auto simp: custom_step_def Let_def blocks_def split: if_splits option.splits)

lemma tighten_cases: "tighten c l = l \<or> 0 < tighten c l \<and> (l = 0 \<or> tighten c l < l)"
  by (auto simp: tighten_def split: prod.splits)

lemma custom_step_limit:
  "custom_step u env item d l = Inr (d', l') \<Longrightarrow> l' = l \<or> 0 < l' \<and> (l = 0 \<or> l' < l)"
  using tighten_cases [of "cp_Config item" l]
  by (auto simp: custom_step_def Let_def split: if_splits option.splits)

lemma custom_loop_limit:
  "custom_loop u env items d l = (d', l') \<Longrightarrow> l' = l \<or> 0 < l' \<and> (l = 0 \<or> l' < l)"
proof (induction items arbitrary: d l)
  case (Cons item items)
  show ?case
  proof (cases "custom_step u env item d l")
    case (Inr p)
    obtain d1 l1 where p: "p = (d1, l1)" by (cases p)
    from custom_step_limit [OF Inr [unfolded p]] Cons.IH [of d1 l1] Cons.prems Inr p
    show ?thesis by auto
  qed (use Cons.prems in auto)
qed simp

lemma custom_loop_decision:
  assumes "env_rules env = (\<lambda>_. None)"
  shows "custom_loop u env items d l = (d', l') \<Longrightarrow> d' = d \<or> Effect d' = Deny"
proof (induction items arbitrary: d l)
  case (Cons item items)
  show ?case
  proof (cases "custom_step u env item d l")
    case (Inl x)
    with custom_step_deny [OF Inl] Cons.prems show ?thesis by auto
  next
    case (Inr p)
    obtain d1 l1 where p: "p = (d1, l1)" by (cases p)
    with assms Inr have "d1 = d"
      by (auto simp: custom_step_def Let_def split: if_splits option.splits)
    with Cons.IH [of d1 l1] Cons.prems Inr p show ?thesis by auto
  qed
qed simp

end
