(* ===== verification/Governance_Properties.thy ===== *)
theory Governance_Properties
  imports Custom_Policies
begin

section \<open>The properties of governance: overrides, limits and custom policies\<close>

subsection \<open>Which override counts\<close>

text \<open>C27: what \<open>resolvePolicies\<close> decides for a policy is the most specific override stored for
  it: the role's, else the connection's, else the workspace's; with none of them the policy is
  neither enabled nor disabled. And it does not depend on the order in which the database
  returns the rows, as long as no two role overrides of one policy differ in letter case only.\<close>

theorem resolve_takes_most_specific:
  assumes "distinct (map ovr_Key items)" and "distinct (map ovr_Key (role_items u role items))"
    and "mset items' = mset items"
  shows "resolve_items u conn role items' = resolve_items u conn role items
    \<and> res_enabled (resolve_items u conn role items) key
        = (case effective_override u conn role items key of None \<Rightarrow> False | Some i \<Rightarrow> ovr_Enabled i)
    \<and> res_disabled (resolve_items u conn role items) key
        = (case effective_override u conn role items key of None \<Rightarrow> False | Some i \<Rightarrow> \<not> ovr_Enabled i)"
  using resolve_items_perm [OF assms(3) [symmetric] _ _ assms(2), of conn]
    distinct_scope_group [OF assms(1)] resolve_items_switches
  unfolding global_items_def connection_items_def by metis

definition ovr :: "string \<Rightarrow> bool \<Rightarrow> PolicyOverride" where
  "ovr key enabled = \<lparr>ovr_Key = key, ovr_Enabled = enabled, ovr_Config = None\<rparr>"

lemma resolve_takes_most_specific_witness:
  "resolve_items ascii_tables ''c1'' ''admin'' [ovr ''deny_drop@role:Admin'' False, ovr ''deny_drop'' True]
   = resolve_items ascii_tables ''c1'' ''admin'' [ovr ''deny_drop'' True, ovr ''deny_drop@role:Admin'' False]"
proof -
  let ?a = "ovr ''deny_drop'' True" and ?b = "ovr ''deny_drop@role:Admin'' False"
  have "distinct (map ovr_Key [?a, ?b])" "distinct (map ovr_Key (role_items ascii_tables ''admin'' [?a, ?b]))"
    by code_simp+
  from resolve_takes_most_specific [OF this, of "[?b, ?a]" "''c1''" "[]"]
  show ?thesis by simp
qed

subsection \<open>Limits\<close>

text \<open>The tables a workspace can reach: organisations are seeded, policies toggled and deleted.\<close>

inductive reachable_policies ::
  "policyDefinition list \<Rightarrow> (string \<Rightarrow> bool option) \<Rightarrow> policy_table \<Rightarrow> bool"
  for catalog custom where
  empty: "reachable_policies catalog custom []"
| seed: "reachable_policies catalog custom t \<Longrightarrow>
     reachable_policies catalog custom (seedDefaultPolicies org t)"
| toggle: "reachable_policies catalog custom t \<Longrightarrow>
     reachable_policies catalog custom (snd (togglePolicy catalog custom shared fault org key input t))"
| delete: "reachable_policies catalog custom t \<Longrightarrow>
     reachable_policies catalog custom (snd (deletePolicyScope catalog fault org key c r t))"

definition limit_keys :: "string set" where
  "limit_keys = {''limit_rows'', ''query_timeout_seconds''}"

definition limit_ok :: "string \<Rightarrow> bool \<Rightarrow> string option \<Rightarrow> bool" where
  "limit_ok key enabled config \<longleftrightarrow>
     (fst (str_cut (CHR ''@'') key) \<in> limit_keys \<and> enabled \<longrightarrow>
        (\<exists>c. config = Some c \<and> trim_space c = c \<and> valid_number c))"

definition limits_ok :: "policy_table \<Rightarrow> bool" where
  "limits_ok t \<longleftrightarrow> (\<forall>r \<in> set t. limit_ok (row_Key r) (row_Enabled r) (row_Config r))"

lemma str_cut_no_sep: "c \<notin> set b \<Longrightarrow> fst (str_cut c (b @ c # s)) = b"
  "c \<notin> set b \<Longrightarrow> fst (str_cut c b) = b"
  by (induction b) (auto split: prod.splits)

lemma scoped_key_base:
  "CHR ''@'' \<notin> set key \<Longrightarrow> fst (str_cut (CHR ''@'') (scopedPolicyKey key c r)) = key"
  by (simp add: scopedPolicyKey_def str_cut_no_sep)

lemma seed_limit_ok:
  "(key, config, e) \<in> set defaultPolicies \<Longrightarrow>
     limit_ok key e (if config \<noteq> [] then Some config else None)"
proof -
  have "valid_number ''10000''" "trim_space ''10000'' = ''10000''" by code_simp+
  then show "(key, config, e) \<in> set defaultPolicies \<Longrightarrow> ?thesis"
    by (auto simp: defaultPolicies_def limit_ok_def limit_keys_def)
qed

lemma seed_limits_ok: "limits_ok t \<Longrightarrow> limits_ok (seedDefaultPolicies org t)"
proof -
  have "limits_ok t \<Longrightarrow> set ps \<subseteq> set defaultPolicies \<Longrightarrow> limits_ok (fold (seed_row org) ps t)" for ps
  proof (induction ps arbitrary: t)
    case (Cons p ps)
    obtain key config e where p: "p = (key, config, e)" by (cases p)
    have "limits_ok (seed_row org p t)"
      using Cons.prems seed_limit_ok [of key config e] by (auto simp: p seed_row_def limits_ok_def)
    with Cons show ?case by simp
  qed simp
  then show "limits_ok t \<Longrightarrow> ?thesis" by (simp add: seedDefaultPolicies_def)
qed

lemma set_override_limits_ok:
  assumes "limits_ok t"
    and "fst (str_cut (CHR ''@'') key) \<in> limit_keys \<Longrightarrow> e \<Longrightarrow>
      \<exists>c. config = Some c \<and> trim_space c = c \<and> valid_number c"
  shows "limits_ok (SetPolicyOverride org key e config t)"
  using assms by (auto simp: limits_ok_def SetPolicyOverride_def limit_ok_def has_row_def)

lemma valid_number_Nil [simp]: "\<not> valid_number []"
  by code_simp

lemma toggle_limits_ok:
  assumes ok: "limits_ok t"
    and valued: "\<And>d. policyKnown catalog key = Some d \<Longrightarrow> key \<in> limit_keys \<Longrightarrow> def_HasValue d"
    and plain: "\<And>d. policyKnown catalog key = Some d \<Longrightarrow> CHR ''@'' \<notin> set key"
  shows "limits_ok (snd (togglePolicy catalog custom shared fault org key input t))"
proof (cases "snd (togglePolicy catalog custom shared fault org key input t) = t")
  case False
  let ?v = "toggle_value (tog_Value input)"
  from False obtain d where d: "policyKnown catalog key = Some d"
    and checked: "def_HasValue d \<and> tog_Enabled input \<longrightarrow> valid_number (stringValue ?v)"
    and t': "snd (togglePolicy catalog custom shared fault org key input t)
      = SetPolicyOverride org (scopedPolicyKey key (tog_ConnectionID input) (tog_Role input))
          (tog_Enabled input) ?v t"
    by (auto simp: togglePolicy_def Let_def split: option.splits if_splits)
  have trimmed: "trim_space c = c" if "?v = Some c" for c
    using that by (auto simp: toggle_value_def split: option.splits if_splits)
  show ?thesis
    unfolding t'
  proof (rule set_override_limits_ok [OF ok])
    assume "fst (str_cut (CHR ''@'') (scopedPolicyKey key (tog_ConnectionID input) (tog_Role input))) \<in> limit_keys"
      and "tog_Enabled input"
    with valued [OF d] plain [OF d] checked have "valid_number (stringValue ?v)"
      by (simp add: scoped_key_base)
    then show "\<exists>c. ?v = Some c \<and> trim_space c = c \<and> valid_number c"
      using trimmed by (cases ?v) (auto simp: stringValue_def)
  qed
qed (use ok in simp)

lemma delete_limits_ok: "limits_ok t \<Longrightarrow> limits_ok (snd (deletePolicyScope catalog fault org key c r t))"
  by (auto simp: deletePolicyScope_def DeletePolicyOverride_def limits_ok_def split: option.splits)

text \<open>The catalog with the definitions another package registered behind it.\<close>

definition plain_keys :: "policyDefinition list \<Rightarrow> bool" where
  "plain_keys extra \<longleftrightarrow> list_all (\<lambda>d. CHR ''@'' \<notin> set (def_Key d)) extra"

lemma catalog_limits:
  assumes "policyKnown (policyCatalog @ extra) key = Some d" and "key \<in> limit_keys"
  shows "def_HasValue d"
proof -
  from assms(2) consider "key = ''limit_rows''" | "key = ''query_timeout_seconds''"
    by (auto simp: limit_keys_def)
  then show ?thesis
  proof cases
    case 1
    with assms(1) show ?thesis by (simp add: policyKnown_def policyCatalog_def entry_def) auto
  next
    case 2
    with assms(1) show ?thesis by (simp add: policyKnown_def policyCatalog_def entry_def) auto
  qed
qed

lemma catalog_plain:
  assumes "policyKnown (policyCatalog @ extra) key = Some d" and "plain_keys extra"
  shows "CHR ''@'' \<notin> set key"
proof -
  have "plain_keys policyCatalog" by code_simp
  with assms(2) have "plain_keys (policyCatalog @ extra)" by (simp add: plain_keys_def)
  moreover have "d \<in> set (policyCatalog @ extra) \<and> def_Key d = key"
    using assms(1) unfolding policyKnown_def find_Some_iff by (metis nth_mem)
  ultimately show ?thesis unfolding plain_keys_def list_all_iff by blast
qed

lemma reachable_limits_ok:
  "reachable_policies (policyCatalog @ extra) custom t \<Longrightarrow> plain_keys extra \<Longrightarrow> limits_ok t"
proof (induction rule: reachable_policies.induct)
  case empty
  then show ?case by (simp add: limits_ok_def)
next
  case (seed t org)
  then show ?case by (simp add: seed_limits_ok)
next
  case (toggle t shared fault org key input)
  with catalog_limits catalog_plain show ?case by (intro toggle_limits_ok) blast+
next
  case (delete t fault org key c r)
  then show ?case by (simp add: delete_limits_ok)
qed

text \<open>What a list of well-formed overrides resolves to.\<close>

definition limit_state :: "bool \<Rightarrow> int \<Rightarrow> bool" where
  "limit_state enabled n \<longleftrightarrow> (if enabled then 1 \<le> n \<and> n \<le> 86400 else n = 0)"

definition limits_resolved :: "resolved \<Rightarrow> bool" where
  "limits_resolved r \<longleftrightarrow>
     limit_state (res_enabled r ''limit_rows'') (res_rowLimit r)
     \<and> limit_state (res_enabled r ''query_timeout_seconds'') (res_queryTimeout r)"

definition item_limit_ok :: "PolicyOverride \<Rightarrow> bool" where
  "item_limit_ok i \<longleftrightarrow>
     (ovr_Key i \<in> limit_keys \<and> ovr_Enabled i \<longrightarrow>
        (\<exists>c. ovr_Config i = Some c \<and> trim_space c = c \<and> valid_number c))"

lemma item_limit_number:
  assumes "item_limit_ok i" and "ovr_Key i \<in> limit_keys" and "ovr_Enabled i"
  obtains c n where "ovr_Config i = Some c" "trim_space c = c" "atoi c = (n, True)" "1 \<le> n" "n \<le> 86400"
  using assms unfolding item_limit_ok_def valid_number_def by (fastforce split: prod.splits)

lemma limit_rows_item:
  assumes "item_limit_ok i" and key: "ovr_Key i = ''limit_rows''"
  shows "\<exists>n. override_limits i = (n, -1) \<and> limit_state (ovr_Enabled i) n"
proof (cases "ovr_Enabled i")
  case True
  from assms True item_limit_number [of i] obtain c n where "ovr_Config i = Some c"
    "trim_space c = c" "atoi c = (n, True)" "1 \<le> n" "n \<le> 86400" by (auto simp: limit_keys_def)
  with key True show ?thesis by (simp add: override_limits_def stringValue_def limit_state_def)
qed (simp add: override_limits_def key limit_state_def)

lemma timeout_item:
  assumes "item_limit_ok i" and key: "ovr_Key i = ''query_timeout_seconds''"
  shows "\<exists>n. override_limits i = (-1, n) \<and> limit_state (ovr_Enabled i) n"
proof (cases "ovr_Enabled i")
  case True
  from assms True item_limit_number [of i] obtain c n where "ovr_Config i = Some c"
    "trim_space c = c" "atoi c = (n, True)" "1 \<le> n" "n \<le> 86400" by (auto simp: limit_keys_def)
  with key True show ?thesis by (simp add: override_limits_def stringValue_def limit_state_def)
qed (simp add: override_limits_def key limit_state_def)

lemma limit_state_nonneg: "limit_state e n \<Longrightarrow> 0 \<le> n"
  by (simp add: limit_state_def split: if_splits)

lemma apply_limits_resolved:
  assumes r: "limits_resolved r" and i: "item_limit_ok i"
  shows "limits_resolved (apply_override r i)"
proof -
  note field = limits_resolved_def apply_override_switches apply_override_limits
  consider (rows) "ovr_Key i = ''limit_rows''" | (timeout) "ovr_Key i = ''query_timeout_seconds''"
    | (other) "ovr_Key i \<noteq> ''limit_rows''" "ovr_Key i \<noteq> ''query_timeout_seconds''"
    by blast
  then show ?thesis
  proof cases
    case rows
    with limit_rows_item [OF i] obtain n
      where "override_limits i = (n, -1)" "limit_state (ovr_Enabled i) n" by blast
    with rows r limit_state_nonneg show ?thesis by (auto simp: field)
  next
    case timeout
    with timeout_item [OF i] obtain n
      where "override_limits i = (-1, n)" "limit_state (ovr_Enabled i) n" by blast
    with timeout r limit_state_nonneg show ?thesis by (auto simp: field)
  next
    case other
    then have "override_limits i = (-1, -1)" by (simp add: override_limits_def)
    with other r show ?thesis by (simp add: field)
  qed
qed

lemma fold_limits_resolved:
  "limits_resolved r \<Longrightarrow> \<forall>i \<in> set items. item_limit_ok i \<Longrightarrow>
     limits_resolved (foldl apply_override r items)"
  by (induction items arbitrary: r) (simp_all add: apply_limits_resolved)

lemma base_item_limit_ok:
  "limits_ok t \<Longrightarrow> i \<in> set (ListPolicyOverrides t org) \<Longrightarrow> item_limit_ok (base_item i)"
  by (auto simp: ListPolicyOverrides_def limits_ok_def limit_ok_def item_limit_ok_def base_item_def)

text \<open>Whatever an administrator seeds, toggles or deletes, the row cap and the query timeout
  a request resolves are well formed: an enabled limit is a number between 1 and 86400, and a
  limit nobody enabled is 0, which means none. A malformed value never reaches an execution.\<close>

lemma resolved_limits_are_bounded:
  assumes "reachable_policies (policyCatalog @ extra) custom t" and "plain_keys extra"
  shows "limits_resolved (resolvePolicies u t identity connection)"
proof -
  let ?items = "ListPolicyOverrides t (OrgID identity)"
  have "\<forall>i \<in> set (global_items ?items @ connection_items (conn_ID connection) ?items
      @ role_items u (IRole identity) ?items). item_limit_ok i"
    using base_item_limit_ok [OF reachable_limits_ok [OF assms]]
    by (auto simp: global_items_def connection_items_def role_items_def)
  moreover have "limits_resolved nothing_resolved"
    by (simp add: limits_resolved_def limit_state_def nothing_resolved_def)
  ultimately show ?thesis
    unfolding resolvePolicies_def resolve_items_def by (intro fold_limits_resolved)
qed

definition owner :: Identity where
  "owner = \<lparr>UserID = ''u'', OrgID = ''o'', Email = [], IRole = ''admin''\<rparr>"

definition some_connection :: Connection where
  "some_connection = \<lparr>conn_ID = ''c'', conn_OrgID = ''o'', conn_Name = ''n'',
     conn_Engine = ''postgres'', conn_Host = ''h'', conn_Port = 5432, conn_Database = ''d'',
     conn_Environment = [], conn_TLSRequired = False, conn_TLSMode = [],
     conn_QueryTimeoutSeconds = 0, conn_ReadOnly = False\<rparr>"

lemma resolved_limits_are_bounded_witness:
  "limits_resolved (resolvePolicies ascii_tables (seedDefaultPolicies ''o'' []) owner some_connection)"
proof -
  have "reachable_policies (policyCatalog @ []) (\<lambda>_. None) (seedDefaultPolicies ''o'' [])"
    by (intro reachable_policies.intros)
  moreover have "plain_keys []" by (simp add: plain_keys_def)
  ultimately show ?thesis by (rule resolved_limits_are_bounded)
qed

subsection \<open>Custom policies\<close>

text \<open>The item blocks the statement: it is in scope, nobody cleared the statement, and it names a
  table, a schema, the kind or the hours.\<close>

definition item_blocks :: "unicode \<Rightarrow> custom_env \<Rightarrow> CustomPolicy \<Rightarrow> bool" where
  "item_blocks u env item \<longleftrightarrow>
     in_scope u env item \<and> \<not> env_cleared env
     \<and> (cp_Kind item = ''deny_table'' \<and> match_table u env item
        \<or> cp_Kind item = ''deny_schema'' \<and> match_schema u env item
        \<or> cp_Kind item = ''deny_statement''
            \<and> equal_fold u (kind_string (Kind (env_info env))) (trim_space (cp_Config item))
        \<or> cp_Kind item = ''deny_write_outside_hours'' \<and> is_write (Kind (env_info env))
            \<and> outside_hours (env_minute env) (cp_Config item))"

lemma custom_step_blocks:
  "item_blocks u env item \<Longrightarrow> \<exists>d. custom_step u env item decision limit = Inl d \<and> Effect d = Deny"
  unfolding item_blocks_def custom_step_def Let_def blocks_def by (elim conjE disjE) simp_all

lemma custom_loop_blocks:
  "\<exists>item \<in> set items. item_blocks u env item \<Longrightarrow>
     Effect (fst (custom_loop u env items decision limit)) = Deny"
proof (induction items arbitrary: decision limit)
  case (Cons item items)
  show ?case
  proof (cases "custom_step u env item decision limit")
    case (Inl d)
    with custom_step_deny show ?thesis by fastforce
  next
    case (Inr p)
    with custom_step_blocks [of u env item decision limit] Cons.prems
    have "\<exists>i \<in> set items. item_blocks u env i" by auto
    with Cons.IH Inr show ?thesis by (cases p) simp
  qed
qed simp

text \<open>C28: every custom policy that names what the statement does is enforced: if one enabled
  policy of the workspace, in scope for the caller and the connection, blocks the table, the
  schema, the kind or the hour of an uncleared statement, the statement is denied, wherever the
  policy stands in the list and whatever registered rules and built-in guardrails decided.\<close>

theorem custom_policy_enforced:
  assumes "item \<in> set (ListCustomPolicies table (OrgID identity))"
    and "item_blocks u \<lparr>env_rules = rules, env_role = IRole identity,
           env_connection = conn_ID connection, env_info = info, env_cleared = cleared,
           env_minute = minute\<rparr> item"
  shows "Effect (fst (applyCustomPolicies u rules minute table identity connection info cleared
           decision limit)) = Deny"
  unfolding applyCustomPolicies_def using assms by (intro custom_loop_blocks) blast

definition no_payroll :: CustomPolicy where
  "no_payroll = \<lparr>cp_ID = ''p'', cp_OrgID = ''o'', cp_Name = ''n'', cp_Kind = ''deny_table'',
     cp_Config = ''payroll'', cp_ConnectionID = None, cp_RoleName = Some ''ADMIN'',
     cp_Enabled = True, cp_CreatedAt = []\<rparr>"

definition reads_payroll :: Info where
  "reads_payroll = (zero_info DialectPostgres [])\<lparr>Kind := Select,
     Tables := [\<lparr>Schema = [], Name = ''Payroll'', Alias = []\<rparr>]\<rparr>"

lemma custom_policy_enforced_witness:
  "Effect (fst (applyCustomPolicies ascii_tables (\<lambda>_. None) 0 [no_payroll] owner some_connection
     reads_payroll False allowed 0)) = Deny"
  by (rule custom_policy_enforced [of no_payroll]) code_simp+

text \<open>Without registered rules, custom policies only tighten what the guardrails decided: the
  decision stays the one it was or becomes a denial, and a row limit stays or shrinks, where 0
  stands for none.\<close>

lemma custom_policies_only_tighten:
  "let (d, l) = applyCustomPolicies u (\<lambda>_. None) minute table identity connection info cleared
         decision limit in
   (d = decision \<or> Effect d = Deny) \<and> (l = limit \<or> 0 < l \<and> (limit = 0 \<or> l < limit))"
proof -
  obtain d l where run: "applyCustomPolicies u (\<lambda>_. None) minute table identity connection info
      cleared decision limit = (d, l)" by fastforce
  from custom_loop_limit [OF run [unfolded applyCustomPolicies_def]]
    custom_loop_decision [OF _ run [unfolded applyCustomPolicies_def]]
  show ?thesis by (simp add: run)
qed

subsection \<open>The write window\<close>

text \<open>Minutes from \<open>start\<close> to \<open>m\<close>, forward around the clock.\<close>

definition minutes_after :: "nat \<Rightarrow> nat \<Rightarrow> nat" where
  "minutes_after start m = (m + 1440 - start) mod 1440"

lemma inside_window_cyclic:
  assumes "m < 1440" "a < 1440" "b < 1440"
  shows "inside_window m a b \<longleftrightarrow> minutes_after a m \<le> minutes_after a b"
proof -
  have "minutes_after a n = (if a \<le> n then n - a else n + 1440 - a)" if "n < 1440" for n
  proof (cases "a \<le> n")
    case True
    then have shift: "n + 1440 - a = (n - a) + 1440" by simp
    have "(n - a + 1440) mod 1440 = n - a" using that by (simp only: mod_add_self2) simp
    with True show ?thesis by (simp only: minutes_after_def shift if_True)
  qed (use that assms in \<open>simp add: minutes_after_def\<close>)
  with assms show ?thesis by (auto simp: inside_window_def)
qed

lemma parse_clock_bound: "parse_clock s = Some m \<Longrightarrow> m < 1440"
proof -
  have "clock_minute r = Some k \<Longrightarrow> k < 60" for r k
    by (cases r rule: clock_minute.cases) (auto simp: Let_def split: if_splits)
  then have "clock_at h r = Some k \<Longrightarrow> k < 1440" for h r k
    by (fastforce simp: clock_at_def split: if_splits)
  then show "parse_clock s = Some m \<Longrightarrow> m < 1440"
    by (cases s rule: parse_clock.cases) (auto split: if_splits)
qed

text \<open>A write window that \<open>validateCustom\<close> accepts is a real one: both of its ends are minutes
  of the day, and at every minute the policy blocks writes exactly when the minute lies outside
  the window, a window over midnight included.\<close>

lemma write_window_is_exact:
  assumes "validateCustom rules ''deny_write_outside_hours'' config = []" and "minute < 1440"
  shows "\<exists>a b start stop. str_split (CHR ''-'') config = [a, b]
    \<and> parse_clock (trim_space a) = Some start \<and> parse_clock (trim_space b) = Some stop
    \<and> start < 1440 \<and> stop < 1440
    \<and> (outside_hours minute config \<longleftrightarrow> minutes_after start stop < minutes_after start minute)"
proof -
  let ?parts = "str_split (CHR ''-'') config"
  have "length ?parts = 2 \<and> \<not> list_ex (\<lambda>p. parse_clock (trim_space p) = None) ?parts"
    using assms(1) by (auto simp: validateCustom_def Let_def split: if_splits)
  then obtain a b start stop where parts: "?parts = [a, b]"
    and clocks: "parse_clock (trim_space a) = Some start" "parse_clock (trim_space b) = Some stop"
    by (auto simp: length_Suc_conv numeral_2_eq_2)
  with parse_clock_bound assms(2) inside_window_cyclic [of minute start stop] show ?thesis
    by (auto simp: outside_hours_def not_le)
qed

lemma write_window_is_exact_witness:
  "\<exists>a b start stop. str_split (CHR ''-'') ''22:00-6:30'' = [a, b] \<and> start < (1440::nat) \<and> stop < (1440::nat)"
proof -
  have "validateCustom (\<lambda>_. None) ''deny_write_outside_hours'' ''22:00-6:30'' = []" by code_simp
  from write_window_is_exact [OF this, of 0] show ?thesis by auto
qed

subsection \<open>Where the code differs from what it means\<close>

text \<open>
  Deleting a policy without naming a scope deletes the workspace's own row. The screen then
  shows the catalog's default, off for this policy, while the guardrail is enforced: it
  applies unless a row disables it.
\<close>

lemma deleted_policy_is_shown_off_but_enforced:
  "let t = snd (deletePolicyScope policyCatalog None ''o'' ''deny_select_without_where'' [] []
             (seedDefaultPolicies ''o'' []));
       r = resolvePolicies ascii_tables t owner some_connection in
   view_Enabled (hd (listPolicies policyCatalog False t ''o'' [] [])) = False
   \<and> Effect (Evaluate [] \<lparr>Statement = reads_payroll, Role = ''admin'', ReadOnly = False,
       Environment = [], Cleared = False, Disabled = res_disabled r, Enabled = res_enabled r\<rparr>) = Deny"
  by code_simp

text \<open>A padded role wildcard is not recognised as one: the override is stored for a role named
  \<open>*\<close>.\<close>

lemma padded_wildcard_scope:
  "scopedPolicyKey ''deny_drop'' None (Some '' * '') = ''deny_drop@role:*''"
  by code_simp

subsection \<open>The table behind the overrides\<close>

text \<open>The table of policy overrides behaves as a map. After any sequence of \<open>SetPolicyOverride\<close> and
  \<open>DeletePolicyOverride\<close> on a table with unique rows the rows are still unique, and what an
  organisation has under a key is what the same sequence leaves in a map, where a set without
  a value keeps the value stored before.\<close>

lemma override_table_refines_map:
  assumes "unique_rows t"
  shows "unique_rows (override_store.run ops t)
    \<and> override_at (override_store.run ops t) = override_store.run_map ops (override_at t)"
  by (rule override_store.run_refines [OF assms])

lemma override_table_refines_map_witness:
  "override_at (override_store.run
      [Put (''o'', ''limit_rows'') (True, Some ''5''), Put (''o'', ''limit_rows'') (False, None),
       Put (''o'', ''deny_drop'') (True, None), Remove (''o'', ''deny_drop'')] [])
     (''o'', ''limit_rows'') = Some (False, Some ''5'')"
proof -
  have "unique_rows []" by (simp add: unique_rows_def)
  then show ?thesis
    by (subst conjunct2 [OF override_table_refines_map]) (simp_all add: coalesce_def override_at_def)
qed

end
