(* ===== verification/Routing.thy ===== *)
theory Routing
  imports Domain Classify
begin

section \<open>Access and the choice of the node (api/access.go, api/topology.go)\<close>

text \<open>
  \<open>Access\<close> is the interface an installation may provide; without one \<open>ownerAccess\<close> answers.
  The state of the topology is the list of a connection's nodes with their last status. What
  the outside says is a parameter: \<open>age\<close> is \<open>time.Since(time.Parse(RFC3339Nano, s))\<close> in
  nanoseconds, \<open>None\<close> where the text is no time; \<open>probe\<close> is the answer of a node to the
  role query.
\<close>

subsection \<open>Access\<close>

record AccessRole =
  ar_ID :: string
  ar_Name :: string
  ar_ReadOnly :: bool

record ConnectionGrant =
  NodePolicy :: string
  DefaultNodeRole :: string

record Access =
  acc_Role :: "string \<Rightarrow> AccessRole result"
  acc_Connection :: "Identity \<Rightarrow> AccessRole \<Rightarrow> string \<Rightarrow> (ConnectionGrant \<times> bool) result"

definition ownerAccess :: Access where
  "ownerAccess = \<lparr>
     acc_Role = (\<lambda>_. Inr \<lparr>ar_ID = [], ar_Name = ''admin'', ar_ReadOnly = False\<rparr>),
     acc_Connection = (\<lambda>_ _ _. Inr (\<lparr>NodePolicy = [], DefaultNodeRole = []\<rparr>, False))\<rparr>"

definition accessRules :: "Access option \<Rightarrow> Access" where
  "accessRules access = (case access of None \<Rightarrow> ownerAccess | Some a \<Rightarrow> a)"

definition role_of :: "Access option \<Rightarrow> string \<Rightarrow> AccessRole result" where
  "role_of access userID = acc_Role (accessRules access) userID"

definition connectionGrant :: "Access option \<Rightarrow> Identity \<Rightarrow> string \<Rightarrow> ConnectionGrant option" where
  "connectionGrant access identity connectionID =
     (if IsAdmin identity
      then Some \<lparr>NodePolicy = ''user_selectable'', DefaultNodeRole = ''primary''\<rparr>
      else
        (case role_of access (UserID identity) of
           Inl _ \<Rightarrow> None
         | Inr role \<Rightarrow>
             (case acc_Connection (accessRules access) identity role connectionID of
                Inr (grant, True) \<Rightarrow> Some grant
              | _ \<Rightarrow> None)))"

definition canUseConnection :: "Access option \<Rightarrow> Identity \<Rightarrow> Connection \<Rightarrow> bool" where
  "canUseConnection access identity connection \<longleftrightarrow>
     (if conn_OrgID connection \<noteq> OrgID identity then False
      else connectionGrant access identity (conn_ID connection) \<noteq> None)"

text \<open>\<open>authorizedConnection\<close>: \<open>found\<close> is what the store has under the id of the path.\<close>

definition authorizedConnection ::
  "Access option \<Rightarrow> Identity \<Rightarrow> Connection option \<Rightarrow> response + Connection" where
  "authorizedConnection access identity found =
     (case found of
        None \<Rightarrow> Inl (Refused 404 ''NOT_FOUND'' ''connection not found'')
      | Some connection \<Rightarrow>
          (if conn_OrgID connection \<noteq> OrgID identity
           then Inl (Refused 404 ''NOT_FOUND'' ''connection not found'')
           else if connectionGrant access identity (conn_ID connection) \<noteq> None then Inr connection
           else Inl (Refused 403 ''POLICY_DENIED'' ''role has no access to this connection'')))"

subsection \<open>The desired role\<close>

definition invalid_routing :: "string result" where
  "invalid_routing = Inl ''invalid node routing policy''"

definition effectiveNodeRole :: "string \<Rightarrow> string \<Rightarrow> string option \<Rightarrow> string result" where
  "effectiveNodeRole policy defaultRole requested =
     (if policy = ''primary_only'' then Inr ''primary''
      else if policy = ''secondary_only'' then Inr ''secondary''
      else if policy = ''user_selectable'' then
        (if defaultRole \<noteq> ''primary'' \<and> defaultRole \<noteq> ''secondary'' then invalid_routing
         else (case requested of
                 None \<Rightarrow> Inr defaultRole
               | Some r \<Rightarrow> if r \<noteq> ''primary'' \<and> r \<noteq> ''secondary'' then invalid_routing else Inr r))
      else invalid_routing)"

definition desiredNodeRole ::
  "Access option \<Rightarrow> Identity \<Rightarrow> string \<Rightarrow> string option \<Rightarrow> string result" where
  "desiredNodeRole access identity connectionID requested =
     (case connectionGrant access identity connectionID of
        None \<Rightarrow> Inl ''role has no access to this connection''
      | Some grant \<Rightarrow> effectiveNodeRole (NodePolicy grant) (DefaultNodeRole grant) requested)"

subsection \<open>Nodes\<close>

record topology =
  age :: "string \<Rightarrow> int option"
  check_interval :: nat
  probe :: "ConnectionNode \<Rightarrow> (string \<times> bool) result"
  checked_at :: string

definition topologyIntervalSeconds :: "topology \<Rightarrow> nat" where
  "topologyIntervalSeconds tp = (if check_interval tp = 0 then 30 else check_interval tp)"

definition max_age :: "topology \<Rightarrow> int" where
  "max_age tp =
     (let age = int (topologyIntervalSeconds tp * 3) * 1000000000 in
      if age < 30 * 1000000000 then 30 * 1000000000 else age)"

definition nodeFresh :: "topology \<Rightarrow> ConnectionNode \<Rightarrow> int \<Rightarrow> bool" where
  "nodeFresh tp node maxAge =
     (case node_LastCheckedAt node of
        None \<Rightarrow> False
      | Some s \<Rightarrow> (case age tp s of None \<Rightarrow> False | Some a \<Rightarrow> 0 \<le> a \<and> a \<le> maxAge))"

definition usable_node :: "topology \<Rightarrow> string \<Rightarrow> ConnectionNode \<Rightarrow> bool" where
  "usable_node tp desired node \<longleftrightarrow>
     node_Health node = ''healthy'' \<and> node_DetectedRole node = desired
     \<and> (desired \<noteq> ''secondary'' \<or> node_ReadOnly node) \<and> nodeFresh tp node (max_age tp)"

definition freshNode :: "topology \<Rightarrow> ConnectionNode list \<Rightarrow> string \<Rightarrow> ConnectionNode option" where
  "freshNode tp nodes desired = find (usable_node tp desired) nodes"

text \<open>The values a database returns, as far as the role query looks at them.\<close>

datatype cell = NullCell | BoolCell bool | IntCell int | StringCell string | OtherCell string

definition topologyTruthy :: "unicode \<Rightarrow> cell \<Rightarrow> bool" where
  "topologyTruthy u c =
     (case c of
        BoolCell b \<Rightarrow> b
      | IntCell n \<Rightarrow> n \<noteq> 0
      | StringCell s \<Rightarrow> to_lower u (trim_space s) \<in> {''1'', ''true'', ''on''}
      | _ \<Rightarrow> False)"

text \<open>\<open>fmt.Sprint\<close> of the cell that names the role.\<close>

definition printed :: "cell \<Rightarrow> string" where
  "printed c = (case c of NullCell \<Rightarrow> ''<nil>'' | BoolCell b \<Rightarrow> if b then ''true'' else ''false''
     | IntCell n \<Rightarrow> decimal n | StringCell s \<Rightarrow> s | OtherCell s \<Rightarrow> s)"

definition topology_reading :: "unicode \<Rightarrow> cell list list \<Rightarrow> (string \<times> bool) result" where
  "topology_reading u rows =
     (case rows of
        (a # b # _) # _ \<Rightarrow>
          (let role = to_lower u (trim_space (printed a)); readOnly = topologyTruthy u b in
           if role \<noteq> ''primary'' \<and> role \<noteq> ''secondary''
           then Inl ''database returned an unknown topology role''
           else if role = ''secondary'' \<and> \<not> readOnly then Inl ''secondary node is not read-only''
           else Inr (role, readOnly \<or> role = ''secondary''))
      | _ \<Rightarrow> Inl ''topology check returned no row'')"

text \<open>The status a health check writes, \<open>refreshConnectionTopology\<close>.\<close>

definition checked_node :: "topology \<Rightarrow> ConnectionNode \<Rightarrow> ConnectionNode" where
  "checked_node tp node =
     (case probe tp node of
        Inl _ \<Rightarrow> node\<lparr>node_DetectedRole := ''unknown'', node_Health := ''unreachable'',
                      node_ReadOnly := True, node_LastCheckedAt := Some (checked_at tp)\<rparr>
      | Inr (role, readOnly) \<Rightarrow>
          node\<lparr>node_DetectedRole := role, node_Health := ''healthy'', node_ReadOnly := readOnly,
               node_LastCheckedAt := Some (checked_at tp)\<rparr>)"

definition refreshConnectionTopology :: "topology \<Rightarrow> ConnectionNode list \<Rightarrow> ConnectionNode list" where
  "refreshConnectionTopology tp nodes = map (checked_node tp) nodes"

definition routeNode ::
  "topology \<Rightarrow> ConnectionNode list \<Rightarrow> string \<Rightarrow> ConnectionNode result \<times> ConnectionNode list" where
  "routeNode tp nodes desired =
     (case freshNode tp nodes desired of
        Some node \<Rightarrow> (Inr node, nodes)
      | None \<Rightarrow>
          (let nodes' = refreshConnectionTopology tp nodes in
           case freshNode tp nodes' desired of
             Some node \<Rightarrow> (Inr node, nodes')
           | None \<Rightarrow> (Inl (''no healthy verified '' @ desired @ '' node is available''), nodes')))"

text \<open>\<open>metadataEngineConnection\<close>: a primary, else a secondary.\<close>

definition choose_node :: "topology \<Rightarrow> ConnectionNode list \<Rightarrow> ConnectionNode option" where
  "choose_node tp nodes =
     (case freshNode tp nodes ''primary'' of
        Some node \<Rightarrow> Some node | None \<Rightarrow> freshNode tp nodes ''secondary'')"

definition metadataEngineConnection ::
  "topology \<Rightarrow> ConnectionNode list \<Rightarrow> ConnectionNode result \<times> ConnectionNode list" where
  "metadataEngineConnection tp nodes =
     (case choose_node tp nodes of
        Some node \<Rightarrow> (Inr node, nodes)
      | None \<Rightarrow>
          (let nodes' = refreshConnectionTopology tp nodes in
           case choose_node tp nodes' of
             Some node \<Rightarrow> (Inr node, nodes')
           | None \<Rightarrow> (Inl ''no healthy verified node is available'', nodes')))"

text \<open>The errors of the routing the query path distinguishes.\<close>

datatype route_error = SecondaryUnsafe | RouteError string

definition secondary_unsafe_message :: string where
  "secondary_unsafe_message = ''secondary nodes accept read-only SELECT statements only''"

fun route_message :: "route_error \<Rightarrow> string" where
  "route_message SecondaryUnsafe = secondary_unsafe_message"
| "route_message (RouteError e) = e"

definition routedEngineConnection ::
  "Access option \<Rightarrow> topology \<Rightarrow> Identity \<Rightarrow> Connection \<Rightarrow> string option \<Rightarrow> Info option \<Rightarrow>
   ConnectionNode list \<Rightarrow> (route_error + ConnectionNode \<times> string) \<times> ConnectionNode list" where
  "routedEngineConnection access tp identity connection requested info nodes =
     (case desiredNodeRole access identity (conn_ID connection) requested of
        Inl e \<Rightarrow> (Inl (RouteError e), nodes)
      | Inr desired \<Rightarrow>
          (if desired = ''secondary'' \<and> (case info of None \<Rightarrow> True | Some i \<Rightarrow> \<not> secondary_safe i)
           then (Inl SecondaryUnsafe, nodes)
           else (case routeNode tp nodes desired of
                   (Inl e, nodes') \<Rightarrow> (Inl (RouteError e), nodes')
                 | (Inr node, nodes') \<Rightarrow> (Inr (node, desired), nodes'))))"

subsection \<open>What routing guarantees\<close>

lemma freshNode_usable: "freshNode tp nodes desired = Some node \<Longrightarrow> usable_node tp desired node"
  by (auto simp: freshNode_def find_Some_iff)

lemma routeNode_usable: "fst (routeNode tp nodes desired) = Inr node \<Longrightarrow> usable_node tp desired node"
  by (auto simp: routeNode_def Let_def split: option.splits dest: freshNode_usable)

lemma effectiveNodeRole_roles:
  "effectiveNodeRole policy d requested = Inr r \<Longrightarrow> r = ''primary'' \<or> r = ''secondary''"
  by (auto simp: effectiveNodeRole_def invalid_routing_def split: if_splits option.splits)

lemma routed_cases:
  assumes "fst (routedEngineConnection access tp identity connection requested info nodes) = Inr (node, desired)"
  shows "desiredNodeRole access identity (conn_ID connection) requested = Inr desired
    \<and> usable_node tp desired node
    \<and> (desired = ''secondary'' \<longrightarrow> (\<exists>i. info = Some i \<and> secondary_safe i))"
  using assms routeNode_usable [of tp nodes desired node]
  by (auto simp: routedEngineConnection_def split: sum.splits if_splits option.splits prod.splits)

end
