(* ===== verification/Streaming.thy ===== *)
theory Streaming
  imports Domain
begin

section \<open>Streaming a result (streamQueryResponse of api/query.go, streamNDJSON of api/stream.go)\<close>

text \<open>
  The rows of a result are read one by one from the driver and written to the client. A
  stream is the list of its rows and how it ends, and the further results of a batch, each of
  them rows with an ending or the error of moving to it; \<open>writes k\<close> says whether the k-th
  write to the client succeeds (0 is the header), \<open>encodes\<close> whether a row can be encoded as
  JSON, \<open>flushes n\<close> whether the size or the age of a batch of NDJSON makes it due after the
  n-th row. The contents of a row are not interpreted: \<open>transform\<close> is what the result hooks
  do to it, planned from the columns of the first result.
\<close>

record 'row stream =
  stream_rows :: "'row list"
  stream_error :: "string option"
  stream_more :: "(string + 'row list \<times> string option) list"

record 'row client =
  transform :: "'row \<Rightarrow> 'row"
  encodes :: "'row \<Rightarrow> bool"
  writes :: "nat \<Rightarrow> bool"
  flushes :: "nat \<Rightarrow> bool"
  ndjson :: bool

record 'row streamed =
  sent :: "'row list"
  truncated :: bool
  streamErr :: "string option"
  writeErr :: bool

definition capped :: "bool \<Rightarrow> int \<Rightarrow> nat \<Rightarrow> bool" where
  "capped policyCap rowLimit rowCount \<longleftrightarrow> policyCap \<and> 0 < rowLimit \<and> rowLimit \<le> int rowCount"

text \<open>The loop; \<open>rowCount\<close> counts the rows written so far.\<close>

fun stream_loop ::
  "'row client \<Rightarrow> bool \<Rightarrow> int \<Rightarrow> nat \<Rightarrow> 'row list \<Rightarrow> string option \<Rightarrow> 'row streamed" where
  "stream_loop c cap limit n [] ending =
     \<lparr>sent = [], truncated = False, streamErr = ending, writeErr = False\<rparr>"
| "stream_loop c cap limit n (row # rows) ending =
     (if capped cap limit n
      then \<lparr>sent = [], truncated = True, streamErr = None, writeErr = False\<rparr>
      else if \<not> encodes c (transform c row)
      then \<lparr>sent = [], truncated = False, streamErr = Some ''json: unsupported value'', writeErr = False\<rparr>
      else if \<not> writes c (Suc n)
      then \<lparr>sent = [transform c row], truncated = False, streamErr = None, writeErr = True\<rparr>
      else (let r = stream_loop c cap limit (Suc n) rows ending in
            r\<lparr>sent := transform c row # sent r\<rparr>))"

text \<open>Header, loop and tail.\<close>

definition stream_response :: "'row client \<Rightarrow> bool \<Rightarrow> int \<Rightarrow> 'row stream \<Rightarrow> 'row streamed" where
  "stream_response c cap limit st =
     (if \<not> writes c 0
      then \<lparr>sent = [], truncated = False, streamErr = None, writeErr = True\<rparr>
      else
        (let r = stream_loop c cap limit 0 (stream_rows st) (stream_error st) in
         if writeErr r then r else r\<lparr>writeErr := \<not> writes c (Suc (length (sent r)))\<rparr>))"

text \<open>
  NDJSON: a frame with the columns, frames of at most 128 rows, a closing frame; then the next
  result of the batch. \<open>n\<close> counts the rows of the result, \<open>b\<close> those waiting in the batch, \<open>k\<close>
  the frames written.
\<close>

definition flush_batch ::
  "'row client \<Rightarrow> nat \<Rightarrow> nat \<Rightarrow> bool \<Rightarrow> string option \<Rightarrow> 'row streamed \<times> nat" where
  "flush_batch c b k trunc err =
     (\<lparr>sent = [], truncated = trunc, streamErr = err, writeErr = 0 < b \<and> \<not> writes c k\<rparr>,
      if 0 < b then Suc k else k)"

fun read_one ::
  "'row client \<Rightarrow> bool \<Rightarrow> int \<Rightarrow> nat \<Rightarrow> nat \<Rightarrow> nat \<Rightarrow> 'row list \<Rightarrow> string option \<Rightarrow> 'row streamed \<times> nat"
where
  "read_one c cap limit n b k [] ending = flush_batch c b k False ending"
| "read_one c cap limit n b k (row # rows) ending =
     (if capped cap limit n then flush_batch c b k True None
      else
        (let due = 128 \<le> Suc b \<or> flushes c (Suc n) in
         if due \<and> \<not> writes c k
         then (\<lparr>sent = [transform c row], truncated = False, streamErr = None, writeErr = True\<rparr>, Suc k)
         else
           (case read_one c cap limit (Suc n) (if due then 0 else Suc b) (if due then Suc k else k)
                   rows ending of
              (r, k') \<Rightarrow> (r\<lparr>sent := transform c row # sent r\<rparr>, k'))))"

fun ndjson_results ::
  "'row client \<Rightarrow> bool \<Rightarrow> int \<Rightarrow> nat \<Rightarrow> (string + 'row list \<times> string option) list \<Rightarrow> 'row streamed list"
where
  "ndjson_results c cap limit k [] = []"
| "ndjson_results c cap limit k (Inl e # later) =
     [\<lparr>sent = [], truncated = False, streamErr = Some e, writeErr = False\<rparr>]"
| "ndjson_results c cap limit k (Inr (rows, ending) # later) =
     (if \<not> writes c k
      then [\<lparr>sent = [], truncated = False, streamErr = None, writeErr = True\<rparr>]
      else
        (case read_one c cap limit 0 0 (Suc k) rows ending of
           (r, k') \<Rightarrow>
             (let out = (if writeErr r then r else r\<lparr>writeErr := \<not> writes c k'\<rparr>) in
              if writeErr out \<or> streamErr out \<noteq> None \<or> truncated out then [out]
              else out # ndjson_results c cap limit (Suc k') later)))"

definition streamQueryResponse ::
  "'row client \<Rightarrow> bool \<Rightarrow> int \<Rightarrow> 'row stream \<Rightarrow> 'row streamed list" where
  "streamQueryResponse c cap limit st =
     (if ndjson c
      then ndjson_results c cap limit 0 (Inr (stream_rows st, stream_error st) # stream_more st)
      else [stream_response c cap limit st])"

text \<open>What the activity log records of it.\<close>

definition stream_status :: "'row streamed list \<Rightarrow> string" where
  "stream_status outs =
     (if list_ex (\<lambda>r. streamErr r \<noteq> None \<or> writeErr r) outs then ''error''
      else if list_ex truncated outs then ''truncated'' else ''success'')"

definition total_rows :: "'row streamed list \<Rightarrow> int" where
  "total_rows outs = int (sum_list (map (\<lambda>r. length (sent r)) outs))"

subsection \<open>Caps\<close>

lemma stream_loop_prefix:
  "\<exists>k. sent (stream_loop c cap limit n rows ending) = map (transform c) (take k rows)"
proof (induction c cap limit n rows ending rule: stream_loop.induct)
  case (1 c cap limit n ending)
  then show ?case by simp
next
  case (2 c cap limit n row rows ending)
  show ?case
  proof (cases "capped cap limit n \<or> \<not> encodes c (transform c row)")
    case True
    then show ?thesis by (intro exI [of _ 0]) auto
  next
    case ok: False
    show ?thesis
    proof (cases "writes c (Suc n)")
      case True
      with 2 ok obtain k where "sent (stream_loop c cap limit (Suc n) rows ending) = map (transform c) (take k rows)"
        by auto
      with ok True show ?thesis by (intro exI [of _ "Suc k"]) (simp add: Let_def)
    qed (use ok in \<open>auto intro!: exI [of _ "1::nat"]\<close>)
  qed
qed

lemma stream_loop_count:
  "cap \<Longrightarrow> 0 < limit \<Longrightarrow> int n \<le> limit \<Longrightarrow>
     int (n + length (sent (stream_loop c cap limit n rows ending))) \<le> limit"
  by (induction c cap limit n rows ending rule: stream_loop.induct)
    (auto simp: capped_def Let_def)

lemma stream_loop_truncated:
  "truncated (stream_loop c cap limit n rows ending) \<Longrightarrow>
     cap \<and> 0 < limit \<and> limit \<le> int (n + length (sent (stream_loop c cap limit n rows ending)))
     \<and> length (sent (stream_loop c cap limit n rows ending)) < length rows
     \<and> streamErr (stream_loop c cap limit n rows ending) = None
     \<and> \<not> writeErr (stream_loop c cap limit n rows ending)"
  by (induction c cap limit n rows ending rule: stream_loop.induct)
    (auto simp: capped_def Let_def split: if_splits)

text \<open>A client that takes everything gets every row up to the cap.\<close>

lemma stream_loop_complete:
  assumes "\<And>k. writes c k" and "\<And>r. encodes c r"
  shows "stream_loop c cap limit n rows ending =
     (let room = (if cap \<and> 0 < limit then nat (limit - int n) else length rows) in
      \<lparr>sent = map (transform c) (take room rows), truncated = room < length rows,
       streamErr = (if room < length rows then None else ending), writeErr = False\<rparr>)"
  using assms
proof (induction c cap limit n rows ending rule: stream_loop.induct)
  case (2 c cap limit n row rows ending)
  show ?case
  proof (cases "capped cap limit n")
    case True
    then show ?thesis by (auto simp: capped_def)
  next
    case False
    then have "cap \<and> 0 < limit \<Longrightarrow> nat (limit - int n) = Suc (nat (limit - int (Suc n)))"
      by (auto simp: capped_def)
    with 2 False show ?thesis by (auto simp: Let_def)
  qed
qed (auto simp: Let_def)

subsection \<open>NDJSON\<close>

lemma read_one_count:
  "cap \<Longrightarrow> 0 < limit \<Longrightarrow> int n \<le> limit \<Longrightarrow>
     int (n + length (sent (fst (read_one c cap limit n b k rows ending)))) \<le> limit"
  by (induction c cap limit n b k rows ending rule: read_one.induct)
    (auto simp: capped_def flush_batch_def Let_def case_prod_beta)

lemma ndjson_count:
  "cap \<Longrightarrow> 0 < limit \<Longrightarrow> out \<in> set (ndjson_results c cap limit k results) \<Longrightarrow>
     int (length (sent out)) \<le> limit"
proof (induction c cap limit k results rule: ndjson_results.induct)
  case (3 c cap limit k rows ending later)
  obtain r k' where r: "read_one c cap limit 0 0 (Suc k) rows ending = (r, k')" by fastforce
  with read_one_count [of cap limit 0 c 0 "Suc k" rows ending] 3(2,3)
  have "int (length (sent r)) \<le> limit" by simp
  with 3 r show ?case by (auto simp: Let_def split: if_splits)
qed auto

lemma streamQueryResponse_count:
  assumes "cap" and "0 < limit" and "out \<in> set (streamQueryResponse c cap limit st)"
  shows "int (length (sent out)) \<le> limit"
proof (cases "ndjson c")
  case True
  with assms(3) have "out \<in> set (ndjson_results c cap limit 0 (Inr (stream_rows st, stream_error st) # stream_more st))"
    by (simp only: streamQueryResponse_def if_True)
  with assms(1,2) show ?thesis by (rule ndjson_count)
next
  case False
  with assms stream_loop_count [of cap limit 0 c "stream_rows st" "stream_error st"]
  show ?thesis by (auto simp: streamQueryResponse_def stream_response_def Let_def)
qed

text \<open>Rows are sent in the order of the result, transformed and without gaps.\<close>

lemma read_one_prefix:
  "\<exists>j. sent (fst (read_one c cap limit n b k rows ending)) = map (transform c) (take j rows)"
proof (induction c cap limit n b k rows ending rule: read_one.induct)
  case (2 c cap limit n b k row rows ending)
  consider (cap) "capped cap limit n"
    | (fail) "\<not> capped cap limit n" "128 \<le> Suc b \<or> flushes c (Suc n)" "\<not> writes c k"
    | (go) "\<not> capped cap limit n" "128 \<le> Suc b \<or> flushes c (Suc n) \<longrightarrow> writes c k" by blast
  then show ?case
  proof cases
    case go
    with 2 [OF go(1) refl] obtain j where
      "sent (fst (read_one c cap limit (Suc n) (if 128 \<le> Suc b \<or> flushes c (Suc n) then 0 else Suc b)
          (if 128 \<le> Suc b \<or> flushes c (Suc n) then Suc k else k) rows ending)) = map (transform c) (take j rows)"
      by auto
    with go show ?thesis
      by (intro exI [of _ "Suc j"]) (auto simp: Let_def case_prod_beta)
  next
    case fail
    then show ?thesis by (intro exI [of _ 1]) (simp add: Let_def)
  qed (auto simp: flush_batch_def Let_def intro!: exI [of _ 0])
qed (simp add: flush_batch_def)

text \<open>The cap counts each result of a batch anew, so a batch can send more rows than it.\<close>

lemma batch_exceeds_cap:
  "total_rows (streamQueryResponse
     \<lparr>transform = (\<lambda>r. r), encodes = (\<lambda>_. True), writes = (\<lambda>_. True), flushes = (\<lambda>_. False), ndjson = True\<rparr>
     True 2 \<lparr>stream_rows = [1, 2], stream_error = None, stream_more = [Inr ([3, 4 :: nat], None)]\<rparr>) = 4"
  by code_simp

end
