(* ===== verification/Query.thy ===== *)
theory Query
  imports Custom_Policies Parse_Cache Routing Streaming
begin

section \<open>The query path (api/query.go, the hooks of api/hooks.go, ReturnsRows of engine/engine.go)\<close>

text \<open>
  One request for one statement. What the server has installed is a record (\<open>server\<close>); what
  the databases, the store and the clock answer while the request runs is another
  (\<open>world\<close>). The handler is a function to the list of the events it causes, in their order:
  the entries of the activity log, the responses, the statements that reach a database. The
  parse cache is threaded through. Annotations, which only add fields to a response, are left
  out, except the ones that decide something.
\<close>

subsection \<open>What is installed, what answers\<close>

type_synonym StatementHook = "Identity \<Rightarrow> string \<Rightarrow> Connection \<Rightarrow> Info \<Rightarrow> string result"

record Escalation =
  esc_Cleared :: "Identity \<Rightarrow> string \<Rightarrow> string \<Rightarrow> string option"
  esc_Request :: "Identity \<Rightarrow> Connection \<Rightarrow> string \<Rightarrow> Decision \<Rightarrow> string result"

record server =
  srv_tables :: unicode
  srv_sha256 :: "string \<Rightarrow> string"
  srv_shared :: bool
  srv_streamTimeout :: int
  srv_access :: "Access option"
  srv_rules :: "Rule list"
  srv_customRules :: customRules
  srv_escalation :: "Escalation option"
  srv_statementHooks :: "StatementHook list"

datatype backup_note = NoBackup | BackupSkipped string | BackupBlocked string | BackupTaken

record 'row world =
  w_policies :: "policy_table result"
  w_custom :: "custom_table result"
  w_minute :: nat
  w_topology :: topology
  w_nodes :: "ConnectionNode list"
  w_target :: "ConnectionNode \<Rightarrow> string option"
  w_session :: "string option"
  w_backup :: "Info \<Rightarrow> backup_note"
  w_query :: "string \<Rightarrow> string + 'row stream"
  w_result :: "string option"
  w_client :: "'row client"
  w_execute :: "string \<Rightarrow> string + int"

record queryInput =
  inp_MaxRows :: int
  inp_SQL :: string
  inp_NodeRole :: "string option"
  inp_Backup :: bool

datatype runner = InTransaction | InSession | OnPool

record activity =
  act_SQL :: string
  act_Status :: string
  act_Rows :: int
  act_Decision :: string
  act_PolicyID :: string
  act_Reference :: string

datatype 'row event =
    Recorded activity
  | Responded response
  | Consumed string
  | OpenedSession
  | ClosedSession
  | BackedUp
  | DiscardedBackup
  | RanQuery runner string int
  | RanCommand runner string int
  | Sent "'row streamed list"
  | ForgotSchema

definition recordActivity :: "string \<Rightarrow> string \<Rightarrow> int \<Rightarrow> string \<Rightarrow> string \<Rightarrow> string \<Rightarrow> 'row event" where
  "recordActivity sql st rows decision policyID reference =
     Recorded \<lparr>act_SQL = sql, act_Status = st, act_Rows = rows, act_Decision = decision,
       act_PolicyID = policyID, act_Reference = reference\<rparr>"

subsection \<open>Hashes and timeouts\<close>

definition Normalize :: "(string \<Rightarrow> string) \<Rightarrow> Info \<Rightarrow> string \<times> string" where
  "Normalize sha256 info =
     (let normalized = str_join '' '' (map Lower (Tokens info)) in (normalized, sha256 normalized))"

definition ExactHash :: "(string \<Rightarrow> string) \<Rightarrow> string \<Rightarrow> string" where
  "ExactHash sha256 sql = sha256 (trim_space sql)"

text \<open>In seconds.\<close>

definition defaultStatementTimeout :: "bool \<Rightarrow> int \<Rightarrow> int" where
  "defaultStatementTimeout is_shared shared = (if is_shared then shared else 24 * 3600)"

definition withConnectionTimeout :: "Connection \<Rightarrow> int \<Rightarrow> int \<Rightarrow> int" where
  "withConnectionTimeout connection policySeconds fallback =
     (let configured = conn_QueryTimeoutSeconds connection;
          timeout = (if 0 < configured \<and> (configured < fallback \<or> 60 < fallback)
                     then configured else fallback)
      in if 0 < policySeconds \<and> policySeconds < timeout then policySeconds else timeout)"

definition streamTimeout :: "bool \<Rightarrow> int \<Rightarrow> int" where
  "streamTimeout is_shared configured =
     (let t = (if configured \<le> 0 then 8 * 60 else configured) in
      if is_shared then t else defaultStatementTimeout is_shared t)"

subsection \<open>ReturnsRows\<close>

text \<open>\<open>strings.TrimLeft(query, "(\<dots>")\<close> with the byte order mark, then the first field.\<close>

fun trim_open :: "string \<Rightarrow> string" where
  "trim_open (a # b # c # s) =
     (if a = CHR ''('' then trim_open (b # c # s)
      else if a = CHR 0xEF \<and> b = CHR 0xBB \<and> c = CHR 0xBF then trim_open s
      else a # b # c # s)"
| "trim_open (a # s) = (if a = CHR ''('' then trim_open s else a # s)"
| "trim_open [] = []"

text \<open>\<open>strings.Fields(q)[0]\<close> of a text that starts with a field.\<close>

fun first_field :: "string \<Rightarrow> string" where
  "first_field [] = []"
| "first_field (a # s) =
     (if ascii_space a then []
      else (case s of
          b # s' \<Rightarrow>
            (if space2 a b then []
             else (case s' of
                 c # _ \<Rightarrow> (if space3 a b c then [] else a # first_field s)
               | [] \<Rightarrow> a # first_field s))
        | [] \<Rightarrow> [a]))"

definition has_suffix :: "string \<Rightarrow> string \<Rightarrow> bool" where
  "has_suffix suf s = has_prefix (rev suf) (rev s)"

definition returns_by_text :: "unicode \<Rightarrow> string \<Rightarrow> bool" where
  "returns_by_text u query =
     (let q = trim_space (trim_open query) in
      if q = [] then False
      else if to_upper u (first_field q) \<in> {''SELECT'', ''WITH'', ''SHOW'', ''EXPLAIN'',
                ''DESCRIBE'', ''DESC'', ''PRAGMA'', ''EXEC'', ''EXECUTE'', ''VALUES''} then True
      else str_index '' RETURNING '' (to_upper u q) \<noteq> None
           \<or> has_suffix '' RETURNING'' (to_upper u q))"

definition returns_by_info :: "Info \<Rightarrow> bool option" where
  "returns_by_info info =
     (if Command info = Select then Some True
      else if Command info = Insert \<or> Command info = Update \<or> Command info = Delete
      then Some (list_ex (\<lambda>t. Depth t = 0 \<and> (Lower t = ''returning'' \<or> Lower t = ''output''))
                  (Tokens info))
      else None)"

definition ReturnsRows :: "unicode \<Rightarrow> string \<Rightarrow> parse_cache \<Rightarrow> bool \<times> parse_cache" where
  "ReturnsRows u query c =
     (case ParseDialect u DialectGeneric query c of
        ((info, err), c') \<Rightarrow>
          (case (if err = None then returns_by_info info else None) of
             Some b \<Rightarrow> (b, c')
           | None \<Rightarrow> (returns_by_text u query, c')))"

subsection \<open>prepareStatement\<close>

fun run_hooks ::
  "unicode \<Rightarrow> StatementHook list \<Rightarrow> Identity \<Rightarrow> string \<Rightarrow> Connection \<Rightarrow> Info \<Rightarrow> parse_cache \<Rightarrow>
   (Info \<times> string option) \<times> parse_cache" where
  "run_hooks u [] identity roleID connection info c = ((info, None), c)"
| "run_hooks u (hook # hooks) identity roleID connection info c =
     (case hook identity roleID connection info of
        Inl e \<Rightarrow> ((info, Some e), c)
      | Inr next \<Rightarrow>
          (if next = Raw info then run_hooks u hooks identity roleID connection info c
           else
             (case ParseDialect u (dialect_for_engine u (conn_Engine connection)) next c of
                ((parsed, Some e), c') \<Rightarrow> ((info, Some e), c')
              | ((parsed, None), c') \<Rightarrow> run_hooks u hooks identity roleID connection parsed c')))"

definition prepareStatement ::
  "server \<Rightarrow> Identity \<Rightarrow> string \<Rightarrow> Connection \<Rightarrow> Info \<Rightarrow> parse_cache \<Rightarrow>
   (Info \<times> string option) \<times> parse_cache" where
  "prepareStatement s identity roleID connection info c =
     run_hooks (srv_tables s) (srv_statementHooks s) identity roleID connection info c"

subsection \<open>The verdict\<close>

text \<open>
  \<open>resolvePolicies\<close>, \<open>policy.Evaluate\<close> and, unless \<open>skip\<close>, \<open>applyCustomPolicies\<close>, in the order
  every caller has them: the decision, the row limit and the query timeout.
\<close>

definition policy_input :: "AccessRole \<Rightarrow> Connection \<Rightarrow> Info \<Rightarrow> bool \<Rightarrow> resolved \<Rightarrow> Input" where
  "policy_input role connection info cleared r =
     \<lparr>Statement = info, Role = ar_Name role,
      ReadOnly = ar_ReadOnly role \<or> conn_ReadOnly connection,
      Environment = conn_Environment connection, Cleared = cleared,
      Disabled = res_disabled r, Enabled = res_enabled r\<rparr>"

definition judge ::
  "server \<Rightarrow> 'row world \<Rightarrow> Identity \<Rightarrow> AccessRole \<Rightarrow> Connection \<Rightarrow> Info \<Rightarrow> bool \<Rightarrow> bool \<Rightarrow>
   (Decision \<times> int \<times> int) result" where
  "judge s w identity role connection info cleared skip =
     bind_result (w_policies w) (\<lambda>table.
       (let r = resolvePolicies (srv_tables s) table identity connection;
            decision = Evaluate (srv_rules s) (policy_input role connection info cleared r)
        in if skip then Inr (decision, res_rowLimit r, res_queryTimeout r)
           else bind_result (w_custom w) (\<lambda>custom.
             (case applyCustomPolicies (srv_tables s) (srv_customRules s) (w_minute w) custom identity
                     connection info cleared decision (res_rowLimit r) of
                (d, limit) \<Rightarrow> Inr (d, limit, res_queryTimeout r)))))"


subsection \<open>executeQuery\<close>

definition refuse :: "nat \<Rightarrow> string \<Rightarrow> string \<Rightarrow> 'row event" where
  "refuse code name message = Responded (Refused code name message)"

definition transaction_message :: string where
  "transaction_message = ''Rowset opens and ends transactions itself. Use Begin, Commit and Rollback, or the editor's manual-commit switch, instead of writing the statement.''"

definition database_message :: string where
  "database_message = ''Use the database selector to choose a database; a USE statement would be forgotten as soon as it finished.''"

text \<open>\<open>forgetSchemaAfter\<close>.\<close>

definition forgetSchemaAfter :: "kind \<Rightarrow> 'row event list" where
  "forgetSchemaAfter k =
     (if k \<in> {Select, Insert, Update, Delete, Session} then [] else [ForgotSchema])"

definition with_session :: "bool \<Rightarrow> 'row event list \<Rightarrow> 'row event list" where
  "with_session opened evs = (if opened then OpenedSession # evs @ [ClosedSession] else evs)"

definition runner_of :: "bool \<Rightarrow> bool \<Rightarrow> runner" where
  "runner_of in_transaction in_session =
     (if in_transaction then InTransaction else if in_session then InSession else OnPool)"

definition discard_backup :: "bool \<Rightarrow> 'row event list" where
  "discard_backup taken = (if taken then [DiscardedBackup] else [])"

text \<open>The statement reaches the database: lines 197 to 284.\<close>

definition run_statement ::
  "server \<Rightarrow> 'row world \<Rightarrow> string \<Rightarrow> string \<Rightarrow> Info \<Rightarrow> int \<Rightarrow> int \<Rightarrow> runner \<Rightarrow> bool \<Rightarrow> parse_cache \<Rightarrow>
   'row event list \<times> parse_cache" where
  "run_statement s w sql reference info rowLimit timeout runner backed_up c =
     (let effectiveSQL = Raw info;
          query = RanQuery runner effectiveSQL
                    (min timeout (streamTimeout (srv_shared s) (srv_streamTimeout s)));
          command = RanCommand runner effectiveSQL timeout in
      case ReturnsRows (srv_tables s) effectiveSQL c of
        (True, c') \<Rightarrow>
          (case w_query w effectiveSQL of
             Inl e \<Rightarrow>
               ([query] @ discard_backup backed_up
                @ [recordActivity sql ''error'' 0 ''allow'' [] reference,
                   refuse 502 ''EXEC_ERROR'' e], c')
           | Inr rows \<Rightarrow>
               (case w_result w of
                  Some e \<Rightarrow>
                    ([query,
                      recordActivity sql ''error'' 0 ''deny'' [] reference,
                      refuse 500 ''INTERNAL'' ''failed to prepare the result''], c')
                | None \<Rightarrow>
                    (let outs = streamQueryResponse (w_client w) (0 < rowLimit) rowLimit rows in
                     ([query] @ forgetSchemaAfter (Kind info)
                      @ [Sent outs,
                         recordActivity sql (stream_status outs) (total_rows outs) ''allow'' [] reference]
                      @ forgetSchemaAfter (Kind info), c'))))
      | (False, c') \<Rightarrow>
          (case w_execute w effectiveSQL of
             Inl e \<Rightarrow>
               ([command] @ discard_backup backed_up
                @ [recordActivity sql ''error'' 0 ''allow'' [] reference,
                   refuse 502 ''EXEC_ERROR'' e], c')
           | Inr rowsAffected \<Rightarrow>
               ([command] @ forgetSchemaAfter (Kind info)
                @ [recordActivity sql ''success'' rowsAffected ''allow'' [] reference,
                   Responded (Answer 200)], c')))"

text \<open>The backup and the session before it: lines 172 to 196.\<close>

definition prepare_run ::
  "server \<Rightarrow> 'row world \<Rightarrow> queryInput \<Rightarrow> string \<Rightarrow> Info \<Rightarrow> int \<Rightarrow> int \<Rightarrow> bool \<Rightarrow> parse_cache \<Rightarrow>
   'row event list \<times> parse_cache" where
  "prepare_run s w input reference info rowLimit timeout in_transaction c =
     (let needs_session = \<not> in_transaction \<and> TouchesSession info in
      case (if needs_session then w_session w else None) of
        Some e \<Rightarrow> ([refuse 502 ''EXEC_ERROR'' e], c)
      | None \<Rightarrow>
          (case (if inp_Backup input \<and> is_write (Command info) then w_backup w info else NoBackup) of
             BackupBlocked reason \<Rightarrow>
               (with_session needs_session [refuse 409 ''BACKUP_UNAVAILABLE'' reason], c)
           | note \<Rightarrow>
               (case run_statement s w (inp_SQL input) reference info rowLimit timeout
                       (runner_of in_transaction needs_session) (note = BackupTaken) c of
                  (evs, c') \<Rightarrow>
                    (with_session needs_session
                       ((if note = BackupTaken then [BackedUp] else []) @ evs), c'))))"

text \<open>The routing: lines 146 to 171.\<close>

definition route_statement ::
  "server \<Rightarrow> 'row world \<Rightarrow> Identity \<Rightarrow> Connection \<Rightarrow> queryInput \<Rightarrow> string \<Rightarrow> Info \<Rightarrow> int \<Rightarrow> int \<Rightarrow>
   bool \<Rightarrow> parse_cache \<Rightarrow> 'row event list \<times> parse_cache" where
  "route_statement s w identity connection input reference info rowLimit timeout in_transaction c =
     (if in_transaction then prepare_run s w input reference info rowLimit timeout True c
      else
        (case fst (routedEngineConnection (srv_access s) (w_topology w) identity connection
                     (inp_NodeRole input) (Some info) (w_nodes w)) of
           Inl SecondaryUnsafe \<Rightarrow>
             ([recordActivity (inp_SQL input) ''blocked'' 0 ''deny'' ''secondary_read_only'' [],
               refuse 403 ''POLICY_DENIED'' secondary_unsafe_message], c)
         | Inl (RouteError e) \<Rightarrow> ([refuse 502 ''EXEC_ERROR'' e], c)
         | Inr (node, _) \<Rightarrow>
             (case w_target w node of
                Some e \<Rightarrow> ([refuse 502 ''EXEC_ERROR'' e], c)
              | None \<Rightarrow> prepare_run s w input reference info rowLimit timeout False c)))"

definition request_limit :: "int \<Rightarrow> int \<Rightarrow> int" where
  "request_limit maxRows rowLimit =
     (if 0 < maxRows \<and> (rowLimit = 0 \<or> maxRows < rowLimit) then maxRows else rowLimit)"

text \<open>What follows an allowing decision: lines 118 to 145.\<close>

definition allowed_statement ::
  "server \<Rightarrow> 'row world \<Rightarrow> Identity \<Rightarrow> AccessRole \<Rightarrow> Connection \<Rightarrow> queryInput \<Rightarrow> string option \<Rightarrow> Info \<Rightarrow> int \<Rightarrow>
   int \<Rightarrow> bool \<Rightarrow> parse_cache \<Rightarrow> 'row event list \<times> parse_cache" where
  "allowed_statement s w identity role connection input cleared info rowLimit policyTimeout in_transaction c =
     (let consumed = (case cleared of None \<Rightarrow> [] | Some reference \<Rightarrow> [Consumed reference]);
          reference = stringValue cleared in
      case prepareStatement s identity (ar_ID role) connection info c of
        ((prepared, Some e), c') \<Rightarrow>
          (consumed @ [recordActivity (inp_SQL input) ''rewrite_error'' 0 ''deny'' ''statement_hook'' [],
             refuse 400 ''STATEMENT_REJECTED'' e], c')
      | ((prepared, None), c') \<Rightarrow>
          (case route_statement s w identity connection input reference prepared
                  (request_limit (inp_MaxRows input) rowLimit)
                  (withConnectionTimeout connection policyTimeout
                     (defaultStatementTimeout (srv_shared s) (10 * 60))) in_transaction c' of
             (evs, c'') \<Rightarrow> (consumed @ evs, c'')))"

fun effect_string :: "effect \<Rightarrow> string" where
  "effect_string Allow = ''allow''"
| "effect_string Deny = ''deny''"
| "effect_string (OtherEffect e) = e"

text \<open>The decision and what it leads to: lines 88 to 117.\<close>

definition govern_statement ::
  "server \<Rightarrow> 'row world \<Rightarrow> Identity \<Rightarrow> AccessRole \<Rightarrow> Connection \<Rightarrow> queryInput \<Rightarrow> Info \<Rightarrow> bool \<Rightarrow> parse_cache \<Rightarrow>
   'row event list \<times> parse_cache" where
  "govern_statement s w identity role connection input info in_transaction c =
     (let exactHash = ExactHash (srv_sha256 s) (inp_SQL input);
          cleared = (case srv_escalation s of None \<Rightarrow> None
                     | Some esc \<Rightarrow> esc_Cleared esc identity (conn_ID connection) exactHash) in
      case judge s w identity role connection info (cleared \<noteq> None) (srv_shared s \<and> IsAdmin identity) of
        Inl _ \<Rightarrow> ([refuse 500 ''INTERNAL'' ''governance rules unavailable''], c)
      | Inr (decision, rowLimit, policyTimeout) \<Rightarrow>
          (if Effect decision = Deny \<or> Effect decision \<noteq> Allow \<and> srv_escalation s = None
           then ([recordActivity (inp_SQL input) ''blocked'' 0 ''deny'' (PolicyID decision) [],
                  refuse 403 ''POLICY_DENIED'' (Reason decision)], c)
           else if Effect decision \<noteq> Allow then
             (case srv_escalation s of
                None \<Rightarrow> ([], c)
              | Some esc \<Rightarrow>
                  (case esc_Request esc identity connection (inp_SQL input) decision of
                     Inl e \<Rightarrow> ([refuse 500 ''INTERNAL'' ''the statement could not be held for review''], c)
                   | Inr reference \<Rightarrow>
                       ([recordActivity (inp_SQL input) ''blocked'' 0 (effect_string (Effect decision))
                           (PolicyID decision) reference,
                         Responded (Answer 202)], c)))
           else allowed_statement s w identity role connection input cleared info rowLimit
                  policyTimeout in_transaction c))"

definition executeQuery ::
  "server \<Rightarrow> 'row world \<Rightarrow> Identity \<Rightarrow> Connection \<Rightarrow> queryInput \<Rightarrow> bool \<Rightarrow> parse_cache \<Rightarrow>
   'row event list \<times> parse_cache" where
  "executeQuery s w identity connection input in_transaction c =
     (if inp_MaxRows input < 0 \<or> 10000 < inp_MaxRows input
      then ([refuse 400 ''BAD_REQUEST'' ''maxRows must be between 0 and 10000''], c)
      else case role_of (srv_access s) (UserID identity) of
        Inl _ \<Rightarrow> ([refuse 401 ''UNAUTHORIZED'' ''role missing''], c)
      | Inr role \<Rightarrow>
          (case ParseDialect (srv_tables s)
                  (dialect_for_engine (srv_tables s) (conn_Engine connection)) (inp_SQL input) c of
             ((_, Some e), c') \<Rightarrow>
               ([recordActivity (inp_SQL input) ''parse_error'' 0 ''deny'' ''parse_error'' [],
                 refuse 400 ''PARSE_ERROR'' e], c')
           | ((info, None), c') \<Rightarrow>
               (if ControlsTransaction info then
                  ([recordActivity (inp_SQL input) ''blocked'' 0 ''deny'' ''web_transaction_control'' [],
                    refuse 400 ''TRANSACTION_CONTROL_UNSUPPORTED'' transaction_message], c')
                else if SwitchesDatabase info then
                  ([recordActivity (inp_SQL input) ''blocked'' 0 ''deny'' ''web_database_switch'' [],
                    refuse 400 ''DATABASE_SWITCH_UNSUPPORTED'' database_message], c')
                else govern_statement s w identity role connection input info in_transaction c')))"

text \<open>\<open>runQuery\<close>: the handler of a request outside a transaction.\<close>

definition runQuery ::
  "server \<Rightarrow> 'row world \<Rightarrow> Identity \<Rightarrow> Connection option \<Rightarrow> queryInput \<Rightarrow> parse_cache \<Rightarrow>
   'row event list \<times> parse_cache" where
  "runQuery s w identity found input c =
     (case authorizedConnection (srv_access s) identity found of
        Inl refusal \<Rightarrow> ([Responded refusal], c)
      | Inr connection \<Rightarrow>
          (let sql = trim_space (inp_SQL input) in
           if conn_Engine connection = ''mongodb''
           then ([refuse 400 ''UNSUPPORTED'' ''use a MongoDB find query in the Query editor''], c)
           else if sql = [] then ([refuse 400 ''BAD_REQUEST'' ''sql is required''], c)
           else if (case inp_NodeRole input of None \<Rightarrow> False
                    | Some r \<Rightarrow> r \<noteq> ''primary'' \<and> r \<noteq> ''secondary'')
           then ([refuse 400 ''BAD_REQUEST'' ''nodeRole must be primary or secondary''], c)
           else executeQuery s w identity connection (input\<lparr>inp_SQL := sql\<rparr>) False c))"


subsection \<open>What a verdict consists of\<close>

lemma judge_limits:
  assumes "judge s w identity role connection info cleared skip = Inr (d, l, pt)"
    and "w_policies w = Inr table"
  shows "pt = res_queryTimeout (resolvePolicies (srv_tables s) table identity connection)
    \<and> (l = res_rowLimit (resolvePolicies (srv_tables s) table identity connection)
       \<or> 0 < l \<and> (res_rowLimit (resolvePolicies (srv_tables s) table identity connection) = 0
                 \<or> l < res_rowLimit (resolvePolicies (srv_tables s) table identity connection)))"
proof (cases skip)
  case True
  with assms show ?thesis by (simp add: judge_def Let_def)
next
  case False
  let ?r = "resolvePolicies (srv_tables s) table identity connection"
  from False assms obtain custom where
    run: "applyCustomPolicies (srv_tables s) (srv_customRules s) (w_minute w) custom identity connection
       info cleared (Evaluate (srv_rules s) (policy_input role connection info cleared ?r))
       (res_rowLimit ?r) = (d, l)" and "pt = res_queryTimeout ?r"
    by (auto simp: judge_def Let_def bind_result_Inr case_prod_beta prod_eq_iff)
  with custom_loop_limit [OF run [unfolded applyCustomPolicies_def]] show ?thesis by auto
qed

lemma judge_decision:
  assumes "judge s w identity role connection info cleared skip = Inr (d, l, pt)"
    and "w_policies w = Inr table" and "srv_customRules s = (\<lambda>_. None)"
  shows "d = Evaluate (srv_rules s) (policy_input role connection info cleared
               (resolvePolicies (srv_tables s) table identity connection))
         \<or> Effect d = Deny"
proof (cases skip)
  case True
  with assms show ?thesis by (simp add: judge_def Let_def)
next
  case False
  let ?e = "Evaluate (srv_rules s) (policy_input role connection info cleared
     (resolvePolicies (srv_tables s) table identity connection))"
  from False assms(1,2) obtain custom where
    "applyCustomPolicies (srv_tables s) (srv_customRules s) (w_minute w) custom identity connection
       info cleared ?e (res_rowLimit (resolvePolicies (srv_tables s) table identity connection)) = (d, l)"
    by (auto simp: judge_def Let_def bind_result_Inr case_prod_beta prod_eq_iff)
  from custom_loop_decision [OF _ this [unfolded applyCustomPolicies_def]] assms(3)
  show ?thesis by simp
qed

end
