(* ===== verification/Query_Properties.thy ===== *)
theory Query_Properties
  imports Query Guard_Properties
begin

section \<open>The properties of the query path\<close>

subsection \<open>What the events of a request have in common\<close>

fun ran :: "'row event \<Rightarrow> (runner \<times> string \<times> int) option" where
  "ran (RanQuery r sql t) = Some (r, sql, t)"
| "ran (RanCommand r sql t) = Some (r, sql, t)"
| "ran _ = None"

fun answers :: "'row event \<Rightarrow> bool" where
  "answers (Responded _) = True"
| "answers (Sent _) = True"
| "answers _ = False"

fun records :: "'row event \<Rightarrow> bool" where
  "records (Recorded _) = True"
| "records _ = False"

named_theorems query_defs \<open>the stages of the query path, unfolded\<close>

declare run_statement_def [query_defs] prepare_run_def [query_defs] route_statement_def [query_defs]
  allowed_statement_def [query_defs] govern_statement_def [query_defs] executeQuery_def [query_defs]

lemma event_views [simp]:
  "ran (recordActivity a b n d e f) = None" "ran (refuse k x y) = None"
  "answers (recordActivity a b n d e f) = False" "answers (refuse k x y) = True"
  "records (recordActivity a b n d e f) = True" "records (refuse k x y) = False"
  by (simp_all add: recordActivity_def refuse_def)

definition runs :: "'row event list \<Rightarrow> (runner \<times> string \<times> int) list" where
  "runs evs = List.map_filter ran evs"

lemma runs_simps [simp]:
  "runs [] = []" "runs (e # evs) = (case ran e of None \<Rightarrow> runs evs | Some x \<Rightarrow> x # runs evs)"
  "runs (xs @ ys) = runs xs @ runs ys"
  by (simp_all add: runs_def List.map_filter_def split: option.splits)

lemma quiet_parts [simp]:
  "runs (forgetSchemaAfter k) = []" "runs (discard_backup b) = []"
  "filter answers (forgetSchemaAfter k) = []" "filter answers (discard_backup b) = []"
  "filter records (forgetSchemaAfter k) = []" "filter records (discard_backup b) = []"
  by (simp_all add: forgetSchemaAfter_def discard_backup_def)

lemma with_session_views [simp]:
  "runs (with_session b evs) = runs evs" "filter answers (with_session b evs) = filter answers evs"
  "filter records (with_session b evs) = filter records evs"
  by (simp_all add: with_session_def)

text \<open>A handler answers once, and what it runs it runs once and records once.\<close>

definition well_ended :: "'row event list \<Rightarrow> bool" where
  "well_ended evs \<longleftrightarrow>
     length (filter answers evs) = 1 \<and> length (runs evs) \<le> length (filter records evs)
     \<and> length (filter records evs) \<le> 1"

lemma well_ended_short [simp]:
  "well_ended [refuse k x y]" "well_ended [Responded r]"
  "well_ended [recordActivity a b n d e f, refuse k x y]"
  "well_ended [recordActivity a b n d e f, Responded r]"
  "well_ended (Consumed ref # evs) = well_ended evs"
  "well_ended (BackedUp # evs) = well_ended evs"
  "well_ended (with_session opened evs) = well_ended evs"
  by (simp_all add: well_ended_def)

lemma run_statement_well_ended [simp]:
  "well_ended (fst (run_statement s w sql ref info limit t r b c))"
  by (auto simp: run_statement_def Let_def well_ended_def split: prod.splits sum.splits option.splits bool.splits)

lemma prepare_run_well_ended [simp]: "well_ended (fst (prepare_run s w input ref info limit t tx c))"
  by (simp add: prepare_run_def Let_def case_prod_beta split: option.splits backup_note.splits)

lemma route_statement_well_ended [simp]:
  "well_ended (fst (route_statement s w identity connection input ref info limit t tx c))"
  by (simp add: route_statement_def split: sum.splits route_error.splits option.splits prod.splits)

lemma allowed_statement_well_ended [simp]:
  "well_ended (fst (allowed_statement s w identity role connection input cleared info limit t tx c))"
  by (simp add: allowed_statement_def Let_def case_prod_beta split: option.splits prod.splits)

lemma govern_statement_well_ended [simp]:
  "well_ended (fst (govern_statement s w identity role connection input info tx c))"
  by (simp add: govern_statement_def Let_def split: prod.splits option.splits sum.splits)

lemma executeQuery_well_ended [simp]:
  "well_ended (fst (executeQuery s w identity connection input tx c))"
  by (simp add: executeQuery_def split: prod.splits option.splits sum.splits)

subsection \<open>What reaches a database\<close>

definition deadline :: "server \<Rightarrow> Connection \<Rightarrow> int \<Rightarrow> int" where
  "deadline s connection policyTimeout =
     withConnectionTimeout connection policyTimeout (defaultStatementTimeout (srv_shared s) (10 * 60))"

text \<open>The statement \<open>info\<close> ran as \<open>x\<close>, within \<open>timeout\<close> seconds.\<close>

definition run_of :: "bool \<Rightarrow> Info \<Rightarrow> int \<Rightarrow> runner \<times> string \<times> int \<Rightarrow> bool" where
  "run_of tx info timeout x \<longleftrightarrow>
     fst (snd x) = Raw info \<and> snd (snd x) \<le> timeout
     \<and> fst x = (if tx then InTransaction else if TouchesSession info then InSession else OnPool)"

lemma run_statement_run:
  "x \<in> set (runs (fst (run_statement s w sql ref info limit t r b c))) \<Longrightarrow>
     fst x = r \<and> fst (snd x) = Raw info \<and> snd (snd x) \<le> t"
  by (auto simp: run_statement_def Let_def split: prod.splits sum.splits option.splits bool.splits)

lemma prepare_run_run:
  assumes "x \<in> set (runs (fst (prepare_run s w input ref info limit t tx c)))"
  shows "run_of tx info t x"
proof -
  let ?r = "runner_of tx (\<not> tx \<and> TouchesSession info)"
  from assms obtain b where "x \<in> set (runs (fst (run_statement s w (inp_SQL input) ref info limit t ?r b c)))"
    unfolding prepare_run_def Let_def
    by (simp add: case_prod_beta split: option.splits backup_note.splits if_splits)
  from run_statement_run [OF this] show ?thesis by (simp add: run_of_def runner_of_def)
qed

lemma route_statement_run:
  assumes "x \<in> set (runs (fst (route_statement s w identity connection input ref info limit t tx c)))"
  shows "run_of tx info t x \<and> (tx \<or> (\<exists>node desired.
      fst (routedEngineConnection (srv_access s) (w_topology w) identity connection
             (inp_NodeRole input) (Some info) (w_nodes w)) = Inr (node, desired)
      \<and> w_target w node = None))"
  using assms prepare_run_run [of x s w input ref info limit t]
  by (auto simp: route_statement_def split: if_splits sum.splits route_error.splits option.splits prod.splits)

lemma allowed_statement_run:
  assumes "x \<in> set (runs (fst (allowed_statement s w identity role connection input cleared info limit pt tx c)))"
  shows "\<exists>prepared c'. prepareStatement s identity (ar_ID role) connection info c = ((prepared, None), c')
    \<and> run_of tx prepared (deadline s connection pt) x
    \<and> (tx \<or> (\<exists>node desired.
      fst (routedEngineConnection (srv_access s) (w_topology w) identity connection
             (inp_NodeRole input) (Some prepared) (w_nodes w)) = Inr (node, desired)
      \<and> w_target w node = None))"
proof -
  obtain prepared err c' where prep:
    "prepareStatement s identity (ar_ID role) connection info c = ((prepared, err), c')"
    by (metis prod.collapse)
  show ?thesis
  proof (cases err)
    case None
    with assms prep have "x \<in> set (runs (fst (route_statement s w identity connection input
        (stringValue cleared) prepared (request_limit (inp_MaxRows input) limit)
        (deadline s connection pt) tx c')))"
      by (simp add: allowed_statement_def Let_def case_prod_beta deadline_def split: option.splits)
    from route_statement_run [OF this] prep None show ?thesis by blast
  next
    case (Some e)
    with assms prep show ?thesis
      by (simp add: allowed_statement_def Let_def split: option.splits)
  qed
qed

text \<open>The chain of checks behind a statement that reached a database.\<close>

definition checked ::
  "server \<Rightarrow> 'row world \<Rightarrow> Identity \<Rightarrow> Connection \<Rightarrow> queryInput \<Rightarrow> bool \<Rightarrow> Info \<Rightarrow> runner \<times> string \<times> int \<Rightarrow> bool" where
  "checked s w identity connection input tx info x \<longleftrightarrow>
     \<not> ControlsTransaction info \<and> \<not> SwitchesDatabase info
     \<and> (\<exists>role decision limit policyTimeout prepared c1 c2.
          role_of (srv_access s) (UserID identity) = Inr role
          \<and> judge s w identity role connection info
              (\<exists>esc. srv_escalation s = Some esc \<and> esc_Cleared esc identity (conn_ID connection)
                       (ExactHash (srv_sha256 s) (inp_SQL input)) \<noteq> None)
              (srv_shared s \<and> IsAdmin identity) = Inr (decision, limit, policyTimeout)
          \<and> Effect decision = Allow
          \<and> prepareStatement s identity (ar_ID role) connection info c1 = ((prepared, None), c2)
          \<and> run_of tx prepared (deadline s connection policyTimeout) x
          \<and> (tx \<or> (\<exists>node desired.
               fst (routedEngineConnection (srv_access s) (w_topology w) identity connection
                      (inp_NodeRole input) (Some prepared) (w_nodes w)) = Inr (node, desired)
               \<and> w_target w node = None)))"

lemma govern_statement_run:
  assumes "x \<in> set (runs (fst (govern_statement s w identity role connection input info tx c)))"
  shows "\<exists>decision limit pt.
     judge s w identity role connection info
        (\<exists>esc. srv_escalation s = Some esc \<and> esc_Cleared esc identity (conn_ID connection)
                 (ExactHash (srv_sha256 s) (inp_SQL input)) \<noteq> None)
        (srv_shared s \<and> IsAdmin identity) = Inr (decision, limit, pt)
     \<and> Effect decision = Allow
     \<and> (\<exists>cleared. x \<in> set (runs (fst (allowed_statement s w identity role connection input cleared
                            info limit pt tx c))))"
proof -
  define cleared where "cleared = (case srv_escalation s of None \<Rightarrow> None
    | Some esc \<Rightarrow> esc_Cleared esc identity (conn_ID connection) (ExactHash (srv_sha256 s) (inp_SQL input)))"
  have flag: "cleared \<noteq> None \<longleftrightarrow> (\<exists>esc. srv_escalation s = Some esc
      \<and> esc_Cleared esc identity (conn_ID connection) (ExactHash (srv_sha256 s) (inp_SQL input)) \<noteq> None)"
    by (auto simp: cleared_def split: option.splits)
  from assms obtain decision limit pt
    where "judge s w identity role connection info (cleared \<noteq> None) (srv_shared s \<and> IsAdmin identity)
        = Inr (decision, limit, pt)" and "Effect decision = Allow"
      and "x \<in> set (runs (fst (allowed_statement s w identity role connection input cleared
              info limit pt tx c)))"
    unfolding govern_statement_def Let_def cleared_def [symmetric]
    by (auto split: sum.splits if_splits option.splits)
  then show ?thesis unfolding flag by blast
qed

lemma executeQuery_run:
  assumes "x \<in> set (runs (fst (executeQuery s w identity connection input tx c)))"
  shows "\<exists>info. fst (ParseDialect (srv_tables s)
      (dialect_for_engine (srv_tables s) (conn_Engine connection)) (inp_SQL input) c) = (info, None)
    \<and> checked s w identity connection input tx info x"
proof -
  from assms obtain role info c' where role: "role_of (srv_access s) (UserID identity) = Inr role"
    and parse: "ParseDialect (srv_tables s) (dialect_for_engine (srv_tables s) (conn_Engine connection))
      (inp_SQL input) c = ((info, None), c')"
    and plain: "\<not> ControlsTransaction info" "\<not> SwitchesDatabase info"
    and x: "x \<in> set (runs (fst (govern_statement s w identity role connection input info tx c')))"
    unfolding executeQuery_def by (auto split: if_splits sum.splits prod.splits option.splits)
  from govern_statement_run [OF x] obtain decision limit pt cleared
    where verdict: "judge s w identity role connection info
        (\<exists>esc. srv_escalation s = Some esc \<and> esc_Cleared esc identity (conn_ID connection)
                 (ExactHash (srv_sha256 s) (inp_SQL input)) \<noteq> None)
        (srv_shared s \<and> IsAdmin identity) = Inr (decision, limit, pt)" "Effect decision = Allow"
      and y: "x \<in> set (runs (fst (allowed_statement s w identity role connection input cleared
                    info limit pt tx c')))"
    by blast
  from role verdict allowed_statement_run [OF y] plain
  have "checked s w identity connection input tx info x"
    unfolding checked_def by blast
  with parse show ?thesis by simp
qed

subsection \<open>A server and a world for the witnesses\<close>

definition plain_server :: server where
  "plain_server = \<lparr>srv_tables = ascii_tables, srv_sha256 = (\<lambda>s. s), srv_shared = False,
     srv_streamTimeout = 0, srv_access = None, srv_rules = [], srv_customRules = (\<lambda>_. None),
     srv_escalation = None, srv_statementHooks = []\<rparr>"

definition plain_world :: "nat world" where
  "plain_world = \<lparr>w_policies = Inr [], w_custom = Inr [], w_minute = 0,
     w_topology = \<lparr>age = (\<lambda>_. None), check_interval = 0, probe = (\<lambda>_. Inl []), checked_at = []\<rparr>,
     w_nodes = [], w_target = (\<lambda>_. None), w_session = None, w_backup = (\<lambda>_. NoBackup),
     w_query = (\<lambda>_. Inr \<lparr>stream_rows = [1, 2, 3], stream_error = None, stream_more = []\<rparr>), w_result = None,
     w_client = \<lparr>transform = (\<lambda>r. r), encodes = (\<lambda>_. True), writes = (\<lambda>_. True),
       flushes = (\<lambda>_. False), ndjson = False\<rparr>,
     w_execute = (\<lambda>_. Inr 1)\<rparr>"

definition plain_identity :: Identity where
  "plain_identity = \<lparr>UserID = ''u'', OrgID = ''o'', Email = [], IRole = ''admin''\<rparr>"

definition plain_connection :: Connection where
  "plain_connection = \<lparr>conn_ID = ''c'', conn_OrgID = ''o'', conn_Name = ''n'',
     conn_Engine = ''postgres'', conn_Host = ''h'', conn_Port = 5432, conn_Database = ''d'',
     conn_Environment = [], conn_TLSRequired = False, conn_TLSMode = [],
     conn_QueryTimeoutSeconds = 0, conn_ReadOnly = False\<rparr>"

definition query_input :: "string \<Rightarrow> queryInput" where
  "query_input sql = \<lparr>inp_MaxRows = 2, inp_SQL = sql, inp_NodeRole = None, inp_Backup = False\<rparr>"

lemma plain_run:
  "runs (fst (executeQuery plain_server plain_world plain_identity plain_connection
     (query_input ''select a'') True empty_cache)) = [(InTransaction, ''select a'', 86400)]"
  by code_simp


subsection \<open>Properties\<close>

text \<open>C4: no statement reaches a database unchecked. If the handler runs anything, then the text
  parsed, without error and to the same record whatever the parse cache held; it neither
  controls a transaction nor switches the database; the caller has a role; the guardrails and
  the custom policies allowed that record; the statement hooks accepted it; outside a
  transaction a verified node was chosen for it and its pool opened; and it ran on the runner its record calls
  for, within the deadline.\<close>

theorem nothing_runs_unchecked:
  assumes "cache_ok (srv_tables s) c"
    and "x \<in> set (runs (fst (executeQuery s w identity connection input tx c)))"
  shows "\<exists>info. parse_uncached (srv_tables s)
        (dialect_for_engine (srv_tables s) (conn_Engine connection)) (inp_SQL input) = (info, None)
      \<and> checked s w identity connection input tx info x"
  using executeQuery_run [OF assms(2)] ParseDialect_transparent [OF assms(1)] by metis

lemma nothing_runs_unchecked_witness:
  "\<exists>info. checked plain_server plain_world plain_identity plain_connection
     (query_input ''select a'') True info (InTransaction, ''select a'', 86400)"
proof -
  have "cache_ok (srv_tables plain_server) empty_cache" by (simp add: plain_server_def)
  moreover have "(InTransaction, ''select a'', 86400) \<in> set (runs (fst (executeQuery plain_server
      plain_world plain_identity plain_connection (query_input ''select a'') True empty_cache)))"
    by (simp add: plain_run)
  ultimately show ?thesis using nothing_runs_unchecked by blast
qed


text \<open>The statement is what was judged: without hooks the record is unchanged.\<close>

lemma no_hooks_prepared:
  "srv_statementHooks s = [] \<Longrightarrow>
     prepareStatement s identity roleID connection info c = ((prepared, None), c') \<Longrightarrow> prepared = info"
  by (simp add: prepareStatement_def)

text \<open>Without statement hooks, what runs is the text of the record the policies judged, and a
  statement that leaves state behind on its connection never runs on a pooled connection, alone
  or inside a script.\<close>

lemma judged_statement_runs_isolated:
  assumes "cache_ok (srv_tables s) c" and "srv_statementHooks s = []"
    and "(r, sql, t) \<in> set (runs (fst (executeQuery s w identity connection input tx c)))"
  shows "\<exists>info. parse_uncached (srv_tables s)
        (dialect_for_engine (srv_tables s) (conn_Engine connection)) (inp_SQL input) = (info, None)
      \<and> sql = Raw info \<and> (r = OnPool \<longrightarrow> \<not> TouchesSession info)"
proof -
  from executeQuery_run [OF assms(3)] ParseDialect_transparent [OF assms(1)]
  obtain info where parse: "parse_uncached (srv_tables s)
        (dialect_for_engine (srv_tables s) (conn_Engine connection)) (inp_SQL input) = (info, None)"
    and "checked s w identity connection input tx info (r, sql, t)" by metis
  then obtain roleID prepared c1 c2 T
    where "prepareStatement s identity roleID connection info c1 = ((prepared, None), c2)"
      and "run_of tx prepared T (r, sql, t)"
    unfolding checked_def by blast
  with no_hooks_prepared [OF assms(2)] have "run_of tx info T (r, sql, t)" by blast
  then have "sql = Raw info \<and> (r = OnPool \<longrightarrow> \<not> TouchesSession info)"
    by (auto simp: run_of_def split: if_splits)
  with parse show ?thesis by blast
qed

lemma judged_statement_runs_isolated_witness:
  "\<exists>info. fst (parse_uncached ascii_tables (dialect_for_engine ascii_tables ''postgres'') ''select a'') = info
     \<and> ''select a'' = Raw info"
proof -
  have "cache_ok (srv_tables plain_server) empty_cache" "srv_statementHooks plain_server = []"
    by (simp_all add: plain_server_def)
  from judged_statement_runs_isolated [OF this, of InTransaction "''select a''" 86400 plain_world
      plain_identity plain_connection "query_input ''select a''" True]
  show ?thesis
    by (auto simp: plain_run) (simp add: plain_server_def plain_connection_def query_input_def)
qed

text \<open>A request nobody cleared: no escalation is registered, or it holds no clearance for this
  caller, connection and text.\<close>

definition not_cleared :: "server \<Rightarrow> Identity \<Rightarrow> Connection \<Rightarrow> string \<Rightarrow> bool" where
  "not_cleared s identity connection sql \<longleftrightarrow>
     (case srv_escalation s of None \<Rightarrow> True
      | Some esc \<Rightarrow> esc_Cleared esc identity (conn_ID connection) (ExactHash (srv_sha256 s) sql) = None)"



text \<open>A statement runs no longer than the query timeout the policies resolve for the caller:
  when that is set, the deadline of everything the request runs is at most it, whatever the
  connection, the request or the installation ask for.\<close>

lemma run_within_policy_timeout:
  assumes "x \<in> set (runs (fst (executeQuery s w identity connection input tx c)))"
    and "w_policies w = Inr table"
    and "n = res_queryTimeout (resolvePolicies (srv_tables s) table identity connection)" and "0 < n"
  shows "snd (snd x) \<le> n"
proof -
  from executeQuery_run [OF assms(1)] obtain info
    where "checked s w identity connection input tx info x" by blast
  then obtain role cl skip d l pt prepared
    where "judge s w identity role connection info cl skip = Inr (d, l, pt)"
      and run: "run_of tx prepared (deadline s connection pt) x"
    unfolding checked_def by blast
  with judge_limits [OF _ assms(2)] assms(3) have "pt = n" by blast
  with assms(4) have "deadline s connection pt \<le> n"
    by (simp add: deadline_def withConnectionTimeout_def Let_def)
  with run show ?thesis by (simp add: run_of_def)
qed

definition timeout_row :: policy_row where
  "timeout_row = \<lparr>row_OrgID = ''o'', row_Key = ''query_timeout_seconds'', row_Enabled = True,
     row_Config = Some ''5''\<rparr>"

lemma timeout_run:
  "runs (fst (executeQuery plain_server (plain_world\<lparr>w_policies := Inr [timeout_row]\<rparr>) plain_identity
     plain_connection (query_input ''select a'') True empty_cache)) = [(InTransaction, ''select a'', 5)]"
  "res_queryTimeout (resolvePolicies ascii_tables [timeout_row] plain_identity plain_connection) = 5"
  by code_simp+

lemma run_within_policy_timeout_witness: "snd (snd (InTransaction, ''select a'', 5::int)) \<le> 5"
  by (rule run_within_policy_timeout [where s = plain_server and identity = plain_identity
        and connection = plain_connection and input = "query_input ''select a''" and tx = True
        and c = empty_cache and w = "plain_world\<lparr>w_policies := Inr [timeout_row]\<rparr>"
        and table = "[timeout_row]"])
    (use timeout_run in \<open>simp_all add: plain_server_def\<close>)

subsection \<open>The row cap\<close>

definition sends_at_most :: "int \<Rightarrow> 'row event list \<Rightarrow> bool" where
  "sends_at_most limit evs \<longleftrightarrow>
     (\<forall>outs. Sent outs \<in> set evs \<longrightarrow> 0 < limit \<longrightarrow> (\<forall>out\<in>set outs. int (length (sent out)) \<le> limit))"

lemma sends_at_most_simps [simp]:
  "sends_at_most limit []"
  "sends_at_most limit (e # evs) \<longleftrightarrow>
     (case e of Sent outs \<Rightarrow> 0 < limit \<longrightarrow> (\<forall>out\<in>set outs. int (length (sent out)) \<le> limit) | _ \<Rightarrow> True)
     \<and> sends_at_most limit evs"
  "sends_at_most limit (xs @ ys) \<longleftrightarrow> sends_at_most limit xs \<and> sends_at_most limit ys"
  "sends_at_most limit (forgetSchemaAfter k)" "sends_at_most limit (discard_backup b)"
  "sends_at_most limit (with_session opened evs) \<longleftrightarrow> sends_at_most limit evs"
  by (auto simp: sends_at_most_def forgetSchemaAfter_def discard_backup_def with_session_def
      split: event.splits)

lemma run_statement_sends [simp]:
  "sends_at_most limit (fst (run_statement s w sql ref info limit t r b c))"
  using streamQueryResponse_count [of "0 < limit" limit]
  by (auto simp: run_statement_def Let_def recordActivity_def refuse_def
      split: prod.splits sum.splits option.splits bool.splits)

lemma prepare_run_sends [simp]: "sends_at_most limit (fst (prepare_run s w input ref info limit t tx c))"
  by (simp add: prepare_run_def Let_def case_prod_beta refuse_def split: option.splits backup_note.splits)

lemma route_statement_sends [simp]:
  "sends_at_most limit (fst (route_statement s w identity connection input ref info limit t tx c))"
  by (simp add: route_statement_def refuse_def recordActivity_def
      split: sum.splits route_error.splits option.splits prod.splits)

lemma sends_at_most_mono:
  "sends_at_most l evs \<Longrightarrow> 0 < l \<Longrightarrow> l \<le> m \<Longrightarrow> sends_at_most m evs"
  by (fastforce simp: sends_at_most_def)

lemma request_limit_tightens:
  "0 < n \<Longrightarrow> l = n \<or> 0 < l \<and> (n = 0 \<or> l < n) \<Longrightarrow> 0 < request_limit m l \<and> request_limit m l \<le> n"
  by (auto simp: request_limit_def)

lemma allowed_statement_sends:
  assumes "0 < n" and "l = n \<or> 0 < l \<and> (n = 0 \<or> l < n)"
  shows "sends_at_most n (fst (allowed_statement s w identity role connection input cleared info l pt tx c))"
proof -
  have "sends_at_most n (fst (route_statement s w identity connection input ref prepared
      (request_limit (inp_MaxRows input) l) T tx c'))" for ref prepared T c'
    using request_limit_tightens [OF assms, of "inp_MaxRows input"]
    by (intro sends_at_most_mono [OF route_statement_sends]) auto
  then show ?thesis
    by (simp add: allowed_statement_def Let_def case_prod_beta refuse_def recordActivity_def
        split: option.splits prod.splits)
qed

text \<open>C15: the row cap holds on the wire: when the policies resolve a row limit for the caller, no
  result the query path sends, as one JSON text or as one of the results of an NDJSON stream,
  carries more rows than that limit, and custom limits and the
  request's own \<open>maxRows\<close> can only lower it.\<close>

theorem response_within_row_limit:
  assumes "w_policies w = Inr table"
    and "n = res_rowLimit (resolvePolicies (srv_tables s) table identity connection)" and "0 < n"
    and "Sent outs \<in> set (fst (executeQuery s w identity connection input tx c))" and "out \<in> set outs"
  shows "int (length (sent out)) \<le> n"
proof -
  have "sends_at_most n (fst (govern_statement s w identity role connection input info tx c'))"
    for role info c'
  proof -
    have "sends_at_most n (fst (allowed_statement s w identity role connection input cleared info l pt tx c'))"
      if "judge s w identity role connection info cl skip = Inr (d, l, pt)" for cl skip d l pt cleared
      using judge_limits [OF that assms(1)] by (intro allowed_statement_sends [OF assms(3)]) (simp add: assms(2))
    then show ?thesis
      by (auto simp: govern_statement_def Let_def refuse_def recordActivity_def
          split: sum.splits prod.splits option.splits)
  qed
  then have "sends_at_most n (fst (executeQuery s w identity connection input tx c))"
    by (simp add: executeQuery_def refuse_def recordActivity_def split: sum.splits prod.splits option.splits)
  with assms(3,4,5) show ?thesis by (simp add: sends_at_most_def)
qed

definition limit_row :: policy_row where
  "limit_row = \<lparr>row_OrgID = ''o'', row_Key = ''limit_rows'', row_Enabled = True, row_Config = Some ''2''\<rparr>"

definition two_rows :: "nat streamed" where
  "two_rows = \<lparr>sent = [1, 2], truncated = True, streamErr = None, writeErr = False\<rparr>"

lemma sent_member:
  "list_ex (\<lambda>e. case e of Sent outs \<Rightarrow> outs = x | _ \<Rightarrow> False) evs \<Longrightarrow> Sent x \<in> set evs"
  by (induction evs) (auto split: event.splits)

lemma limited_run:
  "list_ex (\<lambda>e. case e of Sent outs \<Rightarrow> outs = [two_rows] | _ \<Rightarrow> False)
     (fst (executeQuery plain_server (plain_world\<lparr>w_policies := Inr [limit_row]\<rparr>) plain_identity
        plain_connection ((query_input ''select a'')\<lparr>inp_MaxRows := 0\<rparr>) True empty_cache))"
  "res_rowLimit (resolvePolicies ascii_tables [limit_row] plain_identity plain_connection) = 2"
  by code_simp+

lemma response_within_row_limit_witness: "int (length (sent two_rows)) \<le> 2"
proof -
  have "Sent [two_rows] \<in> set (fst (executeQuery plain_server (plain_world\<lparr>w_policies := Inr [limit_row]\<rparr>)
      plain_identity plain_connection ((query_input ''select a'')\<lparr>inp_MaxRows := 0\<rparr>) True empty_cache))"
    by (rule sent_member [OF limited_run(1)])
  moreover have "(2::int) = res_rowLimit (resolvePolicies (srv_tables plain_server) [limit_row]
      plain_identity plain_connection)"
    using limited_run(2) by (simp add: plain_server_def)
  ultimately show ?thesis
    by (intro response_within_row_limit [of "plain_world\<lparr>w_policies := Inr [limit_row]\<rparr>" "[limit_row]" _ _ _ _ "[two_rows]"]) simp_all
qed

subsection \<open>Routing\<close>

text \<open>C14: a statement routed to a secondary is a read. When the caller's routing policy and request
  come to \<open>secondary\<close>, what the handler runs outside a transaction is the text of the record that
  the request's own text parses to and that the statement hooks prepared for the caller's role;
  this record is a SELECT and passes \<open>SecondarySafe\<close>; and the node it goes to, the one the
  routing chose among the connection's nodes for this record and whose pool was opened, was
  healthy, in the secondary role and read-only at its last check, no longer ago than the maximal
  age.\<close>

theorem secondary_runs_safe_reads:
  assumes "cache_ok (srv_tables s) c"
    and "x \<in> set (runs (fst (executeQuery s w identity connection input False c)))"
    and "desiredNodeRole (srv_access s) identity (conn_ID connection) (inp_NodeRole input) = Inr ''secondary''"
  shows "\<exists>info role prepared node c1 c2.
      parse_uncached (srv_tables s) (dialect_for_engine (srv_tables s) (conn_Engine connection))
        (inp_SQL input) = (info, None)
      \<and> role_of (srv_access s) (UserID identity) = Inr role
      \<and> prepareStatement s identity (ar_ID role) connection info c1 = ((prepared, None), c2)
      \<and> fst (snd x) = Raw prepared \<and> Kind prepared = Select \<and> secondary_safe prepared
      \<and> fst (routedEngineConnection (srv_access s) (w_topology w) identity connection
               (inp_NodeRole input) (Some prepared) (w_nodes w)) = Inr (node, ''secondary'')
      \<and> w_target w node = None
      \<and> node_Health node = ''healthy'' \<and> node_DetectedRole node = ''secondary'' \<and> node_ReadOnly node
      \<and> nodeFresh (w_topology w) node (max_age (w_topology w))"
proof -
  from executeQuery_run [OF assms(2)] ParseDialect_transparent [OF assms(1)] obtain info
    where parse: "parse_uncached (srv_tables s) (dialect_for_engine (srv_tables s) (conn_Engine connection))
        (inp_SQL input) = (info, None)"
      and "checked s w identity connection input False info x" by metis
  then obtain role prepared T node desired c1 c2
    where role: "role_of (srv_access s) (UserID identity) = Inr role"
      and prepared: "prepareStatement s identity (ar_ID role) connection info c1 = ((prepared, None), c2)"
      and run: "run_of False prepared T x"
      and routed: "fst (routedEngineConnection (srv_access s) (w_topology w) identity connection
             (inp_NodeRole input) (Some prepared) (w_nodes w)) = Inr (node, desired)"
      and opened: "w_target w node = None"
    unfolding checked_def by blast
  from routed_cases [OF routed] assms(3) have desired: "desired = ''secondary''"
    and usable: "usable_node (w_topology w) ''secondary'' node" and safe: "secondary_safe prepared"
    by auto
  have "fst (snd x) = Raw prepared" "Kind prepared = Select"
    using run safe by (auto simp: run_of_def secondary_safe_def split: if_splits)
  moreover have "node_Health node = ''healthy''" "node_DetectedRole node = ''secondary''"
    "node_ReadOnly node" "nodeFresh (w_topology w) node (max_age (w_topology w))"
    using usable by (auto simp: usable_node_def)
  ultimately show ?thesis using parse role prepared routed [unfolded desired] opened safe by blast
qed

definition replica :: ConnectionNode where
  "replica = \<lparr>node_ID = ''n'', node_Host = ''h'', node_Port = 5432, node_DetectedRole = ''secondary'',
     node_Health = ''healthy'', node_ReadOnly = True,
     node_LastCheckedAt = Some ''t''\<rparr>"

definition replica_world :: "nat world" where
  "replica_world = plain_world\<lparr>w_nodes := [replica],
     w_topology := \<lparr>age = (\<lambda>_. Some 0), check_interval = 0, probe = (\<lambda>_. Inl []), checked_at = []\<rparr>\<rparr>"

definition secondary_input :: queryInput where
  "secondary_input = (query_input ''select a'')\<lparr>inp_NodeRole := Some ''secondary''\<rparr>"

lemma replica_run:
  "runs (fst (executeQuery plain_server replica_world plain_identity plain_connection secondary_input
     False empty_cache)) = [(OnPool, ''select a'', 86400)]"
  "desiredNodeRole (srv_access plain_server) plain_identity (conn_ID plain_connection)
     (inp_NodeRole secondary_input) = Inr ''secondary''"
  by code_simp+

lemma secondary_runs_safe_reads_witness:
  "\<exists>prepared node. ''select a'' = Raw prepared \<and> secondary_safe prepared
     \<and> fst (routedEngineConnection None (w_topology replica_world) plain_identity plain_connection
              (Some ''secondary'') (Some prepared) [replica]) = Inr (node, ''secondary'')
     \<and> node_ReadOnly node"
proof -
  have "cache_ok (srv_tables plain_server) empty_cache" by (simp add: plain_server_def)
  moreover have "(OnPool, ''select a'', 86400) \<in> set (runs (fst (executeQuery plain_server replica_world
      plain_identity plain_connection secondary_input False empty_cache)))"
    by (simp add: replica_run)
  ultimately obtain prepared node
    where "''select a'' = Raw prepared" "secondary_safe prepared"
      and "fst (routedEngineConnection (srv_access plain_server) (w_topology replica_world)
        plain_identity plain_connection (inp_NodeRole secondary_input) (Some prepared)
        (w_nodes replica_world)) = Inr (node, ''secondary'')" and "node_ReadOnly node"
    using secondary_runs_safe_reads [OF _ _ replica_run(2)] by (metis fst_conv snd_conv)
  then show ?thesis
    by (intro exI [of _ prepared] exI [of _ node])
      (simp add: plain_server_def secondary_input_def replica_world_def)
qed

end
