(* ===== verification/Clients.thy ===== *)
theory Clients
  imports Query
begin

section \<open>The other ways to a database (api/nosqlwrite.go, api/escalation.go, api/clients.go)\<close>

text \<open>
  Beside the query path, three others run statements for a user: the handlers of MongoDB, Redis
  and Elasticsearch, which classify their operation as a record of the parser; statements held
  for review and run later for their author; and clients that are not the HTTP API. Each is a
  function to its outcome and the events it causes, over the same \<open>server\<close> and \<open>world\<close> as the
  query path. Statements that return no rows have no columns, so the branches of the code that
  look for some in the result of \<open>Execute\<close> are not reached and left out.
\<close>

subsection \<open>Operations of document, key and search engines\<close>

definition nosqlStatement :: "kind \<Rightarrow> string \<Rightarrow> string \<Rightarrow> bool \<Rightarrow> Info" where
  "nosqlStatement k database object hasWhere =
     (zero_info (DialectOther []) [])\<lparr>Kind := k, Tables := [\<lparr>Schema = database, Name = object, Alias = []\<rparr>], HasWhere := hasWhere\<rparr>"

text \<open>The common part of both guards; \<open>start\<close> is the limit the custom policies start from.\<close>

definition nosql_verdict ::
  "server \<Rightarrow> 'row world \<Rightarrow> Identity \<Rightarrow> AccessRole \<Rightarrow> Connection \<Rightarrow> Info \<Rightarrow> (resolved \<Rightarrow> int) \<Rightarrow>
   (Decision \<times> int \<times> int) result" where
  "nosql_verdict s w identity role connection info start =
     bind_result (w_policies w) (\<lambda>table.
       (let r = resolvePolicies (srv_tables s) table identity connection;
            decision = Evaluate (srv_rules s) (policy_input role connection info False r)
        in bind_result (w_custom w) (\<lambda>custom.
             (case applyCustomPolicies (srv_tables s) (srv_customRules s) (w_minute w) custom identity
                     connection info False decision (start r) of
                (d, limit) \<Rightarrow> Inr (d, limit, res_queryTimeout r)))))"

definition nosql_guard ::
  "server \<Rightarrow> 'row world \<Rightarrow> Identity \<Rightarrow> Connection \<Rightarrow> Info \<Rightarrow> string \<Rightarrow> (resolved \<Rightarrow> int) \<Rightarrow>
   'row event list + int \<times> int" where
  "nosql_guard s w identity connection info rawBody start =
     (case role_of (srv_access s) (UserID identity) of
        Inl _ \<Rightarrow> Inl [refuse 401 ''UNAUTHORIZED'' ''role missing'']
      | Inr role \<Rightarrow>
          (case nosql_verdict s w identity role connection info start of
             Inl _ \<Rightarrow> Inl [refuse 500 ''INTERNAL'' ''policies unavailable'']
           | Inr (decision, limit, timeout) \<Rightarrow>
               (if Effect decision \<noteq> Allow
                then Inl [recordActivity rawBody ''blocked'' 0 ''deny'' (PolicyID decision) [],
                          refuse 403 ''POLICY_DENIED'' (Reason decision)]
                else Inr (limit, timeout))))"

definition nosqlPolicyAllowed ::
  "server \<Rightarrow> 'row world \<Rightarrow> Identity \<Rightarrow> Connection \<Rightarrow> Info \<Rightarrow> string \<Rightarrow> 'row event list + int" where
  "nosqlPolicyAllowed s w identity connection info rawBody =
     map_sum (\<lambda>e. e) snd (nosql_guard s w identity connection info rawBody (\<lambda>_. 0))"

definition nosqlReadGuard ::
  "server \<Rightarrow> 'row world \<Rightarrow> Identity \<Rightarrow> Connection \<Rightarrow> Info \<Rightarrow> string \<Rightarrow> 'row event list + int \<times> int" where
  "nosqlReadGuard s w identity connection info rawBody =
     nosql_guard s w identity connection info rawBody res_rowLimit"

text \<open>\<open>opened\<close> is the error of \<open>engineConnection\<close>; the result is the deadline in seconds.\<close>

definition nosqlWriteGuard ::
  "server \<Rightarrow> 'row world \<Rightarrow> Identity \<Rightarrow> Connection \<Rightarrow> string option \<Rightarrow> Info \<Rightarrow> string \<Rightarrow>
   'row event list + int" where
  "nosqlWriteGuard s w identity connection opened info rawBody =
     (case nosqlPolicyAllowed s w identity connection info rawBody of
        Inl evs \<Rightarrow> Inl evs
      | Inr timeout \<Rightarrow>
          (case opened of
             Some e \<Rightarrow> Inl [refuse 502 ''EXEC_ERROR'' e]
           | None \<Rightarrow> Inr (withConnectionTimeout connection timeout (10 * 60))))"

subsection \<open>Statements run later for their author\<close>

record User =
  usr_ID :: string
  usr_OrgID :: string
  usr_Email :: string
  usr_PasswordHash :: string
  usr_Status :: string

record DeferredStatement =
  dfr_Reference :: string
  dfr_SQL :: string

datatype DeferredResult = DeferredOk int | DeferredError int string

definition user_identity :: "User \<Rightarrow> AccessRole \<Rightarrow> Identity" where
  "user_identity user role =
     \<lparr>UserID = usr_ID user, OrgID = usr_OrgID user, Email = usr_Email user, IRole = ar_Name role\<rparr>"

text \<open>The rows a deferred statement reads: how many, and the error that ended them.\<close>

fun deferred_rows :: "int \<Rightarrow> nat \<Rightarrow> 'row list \<Rightarrow> string option \<Rightarrow> nat \<times> string option" where
  "deferred_rows limit n [] ending = (n, if limit \<le> 0 \<or> int n < limit then ending else None)"
| "deferred_rows limit n (_ # rows) ending =
     (if limit \<le> 0 \<or> int n < limit then deferred_rows limit (Suc n) rows ending else (n, None))"

definition deferred_run ::
  "server \<Rightarrow> 'row world \<Rightarrow> DeferredStatement \<Rightarrow> Decision \<Rightarrow> string \<Rightarrow> int \<Rightarrow> int \<Rightarrow> bool \<Rightarrow>
   parse_cache \<Rightarrow> (DeferredResult \<times> 'row event list) \<times> parse_cache" where
  "deferred_run s w st decision sql rowLimit timeout backed_up c =
     (let record = (\<lambda>rows status.
            recordActivity (dfr_SQL st) status rows ''allow'' (PolicyID decision) (dfr_Reference st));
          failed = (\<lambda>ran rows e.
            (DeferredError rows e, [ran] @ discard_backup backed_up @ [record rows ''error'']));
          query = RanQuery OnPool sql timeout; command = RanCommand OnPool sql timeout in
      case ReturnsRows (srv_tables s) sql c of
        (True, c') \<Rightarrow>
          (case w_query w sql of
             Inl e \<Rightarrow> (failed query 0 e, c')
           | Inr stream \<Rightarrow>
               (case deferred_rows rowLimit 0 (stream_rows stream) (stream_error stream) of
                  (n, Some e) \<Rightarrow> (failed query (int n) e, c')
                | (n, None) \<Rightarrow> ((DeferredOk (int n), [query, record (int n) ''success'']), c')))
      | (False, c') \<Rightarrow>
          (case w_execute w sql of
             Inl e \<Rightarrow> (failed command 0 e, c')
           | Inr rows \<Rightarrow> ((DeferredOk rows, [command, record rows ''success'']), c')))"

definition deferred_allowed ::
  "server \<Rightarrow> 'row world \<Rightarrow> Identity \<Rightarrow> AccessRole \<Rightarrow> Connection \<Rightarrow> DeferredStatement \<Rightarrow> Info \<Rightarrow>
   Decision \<Rightarrow> int \<Rightarrow> int \<Rightarrow> parse_cache \<Rightarrow> (DeferredResult \<times> 'row event list) \<times> parse_cache" where
  "deferred_allowed s w caller role connection st info decision rowLimit policyTimeout c =
     (case prepareStatement s caller (ar_ID role) connection info c of
        ((_, Some e), c') \<Rightarrow> ((DeferredError 0 e, []), c')
      | ((prepared, None), c') \<Rightarrow>
          (case fst (routedEngineConnection (srv_access s) (w_topology w) caller connection
                       (Some ''primary'') (Some info) (w_nodes w)) of
             Inl e \<Rightarrow> ((DeferredError 0 (route_message e), []), c')
           | Inr (node, _) \<Rightarrow>
               (case w_target w node of
                  Some e \<Rightarrow> ((DeferredError 0 e, []), c')
                | None \<Rightarrow>
                    (case (if is_write (Command info) then w_backup w info else NoBackup) of
                       BackupBlocked reason \<Rightarrow>
                         ((DeferredError 0 reason,
                           [recordActivity (dfr_SQL st) ''error'' 0 ''allow'' (PolicyID decision)
                              (dfr_Reference st)]), c')
                     | note \<Rightarrow>
                         (case deferred_run s w st decision (Raw prepared) rowLimit
                                 (withConnectionTimeout connection policyTimeout (10 * 60))
                                 (note = BackupTaken) c' of
                            ((result, evs), c'') \<Rightarrow>
                              ((result, (if note = BackupTaken then [BackedUp] else []) @ evs), c''))))))"

definition ExecuteDeferred ::
  "server \<Rightarrow> 'row world \<Rightarrow> User option \<Rightarrow> Connection option \<Rightarrow> DeferredStatement \<Rightarrow> parse_cache \<Rightarrow>
   (DeferredResult \<times> 'row event list) \<times> parse_cache" where
  "ExecuteDeferred s w author found st c =
     (let failed = (\<lambda>e. (DeferredError 0 e, [])) in
      case ParseDialect (srv_tables s) DialectGeneric (dfr_SQL st) c of
        ((_, Some e), c') \<Rightarrow> (failed e, c')
      | ((info, None), c') \<Rightarrow>
          (case author of
             None \<Rightarrow> (failed ''requesting user no longer exists'', c')
           | Some user \<Rightarrow>
               (case role_of (srv_access s) (usr_ID user) of
                  Inl _ \<Rightarrow> (failed ''requesting user has no role'', c')
                | Inr role \<Rightarrow>
                    (case found of
                       None \<Rightarrow> (failed ''connection no longer exists'', c')
                     | Some connection \<Rightarrow>
                         (let caller = user_identity user role in
                          if \<not> canUseConnection (srv_access s) caller connection
                          then (failed ''requesting user no longer has connection access'', c')
                          else
                            (case judge s w caller role connection info True (IsAdmin caller) of
                               Inl _ \<Rightarrow> (failed ''governance rules unavailable'', c')
                             | Inr (decision, rowLimit, policyTimeout) \<Rightarrow>
                                 (if Effect decision \<noteq> Allow then (failed (Reason decision), c')
                                  else deferred_allowed s w caller role connection st info decision
                                         rowLimit policyTimeout c')))))))"

text \<open>\<open>EvaluateStatement\<close>: the verdict on a statement nobody ran.\<close>

definition EvaluateStatement ::
  "server \<Rightarrow> 'row world \<Rightarrow> Identity \<Rightarrow> Connection \<Rightarrow> Info \<Rightarrow> Decision result" where
  "EvaluateStatement s w identity connection info =
     bind_result (role_of (srv_access s) (UserID identity)) (\<lambda>role.
       bind_result (judge s w identity role connection info False (IsAdmin identity)) (\<lambda>v. Inr (fst v)))"


subsection \<open>The stream a client pulls from\<close>

text \<open>
  \<open>ResultStream\<close>: \<open>rs_finished\<close> is what \<open>finish\<close> was called with, once. A closed stream has no
  rows left.
\<close>

record 'row result_stream =
  rs_rest :: "'row list"
  rs_ending :: "string option"
  rs_transform :: "'row \<Rightarrow> 'row"
  rs_limit :: int
  rs_rows :: nat
  rs_truncated :: bool
  rs_finished :: "(nat \<times> bool \<times> string option) option"

datatype 'row pulled = Row 'row | NoRow | Failed string

definition finalize :: "string option \<Rightarrow> 'row result_stream \<Rightarrow> 'row result_stream" where
  "finalize err rs =
     (case rs_finished rs of
        Some _ \<Rightarrow> rs
      | None \<Rightarrow> rs\<lparr>rs_finished := Some (rs_rows rs, rs_truncated rs, err), rs_rest := [], rs_ending := err\<rparr>)"

definition next_row :: "'row result_stream \<Rightarrow> 'row pulled \<times> 'row result_stream" where
  "next_row rs =
     (case rs_rest rs of
        [] \<Rightarrow> (case rs_ending rs of
                Some e \<Rightarrow> (Failed e, finalize (Some e) rs)
              | None \<Rightarrow> (NoRow, finalize None rs))
      | row # rest \<Rightarrow>
          (if 0 < rs_limit rs \<and> rs_limit rs \<le> int (rs_rows rs)
           then (NoRow, finalize None (rs\<lparr>rs_truncated := True\<rparr>))
           else (Row (rs_transform rs row), rs\<lparr>rs_rest := rest, rs_rows := Suc (rs_rows rs)\<rparr>)))"

definition close_stream :: "string option \<Rightarrow> 'row result_stream \<Rightarrow> 'row result_stream" where
  "close_stream err rs = finalize err rs"

definition finish_status :: "bool \<times> string option \<Rightarrow> string" where
  "finish_status f = (case f of (trunc, err) \<Rightarrow>
     if err \<noteq> None then ''error'' else if trunc then ''truncated'' else ''success'')"

subsection \<open>Run, Describe, OpenSession, Control\<close>

datatype 'row client_outcome =
    Refusal string string
  | Pull "'row result_stream"
  | Ran int

text \<open>The session of a client: the role of the node it is pinned to.\<close>

type_synonym client_session = "string option"

definition CurrentIdentity :: "server \<Rightarrow> User option \<Rightarrow> Identity result" where
  "CurrentIdentity s found =
     (case found of
        None \<Rightarrow> Inl ''user is no longer active''
      | Some user \<Rightarrow>
          (if usr_Status user \<noteq> ''active'' then Inl ''user is no longer active''
           else (case role_of (srv_access s) (usr_ID user) of
                   Inl _ \<Rightarrow> Inl ''user has no role''
                 | Inr role \<Rightarrow> Inr (user_identity user role))))"

definition OpenSession ::
  "server \<Rightarrow> 'row world \<Rightarrow> Identity \<Rightarrow> Connection \<Rightarrow> string result" where
  "OpenSession s w identity connection =
     (if \<not> canUseConnection (srv_access s) identity connection
      then Inl ''role has no access to this connection''
      else bind_result (desiredNodeRole (srv_access s) identity (conn_ID connection) None) (\<lambda>desired.
        bind_result (fst (routeNode (w_topology w) (w_nodes w) desired)) (\<lambda>node.
          (case w_target w node of
             Some e \<Rightarrow> Inl e
           | None \<Rightarrow> (case w_session w of Some e \<Rightarrow> Inl e | None \<Rightarrow> Inr desired)))))"

definition session_begin :: "string \<Rightarrow> string option" where
  "session_begin nodeRole =
     (if nodeRole = ''secondary'' then Some ''interactive transactions are disabled on secondary nodes''
      else None)"

text \<open>\<open>Control\<close>: which texts go to the session without the pipeline.\<close>

definition session_control :: "unicode \<Rightarrow> string \<Rightarrow> parse_cache \<Rightarrow> unit result \<times> parse_cache" where
  "session_control u sql c =
     (case ParseDialect u DialectGeneric sql c of
        ((_, Some e), c') \<Rightarrow> (Inl e, c')
      | ((info, None), c') \<Rightarrow>
          (if Kind info \<noteq> Session
           then (Inl ''only session control statements run outside the pipeline'', c')
           else (Inr (), c')))"

text \<open>The query \<open>Describe\<close> sends for a SELECT; None where it refuses.\<close>

definition trim_suffix :: "string \<Rightarrow> string \<Rightarrow> string" where
  "trim_suffix suf s = (if has_suffix suf s then take (length s - length suf) s else s)"

definition describe_query :: "string \<Rightarrow> string \<Rightarrow> string" where
  "describe_query engine sql =
     (let query = trim_space (trim_suffix '';'' (trim_space sql)) in
      if engine = ''mssql'' then ''SELECT TOP (0) * FROM ('' @ query @ '') AS rowset_describe''
      else ''SELECT * FROM ('' @ query @ '') AS rowset_describe LIMIT 0'')"

definition Describe ::
  "server \<Rightarrow> 'row world \<Rightarrow> Identity \<Rightarrow> Connection \<Rightarrow> string \<Rightarrow> parse_cache \<Rightarrow>
   string result \<times> parse_cache" where
  "Describe s w identity connection sql c =
     (if \<not> canUseConnection (srv_access s) identity connection
      then (Inl ''role has no access to this connection'', c)
      else
        (case ParseDialect (srv_tables s) (dialect_for_engine (srv_tables s) (conn_Engine connection)) sql c of
           ((info, err), c') \<Rightarrow>
             (if err \<noteq> None \<or> Kind info \<noteq> Select then (Inl ''statement does not return rows'', c')
              else
                (bind_result (role_of (srv_access s) (UserID identity)) (\<lambda>role.
                   (case w_policies w of
                      Inl _ \<Rightarrow> Inl ''governance rules unavailable''
                    | Inr table \<Rightarrow>
                        (let decision = Evaluate (srv_rules s) (policy_input role connection info False
                               (resolvePolicies (srv_tables s) table identity connection)) in
                         if Effect decision \<noteq> Allow then Inl (Reason decision)
                         else
                           (case fst (routedEngineConnection (srv_access s) (w_topology w) identity
                                        connection None (Some info) (w_nodes w)) of
                              Inl e \<Rightarrow> Inl (route_message e)
                            | Inr (node, _) \<Rightarrow>
                                (case w_target w node of
                                   Some e \<Rightarrow> Inl e
                                 | None \<Rightarrow> Inr (describe_query (conn_Engine connection) sql)))))), c'))))"

definition client_timeout :: "Connection \<Rightarrow> int \<Rightarrow> int" where
  "client_timeout connection policyTimeout =
     (let timeout = (if conn_QueryTimeoutSeconds connection \<le> 0 then 10 * 60
                     else conn_QueryTimeoutSeconds connection)
      in if 0 < policyTimeout \<and> policyTimeout < timeout then policyTimeout else timeout)"

definition client_run ::
  "server \<Rightarrow> 'row world \<Rightarrow> string \<Rightarrow> runner \<Rightarrow> Decision \<Rightarrow> string \<Rightarrow> int \<Rightarrow> int \<Rightarrow> parse_cache \<Rightarrow>
   ('row client_outcome \<times> 'row event list) \<times> parse_cache" where
  "client_run s w sql runner decision effective rowLimit timeout c =
     (let query = RanQuery runner effective timeout; command = RanCommand runner effective timeout in
      case ReturnsRows (srv_tables s) effective c of
        (True, c') \<Rightarrow>
          (case w_query w effective of
             Inl e \<Rightarrow>
               ((Refusal ''EXEC_ERROR'' e, [query, recordActivity sql ''error'' 0 ''allow'' [] []]), c')
           | Inr stream \<Rightarrow>
               (case w_result w of
                  Some e \<Rightarrow>
                    ((Refusal ''INTERNAL'' ''failed to apply result rules'',
                      [query, recordActivity sql ''error'' 0 ''deny'' [] []]), c')
                | None \<Rightarrow>
                    ((Pull \<lparr>rs_rest = stream_rows stream, rs_ending = stream_error stream,
                            rs_transform = transform (w_client w), rs_limit = rowLimit, rs_rows = 0,
                            rs_truncated = False, rs_finished = None\<rparr>, [query]), c')))
      | (False, c') \<Rightarrow>
          (case w_execute w effective of
             Inl e \<Rightarrow>
               ((Refusal ''EXEC_ERROR'' e, [command, recordActivity sql ''error'' 0 ''allow'' [] []]), c')
           | Inr rows \<Rightarrow>
               ((Ran rows, [command, recordActivity sql ''success'' rows ''allow'' (PolicyID decision) []]), c')))"

definition client_refuse ::
  "string \<Rightarrow> string \<Rightarrow> effect \<Rightarrow> string \<Rightarrow> 'row client_outcome \<times> 'row event list" where
  "client_refuse sql policyID e reason =
     (Refusal ''POLICY_DENIED'' reason,
      [recordActivity sql ''blocked'' 0 (effect_string e) policyID []])"

definition client_allowed ::
  "server \<Rightarrow> 'row world \<Rightarrow> Identity \<Rightarrow> AccessRole \<Rightarrow> Connection \<Rightarrow> string \<Rightarrow> client_session \<Rightarrow> Info \<Rightarrow>
   Decision \<Rightarrow> int \<Rightarrow> int \<Rightarrow> parse_cache \<Rightarrow> ('row client_outcome \<times> 'row event list) \<times> parse_cache" where
  "client_allowed s w identity role connection sql session info decision rowLimit policyTimeout c =
     (case prepareStatement s identity (ar_ID role) connection info c of
        ((_, Some e), c') \<Rightarrow> ((Refusal ''STATEMENT_HOOK_ERROR'' e, []), c')
      | ((prepared, None), c') \<Rightarrow>
          (let run = client_run s w sql (if session \<noteq> None then InSession else OnPool) decision (Raw prepared)
                       rowLimit (client_timeout connection policyTimeout) c' in
           if session \<noteq> None then run
           else
             (case fst (routedEngineConnection (srv_access s) (w_topology w) identity connection None
                          (Some prepared) (w_nodes w)) of
                Inl SecondaryUnsafe \<Rightarrow>
                  (client_refuse sql ''secondary_read_only'' Deny secondary_unsafe_message, c')
              | Inl (RouteError e) \<Rightarrow> ((Refusal ''EXEC_ERROR'' e, []), c')
              | Inr (node, _) \<Rightarrow>
                  (case w_target w node of
                     Some e \<Rightarrow> ((Refusal ''EXEC_ERROR'' e, []), c')
                   | None \<Rightarrow> run))))"

definition Run ::
  "server \<Rightarrow> 'row world \<Rightarrow> Identity \<Rightarrow> Connection \<Rightarrow> string \<Rightarrow> client_session \<Rightarrow> parse_cache \<Rightarrow>
   ('row client_outcome \<times> 'row event list) \<times> parse_cache" where
  "Run s w identity connection sql session c =
     (if \<not> canUseConnection (srv_access s) identity connection
      then ((Refusal ''UNAUTHORIZED'' ''role has no access to this connection'', []), c)
      else
        (case role_of (srv_access s) (UserID identity) of
           Inl _ \<Rightarrow> ((Refusal ''UNAUTHORIZED'' ''role missing'', []), c)
         | Inr role \<Rightarrow>
             (case ParseDialect (srv_tables s)
                     (dialect_for_engine (srv_tables s) (conn_Engine connection)) sql c of
                ((_, Some e), c') \<Rightarrow> ((Refusal ''PARSE_ERROR'' e, []), c')
              | ((info, None), c') \<Rightarrow>
                  (if session = Some ''secondary'' \<and> \<not> secondary_safe info
                   then (client_refuse sql ''secondary_read_only'' Deny secondary_unsafe_message, c')
                   else
                     (case judge s w identity role connection info False (srv_shared s \<and> IsAdmin identity) of
                        Inl _ \<Rightarrow> ((Refusal ''INTERNAL'' ''governance rules unavailable'', []), c')
                      | Inr (decision, rowLimit, policyTimeout) \<Rightarrow>
                          (if Effect decision \<noteq> Allow
                           then (client_refuse sql (PolicyID decision) (Effect decision) (Reason decision), c')
                           else client_allowed s w identity role connection sql session info decision
                                  rowLimit policyTimeout c'))))))"

end
