(* ===== verification/Clients_Properties.thy ===== *)
theory Clients_Properties
  imports Clients Query_Properties
begin

section \<open>The properties of the other ways to a database\<close>

subsection \<open>Operations without SQL\<close>

lemma nosql_guard_allows:
  assumes "nosql_guard s w identity connection info body start = Inr (l, t)"
    and "w_policies w = Inr table" and "srv_customRules s = (\<lambda>_. None)"
  obtains role where "role_of (srv_access s) (UserID identity) = Inr role"
    and "passes (policy_input role connection info False
           (resolvePolicies (srv_tables s) table identity connection))"
    and "t = res_queryTimeout (resolvePolicies (srv_tables s) table identity connection)"
proof -
  let ?r = "resolvePolicies (srv_tables s) table identity connection"
  from assms obtain role d custom
    where role: "role_of (srv_access s) (UserID identity) = Inr role" and allowed: "Effect d = Allow"
      and run: "applyCustomPolicies (srv_tables s) (srv_customRules s) (w_minute w) custom identity connection
        info False (Evaluate (srv_rules s) (policy_input role connection info False ?r)) (start ?r) = (d, l)"
      and t: "t = res_queryTimeout ?r"
    by (auto simp: nosql_guard_def nosql_verdict_def Let_def bind_result_Inr case_prod_beta prod_eq_iff
        split: sum.splits if_splits)
  let ?i = "policy_input role connection info False ?r"
  from custom_loop_decision [OF _ run [unfolded applyCustomPolicies_def]] assms(3) allowed
  have "Effect (Evaluate (srv_rules s) ?i) = Allow" by auto
  then have "passes ?i"
    using Evaluate_denies [of _ ?i "srv_rules s"] guardrails_pass_iff [of ?i]
    by (metis effect.distinct(1) not_None_eq singletonI subsetI)
  from that [OF role this t] show thesis .
qed

lemma nosqlPolicyAllowed_guard:
  "nosqlPolicyAllowed s w identity connection info body = Inr t \<longleftrightarrow>
     (\<exists>l. nosql_guard s w identity connection info body (\<lambda>_. 0) = Inr (l, t))"
  by (cases "nosql_guard s w identity connection info body (\<lambda>_. 0)") (auto simp: nosqlPolicyAllowed_def)

lemma withConnectionTimeout_policy: "0 < p \<Longrightarrow> withConnectionTimeout connection p fallback \<le> p"
  by (simp add: withConnectionTimeout_def Let_def)

text \<open>Writes to MongoDB, Redis and Elasticsearch obey the same rules as SQL writes. Where no
  other package registered a custom policy kind, a write that passes the guard is made by a
  caller with a role, neither the role nor the connection is read-only, an update or delete
  without a filter passes only where the workspace turned that guardrail off for the caller,
  and its deadline is at most the query timeout the policies resolve.\<close>

lemma nosql_writes_are_guarded:
  assumes "nosqlWriteGuard s w identity connection opened
      (nosqlStatement k database object hasWhere) body = Inr within"
    and "k = Insert \<or> k = Update \<or> k = Delete"
    and "w_policies w = Inr table" and "srv_customRules s = (\<lambda>_. None)"
    and "r = resolvePolicies (srv_tables s) table identity connection"
  shows "(\<exists>role. role_of (srv_access s) (UserID identity) = Inr role \<and> \<not> ar_ReadOnly role)
    \<and> \<not> conn_ReadOnly connection
    \<and> (k = Insert \<or> hasWhere \<or> res_disabled r (where_policy k))
    \<and> (res_queryTimeout r \<le> 0 \<or> within \<le> res_queryTimeout r)"
proof -
  let ?info = "nosqlStatement k database object hasWhere"
  from assms(1) obtain t where "nosqlPolicyAllowed s w identity connection ?info body = Inr t"
    and within: "within = withConnectionTimeout connection t (10 * 60)"
    by (auto simp: nosqlWriteGuard_def split: sum.splits option.splits)
  then obtain l where "nosql_guard s w identity connection ?info body (\<lambda>_. 0) = Inr (l, t)"
    by (auto simp: nosqlPolicyAllowed_guard)
  from nosql_guard_allows [OF this assms(3,4)] obtain role
    where role: "role_of (srv_access s) (UserID identity) = Inr role"
      and pass: "passes (policy_input role connection ?info False r)"
      and t: "t = res_queryTimeout r"
    unfolding assms(5) by blast
  have "\<not> (ar_ReadOnly role \<or> conn_ReadOnly connection)"
    using pass assms(2)
    by (auto simp: passes_def Let_def policy_input_def nosqlStatement_def is_write_def)
  moreover have "k = Insert \<or> hasWhere \<or> res_disabled r (where_policy k)"
    using pass assms(2)
    by (auto simp: passes_def Let_def policy_input_def nosqlStatement_def lacks_where_def where_policy_def
        zero_info_def)
  ultimately show ?thesis
    using role withConnectionTimeout_policy [of t connection "10 * 60"]
    unfolding within t by (meson not_le)
qed

lemma mongo_insert_runs:
  "nosqlWriteGuard plain_server plain_world plain_identity plain_connection None
     (nosqlStatement Insert ''d'' ''c'' False) [] = Inr 600"
  by code_simp

lemma nosql_writes_are_guarded_witness:
  "\<exists>role. role_of (srv_access plain_server) (UserID plain_identity) = Inr role \<and> \<not> ar_ReadOnly role"
  using nosql_writes_are_guarded [OF mongo_insert_runs, of "[]"]
  by (simp add: plain_world_def plain_server_def)

subsection \<open>Clients\<close>

lemma client_run_runs:
  assumes "x \<in> set (runs (snd (fst (client_run s w sql runner decision effective l t c))))"
  shows "x = (runner, effective, t)"
  using assms
  by (auto simp: client_run_def Let_def split: prod.splits sum.splits option.splits bool.splits)

lemma client_allowed_runs:
  assumes "x \<in> set (runs (snd (fst (client_allowed s w identity role connection sql session info d l pt c))))"
  shows "\<exists>prepared c'. prepareStatement s identity (ar_ID role) connection info c = ((prepared, None), c')
    \<and> x = (if session \<noteq> None then InSession else OnPool, Raw prepared, client_timeout connection pt)
    \<and> (session = None \<longrightarrow> (\<exists>node desired.
        fst (routedEngineConnection (srv_access s) (w_topology w) identity connection None
               (Some prepared) (w_nodes w)) = Inr (node, desired)))"
proof -
  obtain prepared err c' where prep:
    "prepareStatement s identity (ar_ID role) connection info c = ((prepared, err), c')"
    by (metis prod.collapse)
  show ?thesis
  proof (cases err)
    case None
    let ?run = "client_run s w sql (if session \<noteq> None then InSession else OnPool) d (Raw prepared) l
      (client_timeout connection pt) c'"
    from assms prep None have "x \<in> set (runs (snd (fst ?run)))"
      and "session = None \<longrightarrow> (\<exists>node desired.
        fst (routedEngineConnection (srv_access s) (w_topology w) identity connection None
               (Some prepared) (w_nodes w)) = Inr (node, desired))"
      by (auto simp: client_allowed_def Let_def client_refuse_def
          split: if_splits sum.splits route_error.splits option.splits prod.splits)
    with client_run_runs [OF this(1)] prep None show ?thesis by blast
  qed (use assms prep in \<open>simp add: client_allowed_def\<close>)
qed

lemma Run_runs:
  assumes "x \<in> set (runs (snd (fst (Run s w identity connection sql session c))))"
  obtains role info c' decision l pt where
    "canUseConnection (srv_access s) identity connection"
    "role_of (srv_access s) (UserID identity) = Inr role"
    "ParseDialect (srv_tables s) (dialect_for_engine (srv_tables s) (conn_Engine connection)) sql c
       = ((info, None), c')"
    "session = Some ''secondary'' \<Longrightarrow> secondary_safe info"
    "judge s w identity role connection info False (srv_shared s \<and> IsAdmin identity) = Inr (decision, l, pt)"
    "Effect decision = Allow"
    "x \<in> set (runs (snd (fst (client_allowed s w identity role connection sql session info decision l pt c'))))"
  using assms unfolding Run_def
  by (auto simp: client_refuse_def split: if_splits sum.splits prod.splits option.splits)


text \<open>Where no other package registered a custom policy kind, a statement classified as UPDATE or
  DELETE that has no effective WHERE is never among them while its guardrail is on.\<close>

lemma client_runs_scoped_writes:
  assumes "judge s w identity role connection info False skip = Inr (decision, limit, timeout)"
    and "Effect decision = Allow" and "srv_customRules s = (\<lambda>_. None)" and "w_policies w = Inr table"
    and "k = Update \<or> k = Delete" and "lacks_where info k"
  shows "res_disabled (resolvePolicies (srv_tables s) table identity connection) (where_policy k)"
proof -
  let ?i = "policy_input role connection info False (resolvePolicies (srv_tables s) table identity connection)"
  from judge_decision [OF assms(1,4,3)] assms(2)
  have "Effect (Evaluate (srv_rules s) ?i) = Allow" by auto
  then have "passes ?i"
    using Evaluate_denies [of _ ?i "srv_rules s"] guardrails_pass_iff [of ?i]
    by (metis effect.distinct(1) not_None_eq singletonI subsetI)
  from passes_scoped [OF this assms(5)] assms(6) show ?thesis by (simp add: policy_input_def)
qed

lemma client_run_example:
  "runs (snd (fst (Run plain_server plain_world plain_identity plain_connection ''select a''
     (Some ''primary'') empty_cache))) = [(InSession, ''select a'', 600)]"
  by code_simp


subsection \<open>The stream of a client\<close>

datatype stream_op = Pull_next | Close_with "string option"

fun stream_step :: "stream_op \<Rightarrow> 'row result_stream \<Rightarrow> 'row list \<times> 'row result_stream" where
  "stream_step Pull_next rs =
     (case next_row rs of (Row row, rs') \<Rightarrow> ([row], rs') | (_, rs') \<Rightarrow> ([], rs'))"
| "stream_step (Close_with e) rs = ([], close_stream e rs)"

fun stream_run :: "stream_op list \<Rightarrow> 'row result_stream \<Rightarrow> 'row list \<times> 'row result_stream" where
  "stream_run [] rs = ([], rs)"
| "stream_run (op # ops) rs =
     (case stream_step op rs of (out, rs') \<Rightarrow>
       (case stream_run ops rs' of (outs, rs'') \<Rightarrow> (out @ outs, rs'')))"

definition stream_ok :: "'row result_stream \<Rightarrow> bool" where
  "stream_ok rs \<longleftrightarrow> (0 < rs_limit rs \<longrightarrow> int (rs_rows rs) \<le> rs_limit rs)
     \<and> (case rs_finished rs of None \<Rightarrow> True | Some (n, _) \<Rightarrow> n = rs_rows rs \<and> rs_rest rs = [])"

lemma stream_step_ok:
  assumes "stream_step op rs = (out, rs')" and "stream_ok rs"
  shows "stream_ok rs' \<and> rs_rows rs' = rs_rows rs + length out \<and> rs_limit rs' = rs_limit rs
    \<and> (rs_finished rs \<noteq> None \<longrightarrow> rs_finished rs' = rs_finished rs)"
  using assms
  by (cases op)
    (auto simp: next_row_def close_stream_def finalize_def stream_ok_def Let_def
      split: list.splits option.splits if_splits prod.splits)

lemma stream_run_ok:
  "stream_run ops rs = (out, rs') \<Longrightarrow> stream_ok rs \<Longrightarrow>
     stream_ok rs' \<and> rs_rows rs' = rs_rows rs + length out \<and> rs_limit rs' = rs_limit rs
     \<and> (rs_finished rs \<noteq> None \<longrightarrow> rs_finished rs' = rs_finished rs)"
proof (induction ops arbitrary: rs out)
  case (Cons op ops)
  obtain o1 rs1 where one: "stream_step op rs = (o1, rs1)" by fastforce
  obtain o2 where two: "stream_run ops rs1 = (o2, rs')" and out: "out = o1 @ o2"
    using Cons(2) one by (auto split: prod.splits)
  from stream_step_ok [OF one Cons(3)] Cons(1) [OF two] show ?case by (auto simp: out)
qed simp

text \<open>A client that pulls rows never receives more than its row limit, however it mixes reading
  and closing; the activity log hears of the stream at most once, and the number of rows it
  hears is the number the client received.\<close>

lemma client_stream_is_capped_and_counted:
  assumes "rs_rows rs = 0" and "rs_finished rs = None" and "stream_run ops rs = (out, rs')"
  shows "(0 < rs_limit rs \<longrightarrow> int (length out) \<le> rs_limit rs)
    \<and> (case rs_finished rs' of None \<Rightarrow> True | Some f \<Rightarrow> fst f = length out
         \<and> (\<forall>more. rs_finished (snd (stream_run more rs')) = Some f))"
proof -
  have ok: "stream_ok rs" using assms(1,2) by (simp add: stream_ok_def)
  from stream_run_ok [OF assms(3) ok]
  have "stream_ok rs'" "rs_rows rs' = length out" "rs_limit rs' = rs_limit rs" by (simp_all add: assms(1))
  moreover have "rs_finished rs' = Some f \<Longrightarrow> rs_finished (snd (stream_run more rs')) = Some f" for f more
    using stream_run_ok [OF _ \<open>stream_ok rs'\<close>, of more "fst (stream_run more rs')" "snd (stream_run more rs')"]
    by simp
  ultimately show ?thesis by (auto simp: stream_ok_def split: option.splits)
qed

lemma client_stream_is_capped_and_counted_witness:
  "length (fst (stream_run [Pull_next, Pull_next, Close_with None, Pull_next]
     \<lparr>rs_rest = [1, 2, 3 :: nat], rs_ending = None, rs_transform = (\<lambda>r. r), rs_limit = 1, rs_rows = 0,
       rs_truncated = False, rs_finished = None\<rparr>)) \<le> 1"
proof -
  let ?ops = "[Pull_next, Pull_next, Close_with None, Pull_next]"
  let ?rs = "\<lparr>rs_rest = [1, 2, 3 :: nat], rs_ending = None, rs_transform = (\<lambda>r. r), rs_limit = 1,
    rs_rows = 0, rs_truncated = False, rs_finished = None\<rparr>"
  show ?thesis
    using client_stream_is_capped_and_counted [of ?rs ?ops "fst (stream_run ?ops ?rs)"
        "snd (stream_run ?ops ?rs)"] by (auto simp: prod_eq_iff)
qed

end
