(* ===== verification/Transactions.thy ===== *)
theory Transactions
  imports Routing "HOL-Library.Multiset"
begin

section \<open>Manual transactions (api/transactions.go, api/mongo_transactions.go)\<close>

text \<open>
  The server keeps two registries of open transactions, one for SQL engines and one for
  MongoDB. An entry is a pointer: requests that found it keep using it after it left the
  registry, so the registry is a list of identifiers and a heap holds every entry ever made.
  The sections of the code under \<open>txnMu\<close> are the atomic steps below; \<open>txn_locked\<close> is the
  entry's own mutex. Times are nanoseconds, \<open>clock\<close> is what \<open>time.Now\<close> returns.
\<close>

datatype outcome = CommitSent | RollbackSent

record txn =
  txn_user :: string
  txn_connection :: string
  txn_lastUsed :: int
  txn_running :: int
  txn_locked :: bool
  txn_outcome :: "outcome option"

record registry =
  clock :: int
  heap :: "string \<Rightarrow> txn option"
  txns :: "string list"

definition transactionIdleTimeout :: "bool \<Rightarrow> int" where
  "transactionIdleTimeout is_shared =
     (if is_shared then 5 * 60 * 1000000000 else 3600 * 1000000000)"

definition put_entry :: "string \<Rightarrow> txn \<Rightarrow> registry \<Rightarrow> registry" where
  "put_entry i e r = r\<lparr>heap := (heap r)(i \<mapsto> e)\<rparr>"

definition drop_ids :: "(string \<Rightarrow> bool) \<Rightarrow> registry \<Rightarrow> string list \<times> registry" where
  "drop_ids gone r = (filter gone (txns r), r\<lparr>txns := filter (\<lambda>i. \<not> gone i) (txns r)\<rparr>)"

definition open_entry :: "registry \<Rightarrow> string \<Rightarrow> txn option" where
  "open_entry r i = (if i \<in> set (txns r) then heap r i else None)"

subsection \<open>Beginning\<close>

definition count_open :: "(txn \<Rightarrow> bool) \<Rightarrow> registry \<Rightarrow> nat" where
  "count_open P r =
     length (filter (\<lambda>i. case heap r i of None \<Rightarrow> False | Some e \<Rightarrow> P e) (txns r))"

definition per_user :: "bool \<Rightarrow> nat" where
  "per_user is_shared = (if is_shared then 5 else 20)"

definition limit_reached :: "bool \<Rightarrow> string \<Rightarrow> string \<Rightarrow> registry \<Rightarrow> bool" where
  "limit_reached is_shared user connection r \<longleftrightarrow>
     per_user is_shared \<le> count_open (\<lambda>e. txn_user e = user) r
     \<or> 50 \<le> count_open (\<lambda>e. txn_connection e = connection) r"

definition insert_txn :: "string \<Rightarrow> string \<Rightarrow> string \<Rightarrow> registry \<Rightarrow> registry" where
  "insert_txn i user connection r =
     (put_entry i \<lparr>txn_user = user, txn_connection = connection, txn_lastUsed = clock r,
        txn_running = 0, txn_locked = False, txn_outcome = None\<rparr> r)\<lparr>txns := txns r @ [i]\<rparr>"

subsection \<open>Claiming and releasing\<close>

definition entry_idle :: "bool \<Rightarrow> registry \<Rightarrow> txn \<Rightarrow> bool" where
  "entry_idle is_shared r e \<longleftrightarrow>
     txn_running e = 0 \<and> transactionIdleTimeout is_shared < clock r - txn_lastUsed e"

datatype claim = Missing | Expired | Granted

definition claim_entry :: "string \<Rightarrow> txn \<Rightarrow> registry \<Rightarrow> registry" where
  "claim_entry i e r =
     put_entry i (e\<lparr>txn_lastUsed := clock r, txn_running := txn_running e + 1\<rparr>) r"

definition transactionEntry ::
  "bool \<Rightarrow> string \<Rightarrow> string \<Rightarrow> string \<Rightarrow> registry \<Rightarrow> claim \<times> registry" where
  "transactionEntry is_shared user connection i r =
     (case open_entry r i of
        None \<Rightarrow> (Missing, r)
      | Some e \<Rightarrow>
          (if txn_user e \<noteq> user \<or> txn_connection e \<noteq> connection then (Missing, r)
           else if entry_idle is_shared r e then (Expired, snd (drop_ids (\<lambda>j. j = i) r))
           else (Granted, claim_entry i e r)))"

definition mongoTransactionEntry ::
  "string \<Rightarrow> string \<Rightarrow> string \<Rightarrow> registry \<Rightarrow> claim \<times> registry" where
  "mongoTransactionEntry user connection i r =
     (case open_entry r i of
        None \<Rightarrow> (Missing, r)
      | Some e \<Rightarrow>
          (if txn_user e \<noteq> user \<or> txn_connection e \<noteq> connection then (Missing, r)
           else (Granted, claim_entry i e r)))"

text \<open>The closure \<open>done\<close>, and the entry's mutex, which \<open>release_entry\<close> gives back first.\<close>

definition change_entry :: "(txn \<Rightarrow> txn) \<Rightarrow> string \<Rightarrow> registry \<Rightarrow> registry" where
  "change_entry f i r = (case heap r i of None \<Rightarrow> r | Some e \<Rightarrow> put_entry i (f e) r)"

definition release_entry :: "string \<Rightarrow> registry \<Rightarrow> registry" where
  "release_entry i r = change_entry (\<lambda>e. e\<lparr>txn_running := txn_running e - 1, txn_lastUsed := clock r\<rparr>) i r"

definition set_lock :: "bool \<Rightarrow> string \<Rightarrow> registry \<Rightarrow> registry" where
  "set_lock b = change_entry (\<lambda>e. e\<lparr>txn_locked := b\<rparr>)"

subsection \<open>Ending\<close>

text \<open>
  \<open>Transaction.close\<close> ends a transaction once; after that, and when the database connection
  went away, \<open>State\<close> is \<open>TransactionLost\<close>. \<open>raw\<close> is what the driver reports.
\<close>

datatype TransactionState = TransactionActive | TransactionAborted | TransactionLost

definition State :: "TransactionState \<Rightarrow> txn \<Rightarrow> TransactionState" where
  "State raw e = (if txn_outcome e \<noteq> None then TransactionLost else raw)"

definition end_once :: "outcome \<Rightarrow> txn \<Rightarrow> txn" where
  "end_once o1 e = (case txn_outcome e of None \<Rightarrow> e\<lparr>txn_outcome := Some o1\<rparr> | Some _ \<Rightarrow> e)"

datatype finish_answer = FinishOk | FinishRolledBack | FinishError string

definition lost_message :: string where
  "lost_message = ''Commit was not sent: the transaction's database connection had already ended, so the database discarded its uncommitted changes.''"

definition errTxnRolledBack :: string where
  "errTxnRolledBack = ''Commit applied nothing: the database aborted this transaction after an earlier error and rolled back all of its changes.''"

definition finish_error :: "string \<Rightarrow> response" where
  "finish_error e = Refused 502 ''TXN_FINISH_ERROR''
     (''Transaction handle closed. Verify the database state before retrying writes: '' @ e)"

text \<open>
  \<open>finishTransaction\<close> from the point where it holds the claim and the mutex: the answer,
  whether the cached schema is forgotten, and the registry. \<open>answer\<close> is what the database
  says to the commit or rollback that is sent.
\<close>

definition finish_locked ::
  "bool \<Rightarrow> TransactionState \<Rightarrow> (outcome \<Rightarrow> finish_answer) \<Rightarrow> string \<Rightarrow> registry \<Rightarrow>
   (response \<times> bool) \<times> registry" where
  "finish_locked commit raw answer i r =
     (case heap r i of
        None \<Rightarrow> ((Answer 404, False), r)
      | Some e \<Rightarrow>
          (let r1 = snd (drop_ids (\<lambda>j. j = i) r);
               rolled = put_entry i (end_once RollbackSent e) r1;
               sent = (if commit then CommitSent else RollbackSent) in
           (case State raw e of
              TransactionLost \<Rightarrow>
                (if commit then ((Refused 409 ''TXN_LOST'' lost_message, False), rolled)
                 else ((Answer 204, False), rolled))
            | st \<Rightarrow>
                (if st = TransactionAborted \<and> commit
                 then ((Refused 409 ''TXN_ROLLED_BACK'' errTxnRolledBack, False), rolled)
                 else
                   (let r2 = put_entry i (end_once sent e) r1 in
                    case answer sent of
                      FinishRolledBack \<Rightarrow> ((Refused 409 ''TXN_ROLLED_BACK'' errTxnRolledBack, False), r2)
                    | FinishError msg \<Rightarrow> ((finish_error msg, False), r2)
                    | FinishOk \<Rightarrow> ((Answer 204, True), r2))))))"

text \<open>MongoDB's transaction knows whether it is finished and has no other state.\<close>

definition mongo_finish_locked ::
  "bool \<Rightarrow> (outcome \<Rightarrow> string option) \<Rightarrow> string \<Rightarrow> registry \<Rightarrow> response \<times> registry" where
  "mongo_finish_locked commit answer i r =
     (case heap r i of
        None \<Rightarrow> (Answer 404, r)
      | Some e \<Rightarrow>
          (let r1 = snd (drop_ids (\<lambda>j. j = i) r);
               sent = (if commit then CommitSent else RollbackSent);
               err = (if txn_outcome e \<noteq> None
                      then (if commit then Some ''transaction already finished'' else None)
                      else answer sent);
               r2 = put_entry i (end_once sent e) r1 in
           ((case err of Some msg \<Rightarrow> finish_error msg | None \<Rightarrow> Answer 204), r2)))"

text \<open>The end of \<open>transactionQuery\<close>: a transaction whose connection is gone leaves the registry.\<close>

definition after_statement :: "TransactionState \<Rightarrow> string \<Rightarrow> registry \<Rightarrow> registry" where
  "after_statement raw i r =
     (case heap r i of
        None \<Rightarrow> r
      | Some e \<Rightarrow>
          (if State raw e = TransactionLost
           then put_entry i (end_once RollbackSent e) (snd (drop_ids (\<lambda>j. j = i) r))
           else r))"

subsection \<open>The reaper, a deleted connection, the shutdown\<close>

definition reapIdleTransactions :: "bool \<Rightarrow> registry \<Rightarrow> string list \<times> registry" where
  "reapIdleTransactions is_shared r =
     drop_ids (\<lambda>i. case heap r i of None \<Rightarrow> False | Some e \<Rightarrow> entry_idle is_shared r e) r"

definition closeConnectionTransactions :: "string \<Rightarrow> registry \<Rightarrow> string list \<times> registry" where
  "closeConnectionTransactions connection r =
     drop_ids (\<lambda>i. case heap r i of None \<Rightarrow> False | Some e \<Rightarrow> txn_connection e = connection) r"

definition close_all :: "registry \<Rightarrow> string list \<times> registry" where
  "close_all r = drop_ids (\<lambda>_. True) r"

definition roll_back :: "string \<Rightarrow> registry \<Rightarrow> registry" where
  "roll_back = change_entry (end_once RollbackSent)"

definition roll_back_all :: "string list \<Rightarrow> registry \<Rightarrow> registry" where
  "roll_back_all ids r = fold roll_back ids r"

subsection \<open>Beginning a transaction\<close>

text \<open>
  The handlers when nothing else runs in between. \<open>opens\<close> is the error of choosing the node,
  of the target or of the database's own begin; \<open>i\<close> is the new identifier.
\<close>

definition begin_role_refusal :: "Access option \<Rightarrow> Identity \<Rightarrow> Connection \<Rightarrow> response option" where
  "begin_role_refusal access identity connection =
     (case desiredNodeRole access identity (conn_ID connection) None of
        Inl e \<Rightarrow> Some (Refused 403 ''POLICY_DENIED'' e)
      | Inr desired \<Rightarrow>
          (if desired = ''secondary''
           then Some (Refused 403 ''POLICY_DENIED'' ''interactive transactions are disabled on secondary nodes'')
           else None))"

definition begin_reaped ::
  "bool \<Rightarrow> string \<Rightarrow> string \<Rightarrow> (nat \<Rightarrow> string) \<Rightarrow> string option \<Rightarrow> string \<Rightarrow> registry \<Rightarrow>
   response \<times> registry" where
  "begin_reaped is_shared user connection message opens i r =
     (case reapIdleTransactions is_shared r of
        (idle, r1) \<Rightarrow>
          (let r2 = roll_back_all idle r1 in
           if limit_reached is_shared user connection r2
           then (Refused 429 ''TXN_LIMIT'' (message (count_open (\<lambda>e. txn_user e = user) r2)), r2)
           else
             (case opens of
                Some e \<Rightarrow> (Refused 502 ''TXN_ERROR'' e, r2)
              | None \<Rightarrow> (Answer 200, insert_txn i user connection r2))))"

definition beginTransaction ::
  "bool \<Rightarrow> Access option \<Rightarrow> Identity \<Rightarrow> Connection \<Rightarrow> string option \<Rightarrow> string \<Rightarrow> registry \<Rightarrow>
   response \<times> registry" where
  "beginTransaction is_shared access identity connection opens i r =
     (case begin_role_refusal access identity connection of
        Some refusal \<Rightarrow> (refusal, r)
      | None \<Rightarrow>
          begin_reaped is_shared (UserID identity) (conn_ID connection)
            (\<lambda>n. ''You already have '' @ decimal (int n)
               @ '' open manual-commit transactions. Commit or roll back one in another tab first.'')
            opens i r)"

definition mongoBeginTransaction ::
  "bool \<Rightarrow> Identity \<Rightarrow> Connection \<Rightarrow> string option \<Rightarrow> string \<Rightarrow> registry \<Rightarrow> response \<times> registry" where
  "mongoBeginTransaction is_shared identity connection opens i r =
     (if conn_Engine connection \<noteq> ''mongodb''
      then (Refused 400 ''UNSUPPORTED'' ''this connection is not a MongoDB connection'', r)
      else
        begin_reaped is_shared (UserID identity) (conn_ID connection)
          (\<lambda>_. ''You already have several open manual-commit transactions. Commit or roll back one first.'')
          opens i r)"

text \<open>\<open>localQuit\<close> asks for the open transactions of the SQL registry only.\<close>

definition localQuit :: "bool \<Rightarrow> bool \<Rightarrow> registry \<Rightarrow> registry \<Rightarrow> response" where
  "localQuit origin_ok rollback sql mongo =
     (if \<not> origin_ok then Refused 403 ''FORBIDDEN'' ''invalid origin''
      else if txns sql \<noteq> [] \<and> \<not> rollback
      then Refused 409 ''OPEN_TRANSACTIONS'' ''Open transactions must be rolled back before quitting''
      else Answer 204)"

subsection \<open>Requests side by side\<close>

text \<open>
  A request is where it stands between two atomic sections: past the limit check of a begin,
  holding a claim, holding the claim and the mutex, or about to roll back an entry it took out
  of the registry. \<open>sql\<close> chooses the registry, \<open>K\<close> bounds how many begins of one user are
  under way at once.
\<close>

datatype proc =
    Admitted string string
  | Claiming string
  | Working string
  | Reaping string
  | Closing string

definition admitted :: "proc multiset \<Rightarrow> string \<Rightarrow> nat" where
  "admitted M u = size (filter_mset (\<lambda>p. case p of Admitted v _ \<Rightarrow> v = u | _ \<Rightarrow> False) M)"

definition find_entry ::
  "bool \<Rightarrow> bool \<Rightarrow> string \<Rightarrow> string \<Rightarrow> string \<Rightarrow> registry \<Rightarrow> claim \<times> registry" where
  "find_entry sql is_shared user connection i r =
     (if sql then transactionEntry is_shared user connection i r
      else mongoTransactionEntry user connection i r)"

inductive txn_step ::
  "bool \<Rightarrow> bool \<Rightarrow> nat \<Rightarrow> registry \<times> proc multiset \<Rightarrow> registry \<times> proc multiset \<Rightarrow> bool"
  for sql is_shared K where
  tick: "clock r \<le> t \<Longrightarrow> txn_step sql is_shared K (r, M) (r\<lparr>clock := t\<rparr>, M)"
| admit: "\<not> limit_reached is_shared u c r \<Longrightarrow> admitted M u < K \<Longrightarrow>
     txn_step sql is_shared K (r, M) (r, add_mset (Admitted u c) M)"
| fail: "txn_step sql is_shared K (r, add_mset (Admitted u c) M) (r, M)"
| insert: "heap r i = None \<Longrightarrow>
     txn_step sql is_shared K (r, add_mset (Admitted u c) M) (insert_txn i u c r, M)"
| grant: "find_entry sql is_shared u c i r = (Granted, r') \<Longrightarrow>
     txn_step sql is_shared K (r, M) (r', add_mset (Claiming i) M)"
| expire: "find_entry sql is_shared u c i r = (Expired, r') \<Longrightarrow>
     txn_step sql is_shared K (r, M) (r', add_mset (Reaping i) M)"
| lock: "heap r i = Some e \<Longrightarrow> \<not> txn_locked e \<Longrightarrow>
     txn_step sql is_shared K (r, add_mset (Claiming i) M) (set_lock True i r, add_mset (Working i) M)"
| give_up: "txn_step sql is_shared K (r, add_mset (Claiming i) M) (release_entry i r, M)"
| statement: "sql \<Longrightarrow> Working i \<in># M \<Longrightarrow> txn_step sql is_shared K (r, M) (after_statement raw i r, M)"
| finish: "sql \<Longrightarrow> Working i \<in># M \<Longrightarrow>
     txn_step sql is_shared K (r, M) (snd (finish_locked commit raw answer i r), M)"
| mongo_finish: "\<not> sql \<Longrightarrow> Working i \<in># M \<Longrightarrow>
     txn_step sql is_shared K (r, M) (snd (mongo_finish_locked commit mongo_answer i r), M)"
| release: "txn_step sql is_shared K (r, add_mset (Working i) M) (release_entry i (set_lock False i r), M)"
| reap: "reapIdleTransactions is_shared r = (idle, r') \<Longrightarrow>
     txn_step sql is_shared K (r, M) (r', M + mset (map Reaping idle))"
| close: "closeConnectionTransactions c r = (ids, r') \<or> close_all r = (ids, r') \<Longrightarrow>
     txn_step sql is_shared K (r, M) (r', M + mset (map Closing ids))"
| roll: "p = Reaping i \<or> p = Closing i \<Longrightarrow> heap r i = Some e \<Longrightarrow> \<not> txn_locked e \<Longrightarrow>
     txn_step sql is_shared K (r, add_mset p M) (roll_back i r, M)"

definition no_transactions :: "int \<Rightarrow> registry" where
  "no_transactions t = \<lparr>clock = t, heap = (\<lambda>_. None), txns = []\<rparr>"

inductive txn_run ::
  "bool \<Rightarrow> bool \<Rightarrow> nat \<Rightarrow> registry \<times> proc multiset \<Rightarrow> registry \<times> proc multiset \<Rightarrow> bool"
  for sql is_shared K where
  stay: "txn_run sql is_shared K s s"
| step: "txn_run sql is_shared K s s' \<Longrightarrow> txn_step sql is_shared K s' s'' \<Longrightarrow> txn_run sql is_shared K s s''"

abbreviation txn_reachable :: "bool \<Rightarrow> bool \<Rightarrow> nat \<Rightarrow> registry \<times> proc multiset \<Rightarrow> bool" where
  "txn_reachable sql is_shared K s \<equiv> \<exists>t. txn_run sql is_shared K (no_transactions t, {#}) s"

end
