(* ===== verification/Transactions_Properties.thy ===== *)
theory Transactions_Properties
  imports Transactions
begin

section \<open>The properties of manual transactions\<close>

subsection \<open>What an operation changes\<close>

named_theorems registry_ops \<open>the operations of the registry, unfolded\<close>

declare put_entry_def [registry_ops] drop_ids_def [registry_ops] claim_entry_def [registry_ops]
  change_entry_def [registry_ops] release_entry_def [registry_ops] set_lock_def [registry_ops]
  roll_back_def [registry_ops] insert_txn_def [registry_ops] end_once_def [registry_ops]

lemma find_entry_cases:
  assumes "find_entry sql is_shared u c i r = (a, r')"
  obtains (missing) "a = Missing" "r' = r"
  | (expired) e where "a = Expired" "heap r i = Some e" "i \<in> set (txns r)" "entry_idle is_shared r e"
      "r' = snd (drop_ids (\<lambda>j. j = i) r)"
  | (granted) e where "a = Granted" "heap r i = Some e" "i \<in> set (txns r)" "r' = claim_entry i e r"
      "txn_user e = u" "txn_connection e = c" "sql \<Longrightarrow> \<not> entry_idle is_shared r e"
proof (cases "open_entry r i")
  case None
  with assms show thesis
    by (intro missing) (auto simp: find_entry_def transactionEntry_def mongoTransactionEntry_def split: if_splits)
next
  case (Some e)
  then have e: "heap r i = Some e" "i \<in> set (txns r)" by (auto simp: open_entry_def split: if_splits)
  consider (other) "txn_user e \<noteq> u \<or> txn_connection e \<noteq> c"
    | (idle) "txn_user e = u" "txn_connection e = c" "sql" "entry_idle is_shared r e"
    | (mine) "txn_user e = u" "txn_connection e = c" "sql \<longrightarrow> \<not> entry_idle is_shared r e"
    by blast
  then show thesis
  proof cases
    case other
    with Some assms show thesis
      by (intro missing) (auto simp: find_entry_def transactionEntry_def mongoTransactionEntry_def split: if_splits)
  next
    case idle
    with Some assms e show thesis
      by (intro expired [of e]) (simp_all add: find_entry_def transactionEntry_def)
  next
    case mine
    with Some assms e show thesis
      by (intro granted [of e])
         (auto simp: find_entry_def transactionEntry_def mongoTransactionEntry_def split: if_splits)
  qed
qed

text \<open>\<open>finish_locked\<close>, \<open>mongo_finish_locked\<close> and \<open>after_statement\<close> end one entry or change nothing.\<close>

definition ends_entry :: "string \<Rightarrow> registry \<Rightarrow> registry \<Rightarrow> bool" where
  "ends_entry i r r' \<longleftrightarrow> r' = r \<or>
     (\<exists>e o1. heap r i = Some e
        \<and> r' = put_entry i (end_once o1 e) (snd (drop_ids (\<lambda>j. j = i) r)))"

lemma ends_entryI:
  "heap r i = Some e \<Longrightarrow> ends_entry i r (put_entry i (end_once o1 e) (snd (drop_ids (\<lambda>j. j = i) r)))"
  by (auto simp: ends_entry_def)

lemma finish_ends:
  "ends_entry i r (after_statement raw i r)"
  "ends_entry i r (snd (finish_locked commit raw answer i r))"
  "ends_entry i r (snd (mongo_finish_locked commit mongo_answer i r))"
  by (auto simp: after_statement_def finish_locked_def mongo_finish_locked_def Let_def ends_entry_def
      split: option.splits TransactionState.splits finish_answer.splits; fastforce)+

subsection \<open>The invariant\<close>

definition claims :: "proc multiset \<Rightarrow> string \<Rightarrow> nat" where
  "claims M i = count M (Claiming i) + count M (Working i)"

definition entry_inv :: "registry \<Rightarrow> proc multiset \<Rightarrow> string \<Rightarrow> bool" where
  "entry_inv r M i \<longleftrightarrow>
     (case heap r i of
        None \<Rightarrow> claims M i = 0 \<and> i \<notin> set (txns r) \<and> Reaping i \<notin># M \<and> Closing i \<notin># M
      | Some e \<Rightarrow>
          txn_running e = int (claims M i)
          \<and> (txn_locked e \<longleftrightarrow> Working i \<in># M) \<and> count M (Working i) \<le> 1
          \<and> (i \<in> set (txns r) \<longrightarrow> txn_outcome e = None \<and> Reaping i \<notin># M \<and> Closing i \<notin># M)
          \<and> (Reaping i \<in># M \<longrightarrow> claims M i = 0))"

definition txn_inv :: "registry \<times> proc multiset \<Rightarrow> bool" where
  "txn_inv s \<longleftrightarrow> distinct (txns (fst s)) \<and> (\<forall>i. entry_inv (fst s) (snd s) i)"

lemma txn_invI:
  "distinct (txns r) \<Longrightarrow> (\<And>i. entry_inv r M i) \<Longrightarrow> txn_inv (r, M)"
  by (simp add: txn_inv_def)

lemma count_tagged: "inj f \<Longrightarrow> count (image_mset f A) (f i) = count A i"
  by (induction A) (auto dest: injD)

lemma count_other_tag: "(\<And>j. p \<noteq> f j) \<Longrightarrow> count (image_mset f A) p = 0"
  by (induction A) auto

lemma tag_counts [simp]:
  "count (image_mset Reaping A) (Reaping i) = count A i"
  "count (image_mset Closing A) (Closing i) = count A i"
  "count (image_mset Reaping A) (Closing i) = 0" "count (image_mset Closing A) (Reaping i) = 0"
  "count (image_mset Reaping A) (Claiming i) = 0" "count (image_mset Closing A) (Claiming i) = 0"
  "count (image_mset Reaping A) (Working i) = 0" "count (image_mset Closing A) (Working i) = 0"
  by (auto intro!: count_tagged count_other_tag simp: inj_on_def)

lemma ended_heap [simp]:
  "heap (put_entry i e (snd (drop_ids P r))) = (heap r)(i \<mapsto> e)"
  "txns (put_entry i e (snd (drop_ids P r))) = filter (\<lambda>i. \<not> P i) (txns r)"
  by (simp_all add: put_entry_def drop_ids_def)

lemma end_once_views [simp]:
  "txn_running (end_once o1 e) = txn_running e" "txn_locked (end_once o1 e) = txn_locked e"
  "txn_user (end_once o1 e) = txn_user e" "txn_connection (end_once o1 e) = txn_connection e"
  "txn_outcome (end_once o1 e) = (case txn_outcome e of None \<Rightarrow> Some o1 | Some x \<Rightarrow> Some x)"
  by (simp_all add: end_once_def split: option.splits)

lemma entry_inv_ends:
  assumes "ends_entry i r r'" and "Working i \<in># M" and "entry_inv r M j"
  shows "entry_inv r' M j"
proof (cases "r' = r")
  case False
  with assms(1) obtain e o1 where e: "heap r i = Some e"
    and r': "r' = put_entry i (end_once o1 e) (snd (drop_ids (\<lambda>j. j = i) r))"
    unfolding ends_entry_def by blast
  show ?thesis
  proof (cases "j = i")
    case True
    with assms(2,3) e show ?thesis by (simp add: r' entry_inv_def)
  next
    case False
    with assms(3) show ?thesis by (simp add: r' entry_inv_def split: option.splits)
  qed
qed (use assms in simp)

lemma find_entry_inv:
  assumes "find_entry sql is_shared u c i r = (a, r')" and "entry_inv r M j"
  shows "a = Granted \<Longrightarrow> entry_inv r' (add_mset (Claiming i) M) j"
    and "a = Expired \<Longrightarrow> entry_inv r' (add_mset (Reaping i) M) j"
  using assms
  by (auto elim!: find_entry_cases simp: entry_inv_def registry_ops claims_def entry_idle_def
      split: option.splits)

lemma drop_ids_inv:
  assumes "drop_ids gone r = (ids, r')" and "entry_inv r M j"
  shows "(\<And>i e. gone i \<Longrightarrow> heap r i = Some e \<Longrightarrow> txn_running e = 0)
      \<Longrightarrow> entry_inv r' (M + image_mset Reaping (mset ids)) j"
    and "entry_inv r' (M + image_mset Closing (mset ids)) j"
proof -
  from assms(1) have r': "heap r' = heap r" "txns r' = filter (\<lambda>i. \<not> gone i) (txns r)"
    and ids: "ids = filter gone (txns r)" by (auto simp: drop_ids_def)
  show "entry_inv r' (M + image_mset Closing (mset ids)) j"
    using assms(2) by (auto simp add: entry_inv_def r' ids claims_def split: option.splits)
  assume "\<And>i e. gone i \<Longrightarrow> heap r i = Some e \<Longrightarrow> txn_running e = 0"
  then show "entry_inv r' (M + image_mset Reaping (mset ids)) j"
    using assms(2) by (auto simp add: entry_inv_def r' ids claims_def split: option.splits)
qed

lemmas close_defs = closeConnectionTransactions_def close_all_def

lemma txn_step_entry:
  "txn_step sql is_shared K s s' \<Longrightarrow> entry_inv (fst s) (snd s) j \<Longrightarrow> entry_inv (fst s') (snd s') j"
proof (induction rule: txn_step.induct)
  case (statement i M r raw)
  then show ?case using entry_inv_ends [OF finish_ends(1)] by simp
next
  case (finish i M r commit raw answer)
  then show ?case using entry_inv_ends [OF finish_ends(2)] by simp
next
  case (mongo_finish i M r commit mongo_answer)
  then show ?case using entry_inv_ends [OF finish_ends(3)] by simp
next
  case (grant u c i r r' M)
  then show ?case using find_entry_inv(1) by simp
next
  case (expire u c i r r' M)
  then show ?case using find_entry_inv(2) by simp
next
  case (reap r idle r' M)
  then show ?case
    by (auto simp: entry_idle_def intro!: drop_ids_inv(1) [OF reap(1) [unfolded reapIdleTransactions_def]])
next
  case (close c r ids r' M)
  then show ?case using drop_ids_inv(2) by (auto simp: close_defs)
next
  case (release r i M)
  then show ?case
    by (cases "i = j")
       (auto simp: entry_inv_def registry_ops claims_def count_greater_zero_iff [symmetric]
          simp del: count_greater_zero_iff split: option.splits)
qed (auto simp: entry_inv_def registry_ops claims_def count_greater_zero_iff [symmetric]
    simp del: count_greater_zero_iff split: option.splits if_splits)

lemma drop_ids_txns: "txns (snd (drop_ids P r)) = filter (\<lambda>i. \<not> P i) (txns r)"
  by (simp add: drop_ids_def)

lemma txn_step_distinct:
  "txn_step sql is_shared K s s' \<Longrightarrow> txn_inv s \<Longrightarrow> distinct (txns (fst s'))"
proof (induction rule: txn_step.induct)
  case (statement i M r raw)
  then show ?case using finish_ends(1) [of i r raw] by (auto simp: txn_inv_def ends_entry_def registry_ops)
next
  case (finish i M r commit raw answer)
  then show ?case
    using finish_ends(2) [of i r commit raw answer] by (auto simp: txn_inv_def ends_entry_def registry_ops)
next
  case (mongo_finish i M r commit mongo_answer)
  then show ?case
    using finish_ends(3) [of i r commit mongo_answer] by (auto simp: txn_inv_def ends_entry_def registry_ops)
next
  case (insert r i u c M)
  from insert(2) have "entry_inv r (add_mset (Admitted u c) M) i" by (simp add: txn_inv_def)
  with insert show ?case by (simp add: txn_inv_def entry_inv_def registry_ops)
qed (auto simp: txn_inv_def reapIdleTransactions_def closeConnectionTransactions_def close_all_def
    registry_ops elim!: find_entry_cases split: option.splits)

lemma txn_step_inv: "txn_step sql is_shared K s s' \<Longrightarrow> txn_inv s \<Longrightarrow> txn_inv s'"
  using txn_step_entry txn_step_distinct unfolding txn_inv_def by blast

lemma txn_run_inv: "txn_run sql is_shared K s s' \<Longrightarrow> txn_inv s \<Longrightarrow> txn_inv s'"
  by (induction rule: txn_run.induct) (auto intro: txn_step_inv)

lemma txn_reachable_inv: "txn_reachable sql is_shared K s \<Longrightarrow> txn_inv s"
proof (elim exE)
  fix t assume "txn_run sql is_shared K (no_transactions t, {#}) s"
  then show ?thesis
    by (rule txn_run_inv) (simp add: txn_inv_def no_transactions_def entry_inv_def claims_def)
qed

lemma drop_ids_keeps [simp]: "heap (snd (drop_ids P r)) = heap r"
  by (simp add: drop_ids_def)

text \<open>An entry never changes hands and ends once.\<close>

definition same_transaction :: "txn \<Rightarrow> txn \<Rightarrow> bool" where
  "same_transaction e e' \<longleftrightarrow> txn_user e' = txn_user e \<and> txn_connection e' = txn_connection e
     \<and> (txn_outcome e \<noteq> None \<longrightarrow> txn_outcome e' = txn_outcome e)"

lemma same_transaction_refl [simp]: "same_transaction e e"
  by (simp add: same_transaction_def)

lemma same_transaction_trans:
  "same_transaction a b \<Longrightarrow> same_transaction b c \<Longrightarrow> same_transaction a c"
  by (auto simp: same_transaction_def)

lemma same_transaction_end [simp]: "same_transaction e (end_once o1 e)"
  by (auto simp: same_transaction_def)

definition kept :: "registry \<Rightarrow> registry \<Rightarrow> bool" where
  "kept r r' \<longleftrightarrow> (\<forall>i e. heap r i = Some e \<longrightarrow> (\<exists>e'. heap r' i = Some e' \<and> same_transaction e e'))"

lemma kept_refl [simp]: "kept r r" by (simp add: kept_def)

lemma kept_trans: "kept a b \<Longrightarrow> kept b c \<Longrightarrow> kept a c"
  unfolding kept_def by (meson same_transaction_trans)

lemma kept_put: "heap r i = Some e \<Longrightarrow> same_transaction e e' \<Longrightarrow> heap r' = (heap r)(i \<mapsto> e') \<Longrightarrow> kept r r'"
  by (auto simp: kept_def)

lemma kept_ops [simp]:
  "kept r (roll_back i r)" "kept r (set_lock b i r)" "kept r (release_entry i r)"
  "heap r i = None \<Longrightarrow> kept r (insert_txn i u c r)"
  "heap r i = Some e \<Longrightarrow> kept r (claim_entry i e r)" "kept r (snd (drop_ids P r))"
  by (auto simp: kept_def registry_ops same_transaction_def split: option.splits)

lemma ends_entry_kept: "ends_entry i r r' \<Longrightarrow> kept r r'"
  by (auto simp: ends_entry_def kept_def)

lemma kept_clock [simp]: "kept r (r\<lparr>clock := t\<rparr>)"
  by (simp add: kept_def)

lemma txn_step_kept: "txn_step sql is_shared K s s' \<Longrightarrow> kept (fst s) (fst s')"
proof (induction rule: txn_step.induct)
  case (reap r idle r' M)
  then show ?case by (metis fst_conv kept_ops(6) reapIdleTransactions_def snd_conv)
next
  case (close c r ids r' M)
  then show ?case unfolding close_defs by (metis fst_conv kept_ops(6) snd_conv)
next
  case (release r i M)
  then show ?case by (auto intro: kept_trans [OF kept_ops(2) kept_ops(3)])
qed (auto intro: finish_ends [THEN ends_entry_kept] elim!: find_entry_cases)

lemma txn_run_kept: "txn_run sql is_shared K s s' \<Longrightarrow> kept (fst s) (fst s')"
  by (induction rule: txn_run.induct) (auto intro: kept_trans txn_step_kept)

subsection \<open>How many\<close>

lemma admitted_add [simp]:
  "admitted (add_mset p M) u = (case p of Admitted v _ \<Rightarrow> if v = u then 1 else 0 | _ \<Rightarrow> 0) + admitted M u"
  by (cases p) (simp_all add: admitted_def)

lemma admitted_tags [simp]:
  "admitted (M + image_mset Reaping A) u = admitted M u"
  "admitted (M + image_mset Closing A) u = admitted M u"
  by (induction A) auto

definition users_open :: "registry \<Rightarrow> string \<Rightarrow> nat" where
  "users_open r u = count_open (\<lambda>e. txn_user e = u) r"

lemma users_open_put:
  "heap r i = Some e \<Longrightarrow> txn_user e' = txn_user e \<Longrightarrow> users_open (put_entry i e' r) u = users_open r u"
  unfolding users_open_def count_open_def put_entry_def
  by (auto intro!: arg_cong [of _ _ length] filter_cong)

lemma users_open_drop: "users_open (snd (drop_ids P r)) u \<le> users_open r u"
proof -
  let ?Q = "\<lambda>i. case heap r i of None \<Rightarrow> False | Some e \<Rightarrow> txn_user e = u"
  have "filter ?Q (filter (\<lambda>i. \<not> P i) (txns r)) = filter (\<lambda>i. \<not> P i) (filter ?Q (txns r))"
    by (simp add: conj_commute)
  then show ?thesis by (simp add: users_open_def count_open_def drop_ids_def del: filter_filter)
qed

lemma users_open_change [simp]:
  "users_open (set_lock b i r) u = users_open r u" "users_open (release_entry i r) u = users_open r u"
  "users_open (roll_back i r) u = users_open r u" "users_open (r\<lparr>clock := t\<rparr>) u = users_open r u"
  by (auto simp: set_lock_def release_entry_def roll_back_def change_entry_def users_open_put
      split: option.splits) (simp add: users_open_def count_open_def)

lemma users_open_ends: "ends_entry i r r' \<Longrightarrow> users_open r' u \<le> users_open r u"
proof -
  assume "ends_entry i r r'"
  then consider "r' = r" | e o1 where "heap r i = Some e"
      "r' = put_entry i (end_once o1 e) (snd (drop_ids (\<lambda>j. j = i) r))"
    unfolding ends_entry_def by blast
  then show ?thesis
  proof cases
    case 2
    then have "users_open r' u = users_open (snd (drop_ids (\<lambda>j. j = i) r)) u"
      by (simp add: users_open_put)
    then show ?thesis using users_open_drop by simp
  qed simp
qed

lemma users_open_insert:
  "heap r i = None \<Longrightarrow> i \<notin> set (txns r) \<Longrightarrow>
     users_open (insert_txn i v c r) u = (if v = u then 1 else 0) + users_open r u"
proof -
  assume "heap r i = None" and "i \<notin> set (txns r)"
  then have "filter (\<lambda>j. case ((heap r)(i \<mapsto> e)) j of None \<Rightarrow> False | Some e \<Rightarrow> txn_user e = u) (txns r)
      = filter (\<lambda>j. case heap r j of None \<Rightarrow> False | Some e \<Rightarrow> txn_user e = u) (txns r)" for e
    by (intro filter_cong) auto
  then show ?thesis by (simp add: users_open_def count_open_def insert_txn_def put_entry_def)
qed

definition load :: "registry \<times> proc multiset \<Rightarrow> string \<Rightarrow> nat" where
  "load s u = users_open (fst s) u + admitted (snd s) u"

lemma txn_step_load:
  "txn_step sql is_shared K s s' \<Longrightarrow> txn_inv s \<Longrightarrow> load s u < per_user is_shared + K \<Longrightarrow>
     load s' u < per_user is_shared + K"
proof (induction rule: txn_step.induct)
  case (admit v c r M)
  then show ?case
    by (auto simp: load_def limit_reached_def users_open_def)
next
  case (insert r i v c M)
  from insert(2) have "entry_inv r (add_mset (Admitted v c) M) i" by (simp add: txn_inv_def)
  with insert(1) have "i \<notin> set (txns r)" by (simp add: entry_inv_def)
  with insert show ?case by (auto simp: load_def users_open_insert)
next
  case (reap r idle r' M)
  then have "users_open r' u \<le> users_open r u"
    using users_open_drop by (metis reapIdleTransactions_def snd_conv)
  with reap show ?case by (simp add: load_def)
next
  case (close c r ids r' M)
  then have "users_open r' u \<le> users_open r u"
    using users_open_drop unfolding close_defs by (metis snd_conv)
  with close show ?case by (simp add: load_def)
next
  case (grant v c i r r' M)
  then show ?case
    by (auto simp: load_def claim_entry_def users_open_put elim!: find_entry_cases)
next
  case (expire v c i r r' M)
  then show ?case
    using users_open_drop [of "\<lambda>j. j = i" r u] by (auto simp: load_def elim!: find_entry_cases)
next
  case (statement i M r raw)
  then show ?case using users_open_ends [OF finish_ends(1) [of i r raw], of u]
    by (simp add: load_def)
next
  case (finish i M r commit raw answer)
  then show ?case using users_open_ends [OF finish_ends(2) [of i r commit raw answer], of u]
    by (simp add: load_def)
next
  case (mongo_finish i M r commit mongo_answer)
  then show ?case using users_open_ends [OF finish_ends(3) [of i r commit mongo_answer], of u]
    by (simp add: load_def)
qed (auto simp: load_def)

lemma txn_run_load:
  "txn_run sql is_shared K s s' \<Longrightarrow> txn_inv s \<Longrightarrow> load s u < per_user is_shared + K \<Longrightarrow>
     load s' u < per_user is_shared + K"
  by (induction rule: txn_run.induct) (auto intro: txn_step_load txn_run_inv)

subsection \<open>Properties\<close>

text \<open>C32: a transaction that sat idle is never rolled back under a request. However begins, claims,
  statements, commits, the idle reaper and closed connections interleave, an entry the reaper
  took out of the registry is held by no request and can be claimed by none, and at most one
  request at a time runs a statement on an entry or ends it.\<close>

theorem reaper_spares_claimed:
  assumes "txn_reachable sql is_shared K (r, M)"
  shows "(Reaping i \<in># M \<longrightarrow> Claiming i \<notin># M \<and> Working i \<notin># M
        \<and> fst (find_entry sql is_shared u c i r) = Missing)
    \<and> count M (Working i) \<le> 1"
proof -
  from txn_reachable_inv [OF assms] have inv: "entry_inv r M i" by (simp add: txn_inv_def)
  then have "Reaping i \<in># M \<Longrightarrow> claims M i = 0 \<and> i \<notin> set (txns r)" and "count M (Working i) \<le> 1"
    by (auto simp: entry_inv_def claims_def split: option.splits)
  then show ?thesis
    by (auto simp: claims_def find_entry_def transactionEntry_def mongoTransactionEntry_def open_entry_def
        count_greater_zero_iff [symmetric] simp del: count_greater_zero_iff)
qed

definition idle_state :: registry where
  "idle_state = snd (reapIdleTransactions True
     ((insert_txn ''t'' ''u'' ''c'' (no_transactions 0))\<lparr>clock := 600000000000\<rparr>))"

lemma idle_run: "txn_reachable True True 1 (idle_state, {#Reaping ''t''#})"
proof -
  let ?r0 = "no_transactions 0" and ?r1 = "insert_txn ''t'' ''u'' ''c'' (no_transactions 0)"
  have admit: "txn_step True True 1 (?r0, {#}) (?r0, {#Admitted ''u'' ''c''#})"
    by (rule txn_step.admit) (simp_all add: limit_reached_def count_open_def no_transactions_def
        per_user_def admitted_def)
  have insert: "txn_step True True 1 (?r0, {#Admitted ''u'' ''c''#}) (?r1, {#})"
    by (rule txn_step.insert) (simp add: no_transactions_def)
  have tick: "txn_step True True 1 (?r1, {#}) (?r1\<lparr>clock := 600000000000\<rparr>, {#})"
    by (rule txn_step.tick) (simp add: insert_txn_def put_entry_def no_transactions_def)
  have "reapIdleTransactions True (?r1\<lparr>clock := 600000000000\<rparr>) = ([''t''], idle_state)"
    by (simp add: idle_state_def reapIdleTransactions_def drop_ids_def insert_txn_def put_entry_def
        no_transactions_def entry_idle_def transactionIdleTimeout_def)
  from txn_step.reap [OF this, of True 1 "{#}"]
  have reap: "txn_step True True 1 (?r1\<lparr>clock := 600000000000\<rparr>, {#}) (idle_state, {#Reaping ''t''#})"
    by simp
  show ?thesis
    by (intro exI [of _ 0] txn_run.step [OF txn_run.step [OF txn_run.step [OF txn_run.step
          [OF txn_run.stay admit] insert] tick] reap])
qed

lemma reaper_spares_claimed_witness:
  "fst (transactionEntry True ''u'' ''c'' ''t'' idle_state) = Missing"
  using reaper_spares_claimed [OF idle_run, of "''t''" "''u''" "''c''"] by (simp add: find_entry_def)

text \<open>A transaction belongs to the user and the connection that began it for as long as it
  exists, and it ends once: as soon as a commit or a rollback was sent for it, no later step of
  any request, of the reaper or of the shutdown sends another.\<close>

lemma transaction_ends_once:
  assumes "txn_run sql is_shared K (r, M) (r', M')" and "heap r i = Some e"
  shows "\<exists>e'. heap r' i = Some e' \<and> txn_user e' = txn_user e \<and> txn_connection e' = txn_connection e
    \<and> (txn_outcome e \<noteq> None \<longrightarrow> txn_outcome e' = txn_outcome e)"
  using txn_run_kept [OF assms(1)] assms(2) by (auto simp: kept_def same_transaction_def)

lemma transaction_ends_once_witness:
  "\<exists>e'. heap (snd (finish_locked False TransactionActive (\<lambda>_. FinishOk) ''t''
       (put_entry ''t'' \<lparr>txn_user = ''u'', txn_connection = ''c'', txn_lastUsed = 0, txn_running = 1,
          txn_locked = True, txn_outcome = Some CommitSent\<rparr> (no_transactions 0)))) ''t'' = Some e'
     \<and> txn_outcome e' = Some CommitSent"
proof -
  let ?e = "\<lparr>txn_user = ''u'', txn_connection = ''c'', txn_lastUsed = 0, txn_running = 1,
    txn_locked = True, txn_outcome = Some CommitSent\<rparr>"
  let ?r = "put_entry ''t'' ?e (no_transactions 0)"
  let ?r' = "snd (finish_locked False TransactionActive (\<lambda>_. FinishOk) ''t'' ?r)"
  have "txn_run True True 1 (?r, {#Working ''t''#}) (?r', {#Working ''t''#})"
    by (rule txn_run.step [OF txn_run.stay]) (rule txn_step.finish, simp_all)
  from transaction_ends_once [OF this, of "''t''" ?e] show ?thesis by (auto simp: put_entry_def)
qed

text \<open>The limit on open transactions holds up to begins of the same user that overlap: with at
  most \<open>K\<close> of them between their limit check and their insertion at any time, a user has fewer
  than the limit plus \<open>K\<close> transactions open or about to be; one after the other they never exceed
  the limit.\<close>

lemma open_transactions_bounded:
  assumes "txn_reachable sql is_shared K (r, M)"
  shows "count_open (\<lambda>e. txn_user e = u) r + admitted M u < per_user is_shared + K"
proof -
  from assms obtain t where "txn_run sql is_shared K (no_transactions t, {#}) (r, M)" by blast
  from txn_run_load [OF this, of u] show ?thesis
    by (simp add: load_def txn_inv_def no_transactions_def entry_inv_def claims_def users_open_def
        count_open_def admitted_def per_user_def)
qed

lemma open_transactions_bounded_witness:
  "count_open (\<lambda>e. txn_user e = ''u'') idle_state + admitted {#Reaping ''t''#} ''u'' < 6"
  using open_transactions_bounded [OF idle_run, of "''u''"] by (simp add: per_user_def)

text \<open>Two overlapping begins do exceed it.\<close>

lemma overlapping_begins_exceed_limit:
  assumes "Suc (users_open r u) = per_user is_shared"
    and "count_open (\<lambda>e. txn_connection e = c) r < 50"
    and "heap r i = None" "heap r j = None" "i \<noteq> j" "i \<notin> set (txns r)" "j \<notin> set (txns r)"
  shows "\<exists>r'. txn_run sql is_shared 2 (r, {#}) (r', {#}) \<and> users_open r' u = Suc (per_user is_shared)"
proof -
  let ?a = "Admitted u c" and ?r1 = "insert_txn i u c r"
  have free: "\<not> limit_reached is_shared u c r"
    using assms(1,2) by (simp add: limit_reached_def users_open_def)
  have one: "txn_step sql is_shared 2 (r, {#}) (r, {#?a#})"
    using txn_step.admit [OF free, of "{#}" 2 sql] by (simp add: admitted_def)
  have two: "txn_step sql is_shared 2 (r, {#?a#}) (r, {#?a, ?a#})"
    using txn_step.admit [OF free, of "{#?a#}" 2 sql] by (simp add: admitted_def)
  have three: "txn_step sql is_shared 2 (r, {#?a, ?a#}) (?r1, {#?a#})"
    using txn_step.insert [OF assms(3), of sql is_shared 2 u c "{#?a#}"] by simp
  have later: "heap ?r1 j = None" "j \<notin> set (txns ?r1)"
    using assms by (simp_all add: insert_txn_def put_entry_def)
  have four: "txn_step sql is_shared 2 (?r1, {#?a#}) (insert_txn j u c ?r1, {#})"
    using txn_step.insert [OF later(1), of sql is_shared 2 u c "{#}"] by simp
  have "txn_run sql is_shared 2 (r, {#}) (insert_txn j u c ?r1, {#})"
    by (intro txn_run.step [OF txn_run.step [OF txn_run.step [OF txn_run.step
          [OF txn_run.stay one] two] three] four])
  moreover have "users_open (insert_txn j u c ?r1) u = Suc (per_user is_shared)"
    using assms by (simp add: users_open_insert [OF later] users_open_insert)
  ultimately show ?thesis by blast
qed

text \<open>Handled one at a time, a begin never takes a user over the limit.\<close>

lemma begin_respects_limit:
  assumes "users_open r u \<le> per_user is_shared" and "heap r i = None" and "i \<notin> set (txns r)"
  shows "users_open (snd (begin_reaped is_shared v c message opens i r)) u \<le> per_user is_shared"
proof -
  obtain idle r1 where reap: "reapIdleTransactions is_shared r = (idle, r1)" by fastforce
  then have r1: "users_open r1 u \<le> users_open r u" "heap r1 = heap r" "set (txns r1) \<subseteq> set (txns r)"
    using users_open_drop [of _ r u] by (auto simp: reapIdleTransactions_def drop_ids_def)
  have roll: "heap (roll_back a q) i = None \<longleftrightarrow> heap q i = None" "txns (roll_back a q) = txns q" for a q
    by (auto simp: registry_ops split: option.splits)
  have rolled: "users_open (roll_back_all ids q) u = users_open q u"
    "heap q i = None \<Longrightarrow> heap (roll_back_all ids q) i = None"
    "txns (roll_back_all ids q) = txns q" for ids q
    by (induction ids arbitrary: q) (simp_all add: roll_back_all_def roll)
  have "heap (roll_back_all idle r1) i = None" "i \<notin> set (txns (roll_back_all idle r1))"
    using rolled r1 assms by auto
  with r1 assms(1) show ?thesis
    by (auto simp: begin_reaped_def reap Let_def rolled users_open_insert limit_reached_def
        users_open_def [symmetric] split: option.splits)
qed

text \<open>The answer to a commit is true. It is a success exactly when the transaction was still
  active and unfinished, the commit was sent, and the database accepted it; when the connection
  was lost, the transaction was aborted, or it had already ended, no commit is sent. Either way
  the transaction has left the registry and has ended.\<close>

lemma commit_answers_truly:
  assumes "finish_locked True raw answer i r = ((resp, forgets), r')" and "heap r i = Some e"
  shows "(status resp = 204 \<longleftrightarrow>
        raw = TransactionActive \<and> txn_outcome e = None \<and> answer CommitSent = FinishOk)
    \<and> (\<exists>e'. heap r' i = Some e' \<and> txn_outcome e' =
          (if txn_outcome e \<noteq> None then txn_outcome e
           else if raw = TransactionActive then Some CommitSent else Some RollbackSent))
    \<and> i \<notin> set (txns r') \<and> (forgets \<longleftrightarrow> status resp = 204)"
  using assms
  by (auto simp: finish_locked_def Let_def State_def finish_error_def
      split: TransactionState.splits finish_answer.splits if_splits)

lemma commit_answers_truly_witness:
  "status (fst (fst (finish_locked True TransactionAborted (\<lambda>_. FinishOk) ''t''
     (insert_txn ''t'' ''u'' ''c'' (no_transactions 0))))) \<noteq> 204"
proof -
  let ?r = "insert_txn ''t'' ''u'' ''c'' (no_transactions 0)"
  let ?f = "finish_locked True TransactionAborted (\<lambda>_. FinishOk) ''t'' ?r"
  obtain resp forgets r' where f: "?f = ((resp, forgets), r')" by (metis prod.collapse)
  from commit_answers_truly [OF f, of "the (heap ?r ''t'')"] show ?thesis
    by (simp add: f) (simp add: insert_txn_def put_entry_def)
qed

text \<open>
  Two commits of one transaction: the second waits for the first, and is then told that the
  database discarded the changes, which it has committed.
\<close>

lemma second_commit_told_discarded:
  assumes "heap r i = Some e" and "txn_outcome e = None"
    and "finish_locked True TransactionActive (\<lambda>_. FinishOk) i r = (first, r')"
  shows "first = (Answer 204, True)
    \<and> fst (fst (finish_locked True raw answer i r')) = Refused 409 ''TXN_LOST'' lost_message"
proof -
  from assms have "first = (Answer 204, True)" and "heap r' i = Some (end_once CommitSent e)"
    by (auto simp: finish_locked_def Let_def State_def)
  then show ?thesis by (simp add: finish_locked_def Let_def State_def split: option.splits)
qed

text \<open>C33: idle transactions are released. After a run of the reaper every transaction still open is
  in use or was used within the idle timeout, and each one taken out can be rolled back at
  once: no request holds its mutex, and the rollback ends it.\<close>

theorem idle_transactions_released:
  assumes "txn_reachable sql is_shared K (r, M)" and "reapIdleTransactions is_shared r = (idle, r')"
  shows "(i \<in> set (txns r') \<longrightarrow> (\<exists>e. heap r' i = Some e \<and>
            (0 < txn_running e \<or> clock r - txn_lastUsed e \<le> transactionIdleTimeout is_shared)))
    \<and> (i \<in> set idle \<longrightarrow> (\<exists>e. heap r' i = Some e \<and> \<not> txn_locked e
            \<and> (\<exists>e'. heap (roll_back i r') i = Some e' \<and> txn_outcome e' = Some RollbackSent)))
    \<and> set (txns r) = set (txns r') \<union> set idle"
proof -
  from txn_reachable_inv [OF assms(1)] have inv: "entry_inv r M i" by (simp add: txn_inv_def)
  let ?gone = "\<lambda>i. case heap r i of None \<Rightarrow> False | Some e \<Rightarrow> entry_idle is_shared r e"
  from assms(2) have r': "heap r' = heap r" "txns r' = filter (\<lambda>i. \<not> ?gone i) (txns r)"
    and idle: "idle = filter ?gone (txns r)"
    by (auto simp: reapIdleTransactions_def drop_ids_def)
  have "set (txns r) = set (txns r') \<union> set idle" by (auto simp: r' idle)
  moreover have "i \<in> set (txns r') \<Longrightarrow> \<exists>e. heap r' i = Some e \<and>
      (0 < txn_running e \<or> clock r - txn_lastUsed e \<le> transactionIdleTimeout is_shared)"
    using inv by (cases "heap r i") (auto simp: r' entry_inv_def entry_idle_def)
  moreover have "i \<in> set idle \<Longrightarrow> \<exists>e. heap r' i = Some e \<and> \<not> txn_locked e
      \<and> (\<exists>e'. heap (roll_back i r') i = Some e' \<and> txn_outcome e' = Some RollbackSent)"
    using inv
    by (cases "heap r i")
       (auto simp: r' idle entry_inv_def entry_idle_def claims_def roll_back_def change_entry_def
          put_entry_def not_in_iff)
  ultimately show ?thesis by blast
qed

lemma idle_transactions_released_witness:
  "set (txns idle_state) =
     set (txns (snd (reapIdleTransactions True idle_state))) \<union> set (fst (reapIdleTransactions True idle_state))"
  using idle_transactions_released [OF idle_run, of "fst (reapIdleTransactions True idle_state)"
      "snd (reapIdleTransactions True idle_state)"] by auto

text \<open>Quitting the desktop application asks about open SQL transactions, not about MongoDB's.\<close>

lemma quit_discards_mongo_transactions:
  "txns sql = [] \<Longrightarrow> localQuit True False sql mongo = Answer 204"
  by (simp add: localQuit_def)

end
