(* ===== verification/Text_Encoding.thy ===== *)
theory Text_Encoding
  imports Prelude
begin

section \<open>Hexadecimal, UTF-8 and replacement\<close>

text \<open>
  The functions of \<open>encoding/hex\<close>, \<open>unicode/utf8\<close> and \<open>strings\<close> that more than one
  component calls to write values as text.
\<close>

subsection \<open>Hexadecimal\<close>

definition hex_digit :: "nat \<Rightarrow> char" where
  "hex_digit n = (if n < 10 then char_of (48 + n) else char_of (87 + n))"

definition hex_byte :: "char \<Rightarrow> string" where
  "hex_byte c = [hex_digit (byte c div 16), hex_digit (byte c mod 16)]"

definition hex_encode :: "string \<Rightarrow> string" where
  "hex_encode s = concat (map hex_byte s)"

definition hex_value :: "char \<Rightarrow> nat option" where
  "hex_value c =
     (if is_digit c then Some (byte c - 48)
      else if byte_in (CHR ''a'') (CHR ''f'') c then Some (byte c - 87)
      else if byte_in (CHR ''A'') (CHR ''F'') c then Some (byte c - 55)
      else None)"

text \<open>\<open>hex.DecodeString\<close>, \<open>None\<close> for its error.\<close>

fun hex_decode :: "string \<Rightarrow> string option" where
  "hex_decode [] = Some []"
| "hex_decode [a] = None"
| "hex_decode (a # b # s) =
     (case (hex_value a, hex_value b) of
        (Some m, Some n) \<Rightarrow> map_option ((#) (char_of (16 * m + n))) (hex_decode s)
      | _ \<Rightarrow> None)"

lemma of_hex_digit: "m < 16 \<Longrightarrow> of_char (hex_digit m) = (if m < 10 then 48 + m else 87 + m :: nat)"
  by (simp add: hex_digit_def)

lemma hex_digit_inj:
  assumes "hex_digit m = hex_digit n" and "m < 16" and "n < 16"
  shows "m = n"
proof -
  from assms(1) have "(of_char (hex_digit m) :: nat) = of_char (hex_digit n)" by simp
  then show ?thesis unfolding of_hex_digit [OF assms(2)] of_hex_digit [OF assms(3)]
    by (simp split: if_splits)
qed

lemma byte_less: "byte c < 256"
  by (simp add: byte_def)

lemma hex_byte_inj: "hex_byte c = hex_byte d \<Longrightarrow> c = d"
proof -
  assume "hex_byte c = hex_byte d"
  then have "byte c div 16 = byte d div 16" "byte c mod 16 = byte d mod 16"
    using byte_less [of c] byte_less [of d] by (auto simp: hex_byte_def intro: hex_digit_inj)
  then have "byte c = byte d" by (metis div_mult_mod_eq)
  then show "c = d" by (simp add: byte_def)
qed

lemma hex_encode_inj: "hex_encode s = hex_encode t \<Longrightarrow> s = t"
proof (induction s arbitrary: t)
  case Nil
  then show ?case by (cases t) (auto simp: hex_encode_def hex_byte_def)
next
  case (Cons a s)
  then obtain b t' where t: "t = b # t'" by (cases t) (auto simp: hex_encode_def hex_byte_def)
  with Cons(2) have "hex_byte a = hex_byte b" "hex_encode s = hex_encode t'"
    by (simp_all add: hex_encode_def hex_byte_def)
  with Cons(1) hex_byte_inj t show ?case by blast
qed

lemma hex_encode_empty [simp]: "hex_encode s = [] \<longleftrightarrow> s = []"
  by (cases s) (auto simp: hex_encode_def hex_byte_def)

lemma hex_encode_digits: "c \<in> set (hex_encode s) \<Longrightarrow> \<exists>m<16. c = hex_digit m"
proof -
  assume "c \<in> set (hex_encode s)"
  then obtain b where "c = hex_digit (byte b div 16) \<or> c = hex_digit (byte b mod 16)"
    by (auto simp: hex_encode_def hex_byte_def)
  moreover have "byte b div 16 < 16" using byte_less [of b] by (simp add: less_mult_imp_div_less)
  moreover have "byte b mod 16 < 16" by simp
  ultimately show ?thesis by blast
qed

lemma hex_value_digit: "m < 16 \<Longrightarrow> hex_value (hex_digit m) = Some m"
proof -
  assume "m < 16"
  then consider "m < 10" | "10 \<le> m" "m < 16" by linarith
  then show ?thesis
    by cases (simp_all add: hex_value_def hex_digit_def is_digit_def byte_in_def byte_def)
qed

lemma hex_decode_encode [simp]: "hex_decode (hex_encode s) = Some s"
proof (induction s)
  case (Cons c s)
  have "byte c div 16 < 16" using byte_less [of c] by (simp add: less_mult_imp_div_less)
  moreover have "char_of (16 * (byte c div 16) + byte c mod 16) = c" by (simp add: byte_def)
  moreover have "hex_encode (c # s) = hex_digit (byte c div 16) # hex_digit (byte c mod 16) # hex_encode s"
    by (simp add: hex_encode_def hex_byte_def)
  ultimately show ?case using Cons by (simp add: hex_value_digit)
qed (simp add: hex_encode_def)

subsection \<open>UTF-8\<close>

text \<open>\<open>utf8.Valid\<close>: the well-formed sequences of RFC 3629.\<close>

definition utf8_tail :: "char \<Rightarrow> bool" where
  "utf8_tail c \<longleftrightarrow> byte_in (CHR 0x80) (CHR 0xBF) c"

fun utf8_valid :: "string \<Rightarrow> bool" where
  "utf8_valid [] = True"
| "utf8_valid (a # s) =
     (if is_ascii a then utf8_valid s
      else if byte_in (CHR 0xC2) (CHR 0xDF) a then
        (case s of b # s' \<Rightarrow> utf8_tail b \<and> utf8_valid s' | [] \<Rightarrow> False)
      else if byte_in (CHR 0xE0) (CHR 0xEF) a then
        (case s of b # c # s' \<Rightarrow>
             byte_in (if a = CHR 0xE0 then CHR 0xA0 else CHR 0x80)
               (if a = CHR 0xED then CHR 0x9F else CHR 0xBF) b
             \<and> utf8_tail c \<and> utf8_valid s'
         | _ \<Rightarrow> False)
      else if byte_in (CHR 0xF0) (CHR 0xF4) a then
        (case s of b # c # d # s' \<Rightarrow>
             byte_in (if a = CHR 0xF0 then CHR 0x90 else CHR 0x80)
               (if a = CHR 0xF4 then CHR 0x8F else CHR 0xBF) b
             \<and> utf8_tail c \<and> utf8_tail d \<and> utf8_valid s'
         | _ \<Rightarrow> False)
      else False)"

subsection \<open>Replacement\<close>

text \<open>\<open>strings.ReplaceAll(s, c, c + c)\<close> for one byte, and what reads it back.\<close>

definition double_char :: "char \<Rightarrow> string \<Rightarrow> string" where
  "double_char c s = concat (map (\<lambda>x. if x = c then [c, c] else [x]) s)"

fun undouble :: "char \<Rightarrow> string \<Rightarrow> string" where
  "undouble c [] = []"
| "undouble c [a] = [a]"
| "undouble c (a # b # s) = (if a = c \<and> b = c then c # undouble c s else a # undouble c (b # s))"

lemma double_char_simps [simp]:
  "double_char c [] = []"
  "double_char c (x # s) = (if x = c then c # c # double_char c s else x # double_char c s)"
  by (simp_all add: double_char_def)

lemma undouble_Cons: "a \<noteq> c \<Longrightarrow> undouble c (a # s) = a # undouble c s"
  by (cases s) auto

lemma undouble_double [simp]: "undouble c (double_char c s) = s"
  by (induction s) (auto simp: undouble_Cons)

text \<open>\<open>strings.Contains\<close>.\<close>

definition str_contains :: "string \<Rightarrow> string \<Rightarrow> bool" where
  "str_contains s sub \<longleftrightarrow> str_index sub s \<noteq> None"

end
