(* ===== verification/Audit_Log.thy ===== *)
theory Audit_Log
  imports Domain Text_Encoding "HOL-Library.Char_ord" "HOL-Library.List_Lexorder"
begin

section \<open>The audit log and its hash chain (store/audit.go, PurgeActivity of store/store.go)\<close>

text \<open>
  The table \<open>audit_logs\<close> is the list of its rows in the order of their row ids; new rows get
  the greatest one. An empty text is stored as NULL and read back as empty, so a row is the
  record itself, but for the reference, which has a column only where one is configured
  (\<open>keeps_reference\<close>), and for numbers that were not set. \<open>sha256\<close> is the hash function of
  the standard library, from bytes to its 32 bytes; \<open>fails k\<close> says whether the k-th statement of
  a transaction fails, for whatever reason.
\<close>

record AuditLog =
  aud_ID :: string
  aud_UserID :: string
  aud_OrgID :: string
  aud_Role :: string
  aud_ConnectionID :: string
  aud_SQL :: string
  aud_NormalizedSQL :: string
  aud_QueryHash :: string
  aud_ClientType :: string
  aud_ClientIP :: string
  aud_UserAgent :: string
  aud_StartedAt :: string
  aud_DurationMS :: int
  aud_RowsReturned :: "int option"
  aud_RowsAffected :: "int option"
  aud_PolicyDecision :: string
  aud_PolicyReason :: string
  aud_PolicyID :: string
  aud_Reference :: string
  aud_ErrorMessage :: string
  aud_CreatedAt :: string
  aud_PreviousHash :: string
  aud_EntryHash :: string
  aud_HashVersion :: int

record QueryHistory =
  his_ID :: string
  his_UserID :: string
  his_ConnectionID :: string
  his_SQL :: string
  his_NormalizedSQL :: string
  his_QueryHash :: string
  his_Status :: string
  his_RowsReturned :: int
  his_DurationMS :: int
  his_CreatedAt :: string

subsection \<open>The hash of an entry\<close>

definition optionalNumber :: "int option \<Rightarrow> string" where
  "optionalNumber v = (case v of None \<Rightarrow> [] | Some n \<Rightarrow> decimal n)"

definition audit_values :: "int \<Rightarrow> string \<Rightarrow> AuditLog \<Rightarrow> string list" where
  "audit_values version previous item =
     [previous, aud_ID item, aud_UserID item, aud_OrgID item, aud_ConnectionID item,
      aud_QueryHash item, aud_StartedAt item, aud_PolicyDecision item, aud_Reference item]
     @ (if version = 2
        then [aud_SQL item, aud_ErrorMessage item, aud_ClientIP item,
              optionalNumber (aud_RowsReturned item), optionalNumber (aud_RowsAffected item)]
        else [])"

definition audit_text :: "int \<Rightarrow> string \<Rightarrow> AuditLog \<Rightarrow> string" where
  "audit_text version previous item = str_join ''|'' (audit_values version previous item)"

definition auditHash :: "(string \<Rightarrow> string) \<Rightarrow> int \<Rightarrow> string \<Rightarrow> AuditLog \<Rightarrow> string" where
  "auditHash sha256 version previous item = hex_encode (sha256 (audit_text version previous item))"

definition currentAuditHashVersion :: int where
  "currentAuditHashVersion = 2"

definition PrepareAudit :: "(string \<Rightarrow> string) \<Rightarrow> string \<Rightarrow> AuditLog \<Rightarrow> AuditLog" where
  "PrepareAudit sha256 previous item =
     (let item1 = item\<lparr>aud_PreviousHash := previous, aud_HashVersion := currentAuditHashVersion\<rparr> in
      item1\<lparr>aud_EntryHash := auditHash sha256 (aud_HashVersion item1) (aud_PreviousHash item1) item1\<rparr>)"

definition VerifyPreparedAudit ::
  "(string \<Rightarrow> string) \<Rightarrow> int \<Rightarrow> string \<Rightarrow> string \<Rightarrow> AuditLog \<Rightarrow> bool" where
  "VerifyPreparedAudit sha256 version previous expected item \<longleftrightarrow>
     (version = 1 \<or> version = currentAuditHashVersion) \<and> auditHash sha256 version previous item = expected"

subsection \<open>Writing\<close>

definition stored_audit :: "bool \<Rightarrow> AuditLog \<Rightarrow> AuditLog" where
  "stored_audit keeps_reference item =
     (if keeps_reference then item else item\<lparr>aud_Reference := []\<rparr>)"

definition chain_head :: "AuditLog list \<Rightarrow> string \<Rightarrow> string" where
  "chain_head table org =
     (case filter (\<lambda>row. aud_OrgID row = org) (rev table) of [] \<Rightarrow> [] | row # _ \<Rightarrow> aud_EntryHash row)"

text \<open>The loop over the entries; \<open>heads\<close> are the heads read or written so far.\<close>

fun insert_audits ::
  "(string \<Rightarrow> string) \<Rightarrow> bool \<Rightarrow> (nat \<Rightarrow> bool) \<Rightarrow> nat \<Rightarrow> (string \<Rightarrow> string option) \<Rightarrow> AuditLog list \<Rightarrow>
   AuditLog list \<Rightarrow> AuditLog list option" where
  "insert_audits sha256 keeps_reference fails k heads table [] = Some table"
| "insert_audits sha256 keeps_reference fails k heads table (item # items) =
     (let org = aud_OrgID item;
          previous = (if org = [] then []
                      else case heads org of Some h \<Rightarrow> h | None \<Rightarrow> chain_head table org);
          prepared = PrepareAudit sha256 previous item in
      if fails k then None
      else insert_audits sha256 keeps_reference fails (Suc k)
             (if org = [] then heads else heads(org \<mapsto> aud_EntryHash prepared))
             (table @ [stored_audit keeps_reference prepared]) items)"

record activity_tables =
  audit_rows :: "AuditLog list"
  history_rows :: "QueryHistory list"

text \<open>One transaction: everything is written or, with an error, nothing.\<close>

definition WriteActivity ::
  "(string \<Rightarrow> string) \<Rightarrow> bool \<Rightarrow> (nat \<Rightarrow> bool) \<Rightarrow> AuditLog list \<Rightarrow> QueryHistory list \<Rightarrow>
   activity_tables \<Rightarrow> activity_tables option" where
  "WriteActivity sha256 keeps_reference fails audits histories t =
     (if audits = [] \<and> histories = [] then Some t
      else if fails 0 then None
      else
        (case insert_audits sha256 keeps_reference fails 1 (\<lambda>_. None) (audit_rows t) audits of
           None \<Rightarrow> None
         | Some rows \<Rightarrow>
             (if list_ex fails [Suc (length audits) ..< length audits + length histories + 2] then None
              else Some (t\<lparr>audit_rows := rows, history_rows := history_rows t @ histories\<rparr>))))"

definition WriteAudit ::
  "(string \<Rightarrow> string) \<Rightarrow> bool \<Rightarrow> (nat \<Rightarrow> bool) \<Rightarrow> AuditLog \<Rightarrow> activity_tables \<Rightarrow> activity_tables option" where
  "WriteAudit sha256 keeps_reference fails item t =
     WriteActivity sha256 keeps_reference fails [item] [] t"

subsection \<open>Verification\<close>

type_synonym scan = "(string \<Rightarrow> bool) \<times> (string \<Rightarrow> string) \<times> (string \<times> string) list \<times> nat"

definition scan_entry :: "(string \<Rightarrow> string) \<Rightarrow> AuditLog \<Rightarrow> scan \<Rightarrow> scan" where
  "scan_entry sha256 item s =
     (case s of (broken, previous, breaks, checked) \<Rightarrow>
       (let org = aud_OrgID item in
        if broken org then (broken, previous, breaks, Suc checked)
        else if aud_PreviousHash item \<noteq> previous org
             \<or> \<not> VerifyPreparedAudit sha256 (aud_HashVersion item) (aud_PreviousHash item)
                  (aud_EntryHash item) item
        then (broken(org := True), previous, breaks @ [(org, aud_ID item)], Suc checked)
        else (broken, previous(org := aud_EntryHash item), breaks, Suc checked)))"

definition VerifyAuditChain ::
  "(string \<Rightarrow> string) \<Rightarrow> AuditLog list \<Rightarrow> (string \<times> string) list \<times> nat" where
  "VerifyAuditChain sha256 table =
     (case fold (scan_entry sha256)
             (sort_key aud_OrgID (filter (\<lambda>row. aud_OrgID row \<noteq> []) table))
             ((\<lambda>_. False), (\<lambda>_. []), [], 0) of
        (_, _, breaks, checked) \<Rightarrow> (breaks, checked))"

subsection \<open>Retention\<close>

text \<open>
  \<open>PurgeActivity\<close> deletes, in chunks, the rows created before the cutoff; texts compare by
  their bytes. Which 2000 rows a chunk takes is the database's choice, here the first ones;
  the loop ends when a chunk was not full.
\<close>

fun purge_chunk :: "nat \<Rightarrow> ('r \<Rightarrow> bool) \<Rightarrow> 'r list \<Rightarrow> nat \<times> 'r list" where
  "purge_chunk n old [] = (0, [])"
| "purge_chunk n old (r # rs) =
     (if n = 0 then (0, r # rs)
      else if old r then (case purge_chunk (n - 1) old rs of (k, rs') \<Rightarrow> (Suc k, rs'))
      else (case purge_chunk n old rs of (k, rs') \<Rightarrow> (k, r # rs')))"

lemma purge_chunk_length: "fst (purge_chunk n old rs) + length (snd (purge_chunk n old rs)) = length rs"
  by (induction n old rs rule: purge_chunk.induct) (auto simp: case_prod_beta)

definition purgeChunk :: nat where
  "purgeChunk = 2000"

lemma purge_chunk_shrinks:
  "(k, rs') = purge_chunk purgeChunk old rs \<Longrightarrow> \<not> k < purgeChunk \<Longrightarrow> length rs' < length rs"
  using purge_chunk_length [of purgeChunk old rs] by (simp add: purgeChunk_def prod_eq_iff)

function purge_loop :: "('r \<Rightarrow> bool) \<Rightarrow> nat \<Rightarrow> 'r list \<Rightarrow> nat \<times> 'r list" where
  "purge_loop old deleted rs =
     (case purge_chunk purgeChunk old rs of
        (k, rs') \<Rightarrow>
          (if k < purgeChunk then (deleted + k, rs') else purge_loop old (deleted + k) rs'))"
  by pat_completeness auto
termination
  by (relation "measure (\<lambda>(old, deleted, rs). length rs)") (auto intro: purge_chunk_shrinks)

declare purge_loop.simps [simp del]

definition PurgeActivity ::
  "string option \<Rightarrow> string option \<Rightarrow> activity_tables \<Rightarrow> (nat \<times> nat) \<times> activity_tables" where
  "PurgeActivity audit_cutoff history_cutoff t =
     (let purge = (\<lambda>cutoff created rows. case cutoff of None \<Rightarrow> (0, rows)
            | Some c \<Rightarrow> purge_loop (\<lambda>r. created r < c) 0 rows);
          audits = purge audit_cutoff aud_CreatedAt (audit_rows t) in
      (case history_cutoff of
         None \<Rightarrow> ((fst audits, 0), t\<lparr>audit_rows := snd audits\<rparr>)
       | Some c \<Rightarrow>
           (case purge_loop (\<lambda>r. his_CreatedAt r < c) 0 (history_rows t) of
              (n, rows) \<Rightarrow> ((fst audits, n), t\<lparr>audit_rows := snd audits, history_rows := rows\<rparr>))))"

end
