(* ===== verification/Audit_Properties.thy ===== *)
theory Audit_Properties
  imports Audit_Log
begin

section \<open>The properties of the audit log\<close>

subsection \<open>Hexadecimal\<close>

lemma hex_encode_no_bar: "CHR ''|'' \<notin> set (hex_encode s)"
proof
  assume "CHR ''|'' \<in> set (hex_encode s)"
  then obtain m where "m < 16" and "CHR ''|'' = hex_digit m" using hex_encode_digits by blast
  then have "of_char (CHR ''|'') = (if m < 10 then 48 + m else 87 + m :: nat)"
    using of_hex_digit by metis
  with \<open>m < 16\<close> show False by (simp split: if_splits)
qed

subsection \<open>Chains\<close>

definition org_rows :: "AuditLog list \<Rightarrow> string \<Rightarrow> AuditLog list" where
  "org_rows table org = filter (\<lambda>row. aud_OrgID row = org) table"

definition entry_ok :: "(string \<Rightarrow> string) \<Rightarrow> string \<Rightarrow> AuditLog \<Rightarrow> bool" where
  "entry_ok sha256 previous item \<longleftrightarrow> aud_PreviousHash item = previous
     \<and> VerifyPreparedAudit sha256 (aud_HashVersion item) (aud_PreviousHash item) (aud_EntryHash item) item"

fun chain_ok :: "(string \<Rightarrow> string) \<Rightarrow> string \<Rightarrow> AuditLog list \<Rightarrow> bool" where
  "chain_ok sha256 previous [] \<longleftrightarrow> True"
| "chain_ok sha256 previous (item # items) \<longleftrightarrow>
     entry_ok sha256 previous item \<and> chain_ok sha256 (aud_EntryHash item) items"

definition last_hash :: "string \<Rightarrow> AuditLog list \<Rightarrow> string" where
  "last_hash previous items = (if items = [] then previous else aud_EntryHash (last items))"

lemma chain_ok_append:
  "chain_ok sha256 previous (xs @ ys) \<longleftrightarrow>
     chain_ok sha256 previous xs \<and> chain_ok sha256 (last_hash previous xs) ys"
  by (induction xs arbitrary: previous) (auto simp: last_hash_def)

lemma chain_head_rows: "chain_head table org = last_hash [] (org_rows table org)"
proof -
  have "filter (\<lambda>row. aud_OrgID row = org) (rev table) = rev (org_rows table org)"
    by (simp add: org_rows_def rev_filter)
  then show ?thesis
    by (cases "org_rows table org" rule: rev_cases) (auto simp: chain_head_def last_hash_def)
qed

subsection \<open>What the scan reports\<close>

lemma scan_breaks_grow:
  "\<exists>more. fst (snd (snd (fold (scan_entry sha256) rows (broken, previous, breaks, n)))) = breaks @ more"
proof (induction rows arbitrary: broken previous breaks n)
  case (Cons row rows)
  obtain b p bs m where s: "scan_entry sha256 row (broken, previous, breaks, n) = (b, p, bs, m)"
    by (metis prod.collapse)
  then obtain more where "bs = breaks @ more"
    by (auto simp: scan_entry_def Let_def split: if_splits)
  with Cons [of b p bs m] s show ?case by auto
qed simp

lemma scan_clean:
  "fst (snd (snd (fold (scan_entry sha256) rows ((\<lambda>_. False), previous, breaks, n)))) = breaks
     \<longleftrightarrow> (\<forall>org. chain_ok sha256 (previous org) (org_rows rows org))"
proof (induction rows arbitrary: previous n)
  case (Cons row rows)
  let ?org = "aud_OrgID row"
  show ?case
  proof (cases "entry_ok sha256 (previous ?org) row")
    case True
    then have "scan_entry sha256 row ((\<lambda>_. False), previous, breaks, n)
        = ((\<lambda>_. False), previous(?org := aud_EntryHash row), breaks, Suc n)"
      by (auto simp: scan_entry_def entry_ok_def Let_def)
    moreover have "chain_ok sha256 (previous org) (org_rows (row # rows) org)
        \<longleftrightarrow> chain_ok sha256 ((previous(?org := aud_EntryHash row)) org) (org_rows rows org)" for org
      using True by (auto simp: org_rows_def)
    ultimately show ?thesis
      using Cons [of "previous(?org := aud_EntryHash row)" "Suc n"] by (simp del: fun_upd_apply)
  next
    case False
    then obtain b p m where "scan_entry sha256 row ((\<lambda>_. False), previous, breaks, n)
        = (b, p, breaks @ [(?org, aud_ID row)], m)"
      by (auto simp: scan_entry_def entry_ok_def Let_def)
    with scan_breaks_grow [of sha256 rows b p "breaks @ [(?org, aud_ID row)]" m]
    have "fst (snd (snd (fold (scan_entry sha256) (row # rows) ((\<lambda>_. False), previous, breaks, n)))) \<noteq> breaks"
      by auto
    moreover have "\<not> chain_ok sha256 (previous ?org) (org_rows (row # rows) ?org)"
      using False by (simp add: org_rows_def)
    ultimately show ?thesis by blast
  qed
qed (simp add: org_rows_def)

lemma scan_counts:
  "snd (snd (snd (fold (scan_entry sha256) rows s))) = snd (snd (snd s)) + length rows"
  by (induction rows arbitrary: s) (auto simp: scan_entry_def Let_def split: prod.splits if_splits)

lemma org_rows_sorted:
  "org_rows (sort_key aud_OrgID (filter (\<lambda>row. aud_OrgID row \<noteq> []) table)) org =
     (if org = [] then [] else org_rows table org)"
  by (auto simp: org_rows_def sort_key_stable intro!: filter_cong)

lemma verify_clean:
  "fst (VerifyAuditChain sha256 table) = [] \<longleftrightarrow>
     (\<forall>org. org \<noteq> [] \<longrightarrow> chain_ok sha256 [] (org_rows table org))"
  using scan_clean [of sha256 "sort_key aud_OrgID (filter (\<lambda>row. aud_OrgID row \<noteq> []) table)" "\<lambda>_. []" "[]" 0]
  by (auto simp: VerifyAuditChain_def org_rows_sorted case_prod_beta split: if_splits)

lemma verify_counts:
  "snd (VerifyAuditChain sha256 table) = length (filter (\<lambda>row. aud_OrgID row \<noteq> []) table)"
  by (simp add: VerifyAuditChain_def case_prod_beta scan_counts)

subsection \<open>What writing keeps\<close>

lemma org_rows_append [simp]: "org_rows (xs @ ys) org = org_rows xs org @ org_rows ys org"
  by (simp add: org_rows_def)

lemma org_rows_single: "org_rows [x] org = (if aud_OrgID x = org then [x] else [])"
  by (simp add: org_rows_def)

lemma chain_head_snoc:
  "chain_head (table @ [x]) org = (if aud_OrgID x = org then aud_EntryHash x else chain_head table org)"
  by (simp add: chain_head_def)

lemma prepared_views [simp]:
  "aud_OrgID (PrepareAudit sha256 previous item) = aud_OrgID item"
  "aud_ID (PrepareAudit sha256 previous item) = aud_ID item"
  "aud_Reference (PrepareAudit sha256 previous item) = aud_Reference item"
  by (simp_all add: PrepareAudit_def Let_def)

lemma prepared_ok: "entry_ok sha256 previous (PrepareAudit sha256 previous item)"
  by (simp add: entry_ok_def PrepareAudit_def VerifyPreparedAudit_def auditHash_def audit_text_def
      audit_values_def Let_def currentAuditHashVersion_def)

lemma stored_prepared:
  "keeps \<or> aud_Reference item = [] \<Longrightarrow>
     stored_audit keeps (PrepareAudit sha256 previous item) = PrepareAudit sha256 previous item"
  by (auto simp: stored_audit_def)

definition chains_ok :: "(string \<Rightarrow> string) \<Rightarrow> AuditLog list \<Rightarrow> bool" where
  "chains_ok sha256 table \<longleftrightarrow> (\<forall>org. org \<noteq> [] \<longrightarrow> chain_ok sha256 [] (org_rows table org))"

lemma insert_audits_ok:
  "insert_audits sha256 keeps fails k heads table items = Some rows \<Longrightarrow>
     (\<And>org h. heads org = Some h \<Longrightarrow> org \<noteq> [] \<and> h = chain_head table org) \<Longrightarrow>
     (\<And>item. item \<in> set items \<Longrightarrow> keeps \<or> aud_Reference item = []) \<Longrightarrow>
     chains_ok sha256 table \<Longrightarrow>
     chains_ok sha256 rows \<and> (\<exists>new. rows = table @ new \<and> map aud_ID new = map aud_ID items)"
proof (induction items arbitrary: k heads table)
  case (Cons item items)
  let ?org = "aud_OrgID item"
  define previous where "previous = (if ?org = [] then [] else case heads ?org of Some h \<Rightarrow> h | None \<Rightarrow> chain_head table ?org)"
  let ?new = "PrepareAudit sha256 previous item"
  have stored: "stored_audit keeps ?new = ?new" using Cons(4) by (intro stored_prepared) simp
  from Cons(2) have rest: "insert_audits sha256 keeps fails (Suc k)
      (if ?org = [] then heads else heads(?org \<mapsto> aud_EntryHash ?new)) (table @ [?new]) items = Some rows"
    unfolding insert_audits.simps Let_def previous_def [symmetric] by (simp add: stored split: if_splits)
  have head: "?org \<noteq> [] \<Longrightarrow> previous = last_hash [] (org_rows table ?org)"
    using Cons(3) [of ?org] by (auto simp: previous_def chain_head_rows split: option.splits)
  have "chains_ok sha256 (table @ [?new])"
    using Cons(5) head
    by (auto simp: chains_ok_def org_rows_single chain_ok_append prepared_ok)
  moreover have "org \<noteq> [] \<and> h = chain_head (table @ [?new]) org"
    if "(if ?org = [] then heads else heads(?org \<mapsto> aud_EntryHash ?new)) org = Some h" for org h
    using that Cons(3) [of org h] by (auto simp: chain_head_snoc split: if_splits)
  ultimately obtain new where "chains_ok sha256 rows" and "rows = (table @ [?new]) @ new"
    and "map aud_ID new = map aud_ID items"
    using Cons(1) [OF rest] Cons(4) by (metis list.set_intros(2))
  then show ?case by (intro conjI exI [of _ "?new # new"]) simp_all
qed simp

text \<open>The tables the server can reach by recording activity.\<close>

inductive reachable_activity :: "(string \<Rightarrow> string) \<Rightarrow> bool \<Rightarrow> activity_tables \<Rightarrow> bool" for sha256 keeps where
  empty: "reachable_activity sha256 keeps \<lparr>audit_rows = [], history_rows = []\<rparr>"
| batch: "reachable_activity sha256 keeps t \<Longrightarrow>
     (\<And>item. item \<in> set audits \<Longrightarrow> keeps \<or> aud_Reference item = []) \<Longrightarrow>
     WriteActivity sha256 keeps fails audits histories t = Some t' \<Longrightarrow> reachable_activity sha256 keeps t'"

lemma WriteActivity_rows:
  assumes "WriteActivity sha256 keeps fails audits histories t = Some t'"
  obtains "t' = t" "audits = []" "histories = []"
  | rows where "insert_audits sha256 keeps fails 1 (\<lambda>_. None) (audit_rows t) audits = Some rows"
      "audit_rows t' = rows" "history_rows t' = history_rows t @ histories"
  using assms by (auto simp: WriteActivity_def split: if_splits option.splits)

lemma reachable_chains: "reachable_activity sha256 keeps t \<Longrightarrow> chains_ok sha256 (audit_rows t)"
proof (induction rule: reachable_activity.induct)
  case (batch t audits fails histories t')
  from batch(3) show ?case
  proof (cases rule: WriteActivity_rows)
    case (2 rows)
    with insert_audits_ok [OF 2(1)] batch(2,4) show ?thesis by auto
  qed (use batch(4) in simp)
qed (simp add: chains_ok_def org_rows_def)

subsection \<open>Properties\<close>

text \<open>C38: what was written verifies. However activity is recorded, in batches of any size, with any of
  the database's statements failing, the check of the hash chains finds no break and counts
  every entry that has an organisation, as long as the references the hash covers are stored
  or empty.\<close>

theorem audit_chain_verifies:
  assumes "reachable_activity sha256 keeps t"
  shows "VerifyAuditChain sha256 (audit_rows t)
    = ([], length (filter (\<lambda>row. aud_OrgID row \<noteq> []) (audit_rows t)))"
  using verify_clean [of sha256 "audit_rows t"] verify_counts [of sha256 "audit_rows t"]
    reachable_chains [OF assms]
  by (simp add: chains_ok_def prod_eq_iff)

definition blank_audit :: AuditLog where
  "blank_audit = \<lparr>aud_ID = [], aud_UserID = [], aud_OrgID = ''o'', aud_Role = [], aud_ConnectionID = [],
     aud_SQL = [], aud_NormalizedSQL = [], aud_QueryHash = [], aud_ClientType = [], aud_ClientIP = [],
     aud_UserAgent = [], aud_StartedAt = [], aud_DurationMS = 0, aud_RowsReturned = None,
     aud_RowsAffected = None, aud_PolicyDecision = [], aud_PolicyReason = [], aud_PolicyID = [],
     aud_Reference = [], aud_ErrorMessage = [], aud_CreatedAt = [], aud_PreviousHash = [],
     aud_EntryHash = [], aud_HashVersion = 0\<rparr>"

definition empty_tables :: activity_tables where
  "empty_tables = \<lparr>audit_rows = [], history_rows = []\<rparr>"

definition two_entries :: activity_tables where
  "two_entries = the (WriteActivity (\<lambda>s. s) False (\<lambda>_. False)
     [blank_audit\<lparr>aud_ID := ''a''\<rparr>, blank_audit\<lparr>aud_ID := ''b''\<rparr>] [] empty_tables)"

lemma written_reachable:
  assumes "t = the (WriteActivity sha256 False (\<lambda>_. False) [blank_audit\<lparr>aud_ID := i\<rparr>, blank_audit\<lparr>aud_ID := j\<rparr>] [] empty_tables)"
  shows "reachable_activity sha256 False t"
proof -
  have "WriteActivity sha256 False (\<lambda>_. False) [blank_audit\<lparr>aud_ID := i\<rparr>, blank_audit\<lparr>aud_ID := j\<rparr>] []
      empty_tables = Some t"
    by (simp add: assms WriteActivity_def Let_def upt_rec)
  then show ?thesis
    by (rule reachable_activity.batch [OF reachable_activity.empty, folded empty_tables_def, rotated])
      (auto simp: blank_audit_def)
qed

lemma two_entries_reachable: "reachable_activity (\<lambda>s. s) False two_entries"
  by (rule written_reachable [OF two_entries_def])

lemma audit_chain_verifies_witness:
  "fst (VerifyAuditChain (\<lambda>s. s) (audit_rows two_entries)) = []"
  using audit_chain_verifies [OF two_entries_reachable] by simp

text \<open>What the hashes of a chain cover.\<close>

definition covered :: "AuditLog list \<Rightarrow> string list" where
  "covered items = map (\<lambda>row. audit_text (aud_HashVersion row) (aud_PreviousHash row) row) items"

lemma entry_ok_hash:
  "entry_ok sha256 previous row \<Longrightarrow>
     aud_EntryHash row = hex_encode (sha256 (audit_text (aud_HashVersion row) (aud_PreviousHash row) row))"
  by (auto simp: entry_ok_def VerifyPreparedAudit_def auditHash_def)

lemma str_join_first: "str_join ''|'' (x # y # ys) = x @ CHR ''|'' # str_join ''|'' (y # ys)"
  by simp

lemma text_previous:
  assumes "audit_text v p x = audit_text w q y" and "CHR ''|'' \<notin> set p" and "CHR ''|'' \<notin> set q"
  shows "p = q"
proof -
  obtain s t where "audit_text v p x = p @ CHR ''|'' # s" and "audit_text w q y = q @ CHR ''|'' # t"
    by (auto simp: audit_text_def audit_values_def str_join_first)
  with assms have "takeWhile (\<lambda>c. c \<noteq> CHR ''|'') (p @ CHR ''|'' # s)
      = takeWhile (\<lambda>c. c \<noteq> CHR ''|'') (q @ CHR ''|'' # t)" by simp
  moreover have "takeWhile (\<lambda>c. c \<noteq> CHR ''|'') (r @ CHR ''|'' # u) = r" if "CHR ''|'' \<notin> set r" for r u
    using that by (induction r) auto
  ultimately show ?thesis using assms by simp
qed

lemma last_hash_no_bar: "chain_ok sha256 [] xs \<Longrightarrow> CHR ''|'' \<notin> set (last_hash [] xs)"
  by (cases xs rule: rev_cases)
    (auto simp: last_hash_def chain_ok_append entry_ok_hash hex_encode_no_bar)

lemma same_head_same_texts:
  assumes "inj_on sha256 (set (covered xs) \<union> set (covered ys))" and "\<And>s. sha256 s \<noteq> []"
    and "chain_ok sha256 [] xs" and "chain_ok sha256 [] ys" and "last_hash [] xs = last_hash [] ys"
  shows "covered xs = covered ys"
  using assms(1,3-)
proof (induction xs arbitrary: ys rule: rev_induct)
  case Nil
  show ?case
  proof (cases ys rule: rev_cases)
    case (snoc ys' y)
    with Nil have "aud_EntryHash y = []" and "entry_ok sha256 (last_hash [] ys') y"
      by (auto simp: last_hash_def chain_ok_append)
    with entry_ok_hash assms(2) show ?thesis by fastforce
  qed simp
next
  case (snoc x xs)
  then have x: "chain_ok sha256 [] xs" "entry_ok sha256 (last_hash [] xs) x"
    by (simp_all add: chain_ok_append)
  show ?case
  proof (cases ys rule: rev_cases)
    case Nil
    with snoc x have "aud_EntryHash x = []" by (simp add: last_hash_def)
    with entry_ok_hash [OF x(2)] assms(2) show ?thesis by (metis hex_encode_empty)
  next
    case ys: (snoc ys' y)
    with snoc have y: "chain_ok sha256 [] ys'" "entry_ok sha256 (last_hash [] ys') y"
      by (simp_all add: chain_ok_append)
    let ?t = "\<lambda>row. audit_text (aud_HashVersion row) (aud_PreviousHash row) row"
    from snoc(5) ys have "aud_EntryHash x = aud_EntryHash y" by (simp add: last_hash_def)
    then have "sha256 (?t x) = sha256 (?t y)"
      using entry_ok_hash [OF x(2)] entry_ok_hash [OF y(2)] hex_encode_inj by metis
    moreover have "?t x \<in> set (covered (xs @ [x])) \<union> set (covered ys)"
      "?t y \<in> set (covered (xs @ [x])) \<union> set (covered ys)" by (simp_all add: covered_def ys)
    ultimately have same: "?t x = ?t y" using snoc(2) by (meson inj_onD)
    have "aud_PreviousHash x = last_hash [] xs" "aud_PreviousHash y = last_hash [] ys'"
      using x(2) y(2) by (simp_all add: entry_ok_def)
    with text_previous [OF same] last_hash_no_bar [OF x(1)] last_hash_no_bar [OF y(1)]
    have "last_hash [] xs = last_hash [] ys'" by simp
    moreover have "inj_on sha256 (set (covered xs) \<union> set (covered ys'))"
      using snoc(2) ys by (auto simp: covered_def intro: inj_on_subset)
    ultimately have "covered xs = covered ys'" using snoc(1) x(1) y(1) by blast
    with same ys show ?thesis by (simp add: covered_def)
  qed
qed

text \<open>C39: changing the past shows. If the chain of an organisation verifies in two tables and ends in the
  same hash, then, as long as the hash function has no collision among the texts hashed, both
  have the same entries as far as the hashes cover them: none edited, inserted, removed or
  reordered.\<close>

theorem audit_tampering_detected:
  assumes "fst (VerifyAuditChain sha256 t) = []" and "fst (VerifyAuditChain sha256 t') = []"
    and "org \<noteq> []" and "chain_head t org = chain_head t' org"
    and "inj_on sha256 (set (covered (org_rows t org)) \<union> set (covered (org_rows t' org)))"
    and "\<And>s. sha256 s \<noteq> []"
  shows "covered (org_rows t org) = covered (org_rows t' org)"
  using same_head_same_texts [OF assms(5,6)] assms(1-4)
  by (simp add: verify_clean chain_head_rows)

definition marked :: "string \<Rightarrow> string" where
  "marked s = CHR ''x'' # s"

definition marked_tables :: activity_tables where
  "marked_tables = the (WriteActivity marked False (\<lambda>_. False)
     [blank_audit\<lparr>aud_ID := ''a''\<rparr>, blank_audit\<lparr>aud_ID := ''b''\<rparr>] [] empty_tables)"

abbreviation marked_rows :: "AuditLog list" where
  "marked_rows \<equiv> audit_rows marked_tables"

lemma chain_ok_other_role:
  "chain_ok sha256 p (map (\<lambda>row. row\<lparr>aud_Role := r\<rparr>) xs) \<longleftrightarrow> chain_ok sha256 p xs"
  by (induction xs arbitrary: p)
    (simp_all add: entry_ok_def VerifyPreparedAudit_def auditHash_def audit_text_def audit_values_def)

lemma org_rows_other_role:
  "org_rows (map (\<lambda>row. row\<lparr>aud_Role := r\<rparr>) xs) org = map (\<lambda>row. row\<lparr>aud_Role := r\<rparr>) (org_rows xs org)"
  by (induction xs) (simp_all add: org_rows_def)

lemma marked_rows_verify:
  "fst (VerifyAuditChain marked marked_rows) = []"
  "fst (VerifyAuditChain marked (map (\<lambda>row. row\<lparr>aud_Role := ''r''\<rparr>) marked_rows)) = []"
  "chain_head marked_rows ''o'' = chain_head (map (\<lambda>row. row\<lparr>aud_Role := ''r''\<rparr>) marked_rows) ''o''"
proof -
  have "chains_ok marked marked_rows"
    by (rule reachable_chains [OF written_reachable [OF marked_tables_def]])
  then show "fst (VerifyAuditChain marked marked_rows) = []"
    "fst (VerifyAuditChain marked (map (\<lambda>row. row\<lparr>aud_Role := ''r''\<rparr>) marked_rows)) = []"
    by (simp_all add: verify_clean chains_ok_def org_rows_other_role chain_ok_other_role)
  show "chain_head marked_rows ''o'' = chain_head (map (\<lambda>row. row\<lparr>aud_Role := ''r''\<rparr>) marked_rows) ''o''"
    by (simp add: chain_head_rows org_rows_other_role last_hash_def last_map)
qed

lemma audit_tampering_detected_witness:
  "covered (org_rows marked_rows ''o'')
     = covered (org_rows (map (\<lambda>row. row\<lparr>aud_Role := ''r''\<rparr>) marked_rows) ''o'')"
  by (rule audit_tampering_detected [OF marked_rows_verify(1,2) _ marked_rows_verify(3)])
    (simp_all add: inj_on_def marked_def)

subsection \<open>What the chain does not show\<close>

text \<open>The texts are joined without escaping, so moving a separator between two fields keeps the hash.\<close>

lemma separator_moves_between_fields:
  "auditHash sha256 2 previous (item\<lparr>aud_SQL := ''a|b'', aud_ErrorMessage := ''c''\<rparr>)
     = auditHash sha256 2 previous (item\<lparr>aud_SQL := ''a'', aud_ErrorMessage := ''b|c''\<rparr>)"
  by (simp add: auditHash_def audit_text_def audit_values_def)

text \<open>The role, the policy and its reason, the duration and the time of recording are not covered.\<close>

lemma fields_not_covered:
  "auditHash sha256 version previous (item\<lparr>aud_Role := r, aud_PolicyID := p, aud_PolicyReason := q,
       aud_DurationMS := n, aud_CreatedAt := c\<rparr>) = auditHash sha256 version previous item"
  by (simp add: auditHash_def audit_text_def audit_values_def)

text \<open>Once retention removed the first entry of a chain, the rest is reported as broken.\<close>

lemma purged_chain_breaks:
  assumes "chain_ok sha256 [] (x # y # rest)" and "\<And>s. sha256 s \<noteq> []"
  shows "\<not> chain_ok sha256 [] (y # rest)"
proof -
  from assms(1) have "entry_ok sha256 [] x" and "aud_PreviousHash y = aud_EntryHash x"
    by (auto simp: entry_ok_def)
  with entry_ok_hash [of sha256 "[]" x] assms(2) have "aud_PreviousHash y \<noteq> []" by simp
  then show ?thesis by (simp add: entry_ok_def)
qed

text \<open>A reference that is hashed but has no column to be stored in breaks the chain as it is written.\<close>

lemma unstored_reference_breaks:
  "fst (VerifyAuditChain (\<lambda>s. s) (audit_rows (the (WriteActivity (\<lambda>s. s) False (\<lambda>_. False)
     [blank_audit\<lparr>aud_ID := ''a'', aud_Reference := ''r''\<rparr>] [] empty_tables)))) = [(''o'', ''a'')]"
  by code_simp

subsection \<open>Retention\<close>

lemma purge_chunk_filter:
  "purge_chunk n old rs = (k, rs') \<Longrightarrow>
     k \<le> n \<and> filter (\<lambda>r. \<not> old r) rs' = filter (\<lambda>r. \<not> old r) rs
     \<and> length (filter old rs) = k + length (filter old rs')
     \<and> (k < n \<longrightarrow> filter old rs' = [])"
proof (induction n old rs arbitrary: k rs' rule: purge_chunk.induct)
  case (2 n old r rs)
  then show ?case
    by (auto split: if_splits prod.splits)
qed auto

lemma purge_loop_filter:
  "purge_loop old n rs = (n + length (filter old rs), filter (\<lambda>r. \<not> old r) rs)"
proof (induction old n rs rule: purge_loop.induct)
  case (1 old n rs)
  obtain k rs' where chunk: "purge_chunk purgeChunk old rs = (k, rs')" by fastforce
  note f = purge_chunk_filter [OF chunk]
  show ?case
  proof (cases "k < purgeChunk")
    case True
    with f have "rs' = filter (\<lambda>r. \<not> old r) rs"
      by (metis (mono_tags, lifting) filter_True filter_empty_conv)
    with True f chunk show ?thesis by (simp add: purge_loop.simps [of old n rs])
  next
    case False
    with 1 [OF chunk [symmetric]] f chunk show ?thesis
      by (simp add: purge_loop.simps [of old n rs])
  qed
qed

text \<open>Retention ends and is exact. Whatever the chunks, the purge deletes the entries created
  before the cutoff and nothing else, keeps the order of the rest, and reports how many it
  deleted.\<close>

lemma purge_is_exact:
  "PurgeActivity (Some a) (Some h) t =
     ((length (filter (\<lambda>r. aud_CreatedAt r < a) (audit_rows t)),
       length (filter (\<lambda>r. his_CreatedAt r < h) (history_rows t))),
      t\<lparr>audit_rows := filter (\<lambda>r. \<not> aud_CreatedAt r < a) (audit_rows t),
        history_rows := filter (\<lambda>r. \<not> his_CreatedAt r < h) (history_rows t)\<rparr>)"
  by (simp add: PurgeActivity_def purge_loop_filter Let_def)

end
