(* ===== verification/Activity.thy ===== *)
theory Activity
  imports Audit_Log "HOL-Library.Multiset"
begin

section \<open>Recording activity off the request path (activity/activity.go)\<close>

text \<open>
  \<open>Buffered\<close> queues records for one writer, which stores them in batches and retries a batch
  until it is written or the shutdown gives up on it. The state holds the queue, the batch in
  the writer's hands and the store, and three lists nothing in the code keeps, which say what
  happened: the records \<open>enqueue\<close> accepted in order, those the writer is done with and whether
  they were stored, and those a request wrote itself. \<open>writes rs s s'\<close> says that the backend can
  store \<open>rs\<close>, turning \<open>s\<close> into \<open>s'\<close>; an attempt that fails changes nothing and is no step.
\<close>

datatype queued = QAudit AuditLog | QHistory QueryHistory | Barrier nat

definition hasData :: "queued list \<Rightarrow> bool" where
  "hasData records = list_ex (\<lambda>r. case r of Barrier _ \<Rightarrow> False | _ \<Rightarrow> True) records"

definition batch_audits :: "queued list \<Rightarrow> AuditLog list" where
  "batch_audits records = List.map_filter (\<lambda>r. case r of QAudit a \<Rightarrow> Some a | _ \<Rightarrow> None) records"

definition batch_histories :: "queued list \<Rightarrow> QueryHistory list" where
  "batch_histories records = List.map_filter (\<lambda>r. case r of QHistory h \<Rightarrow> Some h | _ \<Rightarrow> None) records"

text \<open>\<open>write\<close> for a backend without \<open>WriteBatch\<close>: one record after the other, up to an error.\<close>

fun write_each :: "(queued \<Rightarrow> 's \<Rightarrow> 's option) \<Rightarrow> queued list \<Rightarrow> 's \<Rightarrow> bool \<times> 's" where
  "write_each put [] s = (True, s)"
| "write_each put (Barrier k # rs) s = write_each put rs s"
| "write_each put (r # rs) s =
     (case put r s of None \<Rightarrow> (False, s) | Some s' \<Rightarrow> write_each put rs s')"

definition maxBatch :: nat where
  "maxBatch = 256"

record 's buffered =
  bf_queue :: "queued list"
  bf_batch :: "queued list"
  bf_storing :: bool
  bf_closed :: bool
  bf_cancelled :: bool
  bf_store :: 's
  bf_accepted :: "queued list"
  bf_finished :: "(queued \<times> bool) list"
  bf_direct :: "queued list"

definition NewBuffered :: "'s \<Rightarrow> 's buffered" where
  "NewBuffered s = \<lparr>bf_queue = [], bf_batch = [], bf_storing = False, bf_closed = False,
     bf_cancelled = False, bf_store = s, bf_accepted = [], bf_finished = [], bf_direct = []\<rparr>"

definition queue_capacity :: "int \<Rightarrow> nat" where
  "queue_capacity capacity = (if capacity < 1 then 1 else nat capacity)"

definition enqueue :: "int \<Rightarrow> queued \<Rightarrow> 's buffered \<Rightarrow> 's buffered option" where
  "enqueue capacity r b =
     (if bf_closed b \<or> queue_capacity capacity \<le> length (bf_queue b) then None
      else Some (b\<lparr>bf_queue := bf_queue b @ [r], bf_accepted := bf_accepted b @ [r]\<rparr>))"

definition receive :: "'s buffered \<Rightarrow> 's buffered option" where
  "receive b =
     (if bf_storing b \<or> maxBatch \<le> length (bf_batch b) then None
      else (case bf_queue b of
              [] \<Rightarrow> None
            | r # rs \<Rightarrow> Some (b\<lparr>bf_queue := rs, bf_batch := bf_batch b @ [r]\<rparr>)))"

definition finish_batch :: "bool \<Rightarrow> 's \<Rightarrow> 's buffered \<Rightarrow> 's buffered" where
  "finish_batch stored s b = b\<lparr>bf_store := s, bf_batch := [], bf_storing := False,
     bf_finished := bf_finished b @ map (\<lambda>r. (r, stored)) (bf_batch b)\<rparr>"

text \<open>
  A request writes its record itself when the queue stays full or the shutdown began; \<open>close_it\<close>
  is the start of \<open>Close\<close>, \<open>cancel\<close> the end of its patience.
\<close>

inductive buf_step ::
  "(queued list \<Rightarrow> 's \<Rightarrow> 's \<Rightarrow> bool) \<Rightarrow> int \<Rightarrow> 's buffered \<Rightarrow> 's buffered \<Rightarrow> bool"
  for writes capacity where
  queue: "enqueue capacity r b = Some b' \<Longrightarrow> buf_step writes capacity b b'"
| direct: "enqueue capacity r b = None \<Longrightarrow> hasData [r] \<Longrightarrow> writes [r] (bf_store b) s \<Longrightarrow>
     buf_step writes capacity b (b\<lparr>bf_store := s, bf_direct := bf_direct b @ [r]\<rparr>)"
| collect: "receive b = Some b' \<Longrightarrow> buf_step writes capacity b b'"
| start: "bf_batch b \<noteq> [] \<Longrightarrow> buf_step writes capacity b (b\<lparr>bf_storing := True\<rparr>)"
| stored: "bf_storing b \<Longrightarrow>
     (if hasData (bf_batch b) then writes (bf_batch b) (bf_store b) s else s = bf_store b) \<Longrightarrow>
     buf_step writes capacity b (finish_batch True s b)"
| close_it: "buf_step writes capacity b (b\<lparr>bf_closed := True\<rparr>)"
| cancel: "bf_closed b \<Longrightarrow> buf_step writes capacity b (b\<lparr>bf_cancelled := True\<rparr>)"
| abandon: "bf_storing b \<Longrightarrow> bf_cancelled b \<Longrightarrow>
     buf_step writes capacity b (finish_batch False (bf_store b) b)"

inductive buf_run ::
  "(queued list \<Rightarrow> 's \<Rightarrow> 's \<Rightarrow> bool) \<Rightarrow> int \<Rightarrow> 's buffered \<Rightarrow> 's buffered \<Rightarrow> bool"
  for writes capacity where
  stay: "buf_run writes capacity b b"
| step: "buf_run writes capacity b b' \<Longrightarrow> buf_step writes capacity b' b'' \<Longrightarrow> buf_run writes capacity b b''"

lemma buf_run_trans:
  "buf_run writes capacity b' b'' \<Longrightarrow> buf_run writes capacity b b' \<Longrightarrow> buf_run writes capacity b b''"
  by (induction rule: buf_run.induct) (auto intro: buf_run.step)

text \<open>The identifiers of the records, in their order.\<close>

definition audit_ids :: "queued list \<Rightarrow> string list" where
  "audit_ids rs = map aud_ID (batch_audits rs)"

definition history_ids :: "queued list \<Rightarrow> string list" where
  "history_ids rs = map his_ID (batch_histories rs)"

lemma ids_simps [simp]:
  "audit_ids [] = []" "history_ids [] = []"
  "audit_ids (xs @ ys) = audit_ids xs @ audit_ids ys"
  "history_ids (xs @ ys) = history_ids xs @ history_ids ys"
  by (simp_all add: audit_ids_def history_ids_def batch_audits_def batch_histories_def List.map_filter_def)

lemma no_data_ids: "\<not> hasData rs \<Longrightarrow> audit_ids rs = [] \<and> history_ids rs = []"
  by (induction rs)
    (auto simp: hasData_def audit_ids_def history_ids_def batch_audits_def batch_histories_def
      List.map_filter_def split: queued.splits)

subsection \<open>The contract of a backend\<close>

text \<open>
  What \<open>Buffered\<close> relies on: a write appends its records, in order, to what the store holds of
  audit entries and of history.
\<close>

locale activity_backend =
  fixes writes :: "queued list \<Rightarrow> 's \<Rightarrow> 's \<Rightarrow> bool"
    and audits_held :: "'s \<Rightarrow> string list"
    and histories_held :: "'s \<Rightarrow> string list"
  assumes writes_audits: "writes rs s s' \<Longrightarrow> audits_held s' = audits_held s @ audit_ids rs"
    and writes_histories: "writes rs s s' \<Longrightarrow> histories_held s' = histories_held s @ history_ids rs"
begin

definition stored_records :: "'s buffered \<Rightarrow> queued list" where
  "stored_records b = map fst (filter snd (bf_finished b))"

definition holds_exactly :: "string list \<Rightarrow> string list \<Rightarrow> string list \<Rightarrow> string list \<Rightarrow> bool" where
  "holds_exactly before held done direct \<longleftrightarrow>
     mset held = mset before + mset done + mset direct \<and> subseq done held"

definition buf_inv :: "'s \<Rightarrow> 's buffered \<Rightarrow> bool" where
  "buf_inv s0 b \<longleftrightarrow>
     bf_accepted b = map fst (bf_finished b) @ bf_batch b @ bf_queue b
     \<and> holds_exactly (audits_held s0) (audits_held (bf_store b))
         (audit_ids (stored_records b)) (audit_ids (bf_direct b))
     \<and> holds_exactly (histories_held s0) (histories_held (bf_store b))
         (history_ids (stored_records b)) (history_ids (bf_direct b))
     \<and> (\<not> bf_cancelled b \<longrightarrow> list_all snd (bf_finished b))"

lemma holds_stored:
  "holds_exactly before held done direct \<Longrightarrow> holds_exactly before (held @ new) (done @ new) direct"
  by (auto simp: holds_exactly_def intro: list_emb_append_mono)

lemma holds_direct:
  "holds_exactly before held done direct \<Longrightarrow> holds_exactly before (held @ new) done (direct @ new)"
  by (auto simp: holds_exactly_def intro: subseq_rev_drop_many)

lemma stored_records_finish:
  "stored_records (finish_batch ok s b) = stored_records b @ (if ok then bf_batch b else [])"
  by (simp add: stored_records_def finish_batch_def filter_map comp_def)

lemma buf_step_inv: "buf_step writes capacity b b' \<Longrightarrow> buf_inv s0 b \<Longrightarrow> buf_inv s0 b'"
proof (induction rule: buf_step.induct)
  case (direct r b s)
  then show ?case
    by (auto simp: buf_inv_def writes_audits [OF direct(3)] writes_histories [OF direct(3)]
        stored_records_def holds_direct)
next
  case (stored b s)
  then have held: "audits_held s = audits_held (bf_store b) @ audit_ids (bf_batch b)"
    "histories_held s = histories_held (bf_store b) @ history_ids (bf_batch b)"
    using no_data_ids by (auto split: if_splits dest: writes_audits writes_histories)
  with stored show ?case
    by (auto simp: buf_inv_def stored_records_finish holds_stored)
      (auto simp: finish_batch_def held holds_stored list_all_iff comp_def)
next
  case (abandon b)
  then show ?case
    by (auto simp: buf_inv_def stored_records_finish) (auto simp: finish_batch_def comp_def)
qed (auto simp: buf_inv_def enqueue_def receive_def stored_records_def split: if_splits list.splits)

lemma buf_run_inv: "buf_run writes capacity b b' \<Longrightarrow> buf_inv s0 b \<Longrightarrow> buf_inv s0 b'"
  by (induction rule: buf_run.induct) (auto intro: buf_step_inv)

lemma new_inv: "buf_inv s (NewBuffered s)"
  by (simp add: buf_inv_def NewBuffered_def stored_records_def holds_exactly_def)

lemma reachable_inv: "buf_run writes capacity (NewBuffered s) b \<Longrightarrow> buf_inv s b"
  using buf_run_inv new_inv by blast

text \<open>With a backend that can write, the writer empties the queue.\<close>

lemma drains:
  assumes "\<And>rs s. \<exists>s'. writes rs s s'"
  shows "\<exists>b'. buf_run writes capacity b b' \<and> bf_queue b' = [] \<and> bf_batch b' = []
    \<and> bf_cancelled b' = bf_cancelled b \<and> bf_accepted b' = bf_accepted b"
proof (induction "2 * length (bf_queue b) + length (bf_batch b) + (if bf_storing b then 1 else 0 :: nat)"
    arbitrary: b rule: less_induct)
  case less
  let ?m = "\<lambda>b. 2 * length (bf_queue b) + length (bf_batch b) + (if bf_storing b then 1 else 0 :: nat)"
  have go: ?case if one: "buf_run writes capacity b b1" and "?m b1 < ?m b"
      and "bf_cancelled b1 = bf_cancelled b" "bf_accepted b1 = bf_accepted b" for b1
  proof -
    from less [OF that(2)] obtain b' where "buf_run writes capacity b1 b'" "bf_queue b' = []"
      "bf_batch b' = []" "bf_cancelled b' = bf_cancelled b1" "bf_accepted b' = bf_accepted b1" by blast
    with buf_run_trans [OF _ one] that(3,4) show ?thesis by (intro exI [of _ b']) simp
  qed
  obtain s where s: "if hasData (bf_batch b) then writes (bf_batch b) (bf_store b) s else s = bf_store b"
    using assms [of "bf_batch b" "bf_store b"] by (cases "hasData (bf_batch b)") auto
  consider (storing) "bf_storing b" | (batch) "\<not> bf_storing b" "bf_batch b \<noteq> []"
    | (queue) r rs where "\<not> bf_storing b" "bf_batch b = []" "bf_queue b = r # rs"
    | (empty) "bf_batch b = []" "bf_queue b = []"
    by (cases "bf_queue b") auto
  then show ?case
  proof cases
    case storing
    have "buf_run writes capacity b (finish_batch True s b)"
      by (intro buf_run.step [OF buf_run.stay]) (rule buf_step.stored, use storing s in auto)
    then show ?thesis by (rule go) (simp_all add: finish_batch_def storing)
  next
    case batch
    let ?b = "b\<lparr>bf_storing := True\<rparr>"
    have "buf_run writes capacity b (finish_batch True s ?b)"
      by (rule buf_run.step [OF buf_run.step [OF buf_run.stay buf_step.start [OF batch(2)]]
            buf_step.stored]) (use s in simp_all)
    then show ?thesis by (rule go) (use batch in \<open>simp_all add: finish_batch_def\<close>)
  next
    case queue
    let ?b = "b\<lparr>bf_queue := rs, bf_batch := [r]\<rparr>"
    have "receive b = Some ?b" using queue by (simp add: receive_def maxBatch_def)
    then have "buf_run writes capacity b ?b" by (intro buf_run.step [OF buf_run.stay] buf_step.collect)
    then show ?thesis by (rule go) (use queue in simp_all)
  next
    case empty
    then show ?thesis by (intro exI [of _ b]) (simp add: buf_run.stay)
  qed
qed

lemma all_stored:
  assumes "buf_inv s b" and "\<not> bf_cancelled b"
  shows "stored_records b = map fst (bf_finished b)"
proof -
  have "filter snd (bf_finished b) = bf_finished b"
    using assms by (simp add: buf_inv_def list_all_iff)
  then show ?thesis by (simp add: stored_records_def)
qed

end

subsection \<open>The SQLite backend\<close>

text \<open>\<open>WriteBatch\<close>: one transaction that succeeds.\<close>

definition WriteBatch ::
  "(string \<Rightarrow> string) \<Rightarrow> bool \<Rightarrow> (nat \<Rightarrow> bool) \<Rightarrow> queued list \<Rightarrow> activity_tables \<Rightarrow> activity_tables option" where
  "WriteBatch sha256 keeps fails records t =
     WriteActivity sha256 keeps fails (batch_audits records) (batch_histories records) t"

definition sqlite_writes ::
  "(string \<Rightarrow> string) \<Rightarrow> bool \<Rightarrow> queued list \<Rightarrow> activity_tables \<Rightarrow> activity_tables \<Rightarrow> bool" where
  "sqlite_writes sha256 keeps records t t' \<longleftrightarrow> (\<exists>fails. WriteBatch sha256 keeps fails records t = Some t')"

lemma insert_audits_ids:
  "insert_audits sha256 keeps fails k heads table items = Some rows \<Longrightarrow>
     map aud_ID rows = map aud_ID table @ map aud_ID items"
  by (induction items arbitrary: k heads table)
    (auto simp: Let_def PrepareAudit_def stored_audit_def split: if_splits)

lemma insert_audits_succeeds: "insert_audits sha256 keeps (\<lambda>_. False) k heads table items \<noteq> None"
  by (induction items arbitrary: k heads table) (simp_all add: Let_def)

lemma sqlite_can_write: "\<exists>t'. sqlite_writes sha256 keeps records t t'"
proof -
  have "list_ex (\<lambda>_. False) xs = False" for xs :: "nat list" by (induction xs) auto
  then have "WriteBatch sha256 keeps (\<lambda>_. False) records t \<noteq> None"
    using insert_audits_succeeds [of sha256 keeps 1 "\<lambda>_. None" "audit_rows t" "batch_audits records"]
    by (auto simp: WriteBatch_def WriteActivity_def split: option.splits)
  then show ?thesis by (auto simp: sqlite_writes_def)
qed

lemma WriteBatch_appends:
  assumes "WriteBatch sha256 keeps fails records t = Some t'"
  shows "map aud_ID (audit_rows t') = map aud_ID (audit_rows t) @ audit_ids records"
    and "map his_ID (history_rows t') = map his_ID (history_rows t) @ history_ids records"
proof -
  have "WriteActivity sha256 keeps fails (batch_audits records) (batch_histories records) t = Some t'"
    using assms by (simp add: WriteBatch_def)
  then show "map aud_ID (audit_rows t') = map aud_ID (audit_rows t) @ audit_ids records"
    and "map his_ID (history_rows t') = map his_ID (history_rows t) @ history_ids records"
    by (auto simp: WriteActivity_def audit_ids_def history_ids_def insert_audits_ids
        split: if_splits option.splits)
qed

interpretation sqlite: activity_backend "sqlite_writes sha256 keeps"
  "\<lambda>t. map aud_ID (audit_rows t)" "\<lambda>t. map his_ID (history_rows t)" for sha256 keeps
  by unfold_locales (auto simp: sqlite_writes_def WriteBatch_appends)

lemma sqlite_held:
  assumes "buf_run (sqlite_writes sha256 keeps) capacity (NewBuffered t) b" and "\<not> bf_cancelled b"
  shows "bf_accepted b = map fst (bf_finished b) @ bf_batch b @ bf_queue b"
    and "mset (map aud_ID (audit_rows (bf_store b))) =
        mset (map aud_ID (audit_rows t)) + mset (audit_ids (map fst (bf_finished b)))
        + mset (audit_ids (bf_direct b))"
    and "subseq (audit_ids (map fst (bf_finished b))) (map aud_ID (audit_rows (bf_store b)))"
    and "subseq (history_ids (map fst (bf_finished b))) (map his_ID (history_rows (bf_store b)))"
  using sqlite.reachable_inv [OF assms(1)]
    sqlite.all_stored [OF sqlite.reachable_inv [OF assms(1)] assms(2)]
  unfolding sqlite.buf_inv_def sqlite.holds_exactly_def by simp_all

lemma subseq_set_subset: "subseq xs ys \<Longrightarrow> set xs \<subseteq> set ys"
  by (induction rule: list_emb.induct) auto

subsection \<open>Properties\<close>



text \<open>A flush is true. When the writer has released a barrier that \<open>Flush\<close> queued, every
  record accepted before it is in the store, unless a shutdown gave up waiting; so the history
  page and the chain verification see what was recorded before them.\<close>

lemma released_barrier_means_stored:
  assumes "buf_run (sqlite_writes sha256 keeps) capacity (NewBuffered t) b" and "\<not> bf_cancelled b"
    and "i < length (bf_finished b)" and "bf_accepted b ! i = Barrier k"
  shows "set (audit_ids (take i (bf_accepted b))) \<subseteq> set (map aud_ID (audit_rows (bf_store b)))
    \<and> set (history_ids (take i (bf_accepted b))) \<subseteq> set (map his_ID (history_rows (bf_store b)))"
proof -
  let ?done = "map fst (bf_finished b)"
  have all: "?done = take i ?done @ drop i ?done" by simp
  have "take i (bf_accepted b) = take i ?done"
    using sqlite_held(1) [OF assms(1,2)] assms(3) by simp
  moreover have "set (audit_ids (take i ?done)) \<subseteq> set (audit_ids ?done)"
    "set (history_ids (take i ?done)) \<subseteq> set (history_ids ?done)"
    by (subst (2) all, simp only: ids_simps set_append, blast)+
  ultimately show ?thesis
    using sqlite_held(3,4) [OF assms(1,2), THEN subseq_set_subset] by auto
qed

lemma released_barrier_means_stored_witness:
  fixes t defines "t \<equiv> \<lparr>audit_rows = [], history_rows = []\<rparr>"
  shows "set (audit_ids (take 0 [Barrier 7])) \<subseteq> set (map aud_ID (audit_rows t))"
proof -
  let ?q = "(NewBuffered t)\<lparr>bf_queue := [Barrier 7], bf_accepted := [Barrier 7]\<rparr>"
  let ?c = "?q\<lparr>bf_queue := [], bf_batch := [Barrier 7]\<rparr>"
  have "buf_run (sqlite_writes (\<lambda>s. s) True) 1 (NewBuffered t) ?q"
    by (rule buf_run.step [OF buf_run.stay buf_step.queue [of _ "Barrier 7"]])
      (simp add: enqueue_def NewBuffered_def queue_capacity_def)
  then have "buf_run (sqlite_writes (\<lambda>s. s) True) 1 (NewBuffered t) ?c"
    by (rule buf_run.step, intro buf_step.collect) (simp add: receive_def NewBuffered_def maxBatch_def)
  then have "buf_run (sqlite_writes (\<lambda>s. s) True) 1 (NewBuffered t) (?c\<lparr>bf_storing := True\<rparr>)"
    by (rule buf_run.step, intro buf_step.start) simp
  then have "buf_run (sqlite_writes (\<lambda>s. s) True) 1 (NewBuffered t)
      (finish_batch True t (?c\<lparr>bf_storing := True\<rparr>))"
    by (rule buf_run.step, intro buf_step.stored) (simp_all add: hasData_def NewBuffered_def)
  from released_barrier_means_stored [OF this, of 0 7] show ?thesis
    by (simp add: finish_batch_def NewBuffered_def t_def)
qed

text \<open>The queue drains. From every state in which the shutdown has not given up, the writer
  can go on, with a database that can write, until everything accepted is in the audit log and
  the history; nothing is stuck in the queue, and closing does not drop what is queued.\<close>

lemma accepted_activity_can_be_stored:
  assumes "buf_run (sqlite_writes sha256 keeps) capacity (NewBuffered t) b" and "\<not> bf_cancelled b"
  shows "\<exists>b'. buf_run (sqlite_writes sha256 keeps) capacity b b'
    \<and> bf_queue b' = [] \<and> bf_batch b' = [] \<and> bf_accepted b' = bf_accepted b
    \<and> subseq (audit_ids (bf_accepted b)) (map aud_ID (audit_rows (bf_store b')))
    \<and> subseq (history_ids (bf_accepted b)) (map his_ID (history_rows (bf_store b')))"
proof -
  obtain b' where b': "buf_run (sqlite_writes sha256 keeps) capacity b b'" "bf_queue b' = []"
    "bf_batch b' = []" "bf_cancelled b' = bf_cancelled b" "bf_accepted b' = bf_accepted b"
    using sqlite.drains [OF sqlite_can_write] by blast
  from sqlite_held [OF buf_run_trans [OF b'(1) assms(1)]] b' assms(2) show ?thesis
    by (intro exI [of _ b']) simp
qed

lemma accepted_activity_can_be_stored_witness:
  "\<exists>b'. buf_run (sqlite_writes (\<lambda>s. s) True) 1 (NewBuffered \<lparr>audit_rows = [], history_rows = []\<rparr>) b'
    \<and> bf_queue b' = []"
  using accepted_activity_can_be_stored [OF buf_run.stay [of "sqlite_writes (\<lambda>s. s) True" 1
      "NewBuffered \<lparr>audit_rows = [], history_rows = []\<rparr>"]]
  by (auto simp: NewBuffered_def)

subsection \<open>What a retry repeats\<close>

text \<open>
  The comment on \<open>store\<close> says that a retry never stores part of a batch twice. That holds for a
  backend with \<open>WriteBatch\<close>; with the record-by-record loop the first record is stored again.
\<close>

lemma retry_stores_twice:
  fixes s :: "nat list"
  defines "put \<equiv> \<lambda>r t. if length t = length s then Some (t @ [1]) else None"
  shows "write_each put [QAudit a, QAudit a'] s = (False, s @ [1])"
    and "write_each (\<lambda>r t. Some (t @ [1])) [QAudit a, QAudit a'] (s @ [1]) = (True, s @ [1, 1, 1])"
  by (simp_all add: put_def)

end
