(* ===== verification/Csv.thy ===== *)
theory Csv
  imports Text_Encoding
begin

section \<open>Comma-separated values (encoding/csv as api/csvimport.go and api/scheduler.go use it)\<close>

text \<open>
  The writer and the reader of Go's \<open>encoding/csv\<close>: the writer with its defaults and a
  delimiter, the reader with \<open>LazyQuotes\<close> and any number of fields, as the import sets it. The
  delimiter is one byte, which \<open>importDelimiter\<close> guarantees.
\<close>

subsection \<open>The writer\<close>

definition fieldNeedsQuotes :: "char \<Rightarrow> string \<Rightarrow> bool" where
  "fieldNeedsQuotes d f \<longleftrightarrow>
     f \<noteq> [] \<and>
     (f = [CHR 0x5C, CHR ''.'']
      \<or> list_ex (\<lambda>c. c = CHR 0x0A \<or> c = CHR 0x0D \<or> c = CHR 0x22 \<or> c = d) f
      \<or> trim_left f \<noteq> f)"

definition csv_field :: "char \<Rightarrow> string \<Rightarrow> string" where
  "csv_field d f =
     (if fieldNeedsQuotes d f then CHR 0x22 # double_char (CHR 0x22) f @ [CHR 0x22] else f)"

definition csv_line :: "char \<Rightarrow> string list \<Rightarrow> string" where
  "csv_line d record = str_join [d] (map (csv_field d) record) @ [CHR 0x0A]"

definition csv_text :: "char \<Rightarrow> string list list \<Rightarrow> string" where
  "csv_text d records = concat (map (csv_line d) records)"

subsection \<open>The reader\<close>

text \<open>\<open>readLine\<close> turns \<open>\r\n\<close> into \<open>\n\<close> and drops a \<open>\r\<close> at the end of the file.\<close>

fun normal_lines :: "string \<Rightarrow> string" where
  "normal_lines [] = []"
| "normal_lines [c] = (if c = CHR 0x0D then [] else [c])"
| "normal_lines (a # b # s) =
     (if a = CHR 0x0D \<and> b = CHR 0x0A then b # normal_lines s else a # normal_lines (b # s))"

text \<open>A field: its value, whether another follows in the record, and the text after it.\<close>

type_synonym field = "string \<times> bool \<times> string"

fun plain_field :: "char \<Rightarrow> string \<Rightarrow> field" where
  "plain_field d [] = ([], False, [])"
| "plain_field d (c # s) =
     (if c = d then ([], True, s)
      else if c = CHR 0x0A then ([], False, s)
      else apfst ((#) c) (plain_field d s))"

fun quoted_field :: "char \<Rightarrow> string \<Rightarrow> field" where
  "quoted_field d [] = ([], False, [])"
| "quoted_field d [c] = (if c = CHR 0x22 then ([], False, []) else ([c], False, []))"
| "quoted_field d (c # e # s) =
     (if c \<noteq> CHR 0x22 then apfst ((#) c) (quoted_field d (e # s))
      else if e = CHR 0x22 then apfst ((#) e) (quoted_field d s)
      else if e = d then ([], True, s)
      else if e = CHR 0x0A then ([], False, s)
      else apfst ((#) c) (quoted_field d (e # s)))"

definition read_field :: "char \<Rightarrow> string \<Rightarrow> field" where
  "read_field d text1 =
     (case text1 of
        [] \<Rightarrow> ([], False, [])
      | c # s \<Rightarrow> (if c = CHR 0x22 then quoted_field d s else plain_field d text1))"

lemma plain_field_shorter: "plain_field d s = (f, m, r) \<Longrightarrow> s \<noteq> [] \<Longrightarrow> length r < length s"
proof (induction s arbitrary: f m r)
  case (Cons c s)
  then show ?case by (cases s) (auto split: if_splits simp: apfst_def map_prod_def split: prod.splits)
qed simp

lemma quoted_field_shorter: "quoted_field d s = (f, m, r) \<Longrightarrow> length r \<le> length s"
proof (induction d s arbitrary: f m r rule: quoted_field.induct)
  case (3 d c e s)
  then show ?case by (fastforce simp: apfst_def map_prod_def split: if_splits prod.splits)
qed (auto split: if_splits)

lemma read_field_shorter: "read_field d s = (f, m, r) \<Longrightarrow> s \<noteq> [] \<Longrightarrow> length r < length s"
  using plain_field_shorter [of d s f m r] quoted_field_shorter [of d "tl s" f m r]
  by (cases s) (auto simp: read_field_def split: if_splits)

text \<open>The fields up to the end of the record, and the text after it.\<close>

function read_record :: "char \<Rightarrow> string \<Rightarrow> string list \<times> string" where
  "read_record d s =
     (case read_field d s of
        (f, m, r) \<Rightarrow>
          (if m \<and> s \<noteq> [] then apfst ((#) f) (read_record d r) else ([f], r)))"
  by pat_completeness auto
termination
  by (relation "measure (\<lambda>(d, s). length s)") (auto dest!: read_field_shorter [OF sym])

declare read_record.simps [simp del]

lemma read_record_shorter: "read_record d s = (fs, r) \<Longrightarrow> s \<noteq> [] \<Longrightarrow> length r < length s"
proof (induction d s arbitrary: fs r rule: read_record.induct)
  case (1 d s)
  obtain f m t where t: "read_field d s = (f, m, t)" by (metis prod_cases3)
  show ?case
  proof (cases "m \<and> t \<noteq> []")
    case True
    obtain fs' r' where r': "read_record d t = (fs', r')" by fastforce
    with 1(2,3) t True have "r = r'" by (simp add: read_record.simps [of d s])
    with 1(1) [OF t [symmetric] refl _ r'] True 1(3) r' read_field_shorter [OF t] show ?thesis by simp
  next
    case False
    moreover have "read_record d [] = ([[]], [])" by (simp add: read_record.simps read_field_def)
    ultimately show ?thesis using 1(2,3) t read_field_shorter [OF t 1(3)]
      by (auto simp: read_record.simps [of d s] split: if_splits)
  qed
qed

function read_records :: "char \<Rightarrow> string \<Rightarrow> string list list" where
  "read_records d s =
     (case s of
        [] \<Rightarrow> []
      | c # s' \<Rightarrow>
          (if c = CHR 0x0A then read_records d s'
           else (case read_record d s of (record, r) \<Rightarrow> record # read_records d r)))"
  by pat_completeness auto
termination
  by (relation "measure (\<lambda>(d, s). length s)") (auto dest!: read_record_shorter [OF sym])

declare read_records.simps [simp del]

definition csv_records :: "char \<Rightarrow> string \<Rightarrow> string list list" where
  "csv_records d s = read_records d (normal_lines s)"

subsection \<open>What is written is read\<close>

definition csv_delimiter :: "char \<Rightarrow> bool" where
  "csv_delimiter d \<longleftrightarrow> d \<notin> {CHR 0x0A, CHR 0x0D, CHR 0x22}"

text \<open>A line end inside a field that is not one byte is read back as one.\<close>

fun no_crlf :: "string \<Rightarrow> bool" where
  "no_crlf (a # b # s) \<longleftrightarrow> \<not> (a = CHR 0x0D \<and> b = CHR 0x0A) \<and> no_crlf (b # s)"
| "no_crlf _ = True"

lemma normal_lines_id: "no_crlf s \<Longrightarrow> s = [] \<or> last s \<noteq> CHR 0x0D \<Longrightarrow> normal_lines s = s"
  by (induction s rule: normal_lines.induct) auto

lemma no_crlf_append:
  "no_crlf (s @ t) \<longleftrightarrow> no_crlf s \<and> no_crlf t \<and> \<not> (s \<noteq> [] \<and> t \<noteq> [] \<and> last s = CHR 0x0D \<and> hd t = CHR 0x0A)"
proof (induction s)
  case (Cons c s)
  then show ?case by (cases s; cases t) auto
qed simp

lemma quoted_field_Cons:
  "c \<noteq> CHR 0x22 \<Longrightarrow> s \<noteq> [] \<Longrightarrow> quoted_field d (c # s) = apfst ((#) c) (quoted_field d s)"
  by (cases s) auto

lemma quoted_field_text:
  assumes "e = CHR 0x0A \<or> e = d" and "csv_delimiter d"
  shows "quoted_field d (double_char (CHR 0x22) f @ CHR 0x22 # e # r) = (f, e = d, r)"
proof (induction f)
  case Nil
  then show ?case using assms by (auto simp: csv_delimiter_def)
next
  case (Cons c f)
  then show ?case by (auto simp: quoted_field_Cons)
qed

lemma plain_field_text:
  assumes "e = CHR 0x0A \<or> e = d" and "list_all (\<lambda>c. c \<noteq> d \<and> c \<noteq> CHR 0x0A) f"
  shows "plain_field d (f @ e # r) = (f, e = d, r)"
  using assms(2,1) by (induction f) auto

lemma unquoted_bytes:
  "\<not> fieldNeedsQuotes d f \<Longrightarrow> list_all (\<lambda>c. c \<noteq> d \<and> c \<noteq> CHR 0x0A \<and> c \<noteq> CHR 0x0D \<and> c \<noteq> CHR 0x22) f"
  by (cases f) (auto simp: fieldNeedsQuotes_def list_all_iff list_ex_iff)

lemma read_field_text:
  assumes "e = CHR 0x0A \<or> e = d" and "csv_delimiter d"
  shows "read_field d (csv_field d f @ e # r) = (f, e = d, r)"
proof (cases "fieldNeedsQuotes d f")
  case True
  with quoted_field_text [OF assms] show ?thesis by (simp add: csv_field_def read_field_def)
next
  case False
  from unquoted_bytes [OF this] have f: "list_all (\<lambda>c. c \<noteq> d \<and> c \<noteq> CHR 0x0A) f" "\<And>c s. f = c # s \<Longrightarrow> c \<noteq> CHR 0x22"
    by (auto simp: list_all_iff)
  have "read_field d (f @ e # r) = plain_field d (f @ e # r)"
    using f(2) assms by (cases f) (auto simp: read_field_def csv_delimiter_def)
  with plain_field_text [OF assms(1) f(1)] False show ?thesis by (simp add: csv_field_def)
qed

lemma read_record_text:
  assumes "csv_delimiter d" and "fs \<noteq> []"
  shows "read_record d (str_join [d] (map (csv_field d) fs) @ CHR 0x0A # r) = (fs, r)"
  using assms(2)
proof (induction fs rule: induct_list012)
  case (2 f)
  have "d \<noteq> CHR 0x0A" using assms(1) by (auto simp: csv_delimiter_def)
  with read_field_text [OF _ assms(1), of "CHR 0x0A" f r] show ?case by (simp add: read_record.simps)
next
  case (3 f g fs)
  from read_field_text [OF _ assms(1), of d f "str_join [d] (map (csv_field d) (g # fs)) @ CHR 0x0A # r"] 3
  show ?case by (subst read_record.simps) simp
qed simp

text \<open>A record that the reader does not take for an empty line.\<close>

definition csv_record_kept :: "string list \<Rightarrow> bool" where
  "csv_record_kept fs \<longleftrightarrow> fs \<noteq> [] \<and> fs \<noteq> [[]]"

lemma csv_line_head:
  assumes "csv_delimiter d" and "csv_record_kept fs"
  shows "\<exists>c s. csv_line d fs = c # s \<and> c \<noteq> CHR 0x0A"
proof -
  obtain f gs where fs: "fs = f # gs" "f \<noteq> [] \<or> gs \<noteq> []"
    using assms(2) by (cases fs) (auto simp: csv_record_kept_def)
  have d: "d \<noteq> CHR 0x0A" using assms(1) by (auto simp: csv_delimiter_def)
  have head: "csv_field d f = [] \<and> f = [] \<or> (\<exists>c s. csv_field d f = c # s \<and> c \<noteq> CHR 0x0A)"
    using unquoted_bytes [of d f] by (cases f) (auto simp: csv_field_def fieldNeedsQuotes_def)
  show ?thesis
    using head fs d by (cases gs) (auto simp: csv_line_def)
qed

lemma read_records_text:
  assumes "csv_delimiter d" and "list_all csv_record_kept records"
  shows "read_records d (csv_text d records) = records"
  using assms(2)
proof (induction records)
  case Nil
  then show ?case by (simp add: csv_text_def read_records.simps)
next
  case (Cons fs records)
  from Cons(2) have "csv_record_kept fs" by simp
  from csv_line_head [OF assms(1) this] obtain c s where cs: "csv_line d fs = c # s" "c \<noteq> CHR 0x0A" by blast
  have "read_record d (csv_line d fs @ csv_text d records) = (fs, csv_text d records)"
    using read_record_text [OF assms(1), of fs "csv_text d records"] \<open>csv_record_kept fs\<close>
    by (simp add: csv_line_def csv_record_kept_def)
  with cs Cons show ?case by (simp add: csv_text_def read_records.simps [of d "c # _"])
qed

definition clean_text :: "string \<Rightarrow> bool" where
  "clean_text s \<longleftrightarrow> no_crlf s \<and> (s = [] \<or> last s \<noteq> CHR 0x0D)"

lemma clean_append: "clean_text s \<Longrightarrow> clean_text t \<Longrightarrow> clean_text (s @ t)"
  by (cases "t = []") (auto simp: clean_text_def no_crlf_append)

lemma clean_char: "c \<noteq> CHR 0x0D \<Longrightarrow> clean_text [c]"
  by (simp add: clean_text_def)

lemma no_crlf_double: "no_crlf f \<Longrightarrow> no_crlf (double_char (CHR 0x22) f @ [CHR 0x22])"
  by (induction f rule: no_crlf.induct) (auto simp: no_crlf_append)

lemma clean_field: "no_crlf f \<Longrightarrow> clean_text (csv_field d f)"
proof (cases "fieldNeedsQuotes d f")
  case True
  assume "no_crlf f"
  with True show ?thesis
    using no_crlf_double [of f] by (cases "double_char (CHR 0x22) f") (auto simp: csv_field_def clean_text_def)
next
  case False
  assume "no_crlf f"
  moreover have "f = [] \<or> last f \<noteq> CHR 0x0D"
    using unquoted_bytes [OF False] last_in_set [of f] unfolding list_all_iff by blast
  ultimately show ?thesis using False by (simp add: csv_field_def clean_text_def)
qed

lemma clean_join: "clean_text sep \<Longrightarrow> list_all clean_text parts \<Longrightarrow> clean_text (str_join sep parts)"
  by (induction parts rule: induct_list012) (auto intro!: clean_append simp: clean_text_def [of "[]"])

lemma clean_csv_text:
  assumes "csv_delimiter d" and "list_all (list_all no_crlf) records"
  shows "clean_text (csv_text d records)"
proof -
  have "clean_text (csv_line d fs)" if "list_all no_crlf fs" for fs
    unfolding csv_line_def using assms(1) that
    by (intro clean_append clean_join clean_char) (auto simp: list_all_iff clean_field csv_delimiter_def)
  with assms(2) show ?thesis
    unfolding csv_text_def by (induction records) (auto intro: clean_append simp: clean_text_def [of "[]"])
qed

lemma csv_records_text:
  assumes "csv_delimiter d" and "list_all csv_record_kept records" and "list_all (list_all no_crlf) records"
  shows "csv_records d (csv_text d records) = records"
proof -
  have "normal_lines (csv_text d records) = csv_text d records"
    using clean_csv_text [OF assms(1,3)] by (auto simp: clean_text_def intro: normal_lines_id)
  with read_records_text [OF assms(1,2)] show ?thesis by (simp add: csv_records_def)
qed

end
