(* ===== verification/Sql_Text.thy ===== *)
theory Sql_Text
  imports Lexer Text_Encoding
begin

section \<open>Writing values and names into SQL (api/csvimport.go, api/scheduler.go, api/rowbackup.go, engine/ddl.go)\<close>

text \<open>
  The statements Rowset writes itself, for an import, an export or a restore, hold names and
  values as text. This theory models how they are spelled, and shows that the lexer of the
  guard reads each as one name or one string whatever it holds, and a server the value back.
\<close>

subsection \<open>Names\<close>

definition engine_is :: "unicode \<Rightarrow> string \<Rightarrow> string set \<Rightarrow> bool" where
  "engine_is u engine names \<longleftrightarrow> to_lower u engine \<in> names"

definition mysql_engines :: "string set" where
  "mysql_engines = {''mysql'', ''mariadb''}"

definition mssql_engines :: "string set" where
  "mssql_engines = {''mssql'', ''sqlserver''}"

definition PostgresFamily :: "unicode \<Rightarrow> string \<Rightarrow> bool" where
  "PostgresFamily u engine \<longleftrightarrow> engine_is u engine {''postgres'', ''postgresql'', ''cockroachdb''}"

definition QuoteIdentifier :: "unicode \<Rightarrow> string \<Rightarrow> string \<Rightarrow> string" where
  "QuoteIdentifier u engine name =
     (if engine_is u engine mysql_engines then ''`'' @ double_char (CHR 0x60) name @ ''`''
      else if engine_is u engine mssql_engines then ''['' @ double_char (CHR '']'') name @ '']''
      else [CHR 0x22] @ double_char (CHR 0x22) name @ [CHR 0x22])"

definition qualifiedTable :: "unicode \<Rightarrow> string \<Rightarrow> string \<Rightarrow> string \<Rightarrow> string" where
  "qualifiedTable u engine schema table =
     (let name = QuoteIdentifier u engine table in
      if schema \<noteq> [] then QuoteIdentifier u engine schema @ ''.'' @ name else name)"

subsection \<open>Literals\<close>

definition importLiteral :: "unicode \<Rightarrow> string \<Rightarrow> string \<Rightarrow> string" where
  "importLiteral u engine v =
     (let v1 = (if engine_is u engine mysql_engines then double_char (CHR 0x5C) v else v);
          v2 = double_char (CHR 0x27) v1;
          quoted = [CHR 0x27] @ v2 @ [CHR 0x27] in
      if engine_is u engine mssql_engines then CHR ''N'' # quoted else quoted)"

text \<open>\<open>\x\<close> and whole bytes of hexadecimal.\<close>

definition hexText :: "string \<Rightarrow> bool" where
  "hexText v \<longleftrightarrow> has_prefix [CHR 0x5C, CHR ''x''] v \<and> even (length v) \<and> hex_decode (drop 2 v) \<noteq> None"

definition hexLiteral :: "unicode \<Rightarrow> string \<Rightarrow> string \<Rightarrow> string" where
  "hexLiteral u engine ds =
     (if engine_is u engine {''mysql'', ''mariadb'', ''sqlite''} then [CHR ''X'', CHR 0x27] @ ds @ [CHR 0x27]
      else if engine_is u engine mssql_engines then ''0x'' @ ds
      else if engine_is u engine {''duckdb''} then ''unhex('' @ [CHR 0x27] @ ds @ [CHR 0x27] @ '')''
      else [CHR 0x27, CHR 0x5C, CHR ''x''] @ ds @ [CHR 0x27])"

text \<open>
  The values a driver returns. A float carries its class, the two spellings
  \<open>strconv.FormatFloat\<close> gives it ('f' and 'g') and that of \<open>fmt.Sprint\<close>, a time the three the code asks for: RFC 3339,
  wall clock and the one of its column type (\<open>engine.FormatTime\<close>); \<open>OtherV\<close> is what
  \<open>fmt.Sprint\<close> writes.
\<close>

datatype float_class = FiniteF | NaNF | PosInfF | NegInfF

datatype driver_value = NilV | BoolV bool | IntV int | FloatV float_class string string string
  | BytesV string | TextV string | TimeV string string string | OtherV string

definition fileValue :: "driver_value \<Rightarrow> driver_value" where
  "fileValue v = (case v of BytesV b \<Rightarrow> TextV b | TimeV rfc _ _ \<Rightarrow> TextV rfc | _ \<Rightarrow> v)"

definition sqlValueLiteral :: "unicode \<Rightarrow> string \<Rightarrow> driver_value \<Rightarrow> string" where
  "sqlValueLiteral u engine v =
     (case fileValue v of
        NilV \<Rightarrow> ''NULL''
      | BoolV b \<Rightarrow> (if b then ''1'' else ''0'')
      | IntV i \<Rightarrow> decimal i
      | FloatV _ f _ _ \<Rightarrow> f
      | TextV t \<Rightarrow> (if hexText t then hexLiteral u engine (drop 2 t) else importLiteral u engine t)
      | BytesV b \<Rightarrow> importLiteral u engine b
      | TimeV rfc _ _ \<Rightarrow> importLiteral u engine rfc
      | OtherV t \<Rightarrow> importLiteral u engine t)"

subsection \<open>Reading them back\<close>

text \<open>
  What a server reads from a string literal after its opening quote: the value and what
  follows. \<open>escapes\<close> says whether it takes a backslash as an escape, of which only the doubled
  one is written here.
\<close>

fun read_body :: "bool \<Rightarrow> string \<Rightarrow> (string \<times> string) option" where
  "read_body escapes [] = None"
| "read_body escapes [a] = (if a = CHR 0x27 then Some ([], []) else None)"
| "read_body escapes (a # b # s) =
     (if escapes \<and> a = CHR 0x5C
      then (if b = CHR 0x5C then map_option (apfst ((#) b)) (read_body escapes s) else None)
      else if a = CHR 0x27
      then (if b = CHR 0x27 then map_option (apfst ((#) b)) (read_body escapes s) else Some ([], b # s))
      else map_option (apfst ((#) a)) (read_body escapes (b # s)))"

definition literal_body :: "bool \<Rightarrow> string \<Rightarrow> string" where
  "literal_body escapes v = double_char (CHR 0x27) (if escapes then double_char (CHR 0x5C) v else v)"

definition not_quote :: "char \<Rightarrow> string \<Rightarrow> bool" where
  "not_quote q t \<longleftrightarrow> (case t of [] \<Rightarrow> True | c # _ \<Rightarrow> c \<noteq> q)"

lemma literal_body_simps [simp]:
  "literal_body escapes [] = []"
  "literal_body escapes (c # v) =
     (if c = CHR 0x27 then [c, c] else if escapes \<and> c = CHR 0x5C then [c, c] else [c])
     @ literal_body escapes v"
  by (auto simp: literal_body_def)

lemma string_bytes_Cons:
  "c \<noteq> CHR 0x27 \<Longrightarrow> \<not> (backslash_escapes d \<and> c = CHR 0x5C) \<Longrightarrow> s \<noteq> [] \<Longrightarrow>
     string_bytes d (c # s) = Suc (string_bytes d s)"
  by (cases s) auto

lemma string_bytes_literal:
  assumes "not_quote (CHR 0x27) t" and "backslash_escapes d \<longrightarrow> escapes"
  shows "string_bytes d (literal_body escapes v @ CHR 0x27 # t) = Suc (length (literal_body escapes v))"
proof (induction v)
  case Nil
  then show ?case using assms(1) by (cases t) (auto simp: not_quote_def)
next
  case (Cons c v)
  then show ?case using assms(2) by (auto simp: string_bytes_Cons)
qed

lemma read_body_Cons:
  "c \<noteq> CHR 0x27 \<Longrightarrow> \<not> (escapes \<and> c = CHR 0x5C) \<Longrightarrow> s \<noteq> [] \<Longrightarrow>
     read_body escapes (c # s) = map_option (apfst ((#) c)) (read_body escapes s)"
  by (cases s) auto

lemma read_body_literal:
  assumes "not_quote (CHR 0x27) t"
  shows "read_body escapes (literal_body escapes v @ CHR 0x27 # t) = Some (v, t)"
proof (induction v)
  case Nil
  then show ?case using assms by (cases t) (auto simp: not_quote_def)
next
  case (Cons c v)
  then show ?case by (auto simp: read_body_Cons)
qed

lemma quoted_bytes_Cons:
  "c \<noteq> q \<Longrightarrow> s \<noteq> [] \<Longrightarrow> quoted_bytes q (c # s) = map_option Suc (quoted_bytes q s)"
  by (cases s) auto

lemma quoted_bytes_name:
  assumes "not_quote q t"
  shows "quoted_bytes q (double_char q name @ q # t) = Some (length (double_char q name))"
proof (induction name)
  case Nil
  then show ?case using assms by (cases t) (auto simp: not_quote_def)
next
  case (Cons c name)
  then show ?case by (auto simp: quoted_bytes_Cons)
qed

subsection \<open>Lexing what was written\<close>

text \<open>
  \<open>lexes u d s ts\<close>: whatever stands before \<open>s\<close>, and whatever stands behind it as long as it
  does not continue a word or a quote, the lexer reads \<open>s\<close> as the tokens \<open>ts\<close> of its position
  and depth, and goes on behind it at the same depth.
\<close>

definition quote_or_word :: "char \<Rightarrow> bool" where
  "quote_or_word c \<longleftrightarrow> is_ident c \<or> c \<in> {CHR 0x27, CHR 0x22, CHR 0x60, CHR '']''}"

definition breaks :: "string \<Rightarrow> bool" where
  "breaks t \<longleftrightarrow> (case t of [] \<Rightarrow> True | c # _ \<Rightarrow> \<not> quote_or_word c)"

definition lexes :: "unicode \<Rightarrow> dialect \<Rightarrow> string \<Rightarrow> (nat \<Rightarrow> nat \<Rightarrow> Token list) \<Rightarrow> bool" where
  "lexes u d s ts \<longleftrightarrow> (\<forall>i depth t. breaks t \<longrightarrow>
     lex_loop u d i depth 0 (s @ t) =
       bind_result (lex_loop u d (i + length s) depth 0 t) (\<lambda>out. Inr (ts i depth @ out)))"

definition token_at :: "string \<Rightarrow> string \<Rightarrow> bool \<Rightarrow> bool \<Rightarrow> nat \<Rightarrow> nat \<Rightarrow> Token" where
  "token_at s low ident quot i depth =
     \<lparr>Text = s, Lower = low, Start = i, End = i + length s, Depth = depth,
      Identifier = ident, Quoted = quot\<rparr>"

lemma bind_result_assoc:
  "bind_result (bind_result r f) g = bind_result r (\<lambda>x. bind_result (f x) g)"
  by (cases r) auto

lemma lexes_step:
  assumes "s = c # s'"
    and "\<And>depth t. breaks t \<Longrightarrow> lex_step u d depth 0 (s @ t) c = emit_out (length s) depth 0 low depth ident quot"
  shows "lexes u d s (\<lambda>i depth. [token_at s low ident quot i depth])"
  using assms by (auto simp: lexes_def lex_tokens_def token_at_def emit_out_def)

lemma lexes_append:
  assumes "lexes u d s ts" and "lexes u d s' ts'" and "\<And>t. breaks t \<Longrightarrow> breaks (s' @ t)"
  shows "lexes u d (s @ s') (\<lambda>i depth. ts i depth @ ts' (i + length s) depth)"
  using assms by (auto simp: lexes_def bind_result_assoc add.assoc)

lemma lexes_parens:
  assumes "lexes u d s ts"
  shows "lexes u d (''('' @ s @ '')'')
    (\<lambda>i depth. token_at ''('' ''('' False False i depth # ts (Suc i) (Suc depth)
       @ [token_at '')'' '')'' False False (Suc i + length s) depth])"
proof -
  have open_step: "lex_step u d depth 0 (CHR ''('' # x) (CHR ''('') = emit_out 1 (Suc depth) 0 ''('' depth False False"
    and close_step: "lex_step u d (Suc depth) 0 (CHR '')'' # x) (CHR '')'') = emit_out 1 depth 0 '')'' depth False False"
    for depth x
    by (simp_all add: lex_step_def lex_token_def lex_plain_def is_space_def is_ident_def is_ascii_def
        is_lower_def is_upper_def is_digit_def byte_in_def byte_def)
  have "breaks (CHR '')'' # t)" for t
    by (simp add: breaks_def quote_or_word_def is_ident_def is_ascii_def is_lower_def is_upper_def
        is_digit_def byte_in_def byte_def)
  with assms show ?thesis
    by (auto simp: lexes_def open_step close_step emit_out_def lex_tokens_def token_at_def bind_result_assoc)
qed

lemmas char_class = is_space_def is_ident_def is_ascii_def is_lower_def is_upper_def is_digit_def
  byte_in_def byte_def

lemma breaks_not_quote: "breaks t \<Longrightarrow> q \<in> {CHR 0x27, CHR 0x22, CHR 0x60, CHR '']''} \<Longrightarrow> not_quote q t"
  by (auto simp: breaks_def not_quote_def quote_or_word_def split: list.splits)

lemma breaks_ident: "breaks t \<Longrightarrow> ident_bytes t = 0"
  by (cases t) (auto simp: breaks_def quote_or_word_def)

subsubsection \<open>Strings\<close>

definition quoted_string :: "bool \<Rightarrow> string \<Rightarrow> string" where
  "quoted_string escapes v = CHR 0x27 # literal_body escapes v @ [CHR 0x27]"

lemma lexes_string:
  assumes "backslash_escapes d \<longrightarrow> escapes"
  shows "lexes u d (quoted_string escapes v)
    (\<lambda>i depth. [token_at (quoted_string escapes v) ''?'' False False i depth])"
proof (rule lexes_step)
  show "quoted_string escapes v = CHR 0x27 # literal_body escapes v @ [CHR 0x27]"
    by (simp add: quoted_string_def)
  fix depth t assume "breaks t"
  then have "string_bytes d (literal_body escapes v @ CHR 0x27 # t) = Suc (length (literal_body escapes v))"
    by (intro string_bytes_literal assms breaks_not_quote) simp_all
  then show "lex_step u d depth 0 (quoted_string escapes v @ t) (CHR 0x27)
      = emit_out (length (quoted_string escapes v)) depth 0 ''?'' depth False False"
    by (simp add: quoted_string_def lex_step_def lex_token_def lex_string_def is_space_def Let_def)
qed

definition word_start :: "char \<Rightarrow> bool" where
  "word_start c \<longleftrightarrow> is_ident c \<and> is_ascii c \<and> c \<noteq> CHR ''$''"

lemma word_start_chars:
  assumes "word_start c"
  shows "\<not> is_space c" and "is_ident c"
    and "c \<noteq> CHR ''-''" "c \<noteq> CHR ''#''" "c \<noteq> CHR ''/''" "c \<noteq> CHR ''*''" "c \<noteq> CHR ''$''"
    "c \<noteq> CHR 0x27" "c \<noteq> CHR 0x22" "c \<noteq> CHR 0x60" "c \<noteq> CHR ''[''"
  using assms by (auto simp: word_start_def char_class)

lemma word_step:
  assumes "word_start c"
  shows "lex_step u d depth 0 (c # s) c
    = emit_out (Suc (ident_bytes s)) depth 0 (to_lower u (take (Suc (ident_bytes s)) (c # s))) depth True False"
  using word_start_chars [OF assms] word_start_chars(3-11) [OF assms, THEN not_sym]
  by (simp add: lex_step_def lex_token_def lex_plain_def Let_def)

lemma ident_bytes_word: "list_all is_ident w \<Longrightarrow> breaks t \<Longrightarrow> ident_bytes (w @ t) = length w"
  by (induction w) (auto simp: breaks_ident)

lemma lexes_word:
  assumes "word_start c" and "list_all is_ident w"
  shows "lexes u d (c # w) (\<lambda>i depth. [token_at (c # w) (to_lower u (c # w)) True False i depth])"
  using assms by (intro lexes_step) (auto simp: word_step ident_bytes_word)

text \<open>A letter before a string, as in \<open>N'...'\<close> and \<open>X'...'\<close>.\<close>

lemma lexes_prefixed_string:
  assumes "word_start c" and "lexes u d (quoted_string escapes v) ts"
  shows "lexes u d (c # quoted_string escapes v)
    (\<lambda>i depth. token_at [c] (to_lower u [c]) True False i depth # ts (Suc i) depth)"
proof -
  have "ident_bytes (quoted_string escapes v @ t) = 0" for t
    by (simp add: quoted_string_def is_ident_def char_class)
  with assms show ?thesis
    by (auto simp: lexes_def word_step emit_out_def lex_tokens_def token_at_def bind_result_assoc)
qed

subsubsection \<open>Names\<close>

lemma lexes_name:
  fixes n
  assumes "(opening, closing) \<in> {(CHR 0x60, CHR 0x60), (CHR ''['', CHR '']''), (CHR 0x22, CHR 0x22)}"
  defines "name \<equiv> opening # double_char closing n @ [closing]"
  shows "lexes u d name (\<lambda>i depth. [token_at name (to_lower u (trim_quotes name)) True True i depth])"
proof (rule lexes_step)
  show "name = opening # double_char closing n @ [closing]" by (simp add: name_def)
  fix depth t assume "breaks t"
  then have "quoted_bytes closing (double_char closing n @ closing # t) = Some (length (double_char closing n))"
    using assms(1) by (intro quoted_bytes_name breaks_not_quote) auto
  with assms(1) show "lex_step u d depth 0 (name @ t) opening
      = emit_out (length name) depth 0 (to_lower u (trim_quotes name)) depth True True"
    by (auto simp: name_def lex_step_def lex_token_def lex_quote_def is_space_def Let_def)
qed

definition name_token :: "unicode \<Rightarrow> string \<Rightarrow> nat \<Rightarrow> nat \<Rightarrow> Token" where
  "name_token u name = token_at name (to_lower u (trim_quotes name)) True True"

lemma lexes_identifier:
  "lexes u d (QuoteIdentifier u engine n) (\<lambda>i depth. [name_token u (QuoteIdentifier u engine n) i depth])"
  using lexes_name [of "CHR 0x60" "CHR 0x60"] lexes_name [of "CHR ''[''" "CHR '']''"]
    lexes_name [of "CHR 0x22" "CHR 0x22"]
  by (auto simp: QuoteIdentifier_def name_token_def)

subsubsection \<open>Literals\<close>

lemma importLiteral_string:
  "importLiteral u engine v = (if engine_is u engine mssql_engines then [CHR ''N''] else [])
     @ quoted_string (engine_is u engine mysql_engines) v"
  by (auto simp: importLiteral_def quoted_string_def literal_body_def Let_def)

definition literal_tokens :: "unicode \<Rightarrow> string \<Rightarrow> string \<Rightarrow> nat \<Rightarrow> nat \<Rightarrow> Token list" where
  "literal_tokens u engine v i depth =
     (let s = quoted_string (engine_is u engine mysql_engines) v in
      if engine_is u engine mssql_engines
      then [token_at ''N'' (to_lower u ''N'') True False i depth, token_at s ''?'' False False (Suc i) depth]
      else [token_at s ''?'' False False i depth])"

lemma lexes_literal:
  assumes "backslash_escapes d \<longrightarrow> engine_is u engine mysql_engines"
  shows "lexes u d (importLiteral u engine v) (literal_tokens u engine v)"
proof -
  note str = lexes_string [OF assms, of u v]
  have "word_start (CHR ''N'')" by (simp add: word_start_def char_class)
  note prefixed = lexes_prefixed_string [OF this str]
  show ?thesis
  proof (cases "engine_is u engine mssql_engines")
    case True
    then have "literal_tokens u engine v = (\<lambda>i depth. token_at ''N'' (to_lower u ''N'') True False i depth
        # [token_at (quoted_string (engine_is u engine mysql_engines) v) ''?'' False False (Suc i) depth])"
      by (simp add: literal_tokens_def fun_eq_iff Let_def)
    with prefixed True show ?thesis by (simp add: importLiteral_string)
  next
    case False
    then have "literal_tokens u engine v = (\<lambda>i depth.
        [token_at (quoted_string (engine_is u engine mysql_engines) v) ''?'' False False i depth])"
      by (simp add: literal_tokens_def fun_eq_iff Let_def)
    with str False show ?thesis by (simp add: importLiteral_string)
  qed
qed

text \<open>The dialect of an engine takes backslashes as escapes exactly where they are doubled.\<close>

lemma engine_escapes:
  "trim_space engine = engine \<Longrightarrow>
     backslash_escapes (dialect_for_engine u engine) \<longleftrightarrow> engine_is u engine mysql_engines"
  by (auto simp: backslash_escapes_def dialect_for_engine_def engine_is_def mysql_engines_def Let_def)

lemma generic_escapes: "backslash_escapes DialectGeneric \<longrightarrow> engine_is u engine mysql_engines"
  by (simp add: backslash_escapes_def)

subsection \<open>Values, rows and lists of them\<close>

definition data_token :: "nat \<Rightarrow> Token \<Rightarrow> bool" where
  "data_token depth t \<longleftrightarrow> depth \<le> Depth t \<and> \<not> Quoted t
     \<and> (Lower t \<in> {''?'', ''null'', ''n'', ''x'', ''unhex'', ''('', '')'', '',''} \<or> has_prefix ''0x'' (Lower t))"

definition lexes_data :: "unicode \<Rightarrow> dialect \<Rightarrow> string \<Rightarrow> bool" where
  "lexes_data u d s \<longleftrightarrow>
     (\<exists>ts. lexes u d s ts \<and> (\<forall>i depth. list_all (data_token depth) (ts i depth)))"

lemma lexes_dataI: "lexes u d s ts \<Longrightarrow> (\<And>i depth. list_all (data_token depth) (ts i depth)) \<Longrightarrow> lexes_data u d s"
  by (auto simp: lexes_data_def)

lemma lexes_data_append:
  assumes "lexes_data u d s" and "lexes_data u d s'" and "\<And>t. breaks t \<Longrightarrow> breaks (s' @ t)"
  shows "lexes_data u d (s @ s')"
proof -
  obtain ts ts' where "lexes u d s ts" "\<And>i depth. list_all (data_token depth) (ts i depth)"
    and "lexes u d s' ts'" "\<And>i depth. list_all (data_token depth) (ts' i depth)"
    using assms(1,2) by (auto simp: lexes_data_def)
  then show ?thesis using assms(3) by (intro lexes_dataI [OF lexes_append]) auto
qed

lemma lexes_data_parens: "lexes_data u d s \<Longrightarrow> lexes_data u d (''('' @ s @ '')'')"
proof -
  assume "lexes_data u d s"
  then obtain ts where ts: "lexes u d s ts" "\<And>i depth. list_all (data_token depth) (ts i depth)"
    by (auto simp: lexes_data_def)
  show ?thesis
  proof (rule lexes_dataI [OF lexes_parens [OF ts(1)]])
    fix i depth
    have "list_all (data_token depth) (ts (Suc i) (Suc depth))"
      using ts(2) [of "Suc depth" "Suc i"] by (auto simp: list_all_iff data_token_def)
    then show "list_all (data_token depth) (token_at ''('' ''('' False False i depth # ts (Suc i) (Suc depth)
       @ [token_at '')'' '')'' False False (Suc i + length s) depth])"
      by (simp add: data_token_def token_at_def)
  qed
qed

text \<open>What stands between two of them: it ends a word, and the lexer goes on behind it whatever follows.\<close>

definition separates :: "unicode \<Rightarrow> dialect \<Rightarrow> string \<Rightarrow> (nat \<Rightarrow> nat \<Rightarrow> Token list) \<Rightarrow> bool" where
  "separates u d sep ts \<longleftrightarrow> (\<forall>i depth t. breaks (sep @ t) \<and>
     lex_loop u d i depth 0 (sep @ t) =
       bind_result (lex_loop u d (i + length sep) depth 0 t) (\<lambda>out. Inr (ts i depth @ out)))"

lemma breaks_separator:
  "breaks (CHR '','' # t)" "breaks (CHR '' '' # t)" "breaks (CHR ''.'' # t)" "breaks (CHR ''('' # t)"
  "breaks (CHR '')'' # t)"
  by (simp_all add: breaks_def quote_or_word_def char_class)

lemma separates_space: "separates u d '' '' (\<lambda>i depth. [])"
  by (auto simp: separates_def breaks_separator lex_step_def skip_out_def lex_tokens_def is_space_def)

lemma separates_mark:
  assumes "c = CHR '','' \<or> c = CHR ''.''"
  shows "separates u d [c] (\<lambda>i depth. [token_at [c] [c] False False i depth])"
proof -
  have "lex_step u d depth 0 (c # x) c = emit_out 1 depth 0 [c] depth False False" for depth x
    using assms by (rule disjE) (simp_all add: lex_step_def lex_token_def lex_plain_def to_lower_def
        all_ascii_def lower_byte_def char_class)
  with assms breaks_separator show ?thesis
    by (auto simp: separates_def emit_out_def lex_tokens_def token_at_def)
qed

lemma separates_append:
  assumes "separates u d s ts" and "separates u d s' ts'"
  shows "separates u d (s @ s') (\<lambda>i depth. ts i depth @ ts' (i + length s) depth)"
  using assms unfolding separates_def by (auto simp: bind_result_assoc add.assoc simp del: lex_loop.simps)

lemma lexes_separated:
  assumes "lexes u d s ts" and "separates u d sep ts'" and "lexes u d s' ts''"
  shows "lexes u d (s @ sep @ s')
    (\<lambda>i depth. ts i depth @ ts' (i + length s) depth @ ts'' (i + length s + length sep) depth)"
  using assms unfolding lexes_def separates_def by (auto simp: bind_result_assoc add.assoc simp del: lex_loop.simps)

lemma lexes_then: "lexes u d s ts \<Longrightarrow> separates u d sep ts' \<Longrightarrow>
    lexes u d (s @ sep) (\<lambda>i depth. ts i depth @ ts' (i + length s) depth)"
  unfolding lexes_def separates_def by (auto simp: bind_result_assoc add.assoc simp del: lex_loop.simps)

lemma separates_comma: "separates u d '', '' (\<lambda>i depth. [token_at '','' '','' False False i depth])"
  using separates_append [OF separates_mark [of "CHR '',''"] separates_space] by simp

lemma lexes_data_comma:
  assumes "lexes_data u d s" and "lexes_data u d s'"
  shows "lexes_data u d (s @ '', '' @ s')"
proof -
  obtain ts ts' where parts: "lexes u d s ts" "\<And>i depth. list_all (data_token depth) (ts i depth)"
    "lexes u d s' ts'" "\<And>i depth. list_all (data_token depth) (ts' i depth)"
    using assms by (auto simp: lexes_data_def)
  have "data_token depth (token_at '','' '','' False False i depth)" for i depth
    by (simp add: data_token_def token_at_def)
  with parts(2,4) show ?thesis
    by (intro lexes_dataI [OF lexes_separated [OF parts(1) separates_comma parts(3)]]) simp
qed

lemma lexes_data_join:
  "list_all (lexes_data u d) parts \<Longrightarrow> parts \<noteq> [] \<Longrightarrow> lexes_data u d (str_join '', '' parts)"
proof (induction parts rule: induct_list012)
  case (3 x y zs)
  with lexes_data_comma [of u d x "str_join '', '' (y # zs)"] show ?case by simp
qed simp_all

lemma data_null: "lexes_data u d ''NULL''"
proof -
  have "lexes u d (CHR ''N'' # ''ULL'') (\<lambda>i depth. [token_at ''NULL'' (to_lower u ''NULL'') True False i depth])"
    by (rule lexes_word) (simp_all add: word_start_def char_class)
  moreover have "to_lower u ''NULL'' = ''null''"
    by (simp add: to_lower_def all_ascii_def lower_byte_bits is_upper_bits is_ascii_bits)
  ultimately show ?thesis by (auto simp: lexes_data_def data_token_def token_at_def)
qed

lemma data_literal:
  assumes "backslash_escapes d \<longrightarrow> engine_is u engine mysql_engines"
  shows "lexes_data u d (importLiteral u engine v)"
proof -
  have "to_lower u ''N'' = ''n''"
    by (simp add: to_lower_def all_ascii_def lower_byte_bits is_upper_bits is_ascii_bits)
  then show ?thesis
    by (intro lexes_dataI [OF lexes_literal [OF assms]])
      (simp add: literal_tokens_def data_token_def token_at_def Let_def)
qed

lemma hex_value_word:
  "hex_value c = Some n \<Longrightarrow> is_ident c" "hex_value c = Some n \<Longrightarrow> word_start c"
  "hex_value (CHR 0x27) = None" "hex_value (CHR 0x5C) = None"
  by (auto simp: hex_value_def word_start_def char_class split: if_splits)

lemma hex_decode_digits: "hex_decode s \<noteq> None \<Longrightarrow> list_all (\<lambda>c. hex_value c \<noteq> None) s"
  by (induction s rule: hex_decode.induct) (auto split: option.splits)

lemma hex_body: "list_all (\<lambda>c. hex_value c \<noteq> None) s \<Longrightarrow> literal_body escapes s = s"
  by (induction s) (auto simp: hex_value_word(3,4))

lemma data_string:
  "backslash_escapes d \<longrightarrow> escapes \<Longrightarrow> lexes_data u d (quoted_string escapes v)"
  by (rule lexes_dataI [OF lexes_string]) (simp_all add: data_token_def token_at_def)

lemma data_word_string:
  assumes "word_start c" and "to_lower u [c] \<in> {''n'', ''x''}" and "lexes_data u d (quoted_string escapes v)"
  shows "lexes_data u d (c # quoted_string escapes v)"
proof -
  obtain ts where "lexes u d (quoted_string escapes v) ts" "\<And>i depth. list_all (data_token depth) (ts i depth)"
    using assms(3) by (auto simp: lexes_data_def)
  then show ?thesis
    using assms(1,2) by (intro lexes_dataI [OF lexes_prefixed_string]) (auto simp: data_token_def token_at_def)
qed

lemma data_word:
  assumes "word_start c" and "list_all is_ident w"
    and "to_lower u (c # w) \<in> {''null'', ''unhex''} \<or> has_prefix ''0x'' (to_lower u (c # w))"
  shows "lexes_data u d (c # w)"
  using assms(3) by (intro lexes_dataI [OF lexes_word [OF assms(1,2)]]) (auto simp: data_token_def token_at_def)

lemmas low_simps = to_lower_def all_ascii_def lower_byte_bits is_upper_bits is_ascii_bits

lemma hex_lower: "list_all (\<lambda>c. hex_value c \<noteq> None) ds \<Longrightarrow> has_prefix ''0x'' (to_lower u (CHR ''0'' # CHR ''x'' # ds))"
proof -
  assume "list_all (\<lambda>c. hex_value c \<noteq> None) ds"
  then have "list_all is_ascii ds"
    using hex_value_word(2) by (auto simp: list_all_iff word_start_def)
  then show ?thesis by (simp add: low_simps)
qed

lemma data_hex:
  assumes "hexText v" and "backslash_escapes d \<longrightarrow> engine_is u engine mysql_engines"
  shows "lexes_data u d (hexLiteral u engine (drop 2 v))"
proof -
  let ?ds = "drop 2 v"
  have ds: "list_all (\<lambda>c. hex_value c \<noteq> None) ?ds"
    using assms(1) hex_decode_digits unfolding hexText_def by blast
  then have ident: "list_all is_ident ?ds"
    using hex_value_word(1) by (auto simp: list_all_iff)
  have body: "CHR 0x27 # ?ds @ [CHR 0x27] = quoted_string True ?ds"
    using ds by (simp add: quoted_string_def hex_body)
  have str: "lexes_data u d (quoted_string True ?ds)" by (simp add: data_string)
  consider (x) "engine_is u engine {''mysql'', ''mariadb'', ''sqlite''}"
    | (zero) "engine_is u engine mssql_engines" | (unhex) "engine_is u engine {''duckdb''}"
    | (pg) "\<not> engine_is u engine {''mysql'', ''mariadb'', ''sqlite''}" "\<not> engine_is u engine mssql_engines"
        "\<not> engine_is u engine {''duckdb''}" by blast
  then show ?thesis
  proof cases
    case x
    have "lexes_data u d (CHR ''X'' # quoted_string True ?ds)"
      by (rule data_word_string [OF _ _ str]) (simp_all add: word_start_def char_class low_simps)
    with x show ?thesis by (simp add: hexLiteral_def body)
  next
    case zero
    then have "hexLiteral u engine ?ds = CHR ''0'' # CHR ''x'' # ?ds"
      by (auto simp: hexLiteral_def engine_is_def mssql_engines_def)
    moreover have "lexes_data u d (CHR ''0'' # CHR ''x'' # ?ds)"
      using hex_lower [OF ds] ident by (intro data_word) (simp_all add: word_start_def char_class)
    ultimately show ?thesis by simp
  next
    case unhex
    then have "hexLiteral u engine ?ds = ''unhex'' @ ''('' @ quoted_string True ?ds @ '')''"
      by (auto simp: hexLiteral_def engine_is_def mssql_engines_def body [symmetric])
    moreover have "lexes_data u d (CHR ''u'' # ''nhex'')"
      by (rule data_word) (simp_all add: word_start_def char_class low_simps)
    moreover have "breaks ((''('' @ quoted_string True ?ds @ '')'') @ t)" for t
      by (simp add: breaks_def quote_or_word_def char_class)
    ultimately show ?thesis
      using lexes_data_append [of u d "''unhex''", OF _ lexes_data_parens [OF str]] by simp
  next
    case pg
    have "hexLiteral u engine ?ds = quoted_string False (CHR 0x5C # CHR ''x'' # ?ds)"
      using pg ds by (simp add: hexLiteral_def quoted_string_def hex_body)
    moreover have "\<not> backslash_escapes d"
      using assms(2) pg(1) by (auto simp: engine_is_def mysql_engines_def)
    ultimately show ?thesis by (simp add: data_string)
  qed
qed

end
