(* ===== verification/Backup_Values.thy ===== *)
theory Backup_Values
  imports Sql_Text
begin

section \<open>Values that are kept and written back (api/rowbackup.go)\<close>

text \<open>
  A backup keeps each value with its kind, and a restore spells it as a literal of the engine.
  The lemmas say what the server reads back from that literal.
\<close>

datatype value_kind = KNull | KBool | KNum | KTime | KText | KBytes

record backupValue =
  bv_Kind :: value_kind
  bv_Value :: string

definition backup_value :: "value_kind \<Rightarrow> string \<Rightarrow> backupValue" where
  "backup_value k v = \<lparr>bv_Kind = k, bv_Value = v\<rparr>"

definition binary_kinds :: "string list" where
  "binary_kinds = [''BINARY'', ''BYTEA'', ''BLOB'', ''IMAGE'', ''UNIQUEIDENTIFIER'', ''BIT'',
     ''GEOMETRY'', ''GEOGRAPHY'', ''HIERARCHYID'']"

definition isBinaryType :: "unicode \<Rightarrow> string \<Rightarrow> bool" where
  "isBinaryType u databaseType =
     list_ex (str_contains (to_upper u databaseType)) binary_kinds"

definition specialFloatName :: "float_class \<Rightarrow> string" where
  "specialFloatName c = (case c of NaNF \<Rightarrow> ''NaN'' | PosInfF \<Rightarrow> ''Infinity'' | _ \<Rightarrow> ''-Infinity'')"

definition encodeBackupValue :: "unicode \<Rightarrow> driver_value \<Rightarrow> string \<Rightarrow> backupValue" where
  "encodeBackupValue u v databaseType =
     (case v of
        NilV \<Rightarrow> backup_value KNull []
      | BoolV b \<Rightarrow> backup_value KBool (if b then ''true'' else ''false'')
      | IntV i \<Rightarrow> backup_value KNum (decimal i)
      | FloatV c f g p \<Rightarrow>
          (if c = FiniteF then backup_value KNum g else backup_value KText (specialFloatName c))
      | TimeV rfc wall typed \<Rightarrow> backup_value KTime (if databaseType = [] then wall else typed)
      | BytesV b \<Rightarrow>
          (if \<not> isBinaryType u databaseType \<and> utf8_valid b then backup_value KText b
           else backup_value KBytes (hex_encode b))
      | TextV t \<Rightarrow> backup_value KText t
      | OtherV t \<Rightarrow> backup_value KText t)"

definition restoreLiteral :: "unicode \<Rightarrow> string \<Rightarrow> backupValue \<Rightarrow> string" where
  "restoreLiteral u engine v =
     (let engineName = to_lower u engine in
      case bv_Kind v of
        KNull \<Rightarrow> ''NULL''
      | KBool \<Rightarrow>
          (if PostgresFamily u engineName \<or> engineName = ''duckdb'' then to_upper u (bv_Value v)
           else if bv_Value v = ''true'' then ''1'' else ''0'')
      | KNum \<Rightarrow> bv_Value v
      | KBytes \<Rightarrow>
          (if engineName = ''postgres'' \<or> engineName = ''cockroachdb''
           then hexLiteral u engineName (bv_Value v) @ ''::bytea''
           else hexLiteral u engineName (bv_Value v))
      | _ \<Rightarrow> importLiteral u engineName (bv_Value v))"

subsection \<open>What a restored value is\<close>

text \<open>What the server reads from a string literal of its engine, all of it.\<close>

definition read_string :: "unicode \<Rightarrow> string \<Rightarrow> string \<Rightarrow> string option" where
  "read_string u engine s =
     (let body = (if engine_is u engine mssql_engines then (case s of c # s' \<Rightarrow> if c = CHR ''N'' then s' else [] | [] \<Rightarrow> [])
       else s) in
      case body of
        [] \<Rightarrow> None
      | q # s' \<Rightarrow>
          (if q \<noteq> CHR 0x27 then None
           else (case read_body (engine_is u engine mysql_engines) s' of
                   Some (v, []) \<Rightarrow> Some v
                 | _ \<Rightarrow> None)))"

lemma read_string_import: "read_string u engine (importLiteral u engine v) = Some v"
proof -
  have "read_body escapes (literal_body escapes v @ [CHR 0x27]) = Some (v, [])" for escapes
    using read_body_literal [of "[]" escapes v] by (simp add: not_quote_def)
  then show ?thesis
    by (simp add: read_string_def importLiteral_string quoted_string_def Let_def)
qed

end
