(* ===== verification/Csv_Import.thy ===== *)
theory Csv_Import
  imports Query Csv Backup_Values
begin

section \<open>Importing a CSV file (api/csvimport.go)\<close>

text \<open>
  A file is uploaded in chunks, then inserted into a table in one transaction, in batches of
  rows. The table of uploads is a map; the file's contents are kept in the upload. The import is
  a function to the events it causes: the statements that reach the database, the commit or the
  rollback, the record and the response. \<open>runs k\<close> is the database's answer to the k-th batch.
\<close>

subsection \<open>Capabilities (engine/capabilities.go)\<close>

record Capabilities =
  cap_Transactions :: bool
  cap_Explain :: bool
  cap_ExplainAnalyze :: bool
  cap_DDL :: bool
  cap_CSVImport :: bool
  cap_CSVExport :: bool
  cap_JSONExport :: bool
  cap_SQLExport :: bool
  cap_CQLExport :: bool
  cap_SSH :: bool
  cap_Shared :: bool
  cap_MultiNode :: bool
  cap_DocumentWrite :: bool
  cap_KeyWrite :: bool

definition no_capabilities :: Capabilities where
  "no_capabilities = \<lparr>cap_Transactions = False, cap_Explain = False, cap_ExplainAnalyze = False,
     cap_DDL = False, cap_CSVImport = False, cap_CSVExport = False, cap_JSONExport = False,
     cap_SQLExport = False, cap_CQLExport = False, cap_SSH = False, cap_Shared = False,
     cap_MultiNode = False, cap_DocumentWrite = False, cap_KeyWrite = False\<rparr>"

definition EngineCapabilities :: "string \<Rightarrow> Capabilities" where
  "EngineCapabilities name =
     (if name \<in> {''postgres'', ''mysql'', ''mariadb'', ''mssql'', ''sqlserver'', ''cockroachdb''}
      then no_capabilities\<lparr>cap_Transactions := True, cap_Explain := True, cap_ExplainAnalyze := True,
             cap_DDL := True, cap_CSVImport := True, cap_CSVExport := True, cap_JSONExport := True,
             cap_SQLExport := True, cap_SSH := True, cap_Shared := True, cap_MultiNode := True\<rparr>
      else if name \<in> {''sqlite'', ''duckdb''}
      then no_capabilities\<lparr>cap_Transactions := True, cap_DDL := True, cap_CSVImport := True,
             cap_CSVExport := True, cap_JSONExport := True\<rparr>
      else if name = ''clickhouse''
      then no_capabilities\<lparr>cap_Explain := True, cap_DDL := True, cap_CSVExport := True,
             cap_JSONExport := True, cap_SSH := True\<rparr>
      else if name = ''cassandra''
      then no_capabilities\<lparr>cap_DDL := True, cap_CSVImport := True, cap_CSVExport := True,
             cap_JSONExport := True, cap_CQLExport := True, cap_SSH := True, cap_Shared := True,
             cap_MultiNode := True\<rparr>
      else if name = ''mongodb''
      then no_capabilities\<lparr>cap_Transactions := True, cap_DocumentWrite := True, cap_SSH := True\<rparr>
      else if name = ''elasticsearch''
      then no_capabilities\<lparr>cap_DocumentWrite := True, cap_SSH := True\<rparr>
      else if name \<in> {''redis'', ''valkey''}
      then no_capabilities\<lparr>cap_KeyWrite := True, cap_SSH := True\<rparr>
      else no_capabilities)"

subsection \<open>The uploads\<close>

record csvUpload =
  up_userID :: string
  up_connectionID :: string
  up_content :: string
  up_size :: nat
  up_created :: int

type_synonym uploads = "string \<Rightarrow> csvUpload option"

definition importMaxBytes :: nat where
  "importMaxBytes = 256 * 1024 * 1024"

definition importUploadMaxAge :: int where
  "importUploadMaxAge = 3600"

definition upload :: "uploads \<Rightarrow> Identity \<Rightarrow> string \<Rightarrow> string \<Rightarrow> csvUpload option" where
  "upload ups identity connectionID importID =
     (case ups importID of
        None \<Rightarrow> None
      | Some item \<Rightarrow>
          (if up_userID item = UserID identity \<and> up_connectionID item = connectionID then Some item else None))"

definition dropUpload :: "string \<Rightarrow> uploads \<Rightarrow> uploads" where
  "dropUpload importID ups = ups(importID := None)"

definition expire_uploads :: "int \<Rightarrow> uploads \<Rightarrow> uploads" where
  "expire_uploads now ups = (\<lambda>key. case ups key of
     None \<Rightarrow> None
   | Some item \<Rightarrow> if importUploadMaxAge < now - up_created item then None else Some item)"

definition csv_import_refusal :: response where
  "csv_import_refusal = Refused 400 ''UNSUPPORTED'' ''CSV import is not available for this engine yet''"

definition startImport ::
  "Access option \<Rightarrow> Identity \<Rightarrow> Connection option \<Rightarrow> int \<Rightarrow> string \<Rightarrow> string option \<Rightarrow> uploads \<Rightarrow>
   (response + string) \<times> uploads" where
  "startImport access identity found now fresh_id file_error ups =
     (case authorizedConnection access identity found of
        Inl refusal \<Rightarrow> (Inl refusal, ups)
      | Inr connection \<Rightarrow>
          (if \<not> cap_CSVImport (EngineCapabilities (conn_Engine connection)) then (Inl csv_import_refusal, ups)
           else
             (let ups1 = expire_uploads now ups in
              case file_error of
                Some e \<Rightarrow> (Inl (Refused 500 ''INTERNAL'' e), ups1)
              | None \<Rightarrow>
                  (Inr fresh_id, ups1(fresh_id \<mapsto>
                     \<lparr>up_userID = UserID identity, up_connectionID = conn_ID connection, up_content = [],
                      up_size = 0, up_created = now\<rparr>)))))"

text \<open>
  What became of a chunk: the file could not be opened, the copy broke off after some bytes, or
  all of it was written. The reader is limited to one byte too many.
\<close>

datatype chunk_outcome = NotOpened | BrokeOff nat | Copied

definition appendImport ::
  "Identity \<Rightarrow> string \<Rightarrow> string \<Rightarrow> chunk_outcome \<Rightarrow> string \<Rightarrow> uploads \<Rightarrow> response \<times> uploads" where
  "appendImport identity connectionID importID outcome body ups =
     (case upload ups identity connectionID importID of
        None \<Rightarrow> (Refused 404 ''NOT_FOUND'' ''import not found'', ups)
      | Some item \<Rightarrow>
          (let chunk = take (importMaxBytes + 1 - up_size item) body in
           case outcome of
             NotOpened \<Rightarrow> (Refused 500 ''INTERNAL'' ''import file unavailable'', ups)
           | BrokeOff n \<Rightarrow>
               (Refused 400 ''BAD_REQUEST'' ''the chunk could not be stored'',
                ups(importID \<mapsto> item\<lparr>up_content := up_content item @ take n chunk\<rparr>))
           | Copied \<Rightarrow>
               (let item1 = item\<lparr>up_content := up_content item @ chunk,
                                 up_size := up_size item + length chunk\<rparr> in
                if importMaxBytes < up_size item1
                then (Refused 413 ''TOO_LARGE'' ''CSV files are limited to 256 MB'', dropUpload importID ups)
                else (Answer 200, ups(importID \<mapsto> item1)))))"

definition discardImport :: "Identity \<Rightarrow> string \<Rightarrow> string \<Rightarrow> uploads \<Rightarrow> response \<times> uploads" where
  "discardImport identity connectionID importID ups =
     (Answer 204,
      if upload ups identity connectionID importID \<noteq> None then dropUpload importID ups else ups)"

text \<open>What an upload counts is within the limit, and it counts no more than its file holds.\<close>

definition upload_ok :: "csvUpload \<Rightarrow> bool" where
  "upload_ok item \<longleftrightarrow> up_size item \<le> length (up_content item) \<and> up_size item \<le> importMaxBytes"

definition uploads_ok :: "uploads \<Rightarrow> bool" where
  "uploads_ok ups \<longleftrightarrow> (\<forall>item \<in> ran ups. upload_ok item)"

lemma uploads_ok_update: "uploads_ok ups \<Longrightarrow> upload_ok item \<Longrightarrow> uploads_ok (ups(k \<mapsto> item))"
  by (auto simp: uploads_ok_def ran_def)

lemma uploads_ok_drop: "uploads_ok ups \<Longrightarrow> uploads_ok (dropUpload k ups)"
  by (auto simp: uploads_ok_def ran_def dropUpload_def)

lemma uploads_ok_expire: "uploads_ok ups \<Longrightarrow> uploads_ok (expire_uploads now ups)"
  by (auto simp: uploads_ok_def ran_def expire_uploads_def split: option.splits if_splits)

lemma start_keeps_uploads_ok:
  "uploads_ok ups \<Longrightarrow> uploads_ok (snd (startImport access identity found now fresh file_error ups))"
  by (auto simp: startImport_def Let_def upload_ok_def split: sum.splits option.splits
      intro: uploads_ok_update uploads_ok_expire)

lemma append_keeps_uploads_ok:
  assumes "uploads_ok ups"
  shows "uploads_ok (snd (appendImport identity cid iid outcome body ups))"
proof (cases "upload ups identity cid iid")
  case (Some item)
  then have "ups iid = Some item" by (auto simp: upload_def split: option.splits if_splits)
  with assms have "upload_ok item" by (auto simp: uploads_ok_def ran_def)
  with Some assms show ?thesis
    by (cases outcome)
      (simp_all add: appendImport_def Let_def upload_ok_def uploads_ok_drop uploads_ok_update)
qed (simp add: appendImport_def assms)

text \<open>
  A chunk whose copy broke off stays in the file although the answer is that it could not be
  stored: the chunk sent once more is there twice.
\<close>

lemma failed_chunk_is_kept:
  assumes "upload ups identity cid iid = Some item" and "up_size item + length body \<le> importMaxBytes"
    and "n \<le> length body"
  shows "map_option up_content (upload (snd (appendImport identity cid iid Copied body
      (snd (appendImport identity cid iid (BrokeOff n) body ups)))) identity cid iid)
    = Some (up_content item @ take n body @ body)"
  using assms by (auto simp: appendImport_def upload_def Let_def split: option.splits if_splits)

subsection \<open>The statements of an import\<close>

record importColumn =
  col_Source :: int
  col_Target :: string

record importInput =
  imp_Schema :: string
  imp_Table :: string
  imp_Database :: string
  imp_Header :: bool
  imp_Delimiter :: string
  imp_NullEmpty :: bool
  imp_Columns :: "importColumn list"

definition importDelimiter :: "string \<Rightarrow> char result" where
  "importDelimiter v =
     (if v = [] then Inr (CHR '','')
      else if v = [CHR 0x5C, CHR ''t''] then Inr (CHR 0x09)
      else (case v of
              [c] \<Rightarrow> if c \<in> {CHR '','', CHR '';'', CHR 0x09, CHR ''|''} then Inr c
                     else Inl ''delimiter must be comma, semicolon, tab or |''
            | _ \<Rightarrow> Inl ''delimiter must be comma, semicolon, tab or |''))"

definition binary_words :: "string list" where
  "binary_words = [''BINARY'', ''BYTEA'', ''BLOB'', ''IMAGE'', ''GEOMETRY'', ''GEOGRAPHY'',
     ''HIERARCHYID'', ''POINT'', ''POLYGON'', ''LINESTRING'', ''MULTIPOINT'', ''COLLECTION'']"

definition importBinaryType :: "unicode \<Rightarrow> string \<Rightarrow> bool" where
  "importBinaryType u dataType =
     (let t = to_upper u dataType in t = ''BIT'' \<or> list_ex (str_contains t) binary_words)"

definition importColumnTypesSQL :: "unicode \<Rightarrow> string \<Rightarrow> string \<Rightarrow> string \<Rightarrow> string" where
  "importColumnTypesSQL u engine schema table =
     (if engine_is u engine {''sqlite''}
      then ''SELECT name, type FROM pragma_table_info('' @ importLiteral u engine table @ '')''
      else
        (let schemaSQL =
              (if schema \<noteq> [] then importLiteral u engine schema
               else if engine_is u engine mysql_engines then ''DATABASE()''
               else if engine_is u engine mssql_engines then ''SCHEMA_NAME()''
               else ''current_schema()'') in
         ''SELECT column_name, data_type FROM information_schema.columns WHERE table_schema = ''
         @ schemaSQL @ '' AND table_name = '' @ importLiteral u engine table))"

text \<open>The check of the columns: each has a name, a source, and no name twice.\<close>

fun columns_ok :: "unicode \<Rightarrow> string list \<Rightarrow> importColumn list \<Rightarrow> bool" where
  "columns_ok u seen [] = True"
| "columns_ok u seen (column # columns) =
     (let key = to_lower u (trim_space (col_Target column)) in
      if key = [] \<or> col_Source column < 0 \<or> key \<in> set seen then False
      else columns_ok u (key # seen) columns)"

definition import_names :: "unicode \<Rightarrow> string \<Rightarrow> importColumn list \<Rightarrow> string list" where
  "import_names u engine columns =
     map (\<lambda>c. QuoteIdentifier u engine (trim_space (col_Target c))) columns"

definition import_prefix :: "unicode \<Rightarrow> string \<Rightarrow> importInput \<Rightarrow> string" where
  "import_prefix u engine input =
     ''INSERT INTO '' @ qualifiedTable u engine (trim_space (imp_Schema input)) (trim_space (imp_Table input))
     @ '' ('' @ str_join '', '' (import_names u engine (imp_Columns input)) @ '') VALUES ''"

text \<open>The statement the policies judge: one row of NULLs.\<close>

definition import_shape :: "unicode \<Rightarrow> string \<Rightarrow> importInput \<Rightarrow> string" where
  "import_shape u engine input =
     import_prefix u engine input @ ''('' @ str_join '', '' (map (\<lambda>_. ''NULL'') (imp_Columns input)) @ '')''"

text \<open>Which columns hold bytes: the later row of the catalog wins.\<close>

definition binary_columns :: "unicode \<Rightarrow> driver_value list list \<Rightarrow> string \<Rightarrow> bool" where
  "binary_columns u rows =
     foldl (\<lambda>m row. case row of
         a # b # _ \<Rightarrow> m(to_lower u (bv_Value (encodeBackupValue u a [])) :=
                          importBinaryType u (bv_Value (encodeBackupValue u b [])))
       | _ \<Rightarrow> m)
       (\<lambda>_. False) rows"

definition hex_columns :: "unicode \<Rightarrow> driver_value list list \<Rightarrow> importColumn list \<Rightarrow> bool list" where
  "hex_columns u rows columns =
     map (\<lambda>c. binary_columns u rows (to_lower u (trim_space (col_Target c)))) columns"

definition import_value :: "unicode \<Rightarrow> string \<Rightarrow> bool \<Rightarrow> string list \<Rightarrow> importColumn \<Rightarrow> bool \<Rightarrow> string" where
  "import_value u engine nullEmpty record column is_hex =
     (let v = (if nat (col_Source column) < length record then record ! nat (col_Source column) else []) in
      if v = [] \<and> nullEmpty then ''NULL''
      else if is_hex \<and> hexText v then hexLiteral u engine (drop 2 v)
      else importLiteral u engine v)"

definition import_row :: "unicode \<Rightarrow> string \<Rightarrow> importInput \<Rightarrow> bool list \<Rightarrow> string list \<Rightarrow> string" where
  "import_row u engine input hex record =
     ''('' @ str_join '', '' (map2 (import_value u engine (imp_NullEmpty input) record) (imp_Columns input) hex) @ '')''"

subsection \<open>The rows and their batches\<close>

definition trim_bom :: "string \<Rightarrow> string" where
  "trim_bom s = (if has_prefix [CHR 0xEF, CHR 0xBB, CHR 0xBF] s then drop 3 s else s)"

text \<open>The rows the loop inserts, each with its number; the first loses the mark and may be the header.\<close>

definition data_rows :: "bool \<Rightarrow> string list list \<Rightarrow> (nat \<times> string list) list" where
  "data_rows header records =
     (let first = (\<lambda>r. case r of [] \<Rightarrow> [] | f # fs \<Rightarrow> trim_bom f # fs);
          rows = (case records of [] \<Rightarrow> [] | r # rs \<Rightarrow> first r # rs);
          numbered = enumerate 1 rows in
      filter (\<lambda>(line, r). r \<noteq> [[]]) (if header then drop 1 numbered else numbered))"

definition importBatchRows :: nat where
  "importBatchRows = 500"

definition importBatchBytes :: nat where
  "importBatchBytes = 512 * 1024"

definition add_row :: "string \<Rightarrow> string \<Rightarrow> nat \<Rightarrow> string \<Rightarrow> string" where
  "add_row pre batch n row = (if n = 0 then batch @ pre else batch @ '', '') @ row"

definition batch_full :: "nat \<Rightarrow> string \<Rightarrow> bool" where
  "batch_full n batch \<longleftrightarrow> importBatchRows \<le> n \<or> importBatchBytes \<le> length batch"

text \<open>
  The loop over the rows: the batches that were sent and, where one failed, the line reached and
  the error. \<open>k\<close> counts the batches, \<open>batch\<close> and \<open>n\<close> are the open batch and its rows,
  \<open>line_count\<close> the number of records of the file.
\<close>

fun import_loop ::
  "string \<Rightarrow> (nat \<Rightarrow> string \<Rightarrow> string option) \<Rightarrow> nat \<Rightarrow> string \<Rightarrow> nat \<Rightarrow> nat \<Rightarrow> (nat \<times> string) list \<Rightarrow>
   string list \<times> (nat \<times> string) option" where
  "import_loop pre runs k batch n line_count [] =
     (if n = 0 then ([], None)
      else ([batch], map_option (Pair line_count) (runs k batch)))"
| "import_loop pre runs k batch n line_count ((line, row) # rows) =
     (let batch1 = add_row pre batch n row in
      if batch_full (Suc n) batch1
      then (case runs k batch1 of
              Some e \<Rightarrow> ([batch1], Some (line, e))
            | None \<Rightarrow> apfst ((#) batch1) (import_loop pre runs (Suc k) [] 0 line_count rows))
      else import_loop pre runs k batch1 (Suc n) line_count rows)"

subsection \<open>The import\<close>

datatype import_event =
    ImportRecorded activity
  | ImportAnswered response
  | BeganTransaction
  | SentBatch string
  | CommittedTransaction
  | RolledBackTransaction
  | WroteRows "string option list list"

text \<open>What answers an import: beside the \<open>world\<close>, the catalog, the file and the transaction.\<close>

record import_world =
  iw_types :: "driver_value list list result"
  iw_opened :: bool
  iw_begin :: "string option"
  iw_batch :: "nat \<Rightarrow> string \<Rightarrow> string option"
  iw_commit :: bool

definition import_refuse :: "nat \<Rightarrow> string \<Rightarrow> string \<Rightarrow> import_event list" where
  "import_refuse code name message = [ImportAnswered (Refused code name message)]"

definition import_record :: "string \<Rightarrow> string \<Rightarrow> int \<Rightarrow> string \<Rightarrow> string \<Rightarrow> import_event" where
  "import_record sql st rows decision policyID =
     ImportRecorded \<lparr>act_SQL = sql, act_Status = st, act_Rows = rows, act_Decision = decision,
       act_PolicyID = policyID, act_Reference = []\<rparr>"

text \<open>The transaction, from \<open>Begin\<close> to the answer.\<close>

definition run_batches ::
  "unicode \<Rightarrow> import_world \<Rightarrow> string \<Rightarrow> importInput \<Rightarrow> char \<Rightarrow> driver_value list list \<Rightarrow> string \<Rightarrow>
   import_event list" where
  "run_batches u iw engine input delimiter types content =
     (let records = csv_records delimiter content;
          rows = data_rows (imp_Header input) records;
          shape = import_shape u engine input;
          texts = map (apsnd (import_row u engine input (hex_columns u types (imp_Columns input)))) rows in
      case import_loop (import_prefix u engine input) (iw_batch iw) 0 [] 0 (length records) texts of
        (batches, Some (line, e)) \<Rightarrow>
          BeganTransaction # map SentBatch batches
          @ [import_record shape ''error'' 0 ''allow'' []]
          @ import_refuse 502 ''EXEC_ERROR'' (''rows up to CSV line '' @ decimal (int line) @ '': '' @ e)
          @ [RolledBackTransaction]
      | (batches, None) \<Rightarrow>
          BeganTransaction # map SentBatch batches
          @ (if iw_commit iw
             then [CommittedTransaction,
                   import_record (''-- CSV import: '' @ decimal (int (length rows)) @ '' rows'' @ [CHR 0x0A] @ shape)
                     ''success'' (int (length rows)) ''allow'' [],
                   ImportAnswered (Answer 200)]
             else import_refuse 502 ''EXEC_ERROR'' ''the import could not be committed''
                  @ [RolledBackTransaction]))"

text \<open>Routing, the column types, the file: what follows an allowing verdict.\<close>

definition import_allowed ::
  "server \<Rightarrow> 'row world \<Rightarrow> import_world \<Rightarrow> Identity \<Rightarrow> Connection \<Rightarrow> importInput \<Rightarrow> char \<Rightarrow> Info \<Rightarrow>
   string \<Rightarrow> import_event list" where
  "import_allowed s w iw identity connection input delimiter info content =
     (case fst (routedEngineConnection (srv_access s) (w_topology w) identity connection
                  (Some ''primary'') (Some info) (w_nodes w)) of
        Inl e \<Rightarrow> import_refuse 502 ''EXEC_ERROR'' (route_message e)
      | Inr (node, _) \<Rightarrow>
          (case w_target w node of
             Some e \<Rightarrow> import_refuse 502 ''EXEC_ERROR'' e
           | None \<Rightarrow>
               (case iw_types iw of
                  Inl e \<Rightarrow> import_refuse 502 ''EXEC_ERROR''
                    (''the column types of the table could not be read: '' @ e)
                | Inr types \<Rightarrow>
                    (if \<not> iw_opened iw then import_refuse 500 ''INTERNAL'' ''import file unavailable''
                     else (case iw_begin iw of
                             Some e \<Rightarrow> import_refuse 502 ''EXEC_ERROR'' e
                           | None \<Rightarrow> run_batches (srv_tables s) iw (conn_Engine connection) input delimiter
                                      types content)))))"

text \<open>The verdict on the shape; the row limit plays no part, so custom policies start from none.\<close>

definition import_verdict ::
  "server \<Rightarrow> 'row world \<Rightarrow> Identity \<Rightarrow> AccessRole \<Rightarrow> Connection \<Rightarrow> Info \<Rightarrow> Decision result" where
  "import_verdict s w identity role connection info =
     bind_result (w_policies w) (\<lambda>table.
       (let r = resolvePolicies (srv_tables s) table identity connection;
            decision = Evaluate (srv_rules s) (policy_input role connection info False r)
        in if srv_shared s \<and> IsAdmin identity then Inr decision
           else bind_result (w_custom w) (\<lambda>custom.
             Inr (fst (applyCustomPolicies (srv_tables s) (srv_customRules s) (w_minute w) custom identity
                         connection info False decision 0)))))"

text \<open>
  \<open>runCassandraImport\<close> writes batches of 50 rows one by one, without a transaction; the first
  list is what was written. A row that is too short ends it; \<open>n\<close> counts the rows read.
\<close>

definition cassandraImportBatchRows :: nat where
  "cassandraImportBatchRows = 50"

definition cassandra_row :: "importInput \<Rightarrow> string list \<Rightarrow> string option list option" where
  "cassandra_row input record =
     (if list_ex (\<lambda>c. int (length record) \<le> col_Source c) (imp_Columns input) then None
      else Some (map (\<lambda>c. let v = record ! nat (col_Source c) in
                         if imp_NullEmpty input \<and> v = [] then None else Some v) (imp_Columns input)))"

fun cassandra_loop ::
  "importInput \<Rightarrow> (nat \<Rightarrow> string option) \<Rightarrow> nat \<Rightarrow> string option list list \<Rightarrow> nat \<Rightarrow> string list list \<Rightarrow>
   string option list list list \<times> nat \<times> string option" where
  "cassandra_loop input runs k batch n [] =
     (if batch = [] then ([], n, None)
      else (case runs k of Some e \<Rightarrow> ([], n, Some e) | None \<Rightarrow> ([batch], n, None)))"
| "cassandra_loop input runs k batch n (record # records) =
     (case cassandra_row input record of
        None \<Rightarrow> ([], n, Some (''CSV row '' @ decimal (int n + 1) @ '' has too few columns''))
      | Some row \<Rightarrow>
          (let batch1 = batch @ [row] in
           if cassandraImportBatchRows \<le> length batch1
           then (case runs k of
                   Some e \<Rightarrow> ([], Suc n, Some e)
                 | None \<Rightarrow> apfst ((#) batch1) (cassandra_loop input runs (Suc k) [] (Suc n) records))
           else cassandra_loop input runs k batch1 (Suc n) records))"

definition cassandra_import ::
  "unicode \<Rightarrow> import_world \<Rightarrow> string option \<Rightarrow> string \<Rightarrow> importInput \<Rightarrow> char \<Rightarrow> string \<Rightarrow>
   string option list list list \<times> import_event list" where
  "cassandra_import u iw opened engine input delimiter content =
     (if \<not> iw_opened iw then ([], import_refuse 500 ''INTERNAL'' ''import file unavailable'')
      else (case opened of
        Some e \<Rightarrow> ([], import_refuse 502 ''EXEC_ERROR'' e)
      | None \<Rightarrow>
          (let records = csv_records delimiter content;
               rows = (if imp_Header input then drop 1 records else records);
               shape = import_shape u engine input in
           case cassandra_loop input (\<lambda>k. iw_batch iw k []) 0 [] 0 rows of
             (written, n, Some e) \<Rightarrow>
               (written, import_record shape ''error'' (int n) ''allow'' [] # import_refuse 502 ''EXEC_ERROR'' e)
           | (written, n, None) \<Rightarrow>
               (written, [import_record shape ''success'' (int n) ''allow'' [], ImportAnswered (Answer 200)]))))"

definition import_judged ::
  "server \<Rightarrow> 'row world \<Rightarrow> import_world \<Rightarrow> Identity \<Rightarrow> Connection \<Rightarrow> importInput \<Rightarrow> char \<Rightarrow>
   string \<Rightarrow> Info \<Rightarrow> import_event list" where
  "import_judged s w iw identity connection input delimiter content info =
     (case role_of (srv_access s) (UserID identity) of
        Inl _ \<Rightarrow> import_refuse 401 ''UNAUTHORIZED'' ''role missing''
      | Inr role \<Rightarrow>
          (case import_verdict s w identity role connection info of
             Inl _ \<Rightarrow> import_refuse 500 ''INTERNAL'' ''governance rules unavailable''
           | Inr decision \<Rightarrow>
               (if Effect decision \<noteq> Allow
                then [import_record (import_shape (srv_tables s) (conn_Engine connection) input)
                        ''blocked'' 0 ''deny'' (PolicyID decision),
                      ImportAnswered (Refused 403 ''POLICY_DENIED'' (Reason decision))]
                else if conn_Engine connection = ''cassandra''
                then (case cassandra_import (srv_tables s) iw (iw_begin iw) (conn_Engine connection)
                              input delimiter content of
                        (written, evs) \<Rightarrow> map WroteRows written @ evs)
                else import_allowed s w iw identity connection input delimiter info content)))"

text \<open>\<open>input\<close> is the decoded body, \<open>None\<close> where it is not valid JSON.\<close>

definition runImport ::
  "server \<Rightarrow> 'row world \<Rightarrow> import_world \<Rightarrow> Identity \<Rightarrow> Connection option \<Rightarrow> string \<Rightarrow>
   importInput option \<Rightarrow> uploads \<Rightarrow> parse_cache \<Rightarrow> (import_event list \<times> uploads) \<times> parse_cache" where
  "runImport s w iw identity found importID decoded ups c =
     (let u = srv_tables s in
      case authorizedConnection (srv_access s) identity found of
        Inl refusal \<Rightarrow> (([ImportAnswered refusal], ups), c)
      | Inr connection \<Rightarrow>
          (if \<not> cap_CSVImport (EngineCapabilities (conn_Engine connection))
           then (([ImportAnswered csv_import_refusal], ups), c)
           else case upload ups identity (conn_ID connection) importID of
             None \<Rightarrow> ((import_refuse 404 ''NOT_FOUND'' ''import not found'', ups), c)
           | Some item \<Rightarrow>
               (let finish = (\<lambda>evs. (evs, dropUpload importID ups)) in
                case decoded of
                  None \<Rightarrow> (finish (import_refuse 400 ''BAD_REQUEST'' ''invalid JSON request''), c)
                | Some input \<Rightarrow>
                    (case importDelimiter (imp_Delimiter input) of
                       Inl e \<Rightarrow> (finish (import_refuse 400 ''BAD_REQUEST'' e), c)
                     | Inr delimiter \<Rightarrow>
                         (if trim_space (imp_Table input) = [] \<or> imp_Columns input = []
                          then (finish (import_refuse 400 ''BAD_REQUEST'' ''choose a table and at least one column''), c)
                          else if \<not> columns_ok u [] (imp_Columns input)
                          then (finish (import_refuse 400 ''BAD_REQUEST''
                                  ''each table column can be filled from one CSV column''), c)
                          else (case ParseDialect u DialectGeneric
                                       (import_shape u (conn_Engine connection) input) c of
                                  ((_, Some e), c') \<Rightarrow> (finish (import_refuse 400 ''PARSE_ERROR'' e), c')
                                | ((info, None), c') \<Rightarrow>
                                    (finish (import_judged s w iw identity connection input delimiter
                                       (up_content item) info), c')))))))"

end
