(* ===== verification/Import_Properties.thy ===== *)
theory Import_Properties
  imports Csv_Import Query_Properties
begin

section \<open>The properties of an import\<close>

subsection \<open>The batches\<close>

definition batch_of :: "string \<Rightarrow> string list \<Rightarrow> string" where
  "batch_of pre rows = pre @ str_join '', '' rows"

definition open_batch :: "string \<Rightarrow> string list \<Rightarrow> string" where
  "open_batch pre rows = (if rows = [] then [] else batch_of pre rows)"

lemma str_join_snoc: "rows \<noteq> [] \<Longrightarrow> str_join sep (rows @ [row]) = str_join sep rows @ sep @ row"
proof (induction rows rule: induct_list012)
  case (3 x y zs)
  then show ?case by (cases zs) auto
qed simp_all

lemma open_batch_simps [simp]:
  "open_batch pre [] = []"
  "open_batch pre (rows @ [row]) = batch_of pre (rows @ [row])"
  by (simp_all add: open_batch_def)

lemma add_row_batch: "add_row pre (open_batch pre rows) (length rows) row = batch_of pre (rows @ [row])"
  by (cases "rows = []") (simp_all add: add_row_def open_batch_def batch_of_def str_join_snoc)

text \<open>\<open>chunked pre rows chunks\<close>: batches of at most 500 rows, which together are a beginning of the rows.\<close>

definition chunks_ok :: "string list list \<Rightarrow> bool" where
  "chunks_ok chunks \<longleftrightarrow> list_all (\<lambda>c. c \<noteq> [] \<and> length c \<le> importBatchRows) chunks"

text \<open>Together they are all the rows, or a beginning of them.\<close>

definition covers :: "bool \<Rightarrow> string list list \<Rightarrow> string list \<Rightarrow> bool" where
  "covers finished chunks rows \<longleftrightarrow>
     (if finished then concat chunks = rows else prefix (concat chunks) rows)"

lemma import_loop_chunks:
  assumes "length rows0 < importBatchRows"
    and "import_loop pre taken k (open_batch pre rows0) (length rows0) line_count rows = (batches, failed)"
  shows "\<exists>chunks. batches = map (batch_of pre) chunks \<and> chunks_ok chunks
    \<and> covers (failed = None) chunks (rows0 @ map snd rows)"
  using assms
proof (induction rows arbitrary: rows0 k batches failed)
  case Nil
  then show ?case
    by (auto simp: chunks_ok_def covers_def open_batch_def split: if_splits intro!: exI [of _ "[rows0]"])
next
  case (Cons r rows)
  obtain line row where r: "r = (line, row)" by fastforce
  let ?rows1 = "rows0 @ [row]"
  have full: "length ?rows1 \<le> importBatchRows" using Cons(2) by simp
  show ?case
  proof (cases "batch_full (Suc (length rows0)) (batch_of pre ?rows1)")
    case False
    then have "length ?rows1 < importBatchRows" by (simp add: batch_full_def)
    from Cons(1) [OF this, of k batches failed] Cons(3) False r show ?thesis
      by (simp add: add_row_batch Let_def)
  next
    case True
    show ?thesis
    proof (cases "taken k (batch_of pre ?rows1)")
      case (Some e)
      with True Cons(3) r full show ?thesis
        by (auto simp: add_row_batch Let_def chunks_ok_def covers_def prefix_def intro!: exI [of _ "[?rows1]"])
    next
      case None
      with True Cons(3) r obtain later where later: "batches = batch_of pre ?rows1 # later"
        "import_loop pre taken (Suc k) (open_batch pre []) (length ([] :: string list)) line_count rows = (later, failed)"
        by (cases "import_loop pre taken (Suc k) [] 0 line_count rows") (auto simp: add_row_batch Let_def)
      have "length ([] :: string list) < importBatchRows" by (simp add: importBatchRows_def)
      from Cons(1) [OF this later(2)] obtain chunks where "later = map (batch_of pre) chunks" "chunks_ok chunks"
        "covers (failed = None) chunks (map snd rows)" by auto
      with later(1) full r show ?thesis
        by (auto simp: chunks_ok_def covers_def split: if_splits intro!: exI [of _ "?rows1 # chunks"])
    qed
  qed
qed

lemma import_loop_accepted:
  "import_loop pre taken k batch n line_count rows = (batches, failed) \<Longrightarrow>
     failed = None \<longleftrightarrow> list_all2 (\<lambda>j b. taken j b = None) [k ..< k + length batches] batches"
proof (induction pre taken k batch n line_count rows arbitrary: batches failed rule: import_loop.induct)
  case (1 pre taken k batch n line_count)
  then show ?case by (auto split: if_splits)
next
  case (2 pre taken k batch n line_count line row rows)
  let ?b = "add_row pre batch n row"
  show ?case
  proof (cases "batch_full (Suc n) ?b")
    case False
    with 2 show ?thesis by (simp add: Let_def)
  next
    case full: True
    show ?thesis
    proof (cases "taken k ?b")
      case (Some e)
      with 2(3) full show ?thesis by (auto simp: Let_def)
    next
      case None
      with 2(3) full obtain later where "batches = ?b # later"
        "import_loop pre taken (Suc k) [] 0 line_count rows = (later, failed)"
        by (cases "import_loop pre taken (Suc k) [] 0 line_count rows") (auto simp: Let_def)
      with 2(1) [OF refl full None this(2)] None show ?thesis by (simp add: upt_conv_Cons del: upt_Suc)
    qed
  qed
qed

definition sent_batches :: "import_event list \<Rightarrow> string list" where
  "sent_batches evs = List.map_filter (\<lambda>e. case e of SentBatch b \<Rightarrow> Some b | _ \<Rightarrow> None) evs"

lemma sent_batches_simps [simp]:
  "sent_batches [] = []"
  "sent_batches (e # evs) = (case e of SentBatch b \<Rightarrow> b # sent_batches evs | _ \<Rightarrow> sent_batches evs)"
  "sent_batches (xs @ ys) = sent_batches xs @ sent_batches ys"
  "sent_batches (map SentBatch bs) = bs"
  by (auto simp: sent_batches_def List.map_filter_def comp_def split: import_event.splits)

lemma sent_batches_comp [simp]: "sent_batches (map (SentBatch \<circ> f) xs) = map f xs"
  by (induction xs) simp_all

lemma sent_is_not_commit [simp]: "CommittedTransaction \<in> (\<lambda>x. SentBatch (f x)) ` A \<longleftrightarrow> False"
  by auto

definition import_rows ::
  "unicode \<Rightarrow> string \<Rightarrow> importInput \<Rightarrow> char \<Rightarrow> driver_value list list \<Rightarrow> string \<Rightarrow> string list" where
  "import_rows u engine input delimiter types content =
     map (import_row u engine input (hex_columns u types (imp_Columns input)) \<circ> snd)
       (data_rows (imp_Header input) (csv_records delimiter content))"

lemma run_batches_chunks:
  fixes u iw engine input delimiter types content
  defines "evs \<equiv> run_batches u iw engine input delimiter types content"
  shows "(CommittedTransaction \<in> set evs \<longleftrightarrow> RolledBackTransaction \<notin> set evs)
    \<and> (CommittedTransaction \<in> set evs \<longleftrightarrow> ImportAnswered (Answer 200) \<in> set evs)
    \<and> (\<exists>chunks. sent_batches evs = map (batch_of (import_prefix u engine input)) chunks
        \<and> chunks_ok chunks
        \<and> covers (CommittedTransaction \<in> set evs) chunks
             (import_rows u engine input delimiter types content))"
proof -
  let ?records = "csv_records delimiter content"
  let ?texts = "map (apsnd (import_row u engine input (hex_columns u types (imp_Columns input))))
      (data_rows (imp_Header input) ?records)"
  obtain batches failed where loop:
    "import_loop (import_prefix u engine input) (iw_batch iw) 0 [] 0 (length ?records) ?texts = (batches, failed)"
    by fastforce
  have rows: "map snd ?texts = import_rows u engine input delimiter types content"
    by (simp add: import_rows_def comp_def)
  from import_loop_chunks [of "[]" "import_prefix u engine input" "iw_batch iw" 0 "length ?records" ?texts
      batches failed] loop
  obtain chunks where chunks: "batches = map (batch_of (import_prefix u engine input)) chunks" "chunks_ok chunks"
    "covers (failed = None) chunks (import_rows u engine input delimiter types content)"
    unfolding rows by (auto simp: importBatchRows_def)
  note unfold = evs_def run_batches_def Let_def loop import_record_def import_refuse_def
  show ?thesis
  proof (cases failed)
    case None
    with chunks show ?thesis
      by (cases "iw_commit iw") (auto simp: unfold covers_def intro!: exI [of _ chunks])
  next
    case (Some f)
    obtain line e where "failed = Some (line, e)" using Some by (cases f) simp
    with chunks show ?thesis by (auto simp: unfold intro!: exI [of _ chunks])
  qed
qed

lemma run_batches_accepted:
  fixes u iw engine input delimiter types content
  defines "evs \<equiv> run_batches u iw engine input delimiter types content"
  shows "CommittedTransaction \<in> set evs
    \<longleftrightarrow> iw_commit iw \<and> list_all2 (\<lambda>k b. iw_batch iw k b = None) [0 ..< length (sent_batches evs)] (sent_batches evs)"
proof -
  let ?records = "csv_records delimiter content"
  let ?texts = "map (apsnd (import_row u engine input (hex_columns u types (imp_Columns input))))
      (data_rows (imp_Header input) ?records)"
  obtain batches failed where loop:
    "import_loop (import_prefix u engine input) (iw_batch iw) 0 [] 0 (length ?records) ?texts = (batches, failed)"
    by fastforce
  note unfold = evs_def run_batches_def Let_def loop import_record_def import_refuse_def
  from import_loop_accepted [OF loop] show ?thesis
    by (cases failed; cases "iw_commit iw") (auto simp: unfold)
qed

text \<open>C16: an import is all or nothing. Whatever the database answers, the transaction is either
  committed or rolled back, and the client is told of success exactly when it was committed, which
  it is exactly when the database took every batch and the commit;
  then the batches sent hold every row of the file, in its order and once, and none holds more
  than 500; before a rollback they hold a beginning of them.\<close>

theorem import_is_all_or_nothing:
  fixes u iw engine input delimiter types content
  defines "evs \<equiv> run_batches u iw engine input delimiter types content"
  shows "(CommittedTransaction \<in> set evs \<longleftrightarrow> RolledBackTransaction \<notin> set evs)
    \<and> (CommittedTransaction \<in> set evs \<longleftrightarrow> ImportAnswered (Answer 200) \<in> set evs)
    \<and> (CommittedTransaction \<in> set evs \<longleftrightarrow> iw_commit iw
        \<and> list_all2 (\<lambda>k b. iw_batch iw k b = None) [0 ..< length (sent_batches evs)] (sent_batches evs))
    \<and> (\<exists>chunks. sent_batches evs = map (batch_of (import_prefix u engine input)) chunks
        \<and> chunks_ok chunks
        \<and> covers (CommittedTransaction \<in> set evs) chunks
             (import_rows u engine input delimiter types content))"
  unfolding evs_def
  using run_batches_chunks [of u iw engine input delimiter types content]
    run_batches_accepted [of u iw engine input delimiter types content] by blast

subsection \<open>What is sent is what was judged, up to the data\<close>

definition lexes_some :: "unicode \<Rightarrow> dialect \<Rightarrow> string \<Rightarrow> bool" where
  "lexes_some u d s \<longleftrightarrow> (\<exists>ts. lexes u d s ts)"

lemma lexes_someI: "lexes u d s ts \<Longrightarrow> lexes_some u d s"
  by (auto simp: lexes_some_def)

lemma lexes_some_separated:
  "separates u d sep ts' \<Longrightarrow> lexes_some u d s \<Longrightarrow> lexes_some u d s' \<Longrightarrow> lexes_some u d (s @ sep @ s')"
  using lexes_separated unfolding lexes_some_def by blast

lemma lexes_some_parens: "lexes_some u d s \<Longrightarrow> lexes_some u d (''('' @ s @ '')'')"
  using lexes_parens unfolding lexes_some_def by blast

lemma lexes_some_word: "word_start c \<Longrightarrow> list_all is_ident w \<Longrightarrow> lexes_some u d (c # w)"
  by (rule lexes_someI, rule lexes_word)

lemma lexes_some_join:
  "list_all (lexes_some u d) parts \<Longrightarrow> parts \<noteq> [] \<Longrightarrow> lexes_some u d (str_join '', '' parts)"
proof (induction parts rule: induct_list012)
  case (3 x y zs)
  with lexes_some_separated [OF separates_comma, of u d x "str_join '', '' (y # zs)"] show ?case by simp
qed simp_all

lemma lexes_some_name: "lexes_some u d (QuoteIdentifier u engine n)"
  by (rule lexes_someI, rule lexes_identifier)

lemma lexes_some_table: "lexes_some u d (qualifiedTable u engine schema table)"
proof -
  note name = lexes_some_name
  have "lexes_some u d (QuoteIdentifier u engine schema @ ''.'' @ QuoteIdentifier u engine table)"
    by (rule lexes_some_separated [OF separates_mark name name]) simp
  with name show ?thesis by (simp add: qualifiedTable_def Let_def)
qed

definition import_head :: "unicode \<Rightarrow> string \<Rightarrow> importInput \<Rightarrow> string" where
  "import_head u engine input =
     ''INSERT'' @ '' '' @ ''INTO'' @ '' ''
     @ qualifiedTable u engine (trim_space (imp_Schema input)) (trim_space (imp_Table input))
     @ '' '' @ (''('' @ str_join '', '' (import_names u engine (imp_Columns input)) @ '')'') @ '' '' @ ''VALUES''"

lemma import_prefix_head: "import_prefix u engine input = import_head u engine input @ '' ''"
  by (simp add: import_prefix_def import_head_def)

lemma lexes_some_head:
  assumes "imp_Columns input \<noteq> []"
  shows "lexes_some u d (import_head u engine input)"
proof -
  have names: "lexes_some u d (str_join '', '' (import_names u engine (imp_Columns input)))"
    using assms by (intro lexes_some_join) (auto simp: import_names_def list_all_iff lexes_some_name)
  have word: "lexes_some u d ''INSERT''" "lexes_some u d ''INTO''" "lexes_some u d ''VALUES''"
    by (intro lexes_some_word; simp add: word_start_def char_class)+
  note step = lexes_some_separated [OF separates_space]
  show ?thesis
    unfolding import_head_def by (intro step word lexes_some_table lexes_some_parens names)
qed

lemma lexes_data_value:
  assumes "backslash_escapes d \<longrightarrow> engine_is u engine mysql_engines"
  shows "lexes_data u d (import_value u engine nullEmpty record column is_hex)"
  using data_null data_hex [OF _ assms] data_literal [OF assms] by (simp add: import_value_def Let_def)

lemma lexes_data_row:
  assumes "backslash_escapes d \<longrightarrow> engine_is u engine mysql_engines"
    and "imp_Columns input \<noteq> []" and "length hex = length (imp_Columns input)"
  shows "lexes_data u d (import_row u engine input hex record)"
proof -
  have "list_all (lexes_data u d) (map2 (import_value u engine (imp_NullEmpty input) record) (imp_Columns input) hex)"
    using lexes_data_value [OF assms(1)] by (auto simp: list_all_iff)
  moreover have "map2 (import_value u engine (imp_NullEmpty input) record) (imp_Columns input) hex \<noteq> []"
    using assms(2,3) by (cases hex) (auto simp: neq_Nil_conv)
  ultimately show ?thesis
    unfolding import_row_def by (intro lexes_data_parens lexes_data_join)
qed

lemma LexDialect_lexes: "lexes u d s ts \<Longrightarrow> LexDialect u d s = Inr (ts 0 0)"
proof -
  assume "lexes u d s ts"
  then have "breaks [] \<longrightarrow> lex_loop u d 0 0 0 (s @ [])
      = bind_result (lex_loop u d (0 + length s) 0 0 []) (\<lambda>out. Inr (ts 0 0 @ out))"
    unfolding lexes_def by blast
  then show ?thesis by (simp add: LexDialect_def breaks_def)
qed

definition import_head_tokens :: "unicode \<Rightarrow> dialect \<Rightarrow> string \<Rightarrow> importInput \<Rightarrow> Token list" where
  "import_head_tokens u d engine input =
     (case LexDialect u d (import_head u engine input) of Inr ts \<Rightarrow> ts | Inl _ \<Rightarrow> [])"

lemma lex_after_head:
  assumes "imp_Columns input \<noteq> []" and "lexes_data u d s"
  shows "\<exists>ds. LexDialect u d (import_prefix u engine input @ s) = Inr (import_head_tokens u d engine input @ ds)
    \<and> list_all (data_token 0) ds"
proof -
  obtain ts where head: "lexes u d (import_head u engine input) ts"
    using lexes_some_head [OF assms(1)] unfolding lexes_some_def by blast
  obtain ds where ds: "lexes u d s ds" "\<And>i depth. list_all (data_token depth) (ds i depth)"
    using assms(2) by (auto simp: lexes_data_def)
  have "import_head_tokens u d engine input = ts 0 0"
    using LexDialect_lexes [OF head] by (simp add: import_head_tokens_def)
  with LexDialect_lexes [OF lexes_separated [OF head separates_space ds(1)]] ds(2) show ?thesis
    by (auto simp: import_prefix_head)
qed

text \<open>C6: an import runs what was judged. For every dialect the guard may read it in, each batch that
  is sent and the statement that was judged begin with the same tokens, those of the table and the
  columns, and then hold only parentheses, commas, NULLs and values, outside every name; so no
  byte of the file is read as SQL, whatever it is.\<close>

theorem import_sends_only_data:
  assumes "backslash_escapes d \<longrightarrow> engine_is u engine mysql_engines"
    and "imp_Columns input \<noteq> []"
    and "b \<in> set (sent_batches (run_batches u iw engine input delimiter types content))"
  shows "\<exists>data nulls. LexDialect u d b = Inr (import_head_tokens u d engine input @ data)
    \<and> LexDialect u d (import_shape u engine input) = Inr (import_head_tokens u d engine input @ nulls)
    \<and> list_all (data_token 0) data \<and> list_all (data_token 0) nulls"
proof -
  let ?rows = "import_rows u engine input delimiter types content"
  obtain chunks fin where chunks: "sent_batches (run_batches u iw engine input delimiter types content)
      = map (batch_of (import_prefix u engine input)) chunks" "chunks_ok chunks" "covers fin chunks ?rows"
    using run_batches_chunks by blast
  with assms(3) obtain c where c: "c \<in> set chunks" "b = batch_of (import_prefix u engine input) c" by auto
  have "set c \<subseteq> set (concat chunks)" using c(1) by auto
  also have "\<dots> \<subseteq> set ?rows"
    using chunks(3) by (auto simp: covers_def simp del: set_concat dest: set_mono_prefix split: if_splits)
  finally have "set c \<subseteq> set ?rows" .
  then have "list_all (lexes_data u d) c"
    using lexes_data_row [OF assms(1,2)] by (auto simp: list_all_iff import_rows_def hex_columns_def)
  moreover have "c \<noteq> []" using c(1) chunks(2) by (auto simp: chunks_ok_def list_all_iff)
  ultimately have b: "lexes_data u d (str_join '', '' c)" by (rule lexes_data_join)
  have "lexes_data u d (str_join '', '' (map (\<lambda>_. ''NULL'') (imp_Columns input)))"
    using assms(2) data_null by (intro lexes_data_join) (auto simp: list_all_iff)
  from lex_after_head [OF assms(2) lexes_data_parens [OF this]] lex_after_head [OF assms(2) b]
  show ?thesis by (fastforce simp: c(2) batch_of_def import_shape_def)
qed

definition sample_import :: importInput where
  "sample_import = \<lparr>imp_Schema = [], imp_Table = ''t'', imp_Database = [], imp_Header = False,
     imp_Delimiter = [], imp_NullEmpty = False, imp_Columns = [\<lparr>col_Source = 0, col_Target = ''c''\<rparr>]\<rparr>"

definition willing_database :: import_world where
  "willing_database = \<lparr>iw_types = Inr [], iw_opened = True, iw_begin = None, iw_batch = (\<lambda>_ _. None),
     iw_commit = True\<rparr>"

definition sample_batch :: string where
  "sample_batch = ''INSERT INTO '' @ [CHR 0x22] @ ''t'' @ [CHR 0x22] @ '' ('' @ [CHR 0x22] @ ''c'' @ [CHR 0x22]
     @ '') VALUES ('' @ [CHR 0x27] @ ''a;b'' @ [CHR 0x27] @ '')''"

lemma sample_sent:
  "sent_batches (run_batches ascii_tables willing_database ''postgres'' sample_import (CHR '','') []
     (''a;b'' @ [CHR 0x0A])) = [sample_batch]"
proof -
  have "csv_records (CHR '','') (''a;b'' @ [CHR 0x0A]) = [[''a;b'']]" by code_simp
  then show ?thesis
    by (simp add: run_batches_def sample_import_def willing_database_def data_rows_def trim_bom_def
        hex_columns_def binary_columns_def add_row_def batch_full_def importBatchRows_def
        importBatchBytes_def import_prefix_def import_names_def qualifiedTable_def QuoteIdentifier_def
        engine_is_def mysql_engines_def mssql_engines_def low_simps import_row_def import_value_def
        importLiteral_def sample_batch_def Let_def import_record_def import_refuse_def trim_space_def
        ascii_space_def)
qed

lemma import_sends_only_data_witness:
  "\<exists>data. LexDialect ascii_tables DialectPostgres sample_batch
     = Inr (import_head_tokens ascii_tables DialectPostgres ''postgres'' sample_import @ data)
     \<and> list_all (data_token 0) data"
  using import_sends_only_data [of DialectPostgres ascii_tables "''postgres''" sample_import sample_batch
      willing_database "CHR '',''" "[]" "''a;b'' @ [CHR 0x0A]"] sample_sent
  by (auto simp: backslash_escapes_def sample_import_def)

subsection \<open>What is exported is imported\<close>

text \<open>CSV survives the way there and back. What the writer of the exports makes of records, the
  reader of the imports reads as the same records, whatever their fields hold, as long as no
  record is empty or one empty field and no field has a line end of two bytes.\<close>

lemma csv_round_trip:
  assumes "csv_delimiter d" and "list_all csv_record_kept rs" and "list_all (list_all no_crlf) rs"
  shows "csv_records d (csv_text d rs) = rs"
  by (rule csv_records_text [OF assms])

lemma csv_round_trip_witness:
  "csv_records (CHR '','') (csv_text (CHR '','') [[''a,b'', [CHR 0x22, CHR 0x0A]], [[], ''c'']])
     = [[''a,b'', [CHR 0x22, CHR 0x0A]], [[], ''c'']]"
  by (rule csv_round_trip) (simp_all add: csv_delimiter_def csv_record_kept_def)

text \<open>
  A record of one empty field is written as an empty line, which the reader skips; and the byte
  order mark is taken off after the first record has been split, so a quoted field behind it is
  not read as one.
\<close>

lemma empty_field_lost: "csv_records (CHR '','') (csv_text (CHR '','') [[''a''], [[]], [''b'']]) = [[''a''], [''b'']]"
  by code_simp

lemma bom_hides_quote:
  "data_rows False (csv_records (CHR '','')
      ([CHR 0xEF, CHR 0xBB, CHR 0xBF] @ csv_text (CHR '','') [[''a,b'', ''c'']]))
    = [(1, [CHR 0x22 # ''a'', ''b'' @ [CHR 0x22], ''c''])]"
  by code_simp

subsection \<open>An import is governed\<close>

text \<open>Nothing is imported unchecked. When an import opens a transaction, or writes rows into
  Cassandra, its caller may use the connection and made the upload for it, the insert was
  parsed, and the guardrails and custom policies resolved for the caller allow it; and the
  upload is gone afterwards.\<close>

lemma imports_are_governed:
  assumes "runImport s w iw identity found importID decoded ups c = ((evs, ups'), c')"
    and "BeganTransaction \<in> set evs \<or> WroteRows rows \<in> set evs"
  shows "\<exists>connection item input info role decision.
    authorizedConnection (srv_access s) identity found = Inr connection
    \<and> upload ups identity (conn_ID connection) importID = Some item
    \<and> decoded = Some input
    \<and> fst (ParseDialect (srv_tables s) DialectGeneric
          (import_shape (srv_tables s) (conn_Engine connection) input) c) = (info, None)
    \<and> role_of (srv_access s) (UserID identity) = Inr role
    \<and> import_verdict s w identity role connection info = Inr decision
    \<and> Effect decision = Allow \<and> ups' importID = None"
proof -
  let ?u = "srv_tables s"
  have no_refusal: "\<not> (BeganTransaction \<in> set (import_refuse n m t) \<or> WroteRows rows \<in> set (import_refuse n m t))"
    "\<not> (BeganTransaction \<in> set [ImportAnswered r] \<or> WroteRows rows \<in> set [ImportAnswered r])" for n m t r
    by (simp_all add: import_refuse_def)
  note run = assms(1) [unfolded runImport_def Let_def]
  obtain connection where 1: "authorizedConnection (srv_access s) identity found = Inr connection"
    using run assms(2) no_refusal by (cases "authorizedConnection (srv_access s) identity found") auto
  have 2: "cap_CSVImport (EngineCapabilities (conn_Engine connection))"
    using run assms(2) no_refusal by (rule_tac ccontr) (auto simp: 1)
  obtain item where 3: "upload ups identity (conn_ID connection) importID = Some item"
    using run assms(2) no_refusal by (cases "upload ups identity (conn_ID connection) importID") (auto simp: 1 2)
  obtain input where 4: "decoded = Some input"
    using run assms(2) no_refusal by (cases decoded) (auto simp: 1 2 3)
  obtain delimiter where 5: "importDelimiter (imp_Delimiter input) = Inr delimiter"
    using run assms(2) no_refusal by (cases "importDelimiter (imp_Delimiter input)") (auto simp: 1 2 3 4)
  have 6: "\<not> (trim_space (imp_Table input) = [] \<or> imp_Columns input = [])" "columns_ok ?u [] (imp_Columns input)"
    using run assms(2) no_refusal by (auto simp: 1 2 3 4 5 split: if_splits)
  obtain info err c1 where 7: "ParseDialect ?u DialectGeneric (import_shape ?u (conn_Engine connection) input) c
      = ((info, err), c1)" by (metis surj_pair)
  have 8: "err = None"
    using run assms(2) no_refusal by (cases err) (auto simp: 1 2 3 4 5 6 7)
  have evs: "evs = import_judged s w iw identity connection input delimiter (up_content item) info"
    and ups: "ups' = dropUpload importID ups"
    using run by (auto simp: 1 2 3 4 5 6 7 8)
  obtain role where 9: "role_of (srv_access s) (UserID identity) = Inr role"
    using evs assms(2) no_refusal
    by (cases "role_of (srv_access s) (UserID identity)") (auto simp: import_judged_def)
  obtain decision where 10: "import_verdict s w identity role connection info = Inr decision"
    using evs assms(2) no_refusal
    by (cases "import_verdict s w identity role connection info") (auto simp: import_judged_def 9)
  have 11: "Effect decision = Allow"
    using evs assms(2) by (rule_tac ccontr) (auto simp: import_judged_def import_record_def 9 10)
  show ?thesis
    using 1 3 4 7 8 9 10 11 ups by (auto simp: dropUpload_def)
qed

definition kept_upload :: csvUpload where
  "kept_upload = \<lparr>up_userID = ''u'', up_connectionID = ''c'', up_content = ''a'' @ [CHR 0x0A], up_size = 2, up_created = 0\<rparr>"

definition cassandra_connection :: Connection where
  "cassandra_connection = plain_connection\<lparr>conn_Engine := ''cassandra''\<rparr>"

lemma import_example:
  "list_ex (\<lambda>e. case e of WroteRows rows \<Rightarrow> rows = [[Some ''a'']] | _ \<Rightarrow> False)
     (fst (fst (runImport plain_server plain_world willing_database plain_identity (Some cassandra_connection) ''i''
        (Some sample_import) ((\<lambda>_. None)(''i'' := Some kept_upload)) empty_cache)))"
  by code_simp

lemma imports_are_governed_witness:
  "\<exists>info. fst (ParseDialect ascii_tables DialectGeneric (import_shape ascii_tables ''cassandra'' sample_import)
      empty_cache) = (info, None)"
proof -
  obtain evs ups c where run: "runImport plain_server plain_world willing_database plain_identity
      (Some cassandra_connection) ''i'' (Some sample_import) ((\<lambda>_. None)(''i'' := Some kept_upload)) empty_cache
      = ((evs, ups), c)" by (metis surj_pair)
  with import_example have "list_ex (\<lambda>e. case e of WroteRows rows \<Rightarrow> rows = [[Some ''a'']] | _ \<Rightarrow> False) evs" by simp
  then obtain e where "e \<in> set evs" "case e of WroteRows rows \<Rightarrow> rows = [[Some ''a'']] | _ \<Rightarrow> False"
    by (auto simp: list_ex_iff)
  then have "WroteRows [[Some ''a'']] \<in> set evs" by (cases e rule: import_event.exhaust) auto
  with imports_are_governed [OF run] obtain connection item input info where
    "authorizedConnection (srv_access plain_server) plain_identity (Some cassandra_connection) = Inr connection"
    "Some sample_import = Some input"
    "fst (ParseDialect (srv_tables plain_server) DialectGeneric
       (import_shape (srv_tables plain_server) (conn_Engine connection) input) empty_cache) = (info, None)" by blast
  then show ?thesis
    by (auto simp: authorizedConnection_def plain_server_def plain_connection_def cassandra_connection_def split: if_splits)
qed

end
