(* ===== verification/Cassandra.thy ===== *)
theory Cassandra
  imports Csv_Import Cql
begin

section \<open>Cassandra: one CQL statement, and exporting one (api/cassandra.go, api/export.go)\<close>

text \<open>
  Both handlers parse with \<open>ParseCQL\<close> and judge with the guardrails; \<open>cw_query\<close> is the engine's
  answer to a statement with a limit, \<open>cw_opened\<close> the error of opening the connection.
\<close>

record cassandra_result =
  cr_columns :: "string list"
  cr_rows :: "driver_value list list"
  cr_affected :: int
  cr_truncated :: bool

record cassandra_world =
  cw_opened :: "string option"
  cw_query :: "string \<Rightarrow> int \<Rightarrow> string + cassandra_result"
  cw_backup :: "Info \<Rightarrow> backup_note"
  cw_exportable :: "response option"
  cw_object :: "string \<Rightarrow> bool"

record cassandraInput =
  cas_Query :: string
  cas_Limit :: int
  cas_Backup :: bool

datatype cassandra_answer = CqlRefused response | CqlRows cassandra_result

definition cassandra_limit :: "int \<Rightarrow> int \<Rightarrow> int" where
  "cassandra_limit rowLimit limit = (if 0 < rowLimit \<and> rowLimit < limit then rowLimit else limit)"

definition cassandra_run ::
  "server \<Rightarrow> cassandra_world \<Rightarrow> cassandraInput \<Rightarrow> Info \<Rightarrow> Connection \<Rightarrow> int \<Rightarrow> int \<Rightarrow>
   cassandra_answer \<times> driver_value list event list" where
  "cassandra_run s cw input info connection limit timeout =
     (case cw_opened cw of
        Some e \<Rightarrow> (CqlRefused (Refused 502 ''EXEC_ERROR'' e), [])
      | None \<Rightarrow>
          (case (if cas_Backup input then cw_backup cw info else NoBackup) of
             BackupBlocked reason \<Rightarrow> (CqlRefused (Refused 409 ''BACKUP_UNAVAILABLE'' reason), [])
           | note \<Rightarrow>
               (let ran = (if note = BackupTaken then [BackedUp] else [])
                        @ [RanQuery OnPool (cas_Query input) (withConnectionTimeout connection timeout (10 * 60))] in
                case cw_query cw (cas_Query input) limit of
                  Inl e \<Rightarrow>
                    (CqlRefused (Refused 502 ''EXEC_ERROR'' e),
                     ran @ discard_backup (note = BackupTaken)
                     @ [recordActivity (cas_Query input) ''error'' 0 ''allow'' [] []])
                | Inr result \<Rightarrow>
                    (CqlRows result,
                     ran @ (if Kind info = DDL then [ForgotSchema] else [])
                     @ [recordActivity (cas_Query input) ''success''
                          (max (int (length (cr_rows result))) (cr_affected result)) ''allow'' [] []]))))"

definition cassandra_judged ::
  "server \<Rightarrow> driver_value list world \<Rightarrow> cassandra_world \<Rightarrow> Identity \<Rightarrow> Connection \<Rightarrow> cassandraInput \<Rightarrow>
   Info \<Rightarrow> int \<Rightarrow> cassandra_answer \<times> driver_value list event list" where
  "cassandra_judged s w cw identity connection input info limit =
     (case role_of (srv_access s) (UserID identity) of
        Inl _ \<Rightarrow> (CqlRefused (Refused 401 ''UNAUTHORIZED'' ''role missing''), [])
      | Inr role \<Rightarrow>
          (case w_policies w of
             Inl _ \<Rightarrow> (CqlRefused (Refused 500 ''INTERNAL'' ''policies unavailable''), [])
           | Inr table \<Rightarrow>
               (let r = resolvePolicies (srv_tables s) table identity connection;
                    limit1 = cassandra_limit (res_rowLimit r) limit in
                case judge s w identity role connection info False (srv_shared s \<and> IsAdmin identity) of
                  Inl _ \<Rightarrow> (CqlRefused (Refused 500 ''INTERNAL'' ''governance rules unavailable''), [])
                | Inr (decision, rowLimit, timeout) \<Rightarrow>
                    (if Effect decision \<noteq> Allow
                     then (CqlRefused (Refused 403 ''POLICY_DENIED'' (Reason decision)),
                           [recordActivity (cas_Query input) ''blocked'' 0 ''deny'' (PolicyID decision) []])
                     else cassandra_run s cw input info connection (cassandra_limit rowLimit limit1) timeout))))"

definition cassandraQuery ::
  "server \<Rightarrow> driver_value list world \<Rightarrow> cassandra_world \<Rightarrow> Identity \<Rightarrow> Connection option \<Rightarrow>
   cassandraInput option \<Rightarrow> parse_cache \<Rightarrow>
   (cassandra_answer \<times> driver_value list event list) \<times> parse_cache" where
  "cassandraQuery s w cw identity found decoded c =
     (case authorizedConnection (srv_access s) identity found of
        Inl refusal \<Rightarrow> ((CqlRefused refusal, []), c)
      | Inr connection \<Rightarrow>
          (if conn_Engine connection \<noteq> ''cassandra''
           then ((CqlRefused (Refused 400 ''BAD_REQUEST'' ''connection is not Cassandra''), []), c)
           else case decoded of
             None \<Rightarrow> ((CqlRefused (Refused 400 ''BAD_REQUEST'' ''invalid JSON request''), []), c)
           | Some input \<Rightarrow>
               (case ParseCQL (srv_tables s) (cas_Query input) c of
                  ((_, Some e), c') \<Rightarrow>
                    ((CqlRefused (Refused 400 ''PARSE_ERROR'' e),
                      [recordActivity (cas_Query input) ''parse_error'' 0 ''deny'' ''parse_error'' []]), c')
                | ((info, None), c') \<Rightarrow>
                    (let limit = (if cas_Limit input = 0 then 1000 else cas_Limit input) in
                     if Kind info = Session
                     then ((CqlRefused (Refused 400 ''SESSION_CONTROL_UNSUPPORTED''
                        ''session-control CQL is not supported; choose the keyspace in the database selector''), []), c')
                     else if limit < 1 \<or> 10000 < limit
                     then ((CqlRefused (Refused 400 ''BAD_REQUEST'' ''limit must be between 1 and 10000''), []), c')
                     else (cassandra_judged s w cw identity connection input info limit, c')))))"

end
