(* ===== verification/Export.thy ===== *)
theory Export
  imports Cassandra
begin

section \<open>Exporting a result (api/export.go, and the parts of api/scheduler.go it shares)\<close>

text \<open>
  \<open>openGovernedSelect\<close> opens one SELECT with the checks of the editor; \<open>writeRows\<close> writes its
  rows to a file as CSV, JSON or INSERT statements. A row is a list of the driver's values.
  \<open>disk k\<close> says whether the k-th write to the file succeeds, \<open>encode\<close> is \<open>json.Marshal\<close> of the
  row's object.
\<close>

subsection \<open>The rows of a file\<close>

definition sprint :: "driver_value \<Rightarrow> string" where
  "sprint v =
     (case v of
        NilV \<Rightarrow> ''<nil>''
      | BoolV b \<Rightarrow> (if b then ''true'' else ''false'')
      | IntV i \<Rightarrow> decimal i
      | FloatV _ _ _ p \<Rightarrow> p
      | BytesV b \<Rightarrow> b
      | TextV t \<Rightarrow> t
      | TimeV _ _ _ \<Rightarrow> []
      | OtherV t \<Rightarrow> t)"

text \<open>A format: what opens the file, what stands for the n-th row, and what closes it after n rows.\<close>

record row_format =
  fmt_open :: "string list"
  fmt_row :: "nat \<Rightarrow> driver_value list \<Rightarrow> string result"
  fmt_close :: "nat \<Rightarrow> string"

record written =
  wr_text :: string
  wr_rows :: nat
  wr_truncated :: bool
  wr_error :: "string option"

text \<open>The loop the formats share: the limit is looked at before the next row is asked for.\<close>

fun write_loop ::
  "row_format \<Rightarrow> (nat \<Rightarrow> bool) \<Rightarrow> (driver_value list \<Rightarrow> driver_value list) \<Rightarrow> int \<Rightarrow> nat \<Rightarrow>
   driver_value list list \<Rightarrow> string option \<Rightarrow> written" where
  "write_loop f disk tr limit n [] ending =
     \<lparr>wr_text = [], wr_rows = n, wr_truncated = 0 < limit \<and> limit \<le> int n,
      wr_error = (if 0 < limit \<and> limit \<le> int n then None else ending)\<rparr>"
| "write_loop f disk tr limit n (row # rows) ending =
     (if 0 < limit \<and> limit \<le> int n
      then \<lparr>wr_text = [], wr_rows = n, wr_truncated = True, wr_error = None\<rparr>
      else
        (case fmt_row f n (tr row) of
           Inl e \<Rightarrow> \<lparr>wr_text = [], wr_rows = n, wr_truncated = False, wr_error = Some e\<rparr>
         | Inr t \<Rightarrow>
             (if \<not> disk n
              then \<lparr>wr_text = [], wr_rows = n, wr_truncated = False, wr_error = Some ''write error''\<rparr>
              else (let r = write_loop f disk tr limit (Suc n) rows ending in
                    r\<lparr>wr_text := t @ wr_text r\<rparr>))))"

definition write_rows_with ::
  "row_format \<Rightarrow> (nat \<Rightarrow> bool) \<Rightarrow> (driver_value list \<Rightarrow> driver_value list) \<Rightarrow> int \<Rightarrow>
   driver_value list list \<Rightarrow> string option \<Rightarrow> written" where
  "write_rows_with f disk tr limit rows ending =
     (let r = write_loop f disk tr limit 0 rows ending in
      if wr_error r \<noteq> None then r
      else r\<lparr>wr_text := concat (fmt_open f) @ wr_text r @ fmt_close f (wr_rows r)\<rparr>)"

definition csv_record :: "string list \<Rightarrow> driver_value list \<Rightarrow> string list" where
  "csv_record columns row =
     map (\<lambda>i. if i < length row \<and> row ! i \<noteq> NilV then sprint (fileValue (row ! i)) else [])
       [0 ..< length columns]"

definition bom :: string where
  "bom = [CHR 0xEF, CHR 0xBB, CHR 0xBF]"

definition csv_format :: "string list \<Rightarrow> row_format" where
  "csv_format columns =
     \<lparr>fmt_open = [bom, csv_line (CHR '','') columns],
      fmt_row = (\<lambda>n row. Inr (csv_line (CHR '','') (csv_record columns row))),
      fmt_close = (\<lambda>_. [])\<rparr>"

definition json_fields :: "string list \<Rightarrow> driver_value list \<Rightarrow> (string \<times> driver_value) list" where
  "json_fields columns row = zip columns (map fileValue row)"

definition json_format ::
  "((string \<times> driver_value) list \<Rightarrow> string result) \<Rightarrow> string list \<Rightarrow> row_format" where
  "json_format encode columns =
     \<lparr>fmt_open = [''['' @ [CHR 0x0A]],
      fmt_row = (\<lambda>n row. bind_result (encode (json_fields columns row))
                   (\<lambda>t. Inr ((if 0 < n then '','' @ [CHR 0x0A] else []) @ t))),
      fmt_close = (\<lambda>_. [CHR 0x0A] @ '']'' @ [CHR 0x0A])\<rparr>"

text \<open>\<open>writeInsertRows\<close>: 200 rows to a statement.\<close>

definition insertBatch :: nat where
  "insertBatch = 200"

definition insert_values :: "unicode \<Rightarrow> string \<Rightarrow> string list \<Rightarrow> driver_value list \<Rightarrow> string list" where
  "insert_values u engine columns row =
     map (\<lambda>i. sqlValueLiteral u engine (if i < length row then row ! i else NilV)) [0 ..< length columns]"

definition insert_format :: "unicode \<Rightarrow> string \<Rightarrow> string \<Rightarrow> string list \<Rightarrow> row_format" where
  "insert_format u engine table columns =
     (let pre = ''INSERT INTO '' @ table @ '' ('' @ str_join '', '' (map (QuoteIdentifier u engine) columns)
                @ '') VALUES'' @ [CHR 0x0A] in
      \<lparr>fmt_open = [],
       fmt_row = (\<lambda>n row. Inr
         ((if n mod insertBatch = 0 then pre else '','' @ [CHR 0x0A])
          @ ''  ('' @ str_join '', '' (insert_values u engine columns row) @ '')''
          @ (if Suc n mod insertBatch = 0 then '';'' @ [CHR 0x0A] else []))),
       fmt_close = (\<lambda>n. if n mod insertBatch = 0 then [] else '';'' @ [CHR 0x0A])\<rparr>)"

definition format_of ::
  "unicode \<Rightarrow> ((string \<times> driver_value) list \<Rightarrow> string result) \<Rightarrow> string \<Rightarrow> string \<Rightarrow> string \<Rightarrow>
   string list \<Rightarrow> row_format" where
  "format_of u encode format engine table columns =
     (if format = ''sql'' then insert_format u engine table columns
      else if format = ''json'' then json_format encode columns
      else csv_format columns)"

definition writeRows ::
  "unicode \<Rightarrow> ((string \<times> driver_value) list \<Rightarrow> string result) \<Rightarrow> (nat \<Rightarrow> bool) \<Rightarrow> string \<Rightarrow> string \<Rightarrow> string \<Rightarrow>
   string list \<Rightarrow> (driver_value list \<Rightarrow> driver_value list) \<Rightarrow> int \<Rightarrow> driver_value list list \<Rightarrow>
   string option \<Rightarrow> written" where
  "writeRows u encode disk format engine table columns tr limit rows ending =
     write_rows_with (format_of u encode format engine table columns) disk tr limit rows ending"

text \<open>\<open>fileSlug\<close>: letters and digits of the lower-cased name, everything else one dash.\<close>

fun slug_loop :: "bool \<Rightarrow> bool \<Rightarrow> string \<Rightarrow> string" where
  "slug_loop dash started [] = []"
| "slug_loop dash started (c # s) =
     (if is_lower c \<or> is_digit c then c # slug_loop False True s
      else if \<not> dash \<and> started then CHR ''-'' # slug_loop True True s
      else slug_loop dash started s)"

definition trim_dashes :: "string \<Rightarrow> string" where
  "trim_dashes s = rev (dropWhile ((=) (CHR ''-'')) (rev (dropWhile ((=) (CHR ''-'')) s)))"

definition fileSlug :: "unicode \<Rightarrow> string \<Rightarrow> string" where
  "fileSlug u name =
     (let slug = trim_dashes (slug_loop False False (to_lower u name)) in
      if slug = [] then ''query''
      else if 60 < length slug then trim_dashes (take 60 slug) else slug)"

subsection \<open>One governed SELECT\<close>

record selected =
  sel_rows :: "driver_value list list"
  sel_error :: "string option"
  sel_limit :: int
  sel_decision :: Decision

datatype select_error = SelectBlocked string | SelectFailed string

definition SupportsScheduledSQL :: "string \<Rightarrow> bool" where
  "SupportsScheduledSQL name \<longleftrightarrow>
     name \<notin> {''mongodb'', ''redis'', ''valkey'', ''cassandra'', ''elasticsearch''}"

definition openGovernedSelect ::
  "server \<Rightarrow> driver_value list world \<Rightarrow> Identity \<Rightarrow> AccessRole \<Rightarrow> Connection \<Rightarrow> string \<Rightarrow> int \<Rightarrow>
   parse_cache \<Rightarrow> ((select_error + selected) \<times> driver_value list event list) \<times> parse_cache" where
  "openGovernedSelect s w identity role connection sql fallback c =
     (let failed = (\<lambda>e. (Inl (SelectFailed e), [])) in
      case ParseDialect (srv_tables s) (dialect_for_engine (srv_tables s) (conn_Engine connection)) sql c of
        ((_, Some e), c') \<Rightarrow> (failed e, c')
      | ((info, None), c') \<Rightarrow>
          (if Kind info \<noteq> Select then (failed ''only one SELECT statement can run here'', c')
           else
             (case judge s w identity role connection info False (srv_shared s \<and> IsAdmin identity) of
                Inl _ \<Rightarrow> (failed ''governance rules unavailable'', c')
              | Inr (decision, rowLimit, policyTimeout) \<Rightarrow>
                  (if Effect decision \<noteq> Allow
                   then ((Inl (SelectBlocked (Reason decision)),
                          [recordActivity sql ''blocked'' 0 ''deny'' (PolicyID decision) []]), c')
                   else
                     (case prepareStatement s identity (ar_ID role) connection info c' of
                        ((_, Some e), c'') \<Rightarrow> (failed e, c'')
                      | ((prepared, None), c'') \<Rightarrow>
                          (case fst (routedEngineConnection (srv_access s) (w_topology w) identity connection
                                       None (Some prepared) (w_nodes w)) of
                             Inl e \<Rightarrow> (failed (route_message e), c'')
                           | Inr (node, _) \<Rightarrow>
                               (case w_target w node of
                                  Some e \<Rightarrow> (failed e, c'')
                                | None \<Rightarrow>
                                    (let ran = RanQuery OnPool (Raw prepared)
                                           (withConnectionTimeout connection policyTimeout fallback) in
                                     case w_query w (Raw prepared) of
                                       Inl e \<Rightarrow>
                                         ((Inl (SelectFailed e),
                                           [ran, recordActivity sql ''error'' 0 ''allow'' (PolicyID decision) []]), c'')
                                     | Inr st \<Rightarrow>
                                         (case w_result w of
                                            Some e \<Rightarrow> ((Inl (SelectFailed e), [ran]), c'')
                                          | None \<Rightarrow>
                                              ((Inr \<lparr>sel_rows = stream_rows st, sel_error = stream_error st,
                                                     sel_limit = rowLimit, sel_decision = decision\<rparr>, [ran]), c''))))))))))"

text \<open>The closure \<open>finish\<close>.\<close>

definition finish_select :: "string \<Rightarrow> selected \<Rightarrow> nat \<Rightarrow> string option \<Rightarrow> 'row event" where
  "finish_select sql sel rows err =
     recordActivity sql (if err = None then ''success'' else ''error'') (int rows) ''allow''
       (PolicyID (sel_decision sel)) []"

subsection \<open>The export\<close>

record exportInput =
  exp_Database :: string
  exp_Schema :: string
  exp_Table :: string
  exp_SQL :: string
  exp_Format :: string

record export_file =
  ef_name :: string
  ef_text :: string
  ef_rows :: nat
  ef_truncated :: bool

text \<open>The machine that writes the file: whether it could be made, each write, the final flush.\<close>

record export_disk =
  ed_created :: bool
  ed_write :: "nat \<Rightarrow> bool"
  ed_flushed :: bool
  ed_encode :: "(string \<times> driver_value) list \<Rightarrow> string result"
  ed_columns :: "string list"

definition trim_export :: "exportInput \<Rightarrow> exportInput" where
  "trim_export i = i\<lparr>exp_Table := trim_space (exp_Table i), exp_Schema := trim_space (exp_Schema i),
     exp_Database := trim_space (exp_Database i), exp_SQL := trim_space (exp_SQL i)\<rparr>"

definition format_supported :: "Capabilities \<Rightarrow> string \<Rightarrow> bool" where
  "format_supported capabilities format \<longleftrightarrow>
     (format = ''sql'' \<longrightarrow> cap_SQLExport capabilities) \<and> (format = ''cql'' \<longrightarrow> cap_CQLExport capabilities)
     \<and> (format = ''csv'' \<longrightarrow> cap_CSVExport capabilities) \<and> (format = ''json'' \<longrightarrow> cap_JSONExport capabilities)"

definition export_sql :: "unicode \<Rightarrow> string \<Rightarrow> exportInput \<Rightarrow> string" where
  "export_sql u engine input =
     (if exp_SQL input \<noteq> [] then exp_SQL input
      else ''SELECT * FROM '' @ qualifiedTable u engine (exp_Schema input) (exp_Table input))"

definition export_target :: "unicode \<Rightarrow> string \<Rightarrow> exportInput \<Rightarrow> string" where
  "export_target u engine input =
     qualifiedTable u engine (exp_Schema input)
       (if exp_Table input \<noteq> [] then exp_Table input else ''exported_rows'')"

definition export_selected ::
  "server \<Rightarrow> driver_value list world \<Rightarrow> export_disk \<Rightarrow> Connection \<Rightarrow> exportInput \<Rightarrow> string \<Rightarrow> selected \<Rightarrow>
   (response + export_file) \<times> driver_value list event list" where
  "export_selected s w disk connection input sql sel =
     (if \<not> ed_created disk
      then (Inl (Refused 500 ''INTERNAL'' ''the export file could not be created''),
            [finish_select sql sel 0 (Some ''create'')])
      else
        (let out = writeRows (srv_tables s) (ed_encode disk) (ed_write disk) (exp_Format input)
               (conn_Engine connection) (export_target (srv_tables s) (conn_Engine connection) input)
               (ed_columns disk) (transform (w_client w)) (sel_limit sel) (sel_rows sel) (sel_error sel);
             err = (case wr_error out of Some e \<Rightarrow> Some e
                    | None \<Rightarrow> if ed_flushed disk then None else Some ''write error'') in
         (case err of
            Some e \<Rightarrow> Inl (Refused 502 ''EXEC_ERROR'' e)
          | None \<Rightarrow> Inr \<lparr>ef_name = (if exp_SQL input \<noteq> [] then ''query-result''
                                     else fileSlug (srv_tables s) (exp_Table input)),
                          ef_text = wr_text out, ef_rows = wr_rows out, ef_truncated = wr_truncated out\<rparr>,
          [finish_select sql sel (wr_rows out) err])))"

definition export_rejected :: "exportInput \<Rightarrow> bool" where
  "export_rejected input \<longleftrightarrow> exp_Table input = [] \<and> exp_SQL input = []
     \<or> exp_Format input \<notin> {''csv'', ''json'', ''sql'', ''cql''}"

subsection \<open>Cassandra\<close>

definition cql_quote :: "string \<Rightarrow> string" where
  "cql_quote v = [CHR 0x22] @ double_char (CHR 0x22) v @ [CHR 0x22]"

text \<open>\<open>writeCassandraCQL\<close>: each row is one text, the JSON object of the row.\<close>

fun cql_inserts :: "(string \<Rightarrow> bool) \<Rightarrow> string \<Rightarrow> nat \<Rightarrow> driver_value list list \<Rightarrow> string result" where
  "cql_inserts is_object target k [] = Inr []"
| "cql_inserts is_object target k (row # rows) =
     (case row of
        [TextV v] \<Rightarrow>
          (if \<not> is_object v then Inl (''Cassandra returned invalid JSON for row '' @ decimal (int k + 1))
           else bind_result (cql_inserts is_object target (Suc k) rows) (\<lambda>rest.
             Inr (''INSERT INTO '' @ target @ '' JSON '' @ [CHR 0x27] @ double_char (CHR 0x27) v @ [CHR 0x27]
                  @ '' DEFAULT UNSET;'' @ [CHR 0x0A] @ rest)))
      | [_] \<Rightarrow> Inl (''Cassandra returned a non-text JSON row '' @ decimal (int k + 1))
      | _ \<Rightarrow> Inl (''Cassandra returned '' @ decimal (int (length row)) @ '' columns for JSON row ''
                 @ decimal (int k + 1)))"

definition writeCassandraCQL ::
  "(string \<Rightarrow> bool) \<Rightarrow> string \<Rightarrow> string \<Rightarrow> driver_value list list \<Rightarrow> bool \<Rightarrow> string result" where
  "writeCassandraCQL is_object keyspace table rows was_truncated =
     bind_result (cql_inserts is_object (cql_quote keyspace @ ''.'' @ cql_quote table) 0 rows) (\<lambda>body.
       Inr (''-- Cassandra CQL INSERT JSON export. TTL and write timestamps are not preserved.'' @ [CHR 0x0A]
            @ (if was_truncated
               then ''-- Truncated at the configured row limit; this is not a complete table backup.'' @ [CHR 0x0A]
               else []) @ body))"

definition cassandra_text ::
  "cassandra_world \<Rightarrow> ((string \<times> driver_value) list list \<Rightarrow> string) \<Rightarrow> string \<Rightarrow> string \<Rightarrow> string \<Rightarrow>
   cassandra_result \<Rightarrow> string result" where
  "cassandra_text cw encode_all format keyspace table result =
     (if format = ''json'' then Inr (encode_all (map (zip (cr_columns result)) (cr_rows result)))
      else if format = ''csv'' then
        Inr (csv_text (CHR '','') (cr_columns result # map (map sprint) (cr_rows result)))
      else if format = ''cql'' then
        writeCassandraCQL (cw_object cw) keyspace table (cr_rows result) (cr_truncated result)
      else Inr [])"

definition export_keyspace :: "Connection \<Rightarrow> exportInput \<Rightarrow> string" where
  "export_keyspace connection input =
     (if exp_Schema input \<noteq> [] then exp_Schema input
      else if exp_Database input \<noteq> [] then exp_Database input else conn_Database connection)"

definition export_cql :: "string \<Rightarrow> exportInput \<Rightarrow> string" where
  "export_cql keyspace input =
     (if exp_SQL input \<noteq> [] then exp_SQL input
      else (if exp_Format input = ''cql'' then ''SELECT JSON * FROM '' else ''SELECT * FROM '')
           @ cql_quote keyspace @ ''.'' @ cql_quote (exp_Table input))"

text \<open>After the verdict: the limit, the connection, the check of a CQL export, the statement, the file.\<close>

definition cassandra_file ::
  "server \<Rightarrow> cassandra_world \<Rightarrow> ((string \<times> driver_value) list list \<Rightarrow> string) \<Rightarrow> exportInput \<Rightarrow>
   string \<Rightarrow> string \<Rightarrow> int \<Rightarrow> int \<Rightarrow> (response + export_file) \<times> driver_value list event list" where
  "cassandra_file s cw encode_all input keyspace query limit timeout =
     (let failed = (\<lambda>e. Inl (Refused 502 ''EXEC_ERROR'' e)) in
      case cw_opened cw of
        Some e \<Rightarrow> (failed e, [])
      | None \<Rightarrow>
          (case (if exp_Format input = ''cql'' then cw_exportable cw else None) of
             Some refusal \<Rightarrow> (Inl refusal, [])
           | None \<Rightarrow>
               (case cw_query cw query limit of
                  Inl e \<Rightarrow> (failed e, [RanQuery OnPool query timeout])
                | Inr result \<Rightarrow>
                    (case cassandra_text cw encode_all (exp_Format input) keyspace (exp_Table input) result of
                       Inl e \<Rightarrow> (failed e, [RanQuery OnPool query timeout])
                     | Inr t \<Rightarrow>
                         (Inr \<lparr>ef_name = (if exp_SQL input \<noteq> [] then ''query-result''
                                          else fileSlug (srv_tables s) (exp_Table input)),
                               ef_text = t, ef_rows = length (cr_rows result),
                               ef_truncated = cr_truncated result\<rparr>, [RanQuery OnPool query timeout])))))"

text \<open>Nothing of it is recorded.\<close>

definition exportCassandra ::
  "server \<Rightarrow> driver_value list world \<Rightarrow> cassandra_world \<Rightarrow> ((string \<times> driver_value) list list \<Rightarrow> string) \<Rightarrow>
   Identity \<Rightarrow> Connection \<Rightarrow> AccessRole \<Rightarrow> exportInput \<Rightarrow> parse_cache \<Rightarrow>
   ((response + export_file) \<times> driver_value list event list) \<times> parse_cache" where
  "exportCassandra s w cw encode_all identity connection role input c =
     (let keyspace = export_keyspace connection input;
          query = export_cql keyspace input in
      if keyspace = []
      then ((Inl (Refused 400 ''BAD_REQUEST'' ''a keyspace is required for Cassandra export''), []), c)
      else if exp_Format input = ''cql'' \<and> (exp_Table input = [] \<or> exp_SQL input \<noteq> [])
      then ((Inl (Refused 400 ''BAD_REQUEST'' ''CQL INSERT export requires a base table''), []), c)
      else
        (case ParseCQL (srv_tables s) query c of
           ((info, err), c') \<Rightarrow>
             (if err \<noteq> None \<or> Kind info \<noteq> Select
              then ((Inl (Refused 400 ''BAD_REQUEST'' ''export requires one CQL SELECT''), []), c')
              else
                (case w_policies w of
                   Inl _ \<Rightarrow> ((Inl (Refused 500 ''INTERNAL'' ''policies unavailable''), []), c')
                 | Inr table \<Rightarrow>
                     (let r = resolvePolicies (srv_tables s) table identity connection;
                          decision = Evaluate (srv_rules s) (policy_input role connection info False r);
                          limit = (if res_rowLimit r \<le> 0 \<or> 10000 < res_rowLimit r then 10000 else res_rowLimit r)
                      in if Effect decision \<noteq> Allow
                         then ((Inl (Refused 403 ''POLICY_DENIED'' (Reason decision)), []), c')
                         else (cassandra_file s cw encode_all input keyspace query limit
                                 (withConnectionTimeout connection (res_queryTimeout r) (30 * 60)), c'))))))"

definition exportTable ::
  "server \<Rightarrow> driver_value list world \<Rightarrow> cassandra_world \<Rightarrow> export_disk \<Rightarrow>
   ((string \<times> driver_value) list list \<Rightarrow> string) \<Rightarrow> Identity \<Rightarrow> Connection option \<Rightarrow> exportInput option \<Rightarrow>
   parse_cache \<Rightarrow> ((response + export_file) \<times> driver_value list event list) \<times> parse_cache" where
  "exportTable s w cw disk encode_all identity found decoded c =
     (case authorizedConnection (srv_access s) identity found of
        Inl refusal \<Rightarrow> ((Inl refusal, []), c)
      | Inr connection \<Rightarrow>
          (case decoded of
             None \<Rightarrow> ((Inl (Refused 400 ''BAD_REQUEST'' ''invalid JSON request''), []), c)
           | Some raw \<Rightarrow>
               (let input = trim_export raw;
                    sql = export_sql (srv_tables s) (conn_Engine connection) input in
                if export_rejected input
                then ((Inl (Refused 400 ''BAD_REQUEST''
                        ''a table or a SELECT, and a csv, json, sql or cql format, are required''), []), c)
                else if \<not> format_supported (EngineCapabilities (conn_Engine connection)) (exp_Format input)
                then ((Inl (Refused 400 ''UNSUPPORTED''
                        (to_upper (srv_tables s) (exp_Format input) @ '' export is not available for this engine'')), []), c)
                else (case role_of (srv_access s) (UserID identity) of
                        Inl _ \<Rightarrow> ((Inl (Refused 401 ''UNAUTHORIZED'' ''role missing''), []), c)
                      | Inr role \<Rightarrow>
                          (if conn_Engine connection = ''cassandra''
                           then exportCassandra s w cw encode_all identity connection role input c
                           else
                             (case openGovernedSelect s w identity role connection sql (30 * 60) c of
                                ((Inl (SelectBlocked reason), evs), c') \<Rightarrow>
                                  ((Inl (Refused 403 ''POLICY_DENIED'' reason), evs), c')
                              | ((Inl (SelectFailed e), evs), c') \<Rightarrow>
                                  ((Inl (Refused 502 ''EXEC_ERROR'' e), evs), c')
                              | ((Inr sel, evs), c') \<Rightarrow>
                                  (case export_selected s w disk connection input sql sel of
                                     (answer, done) \<Rightarrow> ((answer, evs @ done), c'))))))))"

end
