(* ===== verification/Export_Properties.thy ===== *)
theory Export_Properties
  imports Export Import_Properties
begin

section \<open>The properties of an export\<close>

subsection \<open>What a file holds\<close>

definition rows_kept :: "int \<Rightarrow> nat \<Rightarrow> nat \<Rightarrow> nat" where
  "rows_kept limit n available = (if 0 < limit then min (nat limit - n) available else available)"

lemma write_loop_counts:
  "0 < limit \<longrightarrow> int n \<le> limit \<Longrightarrow>
   wr_error (write_loop f disk tr limit n rows ending) = None \<Longrightarrow>
     wr_rows (write_loop f disk tr limit n rows ending) = n + rows_kept limit n (length rows)
     \<and> (wr_truncated (write_loop f disk tr limit n rows ending) \<longleftrightarrow> 0 < limit \<and> limit \<le> int (n + length rows))"
proof (induction rows arbitrary: n)
  case Nil
  then show ?case by (auto simp: rows_kept_def)
next
  case (Cons row rows)
  show ?case
  proof (cases "0 < limit \<and> limit \<le> int n")
    case True
    with Cons(2,3) show ?thesis by (auto simp: rows_kept_def)
  next
    case False
    with Cons(3) obtain t where "fmt_row f n (tr row) = Inr t" "disk n"
      "wr_error (write_loop f disk tr limit (Suc n) rows ending) = None"
      by (auto simp: Let_def split: sum.splits if_splits)
    with Cons(1) [of "Suc n"] False show ?thesis by (auto simp: Let_def rows_kept_def)
  qed
qed

lemma csv_loop_text:
  "0 < limit \<longrightarrow> int n \<le> limit \<Longrightarrow>
   wr_error (write_loop (csv_format columns) disk tr limit n rows ending) = None \<Longrightarrow>
     wr_text (write_loop (csv_format columns) disk tr limit n rows ending)
       = csv_text (CHR '','') (map (csv_record columns \<circ> tr) (take (rows_kept limit n (length rows)) rows))"
proof (induction rows arbitrary: n)
  case Nil
  then show ?case by (auto simp: csv_text_def)
next
  case (Cons row rows)
  show ?case
  proof (cases "0 < limit \<and> limit \<le> int n")
    case True
    with Cons(2) show ?thesis by (auto simp: rows_kept_def csv_text_def)
  next
    case False
    with Cons(3) have "disk n" "wr_error (write_loop (csv_format columns) disk tr limit (Suc n) rows ending) = None"
      by (auto simp: Let_def csv_format_def split: if_splits)
    moreover have "rows_kept limit n (length (row # rows)) = Suc (rows_kept limit (Suc n) (length rows))"
      using False by (auto simp: rows_kept_def)
    ultimately show ?thesis
      using Cons(1) [of "Suc n"] False by (auto simp: Let_def csv_format_def csv_text_def)
  qed
qed

lemma trim_bom_bom: "drop 3 (bom @ s) = s"
  by (simp add: bom_def)



text \<open>
  The limit is looked at before the next row is asked for, so a result of exactly as many rows
  is reported as cut although no row was left behind.
\<close>

lemma complete_export_called_truncated:
  "wr_truncated (writeRows u encode (\<lambda>_. True) ''csv'' engine table columns tr 1 [row] None)"
  by (simp add: writeRows_def write_rows_with_def format_of_def csv_format_def Let_def)

subsection \<open>What an export may read\<close>

definition queries_of :: "'row event list \<Rightarrow> (string \<times> int) list" where
  "queries_of evs = List.map_filter (\<lambda>e. case e of RanQuery _ sql t \<Rightarrow> Some (sql, t) | RanCommand _ sql t \<Rightarrow> Some (sql, t)
     | _ \<Rightarrow> None) evs"

lemma queries_of_simps [simp]:
  "queries_of [] = []"
  "queries_of (RanQuery r sql t # evs) = (sql, t) # queries_of evs"
  "queries_of (Recorded a # evs) = queries_of evs"
  "queries_of (xs @ ys) = queries_of xs @ queries_of ys"
  by (simp_all add: queries_of_def List.map_filter_def)

lemma write_rows_limit:
  "wr_error (write_rows_with f disk tr limit rows ending) = None \<Longrightarrow> 0 < limit \<Longrightarrow>
     int (wr_rows (write_rows_with f disk tr limit rows ending)) \<le> limit"
  using write_loop_counts [of limit 0 f disk tr rows ending]
  by (auto simp: write_rows_with_def Let_def rows_kept_def split: if_splits)

lemma finish_select_query [simp]: "queries_of [finish_select sql sel n err] = []"
  by (simp add: finish_select_def recordActivity_def)

lemma governed_select_opened:
  assumes "openGovernedSelect s w identity role connection sql fallback c = ((Inr sel, evs), c')"
  shows "\<exists>info c1 timeout prepared c2 st.
    ParseDialect (srv_tables s) (dialect_for_engine (srv_tables s) (conn_Engine connection)) sql c = ((info, None), c1)
    \<and> Kind info = Select
    \<and> judge s w identity role connection info False (srv_shared s \<and> IsAdmin identity)
        = Inr (sel_decision sel, sel_limit sel, timeout)
    \<and> Effect (sel_decision sel) = Allow
    \<and> prepareStatement s identity (ar_ID role) connection info c1 = ((prepared, None), c2)
    \<and> queries_of evs = [(Raw prepared, withConnectionTimeout connection timeout fallback)]
    \<and> w_query w (Raw prepared) = Inr st \<and> sel_rows sel = stream_rows st"
proof -
  note run = assms [unfolded openGovernedSelect_def Let_def]
  obtain info err c1 where 1: "ParseDialect (srv_tables s)
      (dialect_for_engine (srv_tables s) (conn_Engine connection)) sql c = ((info, err), c1)"
    by (metis surj_pair)
  have 2: "err = None" using run by (cases err) (simp_all add: 1)
  have 3: "Kind info = Select" using run by (rule_tac ccontr) (simp add: 1 2)
  obtain decision limit timeout where 4: "judge s w identity role connection info False
      (srv_shared s \<and> IsAdmin identity) = Inr (decision, limit, timeout)"
    using run by (cases "judge s w identity role connection info False (srv_shared s \<and> IsAdmin identity)")
      (auto simp: 1 2 3)
  have 5: "Effect decision = Allow" using run by (rule_tac ccontr) (simp add: 1 2 3 4)
  obtain prepared err' c2 where 6: "prepareStatement s identity (ar_ID role) connection info c1 = ((prepared, err'), c2)"
    by (metis surj_pair)
  have 7: "err' = None" using run by (cases err') (simp_all add: 1 2 3 4 5 6)
  obtain node role' where 8: "fst (routedEngineConnection (srv_access s) (w_topology w) identity connection
      None (Some prepared) (w_nodes w)) = Inr (node, role')"
    using run by (cases "fst (routedEngineConnection (srv_access s) (w_topology w) identity connection
      None (Some prepared) (w_nodes w))") (auto simp: 1 2 3 4 5 6 7)
  have 9: "w_target w node = None" using run by (cases "w_target w node") (simp_all add: 1 2 3 4 5 6 7 8)
  obtain st where 10: "w_query w (Raw prepared) = Inr st"
    using run by (cases "w_query w (Raw prepared)") (simp_all add: 1 2 3 4 5 6 7 8 9)
  have 11: "w_result w = None" using run by (cases "w_result w") (simp_all add: 1 2 3 4 5 6 7 8 9 10)
  from run have "sel = \<lparr>sel_rows = stream_rows st, sel_error = stream_error st, sel_limit = limit,
      sel_decision = decision\<rparr>"
    and "evs = [RanQuery OnPool (Raw prepared) (withConnectionTimeout connection timeout fallback)]"
    by (simp_all add: 1 2 3 4 5 6 7 8 9 10 11)
  with 1 2 3 4 5 6 7 10 show ?thesis by simp
qed

lemma export_selected_done:
  assumes "export_selected s w disk connection input sql sel = (Inr file, evs)"
  shows "evs = [finish_select sql sel (ef_rows file) None]"
    and "sel_limit sel \<le> 0 \<or> int (ef_rows file) \<le> sel_limit sel"
proof -
  define out where "out = writeRows (srv_tables s) (ed_encode disk) (ed_write disk) (exp_Format input)
      (conn_Engine connection) (export_target (srv_tables s) (conn_Engine connection) input)
      (ed_columns disk) (transform (w_client w)) (sel_limit sel) (sel_rows sel) (sel_error sel)"
  have "wr_error out = None" "ef_rows file = wr_rows out" "evs = [finish_select sql sel (wr_rows out) None]"
    using assms by (auto simp: export_selected_def out_def [symmetric] Let_def split: if_splits option.splits)
  then show "evs = [finish_select sql sel (ef_rows file) None]"
    and "sel_limit sel \<le> 0 \<or> int (ef_rows file) \<le> sel_limit sel"
    using write_rows_limit [of _ "ed_write disk" "transform (w_client w)" "sel_limit sel" "sel_rows sel" "sel_error sel"]
    by (auto simp: out_def writeRows_def not_le [symmetric])
qed


definition healthy_primary :: ConnectionNode where
  "healthy_primary = \<lparr>node_ID = ''n'', node_Host = ''h'', node_Port = 1, node_DetectedRole = ''primary'',
     node_Health = ''healthy'', node_ReadOnly = False, node_LastCheckedAt = Some []\<rparr>"

text \<open>A world whose database answers with one row, behind one healthy node.\<close>

definition file_world :: "driver_value list world" where
  "file_world = \<lparr>w_policies = Inr [], w_custom = Inr [], w_minute = 0,
     w_topology = \<lparr>age = (\<lambda>_. Some 0), check_interval = 0, probe = (\<lambda>_. Inl []), checked_at = []\<rparr>,
     w_nodes = [healthy_primary], w_target = (\<lambda>_. None), w_session = None, w_backup = (\<lambda>_. NoBackup),
     w_query = (\<lambda>_. Inr \<lparr>stream_rows = [[TextV ''x'']], stream_error = None, stream_more = []\<rparr>),
     w_result = None,
     w_client = \<lparr>transform = (\<lambda>r. r), encodes = (\<lambda>_. True), writes = (\<lambda>_. True),
       flushes = (\<lambda>_. False), ndjson = False\<rparr>,
     w_execute = (\<lambda>_. Inr 1)\<rparr>"

definition no_cassandra :: cassandra_world where
  "no_cassandra = \<lparr>cw_opened = Some [], cw_query = (\<lambda>_ _. Inl []), cw_backup = (\<lambda>_. NoBackup),
     cw_exportable = None, cw_object = (\<lambda>_. True)\<rparr>"

definition plain_disk :: export_disk where
  "plain_disk = \<lparr>ed_created = True, ed_write = (\<lambda>_. True), ed_flushed = True, ed_encode = (\<lambda>_. Inl []),
     ed_columns = [''a'']\<rparr>"

definition csv_request :: exportInput where
  "csv_request = \<lparr>exp_Database = [], exp_Schema = [], exp_Table = [], exp_SQL = ''select a'', exp_Format = ''csv''\<rparr>"

lemma export_example:
  "case exportTable plain_server file_world no_cassandra plain_disk (\<lambda>_. []) plain_identity (Some plain_connection)
       (Some csv_request) empty_cache of ((answer, evs), _) \<Rightarrow>
     (case answer of Inr f \<Rightarrow> ef_rows f = 1 | Inl _ \<Rightarrow> False) \<and> queries_of evs = [(''select a'', 1800)]"
  by code_simp


text \<open>
  An export from Cassandra is judged by the guardrails alone and leaves no trace: the custom
  policies do not matter to it, and nothing is recorded.
\<close>

lemma cassandra_export_ignores_custom_policies:
  "exportCassandra s (w\<lparr>w_custom := x\<rparr>) cw encode_all identity connection role input c
     = exportCassandra s w cw encode_all identity connection role input c"
  by (simp add: exportCassandra_def Let_def cong: prod.case_cong sum.case_cong if_cong)

lemma cassandra_file_events:
  "e \<in> set (snd (cassandra_file s cw encode_all input keyspace query limit timeout)) \<Longrightarrow> e = RanQuery OnPool query timeout"
  by (auto simp: cassandra_file_def Let_def split: option.splits sum.splits)

lemma cassandra_export_not_recorded:
  assumes "e \<in> set (snd (fst (exportCassandra s w cw encode_all identity connection role input c)))"
  shows "\<exists>sql t. e = RanQuery OnPool sql t"
proof -
  obtain info err c' where 1: "ParseCQL (srv_tables s) (export_cql (export_keyspace connection input) input) c
      = ((info, err), c')" by (metis surj_pair)
  show ?thesis
  proof (cases "w_policies w")
    case (Inl e)
    with assms 1 show ?thesis by (simp add: exportCassandra_def Let_def split: if_splits)
  next
    case (Inr table)
    with assms 1 show ?thesis
      by (auto simp: exportCassandra_def Let_def dest: cassandra_file_events split: if_splits)
  qed
qed

end
