(* ===== verification/Row_Backup.thy ===== *)
theory Row_Backup
  imports Backup_Values Query
begin

section \<open>Saving the rows a write is about to change (api/rowbackup.go)\<close>

text \<open>
  Before an UPDATE or DELETE of one table runs, \<open>captureRowBackup\<close> reads the rows it will change
  and stores them. The database is \<open>backup_world\<close>: what a read and a command answer, the vault
  that seals the payload, the store and the clock.
\<close>

definition rowBackupLimit :: nat where
  "rowBackupLimit = 10000"

subsection \<open>Which statements\<close>

record backupTarget =
  bt_kind :: string
  bt_schema :: string
  bt_table :: string
  bt_where :: string

definition top_level :: "Token list \<Rightarrow> Token list" where
  "top_level = filter (\<lambda>t. Depth t = 0)"

text \<open>The position of the first WHERE and the number of FROMs, \<open>None\<close> at a join.\<close>

fun scan_top :: "nat \<Rightarrow> nat option \<Rightarrow> nat \<Rightarrow> Token list \<Rightarrow> (nat option \<times> nat) option" where
  "scan_top i w froms [] = Some (w, froms)"
| "scan_top i w froms (t # ts) =
     (if Lower t = ''join'' \<or> Lower t = ''using'' then None
      else if Lower t = ''from'' then scan_top (Suc i) w (Suc froms) ts
      else if Lower t = ''where'' then scan_top (Suc i) (if w = None then Some i else w) froms ts
      else scan_top (Suc i) w froms ts)"

definition clause_end :: "Token \<Rightarrow> bool" where
  "clause_end t \<longleftrightarrow> Lower t \<in> {''order'', ''limit'', ''returning'', ''option''}"

definition trim_right_of :: "char set \<Rightarrow> string \<Rightarrow> string" where
  "trim_right_of cutset s = rev (dropWhile (\<lambda>c. c \<in> cutset) (rev s))"

definition where_clause :: "string \<Rightarrow> Token \<Rightarrow> Token list \<Rightarrow> string" where
  "where_clause raw w after =
     trim_right_of {CHR '';'', CHR '' '', CHR 0x09, CHR 0x0D, CHR 0x0A}
       (trim_space (substring raw (End w)
          (case find clause_end after of None \<Rightarrow> length raw | Some t \<Rightarrow> Start t)))"

definition backupTargetOf :: "Info \<Rightarrow> backupTarget option" where
  "backupTargetOf info =
     (if IsScript info then None
      else
        (let wholeTable = Command info = Delete \<and> \<not> HasWhere info in
         case Tables info of
           [table] \<Rightarrow>
             (if Command info \<noteq> Update \<and> Command info \<noteq> Delete \<or> \<not> HasWhere info \<and> \<not> wholeTable then None
              else
                (let top = top_level (Tokens info) in
                 if length top < 2 \<or> Lower (top ! 0) = ''with'' then None
                 else
                   (case scan_top 0 None 0 top of
                      None \<Rightarrow> None
                    | Some (w, froms) \<Rightarrow>
                        (if w = None \<and> \<not> wholeTable \<or> Command info = Update \<and> 0 < froms
                            \<or> Command info = Delete \<and> (froms \<noteq> 1 \<or> Lower (top ! 1) \<noteq> ''from'') then None
                         else if wholeTable then
                           (if list_ex (\<lambda>t. clause_end t \<or> Lower t = ''using'' \<or> Lower t = ''where'') (drop 2 top)
                            then None
                            else Some \<lparr>bt_kind = ''delete'', bt_schema = Schema table, bt_table = Name table,
                                       bt_where = ''1=1''\<rparr>)
                         else
                           (let clause = where_clause (Raw info) (top ! the w) (drop (Suc (the w)) top) in
                            if clause = [] then None
                            else Some \<lparr>bt_kind = (if Command info = Delete then ''delete'' else ''update''),
                                       bt_schema = Schema table, bt_table = Name table, bt_where = clause\<rparr>)))))
         | _ \<Rightarrow> None))"

subsection \<open>Which columns\<close>

definition numberToken :: "Token \<Rightarrow> bool" where
  "numberToken t \<longleftrightarrow> \<not> Quoted t \<and> (case Text t of [] \<Rightarrow> False | c # _ \<Rightarrow> is_digit c)"

definition name_part :: "Token \<Rightarrow> bool" where
  "name_part t \<longleftrightarrow> Identifier t \<and> \<not> numberToken t"

text \<open>The tokens of the SET list: behind the first SET, up to the WHERE.\<close>

fun until_where :: "Token list \<Rightarrow> Token list" where
  "until_where [] = []"
| "until_where (t # ts) = (if keyword t ''where'' then [] else t # until_where ts)"

fun set_list :: "Token list \<Rightarrow> Token list" where
  "set_list [] = []"
| "set_list (t # ts) = (if keyword t ''set'' then until_where ts else set_list ts)"

text \<open>The last part of a dotted name, and the tokens behind it.\<close>

fun last_name :: "Token \<Rightarrow> Token list \<Rightarrow> Token \<times> Token list" where
  "last_name t (d # p # ts) =
     (if Text d = ''.'' \<and> name_part p then last_name p ts else (t, d # p # ts))"
| "last_name t ts = (t, ts)"

lemma last_name_shorter: "last_name t ts = (p, rest) \<Longrightarrow> length rest \<le> length ts"
  by (induction t ts rule: last_name.induct) (auto split: if_splits)

definition behind_comma :: "Token list \<Rightarrow> Token list" where
  "behind_comma ts = drop 1 (dropWhile (\<lambda>x. Text x \<noteq> '','') ts)"

lemma behind_comma_shorter: "length (behind_comma ts) \<le> length ts"
  using length_dropWhile_le [of "\<lambda>x. Text x \<noteq> '','' " ts] by (simp add: behind_comma_def)

lemma next_column_shorter: "(p, rest) = last_name t ts \<Longrightarrow> length (behind_comma rest) \<le> length ts"
  using last_name_shorter [of t ts p rest] behind_comma_shorter [of rest] by simp

function set_columns :: "string list \<Rightarrow> Token list \<Rightarrow> (string \<times> string) list option" where
  "set_columns seen [] = Some []"
| "set_columns seen (t # ts) =
     (if \<not> name_part t then None
      else
        (case last_name t ts of
           (p, rest) \<Rightarrow>
             (case rest of
                [] \<Rightarrow> None
              | e # _ \<Rightarrow>
                  (if Text e \<noteq> ''='' then None
                   else map_option (\<lambda>cols. if Lower p \<in> set seen then cols else (Lower p, Text p) # cols)
                     (set_columns (Lower p # seen) (behind_comma rest))))))"
  by pat_completeness auto
termination
  by (relation "measure (\<lambda>(seen, ts). length ts)")
    (auto simp: less_Suc_eq_le next_column_shorter)

text \<open>The columns an UPDATE writes: lower-cased, and as the statement spells them.\<close>

definition assignedColumns :: "Info \<Rightarrow> (string \<times> string) list option" where
  "assignedColumns info =
     (case set_columns [] (set_list (top_level (Tokens info))) of
        Some (c # cs) \<Rightarrow> Some (c # cs)
      | _ \<Rightarrow> None)"

text \<open>A backup of an UPDATE reads its key, what it writes and what the engine refreshes.\<close>

definition backupSelectList ::
  "unicode \<Rightarrow> string \<Rightarrow> backupTarget \<Rightarrow> Info \<Rightarrow> string list \<Rightarrow> string list \<Rightarrow> string" where
  "backupSelectList u engine plan info key refreshed =
     (if bt_kind plan \<noteq> ''update'' then ''*''
      else
        (case assignedColumns info of
           None \<Rightarrow> ''*''
         | Some cols \<Rightarrow>
             (let inKey = map (to_lower u) key; names = map fst cols;
                  taken = map (to_lower u) (key @ names) in
              if list_ex (\<lambda>n. n \<in> set inKey) names then ''*''
              else str_join '', '' (map (QuoteIdentifier u engine) key @ map snd cols
                @ map (QuoteIdentifier u engine) (filter (\<lambda>n. to_lower u n \<notin> set taken) refreshed)))))"

subsection \<open>The questions to the catalog\<close>

definition duckDBSchemaFilter :: "unicode \<Rightarrow> string \<Rightarrow> string \<Rightarrow> string" where
  "duckDBSchemaFilter u engine schema =
     (if schema = [] then [] else '' AND schema_name = '' @ importLiteral u engine schema)"

definition quote_mark :: string where
  "quote_mark = [CHR 0x27]"

definition mysql_schema :: "unicode \<Rightarrow> string \<Rightarrow> string \<Rightarrow> string" where
  "mysql_schema u engine schema = (if schema = [] then ''DATABASE()'' else importLiteral u engine schema)"

definition primaryKeySQL :: "unicode \<Rightarrow> string \<Rightarrow> string \<Rightarrow> string \<Rightarrow> string" where
  "primaryKeySQL u engine schema table =
     (let e = to_lower u engine in
      if e \<in> {''mysql'', ''mariadb''} then
        ''SELECT column_name FROM information_schema.key_column_usage WHERE constraint_name = '' @ quote_mark @ ''PRIMARY'' @ quote_mark
        @ '' AND table_schema = '' @ mysql_schema u engine schema @ '' AND table_name = ''
        @ importLiteral u engine table @ '' ORDER BY ordinal_position''
      else if e = ''sqlite'' then
        ''SELECT name FROM pragma_table_info('' @ importLiteral u engine table @ '') WHERE pk > 0 ORDER BY pk''
      else if e = ''duckdb'' then
        ''SELECT unnest(constraint_column_names) FROM duckdb_constraints() WHERE constraint_type = '' @ quote_mark
        @ ''PRIMARY KEY'' @ quote_mark @ '' AND table_name = '' @ importLiteral u engine table
        @ duckDBSchemaFilter u engine schema
      else if e \<in> {''mssql'', ''sqlserver''} then
        ''SELECT c.name FROM sys.indexes i JOIN sys.index_columns ic ON ic.object_id = i.object_id AND ic.index_id = i.index_id JOIN sys.columns c ON c.object_id = ic.object_id AND c.column_id = ic.column_id WHERE i.is_primary_key = 1 AND i.object_id = OBJECT_ID(''
        @ importLiteral u engine (qualifiedTable u engine schema table) @ '') ORDER BY ic.key_ordinal''
      else
        ''SELECT a.attname FROM pg_index i JOIN pg_attribute a ON a.attrelid = i.indrelid AND a.attnum = ANY(i.indkey) WHERE i.indisprimary AND i.indrelid = to_regclass(''
        @ importLiteral u engine (qualifiedTable u engine schema table)
        @ '') ORDER BY array_position(i.indkey::int2[], a.attnum)'')"

definition columnKindsSQL :: "unicode \<Rightarrow> string \<Rightarrow> string \<Rightarrow> string \<Rightarrow> string" where
  "columnKindsSQL u engine schema table =
     (let e = to_lower u engine; q = (\<lambda>s. quote_mark @ s @ quote_mark) in
      if e \<in> {''mysql'', ''mariadb''} then
        ''SELECT column_name, CASE WHEN extra LIKE '' @ q ''%on update%'' @ '' THEN '' @ q ''refresh'' @ '' ELSE ''
        @ q ''generated'' @ '' END FROM information_schema.columns WHERE table_schema = ''
        @ mysql_schema u engine schema @ '' AND table_name = '' @ importLiteral u engine table
        @ '' AND (extra IN ('' @ q ''STORED GENERATED'' @ '', '' @ q ''VIRTUAL GENERATED'' @ '') OR extra LIKE ''
        @ q ''%on update%'' @ '')''
      else if e = ''sqlite'' then
        ''SELECT name, '' @ q ''generated'' @ '' FROM pragma_table_xinfo('' @ importLiteral u engine table
        @ '') WHERE hidden IN (2, 3)''
      else if e = ''duckdb'' then ''SELECT NULL, NULL WHERE FALSE''
      else if e \<in> {''mssql'', ''sqlserver''} then
        ''SELECT c.name, CASE WHEN c.is_computed = 1 OR t.name = '' @ q ''timestamp'' @ '' THEN '' @ q ''generated''
        @ '' ELSE '' @ q ''identity'' @ '' END FROM sys.columns c JOIN sys.types t ON t.user_type_id = c.user_type_id WHERE c.object_id = OBJECT_ID(''
        @ importLiteral u engine (qualifiedTable u engine schema table)
        @ '') AND (c.is_identity = 1 OR c.is_computed = 1 OR t.name = '' @ q ''timestamp'' @ '')''
      else
        ''SELECT attname, CASE WHEN attgenerated <> '' @ q [] @ '' THEN '' @ q ''generated''
        @ '' WHEN attidentity = '' @ q ''a'' @ '' THEN '' @ q ''identity_always'' @ '' ELSE '' @ q ''identity''
        @ '' END FROM pg_attribute WHERE attrelid = to_regclass(''
        @ importLiteral u engine (qualifiedTable u engine schema table)
        @ '') AND attnum > 0 AND NOT attisdropped AND (attgenerated <> '' @ q [] @ '' OR attidentity <> '' @ q []
        @ '')'')"

subsection \<open>The backup\<close>

record rowBackupPayload =
  pl_BackupID :: string
  pl_UserID :: string
  pl_Statement :: string
  pl_Columns :: "string list"
  pl_Key :: "string list"
  pl_Rows :: "backupValue list list"
  pl_Generated :: "string list"
  pl_Identity :: "string list"
  pl_IdentityAlways :: bool
  pl_Types :: "string list"

text \<open>A record of the store; the sealed payload is its ciphertext with the nonce.\<close>

record 'sealed RowBackup =
  rb_ID :: string
  rb_OrgID :: string
  rb_UserID :: string
  rb_ConnectionID :: string
  rb_Database :: string
  rb_Schema :: string
  rb_Table :: string
  rb_Kind :: string
  rb_Rows :: nat
  rb_Sealed :: 'sealed
  rb_CreatedAt :: string

record table_read =
  tr_columns :: "string list"
  tr_types :: "string list"
  tr_rows :: "driver_value list list"

record 'sealed backup_world =
  bw_vault :: bool
  bw_execute :: "string \<Rightarrow> string option"
  bw_read :: "string \<Rightarrow> nat \<Rightarrow> string + table_read"
  bw_seal :: "rowBackupPayload \<Rightarrow> 'sealed option"
  bw_store :: bool
  bw_fresh_id :: string
  bw_now :: string

datatype 'sealed backup_event =
    BackupExecuted string
  | BackupRead string
  | BackupStored "'sealed RowBackup"

datatype 'sealed captured =
    NothingToBackUp
  | CaptureSkipped string
  | CaptureBlocked string
  | Captured "'sealed RowBackup"

text \<open>\<open>readRows\<close> asks for no more than \<open>n\<close> rows.\<close>

definition readRows :: "'s backup_world \<Rightarrow> string \<Rightarrow> nat \<Rightarrow> string + table_read" where
  "readRows w sql n =
     (case bw_read w sql n of Inl e \<Rightarrow> Inl e | Inr t \<Rightarrow> Inr (t\<lparr>tr_rows := take n (tr_rows t)\<rparr>))"

definition text_of :: "unicode \<Rightarrow> driver_value \<Rightarrow> string" where
  "text_of u v = bv_Value (encodeBackupValue u v [])"

definition key_names :: "unicode \<Rightarrow> driver_value list list \<Rightarrow> string list" where
  "key_names u rows = map (\<lambda>row. text_of u (row ! 0)) (filter (\<lambda>row. row \<noteq> []) rows)"

text \<open>Name and kind of a column.\<close>

definition column_kinds :: "unicode \<Rightarrow> driver_value list list \<Rightarrow> (string \<times> string) list" where
  "column_kinds u rows =
     map (\<lambda>row. (text_of u (row ! 0), text_of u (row ! 1))) (filter (\<lambda>row. 2 \<le> length row) rows)"

definition refreshed_columns :: "(string \<times> string) list \<Rightarrow> string list" where
  "refreshed_columns kinds = map fst (filter (\<lambda>(n, k). k = ''refresh'') kinds)"

definition encode_row :: "unicode \<Rightarrow> string list \<Rightarrow> driver_value list \<Rightarrow> backupValue list" where
  "encode_row u types row =
     map (\<lambda>i. encodeBackupValue u (row ! i) (if i < length types then types ! i else [])) [0 ..< length row]"

definition saved_statement :: "Info \<Rightarrow> string" where
  "saved_statement info =
     (case Tokens info of [] \<Rightarrow> Raw info | t # _ \<Rightarrow> trim_space (drop (Start t) (Raw info)))"

definition backup_payload ::
  "unicode \<Rightarrow> string \<Rightarrow> Identity \<Rightarrow> Info \<Rightarrow> string list \<Rightarrow> (string \<times> string) list \<Rightarrow> table_read \<Rightarrow>
   rowBackupPayload" where
  "backup_payload u fresh identity info key kinds t =
     (let special = filter (\<lambda>(n, k). k \<noteq> ''generated'' \<and> k \<noteq> ''refresh'') kinds in
      \<lparr>pl_BackupID = fresh, pl_UserID = UserID identity, pl_Statement = saved_statement info,
       pl_Columns = tr_columns t, pl_Key = key, pl_Rows = map (encode_row u (tr_types t)) (tr_rows t),
       pl_Generated = map fst (filter (\<lambda>(n, k). k = ''generated'') kinds),
       pl_Identity = map fst special,
       pl_IdentityAlways = list_ex (\<lambda>(n, k). k = ''identity_always'') kinds,
       pl_Types = tr_types t\<rparr>)"

definition backup_select ::
  "unicode \<Rightarrow> string \<Rightarrow> backupTarget \<Rightarrow> Info \<Rightarrow> string list \<Rightarrow> string list \<Rightarrow> string" where
  "backup_select u engine plan info key refreshed =
     ''SELECT '' @ backupSelectList u engine plan info key refreshed @ '' FROM ''
     @ qualifiedTable u engine (bt_schema plan) (bt_table plan) @ '' WHERE '' @ bt_where plan"

text \<open>The reads: the key, the kinds, then the rows, unless the SELECT cannot be parsed.\<close>

definition backup_reads ::
  "unicode \<Rightarrow> 's backup_world \<Rightarrow> string \<Rightarrow> backupTarget \<Rightarrow> Info \<Rightarrow> parse_cache \<Rightarrow>
   ((string + string list \<times> (string \<times> string) list \<times> table_read) \<times> string list) \<times> parse_cache" where
  "backup_reads u w engine plan info c =
     (let keySQL = primaryKeySQL u engine (bt_schema plan) (bt_table plan);
          kindSQL = columnKindsSQL u engine (bt_schema plan) (bt_table plan) in
      case readRows w keySQL 64 of
        Inl e \<Rightarrow> ((Inl e, [keySQL]), c)
      | Inr keyRows \<Rightarrow>
          (case readRows w kindSQL 4096 of
             Inl e \<Rightarrow> ((Inl e, [keySQL, kindSQL]), c)
           | Inr kindRows \<Rightarrow>
               (let key = key_names u (tr_rows keyRows);
                    kinds = column_kinds u (tr_rows kindRows);
                    selectSQL = backup_select u engine plan info key (refreshed_columns kinds) in
                case ParseDialect u DialectGeneric selectSQL c of
                  ((_, Some _), c') \<Rightarrow>
                    ((Inl ''the changed rows could not be selected'', [keySQL, kindSQL]), c')
                | ((_, None), c') \<Rightarrow>
                    (case readRows w selectSQL (rowBackupLimit + 1) of
                       Inl e \<Rightarrow> ((Inl e, [keySQL, kindSQL, selectSQL]), c')
                     | Inr t \<Rightarrow> ((Inr (key, kinds, t), [keySQL, kindSQL, selectSQL]), c')))))"

text \<open>What follows the reads.\<close>

definition store_backup ::
  "unicode \<Rightarrow> 's backup_world \<Rightarrow> Identity \<Rightarrow> Connection \<Rightarrow> Info \<Rightarrow> backupTarget \<Rightarrow> string \<Rightarrow>
   string list \<Rightarrow> (string \<times> string) list \<Rightarrow> table_read \<Rightarrow> 's captured" where
  "store_backup u w identity connection info plan database key kinds t =
     (if bt_kind plan = ''update'' \<and> key = []
      then CaptureBlocked (bt_table plan @ '' has no primary key, so the old values could not be put back.'')
      else if tr_rows t = [] then NothingToBackUp
      else if rowBackupLimit < length (tr_rows t)
      then CaptureBlocked (''This '' @ to_upper u (bt_kind plan) @ '' changes more than ''
             @ decimal (int rowBackupLimit) @ '' rows, too many to back up.'')
      else
        (case bw_seal w (backup_payload u (bw_fresh_id w) identity info key kinds t) of
           None \<Rightarrow> CaptureSkipped ''the backup could not be stored''
         | Some sealed \<Rightarrow>
             (if \<not> bw_store w then CaptureSkipped ''the backup could not be stored''
              else Captured \<lparr>rb_ID = bw_fresh_id w, rb_OrgID = OrgID identity, rb_UserID = UserID identity,
                     rb_ConnectionID = conn_ID connection, rb_Database = database, rb_Schema = bt_schema plan,
                     rb_Table = bt_table plan, rb_Kind = bt_kind plan, rb_Rows = length (tr_rows t),
                     rb_Sealed = sealed, rb_CreatedAt = bw_now w\<rparr>)))"

definition savepoint_used :: "unicode \<Rightarrow> Connection \<Rightarrow> bool \<Rightarrow> bool" where
  "savepoint_used u connection in_transaction \<longleftrightarrow> in_transaction \<and> PostgresFamily u (conn_Engine connection)"

definition captureRowBackup ::
  "unicode \<Rightarrow> 's backup_world \<Rightarrow> Identity \<Rightarrow> Connection \<Rightarrow> Info \<Rightarrow> bool \<Rightarrow> string \<Rightarrow> parse_cache \<Rightarrow>
   ('s captured \<times> 's backup_event list) \<times> parse_cache" where
  "captureRowBackup u w identity connection info in_transaction database c =
     (case (if bw_vault w then backupTargetOf info else None) of
        None \<Rightarrow> ((NothingToBackUp, []), c)
      | Some plan \<Rightarrow>
          (let save = savepoint_used u connection in_transaction;
               command = (\<lambda>sql. if save then [BackupExecuted sql] else []) in
           if save \<and> bw_execute w ''SAVEPOINT rowset_backup'' \<noteq> None
           then ((CaptureSkipped ''the transaction does not allow a backup'',
                  command ''SAVEPOINT rowset_backup''), c)
           else
             (case backup_reads u w (conn_Engine connection) plan info c of
                ((Inl e, sqls), c') \<Rightarrow>
                  ((CaptureSkipped (''the changed rows could not be read: '' @ e),
                    command ''SAVEPOINT rowset_backup'' @ map BackupRead sqls
                    @ command ''ROLLBACK TO SAVEPOINT rowset_backup''), c')
              | ((Inr (key, kinds, t), sqls), c') \<Rightarrow>
                  (let answer = store_backup u w identity connection info plan database key kinds t in
                   ((answer,
                     command ''SAVEPOINT rowset_backup'' @ map BackupRead sqls
                     @ command ''RELEASE SAVEPOINT rowset_backup''
                     @ (case answer of Captured item \<Rightarrow> [BackupStored item] | _ \<Rightarrow> [])), c')))))"

text \<open>What \<open>executeQuery\<close> makes of the answer.\<close>

fun backup_note_of :: "'s captured \<Rightarrow> backup_note" where
  "backup_note_of NothingToBackUp = NoBackup"
| "backup_note_of (CaptureSkipped reason) = BackupSkipped reason"
| "backup_note_of (CaptureBlocked reason) = BackupBlocked reason"
| "backup_note_of (Captured item) = BackupTaken"

end
