(* ===== verification/Row_Restore.thy ===== *)
theory Row_Restore
  imports Row_Backup Csv_Import "HOL-Library.Char_ord" "HOL-Library.List_Lexorder"
begin

section \<open>Putting saved rows back (api/rowbackup.go, store/rowbackups.go)\<close>

text \<open>
  \<open>restorePlan\<close> turns a payload into UPDATE or INSERT statements; \<open>applyRowBackup\<close> judges them
  and runs them in one transaction. The columns are addressed by their position in the payload,
  as in the code.
\<close>

subsection \<open>The store\<close>

definition rowBackupsKept :: nat where
  "rowBackupsKept = 100"

text \<open>The user's newest backups by the text of their time; the later of two equal ones is newer.\<close>

definition newest_backups :: "string \<Rightarrow> 's RowBackup list \<Rightarrow> 's RowBackup list" where
  "newest_backups userID items =
     take rowBackupsKept (rev (sort_key rb_CreatedAt (filter (\<lambda>b. rb_UserID b = userID) items)))"

definition CreateRowBackup :: "'s RowBackup \<Rightarrow> 's RowBackup list \<Rightarrow> 's RowBackup list" where
  "CreateRowBackup item items =
     (let items1 = items @ [item]; kept = map rb_ID (newest_backups (rb_UserID item) items1) in
      filter (\<lambda>b. rb_UserID b = rb_UserID item \<longrightarrow> rb_ID b \<in> set kept) items1)"

definition find_backup :: "string \<Rightarrow> string \<Rightarrow> 's RowBackup list \<Rightarrow> 's RowBackup option" where
  "find_backup i userID items = find (\<lambda>b. rb_ID b = i \<and> rb_UserID b = userID) items"

definition OrgRowBackup :: "string \<Rightarrow> string \<Rightarrow> 's RowBackup list \<Rightarrow> 's RowBackup option" where
  "OrgRowBackup i orgID items = find (\<lambda>b. rb_ID b = i \<and> rb_OrgID b = orgID) items"

definition DeleteRowBackup :: "string \<Rightarrow> string \<Rightarrow> 's RowBackup list \<Rightarrow> bool \<times> 's RowBackup list" where
  "DeleteRowBackup i userID items =
     (find_backup i userID items \<noteq> None, filter (\<lambda>b. \<not> (rb_ID b = i \<and> rb_UserID b = userID)) items)"

definition reachableRowBackup :: "Identity \<Rightarrow> string \<Rightarrow> 's RowBackup list \<Rightarrow> 's RowBackup option" where
  "reachableRowBackup identity i items =
     (if IsAdmin identity then OrgRowBackup i (OrgID identity) items
      else find_backup i (UserID identity) items)"

text \<open>A failed statement takes its backup with it.\<close>

definition discardRowBackup :: "Identity \<Rightarrow> 's captured \<Rightarrow> 's RowBackup list \<Rightarrow> 's RowBackup list" where
  "discardRowBackup identity captured items =
     (case captured of
        Captured item \<Rightarrow> snd (DeleteRowBackup (rb_ID item) (UserID identity) items)
      | _ \<Rightarrow> items)"

definition deleteRowBackup :: "Identity \<Rightarrow> string \<Rightarrow> 's RowBackup list \<Rightarrow> response \<times> 's RowBackup list" where
  "deleteRowBackup identity i items =
     (case DeleteRowBackup i (UserID identity) items of
        (found, items') \<Rightarrow> (if found then Answer 204 else Refused 404 ''NOT_FOUND'' ''resource not found'', items'))"

subsection \<open>Opening a payload\<close>

text \<open>\<open>unseal\<close> decrypts and decodes.\<close>

definition openRowBackup ::
  "bool \<Rightarrow> ('s \<Rightarrow> string + rowBackupPayload) \<Rightarrow> 's RowBackup \<Rightarrow> string + rowBackupPayload" where
  "openRowBackup vault unseal item =
     (if \<not> vault then Inl ''secret vault unavailable''
      else (case unseal (rb_Sealed item) of
              Inl e \<Rightarrow> Inl e
            | Inr payload \<Rightarrow>
                (if pl_BackupID payload \<noteq> rb_ID item \<or> pl_UserID payload \<noteq> rb_UserID item
                 then Inl ''the backup does not belong to this record'' else Inr payload)))"

subsection \<open>The statements\<close>

definition nameSet :: "unicode \<Rightarrow> string list \<Rightarrow> string set" where
  "nameSet u names = set (map (to_lower u) names)"

definition column_name :: "unicode \<Rightarrow> rowBackupPayload \<Rightarrow> nat \<Rightarrow> string" where
  "column_name u payload i = to_lower u (pl_Columns payload ! i)"

definition writable_columns :: "unicode \<Rightarrow> rowBackupPayload \<Rightarrow> nat list" where
  "writable_columns u payload =
     filter (\<lambda>i. column_name u payload i \<notin> nameSet u (pl_Generated payload)) [0 ..< length (pl_Columns payload)]"

definition sql_server :: "unicode \<Rightarrow> string \<Rightarrow> bool" where
  "sql_server u engine \<longleftrightarrow> equal_fold u engine ''mssql'' \<or> equal_fold u engine ''sqlserver''"

definition restore_value :: "unicode \<Rightarrow> string \<Rightarrow> rowBackupPayload \<Rightarrow> backupValue list \<Rightarrow> nat \<Rightarrow> string" where
  "restore_value u engine payload row i =
     (if length row \<le> i then ''NULL''
      else
        (let lit = restoreLiteral u engine (row ! i) in
         if sql_server u engine \<and> bv_Kind (row ! i) \<noteq> KNull \<and> i < length (pl_Types payload)
            \<and> pl_Types payload ! i = ''SQL_VARIANT''
         then ''CAST('' @ lit @ '' AS sql_variant)'' else lit))"

function batches_of :: "nat \<Rightarrow> 'a list \<Rightarrow> 'a list list" where
  "batches_of n xs = (if xs = [] \<or> n = 0 then [] else take n xs # batches_of n (drop n xs))"
  by pat_completeness auto
termination by (relation "measure (\<lambda>(n, xs). length xs)") auto

declare batches_of.simps [simp del]

definition quoted_column :: "unicode \<Rightarrow> string \<Rightarrow> rowBackupPayload \<Rightarrow> nat \<Rightarrow> string" where
  "quoted_column u engine payload i = QuoteIdentifier u engine (pl_Columns payload ! i)"

definition uses_identity :: "unicode \<Rightarrow> rowBackupPayload \<Rightarrow> bool" where
  "uses_identity u payload =
     list_ex (\<lambda>i. column_name u payload i \<in> nameSet u (pl_Identity payload)) (writable_columns u payload)"

definition insert_prefix :: "unicode \<Rightarrow> string \<Rightarrow> string \<Rightarrow> rowBackupPayload \<Rightarrow> string" where
  "insert_prefix u engine table payload =
     ''INSERT INTO '' @ table @ '' (''
     @ str_join '', '' (map (quoted_column u engine payload) (writable_columns u payload)) @ '')''
     @ (if uses_identity u payload \<and> pl_IdentityAlways payload \<and> equal_fold u engine ''postgres''
        then '' OVERRIDING SYSTEM VALUE'' else [])"

definition insert_row :: "unicode \<Rightarrow> string \<Rightarrow> rowBackupPayload \<Rightarrow> backupValue list \<Rightarrow> string" where
  "insert_row u engine payload row =
     ''  ('' @ str_join '', '' (map (restore_value u engine payload row) (writable_columns u payload)) @ '')''"

definition restore_insert ::
  "unicode \<Rightarrow> string \<Rightarrow> string \<Rightarrow> rowBackupPayload \<Rightarrow> backupValue list list \<Rightarrow> string" where
  "restore_insert u engine table payload rows =
     insert_prefix u engine table payload @ '' VALUES'' @ [CHR 0x0A]
     @ str_join ('','' @ [CHR 0x0A]) (map (insert_row u engine payload) rows)"

text \<open>The positions an UPDATE of one row compares, and those it assigns.\<close>

definition condition_columns :: "unicode \<Rightarrow> rowBackupPayload \<Rightarrow> nat list" where
  "condition_columns u payload =
     filter (\<lambda>i. column_name u payload i \<in> nameSet u (pl_Key payload)) (writable_columns u payload)"

definition assignment_columns :: "unicode \<Rightarrow> rowBackupPayload \<Rightarrow> nat list" where
  "assignment_columns u payload =
     filter (\<lambda>i. column_name u payload i \<notin> nameSet u (pl_Key payload)
        \<and> column_name u payload i \<notin> nameSet u (pl_Identity payload)) (writable_columns u payload)"

definition condition_text :: "unicode \<Rightarrow> string \<Rightarrow> rowBackupPayload \<Rightarrow> backupValue list \<Rightarrow> nat \<Rightarrow> string" where
  "condition_text u engine payload row i =
     quoted_column u engine payload i
     @ (if i < length row \<and> bv_Kind (row ! i) = KNull then '' IS NULL''
        else '' = '' @ restore_value u engine payload row i)"

definition assignment_text :: "unicode \<Rightarrow> string \<Rightarrow> rowBackupPayload \<Rightarrow> backupValue list \<Rightarrow> nat \<Rightarrow> string" where
  "assignment_text u engine payload row i =
     quoted_column u engine payload i @ '' = '' @ restore_value u engine payload row i"

definition restore_where :: "unicode \<Rightarrow> string \<Rightarrow> rowBackupPayload \<Rightarrow> backupValue list \<Rightarrow> string" where
  "restore_where u engine payload row =
     '' WHERE '' @ str_join '' AND '' (map (condition_text u engine payload row) (condition_columns u payload))"

definition restore_update :: "unicode \<Rightarrow> string \<Rightarrow> string \<Rightarrow> rowBackupPayload \<Rightarrow> backupValue list \<Rightarrow> string" where
  "restore_update u engine table payload row =
     ''UPDATE '' @ table @ '' SET ''
     @ str_join '', '' (map (assignment_text u engine payload row) (assignment_columns u payload))
     @ restore_where u engine payload row"

definition restore_probe :: "unicode \<Rightarrow> string \<Rightarrow> string \<Rightarrow> rowBackupPayload \<Rightarrow> backupValue list \<Rightarrow> string" where
  "restore_probe u engine table payload row = ''SELECT 1 FROM '' @ table @ restore_where u engine payload row"

definition restores_rows :: "unicode \<Rightarrow> rowBackupPayload \<Rightarrow> bool" where
  "restores_rows u payload \<longleftrightarrow> assignment_columns u payload \<noteq> [] \<and> condition_columns u payload \<noteq> []"

definition item_table :: "unicode \<Rightarrow> string \<Rightarrow> 's RowBackup \<Rightarrow> string" where
  "item_table u engine item = qualifiedTable u engine (rb_Schema item) (rb_Table item)"

text \<open>The statements, the probes and whether SQL Server must allow explicit identity values.\<close>

definition restorePlan ::
  "unicode \<Rightarrow> string \<Rightarrow> 's RowBackup \<Rightarrow> rowBackupPayload \<Rightarrow> string list \<times> string list \<times> bool" where
  "restorePlan u engine item payload =
     (let table = item_table u engine item in
      if rb_Kind item = ''delete''
      then (map (restore_insert u engine table payload) (batches_of 100 (pl_Rows payload)), [],
            uses_identity u payload \<and> sql_server u engine)
      else if restores_rows u payload
      then (map (restore_update u engine table payload) (pl_Rows payload),
            map (restore_probe u engine table payload) (pl_Rows payload), False)
      else ([], [], False))"

definition restoreSQL :: "unicode \<Rightarrow> string \<Rightarrow> 's RowBackup \<Rightarrow> rowBackupPayload \<Rightarrow> string" where
  "restoreSQL u engine item payload =
     (let table = item_table u engine item; nl = [CHR 0x0A] in
      case restorePlan u engine item payload of
        (statements, _, identityInsert) \<Rightarrow>
          ''-- Restores '' @ decimal (int (rb_Rows item)) @ '' row(s) of '' @ table @ '' backed up before this ''
          @ to_upper u (rb_Kind item) @ '':'' @ nl
          @ concat (map (\<lambda>line. ''--   '' @ line @ nl) (str_split (CHR 0x0A) (trim_space (pl_Statement payload))))
          @ (if identityInsert
             then ''-- '' @ table @ '' has an identity column, so these INSERTs need IDENTITY_INSERT, which the editor cannot turn on.'' @ nl
               @ ''-- Use Restore in Activity '' @ [CHR 0xE2, CHR 0x86, CHR 0x92] @ '' Row backups instead; it runs them in one transaction.'' @ nl
             else [])
          @ (if rb_Kind item = ''update''
             then ''-- Only the columns that statement wrote are put back, so a later change to any other column of these rows stays.'' @ nl
             else [])
          @ ''-- Review before running. In manual commit mode nothing is saved until you press Commit.'' @ nl @ nl
          @ concat (map (\<lambda>st. st @ '';'' @ nl) statements))"

subsection \<open>Running them\<close>

datatype restore_event =
    RestoreRecorded activity
  | RestoreAnswered response
  | RestoreBegan int
  | RestoreSent string
  | RestoreProbed string
  | RestoreCommitted
  | RestoreRolledBack

text \<open>The transaction: what each statement and probe answers, and the commit.\<close>

record restore_world =
  rw_begin :: "string option"
  rw_execute :: "nat \<Rightarrow> string \<Rightarrow> string + int"
  rw_probe :: "nat \<Rightarrow> string \<Rightarrow> string + bool"
  rw_commit :: "string option"

definition restore_refuse :: "nat \<Rightarrow> string \<Rightarrow> string \<Rightarrow> restore_event list" where
  "restore_refuse code name message = [RestoreAnswered (Refused code name message)]"

definition restore_row_missing :: string where
  "restore_row_missing = ''a backed-up row no longer exists under its original key (it was deleted, or the update changed its key); nothing was restored. Open the Script to restore it by hand.''"

fun restore_loop ::
  "restore_world \<Rightarrow> nat \<Rightarrow> string list \<Rightarrow> string list \<Rightarrow> restore_event list \<times> restore_event list option" where
  "restore_loop rw k [] probes = ([], None)"
| "restore_loop rw k (st # sts) probes =
     (case rw_execute rw k st of
        Inl e \<Rightarrow> ([RestoreSent st], Some (restore_refuse 502 ''EXEC_ERROR'' e))
      | Inr affected \<Rightarrow>
          (case probes of
             [] \<Rightarrow> apfst ((#) (RestoreSent st)) (restore_loop rw (Suc k) sts [])
           | p # ps \<Rightarrow>
               (if affected \<noteq> 0 then apfst ((#) (RestoreSent st)) (restore_loop rw (Suc k) sts ps)
                else
                  (case rw_probe rw k p of
                     Inl e \<Rightarrow> ([RestoreSent st, RestoreProbed p], Some (restore_refuse 502 ''EXEC_ERROR'' e))
                   | Inr found \<Rightarrow>
                       (if \<not> found
                        then ([RestoreSent st, RestoreProbed p],
                              Some (restore_refuse 409 ''RESTORE_ROW_MISSING'' restore_row_missing))
                        else apfst (\<lambda>evs. RestoreSent st # RestoreProbed p # evs)
                          (restore_loop rw (Suc k) sts ps))))))"

definition identity_statements :: "bool \<Rightarrow> string \<Rightarrow> string list \<Rightarrow> string list" where
  "identity_statements on table statements =
     (if on then (''SET IDENTITY_INSERT '' @ table @ '' ON'') # statements @ [''SET IDENTITY_INSERT '' @ table @ '' OFF'']
      else statements)"

definition restore_record :: "string \<Rightarrow> string \<Rightarrow> int \<Rightarrow> string \<Rightarrow> string \<Rightarrow> restore_event" where
  "restore_record sql st rows decision policyID =
     RestoreRecorded \<lparr>act_SQL = sql, act_Status = st, act_Rows = rows, act_Decision = decision,
       act_PolicyID = policyID, act_Reference = []\<rparr>"

text \<open>From \<open>Begin\<close> to the answer.\<close>

definition restore_transaction ::
  "restore_world \<Rightarrow> 's RowBackup \<Rightarrow> string \<Rightarrow> string list \<Rightarrow> string list \<Rightarrow> Info \<Rightarrow> int \<Rightarrow> restore_event list" where
  "restore_transaction rw item table statements probes first_info t =
     (case rw_begin rw of
        Some e \<Rightarrow> restore_refuse 502 ''EXEC_ERROR'' e
      | None \<Rightarrow>
          (case restore_loop rw 0 statements probes of
             (evs, Some refusal) \<Rightarrow> RestoreBegan t # evs @ refusal @ [RestoreRolledBack]
           | (evs, None) \<Rightarrow>
               (case rw_commit rw of
                  Some e \<Rightarrow> RestoreBegan t # evs
                    @ restore_refuse 502 ''EXEC_ERROR'' (''the restore could not be committed: '' @ e) @ [RestoreRolledBack]
                | None \<Rightarrow> RestoreBegan t # evs @
                    [RestoreCommitted,
                     restore_record (''-- Row backup restore: '' @ decimal (int (rb_Rows item)) @ '' row(s) of ''
                       @ table @ [CHR 0x0A] @ Raw first_info) ''success'' (int (rb_Rows item)) ''allow'' [],
                     RestoreAnswered (Answer 200)])))"

text \<open>The policies, statement by statement; the record of the first one.\<close>

fun restore_judged ::
  "server \<Rightarrow> 'row world \<Rightarrow> Identity \<Rightarrow> AccessRole \<Rightarrow> Connection \<Rightarrow> string list \<Rightarrow> parse_cache \<Rightarrow>
   (restore_event list + Info list) \<times> parse_cache" where
  "restore_judged s w identity role connection [] c = (Inr [], c)"
| "restore_judged s w identity role connection (st # sts) c =
     (case ParseDialect (srv_tables s) DialectGeneric st c of
        ((_, Some e), c') \<Rightarrow> (Inl (restore_refuse 400 ''PARSE_ERROR'' e), c')
      | ((info, None), c') \<Rightarrow>
          (case import_verdict s w identity role connection info of
             Inl _ \<Rightarrow> (Inl (restore_refuse 500 ''INTERNAL'' ''governance rules unavailable''), c')
           | Inr decision \<Rightarrow>
               (if Effect decision \<noteq> Allow
                then (Inl [restore_record st ''blocked'' 0 ''deny'' (PolicyID decision),
                           RestoreAnswered (Refused 403 ''POLICY_DENIED'' (Reason decision))], c')
                else (case restore_judged s w identity role connection sts c' of
                        (Inl evs, c'') \<Rightarrow> (Inl evs, c'')
                      | (Inr infos, c'') \<Rightarrow> (Inr (info # infos), c'')))))"

definition restore_run ::
  "server \<Rightarrow> 'row world \<Rightarrow> restore_world \<Rightarrow> Identity \<Rightarrow> Connection \<Rightarrow> 's RowBackup \<Rightarrow> string list \<Rightarrow> string list \<Rightarrow>
   bool \<Rightarrow> Info \<Rightarrow> restore_event list" where
  "restore_run s w rw identity connection item statements probes identityInsert info =
     (let table = item_table (srv_tables s) (conn_Engine connection) item;
          policyTimeout = (case w_policies w of Inl _ \<Rightarrow> 0
            | Inr rows \<Rightarrow> res_queryTimeout (resolvePolicies (srv_tables s) rows identity connection)) in
      case fst (routedEngineConnection (srv_access s) (w_topology w) identity connection
                  (Some ''primary'') (Some info) (w_nodes w)) of
        Inl e \<Rightarrow> restore_refuse 502 ''EXEC_ERROR'' (route_message e)
      | Inr (node, _) \<Rightarrow>
          (case w_target w node of
             Some e \<Rightarrow> restore_refuse 502 ''EXEC_ERROR'' e
           | None \<Rightarrow> restore_transaction rw item table (identity_statements identityInsert table statements) probes
               info (withConnectionTimeout connection policyTimeout (10 * 60))))"

text \<open>\<open>applyRowBackup\<close> of a SQL connection; \<open>connections\<close> is the store's table.\<close>

definition applyRowBackup ::
  "server \<Rightarrow> 'row world \<Rightarrow> restore_world \<Rightarrow> bool \<Rightarrow> ('s \<Rightarrow> string + rowBackupPayload) \<Rightarrow>
   (string \<Rightarrow> Connection option) \<Rightarrow> Identity \<Rightarrow> string \<Rightarrow> 's RowBackup list \<Rightarrow> parse_cache \<Rightarrow>
   restore_event list \<times> parse_cache" where
  "applyRowBackup s w rw vault unseal connections identity i items c =
     (case reachableRowBackup identity i items of
        None \<Rightarrow> (restore_refuse 404 ''NOT_FOUND'' ''row backup not found'', c)
      | Some item \<Rightarrow>
          (case connections (rb_ConnectionID item) of
             None \<Rightarrow> (restore_refuse 404 ''NOT_FOUND'' ''the connection no longer exists'', c)
           | Some connection \<Rightarrow>
               (if conn_OrgID connection \<noteq> OrgID identity
                then (restore_refuse 404 ''NOT_FOUND'' ''the connection no longer exists'', c)
                else case role_of (srv_access s) (UserID identity) of
                  Inl _ \<Rightarrow> (restore_refuse 401 ''UNAUTHORIZED'' ''role missing'', c)
                | Inr role \<Rightarrow>
                    (if \<not> canUseConnection (srv_access s) identity connection
                     then (restore_refuse 403 ''FORBIDDEN'' ''you no longer have access to this connection'', c)
                     else case openRowBackup vault unseal item of
                       Inl _ \<Rightarrow> (restore_refuse 500 ''INTERNAL'' ''the backup could not be read'', c)
                     | Inr payload \<Rightarrow>
                         (case restorePlan (srv_tables s) (conn_Engine connection) item payload of
                            (statements, probes, identityInsert) \<Rightarrow>
                              (if statements = [] then ([RestoreAnswered (Answer 200)], c)
                               else (case w_policies w of
                                  Inl _ \<Rightarrow> (restore_refuse 500 ''INTERNAL'' ''governance rules unavailable'', c)
                                | Inr _ \<Rightarrow>
                                    (case restore_judged s w identity role connection statements c of
                                       (Inl evs, c') \<Rightarrow> (evs, c')
                                     | (Inr infos, c') \<Rightarrow>
                                         (restore_run s w rw identity connection item statements probes
                                            identityInsert (hd infos), c')))))))))"

text \<open>The script of a backup, which on a shared installation only administrators may read.\<close>

definition rowBackupRestore ::
  "server \<Rightarrow> bool \<Rightarrow> ('s \<Rightarrow> string + rowBackupPayload) \<Rightarrow> (string \<Rightarrow> Connection option) \<Rightarrow> Identity \<Rightarrow>
   string \<Rightarrow> 's RowBackup list \<Rightarrow> response + string" where
  "rowBackupRestore s vault unseal connections identity i items =
     (if srv_shared s \<and> \<not> IsAdmin identity
      then Inl (Refused 403 ''POLICY_DENIED'' (''only administrators can open a backup'' @ quote_mark @ ''s script; use Restore instead''))
      else case reachableRowBackup identity i items of
        None \<Rightarrow> Inl (Refused 404 ''NOT_FOUND'' ''row backup not found'')
      | Some item \<Rightarrow>
          (case connections (rb_ConnectionID item) of
             None \<Rightarrow> Inl (Refused 404 ''NOT_FOUND'' ''the connection no longer exists'')
           | Some connection \<Rightarrow>
               (case openRowBackup vault unseal item of
                  Inl _ \<Rightarrow> Inl (Refused 500 ''INTERNAL'' ''the backup could not be read'')
                | Inr payload \<Rightarrow> Inr (restoreSQL (srv_tables s) (conn_Engine connection) item payload))))"

text \<open>The list shows what was saved, not the values.\<close>

definition listRowBackups ::
  "bool \<Rightarrow> ('s \<Rightarrow> string + rowBackupPayload) \<Rightarrow> Identity \<Rightarrow> 's RowBackup list \<Rightarrow> ('s RowBackup \<times> string) list" where
  "listRowBackups vault unseal identity items =
     map (\<lambda>item. (item, case openRowBackup vault unseal item of Inl _ \<Rightarrow> [] | Inr p \<Rightarrow> pl_Statement p))
       (rev (sort_key rb_CreatedAt
          (filter (\<lambda>b. if IsAdmin identity then rb_OrgID b = OrgID identity else rb_UserID b = UserID identity) items)))"

end
