(* ===== verification/Row_Backup_Properties.thy ===== *)
theory Row_Backup_Properties
  imports Row_Restore Export_Properties "HOL-Library.Sublist"
begin

section \<open>The properties of row backups\<close>

subsection \<open>Which rows are read\<close>

lemma scan_top_where:
  "scan_top i w froms ts = Some (w', n) \<Longrightarrow>
     list_all (\<lambda>t. Lower t \<noteq> ''join'' \<and> Lower t \<noteq> ''using'') ts
     \<and> (w = None \<longrightarrow> (case w' of
          None \<Rightarrow> list_all (\<lambda>t. Lower t \<noteq> ''where'') ts
        | Some k \<Rightarrow> i \<le> k \<and> k - i < length ts \<and> Lower (ts ! (k - i)) = ''where''
            \<and> list_all (\<lambda>t. Lower t \<noteq> ''where'') (take (k - i) ts)))
     \<and> (\<forall>k. w = Some k \<longrightarrow> w' = Some k)"
proof (induction ts arbitrary: i w froms)
  case Nil
  then show ?case by (auto split: option.splits)
next
  case (Cons t ts)
  show ?case
  proof (cases w)
    case (Some k)
    with Cons show ?thesis by (fastforce split: if_splits)
  next
    case None
    show ?thesis
    proof (cases "Lower t = ''where''")
      case True
      with Cons(2) None have "scan_top (Suc i) (Some i) froms ts = Some (w', n)" by simp
      from Cons(1) [OF this] True None show ?thesis by simp
    next
      case False
      with Cons(2) None obtain m where "scan_top (Suc i) None m ts = Some (w', n)"
        "Lower t \<noteq> ''join''" "Lower t \<noteq> ''using''" by (auto split: if_splits)
      with Cons(1) [OF this(1)] False None show ?thesis
        by (auto simp: nth_Cons' take_Cons' Suc_le_eq split: option.splits)
    qed
  qed
qed

text \<open>A backup reads the rows of the statement's own condition. When a statement is recognized,
  it is one UPDATE or DELETE of one table, without a join; the condition of the backup is the text
  behind the statement's first top-level WHERE up to the clause that ends it, or, for a DELETE
  without any WHERE, LIMIT or RETURNING, every row.\<close>

lemma backup_condition_is_the_statements:
  assumes "backupTargetOf info = Some plan"
  shows "\<not> IsScript info \<and> (\<exists>t. Tables info = [t] \<and> bt_schema plan = Schema t \<and> bt_table plan = Name t)
    \<and> (Command info = Update \<and> bt_kind plan = ''update'' \<or> Command info = Delete \<and> bt_kind plan = ''delete'')
    \<and> list_all (\<lambda>t. Lower t \<noteq> ''join'' \<and> Lower t \<noteq> ''using'') (top_level (Tokens info))
    \<and> (\<exists>before w after. top_level (Tokens info) = before @ w # after \<and> Lower w = ''where''
          \<and> list_all (\<lambda>t. Lower t \<noteq> ''where'') before \<and> HasWhere info
          \<and> bt_where plan = where_clause (Raw info) w after
       \<or> bt_where plan = ''1=1'' \<and> Command info = Delete \<and> \<not> HasWhere info
          \<and> list_all (\<lambda>t. \<not> clause_end t \<and> Lower t \<noteq> ''where'') (drop 2 (top_level (Tokens info))))"
proof -
  let ?top = "top_level (Tokens info)"
  note run = assms [unfolded backupTargetOf_def Let_def]
  have 1: "\<not> IsScript info" using run by (auto split: if_splits)
  obtain table where 2: "Tables info = [table]" using run by (auto simp: 1 split: list.splits)
  obtain w froms where 3: "scan_top 0 None 0 ?top = Some (w, froms)"
    using run by (auto simp: 1 2 split: if_splits option.splits)
  note joins = scan_top_where [OF 3, THEN conjunct1]
  note run3 = run [unfolded 2 list.case 3 option.case prod.case]
  show ?thesis
  proof (cases "Command info = Delete \<and> \<not> HasWhere info")
    case True
    with run3 1 2 joins show ?thesis by (auto simp: list_all_iff list_ex_iff split: if_splits)
  next
    case False
    then obtain k where k: "w = Some k" using run3 1 by (auto split: if_splits)
    with scan_top_where [OF 3] have "k < length ?top" "Lower (?top ! k) = ''where''"
      "list_all (\<lambda>t. Lower t \<noteq> ''where'') (take k ?top)" by auto
    moreover from this(1) have "?top = take k ?top @ ?top ! k # drop (Suc k) ?top" by (simp add: id_take_nth_drop)
    moreover have "bt_where plan = where_clause (Raw info) (?top ! k) (drop (Suc k) ?top)" "HasWhere info"
      "bt_schema plan = Schema table" "bt_table plan = Name table"
      "Command info = Update \<and> bt_kind plan = ''update'' \<or> Command info = Delete \<and> bt_kind plan = ''delete''"
      using run3 False 1 k by (auto split: if_splits)
    ultimately show ?thesis using 1 2 joins by blast
  qed
qed

subsection \<open>What is kept\<close>

lemma store_backup_captured:
  assumes "store_backup u w identity connection info plan database key kinds t = Captured item"
  shows "(bt_kind plan = ''update'' \<longrightarrow> key \<noteq> []) \<and> tr_rows t \<noteq> [] \<and> length (tr_rows t) \<le> rowBackupLimit
    \<and> bw_store w \<and> bw_seal w (backup_payload u (rb_ID item) identity info key kinds t) = Some (rb_Sealed item)
    \<and> rb_UserID item = UserID identity \<and> rb_OrgID item = OrgID identity
    \<and> rb_ConnectionID item = conn_ID connection \<and> rb_Schema item = bt_schema plan
    \<and> rb_Table item = bt_table plan \<and> rb_Kind item = bt_kind plan \<and> rb_Rows item = length (tr_rows t)"
  using assms by (auto simp: store_backup_def split: if_splits option.splits)

lemma backup_reads_done:
  assumes "backup_reads u w engine plan info c = ((Inr (key, kinds, t), sqls), c')"
  shows "\<exists>t0. bw_read w (backup_select u engine plan info key (refreshed_columns kinds)) (rowBackupLimit + 1) = Inr t0
    \<and> t = t0\<lparr>tr_rows := take (rowBackupLimit + 1) (tr_rows t0)\<rparr>
    \<and> last sqls = backup_select u engine plan info key (refreshed_columns kinds)"
  using assms by (auto simp: backup_reads_def readRows_def Let_def split: sum.splits prod.splits option.splits)

text \<open>A backup that is reported is whole. It was taken for a recognized statement, and the store
  has it; its sealed payload names its record and its owner and holds every row the condition
  selected, one to ten thousand of them, each value as the driver gave it; and an UPDATE is only
  backed up where the table has a key to find the rows again.\<close>

lemma reported_backup_is_whole:
  assumes "captureRowBackup u w identity connection info tx database c = ((Captured item, evs), c')"
  shows "\<exists>plan key kinds t. backupTargetOf info = Some plan
    \<and> bw_read w (backup_select u (conn_Engine connection) plan info key (refreshed_columns kinds))
        (rowBackupLimit + 1) = Inr t
    \<and> bw_seal w (backup_payload u (rb_ID item) identity info key kinds t) = Some (rb_Sealed item)
    \<and> rb_UserID item = UserID identity \<and> rb_Kind item = bt_kind plan
    \<and> rb_Rows item = length (tr_rows t) \<and> tr_rows t \<noteq> [] \<and> length (tr_rows t) \<le> 10000
    \<and> (bt_kind plan = ''update'' \<longrightarrow> key \<noteq> []) \<and> BackupStored item \<in> set evs"
proof -
  note run = assms [unfolded captureRowBackup_def Let_def]
  obtain plan where 1: "backupTargetOf info = Some plan" "bw_vault w"
    using run by (auto split: if_splits option.splits)
  have 2: "\<not> (savepoint_used u connection tx \<and> bw_execute w ''SAVEPOINT rowset_backup'' \<noteq> None)"
    using run by (rule_tac notI) (simp add: 1)
  obtain res sqls c1 where 3: "backup_reads u w (conn_Engine connection) plan info c = ((res, sqls), c1)"
    by (metis surj_pair)
  obtain key kinds t where 4: "res = Inr (key, kinds, t)"
    using run 2 by (cases res) (auto simp: 1 3)
  from run 2 have answer: "store_backup u w identity connection info plan database key kinds t = Captured item"
    and "BackupStored item \<in> set evs" by (auto simp: 1 3 4)
  from backup_reads_done [OF 3 [unfolded 4]] obtain t0 where t0:
    "bw_read w (backup_select u (conn_Engine connection) plan info key (refreshed_columns kinds))
        (rowBackupLimit + 1) = Inr t0" "t = t0\<lparr>tr_rows := take (rowBackupLimit + 1) (tr_rows t0)\<rparr>" by blast
  note kept = store_backup_captured [OF answer]
  with t0(2) have "t = t0" by (cases t0) (auto simp: rowBackupLimit_def)
  with t0(1) kept \<open>BackupStored item \<in> set evs\<close> 1(1) show ?thesis by (auto simp: rowBackupLimit_def)
qed

text \<open>A backup never leaves the caller's transaction aborted. In a transaction of PostgreSQL or
  CockroachDB every read stands behind a savepoint, which is released where the reads succeeded
  and rolled back to where one failed; elsewhere no command is sent.\<close>

definition commands_of :: "'s backup_event list \<Rightarrow> string list" where
  "commands_of evs = List.map_filter (\<lambda>e. case e of BackupExecuted sql \<Rightarrow> Some sql | _ \<Rightarrow> None) evs"

lemma commands_of_simps [simp]:
  "commands_of [] = []"
  "commands_of (BackupExecuted sql # evs) = sql # commands_of evs"
  "commands_of (BackupRead sql # evs) = commands_of evs"
  "commands_of (BackupStored item # evs) = commands_of evs"
  "commands_of (xs @ ys) = commands_of xs @ commands_of ys"
  "commands_of (map BackupRead sqls) = []"
  by (simp_all add: commands_of_def List.map_filter_def)

lemma backup_spares_the_transaction:
  "commands_of (snd (fst (captureRowBackup u w identity connection info tx database c))) \<in>
     (if tx \<and> PostgresFamily u (conn_Engine connection)
      then {[], [''SAVEPOINT rowset_backup''], [''SAVEPOINT rowset_backup'', ''RELEASE SAVEPOINT rowset_backup''],
            [''SAVEPOINT rowset_backup'', ''ROLLBACK TO SAVEPOINT rowset_backup'']}
      else {[]})"
proof (cases "if bw_vault w then backupTargetOf info else None")
  case None
  then show ?thesis by (simp add: captureRowBackup_def)
next
  case (Some plan)
  obtain res sqls c1 where reads: "backup_reads u w (conn_Engine connection) plan info c = ((res, sqls), c1)"
    by (metis surj_pair)
  show ?thesis
    by (cases res) (auto simp: captureRowBackup_def Let_def Some reads savepoint_used_def split: captured.splits)
qed

subsection \<open>Which backups are kept\<close>

lemma sort_key_newest:
  assumes "\<And>y. y \<in> set xs \<Longrightarrow> f y \<le> f x"
  shows "sort_key f (xs @ [x]) = sort_key f xs @ [x]"
proof (rule properties_for_sort_key)
  fix k
  have "filter (\<lambda>y. f y = f k) (sort_key f xs) = filter (\<lambda>y. f y = f k) xs" by (rule sort_key_stable)
  then show "filter (\<lambda>y. f k = f y) (sort_key f xs @ [x]) = filter (\<lambda>y. f k = f y) (xs @ [x])"
    by (simp add: eq_commute [of "f k"])
qed (use assms in \<open>auto simp: sorted_append\<close>)

lemma length_le_ids:
  assumes "distinct (map f xs)" and "\<And>x. x \<in> set xs \<Longrightarrow> f x \<in> set ids"
  shows "length xs \<le> length ids"
proof -
  have "card (set (map f xs)) \<le> card (set ids)" by (rule card_mono) (use assms(2) in auto)
  with distinct_card [OF assms(1)] card_length [of ids] show ?thesis by simp
qed

lemma newest_backups_length: "length (newest_backups userID items) \<le> 100"
  by (simp add: newest_backups_def rowBackupsKept_def)

text \<open>Each user keeps the newest hundred backups. Storing a backup leaves its owner with at most a
  hundred, never touches another user's, adds nothing but itself, and keeps the new one unless
  the clock went back.\<close>

lemma newest_backups_are_kept:
  assumes "distinct (map rb_ID (items @ [item]))"
  defines "after \<equiv> CreateRowBackup item items"
  shows "length (filter (\<lambda>b. rb_UserID b = rb_UserID item) after) \<le> 100
    \<and> filter (\<lambda>b. rb_UserID b \<noteq> rb_UserID item) after = filter (\<lambda>b. rb_UserID b \<noteq> rb_UserID item) items
    \<and> set after \<subseteq> insert item (set items)
    \<and> (list_all (\<lambda>b. rb_UserID b = rb_UserID item \<longrightarrow> rb_CreatedAt b \<le> rb_CreatedAt item) items \<longrightarrow> item \<in> set after)"
proof -
  define kept where "kept = map rb_ID (newest_backups (rb_UserID item) (items @ [item]))"
  have after: "after = filter (\<lambda>b. rb_UserID b = rb_UserID item \<longrightarrow> rb_ID b \<in> set kept) (items @ [item])"
    unfolding after_def CreateRowBackup_def kept_def by (simp only: Let_def)
  let ?own = "filter (\<lambda>b. rb_UserID b = rb_UserID item \<and> rb_ID b \<in> set kept) (items @ [item])"
  have own: "filter (\<lambda>b. rb_UserID b = rb_UserID item) after = ?own"
    unfolding after filter_filter by (rule filter_cong) auto
  have "distinct (map rb_ID ?own)" using assms(1) by (rule distinct_map_filter)
  then have "length ?own \<le> length kept" by (rule length_le_ids) (simp only: set_filter mem_Collect_eq)
  then have few: "length (filter (\<lambda>b. rb_UserID b = rb_UserID item) after) \<le> 100"
    using newest_backups_length [of "rb_UserID item" "items @ [item]"] by (simp only: own kept_def length_map)
  have others: "filter (\<lambda>b. rb_UserID b \<noteq> rb_UserID item) after = filter (\<lambda>b. rb_UserID b \<noteq> rb_UserID item) items"
  proof -
    have "filter (\<lambda>b. rb_UserID b \<noteq> rb_UserID item) after
        = filter (\<lambda>b. rb_UserID b \<noteq> rb_UserID item) (items @ [item])"
      unfolding after filter_filter by (rule filter_cong) auto
    then show ?thesis by simp
  qed
  have "item \<in> set after" if "list_all (\<lambda>b. rb_UserID b = rb_UserID item \<longrightarrow> rb_CreatedAt b \<le> rb_CreatedAt item) items"
  proof -
    let ?mine = "filter (\<lambda>b. rb_UserID b = rb_UserID item) items"
    have "sort_key rb_CreatedAt (?mine @ [item]) = sort_key rb_CreatedAt ?mine @ [item]"
      by (rule sort_key_newest) (use that in \<open>simp add: list_all_iff\<close>)
    then have "newest_backups (rb_UserID item) (items @ [item]) = take 100 (item # rev (sort_key rb_CreatedAt ?mine))"
      by (simp add: newest_backups_def rowBackupsKept_def)
    then have "rb_ID item \<in> set kept" by (simp add: kept_def)
    then show ?thesis unfolding after by simp
  qed
  moreover have "set after \<subseteq> insert item (set items)" unfolding after by auto
  ultimately show ?thesis using few others by blast
qed

subsection \<open>Opening a backup\<close>

text \<open>A payload opens under its own record only. Where the vault gives back what it sealed, the
  payload of a reported backup opens as it was saved; under the id of another record or of
  another user the same sealed bytes do not open.\<close>

lemma backup_opens_as_itself:
  assumes "captureRowBackup u w identity connection info tx database c = ((Captured item, evs), c')"
    and "\<And>payload sealed. bw_seal w payload = Some sealed \<Longrightarrow> unseal sealed = Inr payload"
  shows "(\<exists>payload. openRowBackup True unseal item = Inr payload \<and> pl_UserID payload = UserID identity
      \<and> length (pl_Rows payload) = rb_Rows item)
    \<and> (rb_Sealed other = rb_Sealed item \<and> (rb_ID other \<noteq> rb_ID item \<or> rb_UserID other \<noteq> UserID identity)
        \<longrightarrow> openRowBackup True unseal other = Inl ''the backup does not belong to this record'')"
proof -
  note run = assms(1) [unfolded captureRowBackup_def Let_def]
  obtain plan where 1: "backupTargetOf info = Some plan" "bw_vault w"
    using run by (auto split: if_splits option.splits)
  obtain res sqls c1 where 3: "backup_reads u w (conn_Engine connection) plan info c = ((res, sqls), c1)"
    by (metis surj_pair)
  obtain key kinds t where 4: "res = Inr (key, kinds, t)"
    using run by (cases res) (auto simp: 1 3 split: if_splits)
  from run have "store_backup u w identity connection info plan database key kinds t = Captured item"
    by (auto simp: 1 3 4 split: if_splits)
  note kept = store_backup_captured [OF this]
  with assms(2) have "unseal (rb_Sealed item) = Inr (backup_payload u (rb_ID item) identity info key kinds t)" by blast
  with kept show ?thesis by (auto simp: openRowBackup_def backup_payload_def Let_def)
qed

subsection \<open>What a restore does to the table\<close>

text \<open>
  A row of the table maps its lower-cased columns to their values. An UPDATE of the plan changes
  the rows whose key columns have the saved values: the positions it compares and assigns are
  those its text is made of.
\<close>

type_synonym table_row = "string \<Rightarrow> backupValue"

definition key_matches :: "unicode \<Rightarrow> rowBackupPayload \<Rightarrow> backupValue list \<Rightarrow> table_row \<Rightarrow> bool" where
  "key_matches u payload saved r \<longleftrightarrow>
     list_all (\<lambda>i. r (column_name u payload i) = saved ! i) (condition_columns u payload)"

definition put_back :: "unicode \<Rightarrow> rowBackupPayload \<Rightarrow> backupValue list \<Rightarrow> table_row \<Rightarrow> table_row" where
  "put_back u payload saved r =
     foldl (\<lambda>r i. r(column_name u payload i := saved ! i)) r (assignment_columns u payload)"

definition run_update :: "unicode \<Rightarrow> rowBackupPayload \<Rightarrow> table_row list \<Rightarrow> backupValue list \<Rightarrow> table_row list" where
  "run_update u payload rows saved =
     map (\<lambda>r. if key_matches u payload saved r then put_back u payload saved r else r) rows"

definition run_restore :: "unicode \<Rightarrow> rowBackupPayload \<Rightarrow> table_row list \<Rightarrow> table_row list" where
  "run_restore u payload rows =
     (if restores_rows u payload then foldl (run_update u payload) rows (pl_Rows payload) else rows)"

text \<open>
  The saved form of a row; its key, by the names the key has; the columns a restore has to put
  back, which are those saved that neither the key nor the database sets.
\<close>

definition saved_row :: "unicode \<Rightarrow> rowBackupPayload \<Rightarrow> table_row \<Rightarrow> backupValue list" where
  "saved_row u payload r = map (\<lambda>i. r (column_name u payload i)) [0 ..< length (pl_Columns payload)]"

definition key_of_row :: "unicode \<Rightarrow> rowBackupPayload \<Rightarrow> table_row \<Rightarrow> backupValue list" where
  "key_of_row u payload r = map (\<lambda>k. r (to_lower u k)) (pl_Key payload)"

definition restored_names :: "unicode \<Rightarrow> rowBackupPayload \<Rightarrow> string set" where
  "restored_names u payload = nameSet u (pl_Columns payload) - nameSet u (pl_Key payload)
     - nameSet u (pl_Identity payload) - nameSet u (pl_Generated payload)"

definition key_saved :: "unicode \<Rightarrow> rowBackupPayload \<Rightarrow> bool" where
  "key_saved u payload \<longleftrightarrow> pl_Key payload \<noteq> []
     \<and> nameSet u (pl_Key payload) \<subseteq> nameSet u (pl_Columns payload) - nameSet u (pl_Generated payload)"

lemma names_of_columns: "nameSet u (pl_Columns payload) = column_name u payload ` {..< length (pl_Columns payload)}"
  by (force simp: nameSet_def column_name_def in_set_conv_nth)

lemma written_names: "column_name u payload ` set (assignment_columns u payload) = restored_names u payload"
  by (auto simp: restored_names_def names_of_columns assignment_columns_def writable_columns_def)

lemma compared_names:
  "key_saved u payload \<Longrightarrow> column_name u payload ` set (condition_columns u payload) = nameSet u (pl_Key payload)"
  by (auto simp: key_saved_def names_of_columns condition_columns_def writable_columns_def)

lemma plan_positions:
  "i \<in> set (condition_columns u payload) \<Longrightarrow> i < length (pl_Columns payload)"
  "i \<in> set (assignment_columns u payload) \<Longrightarrow> i < length (pl_Columns payload)"
  by (simp_all add: condition_columns_def assignment_columns_def writable_columns_def)

lemma saved_row_nth: "i < length (pl_Columns payload) \<Longrightarrow> saved_row u payload r ! i = r (column_name u payload i)"
  by (simp add: saved_row_def)

lemma key_matches_saved:
  assumes "key_saved u payload"
  shows "key_matches u payload (saved_row u payload r0) r \<longleftrightarrow> key_of_row u payload r = key_of_row u payload r0"
proof -
  have "key_matches u payload (saved_row u payload r0) r
      \<longleftrightarrow> (\<forall>x \<in> column_name u payload ` set (condition_columns u payload). r x = r0 x)"
    by (auto simp: key_matches_def list_all_iff saved_row_nth plan_positions)
  then show ?thesis by (simp add: compared_names [OF assms] nameSet_def key_of_row_def)
qed

lemma put_columns:
  "list_all (\<lambda>i. i < length (pl_Columns payload)) is \<Longrightarrow>
     foldl (\<lambda>r i. r(column_name u payload i := saved_row u payload r0 ! i)) r is
       = (\<lambda>x. if x \<in> column_name u payload ` set is then r0 x else r x)"
  by (induction "is" arbitrary: r) (auto simp: saved_row_nth fun_eq_iff)

lemma put_back_saved:
  "put_back u payload (saved_row u payload r0) r = (\<lambda>x. if x \<in> restored_names u payload then r0 x else r x)"
  unfolding put_back_def written_names [symmetric]
  by (rule put_columns) (simp add: list_all_iff plan_positions)

lemma put_back_keeps_key:
  "key_of_row u payload (\<lambda>x. if x \<in> restored_names u payload then r0 x else r x) = key_of_row u payload r"
  by (auto simp: key_of_row_def restored_names_def nameSet_def)

text \<open>What the whole restore makes of one row.\<close>

lemma run_restore_rows:
  "key_saved u payload \<Longrightarrow> foldl (run_update u payload) rows (map (saved_row u payload) olds) =
     map (\<lambda>r. foldl (\<lambda>r r0. if key_of_row u payload r = key_of_row u payload r0
                      then (\<lambda>x. if x \<in> restored_names u payload then r0 x else r x) else r) r olds) rows"
  by (induction olds arbitrary: rows) (simp_all add: run_update_def key_matches_saved put_back_saved comp_def)

lemma no_restore:
  assumes "key_saved u payload" and "\<not> restores_rows u payload"
  shows "restored_names u payload = {}"
proof -
  have "condition_columns u payload \<noteq> []"
    using compared_names [OF assms(1)] assms(1) by (auto simp: key_saved_def nameSet_def)
  with assms(2) show ?thesis by (simp add: restores_rows_def written_names [symmetric])
qed

lemma restore_one_row:
  assumes "inj_on (key_of_row u payload) (set olds \<union> {r0})" and "key_of_row u payload r = key_of_row u payload r0"
  shows "foldl (\<lambda>r old. if key_of_row u payload r = key_of_row u payload old
                  then (\<lambda>x. if x \<in> restored_names u payload then old x else r x) else r) r olds
    = (if r0 \<in> set olds then (\<lambda>x. if x \<in> restored_names u payload then r0 x else r x) else r)"
  using assms
proof (induction olds arbitrary: r)
  case (Cons old olds)
  let ?put = "\<lambda>old r x. if x \<in> restored_names u payload then old x else r x"
  have inj: "inj_on (key_of_row u payload) (set olds \<union> {r0})" using Cons(2) by (rule inj_on_subset) auto
  show ?case
  proof (cases "key_of_row u payload r = key_of_row u payload old")
    case True
    with Cons(3) inj_onD [OF Cons(2), of old r0] have old: "old = r0" by simp
    have "key_of_row u payload (?put r0 r) = key_of_row u payload r0"
      using Cons(3) by (simp add: put_back_keeps_key)
    from Cons(1) [OF inj this] True show ?thesis by (simp add: old cong: if_cong)
  next
    case False
    with Cons(3) have "old \<noteq> r0" by auto
    with False Cons(1) [OF inj Cons(3)] show ?thesis by simp
  qed
qed simp


definition saved_update :: rowBackupPayload where
  "saved_update = \<lparr>pl_BackupID = ''b'', pl_UserID = ''u'', pl_Statement = [], pl_Columns = [''id'', ''n''],
     pl_Key = [''id''], pl_Rows = [[backup_value KNum ''1'', backup_value KText ''old'']], pl_Generated = [],
     pl_Identity = [], pl_IdentityAlways = False, pl_Types = []\<rparr>"

definition row_of :: "string \<Rightarrow> string \<Rightarrow> table_row" where
  "row_of i n = (\<lambda>x. if x = ''id'' then backup_value KNum i
     else if x = ''n'' then backup_value KText n else backup_value KNull [])"

lemma saved_update_columns:
  "condition_columns ascii_tables saved_update = [0]" "assignment_columns ascii_tables saved_update = [1]"
  "column_name ascii_tables saved_update 0 = ''id''" "column_name ascii_tables saved_update 1 = ''n''"
  by code_simp+


lemma batches_of_all: "0 < n \<Longrightarrow> concat (batches_of n xs) = xs"
  by (induction n xs rule: batches_of.induct) (subst batches_of.simps, simp)

lemma batches_of_size: "list_all (\<lambda>b. b \<noteq> [] \<and> length b \<le> n) (batches_of n xs)"
  by (induction n xs rule: batches_of.induct) (subst batches_of.simps, simp)

text \<open>The restore of a DELETE inserts every deleted row once, in order, at most a hundred to a
  statement, and writes no generated column.\<close>

lemma restore_inserts_every_row:
  assumes "rb_Kind item = ''delete''"
  shows "\<exists>batches. fst (restorePlan u engine item payload)
      = map (restore_insert u engine (item_table u engine item) payload) batches
    \<and> concat batches = pl_Rows payload \<and> list_all (\<lambda>b. b \<noteq> [] \<and> length b \<le> 100) batches
    \<and> list_all (\<lambda>i. column_name u payload i \<notin> nameSet u (pl_Generated payload)) (writable_columns u payload)"
  using assms batches_of_all [of 100 "pl_Rows payload"] batches_of_size [of 100 "pl_Rows payload"]
  by (auto simp: restorePlan_def Let_def writable_columns_def list_all_iff)

subsection \<open>Running a restore\<close>

definition sent_by_restore :: "restore_event list \<Rightarrow> string list" where
  "sent_by_restore evs = List.map_filter (\<lambda>e. case e of RestoreSent sql \<Rightarrow> Some sql | _ \<Rightarrow> None) evs"

lemma sent_by_restore_simps [simp]:
  "sent_by_restore [] = []"
  "sent_by_restore (RestoreSent sql # evs) = sql # sent_by_restore evs"
  "sent_by_restore (RestoreProbed sql # evs) = sent_by_restore evs"
  "sent_by_restore (RestoreAnswered r # evs) = sent_by_restore evs"
  "sent_by_restore (RestoreBegan t # evs) = sent_by_restore evs"
  "sent_by_restore (RestoreRecorded a # evs) = sent_by_restore evs"
  "sent_by_restore (RestoreCommitted # evs) = sent_by_restore evs"
  "sent_by_restore (RestoreRolledBack # evs) = sent_by_restore evs"
  "sent_by_restore (xs @ ys) = sent_by_restore xs @ sent_by_restore ys"
  by (simp_all add: sent_by_restore_def List.map_filter_def)

lemma restore_loop_events:
  "restore_loop rw k sts probes = (evs, res) \<Longrightarrow>
     prefix (sent_by_restore evs) sts \<and> (res = None \<longrightarrow> sent_by_restore evs = sts)
     \<and> list_all (\<lambda>e. case e of RestoreSent _ \<Rightarrow> True | RestoreProbed _ \<Rightarrow> True | _ \<Rightarrow> False) evs
     \<and> (\<forall>r. res = Some r \<longrightarrow> (\<exists>code n m. r = [RestoreAnswered (Refused code n m)]))"
proof (induction rw k sts probes arbitrary: evs res rule: restore_loop.induct)
  case (2 rw k st sts probes)
  show ?case
  proof (cases "rw_execute rw k st")
    case (Inl e)
    with 2(4) show ?thesis by (auto simp: restore_refuse_def)
  next
    case (Inr n)
    show ?thesis
    proof (cases probes)
      case Nil
      obtain evs' where "restore_loop rw (Suc k) sts [] = (evs', res)" "evs = RestoreSent st # evs'"
        using 2(4) Inr Nil by (cases "restore_loop rw (Suc k) sts []") auto
      with 2(1) [OF Inr Nil this(1)] show ?thesis by simp
    next
      case (Cons p ps)
      obtain evs' r where later: "restore_loop rw (Suc k) sts ps = (evs', r)" by fastforce
      show ?thesis
      proof (cases "n \<noteq> 0")
        case True
        with 2(4) Inr Cons later 2(2) [OF Inr Cons True later] show ?thesis by auto
      next
        case False
        show ?thesis
        proof (cases "rw_probe rw k p")
          case (Inl e)
          with 2(4) Inr Cons False show ?thesis by (auto simp: restore_refuse_def)
        next
          case (Inr found)
          with 2(4) \<open>rw_execute rw k st = Inr n\<close> Cons False later
            2(3) [OF \<open>rw_execute rw k st = Inr n\<close> Cons False Inr _ later]
          show ?thesis by (cases found) (auto simp: restore_refuse_def)
        qed
      qed
    qed
  qed
qed simp

lemma restore_judged_allows:
  "restore_judged s w identity role connection sts c = (Inr infos, c') \<Longrightarrow> cache_ok (srv_tables s) c \<Longrightarrow>
     list_all2 (\<lambda>st info. parse_uncached (srv_tables s) DialectGeneric st = (info, None)
       \<and> (\<exists>d. import_verdict s w identity role connection info = Inr d \<and> Effect d = Allow)) sts infos"
proof (induction sts arbitrary: c c' infos)
  case (Cons st sts)
  obtain info err c1 where parse: "ParseDialect (srv_tables s) DialectGeneric st c = ((info, err), c1)"
    by (metis surj_pair)
  with ParseDialect_transparent [OF Cons(3), of DialectGeneric st]
  have uncached: "parse_uncached (srv_tables s) DialectGeneric st = (info, err)" and c1: "cache_ok (srv_tables s) c1"
    by auto
  have err: "err = None" using Cons(2) by (cases err) (simp_all add: parse)
  obtain d where d: "import_verdict s w identity role connection info = Inr d"
    using Cons(2) by (cases "import_verdict s w identity role connection info") (simp_all add: parse err)
  have allow: "Effect d = Allow" using Cons(2) by (rule_tac ccontr) (simp add: parse err d)
  obtain rest c2 where rest: "restore_judged s w identity role connection sts c1 = (rest, c2)" by fastforce
  obtain infos' where "rest = Inr infos'" "infos = info # infos'"
    using Cons(2) by (cases rest) (simp_all add: parse err d allow rest)
  with Cons(1) [OF rest [unfolded this(1)] c1] uncached err d allow show ?case by simp
qed simp

lemma restore_transaction_events:
  assumes "restore_transaction rw item table sts probes info t = evs" and "RestoreBegan t' \<in> set evs"
  shows "prefix (sent_by_restore evs) sts
    \<and> (RestoreCommitted \<in> set evs \<longleftrightarrow> RestoreRolledBack \<notin> set evs)
    \<and> (RestoreCommitted \<in> set evs \<longleftrightarrow> RestoreAnswered (Answer 200) \<in> set evs)
    \<and> (RestoreCommitted \<in> set evs \<longrightarrow> sent_by_restore evs = sts)"
proof -
  have began: "rw_begin rw = None"
    using assms by (cases "rw_begin rw") (auto simp: restore_transaction_def restore_refuse_def)
  obtain sent res where loop: "restore_loop rw 0 sts probes = (sent, res)" by fastforce
  note facts = restore_loop_events [OF loop]
  then have quiet: "RestoreCommitted \<notin> set sent" "RestoreRolledBack \<notin> set sent" "RestoreAnswered r \<notin> set sent" for r
    by (auto simp: list_all_iff)
  show ?thesis
  proof (cases res)
    case (Some refusal)
    with facts obtain code n m where "refusal = [RestoreAnswered (Refused code n m)]" by auto
    with assms(1) Some facts quiet show ?thesis by (auto simp: restore_transaction_def began loop)
  next
    case None
    with assms(1) facts quiet show ?thesis
      by (cases "rw_commit rw") (auto simp: restore_transaction_def began loop restore_refuse_def restore_record_def)
  qed
qed

lemma restore_run_events:
  assumes "restore_run s w rw identity connection item sts probes ii info = evs" and "RestoreBegan t \<in> set evs"
  shows "\<exists>t'. evs = restore_transaction rw item (item_table (srv_tables s) (conn_Engine connection) item)
    (identity_statements ii (item_table (srv_tables s) (conn_Engine connection) item) sts) probes info t'"
  using assms by (auto simp: restore_run_def Let_def restore_refuse_def split: sum.splits option.splits prod.splits)

text \<open>C9: a restore is judged and all or nothing. When a restore opens a transaction, the caller may
  use the connection and reach the backup, the payload opened as the backup's own, and every one
  of its statements was parsed and allowed by the guardrails and custom policies resolved for
  the caller; what it sent is a beginning of the plan's statements; and it either sent them all,
  committed and answered with success, or rolled back and did not.\<close>

theorem restore_is_judged_and_atomic:
  assumes "cache_ok (srv_tables s) c"
    and "applyRowBackup s w rw vault unseal connections identity i items c = (evs, c')"
    and "RestoreBegan t \<in> set evs"
  shows "\<exists>item connection role payload sts probes ii infos.
    reachableRowBackup identity i items = Some item
    \<and> connections (rb_ConnectionID item) = Some connection \<and> canUseConnection (srv_access s) identity connection
    \<and> role_of (srv_access s) (UserID identity) = Inr role
    \<and> openRowBackup vault unseal item = Inr payload
    \<and> restorePlan (srv_tables s) (conn_Engine connection) item payload = (sts, probes, ii)
    \<and> list_all2 (\<lambda>st info. parse_uncached (srv_tables s) DialectGeneric st = (info, None)
        \<and> (\<exists>d. import_verdict s w identity role connection info = Inr d \<and> Effect d = Allow)) sts infos
    \<and> (let all = identity_statements ii (item_table (srv_tables s) (conn_Engine connection) item) sts in
        prefix (sent_by_restore evs) all
        \<and> (RestoreCommitted \<in> set evs \<longrightarrow> sent_by_restore evs = all))
    \<and> (RestoreCommitted \<in> set evs \<longleftrightarrow> RestoreRolledBack \<notin> set evs)
    \<and> (RestoreCommitted \<in> set evs \<longleftrightarrow> RestoreAnswered (Answer 200) \<in> set evs)"
proof -
  note run = assms(2) [unfolded applyRowBackup_def]
  have no: "RestoreBegan t \<notin> set (restore_refuse n m e)" for n m e by (simp add: restore_refuse_def)
  obtain item where 1: "reachableRowBackup identity i items = Some item"
    using run assms(3) no by (cases "reachableRowBackup identity i items") auto
  obtain connection where 2: "connections (rb_ConnectionID item) = Some connection"
    using run assms(3) no by (cases "connections (rb_ConnectionID item)") (auto simp: 1)
  have 3: "conn_OrgID connection = OrgID identity"
    using run assms(3) no by (rule_tac ccontr) (auto simp: 1 2)
  obtain role where 4: "role_of (srv_access s) (UserID identity) = Inr role"
    using run assms(3) no by (cases "role_of (srv_access s) (UserID identity)") (auto simp: 1 2 3)
  have 5: "canUseConnection (srv_access s) identity connection"
    using run assms(3) no by (rule_tac ccontr) (auto simp: 1 2 3 4)
  obtain payload where 6: "openRowBackup vault unseal item = Inr payload"
    using run assms(3) no by (cases "openRowBackup vault unseal item") (auto simp: 1 2 3 4 5)
  obtain sts probes ii where 7: "restorePlan (srv_tables s) (conn_Engine connection) item payload = (sts, probes, ii)"
    by (metis surj_pair)
  have 8: "sts \<noteq> []" using run assms(3) by (rule_tac notI) (auto simp: 1 2 3 4 5 6 7)
  obtain table where 9: "w_policies w = Inr table"
    using run assms(3) no by (cases "w_policies w") (auto simp: 1 2 3 4 5 6 7 8)
  obtain res c1 where 10: "restore_judged s w identity role connection sts c = (res, c1)" by fastforce
  show ?thesis
  proof (cases res)
    case (Inl es)
    have "RestoreBegan t \<notin> set es"
      using 10 [unfolded Inl]
    proof (induction sts arbitrary: c)
      case (Cons st sts)
      then show ?case
        by (auto simp: no restore_record_def split: prod.splits option.splits sum.splits if_splits)
    qed simp
    with run assms(3) Inl show ?thesis by (simp add: 1 2 3 4 5 6 7 8 9 10)
  next
    case (Inr infos)
    with run have evs: "restore_run s w rw identity connection item sts probes ii (hd infos) = evs"
      by (simp add: 1 2 3 4 5 6 7 8 9 10)
    from restore_run_events [OF this assms(3)] obtain t' where
      "restore_transaction rw item (item_table (srv_tables s) (conn_Engine connection) item)
        (identity_statements ii (item_table (srv_tables s) (conn_Engine connection) item) sts) probes (hd infos) t' = evs"
      by blast
    from restore_transaction_events [OF this assms(3)] 1 2 4 5 6 7
      restore_judged_allows [OF 10 [unfolded Inr] assms(1)] show ?thesis by (auto simp: Let_def)
  qed
qed

subsection \<open>One backup, taken and put back\<close>

text \<open>A statement as the guard reports it, with the tokens of its text.\<close>

definition write_of :: "kind \<Rightarrow> string \<Rightarrow> Info" where
  "write_of k sql = (zero_info DialectPostgres sql)\<lparr>Kind := k, Command := k, HasWhere := True,
     Tables := [\<lparr>Schema = [], Name = ''t'', Alias = []\<rparr>],
     Tokens := (case LexDialect ascii_tables DialectPostgres sql of Inr ts \<Rightarrow> ts | Inl _ \<Rightarrow> [])\<rparr>"

definition one_update :: Info where
  "one_update = write_of Update ''update t set n = m where id = x''"

lemma one_update_target:
  "backupTargetOf one_update = Some \<lparr>bt_kind = ''update'', bt_schema = [], bt_table = ''t'', bt_where = ''id = x''\<rparr>"
  by code_simp

lemma backup_condition_is_the_statements_witness:
  "\<not> IsScript one_update \<and> list_all (\<lambda>t. Lower t \<noteq> ''join'' \<and> Lower t \<noteq> ''using'') (top_level (Tokens one_update))"
  using backup_condition_is_the_statements [OF one_update_target] by blast

text \<open>A database with one row to change; what it seals is the payload itself.\<close>

definition one_row_world :: "rowBackupPayload backup_world" where
  "one_row_world = \<lparr>bw_vault = True, bw_execute = (\<lambda>_. None),
     bw_read = (\<lambda>sql n. Inr (if n = 64 then \<lparr>tr_columns = [], tr_types = [], tr_rows = [[TextV ''id'']]\<rparr>
        else if n = 4096 then \<lparr>tr_columns = [], tr_types = [], tr_rows = []\<rparr>
        else \<lparr>tr_columns = [''id'', ''n''], tr_types = [], tr_rows = [[IntV 7, TextV ''old'']]\<rparr>)),
     bw_seal = Some, bw_store = True, bw_fresh_id = ''b'', bw_now = []\<rparr>"

definition select_text :: string where
  "select_text = ''SELECT '' @ [CHR 0x22] @ ''id'' @ [CHR 0x22] @ '', n FROM '' @ [CHR 0x22] @ ''t'' @ [CHR 0x22]
     @ '' WHERE id = x''"

lemma one_select:
  "backup_select ascii_tables ''postgres'' \<lparr>bt_kind = ''update'', bt_schema = [], bt_table = ''t'', bt_where = ''id = x''\<rparr>
     one_update [''id''] [] = select_text"
  by code_simp

lemma one_select_parses:
  "snd (fst (ParseDialect ascii_tables DialectGeneric select_text empty_cache)) = None"
proof -
  have "splitStatements ascii_tables DialectGeneric select_text = Inr [select_text]" by code_simp
  moreover have "case LexDialect ascii_tables DialectGeneric select_text of Inr (t # ts) \<Rightarrow> True | _ \<Rightarrow> False"
    "trim_space select_text = select_text" by code_simp+
  ultimately show ?thesis
    by (auto simp: ParseDialect_transparent parse_uncached_def parse_dialect_def classify_statement_def Let_def
        dialect_valid_def split: sum.splits list.splits)
qed

lemma one_capture:
  "\<exists>item evs c'. captureRowBackup ascii_tables one_row_world plain_identity plain_connection one_update False []
      empty_cache = ((Captured item, evs), c')"
proof -
  obtain info c' where parse: "ParseDialect ascii_tables DialectGeneric select_text empty_cache = ((info, None), c')"
    using one_select_parses by (metis prod.collapse)
  have key: "key_names ascii_tables [[TextV ''id'']] = [''id'']" by code_simp
  have kinds: "column_kinds ascii_tables [] = []" "refreshed_columns [] = []"
    by (simp_all add: column_kinds_def refreshed_columns_def)
  have engine: "conn_Engine plain_connection = ''postgres''" by (simp add: plain_connection_def)
  show ?thesis
    by (simp add: captureRowBackup_def one_update_target savepoint_used_def backup_reads_def readRows_def
        one_row_world_def key kinds engine one_select parse rowBackupLimit_def store_backup_def Let_def)
qed

lemma reported_backup_is_whole_witness:
  "\<exists>plan. backupTargetOf one_update = Some plan \<and> bt_kind plan = ''update''"
proof -
  obtain item evs c' where run: "captureRowBackup ascii_tables one_row_world plain_identity plain_connection one_update
      False [] empty_cache = ((Captured item, evs), c')" using one_capture by blast
  from reported_backup_is_whole [OF run] show ?thesis by (auto simp: one_update_target)
qed

lemma backup_opens_as_itself_witness:
  "\<exists>item payload. openRowBackup True Inr (item :: rowBackupPayload RowBackup) = Inr payload \<and> pl_UserID payload = ''u''"
proof -
  obtain item evs c' where run: "captureRowBackup ascii_tables one_row_world plain_identity plain_connection one_update
      False [] empty_cache = ((Captured item, evs), c')" using one_capture by blast
  have "Inr sealed = (Inr payload :: string + rowBackupPayload)" if "bw_seal one_row_world payload = Some sealed"
    for payload sealed using that by (simp add: one_row_world_def)
  from backup_opens_as_itself [OF run, of Inr item] this show ?thesis by (auto simp: plain_identity_def)
qed

definition one_backup :: "rowBackupPayload RowBackup" where
  "one_backup = \<lparr>rb_ID = ''b'', rb_OrgID = ''o'', rb_UserID = ''u'', rb_ConnectionID = ''c'', rb_Database = [],
     rb_Schema = [], rb_Table = ''t'', rb_Kind = ''delete'', rb_Rows = 1, rb_Sealed = saved_update, rb_CreatedAt = []\<rparr>"

lemma newest_backups_are_kept_witness: "one_backup \<in> set (CreateRowBackup one_backup [])"
  using newest_backups_are_kept [of "[]" one_backup] by simp

lemma restore_inserts_every_row_witness:
  "\<exists>batches. concat batches = pl_Rows saved_update \<and> list_all (\<lambda>b. b \<noteq> [] \<and> length b \<le> 100) batches"
  using restore_inserts_every_row [of one_backup ascii_tables "''postgres''" saved_update]
  by (auto simp: one_backup_def)

definition willing_restore :: restore_world where
  "willing_restore = \<lparr>rw_begin = None, rw_execute = (\<lambda>_ _. Inr 1), rw_probe = (\<lambda>_ _. Inr True), rw_commit = None\<rparr>"

lemma restore_example:
  "list_ex (\<lambda>e. case e of RestoreBegan t \<Rightarrow> t = 600 | _ \<Rightarrow> False)
     (fst (applyRowBackup plain_server file_world willing_restore True Inr (\<lambda>_. Some plain_connection) plain_identity
        ''b'' [one_backup] empty_cache))"
  by code_simp

lemma restore_is_judged_and_atomic_witness:
  "\<exists>payload. openRowBackup True Inr one_backup = Inr payload
     \<and> fst (restorePlan ascii_tables ''postgres'' one_backup payload) \<noteq> []"
proof -
  obtain evs c' where run: "applyRowBackup plain_server file_world willing_restore True Inr (\<lambda>_. Some plain_connection)
      plain_identity ''b'' [one_backup] empty_cache = (evs, c')" by (metis surj_pair)
  with restore_example have "list_ex (\<lambda>e. case e of RestoreBegan t \<Rightarrow> t = 600 | _ \<Rightarrow> False) evs" by simp
  then obtain e where "e \<in> set evs" "case e of RestoreBegan t \<Rightarrow> t = 600 | _ \<Rightarrow> False" by (auto simp: list_ex_iff)
  then have began: "RestoreBegan 600 \<in> set evs" by (cases e rule: restore_event.exhaust) auto
  have "cache_ok (srv_tables plain_server) empty_cache" by (simp add: plain_server_def)
  from restore_is_judged_and_atomic [OF this run began] obtain item payload where
    "reachableRowBackup plain_identity ''b'' [one_backup] = Some item" "openRowBackup True Inr item = Inr payload" by blast
  moreover have "reachableRowBackup plain_identity ''b'' [one_backup] = Some one_backup" by code_simp
  moreover have "openRowBackup True Inr one_backup = Inr saved_update" by code_simp
  moreover have "fst (restorePlan ascii_tables ''postgres'' one_backup saved_update) \<noteq> []" by code_simp
  ultimately show ?thesis by auto
qed

subsection \<open>What is not put back\<close>

text \<open>
  A quoted column called like the end of a clause hides the condition: the DELETE runs without a
  backup and without a word. Two columns that differ in case only are one to the reader of the
  SET list, and only the first is saved.
\<close>

lemma quoted_limit_loses_backup:
  "backupTargetOf (write_of Delete (''delete from t where '' @ [CHR 0x22] @ ''limit'' @ [CHR 0x22] @ '' > 5'')) = None"
  by code_simp

lemma case_twins_lose_a_column:
  "assignedColumns (write_of Update
     (''update t set '' @ [CHR 0x22] @ ''A'' @ [CHR 0x22] @ '' = 1, a = 2 where id = 7''))
   = Some [(''a'', [CHR 0x22] @ ''A'' @ [CHR 0x22])]"
  by code_simp

text \<open>
  A table whose key is generated has no position to compare, so its restore is empty and is
  answered with success.
\<close>

lemma generated_key_restores_nothing:
  "restorePlan ascii_tables ''postgres'' (one_backup\<lparr>rb_Kind := ''update''\<rparr>) (saved_update\<lparr>pl_Generated := [''id'']\<rparr>) = ([], [], False)"
  by code_simp

end
