(* ===== verification/Multirun.thy ===== *)
theory Multirun
  imports Cassandra "HOL-Library.Multiset" "HOL-Library.Sublist"
begin

section \<open>A script on several connections (api/multirun.go)\<close>

text \<open>
  One request runs a list of statements on each of several connections. A number of workers take
  the targets from a shared counter; each runs the statements on its target in order until the
  first error. The workers are a step relation whose steps are the atomic additions to the counter
  and the ends of targets; what a target does is a function of its statements' outcomes.
\<close>

subsection \<open>The request\<close>

record multiRunTarget =
  mt_ConnectionID :: string
  mt_Database :: string

record multiRunInput =
  mi_Targets :: "multiRunTarget list"
  mi_Statements :: "string list"
  mi_Concurrency :: int
  mi_Backup :: bool

definition defaultMultiRunConcurrency :: int where
  "defaultMultiRunConcurrency = 4"

definition maxMultiRunConcurrency :: int where
  "maxMultiRunConcurrency = 10"

text \<open>The statements and the number of workers of a request that is accepted.\<close>

definition multi_request :: "multiRunInput option \<Rightarrow> response + string list \<times> nat" where
  "multi_request decoded =
     (case decoded of
        None \<Rightarrow> Inl (Refused 400 ''BAD_REQUEST'' ''invalid JSON request'')
      | Some input \<Rightarrow>
          (let statements = filter (\<lambda>t. t \<noteq> []) (map trim_space (mi_Statements input));
               concurrency = (if mi_Concurrency input \<le> 0 then defaultMultiRunConcurrency else mi_Concurrency input) in
           if mi_Targets input = [] \<or> statements = []
           then Inl (Refused 400 ''BAD_REQUEST'' ''choose at least one connection and one statement'')
           else if list_ex (\<lambda>t. trim_space (mt_ConnectionID t) = []) (mi_Targets input)
           then Inl (Refused 400 ''BAD_REQUEST'' ''every target needs a connectionId'')
           else if maxMultiRunConcurrency < concurrency
           then Inl (Refused 400 ''BAD_REQUEST'' ''concurrency must be between 1 and 10'')
           else Inr (statements, nat (min concurrency (int (length (mi_Targets input)))))))"

subsection \<open>One statement\<close>

text \<open>The request the handler of a single run is given, with the database or the keyspace; \<open>None\<close> for
  an engine that has no such handler.\<close>

datatype handler_call = CallQuery string queryInput | CallCassandra string cassandraInput

definition statement_call :: "string \<Rightarrow> multiRunTarget \<Rightarrow> string \<Rightarrow> bool \<Rightarrow> handler_call option" where
  "statement_call engine target sql backup =
     (if engine = ''cassandra''
      then Some (CallCassandra (mt_Database target) \<lparr>cas_Query = sql, cas_Limit = 0, cas_Backup = False\<rparr>)
      else if engine \<in> {''mongodb'', ''redis'', ''valkey'', ''elasticsearch''} then None
      else Some (CallQuery (mt_Database target) \<lparr>inp_MaxRows = 0, inp_SQL = sql, inp_NodeRole = None, inp_Backup = backup\<rparr>))"

text \<open>What the handler wrote: the status and the fields of the body that are looked at.\<close>

datatype error_body = NoError | ErrorMessage string | ErrorText string | OtherError

record handler_answer =
  ha_status :: nat
  ha_columns :: "string list"
  ha_rowCount :: "int option"
  ha_rowsAffected :: "int option"
  ha_message :: string
  ha_error :: error_body
  ha_body :: string

record statementOutcome =
  so_body :: string
  so_rowCount :: "int option"
  so_hasColumns :: bool
  so_err :: string

definition failed_outcome :: "string \<Rightarrow> statementOutcome" where
  "failed_outcome e = \<lparr>so_body = [], so_rowCount = None, so_hasColumns = False, so_err = e\<rparr>"

text \<open>\<open>status_text\<close> is \<open>http.StatusText\<close>.\<close>

definition errorText :: "(nat \<Rightarrow> string) \<Rightarrow> error_body \<Rightarrow> nat \<Rightarrow> string" where
  "errorText status_text body code =
     (case body of
        ErrorMessage m \<Rightarrow> if m \<noteq> [] then m else status_text code
      | ErrorText t \<Rightarrow> if t \<noteq> [] then t else status_text code
      | _ \<Rightarrow> status_text code)"

definition answer_outcome :: "(nat \<Rightarrow> string) \<Rightarrow> handler_answer \<Rightarrow> statementOutcome" where
  "answer_outcome status_text a =
     (if ha_status a = 202
      then failed_outcome (if ha_message a = [] then ''The statement is waiting and has not run.'' else ha_message a)
      else if 300 \<le> ha_status a \<or> ha_error a \<noteq> NoError
      then failed_outcome (errorText status_text (ha_error a) (ha_status a))
      else \<lparr>so_body = ha_body a,
             so_rowCount = (if ha_rowCount a = None then ha_rowsAffected a else ha_rowCount a),
             so_hasColumns = ha_columns a \<noteq> [], so_err = []\<rparr>)"

definition runStatementFor ::
  "(nat \<Rightarrow> string) \<Rightarrow> (string \<Rightarrow> handler_call \<Rightarrow> handler_answer) \<Rightarrow> (string \<Rightarrow> string + Connection) \<Rightarrow> multiRunTarget \<Rightarrow>
   string \<Rightarrow> bool \<Rightarrow> statementOutcome" where
  "runStatementFor status_text handle find_connection target sql backup =
     (case find_connection (mt_ConnectionID target) of
        Inl e \<Rightarrow> failed_outcome e
      | Inr connection \<Rightarrow>
          (case statement_call (conn_Engine connection) target sql backup of
             None \<Rightarrow> failed_outcome ''run on several connections is not available for this engine''
           | Some call \<Rightarrow> answer_outcome status_text (handle (mt_ConnectionID target) call)))"

subsection \<open>One target\<close>

datatype target_status = TargetRunning | TargetSuccess | TargetError | TargetCancelled

record multiRunEvent =
  me_Status :: target_status
  me_Completed :: nat
  me_Total :: nat
  me_RowCount :: "int option"
  me_Error :: string
  me_FailedStatement :: string
  me_Result :: "string option"

definition stoppedMessage :: string where
  "stoppedMessage = ''Stopped. A write that was already running may have completed; check the database.''"

text \<open>
  \<open>stop k\<close> says whether the request was cancelled when it was looked at for the k-th time. The
  loop gives the events and the statements that were run.
\<close>

fun script_loop ::
  "(nat \<Rightarrow> bool) \<Rightarrow> (nat \<Rightarrow> string \<Rightarrow> statementOutcome) \<Rightarrow> nat \<Rightarrow> multiRunEvent \<Rightarrow> string option \<Rightarrow> string list \<Rightarrow>
   multiRunEvent list \<times> string list" where
  "script_loop stop run k ev last_body [] = ([ev\<lparr>me_Status := TargetSuccess, me_Result := last_body\<rparr>], [])"
| "script_loop stop run k ev last_body (sql # sqls) =
     (if stop k
      then ([ev\<lparr>me_Status := TargetCancelled, me_Error := stoppedMessage, me_FailedStatement := sql\<rparr>], [])
      else
        (let outcome = run (me_Completed ev) sql in
         if so_err outcome \<noteq> []
         then (let failed = ev\<lparr>me_FailedStatement := sql, me_Result := last_body\<rparr> in
               ([if stop (Suc k) then failed\<lparr>me_Status := TargetCancelled, me_Error := stoppedMessage\<rparr>
                 else failed\<lparr>me_Status := TargetError, me_Error := so_err outcome\<rparr>], [sql]))
         else
           (let ev' = ev\<lparr>me_Completed := Suc (me_Completed ev), me_RowCount := so_rowCount outcome,
                         me_Status := TargetRunning\<rparr>;
                (evs, ran_sqls) = script_loop stop run (Suc k) ev'
                    (if so_hasColumns outcome then Some (so_body outcome) else last_body) sqls in
            (ev' # evs, sql # ran_sqls))))"

definition first_event :: "nat \<Rightarrow> target_status \<Rightarrow> multiRunEvent" where
  "first_event n st = \<lparr>me_Status = st, me_Completed = 0, me_Total = n, me_RowCount = None, me_Error = [],
     me_FailedStatement = [], me_Result = None\<rparr>"

definition runTarget ::
  "(nat \<Rightarrow> bool) \<Rightarrow> (nat \<Rightarrow> string \<Rightarrow> statementOutcome) \<Rightarrow> string list \<Rightarrow> multiRunEvent list \<times> string list" where
  "runTarget stop run sqls =
     (if stop 0 then ([first_event (length sqls) TargetCancelled], [])
      else
        (let ev = first_event (length sqls) TargetRunning;
             (evs, ran_sqls) = script_loop stop run 1 ev None sqls in
         (ev # evs, ran_sqls)))"

subsection \<open>The workers\<close>

datatype worker = Idle | Working nat | Finished

record multirun =
  mr_next :: nat
  mr_workers :: "worker list"
  mr_started :: "nat list"
  mr_ended :: "nat list"

definition multi_start :: "nat \<Rightarrow> multirun" where
  "multi_start concurrency =
     \<lparr>mr_next = 0, mr_workers = replicate concurrency Idle, mr_started = [], mr_ended = []\<rparr>"

definition take_target :: "nat \<Rightarrow> nat \<Rightarrow> multirun \<Rightarrow> multirun" where
  "take_target targets k st =
     (if targets \<le> mr_next st
      then st\<lparr>mr_next := Suc (mr_next st), mr_workers := (mr_workers st)[k := Finished]\<rparr>
      else st\<lparr>mr_next := Suc (mr_next st), mr_workers := (mr_workers st)[k := Working (mr_next st)],
              mr_started := mr_started st @ [mr_next st]\<rparr>)"

definition end_target :: "nat \<Rightarrow> nat \<Rightarrow> multirun \<Rightarrow> multirun" where
  "end_target k i st = st\<lparr>mr_workers := (mr_workers st)[k := Idle], mr_ended := mr_ended st @ [i]\<rparr>"

inductive multi_step :: "nat \<Rightarrow> multirun \<Rightarrow> multirun \<Rightarrow> bool" for targets :: nat where
  take_one: "k < length (mr_workers st) \<Longrightarrow> mr_workers st ! k = Idle \<Longrightarrow>
    multi_step targets st (take_target targets k st)"
| end_one: "k < length (mr_workers st) \<Longrightarrow> mr_workers st ! k = Working i \<Longrightarrow>
    multi_step targets st (end_target k i st)"

inductive multi_reachable :: "nat \<Rightarrow> nat \<Rightarrow> multirun \<Rightarrow> bool" for targets concurrency :: nat where
  multi_begin: "multi_reachable targets concurrency (multi_start concurrency)"
| multi_more: "multi_reachable targets concurrency st \<Longrightarrow> multi_step targets st st' \<Longrightarrow>
    multi_reachable targets concurrency st'"

inductive_cases multi_stepE: "multi_step targets st st'"

subsection \<open>What holds of a target\<close>

fun no_error :: "(nat \<Rightarrow> string \<Rightarrow> statementOutcome) \<Rightarrow> nat \<Rightarrow> string list \<Rightarrow> bool" where
  "no_error run k [] = True"
| "no_error run k (sql # sqls) \<longleftrightarrow> so_err (run k sql) = [] \<and> no_error run (Suc k) sqls"

definition next_event :: "multiRunEvent \<Rightarrow> statementOutcome \<Rightarrow> multiRunEvent" where
  "next_event ev outcome = ev\<lparr>me_Completed := Suc (me_Completed ev), me_RowCount := so_rowCount outcome,
     me_Status := TargetRunning\<rparr>"

lemma next_event_completed [simp]: "me_Completed (next_event ev outcome) = Suc (me_Completed ev)"
  "me_Status (next_event ev outcome) = TargetRunning"
  by (simp_all add: next_event_def)

text \<open>A statement is refused, or the loop goes on behind it.\<close>

lemma script_loop_stops:
  "stop k \<Longrightarrow> snd (script_loop stop run k ev last_body (sql # sqls)) = []
     \<and> (\<exists>e. fst (script_loop stop run k ev last_body (sql # sqls)) = [e] \<and> me_Status e = TargetCancelled)"
  "\<not> stop k \<Longrightarrow> so_err (run (me_Completed ev) sql) \<noteq> [] \<Longrightarrow>
     snd (script_loop stop run k ev last_body (sql # sqls)) = [sql]
     \<and> (\<exists>e. fst (script_loop stop run k ev last_body (sql # sqls)) = [e]
          \<and> (me_Status e = TargetCancelled \<or> me_Status e = TargetError))"
  by (simp_all add: Let_def)

lemma script_loop_goes_on:
  fixes last_body :: "string option"
  assumes "\<not> stop k" and "so_err (run (me_Completed ev) sql) = []"
  defines "ev' \<equiv> next_event ev (run (me_Completed ev) sql)"
    and "body' \<equiv> (if so_hasColumns (run (me_Completed ev) sql) then Some (so_body (run (me_Completed ev) sql)) else last_body)"
  shows "script_loop stop run k ev last_body (sql # sqls) =
    (ev' # fst (script_loop stop run (Suc k) ev' body' sqls), sql # snd (script_loop stop run (Suc k) ev' body' sqls))"
  using assms(1,2) by (simp add: ev'_def body'_def next_event_def Let_def case_prod_beta)

declare script_loop.simps(2) [simp del]

definition target_ended :: "(nat \<Rightarrow> string \<Rightarrow> statementOutcome) \<Rightarrow> nat \<Rightarrow> string list \<Rightarrow> multiRunEvent list \<times> string list \<Rightarrow> bool"
  where
  "target_ended run k sqls result \<longleftrightarrow>
     prefix (snd result) sqls \<and> no_error run k (butlast (snd result))
     \<and> fst result \<noteq> [] \<and> me_Status (last (fst result)) \<noteq> TargetRunning
     \<and> list_all (\<lambda>e. me_Status e = TargetRunning) (butlast (fst result))
     \<and> (me_Status (last (fst result)) = TargetSuccess \<longleftrightarrow> snd result = sqls \<and> no_error run k sqls)"

lemma target_ended_Cons:
  assumes "target_ended run (Suc k) sqls (evs, rest)" and "so_err (run k sql) = []" and "me_Status e = TargetRunning"
  shows "target_ended run k (sql # sqls) (e # evs, sql # rest)"
  using assms by (auto simp: target_ended_def)

lemma target_ended_now:
  assumes "me_Status e \<noteq> TargetRunning" "me_Status e \<noteq> TargetSuccess"
  shows "target_ended run k (sql # sqls) ([e], [])"
    and "so_err (run k sql) \<noteq> [] \<Longrightarrow> target_ended run k (sql # sqls) ([e], [sql])"
  using assms by (auto simp: target_ended_def)

lemma script_loop_ended: "target_ended run (me_Completed ev) sqls (script_loop stop run k ev last_body sqls)"
proof (induction sqls arbitrary: k ev last_body)
  case Nil
  show ?case by (simp add: target_ended_def)
next
  case (Cons sql sqls)
  let ?run = "script_loop stop run k ev last_body (sql # sqls)"
  consider "stop k" | "\<not> stop k" "so_err (run (me_Completed ev) sql) \<noteq> []"
    | "\<not> stop k" "so_err (run (me_Completed ev) sql) = []" by blast
  then show ?case
  proof cases
    case 1
    from script_loop_stops(1) [of stop k run ev last_body sql sqls, OF this] obtain e where
      "?run = ([e], [])" "me_Status e = TargetCancelled" by (metis prod.collapse)
    then show ?thesis by (simp add: target_ended_now)
  next
    case 2
    from script_loop_stops(2) [of stop k run ev sql last_body sqls, OF 2] obtain e where
      "?run = ([e], [sql])" "me_Status e \<noteq> TargetRunning" "me_Status e \<noteq> TargetSuccess"
      by (metis prod.collapse target_status.distinct)
    then show ?thesis using 2(2) by (simp add: target_ended_now)
  next
    case 3
    from Cons [of "next_event ev (run (me_Completed ev) sql)"] show ?thesis
      unfolding script_loop_goes_on [of stop k run ev sql, OF 3] by (intro target_ended_Cons) (simp_all add: 3)
  qed
qed

lemma no_error_take: "no_error run k sqls \<Longrightarrow> no_error run k (take n sqls)"
  by (induction sqls arbitrary: k n) (auto split: nat.splits simp: take_Cons)

text \<open>A target stops at its first error. What runs on one connection is the script from its start,
  in order, each statement once; every statement but the last one succeeded, the last event tells
  how it ended and the others that it goes on, and success is told exactly when every statement
  ran and succeeded.\<close>

lemma target_stops_at_first_error:
  assumes "runTarget stop run sqls = (evs, ran_sqls)"
  shows "prefix ran_sqls sqls \<and> no_error run 0 (butlast ran_sqls) \<and> evs \<noteq> []
    \<and> me_Status (last evs) \<noteq> TargetRunning \<and> list_all (\<lambda>e. me_Status e = TargetRunning) (butlast evs)
    \<and> (me_Status (last evs) = TargetSuccess \<longrightarrow> ran_sqls = sqls \<and> no_error run 0 sqls)"
proof (cases "stop 0")
  case True
  with assms have "evs = [first_event (length sqls) TargetCancelled]" "ran_sqls = []" by (simp_all add: runTarget_def)
  then show ?thesis by (simp add: first_event_def)
next
  case False
  let ?ev = "first_event (length sqls) TargetRunning"
  have "me_Completed ?ev = 0" by (simp add: first_event_def)
  with script_loop_ended [of run ?ev sqls stop 1 None] have
    "target_ended run 0 sqls (script_loop stop run 1 ?ev None sqls)" by simp
  moreover have "evs = ?ev # fst (script_loop stop run 1 ?ev None sqls)"
      "ran_sqls = snd (script_loop stop run 1 ?ev None sqls)"
    using assms False by (auto simp: runTarget_def Let_def case_prod_beta)
  ultimately show ?thesis by (auto simp: target_ended_def first_event_def)
qed

lemma target_stops_at_first_error_witness:
  "snd (runTarget (\<lambda>_. False) (\<lambda>k _. failed_outcome (if k = 1 then ''no'' else [])) [''a'', ''b'', ''c'']) = [''a'', ''b'']
   \<and> me_Status (last (fst (runTarget (\<lambda>_. False) (\<lambda>k _. failed_outcome (if k = 1 then ''no'' else []))
       [''a'', ''b'', ''c'']))) \<noteq> TargetSuccess"
proof -
  let ?run = "runTarget (\<lambda>_. False) (\<lambda>k _. failed_outcome (if k = 1 then ''no'' else [])) [''a'', ''b'', ''c'']"
  obtain evs ran_sqls where run: "?run = (evs, ran_sqls)" by fastforce
  have ran: "ran_sqls = [''a'', ''b'']"
    using run by (auto simp: runTarget_def script_loop.simps(2) failed_outcome_def first_event_def Let_def)
  with target_stops_at_first_error [OF run] show ?thesis unfolding run by auto
qed

text \<open>
  Every statement goes through the handler of a single run, with one difference: the switch for row
  backups is not passed on to Cassandra, although the handler of a single CQL statement has it.
\<close>

lemma cassandra_run_without_backup:
  "statement_call ''cassandra'' target sql True = statement_call ''cassandra'' target sql False"
  "statement_call ''postgres'' target sql True \<noteq> statement_call ''postgres'' target sql False"
  by (simp_all add: statement_call_def)

subsection \<open>What holds of the workers\<close>

fun working :: "worker \<Rightarrow> nat option" where
  "working (Working i) = Some i"
| "working _ = None"

definition multi_inv :: "nat \<Rightarrow> nat \<Rightarrow> multirun \<Rightarrow> bool" where
  "multi_inv targets concurrency st \<longleftrightarrow>
     length (mr_workers st) = concurrency
     \<and> mr_started st = [0 ..< min (mr_next st) targets]
     \<and> mset (mr_ended st) + mset (List.map_filter working (mr_workers st)) = mset (mr_started st)
     \<and> (Finished \<in> set (mr_workers st) \<longrightarrow> targets \<le> mr_next st)"

lemma working_update:
  assumes "k < length ws"
  shows "mset (List.map_filter working (ws[k := w])) + mset (case working (ws ! k) of None \<Rightarrow> [] | Some i \<Rightarrow> [i]) =
    mset (List.map_filter working ws) + mset (case working w of None \<Rightarrow> [] | Some i \<Rightarrow> [i])"
  using assms
proof (induction ws arbitrary: k)
  case (Cons v ws)
  then show ?case by (cases k) (auto simp: map_filter_simps split: option.splits)
qed simp

lemma multi_step_inv: "multi_step targets st st' \<Longrightarrow> multi_inv targets concurrency st \<Longrightarrow> multi_inv targets concurrency st'"
proof (induction rule: multi_step.induct)
  case (take_one k st)
  note up = working_update [OF take_one.hyps(1)]
  show ?case
  proof (cases "targets \<le> mr_next st")
    case True
    with take_one up [of Finished] show ?thesis
      by (auto simp: multi_inv_def take_target_def min_def)
  next
    case False
    then have fin: "Finished \<notin> set ((mr_workers st)[k := Working (mr_next st)])"
      using take_one(3) by (auto simp: multi_inv_def dest!: set_update_subset_insert [THEN subsetD])
    from False take_one up [of "Working (mr_next st)"] fin show ?thesis
      by (auto simp: multi_inv_def take_target_def min_def)
  qed
next
  case (end_one k st i)
  have "Finished \<in> set ((mr_workers st)[k := Idle]) \<Longrightarrow> Finished \<in> set (mr_workers st)"
    by (auto dest!: set_update_subset_insert [THEN subsetD])
  moreover have "mset (List.map_filter working (mr_workers st))
      = add_mset i (mset (List.map_filter working ((mr_workers st)[k := Idle])))"
    using working_update [OF end_one.hyps(1), of Idle] end_one.hyps(2) by simp
  ultimately show ?case using end_one.prems by (auto simp: multi_inv_def end_target_def)
qed

lemma multi_reachable_inv: "multi_reachable targets concurrency st \<Longrightarrow> multi_inv targets concurrency st"
proof (induction rule: multi_reachable.induct)
  case multi_begin
  have "List.map_filter working (replicate n Idle) = []" for n by (induction n) (simp_all add: map_filter_simps)
  then show ?case by (simp add: multi_inv_def multi_start_def)
qed (rule multi_step_inv)

definition all_finished :: "multirun \<Rightarrow> bool" where
  "all_finished st \<longleftrightarrow> set (mr_workers st) \<subseteq> {Finished}"

text \<open>The work that is left: two for a target not yet taken, and what each worker still has to do.\<close>

fun worker_left :: "worker \<Rightarrow> nat" where
  "worker_left Idle = 1"
| "worker_left (Working i) = 2"
| "worker_left Finished = 0"

definition work_left :: "nat \<Rightarrow> multirun \<Rightarrow> nat" where
  "work_left targets st = 2 * (targets - mr_next st) + sum_list (map worker_left (mr_workers st))"

lemma worker_left_update:
  "k < length ws \<Longrightarrow> sum_list (map worker_left (ws[k := w])) + worker_left (ws ! k) =
     sum_list (map worker_left ws) + worker_left w"
proof (induction ws arbitrary: k)
  case (Cons v ws)
  then show ?case by (cases k) auto
qed simp

lemma multi_step_work: "multi_step targets st st' \<Longrightarrow> work_left targets st' < work_left targets st"
proof (induction rule: multi_step.induct)
  case (take_one k st)
  with worker_left_update [OF take_one(1), of Finished] worker_left_update [OF take_one(1), of "Working (mr_next st)"]
  show ?case by (auto simp: work_left_def take_target_def)
next
  case (end_one k st i)
  with worker_left_update [OF end_one(1), of Idle] show ?case by (simp add: work_left_def end_target_def)
qed

lemma unfinished_steps:
  assumes "\<not> all_finished st"
  shows "\<exists>st'. multi_step targets st st'"
proof -
  from assms obtain k where k: "k < length (mr_workers st)" "mr_workers st ! k \<noteq> Finished"
    unfolding all_finished_def subset_iff in_set_conv_nth singleton_iff by blast
  then show ?thesis
    by (cases "mr_workers st ! k") (blast intro: multi_step.intros)+
qed

text \<open>C24: every target runs exactly once. However the workers interleave, no target is started twice
  and no more run at a time than there are workers; each step leaves less to do and one is possible
  until every worker has finished; and when they have, every target was started and has ended.\<close>

theorem every_target_runs_once:
  assumes "multi_reachable targets concurrency st" and "0 < concurrency"
  shows "distinct (mr_started st) \<and> length (List.map_filter working (mr_workers st)) \<le> concurrency
    \<and> (\<forall>st'. multi_step targets st st' \<longrightarrow> work_left targets st' < work_left targets st)
    \<and> (all_finished st \<or> (\<exists>st'. multi_step targets st st'))
    \<and> (all_finished st \<longrightarrow> mr_started st = [0 ..< targets] \<and> mset (mr_ended st) = mset [0 ..< targets])"
proof (intro conjI)
  note inv = multi_reachable_inv [OF assms(1), unfolded multi_inv_def]
  show "distinct (mr_started st)" using inv by simp
  show "length (List.map_filter working (mr_workers st)) \<le> concurrency"
    using inv length_filter_le [of "\<lambda>w. working w \<noteq> None" "mr_workers st"] by (simp add: List.map_filter_def)
  show "\<forall>st'. multi_step targets st st' \<longrightarrow> work_left targets st' < work_left targets st"
    using multi_step_work by blast
  show "all_finished st \<or> (\<exists>st'. multi_step targets st st')" using unfinished_steps by blast
  show "all_finished st \<longrightarrow> mr_started st = [0 ..< targets] \<and> mset (mr_ended st) = mset [0 ..< targets]"
  proof
    assume done_all: "all_finished st"
    have "List.map_filter working ws = []" if "set ws \<subseteq> {Finished}" for ws
      using that by (induction ws) (auto simp: map_filter_simps)
    then have "List.map_filter working (mr_workers st) = []" using done_all by (simp add: all_finished_def)
    moreover have "mr_workers st \<noteq> []" using inv assms(2) by auto
    then have "Finished \<in> set (mr_workers st)" using done_all by (cases "mr_workers st") (auto simp: all_finished_def)
    ultimately show "mr_started st = [0 ..< targets] \<and> mset (mr_ended st) = mset [0 ..< targets]"
      using inv by (simp add: min.absorb2)
  qed
qed

lemma every_target_runs_once_witness: "distinct (mr_started (take_target 3 0 (multi_start 2)))"
proof -
  have "multi_step 3 (multi_start 2) (take_target 3 0 (multi_start 2))"
    by (rule multi_step.take_one) (simp_all add: multi_start_def)
  from every_target_runs_once [OF multi_more [OF multi_begin this]] show ?thesis by simp
qed

end
