(* ===== verification/Schedule.thy ===== *)
theory Schedule
  imports Governance_Properties
begin

section \<open>When a scheduled query runs (api/schedule.go)\<close>

text \<open>
  An instant is its nanoseconds since 1970 in UTC. A time zone is its offset east of UTC in
  seconds at every second of UTC; \<open>zones\<close> is \<open>time.LoadLocation\<close>. Local times are read as
  seconds of a clock that shows the wall-clock time, day 0 being 1 January 1970.
\<close>

type_synonym zone = "int \<Rightarrow> int"

definition second :: int where
  "second = 1000000000"

definition day_seconds :: int where
  "day_seconds = 86400"

text \<open>The wall clock at a second, and \<open>time.Date\<close>: the second a wall-clock time is taken for.\<close>

definition local_seconds :: "zone \<Rightarrow> int \<Rightarrow> int" where
  "local_seconds z s = s + z s"

definition go_date :: "zone \<Rightarrow> int \<Rightarrow> int" where
  "go_date z l = (if z l = 0 then l else l - z (l - z l))"

definition local_day :: "zone \<Rightarrow> int \<Rightarrow> int" where
  "local_day z s = local_seconds z s div day_seconds"

definition local_time :: "zone \<Rightarrow> int \<Rightarrow> int" where
  "local_time z s = local_seconds z s mod day_seconds"

definition weekday :: "zone \<Rightarrow> int \<Rightarrow> int" where
  "weekday z s = (local_day z s + 4) mod 7"

text \<open>\<open>t.AddDate(0, 0, n)\<close> of the second that holds \<open>t\<close>.\<close>

definition add_days :: "zone \<Rightarrow> int \<Rightarrow> int \<Rightarrow> int" where
  "add_days z n s = go_date z ((local_day z s + n) * day_seconds + local_time z s)"

subsection \<open>Specifications\<close>

record scheduleSpec =
  ss_Kind :: string
  ss_Time :: string
  ss_Days :: "int list"
  ss_EveryMinutes :: int
  ss_Timezone :: string

text \<open>The minute of the day.\<close>

definition spec_clock :: "scheduleSpec \<Rightarrow> nat result" where
  "spec_clock spec =
     (case parse_clock (ss_Time spec) of
        None \<Rightarrow> Inl ''time must look like 09:30''
      | Some m \<Rightarrow> Inr m)"

definition validate_spec :: "(string \<Rightarrow> zone option) \<Rightarrow> scheduleSpec \<Rightarrow> string option" where
  "validate_spec zones spec =
     (if zones (ss_Timezone spec) = None \<or> ss_Timezone spec = [] then Some ''choose a valid time zone''
      else if ss_Kind spec = ''interval'' then
        (if ss_EveryMinutes spec < 5 \<or> 7 * 24 * 60 < ss_EveryMinutes spec
         then Some ''an interval must be between 5 minutes and 7 days'' else None)
      else if ss_Kind spec = ''daily'' \<or> ss_Kind spec = ''weekly'' then
        (case spec_clock spec of
           Inl e \<Rightarrow> Some e
         | Inr _ \<Rightarrow>
             (if ss_Kind spec = ''weekly'' \<and> ss_Days spec = [] then Some ''choose at least one day''
              else if ss_Kind spec = ''weekly'' \<and> list_ex (\<lambda>d. d < 0 \<or> 6 < d) (ss_Days spec)
              then Some ''days must be 0 (Sunday) to 6 (Saturday)'' else None))
      else Some ''schedule kind must be daily, weekly or interval'')"

subsection \<open>The next run\<close>

text \<open>The candidate of the day \<open>n\<close> days later, moved an hour where its wall-clock time does not exist.\<close>

definition candidate :: "zone \<Rightarrow> nat \<Rightarrow> int \<Rightarrow> int \<Rightarrow> int" where
  "candidate z minute s n =
     (let c = go_date z (local_day z (add_days z n s) * day_seconds + int minute * 60) in
      if local_time z c div 60 \<noteq> int minute then c + 3600 else c)"

definition day_wanted :: "zone \<Rightarrow> scheduleSpec \<Rightarrow> int \<Rightarrow> bool" where
  "day_wanted z spec c \<longleftrightarrow> ss_Kind spec = ''weekly'' \<longrightarrow> weekday z c \<in> set (ss_Days spec)"

fun next_loop :: "zone \<Rightarrow> scheduleSpec \<Rightarrow> nat \<Rightarrow> int \<Rightarrow> int list \<Rightarrow> int option" where
  "next_loop z spec minute after [] = None"
| "next_loop z spec minute after (n # ns) =
     (let c = candidate z minute (after div second) n in
      if c * second \<le> after then next_loop z spec minute after ns
      else if \<not> day_wanted z spec c then next_loop z spec minute after ns
      else Some (c * second))"

definition next_run :: "(string \<Rightarrow> zone option) \<Rightarrow> scheduleSpec \<Rightarrow> int \<Rightarrow> int result" where
  "next_run zones spec after =
     (case validate_spec zones spec of
        Some e \<Rightarrow> Inl e
      | None \<Rightarrow>
          (if ss_Kind spec = ''interval''
           then Inr ((after + ss_EveryMinutes spec * 60 * second) div second * second)
           else
             (case (zones (ss_Timezone spec), spec_clock spec) of
                (Some z, Inr minute) \<Rightarrow>
                  (case next_loop z spec minute after [0, 1, 2, 3, 4, 5, 6, 7, 8] of
                     Some t \<Rightarrow> Inr t
                   | None \<Rightarrow> Inl ''the schedule has no next run'')
              | _ \<Rightarrow> Inl ''the schedule has no next run'')))"

subsection \<open>A run is always later\<close>

lemma next_loop_later: "next_loop z spec minute after ns = Some t \<Longrightarrow> after < t \<and> t mod second = 0"
  by (induction ns) (auto simp: Let_def second_def split: if_splits)

lemma interval_later: "5 \<le> m \<Longrightarrow> after < (after + m * 60 * second) div second * second"
proof -
  assume "5 \<le> m"
  have "after + m * 60 * second - second < (after + m * 60 * second) div second * second"
    using pos_mod_bound [of second "after + m * 60 * second"] div_mult_mod_eq [of "after + m * 60 * second" second]
    by (simp add: second_def)
  moreover have "second \<le> m * 60 * second" using \<open>5 \<le> m\<close> by (simp add: second_def)
  ultimately show ?thesis by linarith
qed

lemma next_run_later: "next_run zones spec after = Inr t \<Longrightarrow> after < t \<and> t mod second = 0"
  using interval_later [of "ss_EveryMinutes spec" after]
  by (auto simp: next_run_def validate_spec_def simp del: next_loop.simps dest!: next_loop_later split: if_splits option.splits sum.splits)

subsection \<open>Zones without daylight saving\<close>

definition fixed_zone :: "zone \<Rightarrow> bool" where
  "fixed_zone z \<longleftrightarrow> (\<exists>d. z = (\<lambda>_. d))"

text \<open>A second at which the schedule's clock and day are right.\<close>

definition matches_spec :: "zone \<Rightarrow> scheduleSpec \<Rightarrow> nat \<Rightarrow> int \<Rightarrow> bool" where
  "matches_spec z spec minute s \<longleftrightarrow> local_time z s = int minute * 60 \<and> day_wanted z spec s"

text \<open>The days a candidate is looked for.\<close>

lemma day_split:
  "0 \<le> r \<Longrightarrow> r < day_seconds \<Longrightarrow>
     (n * day_seconds + r) div day_seconds = n \<and> (n * day_seconds + r) mod day_seconds = r"
  by (simp add: day_seconds_def)

lemma minute_split:
  "minute < 1440 \<Longrightarrow> (n * day_seconds + int minute * 60) div day_seconds = n
     \<and> (n * day_seconds + int minute * 60) mod day_seconds = int minute * 60"
  by (rule day_split) (simp_all add: day_seconds_def)

lemma fixed_candidate:
  assumes "z = (\<lambda>_. d)" and "minute < 1440"
  shows "candidate z minute s n = (local_day z s + n) * day_seconds + int minute * 60 - d"
proof -
  have date: "go_date z l = l - d" for l by (simp add: go_date_def assms(1))
  have day: "local_day z (l - d) = l div day_seconds" for l by (simp add: local_day_def local_seconds_def assms(1))
  have "0 \<le> local_time z s" "local_time z s < day_seconds" by (simp_all add: local_time_def day_seconds_def)
  from day_split [OF this] have target: "local_day z (add_days z n s) = local_day z s + n"
    by (simp add: add_days_def date day)
  have "local_time z ((local_day z s + n) * day_seconds + int minute * 60 - d) = int minute * 60"
    using minute_split [OF assms(2)] by (simp add: local_time_def local_seconds_def assms(1))
  then show ?thesis by (simp add: candidate_def target date Let_def)
qed

lemma fixed_candidate_day:
  assumes "z = (\<lambda>_. d)" and "minute < 1440"
  shows "local_day z (candidate z minute s n) = local_day z s + n"
    and "local_time z (candidate z minute s n) = int minute * 60"
  using minute_split [OF assms(2), of "local_day z s + n"]
  unfolding fixed_candidate [OF assms] local_day_def [of z "_ - _"] local_time_def local_seconds_def [of z "_ - _"]
  by (simp_all add: assms(1))

lemma matching_second:
  assumes "z = (\<lambda>_. d)" and "minute < 1440" and "local_time z c = int minute * 60" and "s \<le> c"
  shows "\<exists>n \<ge> 0. c = candidate z minute s n"
proof -
  have "local_day z s \<le> local_day z c"
    using assms(4) by (simp add: local_day_def local_seconds_def assms(1) zdiv_mono1 day_seconds_def)
  moreover have "c = local_day z c * day_seconds + local_time z c - d"
    by (simp add: local_day_def local_time_def local_seconds_def assms(1))
  ultimately show ?thesis
    by (intro exI [of _ "local_day z c - local_day z s"]) (simp add: fixed_candidate [OF assms(1,2)] assms(3))
qed

lemma next_loop_first:
  "next_loop z spec minute after ns = Some t \<Longrightarrow> sorted ns \<Longrightarrow>
     \<exists>n \<in> set ns. t = candidate z minute (after div second) n * second
       \<and> after < t \<and> day_wanted z spec (candidate z minute (after div second) n)
       \<and> (\<forall>m \<in> set ns. m < n \<longrightarrow> candidate z minute (after div second) m * second \<le> after
            \<or> \<not> day_wanted z spec (candidate z minute (after div second) m))"
  by (induction ns) (auto simp: Let_def split: if_splits)

lemma next_loop_found:
  "n \<in> set ns \<Longrightarrow> after < candidate z minute (after div second) n * second \<Longrightarrow>
     day_wanted z spec (candidate z minute (after div second) n) \<Longrightarrow> next_loop z spec minute after ns \<noteq> None"
  by (induction ns) (auto simp: Let_def)

lemma next_days: "n \<in> set [0, 1, 2, 3, 4, 5, 6, 7, 8] \<longleftrightarrow> 0 \<le> n \<and> n \<le> (8::int)"
  by (simp only: list.set insert_iff empty_iff) arith

lemma week_has_day: "0 \<le> d \<Longrightarrow> d \<le> 6 \<Longrightarrow> \<exists>n. 1 \<le> n \<and> n \<le> 7 \<and> (a + n) mod 7 = (d::int)"
proof (intro exI conjI)
  let ?n = "(d - a - 1) mod 7"
  assume d: "0 \<le> d" "d \<le> 6"
  show "1 \<le> ?n + 1" "?n + 1 \<le> 7" by (simp_all add: pos_mod_bound add1_zle_eq)
  have "(a + (?n + 1)) mod 7 = (a + 1 + ?n) mod 7" by (simp add: algebra_simps)
  also have "\<dots> = (a + 1 + (d - a - 1)) mod 7" by (rule mod_add_right_eq)
  also have "\<dots> = d" using d by simp
  finally show "(a + (?n + 1)) mod 7 = d" .
qed

text \<open>C25: without daylight saving the next run is the first one. For a daily or weekly schedule in a
  zone whose offset never changes, there is a next run: a second strictly later than now at which
  the clock and the day are those of the schedule, with no such second in between.\<close>

theorem next_run_is_the_first_match:
  assumes "validate_spec zones spec = None" and "ss_Kind spec \<noteq> ''interval''"
    and "zones (ss_Timezone spec) = Some z" and "fixed_zone z"
  shows "\<exists>minute c. spec_clock spec = Inr minute \<and> next_run zones spec now = Inr (c * second)
    \<and> now < c * second \<and> matches_spec z spec minute c
    \<and> (\<forall>c'. now < c' * second \<and> c' < c \<longrightarrow> \<not> matches_spec z spec minute c')"
proof -
  let ?s = "now div second" and ?days = "[0, 1, 2, 3, 4, 5, 6, 7, 8] :: int list"
  obtain d where z: "z = (\<lambda>_. d)" using assms(4) by (auto simp: fixed_zone_def)
  have "ss_Kind spec = ''daily'' \<or> ss_Kind spec = ''weekly''"
    using assms(1,2) by (auto simp: validate_spec_def split: if_splits)
  then obtain minute where clock: "spec_clock spec = Inr minute" and days: "ss_Kind spec = ''weekly'' \<Longrightarrow>
      \<exists>day \<in> set (ss_Days spec). 0 \<le> day \<and> day \<le> 6"
    using assms(1,2) by (cases "ss_Days spec") (auto simp: validate_spec_def not_less split: if_splits sum.splits)
  then have minute: "minute < 1440" by (auto simp: spec_clock_def parse_clock_bound split: option.splits)
  note at = fixed_candidate [OF z minute] and on = fixed_candidate_day [OF z minute]
  have later: "now < candidate z minute ?s n * second" if "1 \<le> n" for n
  proof -
    have "?s < candidate z minute ?s n"
    proof -
      have "?s + d < (local_day z ?s + 1) * day_seconds"
        using pos_mod_bound [of day_seconds "?s + d"] div_mult_mod_eq [of "?s + d" day_seconds]
        by (simp add: local_day_def local_seconds_def z day_seconds_def)
      also have "\<dots> \<le> (local_day z ?s + n) * day_seconds" using that by (simp add: day_seconds_def)
      finally show ?thesis by (simp add: at)
    qed
    then show ?thesis
      using pos_mod_bound [of second now] div_mult_mod_eq [of now second] by (simp add: second_def)
  qed
  have wanted: "\<exists>n. 1 \<le> n \<and> n \<le> 7 \<and> day_wanted z spec (candidate z minute ?s n)"
  proof (cases "ss_Kind spec = ''weekly''")
    case True
    with days obtain day where "day \<in> set (ss_Days spec)" "0 \<le> day" "day \<le> 6" by blast
    with week_has_day [of day "local_day z ?s + 4"] show ?thesis
      by (auto simp: day_wanted_def weekday_def on algebra_simps)
  qed (auto simp: day_wanted_def intro: exI [of _ 1])
  then obtain n where n: "1 \<le> n" "n \<le> 7" "day_wanted z spec (candidate z minute ?s n)" by blast
  then have "n \<in> set ?days" unfolding next_days by linarith
  with next_loop_found [OF this later [OF n(1)] n(3)] obtain t where t: "next_loop z spec minute now ?days = Some t"
    by blast
  have "sorted ?days" by simp
  from next_loop_first [OF t this] obtain k where k: "k \<in> set ?days" "t = candidate z minute ?s k * second" "now < t"
      "day_wanted z spec (candidate z minute ?s k)"
    and before: "\<forall>m \<in> set ?days. m < k \<longrightarrow> candidate z minute ?s m * second \<le> now
      \<or> \<not> day_wanted z spec (candidate z minute ?s m)" by blast
  have "\<not> matches_spec z spec minute c'" if c': "now < c' * second" "c' < candidate z minute ?s k" for c'
  proof
    assume match: "matches_spec z spec minute c'"
    have "?s \<le> c'" using c'(1) pos_mod_sign [of second now] div_mult_mod_eq [of now second] by (simp add: second_def)
    with matching_second [OF z minute] match obtain m where m: "0 \<le> m" "c' = candidate z minute ?s m"
      by (auto simp: matches_spec_def)
    with c'(2) have "m < k" by (simp add: at day_seconds_def)
    with m(1) k(1) have "m \<in> set ?days" unfolding next_days by linarith
    from bspec [OF before this] \<open>m < k\<close> m(2) c'(1) match show False by (simp add: matches_spec_def)
  qed
  moreover have "matches_spec z spec minute (candidate z minute ?s k)" using k(4) by (simp add: matches_spec_def on)
  moreover have "next_run zones spec now = Inr (candidate z minute ?s k * second)"
    using assms(1-3) clock t k(2) by (simp add: next_run_def del: next_loop.simps)
  ultimately show ?thesis using clock k(2,3) by blast
qed

text \<open>A weekly schedule on Mondays at 09:30 in a zone two hours east of UTC, looked for at noon on Monday
  6 January 2025 UTC: the next run is the Monday after.\<close>

definition example_zones :: "string \<Rightarrow> zone option" where
  "example_zones name = (if name = ''Etc/GMT-2'' then Some (\<lambda>_. 7200)
     else if name = ''Europe/Berlin'' then Some (\<lambda>s. if s < 1743296400 then 3600 else 7200) else None)"

definition mondays :: scheduleSpec where
  "mondays = \<lparr>ss_Kind = ''weekly'', ss_Time = ''09:30'', ss_Days = [1], ss_EveryMinutes = 0,
     ss_Timezone = ''Etc/GMT-2''\<rparr>"

lemma mondays_spec:
  "validate_spec example_zones mondays = None" "ss_Kind mondays \<noteq> ''interval''"
  "example_zones (ss_Timezone mondays) = Some (\<lambda>_. 7200)" "fixed_zone (\<lambda>_. 7200)"
  by (code_simp, code_simp, simp add: example_zones_def mondays_def, auto simp: fixed_zone_def)

lemma next_run_is_the_first_match_witness:
  "\<exists>minute c. spec_clock mondays = Inr minute
     \<and> next_run example_zones mondays (1736164800 * second) = Inr (c * second)
     \<and> 1736164800 * second < c * second \<and> matches_spec (\<lambda>_. 7200) mondays minute c"
  using next_run_is_the_first_match [OF mondays_spec, of "1736164800 * second"] by blast

text \<open>A daily schedule at 02:30 in Berlin, on the night of 30 March 2025 when the clocks go from 02:00 to
  03:00. Go takes the missing time for 03:30, which is the same instant on the new offset; the hour
  the code then adds makes the run 04:30.\<close>

definition nightly :: scheduleSpec where
  "nightly = \<lparr>ss_Kind = ''daily'', ss_Time = ''02:30'', ss_Days = [], ss_EveryMinutes = 0,
     ss_Timezone = ''Europe/Berlin''\<rparr>"

lemma spring_forward_runs_late:
  "next_run example_zones nightly (1743249600 * 1000000000) = Inr (1743301800 * 1000000000)
   \<and> local_time (\<lambda>s. if s < 1743296400 then 3600 else 7200) 1743301800 = 4 * 3600 + 30 * 60"
  by code_simp

end
