(* ===== verification/Paths.thy ===== *)
theory Paths
  imports Prelude "HOL-Library.Sublist"
begin

section \<open>File paths (what the sources use of Go's path/filepath on Unix)\<close>

text \<open>
  \<open>Clean\<close>, \<open>Join\<close>, \<open>Rel\<close>, \<open>Base\<close> and \<open>IsAbs\<close> over paths separated by a slash, and what
  \<open>Rel\<close> tells of where a path lies.
\<close>

subsection \<open>Clean\<close>

fun clean_loop :: "bool \<Rightarrow> string list \<Rightarrow> string list \<Rightarrow> string list" where
  "clean_loop rooted out [] = rev out"
| "clean_loop rooted out (p # ps) =
     (if p = [] \<or> p = ''.'' then clean_loop rooted out ps
      else if p = ''..'' then
        (if out \<noteq> [] \<and> hd out \<noteq> ''..'' then clean_loop rooted (tl out) ps
         else if rooted then clean_loop rooted out ps
         else clean_loop rooted (p # out) ps)
      else clean_loop rooted (p # out) ps)"

definition IsAbs :: "string \<Rightarrow> bool" where
  "IsAbs path = has_prefix ''/'' path"

text \<open>The elements of the cleaned path.\<close>

definition path_elements :: "string \<Rightarrow> string list" where
  "path_elements path = clean_loop (IsAbs path) [] (str_split (CHR ''/'') path)"

definition Clean :: "string \<Rightarrow> string" where
  "Clean path =
     (let parts = path_elements path in
      if IsAbs path then CHR ''/'' # str_join ''/'' parts
      else if parts = [] then ''.'' else str_join ''/'' parts)"

definition Join :: "string list \<Rightarrow> string" where
  "Join parts =
     (let used = filter (\<lambda>p. p \<noteq> []) parts in if used = [] then [] else Clean (str_join ''/'' used))"

definition Base :: "string \<Rightarrow> string" where
  "Base path =
     (if path = [] then ''.''
      else (let s = rev (dropWhile ((=) (CHR ''/'')) (rev path)) in
            if s = [] then ''/'' else last (str_split (CHR ''/'') s)))"

subsection \<open>Rel\<close>

fun strip_common :: "string list \<Rightarrow> string list \<Rightarrow> string list \<times> string list" where
  "strip_common (b # bs) (t # ts) = (if b = t then strip_common bs ts else (b # bs, t # ts))"
| "strip_common bs ts = (bs, ts)"

definition Rel :: "string \<Rightarrow> string \<Rightarrow> string result" where
  "Rel base target =
     (if Clean target = Clean base then Inr ''.''
      else if IsAbs base \<noteq> IsAbs target then Inl ''Rel: can't make it relative''
      else
        (case strip_common (path_elements base) (path_elements target) of
           (bs, ts) \<Rightarrow>
             (if bs \<noteq> [] \<and> hd bs = ''..'' then Inl ''Rel: can't make it relative''
              else Inr (str_join ''/'' (replicate (length bs) ''..'' @ ts)))))"

text \<open>The check of a path that must stay below a folder.\<close>

definition leaves_folder :: "string \<Rightarrow> string \<Rightarrow> bool" where
  "leaves_folder folder path \<longleftrightarrow>
     (case Rel folder path of Inl _ \<Rightarrow> True | Inr rel \<Rightarrow> rel = ''..'' \<or> has_prefix ''../'' rel)"

subsection \<open>What the check means\<close>

definition plain_element :: "string \<Rightarrow> bool" where
  "plain_element p \<longleftrightarrow> p \<noteq> [] \<and> p \<noteq> ''.'' \<and> p \<noteq> ''..''"

lemma clean_loop_plain:
  "rooted \<Longrightarrow> list_all plain_element out \<Longrightarrow>
     list_all plain_element (clean_loop rooted out ps)"
proof (induction rooted out ps rule: clean_loop.induct)
  case (2 rooted out p ps)
  then show ?case by (cases out) (auto simp: plain_element_def)
qed (simp add: list_all_iff)

lemma path_elements_plain: "IsAbs path \<Longrightarrow> list_all plain_element (path_elements path)"
  by (simp add: path_elements_def clean_loop_plain)

lemma clean_loop_slash:
  "list_all (\<lambda>p. CHR ''/'' \<notin> set p) out \<Longrightarrow> list_all (\<lambda>p. CHR ''/'' \<notin> set p) ps \<Longrightarrow>
     list_all (\<lambda>p. CHR ''/'' \<notin> set p) (clean_loop rooted out ps)"
proof (induction rooted out ps rule: clean_loop.induct)
  case (2 rooted out p ps)
  then show ?case by (cases out) auto
qed simp

lemma str_split_slash: "list_all (\<lambda>p. sep \<notin> set p) (str_split sep s)"
  by (induction sep s rule: str_split.induct) (auto split: list.splits)

lemma path_elements_slash: "list_all (\<lambda>p. CHR ''/'' \<notin> set p) (path_elements path)"
  by (simp add: path_elements_def clean_loop_slash str_split_slash)

lemma str_split_nonempty: "str_split sep s \<noteq> []"
  by (induction sep s rule: str_split.induct) (auto split: list.splits)

lemma str_split_join:
  "ps \<noteq> [] \<Longrightarrow> list_all (\<lambda>p. sep \<notin> set p) ps \<Longrightarrow> str_split sep (str_join [sep] ps) = ps"
proof (induction ps rule: induct_list012)
  case (2 p)
  have "sep \<notin> set p \<Longrightarrow> str_split sep p = [p]" by (induction p) auto
  with 2 show ?case by simp
next
  case (3 p q ps)
  have "sep \<notin> set p \<Longrightarrow> str_split sep (p @ sep # s) = p # str_split sep s" for s
    by (induction p) auto
  with 3 show ?case by simp
qed simp

lemma clean_loop_id:
  "list_all plain_element ps \<Longrightarrow> clean_loop rooted out ps = rev out @ ps"
  by (induction ps arbitrary: out) (auto simp: plain_element_def)

lemma Clean_elements:
  assumes "IsAbs path"
  shows "IsAbs (Clean path)" and "path_elements (Clean path) = path_elements path"
proof -
  let ?ps = "path_elements path"
  have clean: "Clean path = CHR ''/'' # str_join ''/'' ?ps" using assms by (simp add: Clean_def)
  show abs: "IsAbs (Clean path)" by (simp add: clean IsAbs_def)
  show "path_elements (Clean path) = ?ps"
  proof (cases "?ps = []")
    case True
    then show ?thesis using abs by (simp add: path_elements_def clean True)
  next
    case False
    have "str_split (CHR ''/'') (Clean path) = [] # ?ps"
      using str_split_join [OF False path_elements_slash] by (simp add: clean)
    moreover have "clean_loop True [] ?ps = ?ps"
      using clean_loop_id [OF path_elements_plain [OF assms], of True "[]"] by simp
    ultimately show ?thesis using abs by (simp add: path_elements_def [of "Clean path"])
  qed
qed

lemma clean_loop_nonempty: "list_all (\<lambda>p. p \<noteq> []) out \<Longrightarrow> list_all (\<lambda>p. p \<noteq> []) (clean_loop rooted out ps)"
proof (induction rooted out ps rule: clean_loop.induct)
  case (2 rooted out p ps)
  then show ?case by (cases out) auto
qed simp

lemma Clean_IsAbs [simp]: "IsAbs (Clean path) = IsAbs path"
proof (cases "IsAbs path")
  case False
  show ?thesis
  proof (cases "path_elements path")
    case Nil
    then show ?thesis using False by (simp add: Clean_def IsAbs_def)
  next
    case (Cons p ps)
    with path_elements_slash [of path] have "CHR ''/'' \<notin> set p" by simp
    moreover have "p \<noteq> []"
      using Cons clean_loop_nonempty [of "[]" "IsAbs path" "str_split (CHR ''/'') path"]
      by (simp add: path_elements_def)
    ultimately have "\<not> IsAbs (str_join ''/'' (p # ps))" by (cases p; cases ps) (auto simp: IsAbs_def)
    then show ?thesis using False Cons by (simp add: Clean_def)
  qed
qed (simp add: Clean_elements)

lemma strip_common_prefix:
  "strip_common bs ts = (bs', ts') \<Longrightarrow> \<exists>common. bs = common @ bs' \<and> ts = common @ ts'"
  by (induction bs ts rule: strip_common.induct) (auto split: if_splits intro: exI [of _ "_ # _"])

lemma up_first: "bs \<noteq> [] \<Longrightarrow> (let r = str_join ''/'' (replicate (length bs) ''..'' @ ts) in r = ''..'' \<or> has_prefix ''../'' r)"
proof -
  assume "bs \<noteq> []"
  then obtain n where n: "replicate (length bs) ''..'' @ ts = ''..'' # (replicate n ''..'' @ ts)"
    by (cases bs) auto
  show ?thesis unfolding n by (cases "replicate n ''..'' @ ts") (auto simp: Let_def)
qed

lemma inside_folder:
  assumes "IsAbs folder" and "IsAbs path" and "\<not> leaves_folder folder path"
  shows "prefix (path_elements folder) (path_elements path)"
proof (cases "Clean path = Clean folder")
  case True
  then show ?thesis by (metis Clean_elements(2) assms(1,2) prefix_order.refl)
next
  case False
  obtain bs ts where strip: "strip_common (path_elements folder) (path_elements path) = (bs, ts)" by fastforce
  from strip_common_prefix [OF strip] obtain common where
    common: "path_elements folder = common @ bs" "path_elements path = common @ ts" by blast
  have "bs = []"
  proof (rule ccontr)
    assume "bs \<noteq> []"
    with up_first [OF this, of ts] assms strip False show False
      by (auto simp: leaves_folder_def Rel_def Let_def split: if_splits)
  qed
  with common show ?thesis by simp
qed

text \<open>An element put below an absolute folder.\<close>

lemma Clean_Clean: "IsAbs path \<Longrightarrow> Clean (Clean path) = Clean path"
  using Clean_elements [of path] by (simp add: Clean_def [of "Clean path"]) (simp add: Clean_def)

lemma up_to_separator: "sep \<notin> set q \<Longrightarrow> takeWhile (\<lambda>c. c \<noteq> sep) (q @ sep # t) = q"
  by (induction q) auto

lemma str_split_snoc:
  "sep \<notin> set q \<Longrightarrow> str_split sep (p @ sep # q) = str_split sep p @ [q]"
proof (induction p)
  case Nil
  have "sep \<notin> set q \<Longrightarrow> str_split sep q = [q]" by (induction q) auto
  with Nil show ?case by simp
next
  case (Cons c p)
  with str_split_nonempty [of sep p] show ?case by (auto split: list.splits)
qed

lemma clean_loop_snoc:
  "plain_element q \<Longrightarrow> clean_loop rooted out (ps @ [q]) = clean_loop rooted out ps @ [q]"
  by (induction rooted out ps rule: clean_loop.induct) (auto simp: plain_element_def)

lemma Join_elements:
  assumes "IsAbs folder" and "plain_element q" and "CHR ''/'' \<notin> set q"
  shows "path_elements (Join [folder, q]) = path_elements folder @ [q]" and "IsAbs (Join [folder, q])"
    and "Clean (Join [folder, q]) = Join [folder, q]"
proof -
  let ?joined = "folder @ CHR ''/'' # q"
  have "folder \<noteq> []" "q \<noteq> []" using assms(1,2) by (auto simp: IsAbs_def plain_element_def)
  then have join: "Join [folder, q] = Clean ?joined" by (simp add: Join_def)
  have abs: "IsAbs ?joined" using assms(1) by (cases folder) (simp_all add: IsAbs_def)
  have "path_elements ?joined = path_elements folder @ [q]"
    using abs assms by (simp add: path_elements_def str_split_snoc clean_loop_snoc)
  then show "path_elements (Join [folder, q]) = path_elements folder @ [q]"
    by (simp add: join Clean_elements [OF abs])
  show "IsAbs (Join [folder, q])" using abs by (simp add: join)
  show "Clean (Join [folder, q]) = Join [folder, q]"
    using Clean_Clean [OF abs] by (simp add: join)
qed

lemma strip_common_append: "strip_common ps (ps @ qs) = ([], qs)"
  by (induction ps) (cases qs; simp)+

lemma below_folder_stays:
  assumes "IsAbs folder" and "IsAbs path" and "path_elements path = path_elements folder @ qs"
    and "list_all plain_element qs"
  shows "\<not> leaves_folder folder path"
proof -
  have "str_join ''/'' qs \<noteq> ''..'' \<and> \<not> has_prefix ''../'' (str_join ''/'' qs)"
  proof (cases qs)
    case (Cons q rest)
    have q: "q \<noteq> []" "q \<noteq> ''..''" "CHR ''/'' \<notin> set q"
      using assms(4) Cons path_elements_slash [of path] by (simp_all add: assms(3) plain_element_def)
    show ?thesis
    proof (cases rest)
      case Nil
      then show ?thesis using q Cons by (auto simp: has_prefix_iff)
    next
      case (Cons r rs)
      define tl where "tl = str_join ''/'' (r # rs)"
      have "str_join ''/'' qs = q @ CHR ''/'' # tl" using \<open>qs = q # rest\<close> Cons by (simp add: tl_def)
      moreover have "q @ CHR ''/'' # tl \<noteq> ''..'' \<and> \<not> has_prefix ''../'' (q @ CHR ''/'' # tl)"
      proof
        have "CHR ''/'' \<in> set (q @ CHR ''/'' # tl)" by simp
        then show "q @ CHR ''/'' # tl \<noteq> ''..''" by fastforce
        show "\<not> has_prefix ''../'' (q @ CHR ''/'' # tl)"
        proof
          assume "has_prefix ''../'' (q @ CHR ''/'' # tl)"
          then obtain t where same: "q @ CHR ''/'' # tl = ''..'' @ CHR ''/'' # t" by (auto simp: has_prefix_iff)
          have "q = takeWhile (\<lambda>c. c \<noteq> CHR ''/'') (q @ CHR ''/'' # tl)" by (simp add: up_to_separator q(3))
          also have "\<dots> = ''..''" unfolding same by simp
          finally have "q = ''..''" .
          with q(2) show False by simp
        qed
      qed
      ultimately show ?thesis by simp
    qed
  qed simp
  then show ?thesis using assms(1-3)
    by (simp add: leaves_folder_def Rel_def strip_common_append)
qed

end
