(* ===== verification/Scheduler.thy ===== *)
theory Scheduler
  imports Schedule Paths Export "HOL-Library.Char_ord" "HOL-Library.List_Lexorder"
begin

section \<open>Scheduled queries (store/schedules.go, api/schedule.go, api/scheduler.go)\<close>

text \<open>
  The two tables of the store, the requests that change them, the tick that starts what is due
  and a run. The sealed envelope with its nonce is of an arbitrary type. \<open>NextRunAt\<close> is a time
  of RFC 3339 in UTC, whole seconds; it is kept as the second it names, whose order is the
  order of the texts. Every other time is the text that is stored.
\<close>

subsection \<open>The tables\<close>

record 'sealed ScheduledQuery =
  sq_ID :: string
  sq_OrgID :: string
  sq_UserID :: string
  sq_ConnectionID :: string
  sq_Database :: string
  sq_Name :: string
  sq_Sealed :: 'sealed
  sq_Schedule :: string
  sq_OutputDir :: string
  sq_OutputFormat :: string
  sq_CatchUp :: bool
  sq_Enabled :: bool
  sq_NextRunAt :: "int option"
  sq_CreatedAt :: string
  sq_UpdatedAt :: string

record ScheduledRun =
  sr_ID :: string
  sr_QueryID :: string
  sr_Trigger :: string
  sr_StartedAt :: string
  sr_FinishedAt :: "string option"
  sr_Status :: string
  sr_Rows :: nat
  sr_OutputPath :: "string option"
  sr_Error :: "string option"

record 'sealed schedule_store =
  st_queries :: "'sealed ScheduledQuery list"
  st_runs :: "ScheduledRun list"

definition ListScheduledQueries :: "string \<Rightarrow> 's schedule_store \<Rightarrow> 's ScheduledQuery list" where
  "ListScheduledQueries userID st =
     sort_key sq_Name (sort_key sq_CreatedAt (filter (\<lambda>q. sq_UserID q = userID) (st_queries st)))"

definition is_due :: "int \<Rightarrow> 's ScheduledQuery \<Rightarrow> bool" where
  "is_due now item \<longleftrightarrow> sq_Enabled item \<and> (case sq_NextRunAt item of None \<Rightarrow> False | Some t \<Rightarrow> t \<le> now)"

definition DueScheduledQueries :: "int \<Rightarrow> 's schedule_store \<Rightarrow> 's ScheduledQuery list" where
  "DueScheduledQueries now st = sort_key (\<lambda>q. the (sq_NextRunAt q)) (filter (is_due now) (st_queries st))"

definition find_query :: "string \<Rightarrow> string \<Rightarrow> 's schedule_store \<Rightarrow> 's ScheduledQuery option" where
  "find_query i userID st = find (\<lambda>q. sq_ID q = i \<and> sq_UserID q = userID) (st_queries st)"

definition CreateScheduledQuery ::
  "'s ScheduledQuery \<Rightarrow> 's schedule_store \<Rightarrow> store_error option \<times> 's schedule_store" where
  "CreateScheduledQuery item st =
     (if list_ex (\<lambda>q. sq_ID q = sq_ID item) (st_queries st) then (Some Duplicate, st)
      else (None, st\<lparr>st_queries := st_queries st @ [item]\<rparr>))"

definition updated_query :: "'s ScheduledQuery \<Rightarrow> 's ScheduledQuery \<Rightarrow> 's ScheduledQuery" where
  "updated_query item q = q\<lparr>sq_ConnectionID := sq_ConnectionID item, sq_Database := sq_Database item,
     sq_Name := sq_Name item, sq_Sealed := sq_Sealed item, sq_Schedule := sq_Schedule item,
     sq_OutputDir := sq_OutputDir item, sq_OutputFormat := sq_OutputFormat item, sq_CatchUp := sq_CatchUp item,
     sq_Enabled := sq_Enabled item, sq_NextRunAt := sq_NextRunAt item, sq_UpdatedAt := sq_UpdatedAt item\<rparr>"

definition UpdateScheduledQuery ::
  "'s ScheduledQuery \<Rightarrow> 's schedule_store \<Rightarrow> store_error option \<times> 's schedule_store" where
  "UpdateScheduledQuery item st =
     (let mine = (\<lambda>q. sq_ID q = sq_ID item \<and> sq_UserID q = sq_UserID item) in
      if \<not> list_ex mine (st_queries st) then (Some NotFound, st)
      else (None, st\<lparr>st_queries := map (\<lambda>q. if mine q then updated_query item q else q) (st_queries st)\<rparr>))"

definition SetScheduledNextRun :: "string \<Rightarrow> int option \<Rightarrow> 's schedule_store \<Rightarrow> 's schedule_store" where
  "SetScheduledNextRun i next_at st =
     st\<lparr>st_queries := map (\<lambda>q. if sq_ID q = i then q\<lparr>sq_NextRunAt := next_at\<rparr> else q) (st_queries st)\<rparr>"

text \<open>The runs of a deleted query go with it.\<close>

definition DeleteScheduledQuery ::
  "string \<Rightarrow> string \<Rightarrow> 's schedule_store \<Rightarrow> store_error option \<times> 's schedule_store" where
  "DeleteScheduledQuery i userID st =
     (case find_query i userID st of
        None \<Rightarrow> (Some NotFound, st)
      | Some _ \<Rightarrow>
          (None, st\<lparr>st_queries := filter (\<lambda>q. \<not> (sq_ID q = i \<and> sq_UserID q = userID)) (st_queries st),
                    st_runs := filter (\<lambda>r. sr_QueryID r \<noteq> i) (st_runs st)\<rparr>))"

definition runsKept :: nat where
  "runsKept = 100"

text \<open>The newest runs of a query, by the text of their start.\<close>

definition ListScheduledRuns :: "string \<Rightarrow> nat \<Rightarrow> 's schedule_store \<Rightarrow> ScheduledRun list" where
  "ListScheduledRuns queryID n st =
     take n (rev (sort_key sr_StartedAt (filter (\<lambda>r. sr_QueryID r = queryID) (st_runs st))))"

text \<open>
  \<open>CreateScheduledRun\<close> is two statements, each committed by itself: the insertion, refused where
  the identifier is taken or the query is gone, and the deletion of the query's older runs.
\<close>

definition insert_run ::
  "ScheduledRun \<Rightarrow> 's schedule_store \<Rightarrow> store_error option \<times> 's schedule_store" where
  "insert_run r st =
     (if list_ex (\<lambda>x. sr_ID x = sr_ID r) (st_runs st) then (Some Duplicate, st)
      else if \<not> list_ex (\<lambda>q. sq_ID q = sr_QueryID r) (st_queries st) then (Some DatabaseError, st)
      else (None, st\<lparr>st_runs := st_runs st @ [r]\<rparr>))"

definition trim_runs :: "string \<Rightarrow> 's schedule_store \<Rightarrow> 's schedule_store" where
  "trim_runs queryID st =
     (let kept = map sr_ID (ListScheduledRuns queryID runsKept st) in
      st\<lparr>st_runs := filter (\<lambda>x. sr_QueryID x \<noteq> queryID \<or> sr_ID x \<in> set kept) (st_runs st)\<rparr>)"

text \<open>\<open>trims\<close> says whether the store takes the deletion; a run whose deletion fails stays inserted.\<close>

definition CreateScheduledRun ::
  "bool \<Rightarrow> ScheduledRun \<Rightarrow> 's schedule_store \<Rightarrow> store_error option \<times> 's schedule_store" where
  "CreateScheduledRun trims r st =
     (case insert_run r st of
        (Some e, st') \<Rightarrow> (Some e, st')
      | (None, st') \<Rightarrow>
          (if trims then (None, trim_runs (sr_QueryID r) st') else (Some DatabaseError, st')))"

definition FinishScheduledRun :: "ScheduledRun \<Rightarrow> 's schedule_store \<Rightarrow> 's schedule_store" where
  "FinishScheduledRun r st =
     st\<lparr>st_runs := map (\<lambda>x. if sr_ID x = sr_ID r
          then x\<lparr>sr_FinishedAt := sr_FinishedAt r, sr_Status := sr_Status r, sr_Rows := sr_Rows r,
                 sr_OutputPath := sr_OutputPath r, sr_Error := sr_Error r\<rparr>
          else x) (st_runs st)\<rparr>"

text \<open>The newest run of each of the user's queries; of equal starts the one read last.\<close>

definition LatestScheduledRun :: "string \<Rightarrow> string \<Rightarrow> 's schedule_store \<Rightarrow> ScheduledRun option" where
  "LatestScheduledRun userID queryID st =
     (let mine = filter (\<lambda>r. sr_QueryID r = queryID) (st_runs st) in
      if \<not> list_ex (\<lambda>q. sq_ID q = queryID \<and> sq_UserID q = userID) (st_queries st) \<or> mine = [] then None
      else Some (last (filter (\<lambda>r. sr_StartedAt r = Max (set (map sr_StartedAt mine))) mine)))"

subsection \<open>What is installed\<close>

record scheduledEnvelope =
  env_QueryID :: string
  env_UserID :: string
  env_SQL :: string

text \<open>
  What answers: the zones, JSON, the vault, the home directory, the users with their status,
  the connections, whether the store takes a new time, the file system.
\<close>

record 's schedule_world =
  sw_zones :: "string \<Rightarrow> zone option"
  sw_encode :: "scheduleSpec \<Rightarrow> string"
  sw_decode :: "string \<Rightarrow> scheduleSpec option"
  sw_vault :: bool
  sw_seal :: "scheduledEnvelope \<Rightarrow> 's option"
  sw_unseal :: "'s \<Rightarrow> string + scheduledEnvelope"
  sw_outputRoot :: string
  sw_dbPath :: string
  sw_home :: "string option"
  sw_user :: "string \<Rightarrow> (Identity \<times> string) option"
  sw_connection :: "string \<Rightarrow> Connection option"
  sw_advanced :: "string \<Rightarrow> bool"

definition sealScheduledSQL :: "'s schedule_world \<Rightarrow> string \<Rightarrow> string \<Rightarrow> string \<Rightarrow> 's option" where
  "sealScheduledSQL w queryID userID sql =
     (if \<not> sw_vault w then None
      else sw_seal w \<lparr>env_QueryID = queryID, env_UserID = userID, env_SQL = sql\<rparr>)"

definition openScheduledSQL :: "'s schedule_world \<Rightarrow> 's ScheduledQuery \<Rightarrow> string result" where
  "openScheduledSQL w item =
     (if \<not> sw_vault w then Inl ''secret vault unavailable''
      else
        (case sw_unseal w (sq_Sealed item) of
           Inl e \<Rightarrow> Inl e
         | Inr envelope \<Rightarrow>
             (if env_QueryID envelope \<noteq> sq_ID item \<or> env_UserID envelope \<noteq> sq_UserID item
              then Inl ''scheduled query does not belong to this record'' else Inr (env_SQL envelope))))"

definition path_dir :: "string \<Rightarrow> string" where
  "path_dir path = Clean (rev (dropWhile ((\<noteq>) (CHR ''/'')) (rev path)))"

definition userOutputDir :: "'s schedule_world \<Rightarrow> string \<Rightarrow> string" where
  "userOutputDir w userID =
     Join [if sw_outputRoot w = [] then Join [path_dir (sw_dbPath w), ''scheduled-results''] else sw_outputRoot w, userID]"

definition defaultOutputDir :: "'s schedule_world \<Rightarrow> string" where
  "defaultOutputDir w = (case sw_home w of None \<Rightarrow> [] | Some home \<Rightarrow> Join [home, ''Documents'', ''Rowset Studio''])"

subsection \<open>Saving\<close>

record scheduledInput =
  si_Name :: string
  si_ConnectionID :: string
  si_Database :: string
  si_SQL :: string
  si_Schedule :: scheduleSpec
  si_OutputDir :: string
  si_Format :: string
  si_CatchUp :: bool
  si_Enabled :: bool

definition scheduledSQLLimit :: nat where
  "scheduledSQLLimit = 256 * 1024"

definition trim_scheduled :: "unicode \<Rightarrow> scheduledInput \<Rightarrow> scheduledInput" where
  "trim_scheduled u i = i\<lparr>si_Name := trim_space (si_Name i), si_SQL := trim_space (si_SQL i),
     si_Database := trim_space (si_Database i), si_OutputDir := trim_space (si_OutputDir i),
     si_Format := to_lower u (trim_space (si_Format i))\<rparr>"

definition output_dir :: "server \<Rightarrow> 's schedule_world \<Rightarrow> Identity \<Rightarrow> string \<Rightarrow> string" where
  "output_dir s w identity given =
     (if srv_shared s then userOutputDir w (UserID identity)
      else if given = [] then defaultOutputDir w else given)"

text \<open>What is refused once the text is read: the message, or the folder and the format.\<close>

definition check_scheduled ::
  "server \<Rightarrow> 's schedule_world \<Rightarrow> Identity \<Rightarrow> scheduledInput \<Rightarrow> (string \<times> string) result" where
  "check_scheduled s w identity i =
     (case validate_spec (sw_zones w) (si_Schedule i) of
        Some e \<Rightarrow> Inl e
      | None \<Rightarrow>
          (let dir = output_dir s w identity (si_OutputDir i);
               format = (if si_Format i = [] then ''csv'' else si_Format i) in
           if \<not> IsAbs dir then Inl ''the output folder must be a full path''
           else if format \<noteq> ''csv'' \<and> format \<noteq> ''json'' then Inl ''format must be csv or json''
           else
             (case sw_connection w (si_ConnectionID i) of
                None \<Rightarrow> Inl ''unknown connection''
              | Some connection \<Rightarrow>
                  (if \<not> SupportsScheduledSQL (conn_Engine connection)
                   then Inl ''scheduled queries are not available for this engine''
                   else if \<not> canUseConnection (srv_access s) identity connection then Inl ''unknown connection''
                   else Inr (Clean dir, format)))))"

definition validateScheduled ::
  "server \<Rightarrow> 's schedule_world \<Rightarrow> Identity \<Rightarrow> scheduledInput \<Rightarrow> parse_cache \<Rightarrow> scheduledInput result \<times> parse_cache"
  where
  "validateScheduled s w identity raw c =
     (let i = trim_scheduled (srv_tables s) raw in
      if si_Name i = [] \<or> 120 < length (si_Name i) then (Inl ''name is required (at most 120 characters)'', c)
      else if si_SQL i = [] \<or> scheduledSQLLimit < length (si_SQL i)
      then (Inl ''sql is required (at most 256 KB)'', c)
      else
        (case ParseDialect (srv_tables s) DialectGeneric (si_SQL i) c of
           ((_, Some e), c') \<Rightarrow> (Inl e, c')
         | ((info, None), c') \<Rightarrow>
             (if Kind info \<noteq> Select \<or> IsScript info
              then (Inl ''scheduled queries run one SELECT statement'', c')
              else
                (case check_scheduled s w identity i of
                   Inl e \<Rightarrow> (Inl e, c')
                 | Inr (dir, format) \<Rightarrow> (Inr (i\<lparr>si_OutputDir := dir, si_Format := format\<rparr>), c')))))"

text \<open>\<open>nextRunString\<close>: the second, \<open>None\<close> for a query that is not enabled; \<open>now\<close> in nanoseconds.\<close>

definition nextRunString :: "'s schedule_world \<Rightarrow> scheduleSpec \<Rightarrow> bool \<Rightarrow> int \<Rightarrow> int option result" where
  "nextRunString w spec enabled now =
     (if \<not> enabled then Inr None
      else (case next_run (sw_zones w) spec now of Inl e \<Rightarrow> Inl e | Inr t \<Rightarrow> Inr (Some (t div second))))"

definition scheduled_item ::
  "'s schedule_world \<Rightarrow> Identity \<Rightarrow> string \<Rightarrow> string \<Rightarrow> 's ScheduledQuery option \<Rightarrow> scheduledInput \<Rightarrow> int option \<Rightarrow>
   's \<Rightarrow> 's ScheduledQuery" where
  "scheduled_item w identity fresh stamp existing i next_at sealed =
     \<lparr>sq_ID = (case existing of None \<Rightarrow> fresh | Some q \<Rightarrow> sq_ID q),
      sq_OrgID = (case existing of None \<Rightarrow> OrgID identity | Some q \<Rightarrow> sq_OrgID q),
      sq_UserID = UserID identity, sq_ConnectionID = si_ConnectionID i, sq_Database = si_Database i,
      sq_Name = si_Name i, sq_Sealed = sealed, sq_Schedule = sw_encode w (si_Schedule i),
      sq_OutputDir = si_OutputDir i, sq_OutputFormat = si_Format i, sq_CatchUp = si_CatchUp i,
      sq_Enabled = si_Enabled i, sq_NextRunAt = next_at,
      sq_CreatedAt = (case existing of None \<Rightarrow> stamp | Some q \<Rightarrow> sq_CreatedAt q), sq_UpdatedAt = stamp\<rparr>"

definition saveScheduled ::
  "server \<Rightarrow> 's schedule_world \<Rightarrow> Identity \<Rightarrow> int \<Rightarrow> string \<Rightarrow> string \<Rightarrow> scheduledInput option \<Rightarrow>
   's ScheduledQuery option \<Rightarrow> 's schedule_store \<Rightarrow> parse_cache \<Rightarrow> (response \<times> 's schedule_store) \<times> parse_cache" where
  "saveScheduled s w identity now stamp fresh decoded existing st c =
     (case decoded of
        None \<Rightarrow> ((Refused 400 ''BAD_REQUEST'' ''invalid JSON request'', st), c)
      | Some raw \<Rightarrow>
          (case validateScheduled s w identity raw c of
             (Inl e, c') \<Rightarrow> ((Refused 400 ''BAD_REQUEST'' e, st), c')
           | (Inr i, c') \<Rightarrow>
               (case nextRunString w (si_Schedule i) (si_Enabled i) now of
                  Inl e \<Rightarrow> ((Refused 400 ''BAD_REQUEST'' e, st), c')
                | Inr next_at \<Rightarrow>
                    (let i_d = (case existing of None \<Rightarrow> fresh | Some q \<Rightarrow> sq_ID q) in
                     case sealScheduledSQL w i_d (UserID identity) (si_SQL i) of
                       None \<Rightarrow> ((Refused 500 ''INTERNAL'' ''could not encrypt the query'', st), c')
                     | Some sealed \<Rightarrow>
                         (let item = scheduled_item w identity fresh stamp existing i next_at sealed;
                              (err, st') = (if existing = None then CreateScheduledQuery item st
                                            else UpdateScheduledQuery item st) in
                          ((case err of
                              Some e \<Rightarrow> writeStoreError e
                            | None \<Rightarrow> Answer (if existing = None then 201 else 200), st'), c'))))))"

definition updateScheduled ::
  "server \<Rightarrow> 's schedule_world \<Rightarrow> Identity \<Rightarrow> string \<Rightarrow> int \<Rightarrow> string \<Rightarrow> string \<Rightarrow> scheduledInput option \<Rightarrow>
   's schedule_store \<Rightarrow> parse_cache \<Rightarrow> (response \<times> 's schedule_store) \<times> parse_cache" where
  "updateScheduled s w identity i now stamp fresh decoded st c =
     (case find_query i (UserID identity) st of
        None \<Rightarrow> ((Refused 404 ''NOT_FOUND'' ''scheduled query not found'', st), c)
      | Some existing \<Rightarrow> saveScheduled s w identity now stamp fresh decoded (Some existing) st c)"

definition deleteScheduled ::
  "Identity \<Rightarrow> string \<Rightarrow> 's schedule_store \<Rightarrow> response \<times> 's schedule_store" where
  "deleteScheduled identity i st =
     (case DeleteScheduledQuery i (UserID identity) st of
        (err, st') \<Rightarrow> (case err of Some e \<Rightarrow> writeStoreError e | None \<Rightarrow> Answer 204, st'))"

subsection \<open>Starting\<close>

text \<open>
  The server beside the store: the queries that run, whether it still starts any, and what the
  tick under way has left to do, for the time it began at. A task is a started run; it has no
  record until the first statement of \<open>CreateScheduledRun\<close>, and \<open>tk_kept\<close> once the second is
  through. The tick moves a due query on before it starts it.
\<close>

record 's run_task =
  tk_item :: "'s ScheduledQuery"
  tk_trigger :: string
  tk_run :: "ScheduledRun option"
  tk_kept :: bool

datatype 's due_action = Advance "'s ScheduledQuery" | StartDue "'s ScheduledQuery"

record 's scheduler =
  sc_store :: "'s schedule_store"
  sc_running :: "string set"
  sc_tasks :: "'s run_task list"
  sc_stopped :: bool
  sc_now :: int
  sc_pending :: "'s due_action list"

definition scheduleTick :: int where
  "scheduleTick = 15"

definition startScheduled :: "'s ScheduledQuery \<Rightarrow> string \<Rightarrow> 's scheduler \<Rightarrow> bool \<times> 's scheduler" where
  "startScheduled item trigger st =
     (if sq_ID item \<in> sc_running st \<or> sc_stopped st then (False, st)
      else (True, st\<lparr>sc_running := insert (sq_ID item) (sc_running st),
                     sc_tasks := sc_tasks st @ [\<lparr>tk_item = item, tk_trigger = trigger, tk_run = None,
                                               tk_kept = False\<rparr>]\<rparr>))"

definition missed :: "int \<Rightarrow> 's ScheduledQuery \<Rightarrow> bool" where
  "missed now item \<longleftrightarrow>
     (case sq_NextRunAt item of None \<Rightarrow> False | Some due \<Rightarrow> 2 * scheduleTick * second < now - due * second)
     \<and> \<not> sq_CatchUp item"

fun due_loop :: "'s schedule_world \<Rightarrow> int \<Rightarrow> 's ScheduledQuery list \<Rightarrow> 's scheduler \<Rightarrow> 's scheduler" where
  "due_loop w now [] st = st"
| "due_loop w now (item # items) st =
     (case sw_decode w (sq_Schedule item) of
        None \<Rightarrow> due_loop w now items st
      | Some spec \<Rightarrow>
          (case nextRunString w spec True now of
             Inl _ \<Rightarrow> due_loop w now items st
           | Inr next_at \<Rightarrow>
               (if \<not> sw_advanced w (sq_ID item) then due_loop w now items st
                else
                  (let st' = st\<lparr>sc_store := SetScheduledNextRun (sq_ID item) next_at (sc_store st)\<rparr> in
                   if missed now item then due_loop w now items st'
                   else due_loop w now items (snd (startScheduled item ''schedule'' st'))))))"

definition startDueSchedules :: "'s schedule_world \<Rightarrow> int \<Rightarrow> 's scheduler \<Rightarrow> 's scheduler" where
  "startDueSchedules w now st = due_loop w now (DueScheduledQueries (now div second) (sc_store st)) st"

text \<open>
  The same tick in the sections between which requests and runs come: the due queries are read
  once, then each is moved on by a statement of its own, and started.
\<close>

definition read_due :: "int \<Rightarrow> 's scheduler \<Rightarrow> 's scheduler" where
  "read_due now st =
     st\<lparr>sc_now := now, sc_pending := map Advance (DueScheduledQueries (now div second) (sc_store st))\<rparr>"

fun tick_action ::
  "'s schedule_world \<Rightarrow> int \<Rightarrow> 's due_action \<Rightarrow> 's scheduler \<Rightarrow> 's due_action list \<times> 's scheduler" where
  "tick_action w now (Advance item) st =
     (case sw_decode w (sq_Schedule item) of
        None \<Rightarrow> ([], st)
      | Some spec \<Rightarrow>
          (case nextRunString w spec True now of
             Inl _ \<Rightarrow> ([], st)
           | Inr next_at \<Rightarrow>
               (if \<not> sw_advanced w (sq_ID item) then ([], st)
                else (if missed now item then [] else [StartDue item],
                      st\<lparr>sc_store := SetScheduledNextRun (sq_ID item) next_at (sc_store st)\<rparr>))))"
| "tick_action w now (StartDue item) st = ([], snd (startScheduled item ''schedule'' st))"

definition tick_next :: "'s schedule_world \<Rightarrow> 's due_action \<Rightarrow> 's due_action list \<Rightarrow> 's scheduler \<Rightarrow> 's scheduler" where
  "tick_next w action others st =
     (case tick_action w (sc_now st) action st of
        (acts, st') \<Rightarrow> st'\<lparr>sc_pending := acts @ others\<rparr>)"

definition runScheduledNow :: "Identity \<Rightarrow> string \<Rightarrow> 's scheduler \<Rightarrow> response \<times> 's scheduler" where
  "runScheduledNow identity i st =
     (case find_query i (UserID identity) (sc_store st) of
        None \<Rightarrow> (Refused 404 ''NOT_FOUND'' ''scheduled query not found'', st)
      | Some item \<Rightarrow>
          (case startScheduled item ''manual'' st of
             (started, st') \<Rightarrow>
               (if started then Answer 202
                else Refused 409 ''ALREADY_RUNNING'' ''this query is already running'', st')))"

end
