(* ===== verification/Scheduled_Runs.thy ===== *)
theory Scheduled_Runs
  imports Scheduler
begin

section \<open>The runs of scheduled queries (api/scheduler.go, api/schedule.go)\<close>

text \<open>
  A run: the owner and the connection are looked up again, the query is opened with the checks
  of the editor, and its rows are written to a file that takes its name once it is complete. A
  file system is a function from paths to contents. Then the download of a result, and the
  scheduler as a step relation over interleaved ticks, requests and runs.
\<close>

subsection \<open>The file\<close>

type_synonym files = "string \<Rightarrow> string option"

text \<open>
  What the machine answers while the file is written; \<open>rd_stamp\<close> is the local time in its name,
  \<open>rd_removed\<close> whether the unfinished file can be removed again. A text is on the disk once
  flushing and closing succeeded; before, the file holds whatever \<open>rd_short\<close> leaves of it.
\<close>

record run_disk =
  rd_mkdir :: bool
  rd_created :: bool
  rd_write :: "nat \<Rightarrow> bool"
  rd_flushed :: bool
  rd_closed :: bool
  rd_short :: "string \<Rightarrow> string"
  rd_renamed :: bool
  rd_removed :: bool
  rd_encode :: "(string \<times> driver_value) list \<Rightarrow> string result"
  rd_columns :: "string list"
  rd_stamp :: string

definition result_path :: "unicode \<Rightarrow> run_disk \<Rightarrow> 's ScheduledQuery \<Rightarrow> string" where
  "result_path u disk item =
     Join [sq_OutputDir item, fileSlug u (sq_Name item) @ ''_'' @ rd_stamp disk @ ''.'' @ sq_OutputFormat item]"

definition partial_path :: "string \<Rightarrow> string" where
  "partial_path path = path @ ''.partial''"

text \<open>The rows, the path of the result, the error, and the files as they are then.\<close>

definition writeScheduledResult ::
  "unicode \<Rightarrow> run_disk \<Rightarrow> 's ScheduledQuery \<Rightarrow> (driver_value list \<Rightarrow> driver_value list) \<Rightarrow> selected \<Rightarrow> files \<Rightarrow>
   (nat \<times> string \<times> string option) \<times> files" where
  "writeScheduledResult u disk item tr sel fs =
     (let path = result_path u disk item; unfinished = partial_path path in
      if \<not> rd_mkdir disk then ((0, [], Some ''output folder''), fs)
      else if \<not> rd_created disk \<or> fs unfinished \<noteq> None then ((0, [], Some ''output file''), fs)
      else
        (let out = writeRows u (rd_encode disk) (rd_write disk) (sq_OutputFormat item) [] ''exported_rows''
               (rd_columns disk) tr (sel_limit sel) (sel_rows sel) (sel_error sel);
             flushed = wr_error out = None \<and> rd_flushed disk;
             stored = (if flushed \<and> rd_closed disk then wr_text out else rd_short disk (wr_text out));
             written = fs(unfinished := Some stored);
             removed = (if rd_removed disk then written(unfinished := None) else written);
             err = (case wr_error out of
                      Some e \<Rightarrow> Some e
                    | None \<Rightarrow> if \<not> rd_flushed disk then Some ''flush''
                              else if \<not> rd_closed disk then Some ''close'' else None) in
         case err of
           Some e \<Rightarrow> ((wr_rows out, [], Some e), removed)
         | None \<Rightarrow>
             (if \<not> rd_renamed disk then ((wr_rows out, [], Some ''rename''), removed)
              else ((wr_rows out, path, None), written(unfinished := None, path := Some stored)))))"

subsection \<open>The run\<close>

definition run_refused :: "string \<Rightarrow> files \<Rightarrow> parse_cache \<Rightarrow>
   ((nat \<times> string \<times> string option) \<times> driver_value list event list \<times> files) \<times> parse_cache" where
  "run_refused e fs c = (((0, [], Some e), [], fs), c)"

definition executeScheduled ::
  "server \<Rightarrow> driver_value list world \<Rightarrow> 's schedule_world \<Rightarrow> run_disk \<Rightarrow> 's ScheduledQuery \<Rightarrow> files \<Rightarrow> parse_cache \<Rightarrow>
   ((nat \<times> string \<times> string option) \<times> driver_value list event list \<times> files) \<times> parse_cache" where
  "executeScheduled s w sw disk item fs c =
     (case openScheduledSQL sw item of
        Inl e \<Rightarrow> run_refused e fs c
      | Inr sql \<Rightarrow>
          (case sw_user sw (sq_UserID item) of
             None \<Rightarrow> run_refused ''the owner of this query is no longer active'' fs c
           | Some (user, state) \<Rightarrow>
               (if state \<noteq> ''active'' then run_refused ''the owner of this query is no longer active'' fs c
                else
                  (case role_of (srv_access s) (UserID user) of
                     Inl _ \<Rightarrow> run_refused ''the owner has no role'' fs c
                   | Inr role \<Rightarrow>
                       (case sw_connection sw (sq_ConnectionID item) of
                          None \<Rightarrow> run_refused ''the connection no longer exists'' fs c
                        | Some connection \<Rightarrow>
                            (let identity = user\<lparr>IRole := ar_Name role\<rparr> in
                             if \<not> SupportsScheduledSQL (conn_Engine connection)
                             then run_refused ''scheduled queries are not available for this engine'' fs c
                             else if \<not> canUseConnection (srv_access s) identity connection
                             then run_refused ''the owner no longer has access to the connection'' fs c
                             else
                               (case openGovernedSelect s w identity role connection sql (30 * 60) c of
                                  ((Inl (SelectBlocked reason), evs), c') \<Rightarrow>
                                    (((0, [], Some (''blocked by policy: '' @ reason)), evs, fs), c')
                                | ((Inl (SelectFailed e), evs), c') \<Rightarrow> (((0, [], Some e), evs, fs), c')
                                | ((Inr sel, evs), c') \<Rightarrow>
                                    (case writeScheduledResult (srv_tables s) disk item (transform (w_client w)) sel fs of
                                       ((rows, path, err), fs') \<Rightarrow>
                                         (((rows, path, err), evs @ [finish_select sql sel rows err], fs'), c')))))))))"

definition task_query :: "'s run_task \<Rightarrow> string" where
  "task_query task = sq_ID (tk_item task)"

definition started_run :: "'s run_task \<Rightarrow> string \<Rightarrow> string \<Rightarrow> ScheduledRun" where
  "started_run task i at =
     \<lparr>sr_ID = i, sr_QueryID = sq_ID (tk_item task), sr_Trigger = tk_trigger task, sr_StartedAt = at,
      sr_FinishedAt = None, sr_Status = ''running'', sr_Rows = 0, sr_OutputPath = None, sr_Error = None\<rparr>"

definition finished_run :: "ScheduledRun \<Rightarrow> string \<Rightarrow> nat \<times> string \<times> string option \<Rightarrow> ScheduledRun" where
  "finished_run r at outcome =
     (case outcome of
        (rows, path, Some e) \<Rightarrow>
          r\<lparr>sr_FinishedAt := Some at, sr_Rows := rows, sr_Status := ''error'', sr_Error := Some e\<rparr>
      | (rows, path, None) \<Rightarrow>
          r\<lparr>sr_FinishedAt := Some at, sr_Rows := rows, sr_Status := ''success'', sr_OutputPath := Some path\<rparr>)"

text \<open>
  \<open>runScheduled\<close> in three sections. The k-th task inserts its run, then deletes the query's older
  ones, and ends where either fails; later it finishes, whether or not the store takes that. A
  task that ends is taken off the running ones.
\<close>

definition end_task :: "nat \<Rightarrow> 's scheduler \<Rightarrow> 's scheduler" where
  "end_task k st =
     st\<lparr>sc_tasks := take k (sc_tasks st) @ drop (Suc k) (sc_tasks st),
        sc_running := sc_running st - {sq_ID (tk_item (sc_tasks st ! k))}\<rparr>"

definition begin_run :: "nat \<Rightarrow> string \<Rightarrow> string \<Rightarrow> 's scheduler \<Rightarrow> 's scheduler" where
  "begin_run k i at st =
     (let task = sc_tasks st ! k; r = started_run task i at in
      case insert_run r (sc_store st) of
        (Some _, _) \<Rightarrow> end_task k st
      | (None, store) \<Rightarrow> st\<lparr>sc_store := store, sc_tasks := (sc_tasks st)[k := task\<lparr>tk_run := Some r\<rparr>]\<rparr>)"

definition trim_run :: "nat \<Rightarrow> bool \<Rightarrow> 's scheduler \<Rightarrow> 's scheduler" where
  "trim_run k trims st =
     (let task = sc_tasks st ! k in
      if trims then st\<lparr>sc_store := trim_runs (task_query task) (sc_store st),
                       sc_tasks := (sc_tasks st)[k := task\<lparr>tk_kept := True\<rparr>]\<rparr>
      else end_task k st)"

definition finish_run ::
  "nat \<Rightarrow> ScheduledRun \<Rightarrow> string \<Rightarrow> nat \<times> string \<times> string option \<Rightarrow> bool \<Rightarrow> 's scheduler \<Rightarrow> 's scheduler"
  where
  "finish_run k r at outcome recorded st =
     end_task k (if recorded
       then st\<lparr>sc_store := FinishScheduledRun (finished_run r at outcome) (sc_store st)\<rparr> else st)"

subsection \<open>What the owner reads\<close>

definition listScheduledRuns ::
  "Identity \<Rightarrow> string \<Rightarrow> 's schedule_store \<Rightarrow> response + ScheduledRun list" where
  "listScheduledRuns identity i st =
     (case find_query i (UserID identity) st of
        None \<Rightarrow> Inl (Refused 404 ''NOT_FOUND'' ''scheduled query not found'')
      | Some item \<Rightarrow> Inr (ListScheduledRuns (sq_ID item) 50 st))"

text \<open>One entry of the list of schedules: the query, its SQL where it opens, whether it runs, its last run.\<close>

definition listScheduled ::
  "'s schedule_world \<Rightarrow> Identity \<Rightarrow> 's scheduler \<Rightarrow>
   ('s ScheduledQuery \<times> string \<times> bool \<times> ScheduledRun option) list" where
  "listScheduled w identity st =
     map (\<lambda>item. (item, (case openScheduledSQL w item of Inl _ \<Rightarrow> [] | Inr sql \<Rightarrow> sql),
                  sq_ID item \<in> sc_running st, LatestScheduledRun (UserID identity) (sq_ID item) (sc_store st)))
       (ListScheduledQueries (UserID identity) (sc_store st))"

definition has_result :: "string \<Rightarrow> ScheduledRun \<Rightarrow> bool" where
  "has_result runID r \<longleftrightarrow> sr_ID r = runID \<and> (case sr_OutputPath r of None \<Rightarrow> False | Some p \<Rightarrow> p \<noteq> [])"

text \<open>The download: the name it is offered under, the path that is opened, and what it holds.\<close>

definition scheduledRunFile ::
  "Identity \<Rightarrow> string \<Rightarrow> string \<Rightarrow> 's schedule_store \<Rightarrow> files \<Rightarrow> response + string \<times> string \<times> string" where
  "scheduledRunFile identity i runID st fs =
     (let missing = Inl (Refused 404 ''NOT_FOUND'' ''result file not found'') in
      case find_query i (UserID identity) st of
        None \<Rightarrow> Inl (Refused 404 ''NOT_FOUND'' ''scheduled query not found'')
      | Some item \<Rightarrow>
          (case find (has_result runID) (ListScheduledRuns (sq_ID item) 50 st) of
             None \<Rightarrow> missing
           | Some r \<Rightarrow>
               (let path = Clean (the (sr_OutputPath r)) in
                if leaves_folder (Clean (sq_OutputDir item)) path then missing
                else
                  (case fs path of
                     None \<Rightarrow> Inl (Refused 404 ''NOT_FOUND'' ''the result file is no longer there'')
                   | Some content \<Rightarrow> Inr (filter (\<lambda>ch. ch \<noteq> CHR ''\"'') (Base path), path, content)))))"

subsection \<open>The scheduler\<close>

text \<open>
  One statement of the store, or one section under the lock, at a time. Requests that read a
  query before they act act on what they read then: \<open>existing\<close> and the item of \<open>manual\<close> are such
  records. Ticks follow one another; \<open>accepts\<close> says which queries the store moves on now. The
  identifier of a new run is none that a run under way has.
\<close>

inductive schedule_step ::
  "server \<Rightarrow> 's schedule_world \<Rightarrow> 's scheduler \<Rightarrow> 's scheduler \<Rightarrow> bool" for s :: server and w :: "'s schedule_world" where
  tick_read: "sc_pending st = [] \<Longrightarrow> schedule_step s w st (read_due now st)"
| tick_next: "sc_pending st = action # others \<Longrightarrow>
    schedule_step s w st (tick_next (w\<lparr>sw_advanced := accepts\<rparr>) action others st)"
| manual: "schedule_step s w st (snd (startScheduled item ''manual'' st))"
| begin_run: "k < length (sc_tasks st) \<Longrightarrow> tk_run (sc_tasks st ! k) = None \<Longrightarrow>
    (\<And>task r. task \<in> set (sc_tasks st) \<Longrightarrow> tk_run task = Some r \<Longrightarrow> sr_ID r \<noteq> i) \<Longrightarrow>
    schedule_step s w st (begin_run k i at st)"
| trim_run: "k < length (sc_tasks st) \<Longrightarrow> tk_run (sc_tasks st ! k) \<noteq> None \<Longrightarrow> \<not> tk_kept (sc_tasks st ! k) \<Longrightarrow>
    schedule_step s w st (trim_run k trims st)"
| finish_run: "k < length (sc_tasks st) \<Longrightarrow> tk_run (sc_tasks st ! k) = Some r \<Longrightarrow> tk_kept (sc_tasks st ! k) \<Longrightarrow>
    schedule_step s w st (finish_run k r at outcome recorded st)"
| save: "saveScheduled s w identity now stamp fresh decoded existing (sc_store st) c = ((answer, store), c') \<Longrightarrow>
    schedule_step s w st (st\<lparr>sc_store := store\<rparr>)"
| delete: "schedule_step s w st (st\<lparr>sc_store := snd (deleteScheduled identity i (sc_store st))\<rparr>)"
| stop: "schedule_step s w st (st\<lparr>sc_stopped := True\<rparr>)"

definition schedule_start :: "'s schedule_store \<Rightarrow> 's scheduler" where
  "schedule_start store =
     \<lparr>sc_store = store, sc_running = {}, sc_tasks = [], sc_stopped = False, sc_now = 0, sc_pending = []\<rparr>"

inductive schedule_reachable ::
  "server \<Rightarrow> 's schedule_world \<Rightarrow> 's schedule_store \<Rightarrow> 's scheduler \<Rightarrow> bool" for s :: server and w :: "'s schedule_world"
  and store :: "'s schedule_store" where
  start: "schedule_reachable s w store (schedule_start store)"
| more: "schedule_reachable s w store st \<Longrightarrow> schedule_step s w st st' \<Longrightarrow> schedule_reachable s w store st'"

inductive_cases schedule_stepE: "schedule_step s w st st'"

end
