(* ===== verification/Scheduler_Properties.thy ===== *)
theory Scheduler_Properties
  imports Scheduled_Runs Export_Properties
begin

section \<open>What holds of scheduled queries\<close>

text \<open>
  The tick starts what is due, once, and moves it on; a query runs once at a time, whatever
  requests come between; a run is checked like a request of its owner and its file appears whole;
  what is downloaded lies in the query's folder; what is saved can run.
\<close>

subsection \<open>The tick\<close>

definition advanced_to :: "'s schedule_world \<Rightarrow> int \<Rightarrow> 's ScheduledQuery \<Rightarrow> int option" where
  "advanced_to w now item =
     (case sw_decode w (sq_Schedule item) of
        None \<Rightarrow> None
      | Some spec \<Rightarrow>
          (case nextRunString w spec True now of
             Inl _ \<Rightarrow> None
           | Inr t \<Rightarrow> if sw_advanced w (sq_ID item) then t else None))"

definition startable :: "'s schedule_world \<Rightarrow> int \<Rightarrow> 's scheduler \<Rightarrow> 's ScheduledQuery \<Rightarrow> bool" where
  "startable w now st item \<longleftrightarrow> advanced_to w now item \<noteq> None \<and> \<not> missed now item
     \<and> sq_ID item \<notin> sc_running st \<and> \<not> sc_stopped st"

definition schedule_task :: "'s ScheduledQuery \<Rightarrow> 's run_task" where
  "schedule_task item = \<lparr>tk_item = item, tk_trigger = ''schedule'', tk_run = None,
     tk_kept = False\<rparr>"

lemma advanced_later: "advanced_to w now item = Some t \<Longrightarrow> now < t * second"
  by (auto simp: advanced_to_def nextRunString_def dest!: next_run_later split: option.splits sum.splits if_splits)

lemma nextRunString_some: "nextRunString w spec True now = Inr t \<Longrightarrow> t \<noteq> None"
  by (auto simp: nextRunString_def split: sum.splits)

definition advance :: "'s schedule_world \<Rightarrow> int \<Rightarrow> 's ScheduledQuery \<Rightarrow> 's scheduler \<Rightarrow> 's scheduler" where
  "advance w now item st =
     (case advanced_to w now item of
        None \<Rightarrow> st
      | Some t \<Rightarrow> st\<lparr>sc_store := SetScheduledNextRun (sq_ID item) (Some t) (sc_store st)\<rparr>)"

lemma due_loop_step:
  "due_loop w now (item # items) st =
     due_loop w now items
       (if advanced_to w now item = None \<or> missed now item then advance w now item st
        else snd (startScheduled item ''schedule'' (advance w now item st)))"
  by (auto simp: advanced_to_def advance_def Let_def dest: nextRunString_some split: option.splits sum.splits)

declare due_loop.simps(2) [simp del]

lemma advance_fields [simp]:
  "sc_tasks (advance w now item st) = sc_tasks st" "sc_running (advance w now item st) = sc_running st"
  "sc_stopped (advance w now item st) = sc_stopped st"
  by (simp_all add: advance_def split: option.splits)

lemma startScheduled_fields [simp]:
  "sc_store (snd (startScheduled item trigger st)) = sc_store st"
  "sc_stopped (snd (startScheduled item trigger st)) = sc_stopped st"
  by (simp_all add: startScheduled_def)

lemma due_loop_tasks:
  "distinct (map sq_ID items) \<Longrightarrow>
     sc_tasks (due_loop w now items st) = sc_tasks st @ map schedule_task (filter (startable w now st) items)"
proof (induction items arbitrary: st)
  case (Cons item items)
  let ?st = "if advanced_to w now item = None \<or> missed now item then advance w now item st
        else snd (startScheduled item ''schedule'' (advance w now item st))"
  have "x \<in> set items \<Longrightarrow> sq_ID x \<noteq> sq_ID item" for x using Cons.prems by (auto simp: image_iff)
  then have "filter (startable w now ?st) items = filter (startable w now st) items"
    by (intro filter_cong) (auto simp: startable_def startScheduled_def)
  moreover have "sc_tasks ?st = sc_tasks st @ (if startable w now st item then [schedule_task item] else [])"
    by (auto simp: startable_def startScheduled_def schedule_task_def)
  ultimately show ?case using Cons by (simp add: due_loop_step del: if_split)
qed simp

lemma due_loop_store:
  "sc_store (due_loop w now items st) =
     foldl (\<lambda>store item. case advanced_to w now item of None \<Rightarrow> store
        | Some t \<Rightarrow> SetScheduledNextRun (sq_ID item) (Some t) store) (sc_store st) items"
  by (induction items arbitrary: st) (auto simp: due_loop_step advance_def split: option.splits)

lemma advance_all:
  assumes "distinct (map sq_ID items)"
  shows "st_queries (foldl (\<lambda>store item. case advanced_to w now item of None \<Rightarrow> store
        | Some t \<Rightarrow> SetScheduledNextRun (sq_ID item) (Some t) store) store items) =
     map (\<lambda>q. case find (\<lambda>item. sq_ID item = sq_ID q) items of
            None \<Rightarrow> q
          | Some item \<Rightarrow> (case advanced_to w now item of None \<Rightarrow> q | Some t \<Rightarrow> q\<lparr>sq_NextRunAt := Some t\<rparr>))
       (st_queries store)"
  using assms
proof (induction items arbitrary: store)
  case (Cons item items)
  have fresh: "find (\<lambda>x. sq_ID x = sq_ID item) items = None"
    using Cons.prems by (auto simp: find_None_iff image_iff)
  show ?case using Cons fresh
    by (auto simp: SetScheduledNextRun_def split: option.splits)
qed simp

lemma due_distinct:
  "distinct (map sq_ID (st_queries store)) \<Longrightarrow> distinct (map sq_ID (DueScheduledQueries t store))"
  by (auto simp: DueScheduledQueries_def distinct_map inj_on_def)

lemma found_member: "find P xs = Some x \<Longrightarrow> x \<in> set xs \<and> P x"
  by (induction xs) (auto split: if_splits)

lemma find_due:
  assumes "distinct (map sq_ID (st_queries store))" and "q \<in> set (st_queries store)"
  shows "find (\<lambda>item. sq_ID item = sq_ID q) (DueScheduledQueries t store) = (if is_due t q then Some q else None)"
proof (cases "find (\<lambda>item. sq_ID item = sq_ID q) (DueScheduledQueries t store)")
  case None
  with assms(2) show ?thesis by (auto simp: find_None_iff DueScheduledQueries_def)
next
  case (Some item)
  then have "item \<in> set (st_queries store)" "is_due t item" "sq_ID item = sq_ID q"
    by (auto simp: DueScheduledQueries_def dest!: found_member)
  with assms have "item = q" by (auto simp: distinct_map inj_on_def)
  with Some \<open>is_due t item\<close> show ?thesis by simp
qed

lemma startDueSchedules_queries:
  assumes "distinct (map sq_ID (st_queries (sc_store st)))"
  shows "st_queries (sc_store (startDueSchedules w now st)) =
      map (\<lambda>q. case (is_due (now div second) q, advanced_to w now q) of
                 (True, Some t) \<Rightarrow> q\<lparr>sq_NextRunAt := Some t\<rparr> | _ \<Rightarrow> q) (st_queries (sc_store st))"
  using find_due [OF assms]
  by (auto simp: startDueSchedules_def due_loop_store advance_all [OF due_distinct [OF assms]]
      split: option.splits intro!: map_cong)

text \<open>C19: the tick starts every due query once. When the clock ticks, exactly the enabled queries whose
  time has come are started, in the order of their times, except those whose schedule cannot be
  read, that are running, or that missed their time and do not ask to catch up; every due query
  whose schedule can be read is moved to a time after now, so it is not due again before then, and
  no other query changes.\<close>

theorem due_queries_start_once:
  assumes "distinct (map sq_ID (st_queries (sc_store st)))"
  shows "sc_tasks (startDueSchedules w now st) = sc_tasks st
      @ map schedule_task (filter (startable w now st) (DueScheduledQueries (now div second) (sc_store st)))
    \<and> st_queries (sc_store (startDueSchedules w now st)) =
      map (\<lambda>q. case (is_due (now div second) q, advanced_to w now q) of
                 (True, Some t) \<Rightarrow> q\<lparr>sq_NextRunAt := Some t\<rparr> | _ \<Rightarrow> q) (st_queries (sc_store st))
    \<and> (\<forall>q t. advanced_to w now q = Some t \<longrightarrow> now < t * second)"
proof (intro conjI allI impI)
  note due = due_distinct [OF assms]
  show "sc_tasks (startDueSchedules w now st) = sc_tasks st
      @ map schedule_task (filter (startable w now st) (DueScheduledQueries (now div second) (sc_store st)))"
    by (simp add: startDueSchedules_def due_loop_tasks [OF due])
  show "st_queries (sc_store (startDueSchedules w now st)) =
      map (\<lambda>q. case (is_due (now div second) q, advanced_to w now q) of
                 (True, Some t) \<Rightarrow> q\<lparr>sq_NextRunAt := Some t\<rparr> | _ \<Rightarrow> q) (st_queries (sc_store st))"
    by (rule startDueSchedules_queries [OF assms])
qed (rule advanced_later)

text \<open>
  The sections of a tick, run one after the other with nothing between, are the tick: each action
  is done before the next, and moving a query on is followed by its start.
\<close>

function tick_alone ::
  "'s schedule_world \<Rightarrow> int \<Rightarrow> 's due_action list \<Rightarrow> 's scheduler \<Rightarrow> 's scheduler" where
  "tick_alone w now [] st = st"
| "tick_alone w now (Advance item # acts) st =
     (case tick_action w now (Advance item) st of (begun, st') \<Rightarrow>
        (if begun = [] then tick_alone w now acts st' else tick_alone w now (StartDue item # acts) st'))"
| "tick_alone w now (StartDue item # acts) st =
     tick_alone w now acts (snd (startScheduled item ''schedule'' st))"
  by pat_completeness auto
termination
  by (relation "measure (\<lambda>(w, now, acts, st). sum_list (map (\<lambda>a. case a of Advance _ \<Rightarrow> 2 | StartDue _ \<Rightarrow> 1) acts))")
    auto

lemma uninterrupted_tick:
  "tick_alone w now (map Advance items) st = due_loop w now items st"
  by (induction items arbitrary: st)
    (auto simp: due_loop.simps(2) Let_def split: option.splits sum.splits)

subsection \<open>One run at a time\<close>

definition one_run_each :: "'s scheduler \<Rightarrow> bool" where
  "one_run_each st \<longleftrightarrow> distinct (map task_query (sc_tasks st)) \<and> set (map task_query (sc_tasks st)) = sc_running st"

lemma one_run_fields [simp]:
  "one_run_each (st\<lparr>sc_store := x\<rparr>) = one_run_each st" "one_run_each (st\<lparr>sc_stopped := b\<rparr>) = one_run_each st"
  "one_run_each (st\<lparr>sc_now := n\<rparr>) = one_run_each st" "one_run_each (st\<lparr>sc_pending := p\<rparr>) = one_run_each st"
  by (simp_all add: one_run_each_def)

lemma startScheduled_one_run: "one_run_each st \<Longrightarrow> one_run_each (snd (startScheduled item trigger st))"
  by (auto simp: one_run_each_def startScheduled_def task_query_def)

lemma tick_action_one_run:
  assumes "one_run_each st"
  shows "one_run_each (snd (tick_action w now action st))"
proof (cases action)
  case (Advance item)
  with assms show ?thesis by (simp split: option.splits sum.splits)
next
  case (StartDue item)
  with startScheduled_one_run [OF assms] show ?thesis by simp
qed

lemma tick_next_one_run: "one_run_each st \<Longrightarrow> one_run_each (tick_next w action others st)"
  using tick_action_one_run [of st w "sc_now st" action]
  by (simp add: tick_next_def case_prod_beta del: tick_action.simps)

lemma end_task_one_run:
  assumes "one_run_each st" and "k < length (sc_tasks st)"
  shows "one_run_each (end_task k st)"
proof -
  let ?ids = "map task_query (sc_tasks st)"
  have split: "?ids = take k ?ids @ ?ids ! k # drop (Suc k) ?ids"
    by (rule id_take_nth_drop) (simp add: assms(2))
  have d: "distinct (take k ?ids @ ?ids ! k # drop (Suc k) ?ids)"
    using assms(1) split by (simp add: one_run_each_def)
  have "set ?ids = set (take k ?ids) \<union> insert (?ids ! k) (set (drop (Suc k) ?ids))"
    by (subst split) simp
  with d have "set (take k ?ids) \<union> set (drop (Suc k) ?ids) = set ?ids - {?ids ! k}" by auto
  with d assms show ?thesis
    by (simp add: one_run_each_def end_task_def take_map drop_map task_query_def [symmetric])
qed

lemma update_task_one_run:
  assumes "one_run_each st" and "k < length (sc_tasks st)" and "tk_item task = tk_item (sc_tasks st ! k)"
  shows "one_run_each (st\<lparr>sc_store := x, sc_tasks := (sc_tasks st)[k := task]\<rparr>)"
proof -
  have "task_query task = task_query (sc_tasks st ! k)" using assms(3) by (simp add: task_query_def)
  then have "map task_query ((sc_tasks st)[k := task]) = map task_query (sc_tasks st)"
    using assms(2) by (simp add: map_update list_update_same_conv)
  then show ?thesis using assms(1) unfolding one_run_each_def by (simp del: set_map)
qed

lemma begin_run_one_run:
  "one_run_each st \<Longrightarrow> k < length (sc_tasks st) \<Longrightarrow> one_run_each (begin_run k i at st)"
  using update_task_one_run [of st k] end_task_one_run [of st k]
  by (simp add: begin_run_def Let_def split: prod.splits option.splits)

lemma trim_run_one_run:
  "one_run_each st \<Longrightarrow> k < length (sc_tasks st) \<Longrightarrow> one_run_each (trim_run k trims st)"
  using update_task_one_run [of st k] end_task_one_run [of st k]
  by (simp add: trim_run_def Let_def)

lemma schedule_step_one_run:
  "schedule_step s w st st' \<Longrightarrow> one_run_each st \<Longrightarrow> one_run_each st'"
proof (induction rule: schedule_step.induct)
  case (finish_run k st r at outcome recorded)
  then show ?case unfolding finish_run_def by (intro end_task_one_run) simp_all
qed (simp_all add: read_due_def tick_next_one_run startScheduled_one_run begin_run_one_run trim_run_one_run)

text \<open>C20: a scheduled query runs at most once at a time. Whatever ticks, requests, saves and deletions
  come between, the runs that are under way are of different queries, and they are exactly the
  queries the server takes for running: none is stuck there once its run has ended.\<close>

theorem one_run_at_a_time:
  assumes "schedule_reachable s w store st"
  shows "distinct (map task_query (sc_tasks st)) \<and> set (map task_query (sc_tasks st)) = sc_running st"
  using assms
proof (induction rule: schedule_reachable.induct)
  case start
  show ?case by (simp add: schedule_start_def)
next
  case (more st st')
  from schedule_step_one_run [OF more.hyps(2)] more.IH show ?case by (simp add: one_run_each_def)
qed

subsection \<open>A run\<close>

lemma write_scheduled_limit:
  assumes "writeScheduledResult u disk item tr sel fs = ((rows, path, None), fs')"
  shows "sel_limit sel \<le> 0 \<or> int rows \<le> sel_limit sel"
proof -
  define out where "out = writeRows u (rd_encode disk) (rd_write disk) (sq_OutputFormat item) [] ''exported_rows''
      (rd_columns disk) tr (sel_limit sel) (sel_rows sel) (sel_error sel)"
  have "rows = wr_rows out" "wr_error out = None" using assms
    by (auto simp: writeScheduledResult_def out_def [symmetric] Let_def split: if_splits option.splits)
  then show ?thesis
    using write_rows_limit [of _ "rd_write disk" tr "sel_limit sel" "sel_rows sel" "sel_error sel"]
    by (auto simp: out_def writeRows_def not_le [symmetric])
qed


subsection \<open>The file of a run\<close>


text \<open>A query of the owner of \<open>plain_connection\<close>, its envelope sealed by itself, and a world around it.\<close>

definition example_query :: "scheduledEnvelope ScheduledQuery" where
  "example_query = \<lparr>sq_ID = ''1'', sq_OrgID = ''o'', sq_UserID = ''u'', sq_ConnectionID = ''c'', sq_Database = [],
     sq_Name = ''n'', sq_Sealed = \<lparr>env_QueryID = ''1'', env_UserID = ''u'', env_SQL = ''select a''\<rparr>,
     sq_Schedule = ''spec'', sq_OutputDir = ''/out'', sq_OutputFormat = ''csv'', sq_CatchUp = True,
     sq_Enabled = True, sq_NextRunAt = Some 100, sq_CreatedAt = [], sq_UpdatedAt = []\<rparr>"

definition example_disk :: run_disk where
  "example_disk = \<lparr>rd_mkdir = True, rd_created = True, rd_write = \<lambda>_. True, rd_flushed = True,
     rd_closed = True, rd_short = (\<lambda>_. []), rd_renamed = True, rd_removed = True,
     rd_encode = \<lambda>_. Inl [], rd_columns = [''a''], rd_stamp = ''now''\<rparr>"

definition example_selected :: selected where
  "example_selected = \<lparr>sel_rows = [[TextV ''x'']], sel_error = None, sel_limit = 0,
     sel_decision = \<lparr>Effect = Allow, PolicyID = [], Reason = [], Risk = Low\<rparr>\<rparr>"

definition example_schedule_world :: "scheduledEnvelope schedule_world" where
  "example_schedule_world = \<lparr>sw_zones = example_zones, sw_encode = (\<lambda>_. ''spec''), sw_decode = (\<lambda>_. Some mondays),
     sw_vault = True, sw_seal = Some, sw_unseal = Inr, sw_outputRoot = ''/results'', sw_dbPath = ''/db'',
     sw_home = Some ''/home'', sw_user = (\<lambda>_. Some (plain_identity, ''active'')),
     sw_connection = (\<lambda>_. Some plain_connection), sw_advanced = (\<lambda>_. True)\<rparr>"

lemma example_written:
  "fst (writeScheduledResult ascii_tables example_disk example_query (\<lambda>r. r) example_selected (\<lambda>_. None))
     = (1, ''/out/n_now.csv'', None)"
  "fst (writeScheduledResult ascii_tables (example_disk\<lparr>rd_closed := False\<rparr>) example_query (\<lambda>r. r)
     example_selected (\<lambda>_. None)) = (1, [], Some ''close'')"
  by code_simp+


text \<open>
  The name of a result is the query's name and the second. Two queries of one name and folder
  that finish within a second get one file: the second result replaces the first, and both runs
  are recorded as successes with its path.
\<close>

lemma same_second_overwrites:
  assumes "writeScheduledResult u disk a tr sel fs = ((n, path, None), fs1)"
    and "writeScheduledResult u disk b tr sel' fs1 = ((m, path', None), fs2)"
    and "sq_Name a = sq_Name b" "sq_OutputDir a = sq_OutputDir b" "sq_OutputFormat a = sq_OutputFormat b"
  shows "path' = path \<and> fs2 path = Some (wr_text (writeRows u (rd_encode disk) (rd_write disk) (sq_OutputFormat b) []
      ''exported_rows'' (rd_columns disk) tr (sel_limit sel') (sel_rows sel') (sel_error sel')))"
  using assms by (auto simp: writeScheduledResult_def result_path_def Let_def split: if_splits option.splits)

subsection \<open>Downloads\<close>

text \<open>A download stays in the query's folder. A result that is served is a run's of the caller's own
  query, and the file that is opened lies at or below the query's folder, whatever path the run
  has recorded.\<close>

lemma download_stays_in_folder:
  assumes "scheduledRunFile identity i runID st fs = Inr (name, path, content)"
  shows "\<exists>item r. item \<in> set (st_queries st) \<and> sq_ID item = i \<and> sq_UserID item = UserID identity
    \<and> r \<in> set (st_runs st) \<and> sr_QueryID r = i \<and> sr_ID r = runID \<and> fs path = Some content
    \<and> (IsAbs (sq_OutputDir item) \<longrightarrow> prefix (path_elements (sq_OutputDir item)) (path_elements path))"
proof -
  obtain item where item: "find_query i (UserID identity) st = Some item"
    using assms by (auto simp: scheduledRunFile_def Let_def split: option.splits)
  obtain r where r: "find (has_result runID) (ListScheduledRuns (sq_ID item) 50 st) = Some r"
    using assms item by (auto simp: scheduledRunFile_def Let_def split: option.splits)
  let ?path = "Clean (the (sr_OutputPath r))"
  have inside: "\<not> leaves_folder (Clean (sq_OutputDir item)) ?path" and path: "path = ?path" "fs path = Some content"
    using assms item r by (auto simp: scheduledRunFile_def Let_def split: option.splits if_splits)
  from found_member [OF item [unfolded find_query_def]] have own: "item \<in> set (st_queries st)" "sq_ID item = i"
    "sq_UserID item = UserID identity" by auto
  from found_member [OF r] have run: "r \<in> set (st_runs st)" "sr_QueryID r = i" "sr_ID r = runID"
    using own(2) by (auto simp: ListScheduledRuns_def has_result_def dest!: in_set_takeD)
  have "prefix (path_elements (sq_OutputDir item)) (path_elements path)" if abs: "IsAbs (sq_OutputDir item)"
  proof -
    note dir = Clean_elements [OF abs]
    have "IsAbs ?path"
      using inside dir(1) by (rule_tac ccontr) (auto simp: leaves_folder_def Rel_def split: if_splits dest: arg_cong [of _ _ IsAbs])
    from inside_folder [OF dir(1) this inside] show ?thesis by (simp add: dir(2) path(1))
  qed
  with own run path(2) show ?thesis by blast
qed

lemma slug_loop_chars: "c \<in> set (slug_loop dash started s) \<Longrightarrow> is_lower c \<or> is_digit c \<or> c = CHR ''-''"
  by (induction dash started s rule: slug_loop.induct) (auto split: if_splits)

lemma fileSlug_chars: "c \<in> set (fileSlug u name) \<Longrightarrow> is_lower c \<or> is_digit c \<or> c = CHR ''-''"
proof -
  have trim: "c \<in> set (trim_dashes s) \<Longrightarrow> c \<in> set s" for s
    by (auto simp: trim_dashes_def dest!: set_dropWhileD)
  assume "c \<in> set (fileSlug u name)"
  then have "c \<in> set ''query'' \<or> c \<in> set (slug_loop False False (to_lower u name))"
    by (auto simp: fileSlug_def Let_def dest!: trim in_set_takeD split: if_splits)
  then show ?thesis
  proof
    assume "c \<in> set ''query''"
    then show ?thesis by (auto simp: is_lower_def byte_in_def byte_def)
  qed (rule slug_loop_chars)
qed

lemma result_name:
  fixes u :: unicode
  assumes "CHR ''/'' \<notin> set (rd_stamp disk)" and "sq_OutputFormat item \<in> {''csv'', ''json''}"
  defines "name \<equiv> fileSlug u (sq_Name item) @ ''_'' @ rd_stamp disk @ ''.'' @ sq_OutputFormat item"
  shows "plain_element name" and "CHR ''/'' \<notin> set name"
proof -
  have "CHR ''/'' \<notin> set (fileSlug u (sq_Name item))"
    using fileSlug_chars [of "CHR ''/''" u "sq_Name item"]
    by (auto simp: is_lower_def is_digit_def byte_in_def byte_def)
  then show "CHR ''/'' \<notin> set name" using assms(1,2) by (auto simp: name_def)
  have "CHR ''_'' \<in> set name" by (simp add: name_def)
  then show "plain_element name" by (auto simp: plain_element_def)
qed

text \<open>A result that was written can be downloaded. The file of a run of the caller's own query,
  in the absolute folder the query was saved with, is served for that run as it was written.\<close>

lemma result_can_be_downloaded:
  assumes "writeScheduledResult u disk item tr sel fs = ((rows, path, None), fs')"
    and "find_query i (UserID identity) st = Some item" and "sr_OutputPath r = Some path"
    and "find (has_result runID) (ListScheduledRuns (sq_ID item) 50 st) = Some r"
    and "IsAbs (sq_OutputDir item)" and "CHR ''/'' \<notin> set (rd_stamp disk)"
    and "sq_OutputFormat item \<in> {''csv'', ''json''}"
  shows "\<exists>name. scheduledRunFile identity i runID st fs' = Inr (name, path,
      wr_text (writeRows u (rd_encode disk) (rd_write disk) (sq_OutputFormat item) [] ''exported_rows''
        (rd_columns disk) tr (sel_limit sel) (sel_rows sel) (sel_error sel)))"
proof -
  let ?name = "fileSlug u (sq_Name item) @ ''_'' @ rd_stamp disk @ ''.'' @ sq_OutputFormat item"
  have path: "path = Join [sq_OutputDir item, ?name]"
    and content: "fs' path = Some (wr_text (writeRows u (rd_encode disk) (rd_write disk) (sq_OutputFormat item) []
      ''exported_rows'' (rd_columns disk) tr (sel_limit sel) (sel_rows sel) (sel_error sel)))"
    using assms(1) by (auto simp: writeScheduledResult_def result_path_def Let_def split: if_splits option.splits)
  note name = result_name [OF assms(6,7), of u]
  note join = Join_elements [OF assms(5) name, folded path]
  have "\<not> leaves_folder (Clean (sq_OutputDir item)) path"
    using below_folder_stays [of "Clean (sq_OutputDir item)" path "[?name]"] assms(5) name(1)
    by (simp add: join Clean_elements [OF assms(5)])
  with assms(2-4) show ?thesis by (simp add: scheduledRunFile_def Let_def join(3) content)
qed

subsection \<open>What is saved\<close>

text \<open>A schedule that is saved can run. When a new schedule is accepted, the record that is stored is
  the caller's, its sealed text opens as the text that was given, which is one SELECT, on a
  connection the caller may use; its folder is a full path, the caller's own one on a shared
  server, and if it is enabled its next run lies in the future.\<close>

lemma saved_schedule_can_run:
  assumes "saveScheduled s w identity now stamp fresh (Some raw) None st c = ((Answer 201, st'), c')"
    and "\<forall>e x. sw_seal w e = Some x \<longrightarrow> sw_unseal w x = Inr e"
  shows "\<exists>item info c1 connection. st_queries st' = st_queries st @ [item] \<and> sq_UserID item = UserID identity
      \<and> openScheduledSQL w item = Inr (trim_space (si_SQL raw))
      \<and> ParseDialect (srv_tables s) DialectGeneric (trim_space (si_SQL raw)) c = ((info, None), c1)
      \<and> Kind info = Select \<and> \<not> IsScript info
      \<and> sw_connection w (sq_ConnectionID item) = Some connection
      \<and> canUseConnection (srv_access s) identity connection
      \<and> IsAbs (sq_OutputDir item) \<and> sq_OutputFormat item \<in> {''csv'', ''json''}
      \<and> (srv_shared s \<longrightarrow> sq_OutputDir item = Clean (userOutputDir w (UserID identity)))
      \<and> (if sq_Enabled item then \<exists>t. sq_NextRunAt item = Some t \<and> now < t * second
         else sq_NextRunAt item = None)"
proof -
  let ?t = "trim_scheduled (srv_tables s) raw"
  note run = assms(1) [unfolded saveScheduled_def Let_def]
  obtain res c1 where 1: "validateScheduled s w identity raw c = (res, c1)" by fastforce
  obtain i where 2: "res = Inr i" using run by (cases res) (auto simp: 1)
  obtain next_at where 3: "nextRunString w (si_Schedule i) (si_Enabled i) now = Inr next_at"
    using run by (cases "nextRunString w (si_Schedule i) (si_Enabled i) now") (auto simp: 1 2)
  obtain sealed where 4: "sealScheduledSQL w fresh (UserID identity) (si_SQL i) = Some sealed"
    using run by (cases "sealScheduledSQL w fresh (UserID identity) (si_SQL i)") (auto simp: 1 2 3)
  let ?item = "scheduled_item w identity fresh stamp None i next_at sealed"
  have stored: "CreateScheduledQuery ?item st = (None, st')"
    using run by (auto simp: 1 2 3 4 split: option.splits prod.splits elim!: writeStoreError.elims)
  note valid = 1 [unfolded 2 validateScheduled_def Let_def]
  obtain info err c2 where 5: "ParseDialect (srv_tables s) DialectGeneric (si_SQL ?t) c = ((info, err), c2)"
    by (metis surj_pair)
  have 6: "err = None" using valid by (cases err) (auto simp: 5 split: if_splits)
  have 7: "Kind info = Select" "\<not> IsScript info" using valid by (auto simp: 5 6 split: if_splits)
  obtain dir format where 8: "check_scheduled s w identity ?t = Inr (dir, format)"
    using valid by (cases "check_scheduled s w identity ?t") (auto simp: 5 6 7 split: if_splits)
  have i: "i = ?t\<lparr>si_OutputDir := dir, si_Format := format\<rparr>"
    using valid by (auto simp: 5 6 7 8 split: if_splits)
  have sql: "si_SQL ?t = trim_space (si_SQL raw)" by (simp add: trim_scheduled_def)
  obtain connection where conn: "sw_connection w (si_ConnectionID ?t) = Some connection"
      "canUseConnection (srv_access s) identity connection"
    and dir: "IsAbs dir" "format \<in> {''csv'', ''json''}"
      "dir = Clean (output_dir s w identity (si_OutputDir ?t))"
    using 8 by (auto simp: check_scheduled_def Let_def split: option.splits if_splits)
  have opened: "openScheduledSQL w ?item = Inr (trim_space (si_SQL raw))"
    using 4 assms(2) by (auto simp: openScheduledSQL_def sealScheduledSQL_def scheduled_item_def i sql split: if_splits)
  have "if si_Enabled i then \<exists>t. next_at = Some t \<and> now < t * second else next_at = None"
    using 3 by (auto simp: nextRunString_def dest!: next_run_later split: if_splits sum.splits)
  moreover have "st_queries st' = st_queries st @ [?item]"
    using stored by (auto simp: CreateScheduledQuery_def split: if_splits)
  ultimately show ?thesis using opened 5 6 7 conn dir
    by (intro exI [of _ ?item] exI [of _ info] exI [of _ c2] exI [of _ connection])
      (auto simp: scheduled_item_def i sql output_dir_def)
qed

subsection \<open>What the tables hold\<close>

definition well_formed_query :: "'s schedule_world \<Rightarrow> 's ScheduledQuery \<Rightarrow> bool" where
  "well_formed_query w q \<longleftrightarrow> sq_Name q \<noteq> [] \<and> length (sq_Name q) \<le> 120 \<and> IsAbs (sq_OutputDir q)
     \<and> sq_OutputFormat q \<in> {''csv'', ''json''} \<and> (sq_Enabled q \<longrightarrow> sq_NextRunAt q \<noteq> None)
     \<and> (\<exists>sql. openScheduledSQL w q = Inr sql)"

definition run_count :: "string \<Rightarrow> 's schedule_store \<Rightarrow> nat" where
  "run_count i st = length (filter (\<lambda>r. sr_QueryID r = i) (st_runs st))"

definition finished_count :: "string \<Rightarrow> 's schedule_store \<Rightarrow> nat" where
  "finished_count i st = length (filter (\<lambda>r. sr_QueryID r = i \<and> sr_FinishedAt r \<noteq> None) (st_runs st))"

definition well_formed_runs :: "'s schedule_store \<Rightarrow> bool" where
  "well_formed_runs st \<longleftrightarrow>
     distinct (map sr_ID (st_runs st)) \<and> set (map sr_QueryID (st_runs st)) \<subseteq> set (map sq_ID (st_queries st))
     \<and> (\<forall>i. finished_count i st \<le> runsKept)"

definition well_formed_store :: "'s schedule_world \<Rightarrow> 's schedule_store \<Rightarrow> bool" where
  "well_formed_store w st \<longleftrightarrow> distinct (map sq_ID (st_queries st)) \<and> list_all (well_formed_query w) (st_queries st)
     \<and> well_formed_runs st"

text \<open>
  The run a task has inserted, seen from the tables: only rows of its query have its identifier,
  and once the older runs are deleted the query has at most a hundred.
\<close>

definition task_ok :: "'s schedule_store \<Rightarrow> 's run_task \<Rightarrow> bool" where
  "task_ok st task \<longleftrightarrow>
     (case tk_run task of
        None \<Rightarrow> \<not> tk_kept task
      | Some r \<Rightarrow> (\<forall>x \<in> set (st_runs st). sr_ID x = sr_ID r \<longrightarrow> sr_QueryID x = task_query task)
          \<and> (tk_kept task \<longrightarrow> run_count (task_query task) st \<le> runsKept))"

definition scheduler_ok :: "'s schedule_world \<Rightarrow> 's scheduler \<Rightarrow> bool" where
  "scheduler_ok w st \<longleftrightarrow> well_formed_store w (sc_store st) \<and> one_run_each st
     \<and> (\<forall>task \<in> set (sc_tasks st). task_ok (sc_store st) task)"

definition seals :: "'s schedule_world \<Rightarrow> bool" where
  "seals w \<longleftrightarrow> (\<forall>e x. sw_seal w e = Some x \<longrightarrow> sw_unseal w x = Inr e)"

lemma validated_input:
  assumes "validateScheduled s w identity raw c = (Inr i, c')"
  shows "si_Name i \<noteq> [] \<and> length (si_Name i) \<le> 120 \<and> IsAbs (si_OutputDir i) \<and> si_Format i \<in> {''csv'', ''json''}"
proof -
  let ?t = "trim_scheduled (srv_tables s) raw"
  note valid = assms [unfolded validateScheduled_def Let_def]
  have name: "\<not> (si_Name ?t = [] \<or> 120 < length (si_Name ?t))" "\<not> (si_SQL ?t = [] \<or> scheduledSQLLimit < length (si_SQL ?t))"
    using valid by (simp_all split: if_splits)
  obtain info err c2 where 1: "ParseDialect (srv_tables s) DialectGeneric (si_SQL ?t) c = ((info, err), c2)"
    by (metis surj_pair)
  have 2: "err = None" "\<not> (Kind info \<noteq> Select \<or> IsScript info)"
    using valid name by (cases err; simp add: 1 split: if_splits)+
  obtain dir format where 3: "check_scheduled s w identity ?t = Inr (dir, format)"
    using valid name 2 by (cases "check_scheduled s w identity ?t") (auto simp: 1)
  have i: "i = ?t\<lparr>si_OutputDir := dir, si_Format := format\<rparr>" using valid name 2 by (simp add: 1 3)
  have "IsAbs dir \<and> format \<in> {''csv'', ''json''}"
    using 3 by (auto simp: check_scheduled_def Let_def split: option.splits if_splits)
  with name i show ?thesis by simp
qed

lemma saved_item:
  assumes "seals w" and "validateScheduled s w identity raw c = (Inr i, c')"
    and "nextRunString w (si_Schedule i) (si_Enabled i) now = Inr next_at"
    and "sealScheduledSQL w (case existing of None \<Rightarrow> fresh | Some q \<Rightarrow> sq_ID q) (UserID identity) (si_SQL i) = Some sealed"
  shows "well_formed_query w (scheduled_item w identity fresh stamp existing i next_at sealed)"
  using validated_input [OF assms(2)] assms(1,3,4)
  by (auto simp: well_formed_query_def scheduled_item_def nextRunString_def openScheduledSQL_def sealScheduledSQL_def
      seals_def split: if_splits sum.splits)

lemma updated_fields [simp]:
  "sq_ID (updated_query item q) = sq_ID q" "sq_UserID (updated_query item q) = sq_UserID q"
  "sq_Sealed (updated_query item q) = sq_Sealed item" "sq_Name (updated_query item q) = sq_Name item"
  "sq_OutputDir (updated_query item q) = sq_OutputDir item" "sq_OutputFormat (updated_query item q) = sq_OutputFormat item"
  "sq_Enabled (updated_query item q) = sq_Enabled item" "sq_NextRunAt (updated_query item q) = sq_NextRunAt item"
  by (simp_all add: updated_query_def)

lemma open_updated:
  "sq_ID q = sq_ID item \<Longrightarrow> sq_UserID q = sq_UserID item \<Longrightarrow>
     openScheduledSQL w (updated_query item q) = openScheduledSQL w item"
  by (simp add: openScheduledSQL_def cong: sum.case_cong)

lemma well_formed_updated:
  assumes "well_formed_query w item" and "sq_ID q = sq_ID item" and "sq_UserID q = sq_UserID item"
  shows "well_formed_query w (updated_query item q)"
  using assms by (simp add: well_formed_query_def open_updated)

lemma well_formed_runs_same:
  assumes "well_formed_runs st" and "st_runs st' = st_runs st"
    and "sq_ID ` set (st_queries st) \<subseteq> sq_ID ` set (st_queries st')"
  shows "well_formed_runs st'"
proof -
  have "set (map sr_QueryID (st_runs st')) \<subseteq> set (map sq_ID (st_queries st'))"
    using assms by (auto simp: well_formed_runs_def dest!: subsetD)
  with assms(1,2) show ?thesis by (simp add: well_formed_runs_def finished_count_def)
qed

lemma well_formed_queries:
  assumes "well_formed_store w st" and "map sq_ID qs = map sq_ID (st_queries st)" and "list_all (well_formed_query w) qs"
  shows "well_formed_store w (st\<lparr>st_queries := qs\<rparr>)"
proof -
  have "sq_ID ` set qs = sq_ID ` set (st_queries st)" using arg_cong [OF assms(2), of set] by simp
  then have "well_formed_runs (st\<lparr>st_queries := qs\<rparr>)"
    using assms(1) by (rule_tac well_formed_runs_same [where st = st]) (simp_all add: well_formed_store_def)
  with assms show ?thesis by (simp add: well_formed_store_def)
qed

lemma well_formed_create:
  assumes "well_formed_store w st" and "well_formed_query w item"
  shows "well_formed_store w (snd (CreateScheduledQuery item st))"
proof -
  have "sq_ID ` set (st_queries st) \<subseteq> sq_ID ` set (st_queries (st\<lparr>st_queries := st_queries st @ [item]\<rparr>))" by auto
  with assms(1) have "well_formed_runs (st\<lparr>st_queries := st_queries st @ [item]\<rparr>)"
    by (rule_tac well_formed_runs_same [where st = st]) (simp_all add: well_formed_store_def)
  with assms show ?thesis by (auto simp: well_formed_store_def CreateScheduledQuery_def list_ex_iff)
qed

lemma well_formed_update:
  assumes "well_formed_store w st" and "well_formed_query w item"
  shows "well_formed_store w (snd (UpdateScheduledQuery item st))"
proof -
  let ?mine = "\<lambda>q. sq_ID q = sq_ID item \<and> sq_UserID q = sq_UserID item"
  let ?qs = "map (\<lambda>q. if ?mine q then updated_query item q else q) (st_queries st)"
  have ids: "map sq_ID ?qs = map sq_ID (st_queries st)" by simp
  have "list_all (well_formed_query w) ?qs"
    using assms well_formed_updated [OF assms(2)] by (auto simp: well_formed_store_def list_all_iff)
  from well_formed_queries [OF assms(1) ids this] assms(1) show ?thesis
    by (simp add: UpdateScheduledQuery_def Let_def)
qed

text \<open>A request that saves.\<close>

lemma saveScheduled_store:
  assumes "saveScheduled s w identity now stamp fresh decoded existing st c = ((answer, st'), c')"
  obtains "st' = st"
  | i next_at sealed raw c1 where
      "validateScheduled s w identity raw c = (Inr i, c1)" "nextRunString w (si_Schedule i) (si_Enabled i) now = Inr next_at"
      "sealScheduledSQL w (case existing of None \<Rightarrow> fresh | Some q \<Rightarrow> sq_ID q) (UserID identity) (si_SQL i) = Some sealed"
      "st' = snd ((if existing = None then CreateScheduledQuery else UpdateScheduledQuery)
         (scheduled_item w identity fresh stamp existing i next_at sealed) st)"
proof (cases decoded)
  case None
  with assms show ?thesis by (intro that(1)) (simp add: saveScheduled_def)
next
  case (Some raw)
  obtain res c1 where 1: "validateScheduled s w identity raw c = (res, c1)" by fastforce
  show ?thesis
  proof (cases res)
    case (Inl e)
    with assms Some 1 show ?thesis by (intro that(1)) (simp add: saveScheduled_def)
  next
    case (Inr i)
    show ?thesis
    proof (cases "nextRunString w (si_Schedule i) (si_Enabled i) now")
      case (Inl e)
      with assms Some 1 Inr show ?thesis by (intro that(1)) (simp add: saveScheduled_def)
    next
      case next_at: (Inr next_at)
      let ?seal = "sealScheduledSQL w (case existing of None \<Rightarrow> fresh | Some q \<Rightarrow> sq_ID q) (UserID identity) (si_SQL i)"
      show ?thesis
      proof (cases ?seal)
        case None
        with assms Some 1 Inr next_at show ?thesis by (intro that(1)) (simp add: saveScheduled_def Let_def)
      next
        case sealed: (Some sealed)
        show ?thesis
        proof (rule that(2) [OF 1 [unfolded Inr] next_at sealed])
          show "st' = snd ((if existing = None then CreateScheduledQuery else UpdateScheduledQuery)
              (scheduled_item w identity fresh stamp existing i next_at sealed) st)"
            using assms Some 1 Inr next_at sealed
            by (cases "existing = None") (auto simp: saveScheduled_def Let_def case_prod_beta)
        qed
      qed
    qed
  qed
qed

lemma well_formed_save:
  assumes "saveScheduled s w identity now stamp fresh decoded existing st c = ((answer, st'), c')"
    and "well_formed_store w st" and "seals w"
  shows "well_formed_store w st'"
  using assms(1)
proof (cases rule: saveScheduled_store)
  case (2 i next_at sealed raw c1)
  from saved_item [OF assms(3) 2(1-3)] assms(2) 2(4) show ?thesis
    by (cases "existing = None") (auto intro: well_formed_create well_formed_update)
qed (simp add: assms(2))

lemma filter_twice_le: "length (filter P (filter Q xs)) \<le> length (filter P xs)"
  by (induction xs) auto

lemma filter_conj_le: "length (filter (\<lambda>x. P x \<and> Q x) xs) \<le> length (filter P xs)"
  by (induction xs) auto

lemma filter_map_same:
  "(\<And>x. x \<in> set xs \<Longrightarrow> f x = x \<or> \<not> P x \<and> \<not> P (f x)) \<Longrightarrow> filter P (map f xs) = filter P xs"
  by (induction xs) (simp_all, metis)

lemma save_keeps_runs:
  "saveScheduled s w identity now stamp fresh decoded existing st c = ((answer, st'), c') \<Longrightarrow> st_runs st' = st_runs st"
  by (erule saveScheduled_store)
    (auto simp: CreateScheduledQuery_def UpdateScheduledQuery_def Let_def split: if_splits)

text \<open>What the tables of runs keep when rows go or change in other fields.\<close>

definition run_keys :: "'s schedule_store \<Rightarrow> (string \<times> string) list" where
  "run_keys st = map (\<lambda>r. (sr_ID r, sr_QueryID r)) (st_runs st)"

lemma run_count_keys: "run_count i st = length (filter (\<lambda>k. snd k = i) (run_keys st))"
  by (simp add: run_count_def run_keys_def filter_map o_def)

lemma task_ok_keys:
  assumes "subseq (run_keys st') (run_keys st)" and "task_ok st task"
  shows "task_ok st' task"
proof -
  have "run_count i st' \<le> run_count i st" for i
    unfolding run_count_keys by (rule list_emb_length [OF subseq_filter [OF assms(1)]])
  moreover have "set (run_keys st') \<subseteq> set (run_keys st)"
    using assms(1) by (auto dest: list_emb_set)
  then have "\<exists>y \<in> set (st_runs st). sr_ID y = sr_ID x \<and> sr_QueryID y = sr_QueryID x" if "x \<in> set (st_runs st')" for x
    using that by (fastforce simp: run_keys_def)
  ultimately show ?thesis
    using assms(2) unfolding task_ok_def by (fastforce split: option.splits intro: le_trans)
qed

lemma run_keys_same: "st_runs st' = st_runs st \<Longrightarrow> subseq (run_keys st') (run_keys st)"
  by (simp add: run_keys_def)

lemma run_keys_filter: "st_runs st' = filter P (st_runs st) \<Longrightarrow> subseq (run_keys st') (run_keys st)"
  by (simp add: run_keys_def subseq_map)

lemma run_keys_finish: "run_keys (FinishScheduledRun r st) = run_keys st"
  by (simp add: run_keys_def FinishScheduledRun_def)

lemma well_formed_runs_filter:
  assumes "well_formed_runs st" and "st_runs st' = filter P (st_runs st)"
    and "sr_QueryID ` set (st_runs st') \<subseteq> sq_ID ` set (st_queries st')"
  shows "well_formed_runs st'"
proof -
  have "finished_count i st' \<le> finished_count i st" for i
    unfolding finished_count_def assms(2) by (rule filter_twice_le)
  then have "finished_count i st' \<le> runsKept" for i
    using assms(1) unfolding well_formed_runs_def by (meson le_trans)
  with assms show ?thesis by (simp add: well_formed_runs_def distinct_map_filter)
qed

lemma well_formed_delete:
  assumes "well_formed_store w st"
  shows "well_formed_store w (snd (deleteScheduled identity i st))
    \<and> subseq (run_keys (snd (deleteScheduled identity i st))) (run_keys st)"
proof (cases "find_query i (UserID identity) st")
  case None
  then show ?thesis using assms by (simp add: deleteScheduled_def DeleteScheduledQuery_def)
next
  case (Some item)
  let ?keep = "\<lambda>q. \<not> (sq_ID q = i \<and> sq_UserID q = UserID identity)"
  let ?st = "st\<lparr>st_queries := filter ?keep (st_queries st), st_runs := filter (\<lambda>r. sr_QueryID r \<noteq> i) (st_runs st)\<rparr>"
  have "sr_QueryID ` set (st_runs ?st) \<subseteq> sq_ID ` set (st_queries ?st)"
  proof
    fix j assume "j \<in> sr_QueryID ` set (st_runs ?st)"
    then have "j \<in> set (map sr_QueryID (st_runs st))" and "j \<noteq> i" by auto
    with assms have "j \<in> set (map sq_ID (st_queries st))"
      unfolding well_formed_store_def well_formed_runs_def by blast
    with \<open>j \<noteq> i\<close> show "j \<in> sq_ID ` set (st_queries ?st)" by auto
  qed
  with assms have "well_formed_runs ?st"
    by (rule_tac well_formed_runs_filter [of st]) (simp_all add: well_formed_store_def)
  with assms have "well_formed_store w ?st"
    by (simp add: well_formed_store_def distinct_map_filter list_all_iff)
  moreover have "subseq (run_keys ?st) (run_keys st)" by (rule run_keys_filter) simp
  ultimately show ?thesis using Some by (simp add: deleteScheduled_def DeleteScheduledQuery_def)
qed

lemma well_formed_trim:
  assumes "well_formed_store w st"
  shows "well_formed_store w (trim_runs i st)" and "subseq (run_keys (trim_runs i st)) (run_keys st)"
    and "run_count i (trim_runs i st) \<le> runsKept"
proof -
  let ?kept = "map sr_ID (ListScheduledRuns i runsKept st)"
  have runs: "st_runs (trim_runs i st) = filter (\<lambda>x. sr_QueryID x \<noteq> i \<or> sr_ID x \<in> set ?kept) (st_runs st)"
    and queries: "st_queries (trim_runs i st) = st_queries st"
    by (simp_all add: trim_runs_def Let_def)
  have "well_formed_runs (trim_runs i st)"
    using assms by (rule_tac well_formed_runs_filter [OF _ runs])
      (auto simp: well_formed_store_def well_formed_runs_def queries runs)
  with assms show "well_formed_store w (trim_runs i st)" by (simp add: well_formed_store_def queries)
  show "subseq (run_keys (trim_runs i st)) (run_keys st)" by (rule run_keys_filter [OF runs])
  let ?mine = "filter (\<lambda>r. sr_QueryID r = i) (st_runs (trim_runs i st))"
  have "distinct (map sr_ID ?mine)"
    using assms by (auto simp: runs well_formed_store_def well_formed_runs_def intro!: distinct_map_filter)
  then have "length ?mine = card (set (map sr_ID ?mine))" by (simp only: distinct_card length_map)
  also have "\<dots> \<le> card (set ?kept)" by (intro card_mono) (auto simp: runs)
  also have "\<dots> \<le> length ?kept" by (rule card_length)
  also have "\<dots> \<le> runsKept" by (simp add: ListScheduledRuns_def)
  finally show "run_count i (trim_runs i st) \<le> runsKept" by (simp add: run_count_def)
qed

lemma well_formed_inserted:
  assumes "well_formed_store w st" and "insert_run r st = (None, st')" and "sr_FinishedAt r = None"
  shows "well_formed_store w st'" and "st_runs st' = st_runs st @ [r]" and "sr_ID r \<notin> sr_ID ` set (st_runs st)"
proof -
  from assms(2) have st': "st' = st\<lparr>st_runs := st_runs st @ [r]\<rparr>"
    and new: "\<not> list_ex (\<lambda>x. sr_ID x = sr_ID r) (st_runs st)" and known: "list_ex (\<lambda>q. sq_ID q = sr_QueryID r) (st_queries st)"
    by (auto simp: insert_run_def split: if_splits)
  have "sr_QueryID r \<in> sq_ID ` set (st_queries st)" using known by (auto simp: list_ex_iff intro: rev_image_eqI)
  with assms(1,3) new have "well_formed_runs st'"
    by (auto simp: well_formed_store_def well_formed_runs_def st' list_ex_iff finished_count_def)
  with assms(1) show "well_formed_store w st'" by (simp add: well_formed_store_def st')
  show "st_runs st' = st_runs st @ [r]" by (simp add: st')
  show "sr_ID r \<notin> sr_ID ` set (st_runs st)" using new by (auto simp: list_ex_iff)
qed

text \<open>A run that finishes is one of at most a hundred of its query.\<close>

lemma well_formed_finished:
  assumes "well_formed_store w st" and "run_count i st \<le> runsKept"
    and "\<And>x. x \<in> set (st_runs st) \<Longrightarrow> sr_ID x = sr_ID r \<Longrightarrow> sr_QueryID x = i"
  shows "well_formed_store w (FinishScheduledRun r st)"
proof -
  let ?f = "\<lambda>x. if sr_ID x = sr_ID r
          then x\<lparr>sr_FinishedAt := sr_FinishedAt r, sr_Status := sr_Status r, sr_Rows := sr_Rows r,
                 sr_OutputPath := sr_OutputPath r, sr_Error := sr_Error r\<rparr> else x"
  have runs: "st_runs (FinishScheduledRun r st) = map ?f (st_runs st)"
    and queries: "st_queries (FinishScheduledRun r st) = st_queries st" by (simp_all add: FinishScheduledRun_def)
  have ids: "map sr_ID (map ?f (st_runs st)) = map sr_ID (st_runs st)"
    "map sr_QueryID (map ?f (st_runs st)) = map sr_QueryID (st_runs st)" by simp_all
  have "finished_count j (FinishScheduledRun r st) \<le> runsKept" for j
  proof (cases "j = i")
    case True
    have "finished_count j (FinishScheduledRun r st) \<le> run_count j (FinishScheduledRun r st)"
      unfolding finished_count_def run_count_def by (rule filter_conj_le)
    also have "\<dots> = run_count j st" by (simp only: run_count_keys run_keys_finish)
    finally show ?thesis using assms(2) True by simp
  next
    case False
    have "filter (\<lambda>x. sr_QueryID x = j \<and> sr_FinishedAt x \<noteq> None) (map ?f (st_runs st))
        = filter (\<lambda>x. sr_QueryID x = j \<and> sr_FinishedAt x \<noteq> None) (st_runs st)"
      using assms(3) False by (intro filter_map_same) auto
    then have "finished_count j (FinishScheduledRun r st) = finished_count j st"
      unfolding finished_count_def runs by (rule arg_cong)
    with assms(1) show ?thesis by (simp add: well_formed_store_def well_formed_runs_def)
  qed
  with assms(1) show ?thesis
    unfolding well_formed_store_def well_formed_runs_def runs queries ids by simp
qed

subsection \<open>The tables over all runs of the scheduler\<close>

lemma scheduler_ok_fields [simp]:
  "scheduler_ok w (st\<lparr>sc_stopped := b\<rparr>) = scheduler_ok w st"
  "scheduler_ok w (st\<lparr>sc_now := n\<rparr>) = scheduler_ok w st"
  "scheduler_ok w (st\<lparr>sc_pending := p\<rparr>) = scheduler_ok w st"
  by (simp_all add: scheduler_ok_def)

lemma scheduler_ok_store:
  assumes "scheduler_ok w st" and "well_formed_store w store" and "subseq (run_keys store) (run_keys (sc_store st))"
  shows "scheduler_ok w (st\<lparr>sc_store := store\<rparr>)"
  using assms task_ok_keys [OF assms(3)] by (simp add: scheduler_ok_def)

lemma scheduler_ok_end:
  assumes "scheduler_ok w st" and "k < length (sc_tasks st)"
  shows "scheduler_ok w (end_task k st)"
proof -
  have "set (take k (sc_tasks st) @ drop (Suc k) (sc_tasks st)) \<subseteq> set (sc_tasks st)"
    by (auto dest: in_set_takeD in_set_dropD)
  with assms end_task_one_run show ?thesis by (auto simp: scheduler_ok_def end_task_def)
qed

lemma scheduler_ok_started:
  assumes "scheduler_ok w st"
  shows "scheduler_ok w (snd (startScheduled item trigger st))"
proof (cases "sq_ID item \<in> sc_running st \<or> sc_stopped st")
  case True
  with assms show ?thesis by (simp add: startScheduled_def)
next
  case False
  have "one_run_each (snd (startScheduled item trigger st))"
    using assms startScheduled_one_run [of st] by (simp add: scheduler_ok_def)
  with assms False show ?thesis by (simp add: scheduler_ok_def startScheduled_def task_ok_def)
qed

lemma open_advanced [simp]: "openScheduledSQL w (q\<lparr>sq_NextRunAt := t\<rparr>) = openScheduledSQL w q"
  by (simp add: openScheduledSQL_def cong: sum.case_cong)

lemma well_formed_advanced:
  assumes "well_formed_store w st"
  shows "well_formed_store w (SetScheduledNextRun i (Some t) st)"
proof -
  let ?qs = "map (\<lambda>q. if sq_ID q = i then q\<lparr>sq_NextRunAt := Some t\<rparr> else q) (st_queries st)"
  have "list_all (well_formed_query w) ?qs"
    using assms by (auto simp: well_formed_store_def list_all_iff well_formed_query_def)
  moreover have "map sq_ID ?qs = map sq_ID (st_queries st)" by simp
  ultimately show ?thesis using well_formed_queries [OF assms] by (simp add: SetScheduledNextRun_def)
qed

lemma scheduler_ok_tick:
  assumes "scheduler_ok w st"
  shows "scheduler_ok w (snd (tick_action v now action st))"
proof (cases action)
  case (Advance item)
  have "scheduler_ok w (st\<lparr>sc_store := SetScheduledNextRun i (Some t) (sc_store st)\<rparr>)" for i t
    using assms by (intro scheduler_ok_store run_keys_same well_formed_advanced)
      (simp_all add: scheduler_ok_def SetScheduledNextRun_def)
  with assms Advance show ?thesis by (auto split: option.splits sum.splits dest!: nextRunString_some)
next
  case (StartDue item)
  with scheduler_ok_started [OF assms] show ?thesis by simp
qed

text \<open>Another task than the k-th is of another query.\<close>

lemma other_task:
  assumes "one_run_each st" and "k < length (sc_tasks st)" and "task \<in> set ((sc_tasks st)[k := new])" and "task \<noteq> new"
  shows "task \<in> set (sc_tasks st) \<and> task_query task \<noteq> task_query (sc_tasks st ! k)"
proof -
  from assms(3) obtain j where j: "j < length (sc_tasks st)" "task = (sc_tasks st)[k := new] ! j"
    by (auto simp: in_set_conv_nth)
  with assms(4) have "j \<noteq> k" by auto
  with j have j: "j < length (sc_tasks st)" "j \<noteq> k" "task = sc_tasks st ! j" by simp_all
  with assms(1,2) show ?thesis by (auto simp: one_run_each_def distinct_conv_nth)
qed

lemma scheduler_ok_begin:
  assumes ok: "scheduler_ok w st" and k: "k < length (sc_tasks st)" and none: "tk_run (sc_tasks st ! k) = None"
    and fresh: "\<And>task r. task \<in> set (sc_tasks st) \<Longrightarrow> tk_run task = Some r \<Longrightarrow> sr_ID r \<noteq> i"
  shows "scheduler_ok w (begin_run k i at st)"
proof -
  let ?task = "sc_tasks st ! k" and ?r = "started_run (sc_tasks st ! k) i at"
  let ?new = "?task\<lparr>tk_run := Some ?r\<rparr>"
  obtain err store where insert: "insert_run ?r (sc_store st) = (err, store)" by fastforce
  show ?thesis
  proof (cases err)
    case (Some e)
    with insert scheduler_ok_end [OF ok k] show ?thesis by (simp add: begin_run_def Let_def)
  next
    case None
    have "well_formed_store w (sc_store st)" "sr_FinishedAt ?r = None"
      using ok by (simp_all add: scheduler_ok_def started_run_def)
    note store = well_formed_inserted [OF this(1) insert [unfolded None] this(2)]
    have query: "sr_QueryID ?r = task_query ?task" "sr_ID ?r = i" by (simp_all add: started_run_def task_query_def)
    have "task_ok (sc_store st) ?task" using ok k by (simp add: scheduler_ok_def)
    with none have "\<not> tk_kept ?task" by (simp add: task_ok_def)
    then have "task_ok store ?new"
      using store(2,3) query by (auto simp: task_ok_def task_query_def)
    moreover have "task_ok store task" if t: "task \<in> set ((sc_tasks st)[k := ?new])" "task \<noteq> ?new" for task
    proof -
      from ok have "one_run_each st" by (simp add: scheduler_ok_def)
      from other_task [OF this k t] have task: "task \<in> set (sc_tasks st)" "task_query task \<noteq> task_query ?task" by simp_all
      have "run_count (task_query task) store = run_count (task_query task) (sc_store st)"
        using task(2) query(1) by (simp add: run_count_def store(2))
      moreover have "task_ok (sc_store st) task" using ok task(1) by (simp add: scheduler_ok_def)
      ultimately show ?thesis
        using fresh [OF task(1)] query(2) by (cases "tk_run task") (auto simp: task_ok_def store(2))
    qed
    ultimately have "\<forall>task \<in> set ((sc_tasks st)[k := ?new]). task_ok store task" by blast
    moreover have "one_run_each (st\<lparr>sc_store := store, sc_tasks := (sc_tasks st)[k := ?new]\<rparr>)"
      using ok k by (intro update_task_one_run) (simp_all add: scheduler_ok_def)
    ultimately have "scheduler_ok w (st\<lparr>sc_store := store, sc_tasks := (sc_tasks st)[k := ?new]\<rparr>)"
      using store(1) by (simp add: scheduler_ok_def)
    with None insert show ?thesis by (simp add: begin_run_def Let_def)
  qed
qed

lemma scheduler_ok_trim:
  assumes ok: "scheduler_ok w st" and k: "k < length (sc_tasks st)" and run: "tk_run (sc_tasks st ! k) \<noteq> None"
  shows "scheduler_ok w (trim_run k trims st)"
proof (cases trims)
  case False
  with scheduler_ok_end [OF ok k] show ?thesis by (simp add: trim_run_def Let_def)
next
  case True
  let ?task = "sc_tasks st ! k" and ?store = "trim_runs (task_query (sc_tasks st ! k)) (sc_store st)"
  let ?new = "?task\<lparr>tk_kept := True\<rparr>"
  from ok have "well_formed_store w (sc_store st)" by (simp add: scheduler_ok_def)
  note trim = well_formed_trim [OF this, of "task_query ?task"]
  have others: "task_ok ?store task" if "task \<in> set (sc_tasks st)" for task
    using task_ok_keys [OF trim(2)] ok that by (simp add: scheduler_ok_def)
  from others [of ?task] k have "task_ok ?store ?task" by simp
  then have "task_ok ?store ?new"
    using trim(3) run by (auto simp: task_ok_def task_query_def)
  with others have "\<forall>task \<in> set ((sc_tasks st)[k := ?new]). task_ok ?store task"
    using set_update_subset_insert [of "sc_tasks st" k ?new] by blast
  moreover have "one_run_each (st\<lparr>sc_store := ?store, sc_tasks := (sc_tasks st)[k := ?new]\<rparr>)"
    using ok k by (intro update_task_one_run) (simp_all add: scheduler_ok_def)
  ultimately have "scheduler_ok w (st\<lparr>sc_store := ?store, sc_tasks := (sc_tasks st)[k := ?new]\<rparr>)"
    using trim(1) by (simp add: scheduler_ok_def)
  with True show ?thesis by (simp add: trim_run_def Let_def)
qed

lemma scheduler_ok_finish:
  assumes ok: "scheduler_ok w st" and k: "k < length (sc_tasks st)" and run: "tk_run (sc_tasks st ! k) = Some r"
    and kept: "tk_kept (sc_tasks st ! k)"
  shows "scheduler_ok w (finish_run k r at outcome recorded st)"
proof (cases recorded)
  case False
  with scheduler_ok_end [OF ok k] show ?thesis by (simp add: finish_run_def)
next
  case True
  let ?task = "sc_tasks st ! k" and ?r = "finished_run r at outcome"
  have same: "sr_ID ?r = sr_ID r" by (simp add: finished_run_def split: prod.splits option.splits)
  have "task_ok (sc_store st) ?task" using ok k by (simp add: scheduler_ok_def)
  with run kept same have "run_count (task_query ?task) (sc_store st) \<le> runsKept"
    "\<And>x. x \<in> set (st_runs (sc_store st)) \<Longrightarrow> sr_ID x = sr_ID ?r \<Longrightarrow> sr_QueryID x = task_query ?task"
    by (simp_all add: task_ok_def)
  with ok have "well_formed_store w (FinishScheduledRun ?r (sc_store st))"
    by (intro well_formed_finished) (simp_all add: scheduler_ok_def)
  then have "scheduler_ok w (st\<lparr>sc_store := FinishScheduledRun ?r (sc_store st)\<rparr>)"
    using ok by (intro scheduler_ok_store) (simp_all add: run_keys_finish)
  from scheduler_ok_end [OF this] k True show ?thesis by (simp add: finish_run_def)
qed

lemma scheduler_ok_step:
  "schedule_step s w st st' \<Longrightarrow> seals w \<Longrightarrow> scheduler_ok w st \<Longrightarrow> scheduler_ok w st'"
proof (induction rule: schedule_step.induct)
  case (tick_read st now)
  then show ?case by (simp add: read_due_def)
next
  case (tick_next st action others accepts)
  from scheduler_ok_tick [OF tick_next.prems(2), of "w\<lparr>sw_advanced := accepts\<rparr>" "sc_now st" action]
  show ?case by (simp add: tick_next_def case_prod_beta del: tick_action.simps)
next
  case (manual st item)
  then show ?case by (simp add: scheduler_ok_started)
next
  case (begin_run k st i at)
  then show ?case by (intro scheduler_ok_begin)
next
  case (trim_run k st trims)
  then show ?case by (intro scheduler_ok_trim)
next
  case (finish_run k st r at outcome recorded)
  then show ?case by (intro scheduler_ok_finish)
next
  case (save identity now stamp fresh decoded existing st c answer store c')
  from well_formed_save [OF save.hyps] save.prems have "well_formed_store w store" by (simp add: scheduler_ok_def)
  with save_keeps_runs [OF save.hyps] save.prems(2) show ?case by (intro scheduler_ok_store run_keys_same)
next
  case (delete st identity i)
  from well_formed_delete [of w "sc_store st" identity i] delete.prems(2) show ?case
    by (intro scheduler_ok_store) (simp_all add: scheduler_ok_def)
next
  case (stop st)
  then show ?case by simp
qed


subsection \<open>Examples\<close>

definition example_store :: "scheduledEnvelope schedule_store" where
  "example_store = \<lparr>st_queries = [example_query], st_runs = []\<rparr>"

definition example_request :: scheduledInput where
  "example_request = \<lparr>si_Name = ''n'', si_ConnectionID = ''c'', si_Database = [], si_SQL = ''select a'',
     si_Schedule = mondays, si_OutputDir = ''/out'', si_Format = ''csv'', si_CatchUp = True, si_Enabled = True\<rparr>"

lemma example_startable:
  "advanced_to example_schedule_world (200 * 1000000000) example_query = Some 372600" by code_simp

lemma due_queries_start_once_witness:
  "sc_tasks (startDueSchedules example_schedule_world (200 * second) (schedule_start example_store))
     = [schedule_task example_query]"
proof -
  have "distinct (map sq_ID (st_queries (sc_store (schedule_start example_store))))"
    by (simp add: schedule_start_def example_store_def)
  from due_queries_start_once [OF this] have "sc_tasks (startDueSchedules example_schedule_world (200 * second)
      (schedule_start example_store)) = map schedule_task (filter (startable example_schedule_world (200 * second)
      (schedule_start example_store)) (DueScheduledQueries (200 * second div second) example_store))"
    by (simp add: schedule_start_def)
  also have "\<dots> = [schedule_task example_query]"
    using example_startable
    by (simp add: DueScheduledQueries_def is_due_def startable_def schedule_start_def example_store_def second_def
        missed_def scheduleTick_def example_query_def)
  finally show ?thesis .
qed

text \<open>A tick in its three sections, and a run that begins and deletes the older ones.\<close>

definition example_read :: "scheduledEnvelope scheduler" where
  "example_read = read_due (200 * second) (schedule_start example_store)"

definition example_moved :: "scheduledEnvelope scheduler" where
  "example_moved = tick_next example_schedule_world (Advance example_query) [] example_read"

definition example_started :: "scheduledEnvelope scheduler" where
  "example_started = tick_next example_schedule_world (StartDue example_query) [] example_moved"

definition example_begun :: "scheduledEnvelope scheduler" where
  "example_begun = begin_run 0 ''r'' ''now'' example_started"

definition example_last :: "scheduledEnvelope scheduler" where
  "example_last = trim_run 0 True example_begun"

lemma example_sections:
  "sc_pending example_read = [Advance example_query]" "sc_pending example_moved = [StartDue example_query]"
  "map tk_run (sc_tasks example_started) = [None]"
  "map (\<lambda>task. (tk_run task = None, tk_kept task)) (sc_tasks example_begun) = [(False, False)]"
  "map task_query (sc_tasks example_last) = [''1'']" "length (st_runs (sc_store example_last)) = 1"
  by code_simp+

lemma example_reached: "schedule_reachable plain_server example_schedule_world example_store example_last"
proof -
  note step = schedule_reachable.more [where s = plain_server and w = example_schedule_world and store = example_store]
  have same: "example_schedule_world\<lparr>sw_advanced := sw_advanced example_schedule_world\<rparr> = example_schedule_world" by simp
  note next_section = schedule_step.tick_next [where w = example_schedule_world
      and accepts = "sw_advanced example_schedule_world", unfolded same]
  have "sc_pending (schedule_start example_store) = []" by (simp add: schedule_start_def)
  from step [OF schedule_reachable.start schedule_step.tick_read [OF this]]
  have "schedule_reachable plain_server example_schedule_world example_store example_read"
    by (simp add: example_read_def)
  from step [OF this next_section [OF example_sections(1)]]
  have "schedule_reachable plain_server example_schedule_world example_store example_moved"
    by (simp add: example_moved_def)
  from step [OF this next_section [OF example_sections(2)]]
  have started: "schedule_reachable plain_server example_schedule_world example_store example_started"
    by (simp add: example_started_def)
  from example_sections(3) obtain task where task: "sc_tasks example_started = [task]" "tk_run task = None" by auto
  have "schedule_step plain_server example_schedule_world example_started example_begun"
    unfolding example_begun_def by (rule schedule_step.begin_run) (simp_all add: task)
  from step [OF started this]
  have begun: "schedule_reachable plain_server example_schedule_world example_store example_begun" .
  from example_sections(4) obtain task' where task': "sc_tasks example_begun = [task']" "tk_run task' \<noteq> None" "\<not> tk_kept task'"
    by auto
  have "schedule_step plain_server example_schedule_world example_begun example_last"
    unfolding example_last_def by (rule schedule_step.trim_run) (use task' in simp_all)
  from step [OF begun this] show ?thesis .
qed

lemma one_run_at_a_time_witness: "sc_running example_last = {''1''}"
  using one_run_at_a_time [OF example_reached] example_sections(5) by simp


lemma example_run: "case fst (executeScheduled plain_server file_world example_schedule_world example_disk example_query
      (\<lambda>_. None) empty_cache) of ((rows, path, err), evs, fs) \<Rightarrow>
      rows = 1 \<and> err = None \<and> queries_of evs = [(''select a'', 1800)]"
  by code_simp


definition example_result :: ScheduledRun where
  "example_result = \<lparr>sr_ID = ''r'', sr_QueryID = ''1'', sr_Trigger = ''schedule'', sr_StartedAt = [],
     sr_FinishedAt = Some [], sr_Status = ''success'', sr_Rows = 1, sr_OutputPath = Some ''/out/n_now.csv'',
     sr_Error = None\<rparr>"

definition example_past :: "scheduledEnvelope schedule_store" where
  "example_past = example_store\<lparr>st_runs := [example_result]\<rparr>"

lemma example_found:
  "find_query ''1'' (UserID plain_identity) example_past = Some example_query"
  "find (has_result ''r'') (ListScheduledRuns (sq_ID example_query) 50 example_past) = Some example_result"
  by code_simp+

lemma result_can_be_downloaded_witness:
  "\<exists>name content. scheduledRunFile plain_identity ''1'' ''r'' example_past
     (snd (writeScheduledResult ascii_tables example_disk example_query (\<lambda>r. r) example_selected (\<lambda>_. None)))
     = Inr (name, ''/out/n_now.csv'', content)"
proof -
  have run: "writeScheduledResult ascii_tables example_disk example_query (\<lambda>r. r) example_selected (\<lambda>_. None)
      = ((1, ''/out/n_now.csv'', None),
         snd (writeScheduledResult ascii_tables example_disk example_query (\<lambda>r. r) example_selected (\<lambda>_. None)))"
    by (metis example_written(1) prod.collapse)
  have "sr_OutputPath example_result = Some ''/out/n_now.csv''" "IsAbs (sq_OutputDir example_query)"
    "CHR ''/'' \<notin> set (rd_stamp example_disk)" "sq_OutputFormat example_query \<in> {''csv'', ''json''}"
    by (simp_all add: example_result_def example_query_def example_disk_def IsAbs_def)
  from result_can_be_downloaded [OF run example_found(1) this(1) example_found(2) this(2-4)] show ?thesis by blast
qed

lemma example_download: "scheduledRunFile plain_identity ''1'' ''r'' example_past (\<lambda>_. Some [])
     = Inr (''n_now.csv'', ''/out/n_now.csv'', [])"
  by code_simp

lemma download_stays_in_folder_witness: "prefix (path_elements ''/out'') (path_elements ''/out/n_now.csv'')"
  using download_stays_in_folder [OF example_download]
  by (auto simp: example_past_def example_store_def example_query_def IsAbs_def)

lemma example_parse:
  "case ParseDialect (srv_tables plain_server) DialectGeneric ''select a'' empty_cache of
     ((info, err), _) \<Rightarrow> err = None \<and> Kind info = Select \<and> \<not> IsScript info"
  by code_simp

lemma example_checked:
  "check_scheduled plain_server example_schedule_world plain_identity
     (trim_scheduled (srv_tables plain_server) example_request) = Inr (''/out'', ''csv'')"
  by code_simp

lemma example_next: "nextRunString example_schedule_world mondays True (200 * 1000000000) = Inr (Some 372600)"
  by code_simp

lemma example_save:
  "fst (fst (saveScheduled plain_server example_schedule_world plain_identity (200 * 1000000000) [] ''2''
     (Some example_request) None example_store empty_cache)) = Answer 201"
proof -
  have trimmed: "trim_scheduled (srv_tables plain_server) example_request = example_request" by code_simp
  obtain info err c where parse: "ParseDialect (srv_tables plain_server) DialectGeneric ''select a'' empty_cache
      = ((info, err), c)" by (metis surj_pair)
  have valid: "validateScheduled plain_server example_schedule_world plain_identity example_request empty_cache
      = (Inr example_request, c)"
    using example_parse example_checked parse
    by (simp add: validateScheduled_def Let_def trimmed)
      (simp add: example_request_def scheduledSQLLimit_def)
  have fields: "si_Schedule example_request = mondays" "si_Enabled example_request" by (simp_all add: example_request_def)
  have "\<exists>x. sealScheduledSQL example_schedule_world i u sql = Some x" for i u sql
    by (simp add: sealScheduledSQL_def example_schedule_world_def)
  moreover have "fst (CreateScheduledQuery (scheduled_item example_schedule_world plain_identity ''2'' [] None i t x)
      example_store) = None" for i t x
    by (simp add: CreateScheduledQuery_def scheduled_item_def example_store_def example_query_def)
  ultimately show ?thesis using example_next
    by (auto simp: saveScheduled_def valid fields Let_def case_prod_beta split: option.splits)
qed

lemma saved_schedule_can_run_witness:
  "\<exists>item. st_queries (snd (fst (saveScheduled plain_server example_schedule_world plain_identity (200 * 1000000000)
      [] ''2'' (Some example_request) None example_store empty_cache))) = [example_query, item]
    \<and> openScheduledSQL example_schedule_world item = Inr ''select a''"
proof -
  obtain answer st' c' where run: "saveScheduled plain_server example_schedule_world plain_identity (200 * 1000000000)
      [] ''2'' (Some example_request) None example_store empty_cache = ((answer, st'), c')" by (metis surj_pair)
  with example_save have answer: "answer = Answer 201" by simp
  have "\<forall>e x. sw_seal example_schedule_world e = Some x \<longrightarrow> sw_unseal example_schedule_world x = Inr e"
    by (simp add: example_schedule_world_def)
  moreover have "trim_space (si_SQL example_request) = ''select a''" by code_simp
  ultimately obtain item where "st_queries st' = st_queries example_store @ [item]"
    "openScheduledSQL example_schedule_world item = Inr ''select a''"
    using saved_schedule_can_run [OF run [unfolded answer]] by auto
  then show ?thesis unfolding run by (simp add: example_store_def)
qed

end
