(* ===== verification/Nosql.thy ===== *)
theory Nosql
  imports Clients Row_Restore
begin

section \<open>Handlers of the engines without SQL: what they share\<close>

text \<open>
  The handlers of MongoDB, Redis and Elasticsearch (api/mongodb.go, api/redis.go,
  api/elasticsearch.go) have one shape: find the connection, check the engine, read the body,
  check it, ask the policies with a statement record that is never run, open the connection,
  call the engine, record and answer. A handler is a function to the list of what it causes; what
  reaches the database is a value of the engine's own type of calls. A method of the engine is an
  attempt: the call it makes, if its checks let it make one, and its result.
\<close>

datatype ('call, 'item) nosql_event = Event "unit event" | Called 'call int | Kept 'item

type_synonym ('call, 'r) attempt = "'call option \<times> (string + 'r)"

definition attempt :: "string + 'call \<Rightarrow> ('call \<Rightarrow> string + 'r) \<Rightarrow> ('call, 'r) attempt" where
  "attempt call outcome = (case call of Inl e \<Rightarrow> (None, Inl e) | Inr c \<Rightarrow> (Some c, outcome c))"

definition answered :: "response \<Rightarrow> ('call, 'item) nosql_event list" where
  "answered r = [Event (Responded r)]"

definition bad_request :: "string \<Rightarrow> ('call, 'item) nosql_event list" where
  "bad_request message = answered (Refused 400 ''BAD_REQUEST'' message)"

text \<open>The connection of the path, for one of the given engines, and the body.\<close>

definition nosql_request ::
  "server \<Rightarrow> Identity \<Rightarrow> Connection option \<Rightarrow> string set \<Rightarrow> string \<Rightarrow> 'input option \<Rightarrow>
   (Connection \<Rightarrow> 'input \<Rightarrow> ('call, 'item) nosql_event list) \<Rightarrow> ('call, 'item) nosql_event list" where
  "nosql_request s identity found engines message decoded continue =
     (case authorizedConnection (srv_access s) identity found of
        Inl refusal \<Rightarrow> answered refusal
      | Inr connection \<Rightarrow>
          (if conn_Engine connection \<notin> engines then answered (Refused 400 ''UNSUPPORTED'' message)
           else (case decoded of
                   None \<Rightarrow> bad_request ''invalid JSON request''
                 | Some input \<Rightarrow> continue connection input)))"

text \<open>Behind the policies: with the row limit and the time, or with the time.\<close>

definition guarded_read ::
  "server \<Rightarrow> unit world \<Rightarrow> Identity \<Rightarrow> Connection \<Rightarrow> string option \<Rightarrow> Info \<Rightarrow> string \<Rightarrow>
   (int \<Rightarrow> int \<Rightarrow> ('call, 'item) nosql_event list) \<Rightarrow> ('call, 'item) nosql_event list" where
  "guarded_read s w identity connection opened info raw continue =
     (case nosqlReadGuard s w identity connection info raw of
        Inl evs \<Rightarrow> map Event evs
      | Inr (limit, timeout) \<Rightarrow>
          (case opened of
             Some e \<Rightarrow> answered (Refused 502 ''EXEC_ERROR'' e)
           | None \<Rightarrow> continue limit (withConnectionTimeout connection timeout (10 * 60))))"

definition guarded_write ::
  "server \<Rightarrow> unit world \<Rightarrow> Identity \<Rightarrow> Connection \<Rightarrow> string option \<Rightarrow> Info \<Rightarrow> string \<Rightarrow>
   (int \<Rightarrow> ('call, 'item) nosql_event list) \<Rightarrow> ('call, 'item) nosql_event list" where
  "guarded_write s w identity connection opened info raw continue =
     (case nosqlWriteGuard s w identity connection opened info raw of
        Inl evs \<Rightarrow> map Event evs
      | Inr timeout \<Rightarrow> continue timeout)"

text \<open>The record and the answer of a method; \<open>noted\<close> says that a row backup was stored before.\<close>

definition calls_made :: "'call option \<Rightarrow> int \<Rightarrow> ('call, 'item) nosql_event list" where
  "calls_made call timeout = (case call of None \<Rightarrow> [] | Some c \<Rightarrow> [Called c timeout])"

definition performed ::
  "string \<Rightarrow> bool \<Rightarrow> int \<Rightarrow> ('r \<Rightarrow> int) \<Rightarrow> ('call, 'r) attempt \<Rightarrow> ('call, 'item) nosql_event list" where
  "performed raw noted timeout rows tried =
     calls_made (fst tried) timeout
     @ (case snd tried of
          Inl e \<Rightarrow> map Event (discard_backup noted)
            @ [Event (recordActivity raw ''error'' 0 ''allow'' [] []), Event (Responded (Refused 502 ''EXEC_ERROR'' e))]
        | Inr r \<Rightarrow> [Event (recordActivity raw ''success'' (rows r) ''allow'' [] []), Event (Responded (Answer 200))])"

definition cap_rows :: "int \<Rightarrow> int \<Rightarrow> int" where
  "cap_rows limit requested = (if 0 < limit \<and> limit < requested then limit else requested)"

text \<open>The database of a request: its own, or the connection's.\<close>

definition request_database :: "string \<Rightarrow> Connection \<Rightarrow> string" where
  "request_database given connection = (if given = [] then conn_Database connection else given)"

subsection \<open>Backups before a write\<close>

text \<open>What a capture did: its outcome, and the read it made.\<close>

definition is_captured :: "'item captured \<Rightarrow> bool" where
  "is_captured cap = (case cap of Captured _ \<Rightarrow> True | _ \<Rightarrow> False)"

definition backed_up_write ::
  "bool \<Rightarrow> int \<Rightarrow> 'item captured \<times> 'call option \<Rightarrow> (bool \<Rightarrow> ('call, 'item RowBackup) nosql_event list) \<Rightarrow>
   ('call, 'item RowBackup) nosql_event list" where
  "backed_up_write wanted timeout capture write =
     (if \<not> wanted then write False
      else calls_made (snd capture) timeout
        @ (case fst capture of
             CaptureBlocked reason \<Rightarrow> answered (Refused 409 ''BACKUP_UNAVAILABLE'' reason)
           | Captured item \<Rightarrow> Kept item # write True
           | _ \<Rightarrow> write False))"

text \<open>The payload of a backup that was opened has to be the record's own.\<close>

definition open_backup ::
  "bool \<Rightarrow> ('s \<Rightarrow> string + 'p) \<Rightarrow> ('p \<Rightarrow> string \<times> string) \<Rightarrow> 's RowBackup \<Rightarrow> string + 'p" where
  "open_backup vault unseal envelope item =
     (if \<not> vault then Inl ''secret vault unavailable''
      else case unseal (rb_Sealed item) of
        Inl e \<Rightarrow> Inl e
      | Inr p \<Rightarrow> (if envelope p \<noteq> (rb_ID item, rb_UserID item) then Inl ''the backup does not belong to this record''
                  else Inr p))"

text \<open>What a capture stores: the row that names the payload, or why there is none.\<close>

record ('p, 's) backup_store =
  bs_vault :: bool
  bs_seal :: "'p \<Rightarrow> 's option"
  bs_stores :: bool
  bs_fresh_id :: string
  bs_now :: string

definition keep_backup ::
  "('p, 's) backup_store \<Rightarrow> Identity \<Rightarrow> Connection \<Rightarrow> string \<Rightarrow> string \<Rightarrow> string \<Rightarrow> nat \<Rightarrow> 'p \<Rightarrow> 's captured" where
  "keep_backup b identity connection database table kind rows payload =
     (case bs_seal b payload of
        None \<Rightarrow> CaptureSkipped ''the backup could not be stored''
      | Some sealed \<Rightarrow>
          (if \<not> bs_stores b then CaptureSkipped ''the backup could not be stored''
           else Captured \<lparr>rb_ID = bs_fresh_id b, rb_OrgID = OrgID identity, rb_UserID = UserID identity,
                  rb_ConnectionID = conn_ID connection, rb_Database = database, rb_Schema = [], rb_Table = table,
                  rb_Kind = kind, rb_Rows = rows, rb_Sealed = sealed, rb_CreatedAt = bs_now b\<rparr>))"

subsection \<open>Restores\<close>

text \<open>
  The calls of a restore with how many rows they put back and the error that stopped them, behind
  the policies; \<open>statement\<close> is what the policies are told, \<open>text_of\<close> what is recorded.
\<close>

definition nosql_restore ::
  "server \<Rightarrow> unit world \<Rightarrow> Identity \<Rightarrow> Connection \<Rightarrow> string option \<Rightarrow> Info \<Rightarrow> string \<Rightarrow> string \<Rightarrow>
   'call list \<times> int \<times> string option \<Rightarrow> ('call, 'item) nosql_event list" where
  "nosql_restore s w identity connection opened info statement recorded run =
     (case nosqlPolicyAllowed s w identity connection info statement of
        Inl evs \<Rightarrow> map Event evs
      | Inr timeout \<Rightarrow>
          (case opened of
             Some e \<Rightarrow> answered (Refused 502 ''EXEC_ERROR'' e)
           | None \<Rightarrow>
               (case run of (calls, rows, err) \<Rightarrow>
                  map (\<lambda>c. Called c (withConnectionTimeout connection timeout (10 * 60))) calls
                  @ (case err of
                       Some e \<Rightarrow> [Event (recordActivity recorded ''error'' rows ''allow'' [] []),
                                   Event (Responded (Refused 502 ''EXEC_ERROR'' e))]
                     | None \<Rightarrow> [Event (recordActivity recorded ''success'' rows ''allow'' [] []),
                                 Event (Responded (Answer 200))]))))"

text \<open>A restore is of a backup the caller may reach, on a connection the caller may still use.\<close>

definition restore_admitted ::
  "server \<Rightarrow> (string \<Rightarrow> Connection option) \<Rightarrow> Identity \<Rightarrow> string \<Rightarrow> 's RowBackup list \<Rightarrow>
   response + 's RowBackup \<times> Connection" where
  "restore_admitted s connections identity i items =
     (case reachableRowBackup identity i items of
        None \<Rightarrow> Inl (Refused 404 ''NOT_FOUND'' ''row backup not found'')
      | Some item \<Rightarrow>
          (case connections (rb_ConnectionID item) of
             None \<Rightarrow> Inl (Refused 404 ''NOT_FOUND'' ''the connection no longer exists'')
           | Some connection \<Rightarrow>
               (if conn_OrgID connection \<noteq> OrgID identity
                then Inl (Refused 404 ''NOT_FOUND'' ''the connection no longer exists'')
                else case role_of (srv_access s) (UserID identity) of
                  Inl _ \<Rightarrow> Inl (Refused 401 ''UNAUTHORIZED'' ''role missing'')
                | Inr _ \<Rightarrow>
                    (if \<not> canUseConnection (srv_access s) identity connection
                     then Inl (Refused 403 ''FORBIDDEN'' ''you no longer have access to this connection'')
                     else Inr (item, connection)))))"

text \<open>The lines of a statement as comments.\<close>

definition comment_lines :: "string \<Rightarrow> string \<Rightarrow> string" where
  "comment_lines mark statement =
     concat (map (\<lambda>line. mark @ line @ [CHR 0x0A]) (str_split (CHR 0x0A) (trim_space statement)))"

subsection \<open>Which calls a handler makes\<close>

definition calls_of :: "('call, 'item) nosql_event list \<Rightarrow> ('call \<times> int) list" where
  "calls_of evs = List.map_filter (\<lambda>e. case e of Called c t \<Rightarrow> Some (c, t) | _ \<Rightarrow> None) evs"

lemma calls_of_simps [simp]:
  "calls_of [] = []" "calls_of (Called c t # evs) = (c, t) # calls_of evs" "calls_of (Event e # evs) = calls_of evs"
  "calls_of (Kept i # evs) = calls_of evs" "calls_of (xs @ ys) = calls_of xs @ calls_of ys"
  "calls_of (map Event es) = []"
  by (simp_all add: calls_of_def List.map_filter_def)

lemma calls_of_answered [simp]: "calls_of (answered r) = []" "calls_of (bad_request m) = []"
  by (simp_all add: answered_def bad_request_def)

lemma calls_of_made [simp]: "calls_of (calls_made c t) = (case c of None \<Rightarrow> [] | Some c \<Rightarrow> [(c, t)])"
  by (simp add: calls_made_def split: option.splits)

lemma calls_of_performed [simp]:
  "calls_of (performed raw noted timeout rows tried) = (case fst tried of None \<Rightarrow> [] | Some c \<Rightarrow> [(c, timeout)])"
  by (simp add: performed_def split: sum.splits)

lemma attempt_call: "fst (attempt call outcome) = Some c \<longleftrightarrow> call = Inr c"
    "Some c = fst (attempt call outcome) \<longleftrightarrow> call = Inr c"
  by (auto simp: attempt_def split: sum.splits)

lemma nosql_request_calls:
  assumes "x \<in> set (calls_of (nosql_request s identity found engines message decoded continue))"
  obtains connection input where "authorizedConnection (srv_access s) identity found = Inr connection"
    and "conn_Engine connection \<in> engines" and "decoded = Some input" and "x \<in> set (calls_of (continue connection input))"
  using assms by (auto simp: nosql_request_def split: sum.splits if_splits option.splits)

lemma guarded_write_calls:
  assumes "x \<in> set (calls_of (guarded_write s w identity connection opened info raw continue))"
  obtains timeout where "nosqlWriteGuard s w identity connection opened info raw = Inr timeout"
    and "x \<in> set (calls_of (continue timeout))"
  using assms by (auto simp: guarded_write_def split: sum.splits)

lemma guarded_read_calls:
  assumes "x \<in> set (calls_of (guarded_read s w identity connection opened info raw continue))"
  obtains limit timeout where "nosqlReadGuard s w identity connection info raw = Inr (limit, timeout)"
    and "x \<in> set (calls_of (continue limit (withConnectionTimeout connection timeout (10 * 60))))"
  using assms by (auto simp: guarded_read_def split: sum.splits option.splits)

lemma backed_up_write_calls:
  assumes "x \<in> set (calls_of (backed_up_write wanted timeout capture write))"
  obtains c where "wanted" and "snd capture = Some c" and "x = (c, timeout)"
  | noted where "x \<in> set (calls_of (write noted))"
  using assms that by (cases "snd capture") (auto simp: backed_up_write_def split: if_splits captured.splits)

end
