(* ===== verification/Mongo.thy ===== *)
theory Mongo
  imports Nosql
begin

section \<open>MongoDB (engine/mongodb.go, api/mongodb.go)\<close>

text \<open>
  Documents, the checks of filters, updates and pipelines, the calls of the driver that the
  methods of the engine make, and the handlers. A body's fields are Extended JSON texts, which the
  driver's package reads. What the server answers is an argument.
\<close>

subsection \<open>Documents\<close>

text \<open>A \<open>bson.D\<close>, a \<open>bson.A\<close>, or another value by the text \<open>fmt.Sprint\<close> gives it.\<close>

datatype bson = BDoc "(string \<times> bson) list" | BArr "bson list" | BVal string

type_synonym document = "(string \<times> bson) list"

lemma entry_smaller: "(k, v) \<in> set es \<Longrightarrow> size v < Suc (size_list (size_prod (\<lambda>_. 0) size) es)"
  by (induction es) auto

lemma element_smaller: "v \<in> set vs \<Longrightarrow> size v < Suc (size_list size vs)"
  by (induction vs) auto

lemma document_smaller: "BDoc d \<in> set clauses \<Longrightarrow> (key, BArr clauses) \<in> set flt \<Longrightarrow>
   size_list (size_prod (\<lambda>_. 0) size) d < size_list (size_prod (\<lambda>_. 0) size) flt"
  using entry_smaller [of key "BArr clauses" flt] element_smaller [of "BDoc d" clauses] by simp

definition js_keys :: "string set" where
  "js_keys = {''$where'', ''$function'', ''$accumulator''}"

text \<open>\<open>reject\<close> of \<open>ParseMongoFilter\<close>.\<close>

fun reject_js :: "bson \<Rightarrow> bool" where
  "reject_js (BDoc es) \<longleftrightarrow> list_ex (\<lambda>e. fst e \<in> js_keys \<or> reject_js (snd e)) es"
| "reject_js (BArr vs) \<longleftrightarrow> list_ex reject_js vs"
| "reject_js (BVal _) \<longleftrightarrow> False"

text \<open>\<open>mongoHasPredicate\<close> of the engine, and \<open>mongoFilterHasPredicate\<close> of the handlers.\<close>

definition mongoHasPredicate :: "document \<Rightarrow> bool" where
  "mongoHasPredicate flt \<longleftrightarrow>
     list_ex (\<lambda>(key, v). \<not> prefix ''$'' key \<or> (case v of BArr clauses \<Rightarrow> clauses \<noteq> [] | _ \<Rightarrow> False)) flt"

function mongoFilterHasPredicate :: "document \<Rightarrow> bool" where
  "mongoFilterHasPredicate flt \<longleftrightarrow>
     list_ex (\<lambda>(key, v).
       if \<not> prefix ''$'' key then True
       else (case v of
          BArr clauses \<Rightarrow>
            clauses \<noteq> []
            \<and> (if key = ''$and''
               then list_ex (\<lambda>c. case c of BDoc d \<Rightarrow> mongoFilterHasPredicate d | _ \<Rightarrow> False) clauses
               else if key = ''$or''
               then list_all (\<lambda>c. case c of BDoc d \<Rightarrow> mongoFilterHasPredicate d | _ \<Rightarrow> False) clauses
               else False)
        | _ \<Rightarrow> False)) flt"
  by pat_completeness auto
termination by (relation "measure (size_list (size_prod (\<lambda>_. 0) size))") (auto dest: document_smaller)

declare mongoFilterHasPredicate.simps [simp del]

subsection \<open>Reading the bodies\<close>

text \<open>
  What the driver's package makes of an Extended JSON text, as a document and as an array; what
  \<open>mongoDocumentID\<close> finds in a document; what the server answers to a call: a cursor of encoded
  documents with its error at the end, or a number of documents.
\<close>

datatype mongo_call =
    Find string string document document document int int
  | Aggregate string string "bson list"
  | InsertOne string string document
  | InsertMany string string "document list"
  | UpdateOne string string document document
  | ReplaceOne string string document document
  | DeleteOne string string document

type_synonym cursor = "(string + string) list \<times> string option"

record mongo_world =
  mw_doc :: "string \<Rightarrow> string + document"
  mw_array :: "string \<Rightarrow> string + bson list"
  mw_id :: "string \<Rightarrow> string + string"
  mw_read :: "mongo_call \<Rightarrow> string + cursor"
  mw_write :: "mongo_call \<Rightarrow> string + int"

definition ParseMongoFilter :: "mongo_world \<Rightarrow> string \<Rightarrow> string + document" where
  "ParseMongoFilter m raw =
     (case mw_doc m (if raw = [] then ''{}'' else raw) of
        Inl e \<Rightarrow> Inl (''filter must be an Extended JSON object: '' @ e)
      | Inr flt \<Rightarrow>
          (if reject_js (BDoc flt) then Inl ''server-side JavaScript is not supported in document filters''
           else Inr flt))"

definition forbiddenAggregationStages :: "string set" where
  "forbiddenAggregationStages = {''$out'', ''$merge'', ''$function'', ''$accumulator'', ''$where'', ''$lookup'',
     ''$graphLookup'', ''$unionWith'', ''$currentOp'', ''$listSessions'', ''$listLocalSessions'', ''$planCacheStats''}"

fun check_stages :: "bson list \<Rightarrow> string option" where
  "check_stages [] = None"
| "check_stages (BDoc doc # stages) =
     (case find (\<lambda>e. fst e \<in> forbiddenAggregationStages) doc of
        Some e \<Rightarrow> Some (''stage '' @ fst e @ '' is not supported; aggregation here is read-only'')
      | None \<Rightarrow> check_stages stages)"
| "check_stages (_ # stages) = Some ''each pipeline stage must be an object''"

definition ValidateMongoPipeline :: "mongo_world \<Rightarrow> string \<Rightarrow> string + bson list" where
  "ValidateMongoPipeline m raw =
     (case mw_array m raw of
        Inl e \<Rightarrow> Inl (''pipeline must be an Extended JSON array of stage objects: '' @ e)
      | Inr pipeline \<Rightarrow>
          (if pipeline = [] then Inl ''pipeline must have at least one stage''
           else case check_stages pipeline of Some e \<Rightarrow> Inl e | None \<Rightarrow> Inr pipeline))"

text \<open>The documents of a cursor, at most \<open>limit\<close>, and whether there were more.\<close>

fun read_cursor :: "int \<Rightarrow> int \<Rightarrow> (string + string) list \<Rightarrow> string option \<Rightarrow> string + string list \<times> bool" where
  "read_cursor limit n [] err = (case err of Some e \<Rightarrow> Inl e | None \<Rightarrow> Inr ([], False))"
| "read_cursor limit n (d # ds) err =
     (if n = limit then Inr ([], True)
      else case d of
        Inl e \<Rightarrow> Inl e
      | Inr doc \<Rightarrow> (case read_cursor limit (n + 1) ds err of Inl e \<Rightarrow> Inl e | Inr (docs, longer) \<Rightarrow> Inr (doc # docs, longer)))"

definition read_call :: "mongo_world \<Rightarrow> int \<Rightarrow> mongo_call \<Rightarrow> string + string list \<times> bool" where
  "read_call m limit c = (case mw_read m c of Inl e \<Rightarrow> Inl e | Inr (ds, err) \<Rightarrow> read_cursor limit 0 ds err)"

subsection \<open>The methods of the engine\<close>

record MongoFindInput =
  mf_Database :: string
  mf_Collection :: string
  mf_Filter :: string
  mf_Project :: string
  mf_Sort :: string
  mf_Skip :: int
  mf_Limit :: int
  mf_MaxTimeMs :: int

definition sort_direction :: "bson \<Rightarrow> bool" where
  "sort_direction v \<longleftrightarrow> v = BVal ''1'' \<or> v = BVal ''-1''"

definition optional_document :: "mongo_world \<Rightarrow> string \<Rightarrow> string \<Rightarrow> string + document" where
  "optional_document m raw message =
     (if raw = [] then Inr [] else case mw_doc m raw of Inl _ \<Rightarrow> Inl message | Inr d \<Rightarrow> Inr d)"

definition bad_collection :: "string \<Rightarrow> bool" where
  "bad_collection c \<longleftrightarrow> trim_space c = [] \<or> CHR 0x00 \<in> set c"

definition find_call :: "mongo_world \<Rightarrow> string \<Rightarrow> MongoFindInput \<Rightarrow> string + mongo_call" where
  "find_call m database i =
     (if bad_collection (mf_Collection i) then Inl ''collection is required''
      else case ParseMongoFilter m (mf_Filter i) of
        Inl e \<Rightarrow> Inl e
      | Inr flt \<Rightarrow>
          (case optional_document m (mf_Sort i) ''sort must be an object of field names and 1 or -1'' of
             Inl e \<Rightarrow> Inl e
           | Inr sorting \<Rightarrow>
               (if \<not> list_all (\<lambda>e. sort_direction (snd e)) sorting then Inl ''sort directions must be 1 or -1''
                else case optional_document m (mf_Project i) ''project must be an object of field names and 0 or 1'' of
                  Inl e \<Rightarrow> Inl e
                | Inr project \<Rightarrow>
                    (if mf_Skip i < 0 then Inl ''skip must be zero or a positive integer''
                     else if mf_MaxTimeMs i < 0 \<or> 600000 < mf_MaxTimeMs i
                     then Inl ''maxTimeMs must be between 0 and 600000''
                     else if mf_Limit i < 1 \<or> 10000 < mf_Limit i then Inl ''limit must be between 1 and 10000''
                     else Inr (Find database (mf_Collection i) flt sorting project (mf_Skip i) (mf_Limit i + 1))))))"

definition mongoFindWith ::
  "mongo_world \<Rightarrow> string \<Rightarrow> MongoFindInput \<Rightarrow> (mongo_call, string list \<times> bool) attempt" where
  "mongoFindWith m database i = attempt (find_call m database i) (read_call m (mf_Limit i))"

record MongoAggregateInput =
  ma_Database :: string
  ma_Collection :: string
  ma_Pipeline :: string
  ma_MaxTimeMs :: int
  ma_Limit :: int

definition aggregate_call :: "mongo_world \<Rightarrow> string \<Rightarrow> MongoAggregateInput \<Rightarrow> string + mongo_call" where
  "aggregate_call m database i =
     (if bad_collection (ma_Collection i) then Inl ''collection is required''
      else case ValidateMongoPipeline m (ma_Pipeline i) of
        Inl e \<Rightarrow> Inl e
      | Inr pipeline \<Rightarrow>
          (if ma_MaxTimeMs i < 0 \<or> 600000 < ma_MaxTimeMs i then Inl ''maxTimeMs must be between 0 and 600000''
           else if ma_Limit i < 1 \<or> 10000 < ma_Limit i then Inl ''limit must be between 1 and 10000''
           else Inr (Aggregate database (ma_Collection i) pipeline)))"

definition MongoAggregate ::
  "mongo_world \<Rightarrow> string \<Rightarrow> MongoAggregateInput \<Rightarrow> (mongo_call, string list \<times> bool) attempt" where
  "MongoAggregate m database i = attempt (aggregate_call m database i) (read_call m (ma_Limit i))"

text \<open>An input that names one document: an insert's, or the one to put in place.\<close>

record MongoDocumentInput =
  md_Database :: string
  md_Collection :: string
  md_Document :: string

definition insert_call :: "mongo_world \<Rightarrow> string \<Rightarrow> string \<Rightarrow> string \<Rightarrow> string + mongo_call" where
  "insert_call m database collection raw =
     (if trim_space collection = [] then Inl ''collection is required''
      else case mw_doc m raw of
        Inl e \<Rightarrow> Inl (''document must be an Extended JSON object: '' @ e)
      | Inr d \<Rightarrow> Inr (InsertOne database collection d))"

definition mongoInsertOneWith :: "mongo_world \<Rightarrow> string \<Rightarrow> string \<Rightarrow> string \<Rightarrow> (mongo_call, int) attempt" where
  "mongoInsertOneWith m database collection raw = attempt (insert_call m database collection raw) (mw_write m)"

record MongoInsertManyInput =
  mm_Database :: string
  mm_Collection :: string
  mm_Documents :: "string list"

fun read_documents :: "mongo_world \<Rightarrow> nat \<Rightarrow> string list \<Rightarrow> string + document list" where
  "read_documents m i [] = Inr []"
| "read_documents m i (raw # raws) =
     (case mw_doc m raw of
        Inl e \<Rightarrow> Inl (''document '' @ decimal (int i + 1) @ '' must be an Extended JSON object: '' @ e)
      | Inr d \<Rightarrow> (case read_documents m (Suc i) raws of Inl e \<Rightarrow> Inl e | Inr ds \<Rightarrow> Inr (d # ds)))"

definition insert_many_call :: "mongo_world \<Rightarrow> string \<Rightarrow> MongoInsertManyInput \<Rightarrow> string + mongo_call" where
  "insert_many_call m database i =
     (if trim_space (mm_Collection i) = [] then Inl ''collection is required''
      else if mm_Documents i = [] then Inl ''at least one document is required''
      else if 10000 < length (mm_Documents i) then Inl ''at most 10000 documents can be inserted at once''
      else case read_documents m 0 (mm_Documents i) of
        Inl e \<Rightarrow> Inl e
      | Inr ds \<Rightarrow> Inr (InsertMany database (mm_Collection i) ds))"

definition MongoInsertMany :: "mongo_world \<Rightarrow> string \<Rightarrow> MongoInsertManyInput \<Rightarrow> (mongo_call, int) attempt" where
  "MongoInsertMany m database i = attempt (insert_many_call m database i) (mw_write m)"

record MongoUpdateInput =
  mu_Database :: string
  mu_Collection :: string
  mu_Filter :: string
  mu_Update :: string

text \<open>The filter of a write: one that restricts something.\<close>

definition write_filter :: "mongo_world \<Rightarrow> string \<Rightarrow> string \<Rightarrow> string \<Rightarrow> string + document" where
  "write_filter m verb collection raw =
     (if trim_space collection = [] then Inl ''collection is required''
      else case ParseMongoFilter m raw of
        Inl e \<Rightarrow> Inl e
      | Inr flt \<Rightarrow>
          (if \<not> mongoHasPredicate flt then Inl (verb @ '' requires a non-empty filter'') else Inr flt))"

definition update_call :: "mongo_world \<Rightarrow> string \<Rightarrow> MongoUpdateInput \<Rightarrow> string + mongo_call" where
  "update_call m database i =
     (case write_filter m ''update'' (mu_Collection i) (mu_Filter i) of
        Inl e \<Rightarrow> Inl e
      | Inr flt \<Rightarrow>
          (case mw_doc m (mu_Update i) of
             Inl e \<Rightarrow> Inl (''update must be an Extended JSON object: '' @ e)
           | Inr update \<Rightarrow>
               (if update = [] then Inl ''update is required''
                else if \<not> list_all (\<lambda>e. prefix ''$'' (fst e)) update
                then Inl ''update must use operators such as $set, $unset or $inc; a full-document replacement is not supported''
                else Inr (UpdateOne database (mu_Collection i) flt update))))"

definition mongoUpdateOneWith :: "mongo_world \<Rightarrow> string \<Rightarrow> MongoUpdateInput \<Rightarrow> (mongo_call, int) attempt" where
  "mongoUpdateOneWith m database i = attempt (update_call m database i) (mw_write m)"

definition replace_call :: "mongo_world \<Rightarrow> string \<Rightarrow> string \<Rightarrow> string \<Rightarrow> string \<Rightarrow> string + mongo_call" where
  "replace_call m database collection raw_filter raw =
     (case write_filter m ''replace'' collection raw_filter of
        Inl e \<Rightarrow> Inl e
      | Inr flt \<Rightarrow>
          (case mw_doc m raw of
             Inl e \<Rightarrow> Inl (''document must be an Extended JSON object: '' @ e)
           | Inr d \<Rightarrow> Inr (ReplaceOne database collection flt d)))"

definition mongoReplaceOneWith ::
  "mongo_world \<Rightarrow> string \<Rightarrow> string \<Rightarrow> string \<Rightarrow> string \<Rightarrow> (mongo_call, int) attempt" where
  "mongoReplaceOneWith m database collection raw_filter raw =
     attempt (replace_call m database collection raw_filter raw) (mw_write m)"

record MongoDeleteInput =
  mx_Database :: string
  mx_Collection :: string
  mx_Filter :: string

definition delete_call :: "mongo_world \<Rightarrow> string \<Rightarrow> MongoDeleteInput \<Rightarrow> string + mongo_call" where
  "delete_call m database i =
     map_sum (\<lambda>e. e) (DeleteOne database (mx_Collection i)) (write_filter m ''delete'' (mx_Collection i) (mx_Filter i))"

definition mongoDeleteOneWith :: "mongo_world \<Rightarrow> string \<Rightarrow> MongoDeleteInput \<Rightarrow> (mongo_call, int) attempt" where
  "mongoDeleteOneWith m database i = attempt (delete_call m database i) (mw_write m)"

end
