(* ===== verification/Mongo_Api.thy ===== *)
theory Mongo_Api
  imports Mongo
begin

section \<open>The handlers and backups of MongoDB (api/mongodb.go, api/mongo_rowbackup.go, api/mongo_transactions.go)\<close>

subsection \<open>Reads\<close>

definition mongodb_only :: string where
  "mongodb_only = ''this connection is not a MongoDB connection''"

definition collection_bytes :: "string \<Rightarrow> bool" where
  "collection_bytes v \<longleftrightarrow> CHR 0x00 \<in> set v \<or> CHR 0x0D \<in> set v \<or> CHR 0x0A \<in> set v"

definition default_limit :: "int \<Rightarrow> int" where
  "default_limit n = (if n = 0 then 100 else n)"

definition mongoFind ::
  "server \<Rightarrow> unit world \<Rightarrow> mongo_world \<Rightarrow> (MongoFindInput \<Rightarrow> string) \<Rightarrow> Identity \<Rightarrow> Connection option \<Rightarrow>
   string option \<Rightarrow> MongoFindInput option \<Rightarrow> (mongo_call, 'item) nosql_event list" where
  "mongoFind s w m enc identity found opened decoded =
     nosql_request s identity found {''mongodb''} mongodb_only decoded (\<lambda>connection input.
       (let i = input\<lparr>mf_Collection := trim_space (mf_Collection input), mf_Limit := default_limit (mf_Limit input)\<rparr> in
        if mf_Collection i = [] \<or> collection_bytes (mf_Collection i) then bad_request ''collection is required''
        else if mf_Limit i < 1 \<or> 10000 < mf_Limit i then bad_request ''limit must be between 1 and 10000''
        else case ParseMongoFilter m (mf_Filter i) of
          Inl e \<Rightarrow> bad_request e
        | Inr flt \<Rightarrow>
            (let database = request_database (mf_Database i) connection in
             guarded_read s w identity connection opened
               (nosqlStatement Select database (mf_Collection i) (mongoFilterHasPredicate flt)) (enc i) (\<lambda>limit t.
                 performed (enc i) False t (\<lambda>r. int (length (fst r)))
                   (mongoFindWith m database (i\<lparr>mf_Limit := cap_rows limit (mf_Limit i)\<rparr>))))))"

definition mongoAggregate ::
  "server \<Rightarrow> unit world \<Rightarrow> mongo_world \<Rightarrow> (MongoAggregateInput \<Rightarrow> string) \<Rightarrow> Identity \<Rightarrow> Connection option \<Rightarrow>
   string option \<Rightarrow> MongoAggregateInput option \<Rightarrow> (mongo_call, 'item) nosql_event list" where
  "mongoAggregate s w m enc identity found opened decoded =
     nosql_request s identity found {''mongodb''} mongodb_only decoded (\<lambda>connection input.
       (let i = input\<lparr>ma_Collection := trim_space (ma_Collection input), ma_Limit := default_limit (ma_Limit input)\<rparr> in
        if ma_Collection i = [] \<or> collection_bytes (ma_Collection i) then bad_request ''collection is required''
        else if ma_Limit i < 1 \<or> 10000 < ma_Limit i then bad_request ''limit must be between 1 and 10000''
        else case ValidateMongoPipeline m (ma_Pipeline i) of
          Inl e \<Rightarrow> bad_request e
        | Inr _ \<Rightarrow>
            (let database = request_database (ma_Database i) connection in
             guarded_read s w identity connection opened
               (nosqlStatement Select database (ma_Collection i) True) (enc i) (\<lambda>limit t.
                 performed (enc i) False t (\<lambda>r. int (length (fst r)))
                   (MongoAggregate m database (i\<lparr>ma_Limit := cap_rows limit (ma_Limit i)\<rparr>))))))"

subsection \<open>Inserts\<close>

definition mongoInsert ::
  "server \<Rightarrow> unit world \<Rightarrow> mongo_world \<Rightarrow> (MongoDocumentInput \<Rightarrow> string) \<Rightarrow> Identity \<Rightarrow> Connection option \<Rightarrow>
   string option \<Rightarrow> MongoDocumentInput option \<Rightarrow> (mongo_call, 'item) nosql_event list" where
  "mongoInsert s w m enc identity found opened decoded =
     nosql_request s identity found {''mongodb''} mongodb_only decoded (\<lambda>connection input.
       (let i = input\<lparr>md_Collection := trim_space (md_Collection input)\<rparr> in
        if md_Collection i = [] then bad_request ''collection is required''
        else
          (let database = request_database (md_Database i) connection in
           guarded_write s w identity connection opened
             (nosqlStatement Insert database (md_Collection i) False) (enc i) (\<lambda>t.
               performed (enc i) False t (\<lambda>_. 1) (mongoInsertOneWith m database (md_Collection i) (md_Document i))))))"

definition mongoInsertMany ::
  "server \<Rightarrow> unit world \<Rightarrow> mongo_world \<Rightarrow> (MongoInsertManyInput \<Rightarrow> string) \<Rightarrow> Identity \<Rightarrow> Connection option \<Rightarrow>
   string option \<Rightarrow> MongoInsertManyInput option \<Rightarrow> (mongo_call, 'item) nosql_event list" where
  "mongoInsertMany s w m enc identity found opened decoded =
     nosql_request s identity found {''mongodb''} mongodb_only decoded (\<lambda>connection input.
       (let i = input\<lparr>mm_Collection := trim_space (mm_Collection input)\<rparr> in
        if mm_Collection i = [] then bad_request ''collection is required''
        else if mm_Documents i = [] then bad_request ''at least one document is required''
        else if 10000 < length (mm_Documents i) then bad_request ''at most 10000 documents can be inserted at once''
        else
          (let database = request_database (mm_Database i) connection in
           guarded_write s w identity connection opened
             (nosqlStatement Insert database (mm_Collection i) False) (enc i) (\<lambda>t.
               performed (enc i) False t (\<lambda>n. n) (MongoInsertMany m database i)))))"

subsection \<open>Backups\<close>

record mongoBackupPayload =
  mp_BackupID :: string
  mp_UserID :: string
  mp_Statement :: string
  mp_Collection :: string
  mp_Documents :: "string list"

definition mongoFinishBackupCapture ::
  "unicode \<Rightarrow> (mongoBackupPayload, 's) backup_store \<Rightarrow> Identity \<Rightarrow> Connection \<Rightarrow> string \<Rightarrow> string \<Rightarrow> string \<Rightarrow>
   string \<Rightarrow> string + string list \<times> bool \<Rightarrow> 's captured" where
  "mongoFinishBackupCapture u b identity connection database collection kind statement found =
     (case found of
        Inl e \<Rightarrow> CaptureSkipped (''the changed documents could not be read: '' @ e)
      | Inr (docs, longer) \<Rightarrow>
          (if longer
           then CaptureBlocked (''This '' @ to_upper u kind @ '' changes more than ''
                  @ decimal (int rowBackupLimit) @ '' documents, too many to back up.'')
           else if docs = [] then NothingToBackUp
           else keep_backup b identity connection database collection kind (length docs)
                  \<lparr>mp_BackupID = bs_fresh_id b, mp_UserID = UserID identity, mp_Statement = statement,
                   mp_Collection = collection, mp_Documents = docs\<rparr>))"

definition backup_find :: "string \<Rightarrow> string \<Rightarrow> MongoFindInput" where
  "backup_find collection raw_filter =
     \<lparr>mf_Database = [], mf_Collection = collection, mf_Filter = raw_filter, mf_Project = [], mf_Sort = [],
      mf_Skip = 0, mf_Limit = int rowBackupLimit, mf_MaxTimeMs = 0\<rparr>"

text \<open>Before a write on its own, or in a transaction, whose session then answers.\<close>

definition mongoCaptureBackup ::
  "unicode \<Rightarrow> mongo_world \<Rightarrow> (mongoBackupPayload, 's) backup_store \<Rightarrow> Identity \<Rightarrow> Connection \<Rightarrow> string \<Rightarrow> string \<Rightarrow>
   string \<Rightarrow> string \<Rightarrow> string \<Rightarrow> 's captured \<times> mongo_call option" where
  "mongoCaptureBackup u m b identity connection database collection kind statement raw_filter =
     (if \<not> bs_vault b then (NothingToBackUp, None)
      else
        (let tried = mongoFindWith m database (backup_find collection raw_filter) in
         (mongoFinishBackupCapture u b identity connection database collection kind statement (snd tried), fst tried)))"

subsection \<open>Updates and deletes\<close>

text \<open>The statement the policies are asked about.\<close>

definition mongo_filtered ::
  "mongo_world \<Rightarrow> kind \<Rightarrow> string \<Rightarrow> string \<Rightarrow> string \<Rightarrow> (Info \<Rightarrow> ('c, 'item) nosql_event list) \<Rightarrow>
   ('c, 'item) nosql_event list" where
  "mongo_filtered m k database collection raw_filter continue =
     (if collection = [] then bad_request ''collection is required''
      else case ParseMongoFilter m raw_filter of
        Inl e \<Rightarrow> bad_request e
      | Inr flt \<Rightarrow> continue (nosqlStatement k database collection (mongoFilterHasPredicate flt)))"

definition mongoUpdate ::
  "server \<Rightarrow> unit world \<Rightarrow> mongo_world \<Rightarrow> (mongoBackupPayload, 's) backup_store \<Rightarrow> (MongoUpdateInput \<times> bool \<Rightarrow> string) \<Rightarrow>
   Identity \<Rightarrow> Connection option \<Rightarrow> string option \<Rightarrow> (MongoUpdateInput \<times> bool) option \<Rightarrow>
   (mongo_call, 's RowBackup) nosql_event list" where
  "mongoUpdate s w m b enc identity found opened decoded =
     nosql_request s identity found {''mongodb''} mongodb_only decoded (\<lambda>connection (input, wanted).
       (let i = input\<lparr>mu_Collection := trim_space (mu_Collection input)\<rparr>; raw = enc (i, wanted);
            database = request_database (mu_Database i) connection in
        mongo_filtered m Update database (mu_Collection i) (mu_Filter i) (\<lambda>info.
          guarded_write s w identity connection opened info raw (\<lambda>t.
            backed_up_write wanted t
              (mongoCaptureBackup (srv_tables s) m b identity connection database (mu_Collection i) ''update'' raw (mu_Filter i))
              (\<lambda>noted. performed raw noted t (\<lambda>n. n) (mongoUpdateOneWith m database i))))))"

definition mongoDelete ::
  "server \<Rightarrow> unit world \<Rightarrow> mongo_world \<Rightarrow> (mongoBackupPayload, 's) backup_store \<Rightarrow> (MongoDeleteInput \<times> bool \<Rightarrow> string) \<Rightarrow>
   Identity \<Rightarrow> Connection option \<Rightarrow> string option \<Rightarrow> (MongoDeleteInput \<times> bool) option \<Rightarrow>
   (mongo_call, 's RowBackup) nosql_event list" where
  "mongoDelete s w m b enc identity found opened decoded =
     nosql_request s identity found {''mongodb''} mongodb_only decoded (\<lambda>connection (input, wanted).
       (let i = input\<lparr>mx_Collection := trim_space (mx_Collection input)\<rparr>; raw = enc (i, wanted);
            database = request_database (mx_Database i) connection in
        mongo_filtered m Delete database (mx_Collection i) (mx_Filter i) (\<lambda>info.
          guarded_write s w identity connection opened info raw (\<lambda>t.
            backed_up_write wanted t
              (mongoCaptureBackup (srv_tables s) m b identity connection database (mx_Collection i) ''delete'' raw (mx_Filter i))
              (\<lambda>noted. performed raw noted t (\<lambda>n. n) (mongoDeleteOneWith m database i))))))"

subsection \<open>Writes in a transaction\<close>

text \<open>
  \<open>txn_entry\<close> is what \<open>mongoTransactionEntry\<close> gives for the connection: a refusal, or the database of
  the transaction. The session has no deadline, which is the 0 of the calls.
\<close>

definition txn_request ::
  "server \<Rightarrow> Identity \<Rightarrow> Connection option \<Rightarrow> (Connection \<Rightarrow> response + string) \<Rightarrow> 'input option \<Rightarrow>
   (Connection \<Rightarrow> string \<Rightarrow> 'input \<Rightarrow> ('call, 'item) nosql_event list) \<Rightarrow> ('call, 'item) nosql_event list" where
  "txn_request s identity found txn_entry decoded continue =
     (case authorizedConnection (srv_access s) identity found of
        Inl refusal \<Rightarrow> answered refusal
      | Inr connection \<Rightarrow>
          (case txn_entry connection of
             Inl refusal \<Rightarrow> answered refusal
           | Inr database \<Rightarrow>
               (case decoded of
                  None \<Rightarrow> bad_request ''invalid JSON request''
                | Some input \<Rightarrow> continue connection database input)))"

definition txn_guarded ::
  "server \<Rightarrow> unit world \<Rightarrow> Identity \<Rightarrow> Connection \<Rightarrow> Info \<Rightarrow> string \<Rightarrow> ('call, 'item) nosql_event list \<Rightarrow>
   ('call, 'item) nosql_event list" where
  "txn_guarded s w identity connection info raw continue =
     (case nosqlPolicyAllowed s w identity connection info raw of
        Inl evs \<Rightarrow> map Event evs
      | Inr _ \<Rightarrow> continue)"

definition mongoTxnInsert ::
  "server \<Rightarrow> unit world \<Rightarrow> mongo_world \<Rightarrow> (MongoDocumentInput \<Rightarrow> string) \<Rightarrow> Identity \<Rightarrow> Connection option \<Rightarrow>
   (Connection \<Rightarrow> response + string) \<Rightarrow> MongoDocumentInput option \<Rightarrow> (mongo_call, 'item) nosql_event list" where
  "mongoTxnInsert s w m enc identity found txn_entry decoded =
     txn_request s identity found txn_entry decoded (\<lambda>connection database input.
       (let i = input\<lparr>md_Collection := trim_space (md_Collection input)\<rparr> in
        if md_Collection i = [] then bad_request ''collection is required''
        else txn_guarded s w identity connection (nosqlStatement Insert database (md_Collection i) False) (enc i)
          (performed (enc i) False 0 (\<lambda>_. 1) (mongoInsertOneWith m database (md_Collection i) (md_Document i)))))"

definition mongoTxnUpdate ::
  "server \<Rightarrow> unit world \<Rightarrow> mongo_world \<Rightarrow> (mongoBackupPayload, 's) backup_store \<Rightarrow> (MongoUpdateInput \<times> bool \<Rightarrow> string) \<Rightarrow>
   Identity \<Rightarrow> Connection option \<Rightarrow> (Connection \<Rightarrow> response + string) \<Rightarrow> (MongoUpdateInput \<times> bool) option \<Rightarrow>
   (mongo_call, 's RowBackup) nosql_event list" where
  "mongoTxnUpdate s w m b enc identity found txn_entry decoded =
     txn_request s identity found txn_entry decoded (\<lambda>connection database (input, wanted).
       (let i = input\<lparr>mu_Collection := trim_space (mu_Collection input)\<rparr>; raw = enc (i, wanted) in
        mongo_filtered m Update database (mu_Collection i) (mu_Filter i) (\<lambda>info.
          txn_guarded s w identity connection info raw
            (backed_up_write wanted 0
              (mongoCaptureBackup (srv_tables s) m b identity connection database (mu_Collection i) ''update'' raw (mu_Filter i))
              (\<lambda>noted. performed raw noted 0 (\<lambda>n. n) (mongoUpdateOneWith m database i))))))"

definition mongoTxnDelete ::
  "server \<Rightarrow> unit world \<Rightarrow> mongo_world \<Rightarrow> (mongoBackupPayload, 's) backup_store \<Rightarrow> (MongoDeleteInput \<times> bool \<Rightarrow> string) \<Rightarrow>
   Identity \<Rightarrow> Connection option \<Rightarrow> (Connection \<Rightarrow> response + string) \<Rightarrow> (MongoDeleteInput \<times> bool) option \<Rightarrow>
   (mongo_call, 's RowBackup) nosql_event list" where
  "mongoTxnDelete s w m b enc identity found txn_entry decoded =
     txn_request s identity found txn_entry decoded (\<lambda>connection database (input, wanted).
       (let i = input\<lparr>mx_Collection := trim_space (mx_Collection input)\<rparr>; raw = enc (i, wanted) in
        mongo_filtered m Delete database (mx_Collection i) (mx_Filter i) (\<lambda>info.
          txn_guarded s w identity connection info raw
            (backed_up_write wanted 0
              (mongoCaptureBackup (srv_tables s) m b identity connection database (mx_Collection i) ''delete'' raw (mx_Filter i))
              (\<lambda>noted. performed raw noted 0 (\<lambda>n. n) (mongoDeleteOneWith m database i))))))"

subsection \<open>Restores\<close>

definition openMongoRowBackup ::
  "bool \<Rightarrow> ('s \<Rightarrow> string + mongoBackupPayload) \<Rightarrow> 's RowBackup \<Rightarrow> string + mongoBackupPayload" where
  "openMongoRowBackup vault unseal = open_backup vault unseal (\<lambda>p. (mp_BackupID p, mp_UserID p))"

definition sqlKindFor :: "string \<Rightarrow> kind" where
  "sqlKindFor backupKind = (if backupKind = ''delete'' then Insert else Update)"

definition restore_document ::
  "mongo_world \<Rightarrow> string \<Rightarrow> string \<Rightarrow> string \<Rightarrow> string \<Rightarrow> (mongo_call, int) attempt" where
  "restore_document m database kind collection doc =
     (if kind = ''delete'' then mongoInsertOneWith m database collection doc
      else case mw_id m doc of
        Inl e \<Rightarrow> (None, Inl e)
      | Inr raw_filter \<Rightarrow> mongoReplaceOneWith m database collection raw_filter doc)"

text \<open>The k-th write meets the answers \<open>replies k\<close>.\<close>

fun mongoApplyRestore ::
  "mongo_world \<Rightarrow> (nat \<Rightarrow> mongo_call \<Rightarrow> string + int) \<Rightarrow> string \<Rightarrow> string \<Rightarrow> string \<Rightarrow> nat \<Rightarrow> nat \<Rightarrow> string list \<Rightarrow>
   mongo_call list \<times> int \<times> string option" where
  "mongoApplyRestore m replies database kind collection overall k [] = ([], int k, None)"
| "mongoApplyRestore m replies database kind collection overall k (doc # docs) =
     (case restore_document (m\<lparr>mw_write := replies k\<rparr>) database kind collection doc of
        (call, Inl e) \<Rightarrow>
          (case call of None \<Rightarrow> [] | Some c \<Rightarrow> [c], int k,
           Some (''after restoring '' @ decimal (int k) @ '' of '' @ decimal (int overall) @ '' document(s): '' @ e))
      | (call, Inr _) \<Rightarrow>
          (case mongoApplyRestore m replies database kind collection overall (Suc k) docs of
             (calls, n, err) \<Rightarrow> ((case call of None \<Rightarrow> [] | Some c \<Rightarrow> [c]) @ calls, n, err)))"

definition applyMongoRowBackup ::
  "server \<Rightarrow> unit world \<Rightarrow> mongo_world \<Rightarrow> (nat \<Rightarrow> mongo_call \<Rightarrow> string + int) \<Rightarrow> bool \<Rightarrow>
   ('s \<Rightarrow> string + mongoBackupPayload) \<Rightarrow> Identity \<Rightarrow> Connection \<Rightarrow> string option \<Rightarrow> 's RowBackup \<Rightarrow>
   (mongo_call, 's RowBackup) nosql_event list" where
  "applyMongoRowBackup s w m replies vault unseal identity connection opened item =
     (case openMongoRowBackup vault unseal item of
        Inl _ \<Rightarrow> answered (Refused 500 ''INTERNAL'' ''the backup could not be read'')
      | Inr payload \<Rightarrow>
          (if mp_Documents payload = [] then answered (Answer 200)
           else nosql_restore s w identity connection opened
             (nosqlStatement (sqlKindFor (rb_Kind item)) (rb_Database item) (mp_Collection payload) True)
             (mp_Statement payload)
             (''-- Row backup restore: '' @ decimal (int (rb_Rows item)) @ '' document(s) of ''
                @ mp_Collection payload @ [CHR 0x0A] @ mp_Statement payload)
             (mongoApplyRestore m replies (rb_Database item) (rb_Kind item) (mp_Collection payload)
                (length (mp_Documents payload)) 0 (mp_Documents payload))))"

text \<open>The text for review.\<close>

definition script_line :: "mongo_world \<Rightarrow> string \<Rightarrow> string \<Rightarrow> string \<Rightarrow> string" where
  "script_line m kind collection doc =
     (if kind = ''delete'' then ''db.'' @ collection @ ''.insertOne('' @ doc @ '');'' @ [CHR 0x0A]
      else case mw_id m doc of
        Inl _ \<Rightarrow> ''// skipped a document with no _id'' @ [CHR 0x0A]
      | Inr i \<Rightarrow> ''db.'' @ collection @ ''.replaceOne('' @ i @ '', '' @ doc @ '');'' @ [CHR 0x0A])"

definition arrow :: string where
  "arrow = [CHR 0xE2, CHR 0x86, CHR 0x92]"

definition mongoRestoreScript :: "unicode \<Rightarrow> mongo_world \<Rightarrow> 's RowBackup \<Rightarrow> mongoBackupPayload \<Rightarrow> string" where
  "mongoRestoreScript u m item payload =
     ''// Restores '' @ decimal (int (rb_Rows item)) @ '' document(s) of '' @ mp_Collection payload
     @ '' backed up before this '' @ to_upper u (rb_Kind item) @ '':'' @ [CHR 0x0A]
     @ comment_lines ''//   '' (mp_Statement payload)
     @ ''// For review only: the Studio query bar understands find()/aggregate(),'' @ [CHR 0x0A]
     @ ''// not these calls. Use Activity '' @ arrow @ '' Row backups '' @ arrow @ '' Restore to actually apply them.''
     @ [CHR 0x0A, CHR 0x0A]
     @ concat (map (script_line m (rb_Kind item) (mp_Collection payload)) (mp_Documents payload))"

end
