(* ===== verification/Mongo_Properties.thy ===== *)
theory Mongo_Properties
  imports Mongo_Api Clients_Properties
begin

section \<open>What holds of the MongoDB handlers\<close>

text \<open>
  The guard counts a filter as restricting exactly when some document is left out by it; what
  reaches the server was judged, is one collection's, and runs no code of its own; a restore
  puts the saved documents back and reports how far it came.
\<close>

subsection \<open>Filters\<close>

text \<open>
  Which documents a filter of fields, \<open>$and\<close> and \<open>$or\<close> matches, given what its field
  conditions say of the document: MongoDB asks all entries, all clauses of an \<open>$and\<close> and one of
  an \<open>$or\<close>; it refuses empty lists of clauses.
\<close>

function logical_filter :: "document \<Rightarrow> bool" where
  "logical_filter flt \<longleftrightarrow>
     list_all (\<lambda>(key, v). \<not> prefix ''$'' key \<or>
       ((key = ''$and'' \<or> key = ''$or'')
        \<and> (case v of BArr clauses \<Rightarrow>
              clauses \<noteq> [] \<and> list_all (\<lambda>c. case c of BDoc d \<Rightarrow> logical_filter d | _ \<Rightarrow> False) clauses
            | _ \<Rightarrow> False))) flt"
  by pat_completeness auto
termination by (relation "measure (size_list (size_prod (\<lambda>_. 0) size))") (auto dest: document_smaller)

function doc_matches :: "(string \<Rightarrow> bson \<Rightarrow> bool) \<Rightarrow> document \<Rightarrow> bool" where
  "doc_matches p flt \<longleftrightarrow>
     list_all (\<lambda>(key, v).
       if \<not> prefix ''$'' key then p key v
       else (case v of
          BArr clauses \<Rightarrow>
            (if key = ''$and'' then list_all (\<lambda>c. case c of BDoc d \<Rightarrow> doc_matches p d | _ \<Rightarrow> False) clauses
             else list_ex (\<lambda>c. case c of BDoc d \<Rightarrow> doc_matches p d | _ \<Rightarrow> False) clauses)
        | _ \<Rightarrow> False)) flt"
  by pat_completeness auto
termination by (relation "measure (\<lambda>(p, f). size_list (size_prod (\<lambda>_. 0) size) f)") (auto dest: document_smaller)

declare logical_filter.simps [simp del] doc_matches.simps [simp del]

text \<open>Both ways by induction on the size; \<open>clause_is\<close> speaks of one clause.\<close>

definition clause_is :: "(document \<Rightarrow> bool) \<Rightarrow> bson \<Rightarrow> bool" where
  "clause_is P c \<longleftrightarrow> (case c of BDoc d \<Rightarrow> P d | _ \<Rightarrow> False)"

lemma clause_is_doc: "clause_is P c \<longleftrightarrow> (\<exists>d. c = BDoc d \<and> P d)"
  by (simp add: clause_is_def split: bson.splits)

lemma clause_is_eq: "case_bson P (\<lambda>_. False) (\<lambda>_. False) = clause_is P"
  by (rule ext) (simp add: clause_is_def)

lemma filter_unfolded:
  "mongoFilterHasPredicate flt \<longleftrightarrow> (\<exists>(key, v) \<in> set flt. \<not> prefix ''$'' key \<or>
     (\<exists>cs. v = BArr cs \<and> cs \<noteq> [] \<and> (key = ''$and'' \<and> list_ex (clause_is mongoFilterHasPredicate) cs
        \<or> key = ''$or'' \<and> list_all (clause_is mongoFilterHasPredicate) cs)))"
  unfolding mongoFilterHasPredicate.simps [of flt] clause_is_eq list_ex_iff [of _ flt]
  by (rule bex_cong [OF refl], rename_tac e, case_tac e, case_tac "snd e") simp_all

lemma logical_unfolded:
  "logical_filter flt \<longleftrightarrow> (\<forall>(key, v) \<in> set flt. \<not> prefix ''$'' key \<or>
     (\<exists>cs. v = BArr cs \<and> cs \<noteq> [] \<and> (key = ''$and'' \<or> key = ''$or'') \<and> list_all (clause_is logical_filter) cs))"
  unfolding logical_filter.simps [of flt] clause_is_eq list_all_iff [of _ flt]
  by (rule ball_cong [OF refl], rename_tac e, case_tac e, case_tac "snd e") auto

lemma matches_unfolded:
  "doc_matches p flt \<longleftrightarrow> (\<forall>(key, v) \<in> set flt. if \<not> prefix ''$'' key then p key v
     else (\<exists>cs. v = BArr cs \<and> (if key = ''$and'' then list_all (clause_is (doc_matches p)) cs
        else list_ex (clause_is (doc_matches p)) cs)))"
  unfolding doc_matches.simps [of p flt] clause_is_eq list_all_iff [of _ flt]
  by (rule ball_cong [OF refl], rename_tac e, case_tac e, case_tac "snd e") auto

lemma predicate_restricts:
  "logical_filter flt \<Longrightarrow> doc_matches (\<lambda>_ _. False) flt \<longleftrightarrow> \<not> mongoFilterHasPredicate flt"
proof (induction flt rule: measure_induct_rule [where f = "size_list (size_prod (\<lambda>_. 0) size)"])
  case (less flt)
  have entry: "(if \<not> prefix ''$'' key then False
       else (\<exists>cs. v = BArr cs \<and> (if key = ''$and'' then list_all (clause_is (doc_matches (\<lambda>_ _. False))) cs
        else list_ex (clause_is (doc_matches (\<lambda>_ _. False))) cs)))
    \<longleftrightarrow> \<not> (\<not> prefix ''$'' key \<or>
     (\<exists>cs. v = BArr cs \<and> cs \<noteq> [] \<and> (key = ''$and'' \<and> list_ex (clause_is mongoFilterHasPredicate) cs
        \<or> key = ''$or'' \<and> list_all (clause_is mongoFilterHasPredicate) cs)))"
    if e: "(key, v) \<in> set flt" for key v
  proof (cases "prefix ''$'' key")
    case True
    with less.prems e obtain cs where v: "v = BArr cs" "cs \<noteq> []" "key = ''$and'' \<or> key = ''$or''"
      and cs: "list_all (clause_is logical_filter) cs"
      by (auto simp: logical_unfolded [of flt])
    have "clause_is (doc_matches (\<lambda>_ _. False)) c \<longleftrightarrow> \<not> clause_is mongoFilterHasPredicate c" if c: "c \<in> set cs" for c
    proof -
      from cs c obtain d where d: "c = BDoc d" "logical_filter d" by (auto simp: list_all_iff clause_is_doc)
      from document_smaller [of d cs key flt] c e less.IH [of d] d show ?thesis
        by (simp add: clause_is_def v(1))
    qed
    with v show ?thesis by (auto simp: list_all_iff list_ex_iff)
  qed simp
  show ?case unfolding matches_unfolded [of _ flt] filter_unfolded [of flt] using entry by fast
qed

lemma no_predicate_matches:
  "logical_filter flt \<Longrightarrow> \<not> mongoFilterHasPredicate flt \<Longrightarrow> doc_matches p flt"
proof (induction flt rule: measure_induct_rule [where f = "size_list (size_prod (\<lambda>_. 0) size)"])
  case (less flt)
  have "if \<not> prefix ''$'' key then p key v
     else (\<exists>cs. v = BArr cs \<and> (if key = ''$and'' then list_all (clause_is (doc_matches p)) cs
        else list_ex (clause_is (doc_matches p)) cs))" if e: "(key, v) \<in> set flt" for key v
  proof -
    from less.prems(2) e have dollar: "prefix ''$'' key" unfolding filter_unfolded [of flt] by blast
    with less.prems(1) e obtain cs where v: "v = BArr cs" "cs \<noteq> []" "key = ''$and'' \<or> key = ''$or''"
      and cs: "list_all (clause_is logical_filter) cs"
      by (auto simp: logical_unfolded [of flt])
    have open_clause: "clause_is (doc_matches p) c" if c: "c \<in> set cs" "\<not> clause_is mongoFilterHasPredicate c" for c
    proof -
      from cs c(1) obtain d where d: "c = BDoc d" "logical_filter d" by (auto simp: list_all_iff clause_is_doc)
      from document_smaller [of d cs key flt] c e less.IH [of d] d show ?thesis
        by (simp add: clause_is_def v(1))
    qed
    from less.prems(2) e v have "key = ''$and'' \<and> \<not> list_ex (clause_is mongoFilterHasPredicate) cs
        \<or> key = ''$or'' \<and> \<not> list_all (clause_is mongoFilterHasPredicate) cs"
      unfolding filter_unfolded [of flt] by blast
    with open_clause show ?thesis by (auto simp: v(1) dollar list_all_iff list_ex_iff)
  qed
  then show ?case unfolding matches_unfolded [of p flt] by blast
qed


definition nested_filter :: document where
  "nested_filter = [(''$or'', BArr [BDoc [(''a'', BVal ''1'')], BDoc [(''$and'', BArr [BDoc []])]])]"


text \<open>The engine's own check is weaker: it takes any non-empty list of clauses for a restriction.\<close>

lemma engine_check_is_weaker: "mongoFilterHasPredicate flt \<Longrightarrow> mongoHasPredicate flt"
  unfolding filter_unfolded [of flt] mongoHasPredicate_def list_ex_iff
  by (rule bexE) (assumption, rule bexI, auto)

lemma engine_takes_open_filter: "mongoHasPredicate nested_filter"
  by code_simp

subsection \<open>What reaches the server\<close>

text \<open>The keys of a document, at any depth.\<close>

fun keys_of :: "bson \<Rightarrow> string set" where
  "keys_of (BDoc es) = (\<Union>e \<in> set es. insert (fst e) (keys_of (snd e)))"
| "keys_of (BArr vs) = (\<Union>v \<in> set vs. keys_of v)"
| "keys_of (BVal _) = {}"

lemma reject_js_keys: "reject_js v \<longleftrightarrow> keys_of v \<inter> js_keys \<noteq> {}"
  by (induction v rule: reject_js.induct) (auto simp: list_ex_iff)

lemma parsed_filter: "ParseMongoFilter m raw = Inr flt \<Longrightarrow> keys_of (BDoc flt) \<inter> js_keys = {}"
  unfolding ParseMongoFilter_def reject_js_keys by (simp del: keys_of.simps split: sum.splits if_splits)

lemma write_filter_parsed:
  "write_filter m verb collection raw = Inr flt \<Longrightarrow> ParseMongoFilter m raw = Inr flt"
  by (auto simp: write_filter_def split: sum.splits if_splits)

lemma update_call_inr:
  assumes "update_call m database i = Inr c"
  shows "\<exists>flt upd. c = UpdateOne database (mu_Collection i) flt upd \<and> ParseMongoFilter m (mu_Filter i) = Inr flt
    \<and> upd \<noteq> [] \<and> list_all (\<lambda>e. prefix ''$'' (fst e)) upd"
  using assms write_filter_parsed [of m _ "mu_Collection i" "mu_Filter i"]
  by (auto simp: update_call_def split: sum.splits if_splits)

lemma delete_call_inr:
  assumes "delete_call m database i = Inr c"
  shows "\<exists>flt. c = DeleteOne database (mx_Collection i) flt \<and> ParseMongoFilter m (mx_Filter i) = Inr flt"
  using assms write_filter_parsed [of m "''delete''" "mx_Collection i" "mx_Filter i"]
  by (cases "write_filter m ''delete'' (mx_Collection i) (mx_Filter i)") (auto simp: delete_call_def)

lemma backup_call_inr:
  assumes "snd (mongoCaptureBackup u m b identity connection database collection kind statement raw) = Some c"
  shows "\<exists>flt. c = Find database collection flt [] [] 0 10001 \<and> ParseMongoFilter m raw = Inr flt"
  using assms
  by (auto simp: mongoCaptureBackup_def mongoFindWith_def attempt_call find_call_def backup_find_def Let_def
      optional_document_def rowBackupLimit_def split: if_splits sum.splits)

lemma mongo_filtered_calls:
  assumes "x \<in> set (calls_of (mongo_filtered m k database collection raw continue))"
  obtains flt where "ParseMongoFilter m raw = Inr flt"
    and "x \<in> set (calls_of (continue (nosqlStatement k database collection (mongoFilterHasPredicate flt))))"
  using assms by (auto simp: mongo_filtered_def split: if_splits sum.splits)

text \<open>What the handlers of updates and deletes do once they know the connection.\<close>

lemma mongo_change_calls:
  assumes "x \<in> set (calls_of (mongo_filtered m k database collection raw (\<lambda>info.
      guarded_write s w identity connection opened info body (\<lambda>t.
        backed_up_write wanted t (mongoCaptureBackup u m b identity connection database collection kind body raw)
          (\<lambda>noted. performed body noted t rows (attempt call (mw_write m)))))))"
  obtains flt where "ParseMongoFilter m raw = Inr flt" and "keys_of (BDoc flt) \<inter> js_keys = {}"
    and "nosqlWriteGuard s w identity connection opened
           (nosqlStatement k database collection (mongoFilterHasPredicate flt)) body = Inr (snd x)"
    and "wanted \<and> fst x = Find database collection flt [] [] 0 10001 \<or> call = Inr (fst x)"
  using assms
proof (rule mongo_filtered_calls)
  fix flt
  assume parsed: "ParseMongoFilter m raw = Inr flt"
    and rest: "x \<in> set (calls_of (guarded_write s w identity connection opened
      (nosqlStatement k database collection (mongoFilterHasPredicate flt)) body (\<lambda>t.
        backed_up_write wanted t (mongoCaptureBackup u m b identity connection database collection kind body raw)
          (\<lambda>noted. performed body noted t rows (attempt call (mw_write m))))))"
  from rest show ?thesis
  proof (rule guarded_write_calls)
    fix timeout
    assume guard: "nosqlWriteGuard s w identity connection opened
        (nosqlStatement k database collection (mongoFilterHasPredicate flt)) body = Inr timeout"
      and rest: "x \<in> set (calls_of (backed_up_write wanted timeout
          (mongoCaptureBackup u m b identity connection database collection kind body raw)
          (\<lambda>noted. performed body noted timeout rows (attempt call (mw_write m)))))"
    from rest have "snd x = timeout \<and> (wanted \<and> fst x = Find database collection flt [] [] 0 10001 \<or> call = Inr (fst x))"
    proof (cases rule: backed_up_write_calls)
      case (1 c)
      with backup_call_inr [OF 1(2)] parsed show ?thesis by auto
    next
      case (2 noted)
      then show ?thesis by (auto simp: attempt_call split: option.splits)
    qed
    with parsed guard parsed_filter [OF parsed] show ?thesis by (intro that) auto
  qed
qed

text \<open>C37: an update of documents is judged as what it is. Whatever reaches the server for an update
  request goes to the connection and database the policies were asked about, in their time, with
  the one filter they were asked about; the policies knew whether that filter restricts anything;
  the filter carries no server-side JavaScript at any depth; the write is one update of one
  document by operators, never a replacement, and the read before it is of at most 10,001.\<close>

theorem mongo_updates_are_judged:
  assumes "(call, t) \<in> set (calls_of (mongoUpdate s w m b enc identity found opened (Some (input, wanted))))"
  shows "\<exists>connection flt. authorizedConnection (srv_access s) identity found = Inr connection
    \<and> conn_Engine connection = ''mongodb'' \<and> ParseMongoFilter m (mu_Filter input) = Inr flt
    \<and> keys_of (BDoc flt) \<inter> js_keys = {}
    \<and> (let database = request_database (mu_Database input) connection; collection = trim_space (mu_Collection input) in
       nosqlWriteGuard s w identity connection opened
         (nosqlStatement Update database collection (mongoFilterHasPredicate flt))
         (enc (input\<lparr>mu_Collection := collection\<rparr>, wanted)) = Inr t
       \<and> (wanted \<and> call = Find database collection flt [] [] 0 10001
          \<or> (\<exists>upd. call = UpdateOne database collection flt upd \<and> upd \<noteq> [] \<and> list_all (\<lambda>e. prefix ''$'' (fst e)) upd)))"
proof -
  let ?i = "input\<lparr>mu_Collection := trim_space (mu_Collection input)\<rparr>"
  let ?database = "request_database (mu_Database input)"
  from assms obtain connection where 1: "authorizedConnection (srv_access s) identity found = Inr connection"
    "conn_Engine connection = ''mongodb''"
    and rest: "(call, t) \<in> set (calls_of (mongo_filtered m Update (?database connection) (mu_Collection ?i)
      (mu_Filter ?i) (\<lambda>info. guarded_write s w identity connection opened info (enc (?i, wanted)) (\<lambda>t.
        backed_up_write wanted t (mongoCaptureBackup (srv_tables s) m b identity connection
            (?database connection) (mu_Collection ?i) ''update'' (enc (?i, wanted)) (mu_Filter ?i))
          (\<lambda>noted. performed (enc (?i, wanted)) noted t (\<lambda>n. n)
             (attempt (update_call m (?database connection) ?i) (mw_write m)))))))"
    unfolding mongoUpdate_def Let_def mongoUpdateOneWith_def by (rule nosql_request_calls) auto
  from rest show ?thesis
  proof (rule mongo_change_calls)
    fix flt
    assume "wanted \<and> fst (call, t) = Find (?database connection) (mu_Collection ?i) flt [] [] 0 10001
      \<or> update_call m (?database connection) ?i = Inr (fst (call, t))"
    moreover assume "ParseMongoFilter m (mu_Filter ?i) = Inr flt" "keys_of (BDoc flt) \<inter> js_keys = {}"
      "nosqlWriteGuard s w identity connection opened (nosqlStatement Update (?database connection) (mu_Collection ?i)
         (mongoFilterHasPredicate flt)) (enc (?i, wanted)) = Inr (snd (call, t))"
    ultimately show ?thesis using 1 update_call_inr [of m "?database connection" ?i call]
      by (intro exI [of _ connection] exI [of _ flt]) auto
  qed
qed

text \<open>A delete is judged in the same way.\<close>

lemma mongo_deletes_are_judged:
  assumes "(call, t) \<in> set (calls_of (mongoDelete s w m b enc identity found opened (Some (input, wanted))))"
  shows "\<exists>connection flt. authorizedConnection (srv_access s) identity found = Inr connection
    \<and> conn_Engine connection = ''mongodb'' \<and> ParseMongoFilter m (mx_Filter input) = Inr flt
    \<and> keys_of (BDoc flt) \<inter> js_keys = {}
    \<and> (let database = request_database (mx_Database input) connection; collection = trim_space (mx_Collection input) in
       nosqlWriteGuard s w identity connection opened
         (nosqlStatement Delete database collection (mongoFilterHasPredicate flt))
         (enc (input\<lparr>mx_Collection := collection\<rparr>, wanted)) = Inr t
       \<and> (wanted \<and> call = Find database collection flt [] [] 0 10001 \<or> call = DeleteOne database collection flt))"
proof -
  let ?i = "input\<lparr>mx_Collection := trim_space (mx_Collection input)\<rparr>"
  let ?database = "request_database (mx_Database input)"
  from assms obtain connection where 1: "authorizedConnection (srv_access s) identity found = Inr connection"
    "conn_Engine connection = ''mongodb''"
    and rest: "(call, t) \<in> set (calls_of (mongo_filtered m Delete (?database connection) (mx_Collection ?i)
      (mx_Filter ?i) (\<lambda>info. guarded_write s w identity connection opened info (enc (?i, wanted)) (\<lambda>t.
        backed_up_write wanted t (mongoCaptureBackup (srv_tables s) m b identity connection
            (?database connection) (mx_Collection ?i) ''delete'' (enc (?i, wanted)) (mx_Filter ?i))
          (\<lambda>noted. performed (enc (?i, wanted)) noted t (\<lambda>n. n)
             (attempt (delete_call m (?database connection) ?i) (mw_write m)))))))"
    unfolding mongoDelete_def Let_def mongoDeleteOneWith_def by (rule nosql_request_calls) auto
  from rest show ?thesis
  proof (rule mongo_change_calls)
    fix flt
    assume "wanted \<and> fst (call, t) = Find (?database connection) (mx_Collection ?i) flt [] [] 0 10001
      \<or> delete_call m (?database connection) ?i = Inr (fst (call, t))"
    moreover assume "ParseMongoFilter m (mx_Filter ?i) = Inr flt" "keys_of (BDoc flt) \<inter> js_keys = {}"
      "nosqlWriteGuard s w identity connection opened (nosqlStatement Delete (?database connection) (mx_Collection ?i)
         (mongoFilterHasPredicate flt)) (enc (?i, wanted)) = Inr (snd (call, t))"
    ultimately show ?thesis using 1 delete_call_inr [of m "?database connection" ?i call]
      by (intro exI [of _ connection] exI [of _ flt]) auto
  qed
qed

subsection \<open>Restores\<close>

text \<open>A collection maps the identifier of a document to it; a call changes it, or is refused.\<close>

type_synonym documents = "bson \<Rightarrow> document option"

definition run_call :: "mongo_call \<Rightarrow> documents \<Rightarrow> documents option" where
  "run_call call docs =
     (case call of
        InsertOne _ _ d \<Rightarrow>
          (case map_of d ''_id'' of Some i \<Rightarrow> if docs i = None then Some (docs(i \<mapsto> d)) else None | None \<Rightarrow> None)
      | ReplaceOne _ _ [(_, i)] d \<Rightarrow> Some (docs(i \<mapsto> d))
      | _ \<Rightarrow> None)"

fun run_calls :: "mongo_call list \<Rightarrow> documents \<Rightarrow> documents option" where
  "run_calls [] docs = Some docs"
| "run_calls (c # cs) docs = (case run_call c docs of None \<Rightarrow> None | Some docs' \<Rightarrow> run_calls cs docs')"

text \<open>A saved document as the driver reads it: it has an identifier, and the filter made of it names that one.\<close>

definition saved_as :: "mongo_world \<Rightarrow> string \<Rightarrow> bson \<times> document \<Rightarrow> bool" where
  "saved_as m raw sv \<longleftrightarrow> mw_doc m raw = Inr (snd sv) \<and> map_of (snd sv) ''_id'' = Some (fst sv)
     \<and> (\<exists>f. mw_id m raw = Inr f \<and> f \<noteq> [] \<and> mw_doc m f = Inr [(''_id'', fst sv)] \<and> \<not> reject_js (fst sv))"

lemma restore_document_call:
  assumes "saved_as m raw (i, d)" and "trim_space collection \<noteq> []"
  shows "restore_document (m\<lparr>mw_write := answer\<rparr>) database kind collection raw =
    (let c = if kind = ''delete'' then InsertOne database collection d else ReplaceOne database collection [(''_id'', i)] d in
     (Some c, answer c))"
proof -
  obtain f where f: "mw_id m raw = Inr f" "f \<noteq> []" "mw_doc m f = Inr [(''_id'', i)]" "\<not> reject_js i"
    "mw_doc m raw = Inr d" using assms(1) by (auto simp: saved_as_def)
  have "ParseMongoFilter (m\<lparr>mw_write := answer\<rparr>) f = Inr [(''_id'', i)]"
    using f by (simp add: ParseMongoFilter_def js_keys_def)
  then show ?thesis using f assms(2)
    by (simp add: restore_document_def mongoInsertOneWith_def mongoReplaceOneWith_def attempt_def insert_call_def
        replace_call_def write_filter_def mongoHasPredicate_def Let_def)
qed

text \<open>A restore of documents puts them back and says how far it came. Where the saved documents
  are read as they were written, a restore writes them one by one, in order, until a write fails;
  it reports as many as it wrote; and a restore without an error leaves every saved document under
  its identifier as it was saved, whatever was there before, and touches no other document.\<close>

lemma mongo_restore_puts_back:
  assumes "list_all2 (saved_as m) docs svs" and "trim_space collection \<noteq> []"
    and "mongoApplyRestore m replies database kind collection overall k docs = (calls, n, err)"
  shows "(err = None \<longrightarrow> n = int k + int (length docs))
    \<and> (err = None \<or> (\<exists>j < length docs. n = int k + int j \<and> length calls = Suc j \<and> (\<exists>e. replies (k + j) (calls ! j) = Inl e)))
    \<and> (kind = ''update'' \<longrightarrow> err = None \<longrightarrow> run_calls calls before = Some (before ++ map_of (rev svs)))"
  using assms
proof (induction docs svs arbitrary: k calls n err before rule: list_all2_induct)
  case Nil
  then show ?case by simp
next
  case (Cons raw docs sv svs)
  obtain i d where sv: "sv = (i, d)" by fastforce
  let ?c = "if kind = ''delete'' then InsertOne database collection d else ReplaceOne database collection [(''_id'', i)] d"
  note step = restore_document_call [of m raw i d collection "replies k" database kind, unfolded Let_def]
  show ?case
  proof (cases "replies k ?c")
    case (Inl e)
    then show ?thesis using Cons.hyps(1) Cons.prems step by (auto simp: sv)
  next
    case (Inr r)
    obtain calls' n' err' where rest: "mongoApplyRestore m replies database kind collection overall (Suc k) docs
        = (calls', n', err')" using prod_cases3 by blast
    have now: "calls = ?c # calls'" "n = n'" "err = err'"
      using Cons.hyps(1) Cons.prems(2) Inr step Cons.prems(1) rest by (auto simp: sv)
    note IH = Cons.IH [OF Cons.prems(1) rest]
    show ?thesis
    proof (intro conjI impI)
      show "n = int k + int (length (raw # docs))" if "err = None" using IH [of before] that now by simp
      show "err = None \<or> (\<exists>j < length (raw # docs). n = int k + int j \<and> length calls = Suc j
          \<and> (\<exists>e. replies (k + j) (calls ! j) = Inl e))"
        using IH [of before] now by (auto intro!: exI [of _ "Suc _"])
      show "run_calls calls before = Some (before ++ map_of (rev (sv # svs)))"
        if "kind = ''update''" "err = None"
      proof -
        have "run_calls calls before = run_calls calls' (before(i \<mapsto> d))"
          using that(1) by (simp add: now(1) run_call_def)
        also have "\<dots> = Some (before(i \<mapsto> d) ++ map_of (rev svs))"
          using IH [of "before(i \<mapsto> d)"] that now(3) by blast
        also have "before(i \<mapsto> d) ++ map_of (rev svs) = before ++ map_of (rev (sv # svs))"
          by (auto simp: sv map_add_def fun_eq_iff split: option.splits)
        finally show ?thesis .
      qed
    qed
  qed
qed

text \<open>
  A backup holds every document the filter matches, while \<open>UpdateOne\<close> and \<open>DeleteOne\<close> change one of
  them. So a restore of a delete stops at a document that is still there, and one of an update
  also overwrites documents the write never changed.
\<close>

lemma restore_of_delete_meets_survivor:
  "run_call (InsertOne db c [(''_id'', i), (''a'', v)]) ([i \<mapsto> d]) = None"
  by (simp add: run_call_def)

lemma restore_overwrites_unchanged:
  "run_call (ReplaceOne db c [(''_id'', i)] saved) ([i \<mapsto> changed_since]) = Some [i \<mapsto> saved]"
  by (simp add: run_call_def)

text \<open>The stages of an aggregation are checked by their names only, not what they hold.\<close>

lemma facet_hides_lookup:
  "check_stages [BDoc [(''$facet'', BDoc [(''x'', BArr [BDoc [(''$lookup'', BDoc [])]])])]] = None"
  by code_simp

subsection \<open>Examples\<close>

definition silent_world :: "unit world" where
  "silent_world = \<lparr>w_policies = Inr [], w_custom = Inr [], w_minute = 0,
     w_topology = w_topology plain_world, w_nodes = [], w_target = (\<lambda>_. None), w_session = None,
     w_backup = (\<lambda>_. NoBackup), w_query = (\<lambda>_. Inl []), w_result = None,
     w_client = \<lparr>transform = (\<lambda>r. r), encodes = (\<lambda>_. True), writes = (\<lambda>_. True), flushes = (\<lambda>_. False), ndjson = False\<rparr>,
     w_execute = (\<lambda>_. Inr 1)\<rparr>"

definition mongo_connection :: Connection where
  "mongo_connection = plain_connection\<lparr>conn_Engine := ''mongodb''\<rparr>"

definition one_document :: document where
  "one_document = [(''_id'', BVal ''1''), (''b'', BVal ''2'')]"

definition small_mongo :: mongo_world where
  "small_mongo = \<lparr>mw_doc = (\<lambda>t. if t = ''f'' then Inr [(''_id'', BVal ''1'')]
       else if t = ''u'' then Inr [(''$set'', BDoc [(''b'', BVal ''3'')])]
       else if t = ''d'' then Inr one_document else Inl ''EOF''),
     mw_array = (\<lambda>_. Inl ''EOF''), mw_id = (\<lambda>_. Inr ''f''),
     mw_read = (\<lambda>_. Inr ([Inr ''d''], None)), mw_write = (\<lambda>_. Inr 1)\<rparr>"

definition small_store :: "(mongoBackupPayload, mongoBackupPayload) backup_store" where
  "small_store = \<lparr>bs_vault = True, bs_seal = Some, bs_stores = True, bs_fresh_id = ''b'', bs_now = []\<rparr>"

definition small_update :: MongoUpdateInput where
  "small_update = \<lparr>mu_Database = [], mu_Collection = ''c'', mu_Filter = ''f'', mu_Update = ''u''\<rparr>"

lemma small_update_runs:
  "calls_of (mongoUpdate plain_server silent_world small_mongo small_store (\<lambda>_. []) plain_identity
      (Some mongo_connection) None (Some (small_update, True)))
   = [(Find ''d'' ''c'' [(''_id'', BVal ''1'')] [] [] 0 10001, 600),
      (UpdateOne ''d'' ''c'' [(''_id'', BVal ''1'')] [(''$set'', BDoc [(''b'', BVal ''3'')])], 600)]"
  by code_simp

lemma mongo_updates_are_judged_witness:
  "nosqlWriteGuard plain_server silent_world plain_identity mongo_connection None
     (nosqlStatement Update ''d'' ''c'' True) [] = Inr 600"
proof -
  have "(UpdateOne ''d'' ''c'' [(''_id'', BVal ''1'')] [(''$set'', BDoc [(''b'', BVal ''3'')])], 600)
      \<in> set (calls_of (mongoUpdate plain_server silent_world small_mongo small_store (\<lambda>_. []) plain_identity
      (Some mongo_connection) None (Some (small_update, True))))"
    by (simp add: small_update_runs)
  from mongo_updates_are_judged [OF this] obtain connection flt where
    found: "authorizedConnection (srv_access plain_server) plain_identity (Some mongo_connection) = Inr connection"
    and flt: "ParseMongoFilter small_mongo (mu_Filter small_update) = Inr flt"
    and guard: "nosqlWriteGuard plain_server silent_world plain_identity connection None
      (nosqlStatement Update (request_database (mu_Database small_update) connection)
         (trim_space (mu_Collection small_update)) (mongoFilterHasPredicate flt)) [] = Inr 600"
    by (auto simp: Let_def)
  have "authorizedConnection (srv_access plain_server) plain_identity (Some mongo_connection) = Inr mongo_connection"
    by code_simp
  with found have c: "connection = mongo_connection" by simp
  have "ParseMongoFilter small_mongo (mu_Filter small_update) = Inr [(''_id'', BVal ''1'')]" by code_simp
  with flt have f: "flt = [(''_id'', BVal ''1'')]" by simp
  have "mongoFilterHasPredicate [(''_id'', BVal ''1'')]" "trim_space (mu_Collection small_update) = ''c''"
    "request_database (mu_Database small_update) mongo_connection = ''d''" by code_simp+
  with guard show ?thesis by (simp add: c f)
qed

lemma mongo_restore_puts_back_witness:
  "run_calls [ReplaceOne ''d'' ''c'' [(''_id'', BVal ''1'')] one_document] [BVal ''1'' \<mapsto> []]
     = Some [BVal ''1'' \<mapsto> one_document]"
proof -
  have saved: "list_all2 (saved_as small_mongo) [''d''] [(BVal ''1'', one_document)]"
    by (simp add: saved_as_def small_mongo_def one_document_def)
  have named: "trim_space ''c'' \<noteq> []" by code_simp
  have run: "mongoApplyRestore small_mongo (\<lambda>_ _. Inr 1) ''d'' ''update'' ''c'' 1 0 [''d'']
      = ([ReplaceOne ''d'' ''c'' [(''_id'', BVal ''1'')] one_document], 1, None)" by code_simp
  from mongo_restore_puts_back [OF saved named run, of "[BVal ''1'' \<mapsto> []]"] show ?thesis by simp
qed

end
