(* ===== verification/Redis.thy ===== *)
theory Redis
  imports Nosql Base64
begin

section \<open>Redis and Valkey (engine/redis.go, api/redis.go, api/redis_rowbackup.go)\<close>

text \<open>
  The keys a scan shows, the commands a write sends, and what a backup keeps of a key. The
  engine's methods make lists of commands; what the server answers is an argument.
\<close>

subsection \<open>The server\<close>

datatype redis_command =
    RScan string nat int
  | RType string
  | RSet string string int
  | RHSet string string string
  | RExpire string int
  | RDel string
  | RDump string
  | RPTTL string
  | RRestore string int string

text \<open>
  The k-th answer to \<open>SCAN\<close>; a key's type, time to live and preview; the error of a command; of
  the j-th command of the i-th write of a pipeline; how many keys a \<open>DEL\<close> removed; a key's \<open>DUMP\<close>,
  which is absent for a missing key, and its time to live in milliseconds; \<open>strconv.Quote\<close>.
\<close>

record redis_world =
  rr_scan :: "string \<Rightarrow> nat \<Rightarrow> string + string list \<times> nat"
  rr_kind :: "string \<Rightarrow> string option"
  rr_ttl :: "string \<Rightarrow> int"
  rr_preview :: "string \<Rightarrow> string \<Rightarrow> string + string"
  rr_error :: "redis_command \<Rightarrow> string option"
  rr_types_error :: "string option"
  rr_pipe :: "nat \<Rightarrow> nat \<Rightarrow> string option"
  rr_removed :: "string \<Rightarrow> string + int"
  rr_dump :: "string \<Rightarrow> string + string option"
  rr_pttl :: "string \<Rightarrow> string + int"
  rr_quote :: "string \<Rightarrow> string"

subsection \<open>Scanning\<close>

record RedisScanInput =
  ri_Database :: string
  ri_Pattern :: string
  ri_Type :: string
  ri_Cursor :: nat
  ri_Limit :: int

record RedisEntry =
  re_Key :: string
  re_Type :: string
  re_TTL :: int
  re_Value :: string

definition redis_entry :: "redis_world \<Rightarrow> string \<Rightarrow> string \<Rightarrow> RedisEntry" where
  "redis_entry r key kind =
     \<lparr>re_Key = key, re_Type = kind, re_TTL = rr_ttl r key,
      re_Value = (case rr_preview r key kind of Inl e \<Rightarrow> rr_quote r (''error: '' @ e) | Inr v \<Rightarrow> v)\<rparr>"

definition key_shown :: "redis_world \<Rightarrow> string \<Rightarrow> string \<Rightarrow> bool" where
  "key_shown r wanted key \<longleftrightarrow>
     (case rr_kind r key of None \<Rightarrow> False | Some kind \<Rightarrow> kind \<noteq> ''none'' \<and> (wanted = [] \<or> kind = wanted))"

text \<open>The entries of one page, until \<open>room\<close> of them are found.\<close>

fun scan_page :: "redis_world \<Rightarrow> string \<Rightarrow> nat \<Rightarrow> string list \<Rightarrow> RedisEntry list" where
  "scan_page r wanted room [] = []"
| "scan_page r wanted room (key # keys) =
     (if \<not> key_shown r wanted key then scan_page r wanted room keys
      else redis_entry r key (the (rr_kind r key))
        # (if room \<le> 1 then [] else scan_page r wanted (room - 1) keys))"

partial_function (option) scan_loop ::
  "redis_world \<Rightarrow> string \<Rightarrow> string \<Rightarrow> nat \<Rightarrow> nat \<Rightarrow> nat \<Rightarrow> RedisEntry list \<Rightarrow> (string + RedisEntry list \<times> nat) option" where
  "scan_loop r pattern wanted limit k cursor found =
     (if limit \<le> length found then Some (Inr (found, cursor))
      else
        (case rr_scan r pattern k of
           Inl e \<Rightarrow> Some (Inl e)
         | Inr (keys, nxt) \<Rightarrow>
             (let found' = found @ scan_page r wanted (limit - length found) keys in
              if nxt = 0 then Some (Inr (found', 0))
              else scan_loop r pattern wanted limit (Suc k) nxt found')))"

definition scan_pattern :: "string \<Rightarrow> string" where
  "scan_pattern p = (if trim_space p = [] then ''*'' else p)"

text \<open>\<open>RedisScan\<close>, \<open>None\<close> where it does not return.\<close>

definition RedisScan :: "redis_world \<Rightarrow> RedisScanInput \<Rightarrow> (string + RedisEntry list \<times> nat) option" where
  "RedisScan r i =
     (let limit = (if ri_Limit i \<le> 0 then 100 else ri_Limit i) in
      if 1000 < limit then Some (Inl ''limit must be 1000 or less'')
      else scan_loop r (scan_pattern (ri_Pattern i)) (ri_Type i) (nat limit) 0 (ri_Cursor i) [])"

subsection \<open>Writing\<close>

record RedisWriteInput =
  rw_Database :: string
  rw_Key :: string
  rw_Type :: string
  rw_Field :: string
  rw_Value :: string
  rw_TTLSeconds :: int

definition unsupported_type :: "redis_world \<Rightarrow> string \<Rightarrow> string" where
  "unsupported_type r kind = ''writing a '' @ rr_quote r kind @ '' key is not supported yet; only string and hash are''"

definition RedisWrite :: "redis_world \<Rightarrow> RedisWriteInput \<Rightarrow> (redis_command list, int) attempt" where
  "RedisWrite r i =
     (if trim_space (rw_Key i) = [] then (None, Inl ''key is required'')
      else if rw_TTLSeconds i < 0 then (None, Inl ''ttlSeconds must be zero or positive'')
      else if rw_Type i = ''string''
      then (let c = RSet (rw_Key i) (rw_Value i) (rw_TTLSeconds i) in
            (Some [c], case rr_error r c of Some e \<Rightarrow> Inl e | None \<Rightarrow> Inr 1))
      else if rw_Type i = ''hash''
      then
        (if trim_space (rw_Field i) = [] then (None, Inl ''field is required for hash items'')
         else
           (let c = RHSet (rw_Key i) (rw_Field i) (rw_Value i); x = RExpire (rw_Key i) (rw_TTLSeconds i) in
            case rr_error r c of
              Some e \<Rightarrow> (Some [c], Inl e)
            | None \<Rightarrow>
                (if 0 < rw_TTLSeconds i
                 then (Some [c, x], case rr_error r x of Some e \<Rightarrow> Inl e | None \<Rightarrow> Inr 1)
                 else (Some [c], Inr 1))))
      else (None, Inl (unsupported_type r (rw_Type i))))"

definition RedisDelete :: "redis_world \<Rightarrow> string \<Rightarrow> (redis_command list, int) attempt" where
  "RedisDelete r key =
     (if trim_space key = [] then (None, Inl ''key is required'') else (Some [RDel key], rr_removed r key))"

text \<open>Several writes. The i-th write is named i + 1 in messages.\<close>

definition write_named :: "nat \<Rightarrow> string \<Rightarrow> string" where
  "write_named i message = ''write '' @ decimal (int i + 1) @ '': '' @ message"

definition bulk_refusal :: "redis_world \<Rightarrow> RedisWriteInput \<Rightarrow> string option" where
  "bulk_refusal r i =
     (if trim_space (rw_Key i) = [] then Some ''key is required''
      else if rw_TTLSeconds i < 0 then Some ''ttlSeconds must be zero or positive''
      else if rw_Type i = ''hash'' \<and> trim_space (rw_Field i) = [] then Some ''field is required for hash items''
      else if rw_Type i \<noteq> ''string'' \<and> rw_Type i \<noteq> ''hash'' then Some (unsupported_type r (rw_Type i))
      else None)"

definition key_type :: "redis_world \<Rightarrow> string \<Rightarrow> string" where
  "key_type r key = (case rr_kind r key of None \<Rightarrow> [] | Some k \<Rightarrow> k)"

definition type_refusal :: "redis_world \<Rightarrow> RedisWriteInput \<Rightarrow> string option" where
  "type_refusal r i =
     (if rw_Type i = ''hash'' \<and> key_type r (rw_Key i) \<noteq> ''none'' \<and> key_type r (rw_Key i) \<noteq> ''hash''
      then Some (''key '' @ rr_quote r (rw_Key i) @ '' holds a '' @ key_type r (rw_Key i) @ '', not a hash; nothing was written'')
      else None)"

fun first_refusal :: "(RedisWriteInput \<Rightarrow> string option) \<Rightarrow> nat \<Rightarrow> RedisWriteInput list \<Rightarrow> string option" where
  "first_refusal f i [] = None"
| "first_refusal f i (x # xs) =
     (case f x of Some e \<Rightarrow> Some (write_named i e) | None \<Rightarrow> first_refusal f (Suc i) xs)"

definition write_commands :: "RedisWriteInput \<Rightarrow> redis_command list" where
  "write_commands i =
     (if rw_Type i = ''string'' then [RSet (rw_Key i) (rw_Value i) (rw_TTLSeconds i)]
      else if rw_Type i = ''hash''
      then RHSet (rw_Key i) (rw_Field i) (rw_Value i)
           # (if 0 < rw_TTLSeconds i then [RExpire (rw_Key i) (rw_TTLSeconds i)] else [])
      else [])"

definition write_errors :: "redis_world \<Rightarrow> nat \<Rightarrow> RedisWriteInput \<Rightarrow> string list" where
  "write_errors r k i = List.map_filter (rr_pipe r k) [0 ..< length (write_commands i)]"

definition write_done :: "redis_world \<Rightarrow> nat \<Rightarrow> RedisWriteInput \<Rightarrow> bool" where
  "write_done r k i \<longleftrightarrow> write_commands i \<noteq> [] \<and> write_errors r k i = []"

definition bulk_errors :: "redis_world \<Rightarrow> RedisWriteInput list \<Rightarrow> string list" where
  "bulk_errors r items = concat (map (\<lambda>(k, i). write_errors r k i) (enumerate 0 items))"

definition bulk_written :: "redis_world \<Rightarrow> RedisWriteInput list \<Rightarrow> nat" where
  "bulk_written r items = length (filter (\<lambda>(k, i). write_done r k i) (enumerate 0 items))"

text \<open>The commands that were sent, how many items were written, and the error.\<close>

definition RedisBulkWrite ::
  "redis_world \<Rightarrow> RedisWriteInput list \<Rightarrow> redis_command list option \<times> int \<times> string option" where
  "RedisBulkWrite r items =
     (if items = [] then (None, 0, Some ''at least one write is required'')
      else if 10000 < length items then (None, 0, Some ''at most 10000 writes can run at once'')
      else
        (case first_refusal (bulk_refusal r) 0 items of
           Some e \<Rightarrow> (None, 0, Some e)
         | None \<Rightarrow>
             (let types = map (RType \<circ> rw_Key) (filter (\<lambda>i. rw_Type i = ''hash'') items) in
              case rr_types_error r of
                Some e \<Rightarrow> (Some types, 0, Some e)
              | None \<Rightarrow>
                  (case first_refusal (type_refusal r) 0 items of
                     Some e \<Rightarrow> (Some types, 0, Some e)
                   | None \<Rightarrow>
                       (let sent = types @ concat (map write_commands items);
                            n = bulk_written r items in
                        case bulk_errors r items of
                          [] \<Rightarrow> (Some sent, int (length items), None)
                        | e # _ \<Rightarrow>
                            (case find (\<lambda>(k, i). \<not> write_done r k i) (enumerate 0 items) of
                               None \<Rightarrow> (Some sent, int n, Some e)
                             | Some (k, _) \<Rightarrow>
                                 (Some sent, int n,
                                  Some (if n = 0 then e
                                        else decimal (int n) @ '' of '' @ decimal (int (length items))
                                          @ '' writes were written; write '' @ decimal (int k + 1) @ '' failed: '' @ e))))))))"

subsection \<open>Snapshots\<close>

record RedisSnapshot =
  sn_Existed :: bool
  sn_Dump :: string
  sn_TTLMs :: int

definition RedisSnapshotKey :: "redis_world \<Rightarrow> string \<Rightarrow> (redis_command list, RedisSnapshot) attempt" where
  "RedisSnapshotKey r key =
     (case rr_dump r key of
        Inl e \<Rightarrow> (Some [RDump key], Inl e)
      | Inr None \<Rightarrow> (Some [RDump key], Inr \<lparr>sn_Existed = False, sn_Dump = [], sn_TTLMs = 0\<rparr>)
      | Inr (Some dump) \<Rightarrow>
          (Some [RDump key, RPTTL key],
           case rr_pttl r key of
             Inl e \<Rightarrow> Inl e
           | Inr ttl \<Rightarrow> Inr \<lparr>sn_Existed = True, sn_Dump = b64_encode dump, sn_TTLMs = (if 0 < ttl then ttl else 0)\<rparr>))"

definition run_command :: "redis_world \<Rightarrow> redis_command \<Rightarrow> (redis_command list, int) attempt" where
  "run_command r c = (Some [c], case rr_error r c of Some e \<Rightarrow> Inl e | None \<Rightarrow> Inr 1)"

definition RedisRestoreSnapshot :: "redis_world \<Rightarrow> string \<Rightarrow> RedisSnapshot \<Rightarrow> (redis_command list, int) attempt" where
  "RedisRestoreSnapshot r key snapshot =
     (if \<not> sn_Existed snapshot then run_command r (RDel key)
      else
        (case b64_decode (sn_Dump snapshot) of
           None \<Rightarrow> (None, Inl ''illegal base64 data'')
         | Some raw \<Rightarrow> run_command r (RRestore key (sn_TTLMs snapshot) raw)))"

subsection \<open>Previews\<close>

fun drop_broken :: "string \<Rightarrow> string" where
  "drop_broken v = (if v = [] \<or> utf8_valid v then v else drop_broken (butlast v))"

declare drop_broken.simps [simp del]

definition redisPreviewText :: "string \<Rightarrow> nat \<Rightarrow> string" where
  "redisPreviewText v maxBytes =
     (if length v \<le> maxBytes then v else drop_broken (take maxBytes v) @ [CHR 0xE2, CHR 0x80, CHR 0xA6])"

text \<open>The fields of a hash: the first hundred pairs of what \<open>HSCAN\<close> returned.\<close>

fun hash_pairs :: "nat \<Rightarrow> string list \<Rightarrow> (string \<rightharpoonup> string) \<Rightarrow> string \<rightharpoonup> string" where
  "hash_pairs cap (f # v # rest) preview =
     (if cap \<le> card (dom preview) then preview
      else hash_pairs cap rest (preview(redisPreviewText f 256 \<mapsto> redisPreviewText v 4096)))"
| "hash_pairs cap _ preview = preview"

end
