(* ===== verification/Redis_Api.thy ===== *)
theory Redis_Api
  imports Redis Clients_Properties
begin

section \<open>The handlers and backups of Redis (api/redis.go, api/redis_rowbackup.go)\<close>

definition redis_engines :: "string set" where
  "redis_engines = {''redis'', ''valkey''}"

definition redis_only :: string where
  "redis_only = ''this connection is not a Redis or Valkey connection''"

text \<open>A scan that does not return is ended by its deadline, which makes an answer an error.\<close>

definition redisScan ::
  "server \<Rightarrow> unit world \<Rightarrow> redis_world \<Rightarrow> (RedisScanInput \<Rightarrow> string) \<Rightarrow> Identity \<Rightarrow> Connection option \<Rightarrow>
   string option \<Rightarrow> RedisScanInput option \<Rightarrow> (redis_command list, 'item) nosql_event list" where
  "redisScan s w r enc identity found opened decoded =
     nosql_request s identity found redis_engines redis_only decoded (\<lambda>connection input.
       (let i = input\<lparr>ri_Limit := (if ri_Limit input = 0 then 100 else ri_Limit input)\<rparr>;
            pattern = scan_pattern (ri_Pattern i);
            database = request_database (ri_Database i) connection in
        if ri_Limit i < 1 \<or> 1000 < ri_Limit i then bad_request ''limit must be between 1 and 1000''
        else guarded_read s w identity connection opened
          (nosqlStatement Select database pattern (pattern \<noteq> ''*'')) (enc i) (\<lambda>limit t.
            let j = i\<lparr>ri_Limit := cap_rows limit (ri_Limit i)\<rparr> in
            case RedisScan r j of
              None \<Rightarrow> [Called [RScan pattern (ri_Cursor j) (ri_Limit j)] t]
            | Some res \<Rightarrow>
                performed (enc i) False t (\<lambda>x. int (length (fst x)))
                  (Some [RScan pattern (ri_Cursor j) (ri_Limit j)], res))))"

subsection \<open>Backups\<close>

record redisRowBackupPayload =
  rp_BackupID :: string
  rp_UserID :: string
  rp_Statement :: string
  rp_Database :: string
  rp_Key :: string
  rp_Snapshot :: RedisSnapshot

definition redisCaptureBackup ::
  "redis_world \<Rightarrow> (redisRowBackupPayload, 's) backup_store \<Rightarrow> Identity \<Rightarrow> Connection \<Rightarrow> string \<Rightarrow> string \<Rightarrow>
   string \<Rightarrow> string \<Rightarrow> 's captured \<times> redis_command list option" where
  "redisCaptureBackup r b identity connection database key kind statement =
     (if \<not> bs_vault b then (NothingToBackUp, None)
      else
        (case RedisSnapshotKey r key of
           (cmds, Inl e) \<Rightarrow> (CaptureSkipped (''the previous value could not be read: '' @ e), cmds)
         | (cmds, Inr snapshot) \<Rightarrow>
             (if kind = ''delete'' \<and> \<not> sn_Existed snapshot then NothingToBackUp
              else keep_backup b identity connection database key kind 1
                \<lparr>rp_BackupID = bs_fresh_id b, rp_UserID = UserID identity, rp_Statement = statement,
                 rp_Database = database, rp_Key = key, rp_Snapshot = snapshot\<rparr>, cmds)))"

definition openRedisRowBackup ::
  "bool \<Rightarrow> ('s \<Rightarrow> string + redisRowBackupPayload) \<Rightarrow> 's RowBackup \<Rightarrow> string + redisRowBackupPayload" where
  "openRedisRowBackup vault unseal = open_backup vault unseal (\<lambda>p. (rp_BackupID p, rp_UserID p))"

subsection \<open>Writes\<close>

definition redisWrite ::
  "server \<Rightarrow> unit world \<Rightarrow> redis_world \<Rightarrow> (redisRowBackupPayload, 's) backup_store \<Rightarrow> (RedisWriteInput \<times> bool \<Rightarrow> string) \<Rightarrow>
   Identity \<Rightarrow> Connection option \<Rightarrow> string option \<Rightarrow> (RedisWriteInput \<times> bool) option \<Rightarrow>
   (redis_command list, 's RowBackup) nosql_event list" where
  "redisWrite s w r b enc identity found opened decoded =
     nosql_request s identity found redis_engines redis_only decoded (\<lambda>connection (input, wanted).
       (let i = input\<lparr>rw_Key := trim_space (rw_Key input)\<rparr>; raw = enc (i, wanted);
            database = request_database (rw_Database i) connection in
        if rw_Key i = [] then bad_request ''key is required''
        else guarded_write s w identity connection opened (nosqlStatement Update database (rw_Key i) True) raw (\<lambda>t.
          backed_up_write wanted t (redisCaptureBackup r b identity connection database (rw_Key i) ''update'' raw)
            (\<lambda>noted. performed raw noted t (\<lambda>_. 1) (RedisWrite r i)))))"

definition redisDelete ::
  "server \<Rightarrow> unit world \<Rightarrow> redis_world \<Rightarrow> (redisRowBackupPayload, 's) backup_store \<Rightarrow> (string \<times> string \<times> bool \<Rightarrow> string) \<Rightarrow>
   Identity \<Rightarrow> Connection option \<Rightarrow> string option \<Rightarrow> (string \<times> string \<times> bool) option \<Rightarrow>
   (redis_command list, 's RowBackup) nosql_event list" where
  "redisDelete s w r b enc identity found opened decoded =
     nosql_request s identity found redis_engines redis_only decoded (\<lambda>connection (given, key, wanted).
       (let k = trim_space key; raw = enc (given, k, wanted); database = request_database given connection in
        if k = [] then bad_request ''key is required''
        else guarded_write s w identity connection opened (nosqlStatement Delete database k True) raw (\<lambda>t.
          backed_up_write wanted t (redisCaptureBackup r b identity connection database k ''delete'' raw)
            (\<lambda>noted. performed raw noted t (\<lambda>n. n) (RedisDelete r k)))))"

definition redisBulkWrite ::
  "server \<Rightarrow> unit world \<Rightarrow> redis_world \<Rightarrow> (string \<times> RedisWriteInput list \<Rightarrow> string) \<Rightarrow> Identity \<Rightarrow> Connection option \<Rightarrow>
   string option \<Rightarrow> (string \<times> RedisWriteInput list) option \<Rightarrow> (redis_command list, 'item) nosql_event list" where
  "redisBulkWrite s w r enc identity found opened decoded =
     nosql_request s identity found redis_engines redis_only decoded (\<lambda>connection (given, items).
       (let raw = enc (given, items); database = request_database given connection in
        if items = [] then bad_request ''at least one write is required''
        else if 10000 < length items then bad_request ''at most 10000 writes can run at once''
        else guarded_write s w identity connection opened
          (nosqlStatement Update database (decimal (int (length items)) @ '' keys'') True) raw (\<lambda>t.
            case RedisBulkWrite r items of
              (cmds, n, err) \<Rightarrow>
                calls_made cmds t
                @ (case err of
                     Some e \<Rightarrow> [Event (recordActivity raw ''error'' n ''allow'' [] []),
                                 Event (Responded (Refused 502 ''EXEC_ERROR'' e))]
                   | None \<Rightarrow> [Event (recordActivity raw ''success'' (int (length items)) ''allow'' [] []),
                               Event (Responded (Answer 200))]))))"

subsection \<open>Restores\<close>

definition one_restore :: "('call, 'r) attempt \<Rightarrow> 'call list \<times> int \<times> string option" where
  "one_restore tried =
     (case fst tried of None \<Rightarrow> [] | Some c \<Rightarrow> [c], case snd tried of Inl e \<Rightarrow> (0, Some e) | Inr _ \<Rightarrow> (1, None))"

definition applyRedisRowBackup ::
  "server \<Rightarrow> unit world \<Rightarrow> redis_world \<Rightarrow> bool \<Rightarrow> ('s \<Rightarrow> string + redisRowBackupPayload) \<Rightarrow> Identity \<Rightarrow> Connection \<Rightarrow>
   string option \<Rightarrow> 's RowBackup \<Rightarrow> (redis_command list, 's RowBackup) nosql_event list" where
  "applyRedisRowBackup s w r vault unseal identity connection opened item =
     (case openRedisRowBackup vault unseal item of
        Inl _ \<Rightarrow> answered (Refused 500 ''INTERNAL'' ''the backup could not be read'')
      | Inr p \<Rightarrow>
          nosql_restore s w identity connection opened (nosqlStatement Update (rp_Database p) (rp_Key p) True)
            (rp_Statement p) (''-- Row backup restore: key '' @ rp_Key p @ [CHR 0x0A] @ rp_Statement p)
            (one_restore (RedisRestoreSnapshot r (rp_Key p) (rp_Snapshot p))))"

definition restore_hint :: string where
  "restore_hint = ''Use Activity '' @ [CHR 0xE2, CHR 0x86, CHR 0x92] @ '' Row backups '' @ [CHR 0xE2, CHR 0x86, CHR 0x92] @ '' Restore''"

definition redisRestoreScript :: "unicode \<Rightarrow> redis_world \<Rightarrow> 's RowBackup \<Rightarrow> redisRowBackupPayload \<Rightarrow> string" where
  "redisRestoreScript u r item p =
     (let nl = [CHR 0x0A]; dash = [CHR 0xE2, CHR 0x80, CHR 0x94]; sn = rp_Snapshot p in
      if \<not> sn_Existed sn
      then ''# Key '' @ rr_quote r (rp_Key p) @ '' did not exist before this '' @ to_upper u (rb_Kind item) @ ''.'' @ nl
        @ ''# Restore removes it.'' @ nl @ ''# '' @ restore_hint @ '' to actually apply it.'' @ nl
      else ''# Restores key '' @ rr_quote r (rp_Key p) @ '' (''
        @ (if 0 < sn_TTLMs sn then ''a '' @ decimal (sn_TTLMs sn) @ ''ms TTL'' else ''no expiry'')
        @ '') backed up before this '' @ to_upper u (rb_Kind item) @ '':'' @ nl
        @ ''#   '' @ rp_Statement p @ nl
        @ ''# The previous value is stored as an opaque Redis DUMP payload '' @ dash @ '' Redis'' @ quote_mark @ ''s'' @ nl
        @ ''# own serialization, not a readable value '' @ dash @ '' so there'' @ quote_mark @ ''s nothing to show here.'' @ nl
        @ ''# '' @ restore_hint @ '' to put it back exactly as it was.'' @ nl)"

section \<open>What holds of them\<close>

subsection \<open>A scan returns\<close>

lemma scan_page_length: "0 < room \<Longrightarrow> length (scan_page r wanted room keys) \<le> room"
  by (induction r wanted room keys rule: scan_page.induct) auto

lemma scan_page_shown:
  "e \<in> set (scan_page r wanted room keys) \<Longrightarrow> key_shown r wanted (re_Key e) \<and> re_Key e \<in> set keys"
  by (induction r wanted room keys rule: scan_page.induct) (auto simp: redis_entry_def split: if_splits)

definition scan_ends :: "redis_world \<Rightarrow> string \<Rightarrow> nat \<Rightarrow> bool" where
  "scan_ends r pattern k \<longleftrightarrow> (case rr_scan r pattern k of Inl _ \<Rightarrow> True | Inr (_, nxt) \<Rightarrow> nxt = 0)"

lemma scan_loop_returns:
  assumes "scan_ends r pattern m" and "k \<le> m"
    and "length found \<le> limit" and "\<And>e. e \<in> set found \<Longrightarrow> key_shown r wanted (re_Key e)"
  shows "\<exists>res. scan_loop r pattern wanted limit k cursor found = Some res
    \<and> (case res of Inl _ \<Rightarrow> True | Inr (es, c) \<Rightarrow> length es \<le> limit \<and> list_all (\<lambda>e. key_shown r wanted (re_Key e)) es
          \<and> (limit \<le> length es \<or> c = 0))"
  using assms(2-4)
proof (induction "m - k" arbitrary: k cursor found rule: less_induct)
  case less
  show ?case
  proof (cases "limit \<le> length found")
    case True
    then show ?thesis using less.prems by (subst scan_loop.simps) (simp add: list_all_iff)
  next
    case room: False
    show ?thesis
    proof (cases "rr_scan r pattern k")
      case (Inl e)
      then show ?thesis using room by (subst scan_loop.simps) simp
    next
      case (Inr page)
      obtain keys nxt where page: "page = (keys, nxt)" by fastforce
      let ?found = "found @ scan_page r wanted (limit - length found) keys"
      have len: "length ?found \<le> limit"
        using scan_page_length [of "limit - length found" r wanted keys] room by simp
      have shown: "key_shown r wanted (re_Key e)" if "e \<in> set ?found" for e
        using that less.prems(3) scan_page_shown by (auto simp del: scan_page.simps)
      show ?thesis
      proof (cases "nxt = 0")
        case True
        with len shown show ?thesis using room Inr page
          by (subst scan_loop.simps) (auto simp: list_all_iff simp del: set_append)
      next
        case False
        then have "k \<noteq> m" using assms(1) Inr page by (auto simp: scan_ends_def)
        with less.prems(1) have "m - Suc k < m - k" "Suc k \<le> m" by auto
        from less.hyps [OF this len shown, of nxt] show ?thesis using room Inr page False
          by (subst scan_loop.simps) simp
      qed
    qed
  qed
qed


text \<open>
  The loop takes the first entries of a page that fit and goes on behind the page, so where a page
  holds more than that, its remaining keys are never shown.
\<close>

definition two_pages :: redis_world where
  "two_pages = \<lparr>rr_scan = (\<lambda>_ k. if k = 0 then Inr ([''a''], 5) else Inr ([''b'', ''c''], 7)), rr_kind = (\<lambda>_. Some ''string''),
     rr_ttl = (\<lambda>_. -1), rr_preview = (\<lambda>key _. Inr key), rr_error = (\<lambda>_. None), rr_types_error = None,
     rr_pipe = (\<lambda>_ _. None), rr_removed = (\<lambda>_. Inr 1), rr_dump = (\<lambda>_. Inr (Some ''xy'')), rr_pttl = (\<lambda>_. Inr 90),
     rr_quote = (\<lambda>v. v)\<rparr>"

lemma scan_loses_keys:
  "\<exists>es. RedisScan two_pages \<lparr>ri_Database = [], ri_Pattern = ''*'', ri_Type = [], ri_Cursor = 0, ri_Limit = 2\<rparr> = Some (Inr (es, 7))
     \<and> map re_Key es = [''a'', ''b'']"
  by (simp add: RedisScan_def Let_def two_pages_def scan_pattern_def scan_loop.simps key_shown_def redis_entry_def)

subsection \<open>Several writes\<close>

lemma first_refusal_none: "first_refusal f k xs = None \<longleftrightarrow> (\<forall>x \<in> set xs. f x = None)"
  by (induction f k xs rule: first_refusal.induct) (auto split: option.splits)

lemma written_all:
  assumes "\<forall>i \<in> set items. write_commands i \<noteq> []"
  shows "bulk_written r items = length items \<longleftrightarrow> bulk_errors r items = []"
proof -
  have "length (filter (\<lambda>(k, i). write_done r k i) (enumerate 0 items)) = length (enumerate 0 items)
      \<longleftrightarrow> (\<forall>x \<in> set (enumerate 0 items). case x of (k, i) \<Rightarrow> write_done r k i)"
    using filter_id_conv [of "\<lambda>(k, i). write_done r k i" "enumerate 0 items"]
      length_filter_less [of _ "enumerate 0 items" "\<lambda>(k, i). write_done r k i"] by fastforce
  moreover have "write_commands i \<noteq> []" if "(k, i) \<in> set (enumerate 0 items)" for k i
    using that assms by (auto simp: in_set_enumerate_eq)
  ultimately show ?thesis by (auto simp: bulk_written_def bulk_errors_def write_done_def)
qed

lemma unrefused_writes: "bulk_refusal r i = None \<Longrightarrow> write_commands i \<noteq> []"
  by (auto simp: bulk_refusal_def write_commands_def split: if_splits)

text \<open>C18: several writes are checked before the first runs, and counted truly. Either nothing is
  written and the client is told an error, after at most the types of the keys were asked; or
  every write had passed the checks, each one's commands were sent once in order, the number of
  writes told is the number of those all of whose commands succeeded, and there is an error
  exactly when one is missing.\<close>

theorem redis_bulk_is_checked_first:
  assumes "RedisBulkWrite r items = (cmds, n, err)"
  shows "(n = 0 \<and> err \<noteq> None \<and> (cmds = None \<or> (\<exists>keys. cmds = Some (map RType keys))))
    \<or> (\<exists>keys. cmds = Some (map RType keys @ concat (map write_commands items))
        \<and> list_all (\<lambda>i. bulk_refusal r i = None \<and> type_refusal r i = None) items
        \<and> n = int (length (filter (\<lambda>(k, i). write_done r k i) (enumerate 0 items)))
        \<and> (err = None \<longleftrightarrow> n = int (length items)))"
proof (cases "items = [] \<or> 10000 < length items \<or> first_refusal (bulk_refusal r) 0 items \<noteq> None
    \<or> rr_types_error r \<noteq> None \<or> first_refusal (type_refusal r) 0 items \<noteq> None")
  case True
  then have "n = 0 \<and> err \<noteq> None \<and> (cmds = None \<or> cmds = Some (map RType (map rw_Key (filter (\<lambda>i. rw_Type i = ''hash'') items))))"
    using assms by (auto simp: RedisBulkWrite_def Let_def dest: sym split: option.splits if_splits)
  then show ?thesis by blast
next
  case False
  let ?types = "map RType (map rw_Key (filter (\<lambda>i. rw_Type i = ''hash'') items))"
  let ?sent = "?types @ concat (map write_commands items)"
  let ?n = "bulk_written r items" and ?errors = "bulk_errors r items"
  have passed: "\<forall>i \<in> set items. bulk_refusal r i = None" "\<forall>i \<in> set items. type_refusal r i = None"
    using False by (auto simp: first_refusal_none)
  have all: "?n = length items \<longleftrightarrow> ?errors = []"
    by (rule written_all) (use passed unrefused_writes in blast)
  have "cmds = Some ?sent \<and> n = int ?n \<and> (err = None \<longleftrightarrow> ?errors = [])"
  proof (cases ?errors)
    case Nil
    with all have "?n = length items" by simp
    with Nil False assms show ?thesis by (auto simp: RedisBulkWrite_def Let_def)
  next
    case (Cons e es)
    with False assms show ?thesis
      by (cases "find (\<lambda>(k, i). \<not> write_done r k i) (enumerate 0 items)") (auto simp: RedisBulkWrite_def Let_def)
  qed
  with all passed show ?thesis
    by (intro disjI2 exI [of _ "map rw_Key (filter (\<lambda>i. rw_Type i = ''hash'') items)"]) (auto simp: list_all_iff bulk_written_def)
qed

text \<open>
  The types are those before the first write: a list that sets a key as a string and then as a
  hash passes the checks, and its second write fails at the server with the first one written.
\<close>

definition string_write :: RedisWriteInput where
  "string_write = \<lparr>rw_Database = [], rw_Key = ''k'', rw_Type = ''string'', rw_Field = [], rw_Value = ''v'', rw_TTLSeconds = 0\<rparr>"

definition hash_write :: RedisWriteInput where
  "hash_write = \<lparr>rw_Database = [], rw_Key = ''k'', rw_Type = ''hash'', rw_Field = ''f'', rw_Value = ''v'', rw_TTLSeconds = 0\<rparr>"

definition wrong_type :: redis_world where
  "wrong_type = two_pages\<lparr>rr_kind := \<lambda>_. Some ''none'', rr_pipe := \<lambda>k _. if k = 1 then Some ''WRONGTYPE'' else None\<rparr>"

lemma checked_list_fails_halfway:
  "RedisBulkWrite wrong_type [string_write, hash_write]
     = (Some [RType ''k'', RSet ''k'' ''v'' 0, RHSet ''k'' ''f'' ''v''], 1, Some ''1 of 2 writes were written; write 2 failed: WRONGTYPE'')"
  by code_simp

subsection \<open>A backup of a key\<close>

text \<open>C22: a restore of a key sends back what the backup read. Where the vault gives back what it sealed,
  a stored backup opens as the caller's own, and restoring it sends one command: \<open>RESTORE\<close> with
  the bytes \<open>DUMP\<close> had returned and the time to live the key had, or \<open>DEL\<close> for a key that did not
  exist.\<close>

theorem redis_backup_restores_key:
  assumes "redisCaptureBackup r b identity connection database key kind statement = (Captured item, cmds)"
    and "\<forall>p x. bs_seal b p = Some x \<longrightarrow> unseal x = Inr p"
  shows "\<exists>p. openRedisRowBackup True unseal item = Inr p \<and> rp_Key p = key \<and> rp_UserID p = UserID identity
    \<and> (case rr_dump r key of
         Inl _ \<Rightarrow> False
       | Inr None \<Rightarrow> fst (RedisRestoreSnapshot r' key (rp_Snapshot p)) = Some [RDel key]
       | Inr (Some dump) \<Rightarrow> \<exists>ttl. rr_pttl r key = Inr ttl
           \<and> fst (RedisRestoreSnapshot r' key (rp_Snapshot p)) = Some [RRestore key (max 0 ttl) dump])"
proof -
  obtain sn where sn: "snd (RedisSnapshotKey r key) = Inr sn"
    and kept: "keep_backup b identity connection database key kind 1
        \<lparr>rp_BackupID = bs_fresh_id b, rp_UserID = UserID identity, rp_Statement = statement,
         rp_Database = database, rp_Key = key, rp_Snapshot = sn\<rparr> = Captured item"
    using assms(1) by (auto simp: redisCaptureBackup_def split: if_splits prod.splits sum.splits)
  let ?p = "\<lparr>rp_BackupID = bs_fresh_id b, rp_UserID = UserID identity, rp_Statement = statement,
         rp_Database = database, rp_Key = key, rp_Snapshot = sn\<rparr>"
  obtain x where "bs_seal b ?p = Some x" and item: "rb_Sealed item = x" "rb_ID item = bs_fresh_id b"
    "rb_UserID item = UserID identity"
    using kept by (auto simp: keep_backup_def split: option.splits if_splits)
  with assms(2) have "openRedisRowBackup True unseal item = Inr ?p"
    by (simp add: openRedisRowBackup_def open_backup_def)
  moreover have "case rr_dump r key of
         Inl _ \<Rightarrow> False
       | Inr None \<Rightarrow> fst (RedisRestoreSnapshot r' key sn) = Some [RDel key]
       | Inr (Some dump) \<Rightarrow> \<exists>ttl. rr_pttl r key = Inr ttl
           \<and> fst (RedisRestoreSnapshot r' key sn) = Some [RRestore key (max 0 ttl) dump]"
    using sn by (auto simp: RedisSnapshotKey_def RedisRestoreSnapshot_def run_command_def b64_round_trip max_def
        split: sum.splits option.splits)
  ultimately show ?thesis by (intro exI [of _ ?p]) (simp cong: sum.case_cong option.case_cong)
qed

subsection \<open>Examples\<close>


lemma redis_bulk_is_checked_first_witness:
  "\<exists>keys. [RType ''k'', RSet ''k'' ''v'' 0, RHSet ''k'' ''f'' ''v'']
     = map RType keys @ concat (map write_commands [string_write, hash_write])"
  using redis_bulk_is_checked_first [OF checked_list_fails_halfway] by auto

lemma redis_backup_restores_key_witness:
  "\<exists>item p. openRedisRowBackup True Inr (item :: redisRowBackupPayload RowBackup) = Inr p
     \<and> fst (RedisRestoreSnapshot two_pages ''k'' (rp_Snapshot p)) = Some [RRestore ''k'' 90 ''xy'']"
proof -
  let ?b = "\<lparr>bs_vault = True, bs_seal = Some, bs_stores = True, bs_fresh_id = ''i'', bs_now = []\<rparr>"
  let ?identity = "\<lparr>UserID = ''u'', OrgID = ''o'', Email = [], IRole = ''admin''\<rparr>"
  obtain item cmds where run: "redisCaptureBackup two_pages ?b ?identity plain_connection ''0'' ''k'' ''update'' [] = (Captured item, cmds)"
    by (simp add: redisCaptureBackup_def RedisSnapshotKey_def two_pages_def keep_backup_def)
  from redis_backup_restores_key [OF run, of Inr two_pages] show ?thesis
    by (auto simp: two_pages_def max_def)
qed

end
