(* ===== verification/Elasticsearch.thy ===== *)
theory Elasticsearch
  imports Redis_Api
begin

section \<open>Elasticsearch (engine/elasticsearch.go, api/elasticsearch.go, api/elasticsearch_rowbackup.go)\<close>

text \<open>
  One index, one document by its identifier, or one search: what the methods send, the handlers,
  and the backup of a document. What \<open>encoding/json\<close> makes of a text and what the cluster answers
  are arguments.
\<close>

datatype es_call =
    ESSearch string "(string \<times> string) list"
  | ESIndex string string string
  | ESBulk string string
  | ESUpdate string string string
  | ESDelete string string
  | ESGet string string

text \<open>
  A JSON text read and written again, or its error; a JSON string. Then the answers: the hits of
  a search with its sort values and aggregations; the identifier an index request made; the
  items of a bulk request, with identifier and error; whether an update or delete failed; the
  source of a document, absent for a missing one.
\<close>

record es_world =
  ew_json :: "string \<Rightarrow> string + string"
  ew_string :: "string \<Rightarrow> string"
  ew_search :: "es_call \<Rightarrow> string + string list \<times> string \<times> string"
  ew_index :: "es_call \<Rightarrow> string + string"
  ew_bulk :: "es_call \<Rightarrow> string + (string option \<times> string option) list"
  ew_change :: "es_call \<Rightarrow> string option"
  ew_get :: "es_call \<Rightarrow> string + string option"

definition json_error :: "es_world \<Rightarrow> string \<Rightarrow> string \<Rightarrow> string option" where
  "json_error e what raw = (case ew_json e raw of Inl m \<Rightarrow> Some (what @ m) | Inr _ \<Rightarrow> None)"

subsection \<open>Searching\<close>

record ElasticsearchSearchInput =
  es_Index :: string
  es_Query :: string
  es_Sort :: string
  es_SearchAfter :: string
  es_Aggs :: string
  es_Size :: int

record ElasticsearchSearchResult =
  er_Documents :: "string list"
  er_Truncated :: bool
  er_Aggregations :: string
  er_SearchAfter :: string

text \<open>The fields that are set, in the order the code reads them; the body has them in the order of their names.\<close>

definition search_fields :: "ElasticsearchSearchInput \<Rightarrow> (string \<times> string) list" where
  "search_fields i = filter (\<lambda>f. snd f \<noteq> [])
     [(''query'', es_Query i), (''sort'', es_Sort i), (''search_after'', es_SearchAfter i), (''aggs'', es_Aggs i)]"

fun recode_fields :: "es_world \<Rightarrow> (string \<times> string) list \<Rightarrow> string + (string \<times> string) list" where
  "recode_fields e [] = Inr []"
| "recode_fields e ((name, raw) # flds) =
     (case ew_json e raw of
        Inl m \<Rightarrow> Inl (name @ '' must be valid JSON: '' @ m)
      | Inr v \<Rightarrow> (case recode_fields e flds of Inl m \<Rightarrow> Inl m | Inr fs \<Rightarrow> Inr ((name, v) # fs)))"

definition search_call :: "es_world \<Rightarrow> int \<Rightarrow> ElasticsearchSearchInput \<Rightarrow> string + es_call" where
  "search_call e size_wanted i =
     (if trim_space (es_Index i) = [] then Inl ''index is required''
      else if 10000 < size_wanted then Inl ''size must be 10000 or less''
      else if es_SearchAfter i \<noteq> [] \<and> es_Sort i = [] then Inl ''searchAfter requires sort''
      else case recode_fields e (search_fields i) of
        Inl m \<Rightarrow> Inl m
      | Inr flds \<Rightarrow> Inr (ESSearch (es_Index i) (sort_key fst ((''size'', decimal size_wanted) # flds))))"

definition ElasticsearchSearch ::
  "es_world \<Rightarrow> ElasticsearchSearchInput \<Rightarrow> (es_call, ElasticsearchSearchResult) attempt" where
  "ElasticsearchSearch e i =
     (let n = (if es_Size i \<le> 0 then 100 else es_Size i) in
      attempt (search_call e n i) (\<lambda>c.
        case ew_search e c of
          Inl m \<Rightarrow> Inl m
        | Inr (docs, sorting, aggs) \<Rightarrow>
            Inr \<lparr>er_Documents = docs, er_Truncated = (int (length docs) = n), er_Aggregations = aggs,
                 er_SearchAfter = sorting\<rparr>))"

subsection \<open>Writing\<close>

definition ElasticsearchIndex :: "es_world \<Rightarrow> string \<Rightarrow> string \<Rightarrow> string \<Rightarrow> (es_call, string) attempt" where
  "ElasticsearchIndex e index i doc =
     (if trim_space index = [] \<or> trim_space i = [] then (None, Inl ''index and id are required'')
      else if doc = [] then (None, Inl ''document is required'')
      else case json_error e ''document must be a JSON object: '' doc of
        Some m \<Rightarrow> (None, Inl m)
      | None \<Rightarrow> attempt (Inr (ESIndex index i doc)) (ew_index e))"

record ElasticsearchBulkDoc =
  eb_ID :: string
  eb_Document :: string

definition bulk_action :: "es_world \<Rightarrow> ElasticsearchBulkDoc \<Rightarrow> string" where
  "bulk_action e d =
     [CHR ''{''] @ ew_string e ''index'' @ '':{''
     @ (if trim_space (eb_ID d) = [] then [] else ew_string e ''_id'' @ '':'' @ ew_string e (eb_ID d)) @ ''}}''"

fun bulk_body :: "es_world \<Rightarrow> nat \<Rightarrow> ElasticsearchBulkDoc list \<Rightarrow> string + string" where
  "bulk_body e k [] = Inr []"
| "bulk_body e k (d # ds) =
     (if eb_Document d = [] then Inl (''document '' @ decimal (int k + 1) @ '': document is required'')
      else case json_error e (''document '' @ decimal (int k + 1) @ '' must be a JSON object: '') (eb_Document d) of
        Some m \<Rightarrow> Inl m
      | None \<Rightarrow>
          (case bulk_body e (Suc k) ds of
             Inl m \<Rightarrow> Inl m
           | Inr body \<Rightarrow> Inr (bulk_action e d @ [CHR 0x0A] @ eb_Document d @ [CHR 0x0A] @ body)))"

definition bulk_call :: "es_world \<Rightarrow> string \<Rightarrow> ElasticsearchBulkDoc list \<Rightarrow> string + es_call" where
  "bulk_call e index docs =
     (if trim_space index = [] then Inl ''index is required''
      else if docs = [] then Inl ''at least one document is required''
      else if 10000 < length docs then Inl ''at most 10000 documents can be indexed at once''
      else map_sum (\<lambda>m. m) (ESBulk index) (bulk_body e 0 docs))"

text \<open>The identifiers, and the errors with the number of their document.\<close>

definition bulk_result :: "(string option \<times> string option) list \<Rightarrow> string list \<times> string list" where
  "bulk_result items =
     (List.map_filter fst items,
      List.map_filter (\<lambda>(k, item). map_option (\<lambda>m. ''document '' @ decimal (int k + 1) @ '': '' @ m) (snd item))
        (enumerate 0 items))"

definition ElasticsearchBulkIndex ::
  "es_world \<Rightarrow> string \<Rightarrow> ElasticsearchBulkDoc list \<Rightarrow> (es_call, string list \<times> string list) attempt" where
  "ElasticsearchBulkIndex e index docs =
     attempt (bulk_call e index docs) (\<lambda>c. map_sum (\<lambda>m. m) bulk_result (ew_bulk e c))"

definition change :: "es_world \<Rightarrow> es_call \<Rightarrow> string + int" where
  "change e c = (case ew_change e c of Some m \<Rightarrow> Inl m | None \<Rightarrow> Inr 1)"

definition ElasticsearchUpdate :: "es_world \<Rightarrow> string \<Rightarrow> string \<Rightarrow> string \<Rightarrow> (es_call, int) attempt" where
  "ElasticsearchUpdate e index i doc =
     (if trim_space index = [] \<or> trim_space i = [] then (None, Inl ''index and id are required'')
      else if doc = [] then (None, Inl ''doc is required'')
      else case ew_json e doc of
        Inl m \<Rightarrow> (None, Inl (''doc must be a JSON object: '' @ m))
      | Inr d \<Rightarrow> attempt (Inr (ESUpdate index i ([CHR ''{''] @ ew_string e ''doc'' @ '':'' @ d @ ''}''))) (change e))"

definition ElasticsearchDelete :: "es_world \<Rightarrow> string \<Rightarrow> string \<Rightarrow> (es_call, int) attempt" where
  "ElasticsearchDelete e index i =
     (if trim_space index = [] \<or> trim_space i = [] then (None, Inl ''index and id are required'')
      else attempt (Inr (ESDelete index i)) (change e))"

subsection \<open>The handlers\<close>

definition es_only :: string where
  "es_only = ''this connection is not an Elasticsearch connection''"

definition es_database :: "Connection \<Rightarrow> string" where
  "es_database connection = (if conn_Database connection = [] then ''elasticsearch'' else conn_Database connection)"

definition has_query :: "ElasticsearchSearchInput \<Rightarrow> bool" where
  "has_query i \<longleftrightarrow> es_Query i \<noteq> [] \<and> trim_space (es_Query i) \<noteq> ''{}'' \<or> es_SearchAfter i \<noteq> [] \<or> es_Aggs i \<noteq> []"

definition elasticsearchSearch ::
  "server \<Rightarrow> unit world \<Rightarrow> es_world \<Rightarrow> (ElasticsearchSearchInput \<Rightarrow> string) \<Rightarrow> Identity \<Rightarrow> Connection option \<Rightarrow>
   string option \<Rightarrow> ElasticsearchSearchInput option \<Rightarrow> (es_call, 'item) nosql_event list" where
  "elasticsearchSearch s w e enc identity found opened decoded =
     nosql_request s identity found {''elasticsearch''} es_only decoded (\<lambda>connection input.
       (let i = input\<lparr>es_Index := trim_space (es_Index input),
                      es_Size := (if es_Size input = 0 then 100 else es_Size input)\<rparr> in
        if es_Index i = [] \<or> CHR 0x00 \<in> set (es_Index i) \<or> CHR 0x0D \<in> set (es_Index i) \<or> CHR 0x0A \<in> set (es_Index i)
        then bad_request ''index is required''
        else if es_Size i < 1 \<or> 10000 < es_Size i then bad_request ''size must be between 1 and 10000''
        else guarded_read s w identity connection opened
          (nosqlStatement Select (es_database connection) (es_Index i) (has_query i)) (enc i) (\<lambda>limit t.
            performed (enc i) False t (\<lambda>x. int (length (er_Documents x)))
              (ElasticsearchSearch e (i\<lparr>es_Size := cap_rows limit (es_Size i)\<rparr>)))))"

text \<open>One document by its identifier: the index, the identifier, and what is sent.\<close>

definition es_one ::
  "(Connection \<Rightarrow> string \<Rightarrow> string \<Rightarrow> (es_call, 'item) nosql_event list) \<Rightarrow> Connection \<Rightarrow> string \<Rightarrow> string \<Rightarrow>
   (es_call, 'item) nosql_event list" where
  "es_one continue connection index i =
     (if trim_space index = [] \<or> trim_space i = [] then bad_request ''index and id are required''
      else continue connection (trim_space index) (trim_space i))"

definition elasticsearchIndex ::
  "server \<Rightarrow> unit world \<Rightarrow> es_world \<Rightarrow> (string \<times> string \<times> string \<Rightarrow> string) \<Rightarrow> Identity \<Rightarrow> Connection option \<Rightarrow>
   string option \<Rightarrow> (string \<times> string \<times> string) option \<Rightarrow> (es_call, 'item) nosql_event list" where
  "elasticsearchIndex s w e enc identity found opened decoded =
     nosql_request s identity found {''elasticsearch''} es_only decoded (\<lambda>connection (given, given_id, doc).
       es_one (\<lambda>connection index i.
         let raw = enc (index, i, doc) in
         guarded_write s w identity connection opened (nosqlStatement Update (es_database connection) index True) raw
           (\<lambda>t. performed raw False t (\<lambda>_. 1) (ElasticsearchIndex e index i doc))) connection given given_id)"

definition elasticsearchBulkIndex ::
  "server \<Rightarrow> unit world \<Rightarrow> es_world \<Rightarrow> (string \<times> ElasticsearchBulkDoc list \<Rightarrow> string) \<Rightarrow> Identity \<Rightarrow> Connection option \<Rightarrow>
   string option \<Rightarrow> (string \<times> ElasticsearchBulkDoc list) option \<Rightarrow> (es_call, 'item) nosql_event list" where
  "elasticsearchBulkIndex s w e enc identity found opened decoded =
     nosql_request s identity found {''elasticsearch''} es_only decoded (\<lambda>connection (given, docs).
       (let index = trim_space given; raw = enc (index, docs) in
        if index = [] then bad_request ''index is required''
        else if docs = [] then bad_request ''at least one document is required''
        else if 10000 < length docs then bad_request ''at most 10000 documents can be indexed at once''
        else guarded_write s w identity connection opened (nosqlStatement Insert (es_database connection) index False) raw
          (\<lambda>t. performed raw False t (\<lambda>r. int (length (fst r))) (ElasticsearchBulkIndex e index docs))))"

subsection \<open>Backups\<close>

record elasticsearchRowBackupPayload =
  ep_BackupID :: string
  ep_UserID :: string
  ep_Statement :: string
  ep_Database :: string
  ep_Index :: string
  ep_DocID :: string
  ep_Source :: string

definition elasticsearchCaptureBackup ::
  "es_world \<Rightarrow> (elasticsearchRowBackupPayload, 's) backup_store \<Rightarrow> Identity \<Rightarrow> Connection \<Rightarrow> string \<Rightarrow> string \<Rightarrow>
   string \<Rightarrow> string \<Rightarrow> string \<Rightarrow> 's captured \<times> es_call option" where
  "elasticsearchCaptureBackup e b identity connection database index i kind statement =
     (if \<not> bs_vault b then (NothingToBackUp, None)
      else
        (case ew_get e (ESGet index i) of
           Inl m \<Rightarrow> CaptureSkipped (''the previous document could not be read: '' @ m)
         | Inr None \<Rightarrow> NothingToBackUp
         | Inr (Some source) \<Rightarrow>
             keep_backup b identity connection database index kind 1
               \<lparr>ep_BackupID = bs_fresh_id b, ep_UserID = UserID identity, ep_Statement = statement,
                ep_Database = database, ep_Index = index, ep_DocID = i, ep_Source = source\<rparr>,
         Some (ESGet index i)))"

definition elasticsearchUpdate ::
  "server \<Rightarrow> unit world \<Rightarrow> es_world \<Rightarrow> (elasticsearchRowBackupPayload, 's) backup_store \<Rightarrow>
   (string \<times> string \<times> string \<times> bool \<Rightarrow> string) \<Rightarrow> Identity \<Rightarrow> Connection option \<Rightarrow> string option \<Rightarrow>
   (string \<times> string \<times> string \<times> bool) option \<Rightarrow> (es_call, 's RowBackup) nosql_event list" where
  "elasticsearchUpdate s w e b enc identity found opened decoded =
     nosql_request s identity found {''elasticsearch''} es_only decoded (\<lambda>connection (given, given_id, doc, wanted).
       es_one (\<lambda>connection index i.
         let raw = enc (index, i, doc, wanted) in
         guarded_write s w identity connection opened (nosqlStatement Update (es_database connection) index True) raw
           (\<lambda>t. backed_up_write wanted t
             (elasticsearchCaptureBackup e b identity connection (es_database connection) index i ''update'' raw)
             (\<lambda>noted. performed raw noted t (\<lambda>_. 1) (ElasticsearchUpdate e index i doc)))) connection given given_id)"

definition elasticsearchDelete ::
  "server \<Rightarrow> unit world \<Rightarrow> es_world \<Rightarrow> (elasticsearchRowBackupPayload, 's) backup_store \<Rightarrow>
   (string \<times> string \<times> bool \<Rightarrow> string) \<Rightarrow> Identity \<Rightarrow> Connection option \<Rightarrow> string option \<Rightarrow>
   (string \<times> string \<times> bool) option \<Rightarrow> (es_call, 's RowBackup) nosql_event list" where
  "elasticsearchDelete s w e b enc identity found opened decoded =
     nosql_request s identity found {''elasticsearch''} es_only decoded (\<lambda>connection (given, given_id, wanted).
       es_one (\<lambda>connection index i.
         let raw = enc (index, i, wanted) in
         guarded_write s w identity connection opened (nosqlStatement Delete (es_database connection) index True) raw
           (\<lambda>t. backed_up_write wanted t
             (elasticsearchCaptureBackup e b identity connection (es_database connection) index i ''delete'' raw)
             (\<lambda>noted. performed raw noted t (\<lambda>_. 1) (ElasticsearchDelete e index i)))) connection given given_id)"

definition openElasticsearchRowBackup ::
  "bool \<Rightarrow> ('s \<Rightarrow> string + elasticsearchRowBackupPayload) \<Rightarrow> 's RowBackup \<Rightarrow> string + elasticsearchRowBackupPayload" where
  "openElasticsearchRowBackup vault unseal = open_backup vault unseal (\<lambda>p. (ep_BackupID p, ep_UserID p))"

definition applyElasticsearchRowBackup ::
  "server \<Rightarrow> unit world \<Rightarrow> es_world \<Rightarrow> bool \<Rightarrow> ('s \<Rightarrow> string + elasticsearchRowBackupPayload) \<Rightarrow> Identity \<Rightarrow> Connection \<Rightarrow>
   string option \<Rightarrow> 's RowBackup \<Rightarrow> (es_call, 's RowBackup) nosql_event list" where
  "applyElasticsearchRowBackup s w e vault unseal identity connection opened item =
     (case openElasticsearchRowBackup vault unseal item of
        Inl _ \<Rightarrow> answered (Refused 500 ''INTERNAL'' ''the backup could not be read'')
      | Inr p \<Rightarrow>
          nosql_restore s w identity connection opened (nosqlStatement Update (ep_Database p) (ep_Index p) True)
            (ep_Statement p)
            (''-- Row backup restore: document '' @ ep_DocID p @ '' of '' @ ep_Index p @ [CHR 0x0A] @ ep_Statement p)
            (one_restore (ElasticsearchIndex e (ep_Index p) (ep_DocID p) (ep_Source p))))"

definition elasticsearchRestoreScript ::
  "unicode \<Rightarrow> (string \<Rightarrow> string) \<Rightarrow> 's RowBackup \<Rightarrow> elasticsearchRowBackupPayload \<Rightarrow> string" where
  "elasticsearchRestoreScript u quote item p =
     (let nl = [CHR 0x0A]; dq = [CHR 0x22] in
      ''// Restores document '' @ quote (ep_DocID p) @ '' of '' @ quote (ep_Index p) @ '' backed up before this ''
      @ to_upper u (rb_Kind item) @ '':'' @ nl @ comment_lines ''//   '' (ep_Statement p)
      @ ''// For review only: re-indexes the document exactly as it was.'' @ nl
      @ ''// '' @ restore_hint @ '' to actually apply it.'' @ nl @ nl
      @ [CHR ''{''] @ dq @ ''index'' @ dq @ '':'' @ quote (ep_Index p) @ '','' @ dq @ ''id'' @ dq @ '':'' @ quote (ep_DocID p)
      @ '','' @ dq @ ''document'' @ dq @ '':'' @ ep_Source p @ [CHR ''}''] @ nl)"

subsection \<open>What a bulk request says\<close>

text \<open>The cluster reads the body line by line: an action, then its document.\<close>

lemma split_line: "CHR 0x0A \<notin> set a \<Longrightarrow> str_split (CHR 0x0A) (a @ [CHR 0x0A] @ rest) = a # str_split (CHR 0x0A) rest"
  by (induction a) auto

text \<open>A bulk request indexes the given documents and nothing else, if they are single lines. Then
  the lines of its body are, for each document in order, its index action and the document.\<close>

lemma bulk_lines_are_documents:
  assumes "bulk_body e k docs = Inr body" and "\<And>d. d \<in> set docs \<Longrightarrow> CHR 0x0A \<notin> set (eb_Document d)"
    and "\<And>v. CHR 0x0A \<notin> set (ew_string e v)"
  shows "str_split (CHR 0x0A) body = concat (map (\<lambda>d. [bulk_action e d, eb_Document d]) docs) @ [[]]"
  using assms(1,2)
proof (induction docs arbitrary: k body)
  case Nil
  then show ?case by simp
next
  case (Cons d ds)
  obtain later where later: "bulk_body e (Suc k) ds = Inr later"
    and body: "body = bulk_action e d @ [CHR 0x0A] @ eb_Document d @ [CHR 0x0A] @ later"
    using Cons.prems(1) by (auto split: if_splits option.splits sum.splits)
  have "CHR 0x0A \<notin> set (bulk_action e d)" using assms(3) by (auto simp: bulk_action_def)
  with Cons.IH [OF later] Cons.prems(2) show ?case
    unfolding body by (subst split_line, simp, subst split_line, simp_all)
qed

text \<open>
  A document is sent as it was typed. One that is written on several lines, as JSON allows, is cut
  at its line ends, and its later lines are read as actions of their own, on any index.
\<close>

definition lenient_json :: es_world where
  "lenient_json = \<lparr>ew_json = Inr, ew_string = (\<lambda>v. [CHR 0x22] @ filter (\<lambda>c. c \<noteq> CHR 0x0A) v @ [CHR 0x22]),
     ew_search = (\<lambda>_. Inl []), ew_index = (\<lambda>_. Inl []), ew_bulk = (\<lambda>_. Inl []), ew_change = (\<lambda>_. None),
     ew_get = (\<lambda>_. Inr None)\<rparr>"

definition other_action :: string where
  "other_action = [CHR ''{'', CHR 0x22] @ ''delete'' @ [CHR 0x22] @ '':{'' @ [CHR 0x22] @ ''_index'' @ [CHR 0x22] @ '':''
     @ [CHR 0x22] @ ''other'' @ [CHR 0x22] @ ''}}''"

lemma document_lines_become_actions:
  "\<exists>body. bulk_body lenient_json 0 [\<lparr>eb_ID = [], eb_Document = ''['' @ [CHR 0x0A] @ other_action @ [CHR 0x0A] @ '']''\<rparr>] = Inr body
     \<and> str_split (CHR 0x0A) body ! 2 = other_action"
  by (simp add: lenient_json_def bulk_action_def json_error_def other_action_def)

lemma bulk_lines_are_documents_witness:
  "\<exists>body. bulk_body lenient_json 0 [\<lparr>eb_ID = ''1'', eb_Document = ''{}''\<rparr>] = Inr body
     \<and> str_split (CHR 0x0A) body = [bulk_action lenient_json \<lparr>eb_ID = ''1'', eb_Document = ''{}''\<rparr>, ''{}'', []]"
proof -
  obtain body where run: "bulk_body lenient_json 0 [\<lparr>eb_ID = ''1'', eb_Document = ''{}''\<rparr>] = Inr body"
    by (simp add: lenient_json_def json_error_def)
  have "str_split (CHR 0x0A) body
      = concat (map (\<lambda>d. [bulk_action lenient_json d, eb_Document d]) [\<lparr>eb_ID = ''1'', eb_Document = ''{}''\<rparr>]) @ [[]]"
    by (rule bulk_lines_are_documents [OF run]) (auto simp: lenient_json_def)
  with run show ?thesis by auto
qed

end
