(* ===== verification/Engine_Connection.thy ===== *)
theory Engine_Connection
  imports Sql_Text
begin

section \<open>How a database is reached (engine/engine.go, engine/tls.go, engine/ssh.go, engine/additional.go)\<close>

text \<open>
  The settings of a connection as the engine receives them, what the TLS and SSH settings come to,
  and the key under which its pool is kept. Reading certificates and keys, SHA-256 and the dialers
  are parameters.
\<close>

record TLSSettings =
  tls_Mode :: string
  tls_ServerName :: string
  tls_CAPEM :: string
  tls_ClientCertPEM :: string
  tls_ClientKeyPEM :: string

record SSHConfig =
  ssh_Host :: string
  ssh_Port :: int
  ssh_User :: string
  ssh_AuthMethod :: string
  ssh_Password :: string
  ssh_PrivateKey :: string
  ssh_Passphrase :: string
  ssh_KnownHost :: string

record EngineConnection =
  ec_ID :: string
  ec_Engine :: string
  ec_Host :: string
  ec_Port :: int
  ec_Database :: string
  ec_Username :: string
  ec_Password :: string
  ec_TLS :: TLSSettings
  ec_PoolSize :: int
  ec_SSH :: SSHConfig
  ec_ContactPoints :: "string list"
  ec_CassandraConsistency :: string
  ec_CassandraPageSize :: int

subsection \<open>TLS\<close>

definition tls_modes :: "string list" where
  "tls_modes = [''disable'', ''require'', ''verify-ca'', ''verify-full'']"

definition NormalizeTLSMode :: "unicode \<Rightarrow> (string \<Rightarrow> string) \<Rightarrow> string \<Rightarrow> string + string" where
  "NormalizeTLSMode u quote mode =
     (let normalized = to_lower u (trim_space mode) in
      if normalized \<in> set tls_modes then Inr normalized
      else Inl (''unsupported TLS mode '' @ quote mode))"

text \<open>
  What \<open>crypto/x509\<close> and \<open>crypto/tls\<close> make of the texts: the error of a pair, whether a text
  holds a certificate, and the quoting of \<open>%q\<close>.
\<close>

record tls_world =
  tw_pair :: "string \<Rightarrow> string \<Rightarrow> string option"
  tw_has_certificate :: "string \<Rightarrow> bool"
  tw_quote :: "string \<Rightarrow> string"

text \<open>
  The fields of \<open>tls.Config\<close> that the code sets; \<open>tc_verify_chain\<close> is its own check of the
  chain, against the roots given or the system's.
\<close>

record tls_config =
  tc_ServerName :: string
  tc_Pair :: "(string \<times> string) option"
  tc_InsecureSkipVerify :: bool
  tc_verify_chain :: "string option option"
  tc_RootCAs :: "string option"

definition tls_pair :: "tls_world \<Rightarrow> TLSSettings \<Rightarrow> string + (string \<times> string) option" where
  "tls_pair w s =
     (if tls_ClientCertPEM s = [] \<and> tls_ClientKeyPEM s = [] then Inr None
      else case tw_pair w (tls_ClientCertPEM s) (tls_ClientKeyPEM s) of
        Some e \<Rightarrow> Inl (''client certificate and key do not form a valid pair: '' @ e)
      | None \<Rightarrow> Inr (Some (tls_ClientCertPEM s, tls_ClientKeyPEM s)))"

definition tls_roots :: "tls_world \<Rightarrow> TLSSettings \<Rightarrow> string + string option" where
  "tls_roots w s =
     (if trim_space (tls_CAPEM s) = [] then Inr None
      else if \<not> tw_has_certificate w (tls_CAPEM s)
      then Inl ''CA certificate must contain at least one PEM certificate''
      else Inr (Some (tls_CAPEM s)))"

definition tls_server_name :: "TLSSettings \<Rightarrow> string \<Rightarrow> string" where
  "tls_server_name s host = (let name = trim_space (tls_ServerName s) in if name \<noteq> [] then name else host)"

text \<open>\<open>None\<close> is a connection without encryption.\<close>

definition tlsConfig :: "unicode \<Rightarrow> tls_world \<Rightarrow> TLSSettings \<Rightarrow> string \<Rightarrow> string + tls_config option" where
  "tlsConfig u w s host =
     bind_result (NormalizeTLSMode u (tw_quote w) (if tls_Mode s = [] then ''disable'' else tls_Mode s)) (\<lambda>mode.
       if mode = ''disable'' then Inr None
       else bind_result (tls_pair w s) (\<lambda>pair. bind_result (tls_roots w s) (\<lambda>roots.
         Inr (Some \<lparr>tc_ServerName = tls_server_name s host, tc_Pair = pair,
           tc_InsecureSkipVerify = (mode = ''require'' \<or> mode = ''verify-ca''),
           tc_verify_chain = (if mode = ''verify-ca'' then Some roots else None),
           tc_RootCAs = (if mode = ''verify-full'' then roots else None)\<rparr>))))"

definition ValidateTLSSettings :: "unicode \<Rightarrow> tls_world \<Rightarrow> TLSSettings \<Rightarrow> string option" where
  "ValidateTLSSettings u w s = (case tlsConfig u w s ''validation.invalid'' of Inl e \<Rightarrow> Some e | Inr _ \<Rightarrow> None)"

lemma disable_mode [simp]: "to_lower u (trim_space ''disable'') = ''disable''"
  by code_simp

text \<open>
  Only the mode \<open>disable\<close>, or none, gives a connection without encryption, and only \<open>require\<close> one
  whose server is not verified; the host name is compared under \<open>verify-full\<close> alone.
\<close>

lemma plain_only_when_disabled:
  "tlsConfig u w s host = Inr None \<Longrightarrow> tls_Mode s = [] \<or> to_lower u (trim_space (tls_Mode s)) = ''disable''"
  by (auto simp: tlsConfig_def NormalizeTLSMode_def bind_result_def Let_def split: sum.splits if_splits)

lemma unverified_only_when_required:
  assumes "tlsConfig u w s host = Inr (Some c)" and "tc_InsecureSkipVerify c" and "tc_verify_chain c = None"
  shows "to_lower u (trim_space (tls_Mode s)) = ''require''"
  using assms
  by (auto simp: tlsConfig_def NormalizeTLSMode_def bind_result_def Let_def tls_modes_def
    split: sum.splits if_splits)

lemma chosen_roots_are_used:
  assumes "tlsConfig u w s host = Inr (Some c)" and "trim_space (tls_CAPEM s) \<noteq> []"
    and "\<not> tc_InsecureSkipVerify c \<or> tc_verify_chain c \<noteq> None"
  shows "tc_RootCAs c = Some (tls_CAPEM s) \<or> tc_verify_chain c = Some (Some (tls_CAPEM s))"
  using assms
  by (auto simp: tlsConfig_def NormalizeTLSMode_def bind_result_def Let_def tls_modes_def tls_roots_def
    split: sum.splits if_splits)

subsection \<open>SSH\<close>

definition ssh_enabled :: "SSHConfig \<Rightarrow> bool" where
  "ssh_enabled c \<longleftrightarrow> trim_space (ssh_Host c) \<noteq> []"

text \<open>\<open>net.JoinHostPort\<close>: brackets around a host with a colon.\<close>

definition join_host_port :: "string \<Rightarrow> string \<Rightarrow> string" where
  "join_host_port host port =
     (if CHR '':'' \<in> set host then ''['' @ host @ '']:'' @ port else host @ '':'' @ port)"

definition ssh_address :: "SSHConfig \<Rightarrow> string" where
  "ssh_address c = join_host_port (ssh_Host c) (decimal (if ssh_Port c = 0 then 22 else ssh_Port c))"

text \<open>The error of a private key with its passphrase; the public key that bytes stand for.\<close>

record 'key ssh_world =
  sw_signer :: "string \<Rightarrow> string option \<Rightarrow> string option"
  sw_public_key :: "string \<Rightarrow> string + 'key"
  sw_quote :: "string \<Rightarrow> string"
  sw_decode :: "string \<Rightarrow> string"

datatype ssh_auth = KeyAuth string "string option" | PasswordAuth string

definition authMethods :: "'key ssh_world \<Rightarrow> SSHConfig \<Rightarrow> string + ssh_auth" where
  "authMethods w c =
     (if ssh_AuthMethod c = ''key'' then
        (let passphrase = (if trim_space (ssh_Passphrase c) \<noteq> [] then Some (ssh_Passphrase c) else None) in
         case sw_signer w (ssh_PrivateKey c) passphrase of
           Some e \<Rightarrow> Inl (''the SSH private key could not be read: '' @ e)
         | None \<Rightarrow> Inr (KeyAuth (ssh_PrivateKey c) passphrase))
      else if ssh_AuthMethod c = ''password'' \<or> ssh_AuthMethod c = [] then Inr (PasswordAuth (ssh_Password c))
      else Inl (''unsupported SSH authentication method '' @ sw_quote w (ssh_AuthMethod c)))"

text \<open>\<open>strings.Fields\<close>; \<open>cur\<close> is the field that is being read, reversed.\<close>

definition end_field :: "string \<Rightarrow> string list" where
  "end_field cur = (if cur = [] then [] else [rev cur])"

fun fields_loop :: "string \<Rightarrow> string \<Rightarrow> string list" where
  "fields_loop cur [] = end_field cur"
| "fields_loop cur (a # s) =
     (if ascii_space a then end_field cur @ fields_loop [] s
      else (case s of
          b # s' \<Rightarrow>
            (if space2 a b then end_field cur @ fields_loop [] s'
             else (case s' of
                 c # s'' \<Rightarrow> (if space3 a b c then end_field cur @ fields_loop [] s'' else fields_loop (a # cur) s)
               | [] \<Rightarrow> fields_loop (a # cur) s))
        | [] \<Rightarrow> fields_loop (a # cur) s))"

definition str_fields :: "string \<Rightarrow> string list" where
  "str_fields = fields_loop []"

text \<open>Which host keys are accepted: any, while one is being learned, or the stored one.\<close>

datatype 'key accepted_keys = AnyKey | OnlyKey 'key

definition hostKeyCallback ::
  "'key ssh_world \<Rightarrow> SSHConfig \<Rightarrow> bool \<Rightarrow> string + 'key accepted_keys" where
  "hostKeyCallback w c capture =
     (if capture then Inr AnyKey
      else let trimmed = trim_space (ssh_KnownHost c) in
       if trimmed = []
       then Inl ''the SSH host key has not been accepted yet; test the connection and trust the host first''
       else case str_fields trimmed of
         _ # key # _ \<Rightarrow>
           (case sw_public_key w (sw_decode w key) of
              Inl e \<Rightarrow> Inl (''the stored SSH host key is unreadable: '' @ e)
            | Inr k \<Rightarrow> Inr (OnlyKey k))
       | _ \<Rightarrow> Inl ''the stored SSH host key is malformed'')"

text \<open>Only a capture lets an unknown host through, and the stored key alone decides otherwise.\<close>

lemma tunnel_trusts_stored_key_only:
  assumes "hostKeyCallback w c False = Inr accepted"
  obtains k name key tail where "accepted = OnlyKey k" and "str_fields (trim_space (ssh_KnownHost c)) = name # key # tail"
    and "sw_public_key w (sw_decode w key) = Inr k"
  using assms by (auto simp: hostKeyCallback_def Let_def split: if_splits list.splits sum.splits)

subsection \<open>Opening\<close>

definition FileEngine :: "string \<Rightarrow> bool" where
  "FileEngine name \<longleftrightarrow> name = ''sqlite'' \<or> name = ''duckdb''"

definition AdditionalEngine :: "string \<Rightarrow> bool" where
  "AdditionalEngine name \<longleftrightarrow> FileEngine name \<or> name \<in> {''clickhouse'', ''mongodb'', ''redis'', ''valkey'', ''cassandra'', ''elasticsearch''}"

text \<open>A path: whether it is absolute, and the error of \<open>os.Stat\<close> or whether a regular file is there.\<close>

definition ValidateDatabaseFile :: "(string \<Rightarrow> bool) \<Rightarrow> (string \<Rightarrow> string + bool) \<Rightarrow> string \<Rightarrow> string option" where
  "ValidateDatabaseFile is_abs stat path =
     (if \<not> is_abs path \<or> list_ex (\<lambda>c. c = CHR ''?'' \<or> c = CHR 0x00) path
      then Some ''choose an absolute path to an existing database file (without URI options)''
      else case stat path of
        Inl e \<Rightarrow> Some (''database file: '' @ e)
      | Inr regular \<Rightarrow> if regular then None else Some ''database path must be a regular file'')"

text \<open>How many connections a pool may hold: a database file has one writer.\<close>

definition pool_size :: "EngineConnection \<Rightarrow> int" where
  "pool_size c = (if FileEngine (ec_Engine c) then 1 else if ec_PoolSize c \<le> 0 then 10 else ec_PoolSize c)"

lemma pool_is_not_unbounded: "0 < pool_size c"
  by (simp add: pool_size_def)

text \<open>
  The key of a pool. \<open>short_hash\<close> is the first eight bytes of SHA-256, in hexadecimal.
\<close>

definition tls_digest :: "(string \<Rightarrow> string) \<Rightarrow> TLSSettings \<Rightarrow> string" where
  "tls_digest short_hash s =
     short_hash (str_join [CHR 0x00] [tls_Mode s, tls_ServerName s, tls_CAPEM s, tls_ClientCertPEM s, tls_ClientKeyPEM s])"

definition ssh_digest :: "(string \<Rightarrow> string) \<Rightarrow> SSHConfig \<Rightarrow> string" where
  "ssh_digest short_hash s =
     short_hash (ssh_Host s @ ''|'' @ decimal (ssh_Port s) @ ''|'' @ ssh_User s @ ''|'' @ ssh_AuthMethod s @ ''|''
       @ ssh_Password s @ ''|'' @ ssh_PrivateKey s @ ''|'' @ ssh_Passphrase s @ ''|'' @ ssh_KnownHost s)"

definition poolKey :: "(string \<Rightarrow> string) \<Rightarrow> EngineConnection \<Rightarrow> string" where
  "poolKey short_hash c =
     ec_ID c @ ''|'' @ ec_Engine c @ '':'' @ ec_Host c @ '':'' @ decimal (ec_Port c) @ ''/'' @ ec_Database c @ ''/''
     @ ec_Username c @ ''/'' @ short_hash (ec_Password c) @ ''/'' @ tls_digest short_hash (ec_TLS c) @ ''/''
     @ decimal (ec_PoolSize c) @ ''/'' @ ssh_digest short_hash (ec_SSH c)"

text \<open>
  The keys of a connection are those that begin with its identifier, where identifiers have no
  bar; a connection that differs in its database alone has a pool of its own.
\<close>

definition owned_by :: "string \<Rightarrow> string \<Rightarrow> bool" where
  "owned_by i key \<longleftrightarrow> prefix (i @ ''|'') key"

lemma poolKey_owned: "owned_by (ec_ID c) (poolKey h c)"
  by (simp add: owned_by_def poolKey_def)

lemma poolKey_owner:
  assumes "CHR ''|'' \<notin> set (ec_ID c)" and "CHR ''|'' \<notin> set i"
  shows "owned_by i (poolKey h c) \<longleftrightarrow> i = ec_ID c"
proof
  assume "owned_by i (poolKey h c)"
  then obtain zs where "i @ ''|'' @ zs = ec_ID c @ ''|'' @ drop (Suc (length (ec_ID c))) (poolKey h c)"
    by (auto simp: owned_by_def poolKey_def prefix_def)
  then have "takeWhile (\<lambda>x. x \<noteq> CHR ''|'') (i @ ''|'' @ zs)
    = takeWhile (\<lambda>x. x \<noteq> CHR ''|'') (ec_ID c @ ''|'' @ drop (Suc (length (ec_ID c))) (poolKey h c))" by simp
  moreover have "CHR ''|'' \<notin> set i \<Longrightarrow> takeWhile (\<lambda>x. x \<noteq> CHR ''|'') (i @ ''|'' @ zs) = i" for i zs :: string
    by (induction i) auto
  ultimately show "i = ec_ID c" using assms by simp
qed (simp add: poolKey_owned)

lemma databases_have_pools_of_their_own:
  assumes "poolKey h c = poolKey h (c\<lparr>ec_Database := d\<rparr>)"
  shows "d = ec_Database c"
  using assms by (simp add: poolKey_def)

end
