(* ===== verification/Pools.thy ===== *)
theory Pools
  imports Engine_Connection
begin

section \<open>The connection pools (engine/engine.go)\<close>

text \<open>
  The manager keeps one pool for each key. The first caller of a key opens it outside the mutex
  and the others wait for its answer; \<open>Invalidate\<close> and \<open>Close\<close> drop pools and openings at any
  moment. The steps are the sections under the mutex, the opening of a pool, the return of an
  answer and the closing of what was dropped. An opening has a number, and its pool and its tunnel
  have the same; the caller that opens and those that wait return its answer.
\<close>

datatype opening_state = Dialing | Opened "string option"

datatype caller = Awaiting string nat | Served string "string + nat"

record manager =
  mg_pools :: "string \<Rightarrow> nat option"
  mg_tunnels :: "string \<Rightarrow> nat option"
  mg_opening :: "string \<Rightarrow> nat option"
  mg_closed :: bool
  mg_keys :: "nat \<Rightarrow> string"
  mg_setups :: "nat \<Rightarrow> opening_state option"
  mg_answers :: "nat \<Rightarrow> (string + nat) option"
  mg_callers :: "nat \<Rightarrow> caller option"
  mg_next :: nat
  mg_open_dbs :: "nat set"
  mg_open_tunnels :: "nat set"
  mg_dropped_dbs :: "nat set"
  mg_dropped_tunnels :: "nat set"

definition NewManager :: manager where
  "NewManager = \<lparr>mg_pools = Map.empty, mg_tunnels = Map.empty, mg_opening = Map.empty, mg_closed = False,
     mg_keys = (\<lambda>_. []), mg_setups = Map.empty, mg_answers = Map.empty, mg_callers = Map.empty, mg_next = 0,
     mg_open_dbs = {}, mg_open_tunnels = {}, mg_dropped_dbs = {}, mg_dropped_tunnels = {}\<rparr>"

definition set_caller :: "nat \<Rightarrow> caller \<Rightarrow> manager \<Rightarrow> manager" where
  "set_caller p c m = m\<lparr>mg_callers := (mg_callers m)(p \<mapsto> c)\<rparr>"

subsection \<open>Opening a pool\<close>

text \<open>The first section of \<open>database\<close>: the pool, an opening to wait for, or a new opening.\<close>

definition database_enter :: "nat \<Rightarrow> string \<Rightarrow> manager \<Rightarrow> manager" where
  "database_enter p key m =
     (if mg_closed m then set_caller p (Served key (Inl ''database manager is closed'')) m
      else case mg_pools m key of
        Some db \<Rightarrow> set_caller p (Served key (Inr db)) m
      | None \<Rightarrow>
          (case mg_opening m key of
             Some n \<Rightarrow> set_caller p (Awaiting key n) m
           | None \<Rightarrow>
               (let n = mg_next m in
                set_caller p (Awaiting key n)
                  (m\<lparr>mg_opening := (mg_opening m)(key \<mapsto> n), mg_keys := (mg_keys m)(n := key),
                     mg_setups := (mg_setups m)(n \<mapsto> Dialing), mg_next := Suc n\<rparr>))))"

text \<open>Between the sections: the tunnel, if one is wanted, and the database.\<close>

definition open_pool :: "nat \<Rightarrow> bool \<Rightarrow> string option \<Rightarrow> manager \<Rightarrow> manager" where
  "open_pool n tunnel err m =
     m\<lparr>mg_setups := (mg_setups m)(n \<mapsto> Opened err),
       mg_open_dbs := (if err = None then insert n (mg_open_dbs m) else mg_open_dbs m),
       mg_open_tunnels := (if tunnel then insert n (mg_open_tunnels m) else mg_open_tunnels m)\<rparr>"

text \<open>The second section: keep the pool unless it was invalidated meanwhile, and tell the others.\<close>

definition setup_error :: "nat \<Rightarrow> string option \<Rightarrow> manager \<Rightarrow> string option" where
  "setup_error n err m =
     (if mg_closed m \<or> mg_opening m (mg_keys m n) \<noteq> Some n
      then Some ''database connection was invalidated during setup'' else err)"

definition database_finish :: "nat \<Rightarrow> string option \<Rightarrow> manager \<Rightarrow> manager" where
  "database_finish n err m =
     (let key = mg_keys m n; failed = setup_error n err m in
      m\<lparr>mg_pools := (if failed = None then (mg_pools m)(key \<mapsto> n) else mg_pools m),
        mg_tunnels := (if failed = None \<and> n \<in> mg_open_tunnels m then (mg_tunnels m)(key \<mapsto> n) else mg_tunnels m),
        mg_opening := (if mg_opening m key = Some n then (mg_opening m)(key := None) else mg_opening m),
        mg_setups := (mg_setups m)(n := None),
        mg_answers := (mg_answers m)(n \<mapsto> (case failed of None \<Rightarrow> Inr n | Some e \<Rightarrow> Inl e)),
        mg_dropped_dbs := (if failed \<noteq> None \<and> n \<in> mg_open_dbs m then insert n (mg_dropped_dbs m) else mg_dropped_dbs m),
        mg_dropped_tunnels := (if failed \<noteq> None \<and> n \<in> mg_open_tunnels m then insert n (mg_dropped_tunnels m)
          else mg_dropped_tunnels m)\<rparr>)"

text \<open>The answer is returned.\<close>

definition database_return :: "nat \<Rightarrow> string \<Rightarrow> string + nat \<Rightarrow> manager \<Rightarrow> manager" where
  "database_return p key answer m = set_caller p (Served key answer) m"

subsection \<open>Dropping pools\<close>

definition drop_keys :: "(string \<Rightarrow> bool) \<Rightarrow> manager \<Rightarrow> manager" where
  "drop_keys gone m = m\<lparr>
     mg_pools := (\<lambda>key. if gone key then None else mg_pools m key),
     mg_tunnels := (\<lambda>key. if gone key then None else mg_tunnels m key),
     mg_opening := (\<lambda>key. if gone key then None else mg_opening m key),
     mg_dropped_dbs := mg_dropped_dbs m \<union> {n. \<exists>key. gone key \<and> mg_pools m key = Some n},
     mg_dropped_tunnels := mg_dropped_tunnels m \<union> {n. \<exists>key. gone key \<and> mg_tunnels m key = Some n}\<rparr>"

definition Invalidate :: "string \<Rightarrow> manager \<Rightarrow> manager" where
  "Invalidate i m = (if i = [] then m else drop_keys (owned_by i) m)"

definition CloseManager :: "manager \<Rightarrow> manager" where
  "CloseManager m = (drop_keys (\<lambda>_. True) m)\<lparr>mg_closed := True\<rparr>"

text \<open>Closing what was dropped, after the mutex was left.\<close>

definition close_db :: "nat \<Rightarrow> manager \<Rightarrow> manager" where
  "close_db n m = m\<lparr>mg_open_dbs := mg_open_dbs m - {n}, mg_dropped_dbs := mg_dropped_dbs m - {n}\<rparr>"

definition close_tunnel :: "nat \<Rightarrow> manager \<Rightarrow> manager" where
  "close_tunnel n m = m\<lparr>mg_open_tunnels := mg_open_tunnels m - {n}, mg_dropped_tunnels := mg_dropped_tunnels m - {n}\<rparr>"

subsection \<open>Steps\<close>

inductive pool_step :: "manager \<Rightarrow> manager \<Rightarrow> bool" where
  Enter: "mg_callers m p = None \<Longrightarrow> pool_step m (database_enter p key m)"
| OpenPool: "mg_setups m n = Some Dialing \<Longrightarrow> pool_step m (open_pool n tunnel err m)"
| Finish: "mg_setups m n = Some (Opened err) \<Longrightarrow> pool_step m (database_finish n err m)"
| Return: "mg_callers m p = Some (Awaiting key n) \<Longrightarrow> mg_answers m n = Some answer
    \<Longrightarrow> pool_step m (database_return p key answer m)"
| Invalidated: "pool_step m (Invalidate i m)"
| ClosedAll: "pool_step m (CloseManager m)"
| CloseDb: "n \<in> mg_dropped_dbs m \<Longrightarrow> pool_step m (close_db n m)"
| CloseTunnel: "n \<in> mg_dropped_tunnels m \<Longrightarrow> pool_step m (close_tunnel n m)"

abbreviation pool_run :: "manager \<Rightarrow> manager \<Rightarrow> bool" where
  "pool_run \<equiv> pool_step\<^sup>*\<^sup>*"

lemmas pool_operations = database_enter_def open_pool_def database_finish_def database_return_def set_caller_def
  drop_keys_def CloseManager_def close_db_def close_tunnel_def setup_error_def Let_def

subsection \<open>The invariant\<close>

text \<open>An opening is under way until it is answered, and answers with the pool of its number.\<close>

definition openings_ok :: "manager \<Rightarrow> bool" where
  "openings_ok m \<longleftrightarrow>
     (\<forall>n. mg_setups m n \<noteq> None \<longleftrightarrow> n < mg_next m \<and> mg_answers m n = None)
     \<and> (\<forall>n. mg_answers m n \<noteq> None \<longrightarrow> n < mg_next m)
     \<and> (\<forall>key n. mg_opening m key = Some n \<longrightarrow> mg_setups m n \<noteq> None \<and> mg_keys m n = key \<and> mg_pools m key = None)
     \<and> (\<forall>n d. mg_answers m n = Some (Inr d) \<longrightarrow> d = n)
     \<and> (mg_closed m \<longrightarrow> mg_pools m = Map.empty)"

definition callers_ok :: "manager \<Rightarrow> bool" where
  "callers_ok m \<longleftrightarrow>
     (\<forall>p key n. mg_callers m p = Some (Awaiting key n) \<longrightarrow> n < mg_next m \<and> mg_keys m n = key)
     \<and> (\<forall>p key n. mg_callers m p = Some (Served key (Inr n)) \<longrightarrow> n < mg_next m \<and> mg_keys m n = key)"

text \<open>An open pool is kept, is to be closed, or is still being set up; so is an open tunnel.\<close>

definition dbs_ok :: "manager \<Rightarrow> bool" where
  "dbs_ok m \<longleftrightarrow>
     (\<forall>n \<in> mg_open_dbs m. mg_pools m (mg_keys m n) = Some n \<or> n \<in> mg_dropped_dbs m \<or> mg_setups m n = Some (Opened None))
     \<and> (\<forall>key n. mg_pools m key = Some n \<longrightarrow> n \<in> mg_open_dbs m \<and> n \<notin> mg_dropped_dbs m
          \<and> mg_answers m n = Some (Inr n) \<and> mg_keys m n = key)
     \<and> (\<forall>n \<in> mg_dropped_dbs m. n \<in> mg_open_dbs m \<and> mg_answers m n \<noteq> None)
     \<and> (\<forall>n \<in> mg_open_dbs m. n < mg_next m)
     \<and> (\<forall>n err. mg_setups m n = Some (Opened err) \<longrightarrow> (n \<in> mg_open_dbs m \<longleftrightarrow> err = None))
     \<and> (\<forall>n. mg_setups m n = Some Dialing \<longrightarrow> n \<notin> mg_open_dbs m)"

definition tunnels_ok :: "manager \<Rightarrow> bool" where
  "tunnels_ok m \<longleftrightarrow>
     (\<forall>n \<in> mg_open_tunnels m. mg_tunnels m (mg_keys m n) = Some n \<or> n \<in> mg_dropped_tunnels m
        \<or> (\<exists>err. mg_setups m n = Some (Opened err)))
     \<and> (\<forall>key n. mg_tunnels m key = Some n \<longrightarrow> n \<in> mg_open_tunnels m \<and> n \<notin> mg_dropped_tunnels m \<and> mg_pools m key = Some n)
     \<and> (\<forall>n \<in> mg_dropped_tunnels m. n \<in> mg_open_tunnels m \<and> mg_answers m n \<noteq> None)
     \<and> (\<forall>n \<in> mg_open_tunnels m. n < mg_next m)
     \<and> (\<forall>n. mg_setups m n = Some Dialing \<longrightarrow> n \<notin> mg_open_tunnels m)"

definition manager_ok :: "manager \<Rightarrow> bool" where
  "manager_ok m \<longleftrightarrow> openings_ok m \<and> callers_ok m \<and> dbs_ok m \<and> tunnels_ok m"

lemmas manager_ok_defs = manager_ok_def openings_ok_def callers_ok_def dbs_ok_def tunnels_ok_def

lemma new_manager_ok: "manager_ok NewManager"
  by (simp add: manager_ok_defs NewManager_def)

text \<open>The invariant, fact by fact.\<close>

lemma enter_callers:
  assumes "openings_ok m" and "callers_ok m" and "dbs_ok m"
  shows "callers_ok (database_enter p key m)"
proof -
  consider "mg_closed m" | db where "\<not> mg_closed m" "mg_pools m key = Some db"
    | n where "\<not> mg_closed m" "mg_pools m key = None" "mg_opening m key = Some n"
    | "\<not> mg_closed m" "mg_pools m key = None" "mg_opening m key = None" by fastforce
  then show ?thesis
  proof cases
    case 1 with assms(2) show ?thesis by (auto simp: callers_ok_def pool_operations)
  next
    case 2
    then have "db < mg_next m" "mg_keys m db = key" using assms by (auto simp: openings_ok_def dbs_ok_def)
    with 2 assms(2) show ?thesis by (simp add: callers_ok_def pool_operations)
  next
    case 3
    then have "n < mg_next m" "mg_keys m n = key" using assms(1) by (auto simp: openings_ok_def)
    with 3 assms(2) show ?thesis by (simp add: callers_ok_def pool_operations)
  next
    case 4
    with assms(2) show ?thesis by (fastforce simp: callers_ok_def pool_operations less_Suc_eq)
  qed
qed

lemma return_callers:
  assumes "openings_ok m" and "callers_ok m"
    and "mg_callers m p = Some (Awaiting key n)" and "mg_answers m n = Some answer"
  shows "callers_ok (database_return p key answer m)"
proof -
  have "n < mg_next m \<and> mg_keys m n = key" using assms(2,3) by (simp add: callers_ok_def)
  moreover have "answer = Inr d \<Longrightarrow> d = n" for d using assms(1,4) by (simp add: openings_ok_def)
  ultimately show ?thesis using assms(2) by (auto simp: callers_ok_def pool_operations)
qed

text \<open>The second section keeps the pool or drops it.\<close>

lemma finish_kept:
  assumes "setup_error n err m = None"
  shows "database_finish n err m = m\<lparr>mg_pools := (mg_pools m)(mg_keys m n \<mapsto> n),
      mg_tunnels := (if n \<in> mg_open_tunnels m then (mg_tunnels m)(mg_keys m n \<mapsto> n) else mg_tunnels m),
      mg_opening := (mg_opening m)(mg_keys m n := None),
      mg_setups := (mg_setups m)(n := None), mg_answers := (mg_answers m)(n \<mapsto> Inr n)\<rparr>"
    and "\<not> mg_closed m" and "mg_opening m (mg_keys m n) = Some n" and "err = None"
  using assms by (auto simp: database_finish_def setup_error_def Let_def split: if_splits)

lemma finish_dropped:
  assumes "setup_error n err m = Some e"
  shows "database_finish n err m = m\<lparr>
      mg_opening := (if mg_opening m (mg_keys m n) = Some n then (mg_opening m)(mg_keys m n := None) else mg_opening m),
      mg_setups := (mg_setups m)(n := None), mg_answers := (mg_answers m)(n \<mapsto> Inl e),
      mg_dropped_dbs := (if n \<in> mg_open_dbs m then insert n (mg_dropped_dbs m) else mg_dropped_dbs m),
      mg_dropped_tunnels := (if n \<in> mg_open_tunnels m then insert n (mg_dropped_tunnels m) else mg_dropped_tunnels m)\<rparr>"
  using assms by (simp add: database_finish_def Let_def)

lemma of_openings:
  assumes "openings_ok m"
  shows "mg_setups m n = Some su \<Longrightarrow> n < mg_next m \<and> mg_answers m n = None"
    "mg_opening m key = Some n \<Longrightarrow> mg_keys m n = key \<and> mg_pools m key = None \<and> (\<exists>su. mg_setups m n = Some su)"
    "n < mg_next m \<Longrightarrow> mg_answers m n = None \<Longrightarrow> \<exists>su. mg_setups m n = Some su"
    "mg_answers m n = Some a \<Longrightarrow> n < mg_next m" "mg_answers m n = Some (Inr d) \<Longrightarrow> d = n"
    "mg_closed m \<Longrightarrow> mg_pools m = Map.empty"
  using assms unfolding openings_ok_def by blast+

lemma openings_okI:
  assumes "\<And>n su. mg_setups m n = Some su \<Longrightarrow> n < mg_next m \<and> mg_answers m n = None"
    "\<And>key n. mg_opening m key = Some n \<Longrightarrow> mg_keys m n = key \<and> mg_pools m key = None \<and> (\<exists>su. mg_setups m n = Some su)"
    "\<And>n. n < mg_next m \<Longrightarrow> mg_answers m n = None \<Longrightarrow> \<exists>su. mg_setups m n = Some su"
    "\<And>n a. mg_answers m n = Some a \<Longrightarrow> n < mg_next m" "\<And>n d. mg_answers m n = Some (Inr d) \<Longrightarrow> d = n"
    "mg_closed m \<Longrightarrow> mg_pools m = Map.empty"
  shows "openings_ok m"
  using assms unfolding openings_ok_def by blast

lemma finish_openings:
  assumes ok: "openings_ok m" and n: "mg_setups m n = Some (Opened err)"
  shows "openings_ok (database_finish n err m)"
proof (cases "setup_error n err m")
  case None
  note kept = finish_kept(2,3) [OF None]
  show ?thesis unfolding finish_kept(1) [OF None]
  proof (rule openings_okI, goal_cases)
    case (1 k su) with of_openings(1) [OF ok] show ?case by (simp split: if_splits)
  next
    case (2 k j)
    then have k: "k \<noteq> mg_keys m n" "mg_opening m k = Some j" by (auto split: if_splits)
    from of_openings(2) [OF ok k(2)] k(1) have "j \<noteq> n" by blast
    with of_openings(2) [OF ok k(2)] k(1) show ?case by simp
  next case (3 k) with of_openings(3) [OF ok] show ?case by (simp split: if_splits)
  next case (4 k a) with of_openings(1,4) [OF ok] n show ?case by (auto split: if_splits)
  next case (5 k d) with of_openings(5) [OF ok] show ?case by (simp split: if_splits)
  next case 6 with kept(1) show ?case by simp
  qed
next
  case (Some e)
  show ?thesis unfolding finish_dropped [OF Some]
  proof (rule openings_okI, goal_cases)
    case (1 k su) with of_openings(1) [OF ok] show ?case by (simp split: if_splits)
  next
    case (2 k j)
    then have k: "k = mg_keys m n \<Longrightarrow> mg_opening m k \<noteq> Some n" "mg_opening m k = Some j" by (auto split: if_splits)
    from of_openings(2) [OF ok k(2)] k have "j \<noteq> n" by blast
    with of_openings(2) [OF ok k(2)] show ?case by simp
  next case (3 k) with of_openings(3) [OF ok] show ?case by (simp split: if_splits)
  next case (4 k a) with of_openings(1,4) [OF ok] n show ?case by (auto split: if_splits)
  next case (5 k d) with of_openings(5) [OF ok] show ?case by (simp split: if_splits)
  next case 6 with of_openings(6) [OF ok] show ?case by simp
  qed
qed

lemma of_dbs:
  assumes "dbs_ok m"
  shows "n \<in> mg_open_dbs m \<Longrightarrow> n < mg_next m
      \<and> (mg_pools m (mg_keys m n) = Some n \<or> n \<in> mg_dropped_dbs m \<or> mg_setups m n = Some (Opened None))"
    "mg_pools m key = Some n \<Longrightarrow> n \<in> mg_open_dbs m \<and> n \<notin> mg_dropped_dbs m \<and> mg_answers m n = Some (Inr n) \<and> mg_keys m n = key"
    "n \<in> mg_dropped_dbs m \<Longrightarrow> n \<in> mg_open_dbs m \<and> (\<exists>a. mg_answers m n = Some a)"
    "mg_setups m n = Some (Opened err) \<Longrightarrow> n \<in> mg_open_dbs m \<longleftrightarrow> err = None"
    "mg_setups m n = Some Dialing \<Longrightarrow> n \<notin> mg_open_dbs m"
  using assms unfolding dbs_ok_def by blast+

lemma dbs_okI:
  assumes "\<And>n. n \<in> mg_open_dbs m \<Longrightarrow> n < mg_next m
      \<and> (mg_pools m (mg_keys m n) = Some n \<or> n \<in> mg_dropped_dbs m \<or> mg_setups m n = Some (Opened None))"
    "\<And>key n. mg_pools m key = Some n
      \<Longrightarrow> n \<in> mg_open_dbs m \<and> n \<notin> mg_dropped_dbs m \<and> mg_answers m n = Some (Inr n) \<and> mg_keys m n = key"
    "\<And>n. n \<in> mg_dropped_dbs m \<Longrightarrow> n \<in> mg_open_dbs m \<and> (\<exists>a. mg_answers m n = Some a)"
    "\<And>n err. mg_setups m n = Some (Opened err) \<Longrightarrow> n \<in> mg_open_dbs m \<longleftrightarrow> err = None"
    "\<And>n. mg_setups m n = Some Dialing \<Longrightarrow> n \<notin> mg_open_dbs m"
  shows "dbs_ok m"
  using assms unfolding dbs_ok_def by blast

lemma finish_dbs:
  assumes ok: "openings_ok m" and dbs: "dbs_ok m" and n: "mg_setups m n = Some (Opened err)"
  shows "dbs_ok (database_finish n err m)"
proof (cases "setup_error n err m")
  case None
  note kept = finish_kept(2-4) [OF None]
  have free: "mg_pools m (mg_keys m n) = None" using of_openings(2) [OF ok kept(2)] by simp
  have new: "n \<in> mg_open_dbs m" "n \<notin> mg_dropped_dbs m" "mg_answers m n = None"
    using of_dbs(3,4) [OF dbs] n kept(3) of_openings(1) [OF ok n] by fastforce+
  show ?thesis unfolding finish_kept(1) [OF None]
  proof (rule dbs_okI, goal_cases)
    case (1 j) 
    then have "j \<in> mg_open_dbs m" by simp
    from of_dbs(1) [OF dbs this] free show ?case by auto
  next
    case (2 k j)
    show ?case
    proof (cases "k = mg_keys m n")
      case True with 2 new show ?thesis by simp
    next
      case False
      with 2 have "mg_pools m k = Some j" by simp
      from of_dbs(2) [OF dbs this] False show ?thesis by auto
    qed
  next case (3 j) with of_dbs(3) [OF dbs, of j] show ?case by auto
  next case (4 j e) with of_dbs(4) [OF dbs, of j e] show ?case by (simp split: if_splits)
  next case (5 j) with of_dbs(5) [OF dbs, of j] show ?case by (simp split: if_splits)
  qed
next
  case (Some e)
  have fresh: "mg_pools m k \<noteq> Some n" for k using of_dbs(2) [OF dbs, of k n] of_openings(1) [OF ok n] by auto
  have gone: "n \<notin> mg_dropped_dbs m" using of_dbs(3) [OF dbs, of n] of_openings(1) [OF ok n] by auto
  show ?thesis unfolding finish_dropped [OF Some]
  proof (rule dbs_okI, goal_cases)
    case (1 j) then have "j \<in> mg_open_dbs m" by simp
    from of_dbs(1) [OF dbs this] 1 n show ?case by auto
  next
    case (2 k j)
    then have "mg_pools m k = Some j" by simp
    from of_dbs(2) [OF dbs this] this fresh [of k] show ?case by auto
  next case (3 j) with of_dbs(3) [OF dbs, of j] show ?case by (auto split: if_splits)
  next case (4 j e) with of_dbs(4) [OF dbs, of j e] show ?case by (simp split: if_splits)
  next case (5 j) with of_dbs(5) [OF dbs, of j] show ?case by (simp split: if_splits)
  qed
qed

lemma of_tunnels:
  assumes "tunnels_ok m"
  shows "n \<in> mg_open_tunnels m \<Longrightarrow> n < mg_next m
      \<and> (mg_tunnels m (mg_keys m n) = Some n \<or> n \<in> mg_dropped_tunnels m \<or> (\<exists>err. mg_setups m n = Some (Opened err)))"
    "mg_tunnels m key = Some n \<Longrightarrow> n \<in> mg_open_tunnels m \<and> n \<notin> mg_dropped_tunnels m \<and> mg_pools m key = Some n"
    "n \<in> mg_dropped_tunnels m \<Longrightarrow> n \<in> mg_open_tunnels m \<and> (\<exists>a. mg_answers m n = Some a)"
    "mg_setups m n = Some Dialing \<Longrightarrow> n \<notin> mg_open_tunnels m"
  using assms unfolding tunnels_ok_def by blast+

lemma tunnels_okI:
  assumes "\<And>n. n \<in> mg_open_tunnels m \<Longrightarrow> n < mg_next m
      \<and> (mg_tunnels m (mg_keys m n) = Some n \<or> n \<in> mg_dropped_tunnels m \<or> (\<exists>err. mg_setups m n = Some (Opened err)))"
    "\<And>key n. mg_tunnels m key = Some n \<Longrightarrow> n \<in> mg_open_tunnels m \<and> n \<notin> mg_dropped_tunnels m \<and> mg_pools m key = Some n"
    "\<And>n. n \<in> mg_dropped_tunnels m \<Longrightarrow> n \<in> mg_open_tunnels m \<and> (\<exists>a. mg_answers m n = Some a)"
    "\<And>n. mg_setups m n = Some Dialing \<Longrightarrow> n \<notin> mg_open_tunnels m"
  shows "tunnels_ok m"
  using assms unfolding tunnels_ok_def by blast

lemma finish_tunnels:
  assumes ok: "openings_ok m" and dbs: "dbs_ok m" and tuns: "tunnels_ok m" and n: "mg_setups m n = Some (Opened err)"
  shows "tunnels_ok (database_finish n err m)"
proof (cases "setup_error n err m")
  case None
  note kept = finish_kept(2-4) [OF None]
  have free: "mg_pools m (mg_keys m n) = None" using of_openings(2) [OF ok kept(2)] by simp
  then have no_tunnel: "mg_tunnels m (mg_keys m n) = None"
    using of_tunnels(2) [OF tuns, of "mg_keys m n"] by (cases "mg_tunnels m (mg_keys m n)") auto
  have new: "n \<notin> mg_dropped_tunnels m" using of_tunnels(3) [OF tuns, of n] of_openings(1) [OF ok n] by auto
  show ?thesis unfolding finish_kept(1) [OF None]
  proof (rule tunnels_okI, goal_cases)
    case (1 j)
    then have "j \<in> mg_open_tunnels m" by simp
    from of_tunnels(1) [OF tuns this] no_tunnel this show ?case by auto
  next
    case (2 k j)
    show ?case
    proof (cases "k = mg_keys m n")
      case True with 2 new no_tunnel show ?thesis by (simp split: if_splits)
    next
      case False
      with 2 have "mg_tunnels m k = Some j" by (simp split: if_splits)
      from of_tunnels(2) [OF tuns this] False show ?thesis by simp
    qed
  next case (3 j) with of_tunnels(3) [OF tuns, of j] show ?case by auto
  next case (4 j) with of_tunnels(4) [OF tuns, of j] show ?case by (simp split: if_splits)
  qed
next
  case (Some e)
  have fresh: "mg_tunnels m k \<noteq> Some n" for k
    using of_tunnels(2) [OF tuns, of k n] of_dbs(2) [OF dbs, of k n] of_openings(1) [OF ok n] by auto
  show ?thesis unfolding finish_dropped [OF Some]
  proof (rule tunnels_okI, goal_cases)
    case (1 j) then have "j \<in> mg_open_tunnels m" by simp
    from of_tunnels(1) [OF tuns this] 1 show ?case by auto
  next
    case (2 k j)
    then have "mg_tunnels m k = Some j" by simp
    from of_tunnels(2) [OF tuns this] this fresh [of k] show ?case by auto
  next case (3 j) with of_tunnels(3) [OF tuns, of j] show ?case by (auto split: if_splits)
  next case (4 j) with of_tunnels(4) [OF tuns, of j] show ?case by (simp split: if_splits)
  qed
qed

lemma drop_dbs:
  assumes "dbs_ok m"
  shows "dbs_ok (drop_keys gone m)"
proof (rule dbs_okI, goal_cases)
  case (1 j) with of_dbs(1) [OF assms, of j] show ?case by (auto simp: drop_keys_def)
next
  case (2 k j)
  then have "mg_pools m k = Some j" "\<not> gone k" by (auto simp: drop_keys_def split: if_splits)
  with of_dbs(2) [OF assms, of k j] of_dbs(2) [OF assms, of _ j] show ?case by (auto simp: drop_keys_def)
next case (3 j) with of_dbs(2) [OF assms, of _ j] of_dbs(3) [OF assms, of j] show ?case by (auto simp: drop_keys_def)
next case (4 j e) with of_dbs(4) [OF assms, of j e] show ?case by (simp add: drop_keys_def)
next case (5 j) with of_dbs(5) [OF assms, of j] show ?case by (simp add: drop_keys_def)
qed

lemma drop_tunnels:
  assumes "dbs_ok m" and tuns: "tunnels_ok m"
  shows "tunnels_ok (drop_keys gone m)"
proof (rule tunnels_okI, goal_cases)
  case (1 j) with of_tunnels(1) [OF tuns, of j] show ?case by (auto simp: drop_keys_def)
next
  case (2 k j)
  then have k: "mg_tunnels m k = Some j" "\<not> gone k" by (auto simp: drop_keys_def split: if_splits)
  have "k' = k" if "mg_tunnels m k' = Some j" for k'
    using of_tunnels(2) [OF tuns that] of_tunnels(2) [OF tuns k(1)] of_dbs(2) [OF assms(1), of _ j] by metis
  with k(2) have "\<not> (gone k' \<and> mg_tunnels m k' = Some j)" for k' by blast
  with of_tunnels(2) [OF tuns k(1)] k(2) show ?case by (simp add: drop_keys_def)
next
  case (3 j)
  have "\<exists>a. mg_answers m j = Some a" if "mg_tunnels m k = Some j" for k
    using of_tunnels(2) [OF tuns that] of_dbs(2) [OF assms(1), of k j] by blast
  with 3 of_tunnels(2) [OF tuns, of _ j] of_tunnels(3) [OF tuns, of j] show ?case by (auto simp: drop_keys_def)
next case (4 j) with of_tunnels(4) [OF tuns, of j] show ?case by (simp add: drop_keys_def)
qed

lemma drop_openings: "openings_ok m \<Longrightarrow> openings_ok (drop_keys gone m)"
  by (auto simp: openings_ok_def drop_keys_def split: if_splits)

lemma closed_frame:
  "openings_ok m \<Longrightarrow> mg_pools m = Map.empty \<Longrightarrow> openings_ok (m\<lparr>mg_closed := True\<rparr>)"
  "dbs_ok m \<Longrightarrow> dbs_ok (m\<lparr>mg_closed := True\<rparr>)" "tunnels_ok m \<Longrightarrow> tunnels_ok (m\<lparr>mg_closed := True\<rparr>)"
  "callers_ok m \<Longrightarrow> callers_ok (m\<lparr>mg_closed := True\<rparr>)"
  by (auto simp: openings_ok_def dbs_ok_def tunnels_ok_def callers_ok_def)

lemma close_db_dbs:
  assumes dbs: "dbs_ok m" and "openings_ok m" and n: "n \<in> mg_dropped_dbs m"
  shows "dbs_ok (close_db n m)"
proof (rule dbs_okI, goal_cases)
  case (4 j e)
  then have "j \<noteq> n" using of_dbs(3) [OF dbs n] of_openings(1) [OF assms(2), of j "Opened e"] by (auto simp: close_db_def)
  with 4 of_dbs(4) [OF dbs, of j e] show ?case by (simp add: close_db_def)
next
  case (1 j) with of_dbs(1) [OF dbs, of j] show ?case by (auto simp: close_db_def)
next
  case (2 k j) with of_dbs(2) [OF dbs, of k j] n show ?case by (auto simp: close_db_def)
next
  case (3 j) with of_dbs(3) [OF dbs, of j] show ?case by (auto simp: close_db_def)
next
  case (5 j) with of_dbs(5) [OF dbs, of j] show ?case by (simp add: close_db_def)
qed

text \<open>The other steps change few of the fields a fact is about.\<close>

lemma enter_openings:
  "openings_ok m \<Longrightarrow> dbs_ok m \<Longrightarrow> openings_ok (database_enter p key m)"
  by (auto simp: openings_ok_def pool_operations less_Suc_eq split: if_splits option.splits)

lemma enter_dbs:
  "openings_ok m \<Longrightarrow> dbs_ok m \<Longrightarrow> dbs_ok (database_enter p key m)"
  by (auto simp: openings_ok_def dbs_ok_def pool_operations less_Suc_eq split: if_splits option.splits)

lemma enter_tunnels:
  "openings_ok m \<Longrightarrow> dbs_ok m \<Longrightarrow> tunnels_ok m \<Longrightarrow> tunnels_ok (database_enter p key m)"
  by (auto simp: openings_ok_def dbs_ok_def tunnels_ok_def pool_operations less_Suc_eq split: if_splits option.splits)

lemma open_openings:
  "openings_ok m \<Longrightarrow> mg_setups m n = Some Dialing \<Longrightarrow> openings_ok (open_pool n tunnel err m)"
  by (auto simp: openings_ok_def pool_operations less_Suc_eq split: if_splits option.splits)

lemma open_callers:
  "openings_ok m \<Longrightarrow> callers_ok m \<Longrightarrow> dbs_ok m \<Longrightarrow> mg_setups m n = Some Dialing \<Longrightarrow> callers_ok (open_pool n tunnel err m)"
  by (auto simp: openings_ok_def callers_ok_def dbs_ok_def pool_operations less_Suc_eq split: if_splits option.splits)

lemma open_dbs:
  "openings_ok m \<Longrightarrow> dbs_ok m \<Longrightarrow> mg_setups m n = Some Dialing \<Longrightarrow> dbs_ok (open_pool n tunnel err m)"
  by (auto simp: openings_ok_def dbs_ok_def pool_operations less_Suc_eq split: if_splits option.splits)

lemma open_tunnels:
  "openings_ok m \<Longrightarrow> dbs_ok m \<Longrightarrow> tunnels_ok m \<Longrightarrow> mg_setups m n = Some Dialing \<Longrightarrow> tunnels_ok (open_pool n tunnel err m)"
  by (auto simp: openings_ok_def dbs_ok_def tunnels_ok_def pool_operations less_Suc_eq split: if_splits option.splits)

lemma finish_callers:
  "openings_ok m \<Longrightarrow> callers_ok m \<Longrightarrow> dbs_ok m \<Longrightarrow> mg_setups m n = Some (Opened err) \<Longrightarrow> callers_ok (database_finish n err m)"
  by (auto simp: openings_ok_def callers_ok_def dbs_ok_def pool_operations less_Suc_eq split: if_splits option.splits)

lemma return_openings:
  "openings_ok m \<Longrightarrow> mg_callers m p = Some (Awaiting key n) \<Longrightarrow> mg_answers m n = Some answer \<Longrightarrow> openings_ok (database_return p key answer m)"
  by (auto simp: openings_ok_def pool_operations less_Suc_eq split: if_splits option.splits)

lemma return_dbs:
  "openings_ok m \<Longrightarrow> dbs_ok m \<Longrightarrow> mg_callers m p = Some (Awaiting key n) \<Longrightarrow> mg_answers m n = Some answer \<Longrightarrow> dbs_ok (database_return p key answer m)"
  by (auto simp: openings_ok_def dbs_ok_def pool_operations less_Suc_eq split: if_splits option.splits)

lemma return_tunnels:
  "openings_ok m \<Longrightarrow> dbs_ok m \<Longrightarrow> tunnels_ok m \<Longrightarrow> mg_callers m p = Some (Awaiting key n) \<Longrightarrow> mg_answers m n = Some answer \<Longrightarrow> tunnels_ok (database_return p key answer m)"
  by (auto simp: openings_ok_def dbs_ok_def tunnels_ok_def pool_operations less_Suc_eq split: if_splits option.splits)

lemma drop_callers:
  "openings_ok m \<Longrightarrow> callers_ok m \<Longrightarrow> dbs_ok m \<Longrightarrow> callers_ok (drop_keys gone m)"
  by (auto simp: openings_ok_def callers_ok_def dbs_ok_def pool_operations less_Suc_eq split: if_splits option.splits)

lemma cdb_openings:
  "openings_ok m \<Longrightarrow> n \<in> mg_dropped_dbs m \<Longrightarrow> openings_ok (close_db n m)"
  by (auto simp: openings_ok_def pool_operations less_Suc_eq split: if_splits option.splits)

lemma cdb_callers:
  "openings_ok m \<Longrightarrow> callers_ok m \<Longrightarrow> dbs_ok m \<Longrightarrow> n \<in> mg_dropped_dbs m \<Longrightarrow> callers_ok (close_db n m)"
  by (auto simp: openings_ok_def callers_ok_def dbs_ok_def pool_operations less_Suc_eq split: if_splits option.splits)

lemma cdb_tunnels:
  "openings_ok m \<Longrightarrow> dbs_ok m \<Longrightarrow> tunnels_ok m \<Longrightarrow> n \<in> mg_dropped_dbs m \<Longrightarrow> tunnels_ok (close_db n m)"
  by (auto simp: openings_ok_def dbs_ok_def tunnels_ok_def pool_operations less_Suc_eq split: if_splits option.splits)

lemma ctun_openings:
  "openings_ok m \<Longrightarrow> n \<in> mg_dropped_tunnels m \<Longrightarrow> openings_ok (close_tunnel n m)"
  by (auto simp: openings_ok_def pool_operations less_Suc_eq split: if_splits option.splits)

lemma ctun_callers:
  "openings_ok m \<Longrightarrow> callers_ok m \<Longrightarrow> dbs_ok m \<Longrightarrow> n \<in> mg_dropped_tunnels m \<Longrightarrow> callers_ok (close_tunnel n m)"
  by (auto simp: openings_ok_def callers_ok_def dbs_ok_def pool_operations less_Suc_eq split: if_splits option.splits)

lemma ctun_dbs:
  "openings_ok m \<Longrightarrow> dbs_ok m \<Longrightarrow> n \<in> mg_dropped_tunnels m \<Longrightarrow> dbs_ok (close_tunnel n m)"
  by (auto simp: openings_ok_def dbs_ok_def pool_operations less_Suc_eq split: if_splits option.splits)

lemma ctun_tunnels:
  "openings_ok m \<Longrightarrow> dbs_ok m \<Longrightarrow> tunnels_ok m \<Longrightarrow> n \<in> mg_dropped_tunnels m \<Longrightarrow> tunnels_ok (close_tunnel n m)"
  by (auto simp: openings_ok_def dbs_ok_def tunnels_ok_def pool_operations less_Suc_eq split: if_splits option.splits)

lemma drop_ok: "manager_ok m \<Longrightarrow> manager_ok (drop_keys gone m)"
  by (simp add: manager_ok_def drop_openings drop_callers drop_dbs drop_tunnels)

lemma pool_step_ok: "pool_step m m' \<Longrightarrow> manager_ok m \<Longrightarrow> manager_ok m'"
proof (induction rule: pool_step.induct)
  case (Invalidated m i) then show ?case by (simp add: Invalidate_def drop_ok)
next
  case (ClosedAll m)
  then have "manager_ok (drop_keys (\<lambda>_. True) m)" by (rule drop_ok)
  moreover have "mg_pools (drop_keys (\<lambda>_. True) m) = Map.empty" by (simp add: drop_keys_def)
  ultimately show ?case by (simp add: manager_ok_def CloseManager_def closed_frame)
next
  case (CloseDb n m) then show ?case
    by (simp add: manager_ok_def close_db_dbs cdb_openings cdb_callers cdb_tunnels)
qed (simp_all add: manager_ok_def enter_openings enter_callers enter_dbs enter_tunnels open_openings open_callers
  open_dbs open_tunnels finish_openings finish_callers finish_dbs finish_tunnels return_openings return_callers
  return_dbs return_tunnels ctun_openings ctun_callers ctun_dbs ctun_tunnels)

lemma reachable_ok: "pool_run NewManager m \<Longrightarrow> manager_ok m"
  by (induction rule: rtranclp_induct) (auto intro: new_manager_ok pool_step_ok)

subsection \<open>What holds of the pools\<close>

text \<open>C11: no pool is lost or mixed up. In every reachable state an open pool is kept under its own
  key, is about to be closed, or is still being set up; so is an open tunnel; a caller is given
  the pool of the key it asked for; and a closed manager keeps none.\<close>

theorem pools_are_accounted_for:
  assumes "pool_run NewManager m"
  shows "(n \<in> mg_open_dbs m \<longrightarrow> mg_pools m (mg_keys m n) = Some n \<or> n \<in> mg_dropped_dbs m \<or> mg_setups m n = Some (Opened None))
    \<and> (n \<in> mg_open_tunnels m \<longrightarrow> mg_tunnels m (mg_keys m n) = Some n \<or> n \<in> mg_dropped_tunnels m
        \<or> (\<exists>err. mg_setups m n = Some (Opened err)))
    \<and> (mg_pools m key = Some n \<longrightarrow> n \<in> mg_open_dbs m \<and> n \<notin> mg_dropped_dbs m \<and> mg_keys m n = key)
    \<and> (mg_callers m p = Some (Served key (Inr n)) \<longrightarrow> mg_keys m n = key)
    \<and> (mg_closed m \<longrightarrow> mg_pools m = Map.empty)"
  using reachable_ok [OF assms]
  unfolding manager_ok_def openings_ok_def callers_ok_def dbs_ok_def tunnels_ok_def by blast

text \<open>What is true of the numbers after a bound.\<close>

definition renewed :: "nat \<Rightarrow> (nat \<Rightarrow> bool) \<Rightarrow> string \<Rightarrow> manager \<Rightarrow> bool" where
  "renewed bound old i m \<longleftrightarrow> bound \<le> mg_next m
     \<and> (\<forall>key n. owned_by i key \<longrightarrow> mg_pools m key = Some n \<or> mg_opening m key = Some n \<longrightarrow> bound \<le> n)
     \<and> (\<forall>p key n. owned_by i key \<longrightarrow> \<not> old p
         \<longrightarrow> mg_callers m p = Some (Awaiting key n) \<or> mg_callers m p = Some (Served key (Inr n)) \<longrightarrow> bound \<le> n)"

lemma renewed_step:
  assumes "pool_step m m'" and "renewed bound old i m" and "manager_ok m" and "\<forall>p. old p \<longrightarrow> mg_callers m p \<noteq> None"
  shows "renewed bound old i m' \<and> (\<forall>p. old p \<longrightarrow> mg_callers m' p \<noteq> None)"
  using assms
proof (induction rule: pool_step.induct)
  case (Return m p key n answer)
  then have "answer = Inr d \<Longrightarrow> d = n" for d by (auto simp: manager_ok_def openings_ok_def)
  with Return show ?case by (auto simp: renewed_def database_return_def set_caller_def)
next
  case (Finish m n err)
  then show ?case
    by (cases "setup_error n err m")
      (auto simp: renewed_def finish_kept finish_dropped dest: finish_kept(3) split: if_splits)
qed (auto simp: renewed_def pool_operations Invalidate_def split: if_splits option.splits)

lemma renewed_run:
  assumes "pool_run m m'" and "renewed bound old i m" and "manager_ok m" and "\<forall>p. old p \<longrightarrow> mg_callers m p \<noteq> None"
  shows "renewed bound old i m'"
proof -
  have "renewed bound old i m' \<and> manager_ok m' \<and> (\<forall>p. old p \<longrightarrow> mg_callers m' p \<noteq> None)"
    using assms by (induction rule: rtranclp_induct) (blast dest: renewed_step pool_step_ok)+
  then show ?thesis by simp
qed

lemma invalidated_renewed:
  "i \<noteq> [] \<Longrightarrow> renewed (mg_next m) (\<lambda>p. mg_callers m p \<noteq> None) i (Invalidate i m)"
  by (simp add: renewed_def Invalidate_def drop_keys_def)

text \<open>C12: an invalidated pool does not come back. Once the pools of a connection were invalidated,
  in every later state a pool that is kept for it, and a pool that a caller who came afterwards is
  given, was opened after the invalidation; openings that were under way do not count.\<close>

theorem invalidated_pools_never_return:
  assumes "pool_run NewManager m" and "i \<noteq> []" and "pool_run (Invalidate i m) m'" and "owned_by i key"
  shows "(mg_pools m' key = Some n \<longrightarrow> mg_next m \<le> n)
    \<and> (mg_callers m p = None \<longrightarrow> mg_callers m' p = Some (Served key (Inr n)) \<longrightarrow> mg_next m \<le> n)"
proof -
  have "renewed (mg_next m) (\<lambda>p. mg_callers m p \<noteq> None) i m'"
    using assms(3) invalidated_renewed [OF assms(2)]
  proof (rule renewed_run)
    show "manager_ok (Invalidate i m)" using drop_ok [OF reachable_ok [OF assms(1)]] assms(2) by (simp add: Invalidate_def)
  qed (simp add: Invalidate_def drop_keys_def)
  with assms(4) show ?thesis unfolding renewed_def by blast
qed

lemma answered_next:
  assumes "mg_callers m p = Some (Awaiting key n)" and "mg_answers m n = Some a"
  shows "\<exists>m'. pool_run m m' \<and> mg_callers m' p = Some (Served key a)"
proof -
  from assms have "pool_step m (database_return p key a m)" by (rule Return)
  then show ?thesis by (auto simp: database_return_def set_caller_def)
qed

lemma opened_next:
  assumes "mg_callers m p = Some (Awaiting key n)" and "mg_setups m n = Some (Opened err)"
  shows "\<exists>m' a. pool_run m m' \<and> mg_callers m' p = Some (Served key a)"
proof -
  let ?m = "database_finish n err m"
  have "mg_callers ?m p = Some (Awaiting key n)" "\<exists>a. mg_answers ?m n = Some a"
    using assms(1) by (simp_all add: database_finish_def Let_def)
  then obtain a m' where "pool_run ?m m'" "mg_callers m' p = Some (Served key a)" using answered_next by blast
  with Finish [OF assms(2)] show ?thesis by (meson converse_rtranclp_into_rtranclp)
qed

text \<open>No caller waits for an opening that cannot answer. From every reachable state, whatever was
  invalidated or closed before, there are steps after which a caller that waits for a pool has its
  answer.\<close>

theorem pool_callers_are_served:
  assumes "pool_run NewManager m" and "mg_callers m p = Some (Awaiting key n)"
  shows "\<exists>m' answer. pool_run m m' \<and> mg_callers m' p = Some (Served key answer)"
proof -
  have ok: "openings_ok m" and "n < mg_next m"
    using reachable_ok [OF assms(1)] assms(2) by (auto simp: manager_ok_def callers_ok_def)
  show ?thesis
  proof (cases "mg_answers m n")
    case None
    then obtain su where su: "mg_setups m n = Some su" using of_openings(3) [OF ok \<open>n < mg_next m\<close>] by blast
    show ?thesis
    proof (cases su)
      case Dialing
      let ?m = "open_pool n False None m"
      have "mg_callers ?m p = Some (Awaiting key n)" "mg_setups ?m n = Some (Opened None)"
        using assms(2) by (simp_all add: open_pool_def)
      then obtain m' a where "pool_run ?m m'" "mg_callers m' p = Some (Served key a)" using opened_next by blast
      with OpenPool [OF su [unfolded Dialing]] show ?thesis by (meson converse_rtranclp_into_rtranclp)
    next
      case (Opened err) with su opened_next [OF assms(2)] show ?thesis by blast
    qed
  next
    case (Some a) with answered_next [OF assms(2)] show ?thesis by blast
  qed
qed

subsection \<open>A run: two callers, and an invalidation while the pool is opened\<close>

definition two_callers :: manager where
  "two_callers = database_enter 1 ''c|k'' (database_enter 0 ''c|k'' NewManager)"

definition after_invalidation :: manager where
  "after_invalidation = database_finish 0 None (Invalidate ''c'' (open_pool 0 True None two_callers))"

lemma two_callers_reachable: "pool_run NewManager two_callers"
proof -
  have "pool_step NewManager (database_enter 0 ''c|k'' NewManager)" by (rule Enter) (simp add: NewManager_def)
  moreover have "pool_step (database_enter 0 ''c|k'' NewManager) two_callers"
    unfolding two_callers_def by (rule Enter) (simp add: NewManager_def database_enter_def Let_def set_caller_def)
  ultimately show ?thesis by (meson r_into_rtranclp rtranclp_trans)
qed

lemma two_callers_state:
  "mg_callers two_callers = [0 \<mapsto> Awaiting ''c|k'' 0, 1 \<mapsto> Awaiting ''c|k'' 0]" "mg_setups two_callers = [0 \<mapsto> Dialing]"
  "mg_opening two_callers = [''c|k'' \<mapsto> 0]" "mg_next two_callers = 1" "mg_pools two_callers = Map.empty"
  "mg_keys two_callers 0 = ''c|k''" "\<not> mg_closed two_callers" "mg_open_dbs two_callers = {}" "mg_dropped_dbs two_callers = {}"
  by (simp_all add: two_callers_def NewManager_def database_enter_def Let_def set_caller_def)

lemma opened_reachable: "pool_run NewManager (open_pool 0 True None two_callers)"
  by (rule rtranclp.rtrancl_into_rtrancl [OF two_callers_reachable], rule OpenPool) (simp add: two_callers_state)

lemma invalidation_run: "pool_run (Invalidate ''c'' (open_pool 0 True None two_callers)) after_invalidation"
  unfolding after_invalidation_def
  by (rule r_into_rtranclp, rule Finish) (simp add: Invalidate_def drop_keys_def open_pool_def)

lemma invalidated_reachable: "pool_run NewManager after_invalidation"
  using opened_reachable Invalidated [of "open_pool 0 True None two_callers" "''c''"] invalidation_run
  by (meson rtranclp.rtrancl_into_rtrancl rtranclp_trans)

text \<open>The pool is neither kept nor lost: it is to be closed.\<close>

lemma after_invalidation_state:
  "mg_pools after_invalidation = Map.empty" "mg_open_dbs after_invalidation = {0}" "mg_dropped_dbs after_invalidation = {0}"
  "mg_callers after_invalidation = [0 \<mapsto> Awaiting ''c|k'' 0, 1 \<mapsto> Awaiting ''c|k'' 0]"
  by (simp_all add: after_invalidation_def database_finish_def setup_error_def Invalidate_def drop_keys_def
    open_pool_def two_callers_state owned_by_def Let_def fun_eq_iff)

lemma pools_are_accounted_for_witness:
  "0 \<in> mg_open_dbs after_invalidation \<and> 0 \<in> mg_dropped_dbs after_invalidation"
  using pools_are_accounted_for [OF invalidated_reachable, of 0 "''c|k''" 0] by (simp add: after_invalidation_state)

lemma invalidated_pools_never_return_witness: "mg_pools after_invalidation ''c|k'' \<noteq> Some 0"
  using invalidated_pools_never_return [OF opened_reachable _ invalidation_run, of "''c|k''" 0 0]
  by (simp add: owned_by_def open_pool_def two_callers_state)

lemma pool_callers_are_served_witness:
  "\<exists>m' answer. pool_run two_callers m' \<and> mg_callers m' 1 = Some (Served ''c|k'' answer)"
  by (rule pool_callers_are_served [OF two_callers_reachable]) (simp add: two_callers_state)

end
