(* ===== verification/Schema_Cache.thy ===== *)
theory Schema_Cache
  imports Engine_Connection Memo
begin

section \<open>The caches of the catalog (engine/schemacache.go, engine/origincache.go)\<close>

subsection \<open>Schemas\<close>

text \<open>
  \<open>CachedSchema\<close> keeps one entry for each pool key; an entry is a load, under way or with its result
  and the time it was read. The steps are the sections under the mutex: a request, the end of a
  load, the removal of a failed one, an invalidation; and the return of a result. Loads are
  numbered in the order in which they begin. A caller keeps its key, its load, the time it asked
  and whether it began the load; only a caller that waits for another's load can give up. Times
  are in seconds.
\<close>

definition schemaTTL :: int where
  "schemaTTL = 30"

datatype 'a schema_load = Loading | Ready "string + 'a" int

datatype 'a schema_caller =
    AwaitingSchema string nat int bool
  | SchemaGiven string nat int bool "string + 'a"
  | SchemaGivenUp

record 'a schema_cache =
  sy_entries :: "string \<Rightarrow> nat option"
  sy_keys :: "nat \<Rightarrow> string"
  sy_loads :: "nat \<Rightarrow> 'a schema_load option"
  sy_failed :: "nat set"
  sy_callers :: "nat \<Rightarrow> 'a schema_caller option"
  sy_next :: nat
  sy_clock :: int

definition no_schemas :: "'a schema_cache" where
  "no_schemas = \<lparr>sy_entries = Map.empty, sy_keys = (\<lambda>_. []), sy_loads = Map.empty, sy_failed = {},
     sy_callers = Map.empty, sy_next = 0, sy_clock = 0\<rparr>"

text \<open>Whether the entry of a key answers the request.\<close>

definition usable_load :: "int \<Rightarrow> bool \<Rightarrow> 'a schema_load \<Rightarrow> bool" where
  "usable_load now refresh l =
     (case l of
        Loading \<Rightarrow> \<not> refresh
      | Ready result loaded \<Rightarrow> \<not> refresh \<and> (case result of Inl _ \<Rightarrow> False | Inr _ \<Rightarrow> True) \<and> now - loaded \<le> schemaTTL)"

definition cached_load :: "string \<Rightarrow> int \<Rightarrow> bool \<Rightarrow> 'a schema_cache \<Rightarrow> nat option" where
  "cached_load key now refresh c =
     (case sy_entries c key of
        None \<Rightarrow> None
      | Some n \<Rightarrow> (case sy_loads c n of
                    None \<Rightarrow> None
                  | Some l \<Rightarrow> if usable_load now refresh l then Some n else None))"

definition CachedSchema :: "nat \<Rightarrow> string \<Rightarrow> int \<Rightarrow> bool \<Rightarrow> 'a schema_cache \<Rightarrow> 'a schema_cache" where
  "CachedSchema p key now refresh c =
     (case cached_load key now refresh c of
        Some n \<Rightarrow> c\<lparr>sy_callers := (sy_callers c)(p \<mapsto> AwaitingSchema key n now False), sy_clock := now\<rparr>
      | None \<Rightarrow>
          (let n = sy_next c in
           c\<lparr>sy_entries := (sy_entries c)(key \<mapsto> n), sy_keys := (sy_keys c)(n := key),
             sy_loads := (sy_loads c)(n \<mapsto> Loading), sy_next := Suc n,
             sy_callers := (sy_callers c)(p \<mapsto> AwaitingSchema key n now True), sy_clock := now\<rparr>))"

definition schema_loaded :: "nat \<Rightarrow> string + 'a \<Rightarrow> int \<Rightarrow> 'a schema_cache \<Rightarrow> 'a schema_cache" where
  "schema_loaded n result now c =
     c\<lparr>sy_loads := (sy_loads c)(n \<mapsto> Ready result now),
       sy_failed := (case result of Inl _ \<Rightarrow> insert n (sy_failed c) | Inr _ \<Rightarrow> sy_failed c), sy_clock := now\<rparr>"

text \<open>A failed load is removed, unless another one has taken its place.\<close>

definition forget_failed :: "nat \<Rightarrow> 'a schema_cache \<Rightarrow> 'a schema_cache" where
  "forget_failed n c =
     (let key = sy_keys c n in
      c\<lparr>sy_entries := (if sy_entries c key = Some n then (sy_entries c)(key := None) else sy_entries c),
        sy_failed := sy_failed c - {n}\<rparr>)"

definition schema_returned :: "nat \<Rightarrow> string \<Rightarrow> nat \<Rightarrow> int \<Rightarrow> bool \<Rightarrow> string + 'a \<Rightarrow> 'a schema_cache \<Rightarrow> 'a schema_cache" where
  "schema_returned p key n asked own result c =
     c\<lparr>sy_callers := (sy_callers c)(p \<mapsto> SchemaGiven key n asked own result)\<rparr>"

definition schema_given_up :: "nat \<Rightarrow> 'a schema_cache \<Rightarrow> 'a schema_cache" where
  "schema_given_up p c = c\<lparr>sy_callers := (sy_callers c)(p \<mapsto> SchemaGivenUp)\<rparr>"

definition InvalidateSchema :: "string \<Rightarrow> 'a schema_cache \<Rightarrow> 'a schema_cache" where
  "InvalidateSchema i c =
     (if i = [] then c else c\<lparr>sy_entries := (\<lambda>key. if owned_by i key then None else sy_entries c key)\<rparr>)"

inductive schema_step :: "'a schema_cache \<Rightarrow> 'a schema_cache \<Rightarrow> bool" where
  Requested: "sy_callers c p = None \<Longrightarrow> sy_clock c \<le> now \<Longrightarrow> schema_step c (CachedSchema p key now refresh c)"
| Loaded: "sy_loads c n = Some Loading \<Longrightarrow> sy_clock c \<le> now \<Longrightarrow> schema_step c (schema_loaded n result now c)"
| Forgotten: "n \<in> sy_failed c \<Longrightarrow> schema_step c (forget_failed n c)"
| Given: "sy_callers c p = Some (AwaitingSchema key n asked own) \<Longrightarrow> sy_loads c n = Some (Ready result loaded)
    \<Longrightarrow> schema_step c (schema_returned p key n asked own result c)"
| GivenUp: "sy_callers c p = Some (AwaitingSchema key n asked False) \<Longrightarrow> schema_step c (schema_given_up p c)"
| Invalidation: "schema_step c (InvalidateSchema i c)"

abbreviation schema_run :: "'a schema_cache \<Rightarrow> 'a schema_cache \<Rightarrow> bool" where
  "schema_run \<equiv> schema_step\<^sup>*\<^sup>*"

lemmas schema_operations = CachedSchema_def schema_loaded_def forget_failed_def schema_returned_def
  schema_given_up_def InvalidateSchema_def Let_def

text \<open>
  The load a caller was given is of its key; if it is ready, it was read no more than the time to
  live before the request, and if it failed, not before the request.
\<close>

definition good_load :: "string \<Rightarrow> nat \<Rightarrow> int \<Rightarrow> 'a schema_cache \<Rightarrow> bool" where
  "good_load key n asked c \<longleftrightarrow> n < sy_next c \<and> sy_keys c n = key
     \<and> (case sy_loads c n of
          None \<Rightarrow> False
        | Some Loading \<Rightarrow> asked \<le> sy_clock c
        | Some (Ready result loaded) \<Rightarrow> asked - loaded \<le> schemaTTL \<and> (case result of Inl _ \<Rightarrow> asked \<le> loaded | Inr _ \<Rightarrow> True))"

definition schema_cache_ok :: "'a schema_cache \<Rightarrow> bool" where
  "schema_cache_ok c \<longleftrightarrow>
     (\<forall>key n. sy_entries c key = Some n \<longrightarrow> n < sy_next c \<and> sy_keys c n = key \<and> sy_loads c n \<noteq> None)
     \<and> (\<forall>p key n asked own. sy_callers c p = Some (AwaitingSchema key n asked own) \<longrightarrow> good_load key n asked c)
     \<and> (\<forall>p key n asked own result. sy_callers c p = Some (SchemaGiven key n asked own result)
          \<longrightarrow> good_load key n asked c \<and> (\<exists>loaded. sy_loads c n = Some (Ready result loaded)))"

lemma cached_load_cases:
  assumes "cached_load key now refresh c = Some n"
  obtains l where "sy_entries c key = Some n" and "sy_loads c n = Some l" and "usable_load now refresh l"
  using assms by (auto simp: cached_load_def split: option.splits if_splits)

lemma good_load_enter:
  assumes "good_load k j asked c" and "sy_clock c \<le> now"
  shows "good_load k j asked (CachedSchema p key now refresh c)"
  using assms by (auto simp: good_load_def CachedSchema_def Let_def split: option.splits schema_load.splits)

lemma good_load_loaded:
  assumes "good_load k j asked c" and "sy_clock c \<le> now" and "sy_loads c n = Some Loading"
  shows "good_load k j asked (schema_loaded n result now c)"
  using assms by (auto simp: good_load_def schema_loaded_def schemaTTL_def split: option.splits schema_load.splits sum.splits)

lemma good_load_entered:
  assumes "schema_cache_ok c" and "sy_clock c \<le> now"
  obtains n own where "sy_callers (CachedSchema p key now refresh c) p = Some (AwaitingSchema key n now own)"
    and "good_load key n now (CachedSchema p key now refresh c)" and "refresh \<longrightarrow> own"
proof (cases "cached_load key now refresh c")
  case None
  with that [of "sy_next c" True] show ?thesis by (simp add: CachedSchema_def Let_def good_load_def)
next
  case (Some n)
  then obtain l where l: "sy_entries c key = Some n" "sy_loads c n = Some l" "usable_load now refresh l"
    by (rule cached_load_cases)
  then have "n < sy_next c" "sy_keys c n = key" using assms(1) by (auto simp: schema_cache_ok_def)
  with l Some that [of n False] show ?thesis
    by (auto simp: CachedSchema_def good_load_def usable_load_def split: schema_load.splits sum.splits)
qed

lemma good_load_frame:
  assumes "sy_keys c' = sy_keys c" "sy_loads c' = sy_loads c" "sy_next c' = sy_next c" "sy_clock c' = sy_clock c"
  shows "good_load k n a c' = good_load k n a c"
  unfolding good_load_def assms by (rule refl)

lemma fewer_entries_ok:
  assumes ok: "schema_cache_ok c" and fewer: "\<And>key n. sy_entries c' key = Some n \<Longrightarrow> sy_entries c key = Some n"
    and same: "sy_keys c' = sy_keys c" "sy_loads c' = sy_loads c" "sy_next c' = sy_next c" "sy_callers c' = sy_callers c"
      "sy_clock c' = sy_clock c"
  shows "schema_cache_ok c'"
proof -
  have loads: "good_load k n a c' = good_load k n a c" for k n a using same by (intro good_load_frame) simp_all
  show ?thesis using ok fewer unfolding schema_cache_ok_def same loads by blast
qed

lemma schema_step_ok:
  assumes "schema_step c c'" and "schema_cache_ok c"
  shows "schema_cache_ok c'"
  using assms
proof (induction rule: schema_step.induct)
  case (Requested c p now key refresh)
  let ?c = "CachedSchema p key now refresh c"
  have entries: "sy_entries ?c k = Some j \<Longrightarrow> j < sy_next ?c \<and> sy_keys ?c j = k \<and> sy_loads ?c j \<noteq> None" for k j
    using Requested.prems
    by (auto simp: schema_cache_ok_def CachedSchema_def Let_def less_Suc_eq split: option.splits if_splits)
  obtain n own where mine: "sy_callers ?c p = Some (AwaitingSchema key n now own)" "good_load key n now ?c"
    by (rule good_load_entered [OF Requested.prems Requested.hyps(2)])
  have others: "q \<noteq> p \<Longrightarrow> sy_callers ?c q = sy_callers c q" for q
    by (simp add: CachedSchema_def Let_def split: option.splits)
  have ready: "sy_loads c j = Some (Ready r t) \<Longrightarrow> j < sy_next c \<Longrightarrow> sy_loads ?c j = Some (Ready r t)" for j r t
    by (simp add: CachedSchema_def Let_def split: option.splits)
  have waiting: "good_load k j a ?c" if "sy_callers ?c q = Some (AwaitingSchema k j a w)" for q k j a w
  proof (cases "q = p")
    case True with that mine show ?thesis by simp
  next
    case False
    with that others have "sy_callers c q = Some (AwaitingSchema k j a w)" by simp
    with Requested.prems have "good_load k j a c" unfolding schema_cache_ok_def by blast
    then show ?thesis by (rule good_load_enter [OF _ Requested.hyps(2)])
  qed
  have given: "good_load k j a ?c \<and> (\<exists>t. sy_loads ?c j = Some (Ready r t))"
    if "sy_callers ?c q = Some (SchemaGiven k j a w r)" for q k j a w r
  proof -
    have "q \<noteq> p" using that mine by auto
    with that others have "sy_callers c q = Some (SchemaGiven k j a w r)" by simp
    with Requested.prems have old: "good_load k j a c" "\<exists>t. sy_loads c j = Some (Ready r t)"
      by (auto simp: schema_cache_ok_def)
    with ready good_load_enter [OF old(1) Requested.hyps(2)] show ?thesis by (auto simp: good_load_def)
  qed
  show ?case unfolding schema_cache_ok_def using entries waiting given by blast
next
  case (Loaded c n now result)
  have good: "good_load k j a (schema_loaded n result now c)" if "good_load k j a c" for k j a
    by (rule good_load_loaded [OF that Loaded.hyps(2,1)])
  have ready: "sy_loads (schema_loaded n result now c) j = Some (Ready r t)" if "sy_loads c j = Some (Ready r t)" for j r t
    using that Loaded.hyps(1) by (auto simp: schema_loaded_def)
  have same: "sy_entries (schema_loaded n result now c) = sy_entries c" "sy_next (schema_loaded n result now c) = sy_next c"
    "sy_keys (schema_loaded n result now c) = sy_keys c" "sy_callers (schema_loaded n result now c) = sy_callers c"
    by (simp_all add: schema_loaded_def)
  show ?case unfolding schema_cache_ok_def same
  proof (intro conjI allI impI)
    fix k j assume "sy_entries c k = Some j"
    with Loaded.prems have "j < sy_next c \<and> sy_keys c j = k \<and> sy_loads c j \<noteq> None" unfolding schema_cache_ok_def by blast
    then show "j < sy_next c" "sy_keys c j = k" "sy_loads (schema_loaded n result now c) j \<noteq> None"
      by (auto simp: schema_loaded_def)
  next
    fix p k j a w assume "sy_callers c p = Some (AwaitingSchema k j a w)"
    with Loaded.prems show "good_load k j a (schema_loaded n result now c)"
      unfolding schema_cache_ok_def by (intro good) blast
  next
    fix p k j a w r assume "sy_callers c p = Some (SchemaGiven k j a w r)"
    with Loaded.prems have "good_load k j a c \<and> (\<exists>t. sy_loads c j = Some (Ready r t))"
      unfolding schema_cache_ok_def by blast
    then show "good_load k j a (schema_loaded n result now c)"
      "\<exists>t. sy_loads (schema_loaded n result now c) j = Some (Ready r t)" using good ready by blast+
  qed
next
  case (Forgotten n c)
  then show ?case by (elim fewer_entries_ok) (auto simp: forget_failed_def Let_def split: if_splits)
next
  case (Given c p key n asked own result loaded)
  have "good_load k j a (schema_returned p key n asked own result c) = good_load k j a c" for k j a
    by (rule good_load_frame) (simp_all add: schema_returned_def)
  moreover from Given have "good_load key n asked c" unfolding schema_cache_ok_def by blast
  ultimately show ?case using Given
    by (simp add: schema_cache_ok_def) (simp add: schema_returned_def)
next
  case (GivenUp c p key n asked)
  have "good_load k j a (schema_given_up p c) = good_load k j a c" for k j a
    by (rule good_load_frame) (simp_all add: schema_given_up_def)
  with GivenUp show ?case by (simp add: schema_cache_ok_def) (simp add: schema_given_up_def)
next
  case (Invalidation c i)
  then show ?case by (elim fewer_entries_ok) (auto simp: InvalidateSchema_def split: if_splits)
qed

lemma no_schemas_ok: "schema_cache_ok no_schemas"
  by (simp add: schema_cache_ok_def no_schemas_def)

lemma schemas_ok: "schema_run no_schemas c \<Longrightarrow> schema_cache_ok c"
  by (induction rule: rtranclp_induct) (rule no_schemas_ok, erule (1) schema_step_ok)

text \<open>A refresh begins a load of its own.\<close>

lemma refresh_loads_again:
  "sy_callers (CachedSchema p key now True c) p = Some (AwaitingSchema key (sy_next c) now True)"
  by (auto simp: CachedSchema_def cached_load_def usable_load_def Let_def split: option.splits schema_load.splits)

text \<open>What is true of the loads after a bound.\<close>

definition reloaded :: "nat \<Rightarrow> (nat \<Rightarrow> bool) \<Rightarrow> string \<Rightarrow> 'a schema_cache \<Rightarrow> bool" where
  "reloaded bound old i c \<longleftrightarrow> bound \<le> sy_next c
     \<and> (\<forall>key n. owned_by i key \<longrightarrow> sy_entries c key = Some n \<longrightarrow> bound \<le> n)
     \<and> (\<forall>p key n asked own. owned_by i key \<longrightarrow> \<not> old p \<longrightarrow> sy_callers c p = Some (AwaitingSchema key n asked own) \<longrightarrow> bound \<le> n)
     \<and> (\<forall>p key n asked own r. owned_by i key \<longrightarrow> \<not> old p \<longrightarrow> sy_callers c p = Some (SchemaGiven key n asked own r) \<longrightarrow> bound \<le> n)
     \<and> (\<forall>p. old p \<longrightarrow> sy_callers c p \<noteq> None)"

lemma reloaded_step: "schema_step c c' \<Longrightarrow> reloaded bound old i c \<Longrightarrow> reloaded bound old i c'"
proof (induction rule: schema_step.induct)
  case (Requested c p now key refresh)
  show ?case
  proof (cases "cached_load key now refresh c")
    case None with Requested.prems show ?thesis
      by (auto simp: reloaded_def CachedSchema_def Let_def)
  next
    case (Some n)
    then have "sy_entries c key = Some n" by (rule cached_load_cases)
    with Requested.prems have "owned_by i key \<Longrightarrow> bound \<le> n" unfolding reloaded_def by blast
    with Some Requested.prems show ?thesis by (auto simp: reloaded_def CachedSchema_def)
  qed
qed (auto simp: reloaded_def schema_operations split: if_splits)

lemma reloaded_run: "schema_run c c' \<Longrightarrow> reloaded bound old i c \<Longrightarrow> reloaded bound old i c'"
  by (induction rule: rtranclp_induct) (blast dest: reloaded_step)+

text \<open>C13: a schema that is given is of the right database and fresh. To a caller who came after an
  invalidation of its connection only a load is given that began after it; the load was read at
  most thirty seconds before the request, and a failure is never older than the request.\<close>

theorem schemas_are_fresh:
  assumes "schema_run no_schemas c" and "i \<noteq> []" and "schema_run (InvalidateSchema i c) c'" and "owned_by i key"
    and "sy_callers c p = None" and "sy_callers c' p = Some (SchemaGiven key n asked own result)"
  shows "sy_next c \<le> n \<and> sy_keys c' n = key
    \<and> (\<exists>loaded. sy_loads c' n = Some (Ready result loaded) \<and> asked \<le> loaded + 30
        \<and> (asked \<le> loaded \<or> (\<exists>schema. result = Inr schema)))"
proof -
  have "reloaded (sy_next c) (\<lambda>p. sy_callers c p \<noteq> None) i (InvalidateSchema i c)"
    using assms(2) by (simp add: reloaded_def InvalidateSchema_def)
  from reloaded_run [OF assms(3) this] assms(4-6) have "sy_next c \<le> n" unfolding reloaded_def by blast
  moreover have "schema_run no_schemas c'"
    using assms(1,3) Invalidation [of c i] by (meson rtranclp.rtrancl_into_rtrancl rtranclp_trans)
  then have "good_load key n asked c' \<and> (\<exists>loaded. sy_loads c' n = Some (Ready result loaded))"
    using assms(6) schemas_ok unfolding schema_cache_ok_def by blast
  then have "sy_keys c' n = key" "\<exists>loaded. sy_loads c' n = Some (Ready result loaded) \<and> asked \<le> loaded + 30
      \<and> (asked \<le> loaded \<or> (\<exists>schema. result = Inr schema))"
    by (cases result; auto simp: good_load_def schemaTTL_def)+
  ultimately show ?thesis by blast
qed

text \<open>A run: an invalidation, a request, its load and its answer.\<close>

definition asked_once :: "string schema_cache" where
  "asked_once = CachedSchema 0 ''c|k'' 7 False (InvalidateSchema ''c'' no_schemas)"

definition answered_once :: "string schema_cache" where
  "answered_once = schema_returned 0 ''c|k'' 0 7 True (Inr ''s'') (schema_loaded 0 (Inr ''s'') 9 asked_once)"

lemma asked_once_state:
  "sy_callers asked_once = [0 \<mapsto> AwaitingSchema ''c|k'' 0 7 True]" "sy_loads asked_once = [0 \<mapsto> Loading]"
  "sy_clock asked_once = 7"
  by (simp_all add: asked_once_def CachedSchema_def cached_load_def InvalidateSchema_def no_schemas_def Let_def)

lemma answered_run: "schema_run (InvalidateSchema ''c'' no_schemas) answered_once"
proof -
  have "schema_step (InvalidateSchema ''c'' no_schemas) asked_once"
    unfolding asked_once_def by (rule Requested) (simp_all add: InvalidateSchema_def no_schemas_def)
  moreover have "schema_step asked_once (schema_loaded 0 (Inr ''s'') 9 asked_once)"
    by (rule Loaded) (simp_all add: asked_once_state)
  moreover have "schema_step (schema_loaded 0 (Inr ''s'') 9 asked_once) answered_once"
    unfolding answered_once_def by (rule Given [where loaded = 9]) (simp_all add: schema_loaded_def asked_once_state)
  ultimately show ?thesis by (meson converse_rtranclp_into_rtranclp rtranclp.rtrancl_refl)
qed

lemma schemas_are_fresh_witness:
  "\<exists>loaded. sy_loads answered_once 0 = Some (Ready (Inr ''s'') loaded) \<and> 7 \<le> loaded + 30"
proof -
  have "owned_by ''c'' ''c|k''" by (simp add: owned_by_def)
  moreover have "sy_callers no_schemas 0 = (None :: string schema_caller option)" by (simp add: no_schemas_def)
  moreover have "sy_callers answered_once 0 = Some (SchemaGiven ''c|k'' 0 7 True (Inr ''s''))"
    by (simp add: answered_once_def schema_returned_def)
  ultimately show ?thesis
    using schemas_are_fresh [OF rtranclp.rtrancl_refl _ answered_run] by blast
qed

subsection \<open>Column origins\<close>

text \<open>
  The tables and columns the columns of a result come from, kept by pool key and statement; a ring
  of 512 keys decides what is dropped.
\<close>

definition originCacheLimit :: nat where
  "originCacheLimit = 512"

record 'o origin_cache =
  oc_entries :: "string \<Rightarrow> 'o list option"
  oc_order :: "string list"
  oc_next :: nat

definition no_origins :: "'o origin_cache" where
  "no_origins = \<lparr>oc_entries = Map.empty, oc_order = [], oc_next = 0\<rparr>"

definition origins_get :: "'o origin_cache \<Rightarrow> string \<Rightarrow> 'o list option" where
  "origins_get c key = oc_entries c key"

definition origins_put :: "string \<Rightarrow> 'o list \<Rightarrow> 'o origin_cache \<Rightarrow> 'o origin_cache" where
  "origins_put key origins c =
     (if oc_entries c key \<noteq> None then c\<lparr>oc_entries := (oc_entries c)(key \<mapsto> origins)\<rparr>
      else if length (oc_order c) < originCacheLimit
      then c\<lparr>oc_order := oc_order c @ [key], oc_entries := (oc_entries c)(key \<mapsto> origins)\<rparr>
      else c\<lparr>oc_entries := (oc_entries c)(oc_order c ! oc_next c := None, key \<mapsto> origins),
             oc_order := (oc_order c)[oc_next c := key],
             oc_next := (oc_next c + 1) mod originCacheLimit\<rparr>)"

definition origins_forget :: "string \<Rightarrow> 'o origin_cache \<Rightarrow> 'o origin_cache" where
  "origins_forget i c = c\<lparr>oc_entries := (\<lambda>key. if owned_by i key then None else oc_entries c key)\<rparr>"

text \<open>What is kept is in the ring, so the cache is bounded.\<close>

definition origins_ok :: "'o origin_cache \<Rightarrow> bool" where
  "origins_ok c \<longleftrightarrow> dom (oc_entries c) \<subseteq> set (oc_order c) \<and> length (oc_order c) \<le> originCacheLimit
     \<and> oc_next c < originCacheLimit"

lemma no_origins_ok: "origins_ok no_origins"
  by (simp add: origins_ok_def no_origins_def originCacheLimit_def)

lemma origins_forget_ok: "origins_ok c \<Longrightarrow> origins_ok (origins_forget i c)"
  by (auto simp: origins_ok_def origins_forget_def split: if_splits)

lemma set_replaced: "k < length xs \<Longrightarrow> set xs \<subseteq> insert (xs ! k) (set (xs[k := x]))"
  by (metis list_update_id list_update_overwrite set_update_subset_insert)

lemma origins_put_ok:
  assumes "origins_ok c"
  shows "origins_ok (origins_put key origins c)"
proof -
  have "dom (oc_entries c) - {oc_order c ! oc_next c} \<subseteq> set ((oc_order c)[oc_next c := key])"
    if "\<not> length (oc_order c) < originCacheLimit"
    using assms that set_replaced [of "oc_next c" "oc_order c" key] by (auto simp: origins_ok_def)
  moreover have "key \<in> set ((oc_order c)[oc_next c := key])" if "\<not> length (oc_order c) < originCacheLimit"
    using assms that by (intro set_update_memI) (simp add: origins_ok_def)
  ultimately show ?thesis
    using assms by (auto simp: origins_ok_def origins_put_def originCacheLimit_def)
qed

lemma origins_are_bounded: "origins_ok c \<Longrightarrow> card (dom (oc_entries c)) \<le> originCacheLimit"
  unfolding origins_ok_def by (meson card_length card_mono finite_set le_trans)

text \<open>What is read was put, so the cache is a memo table of what the database answers for a key.\<close>

definition origins_sound :: "(string \<Rightarrow> 'o list \<Rightarrow> bool) \<Rightarrow> 'o origin_cache \<Rightarrow> bool" where
  "origins_sound resolves c \<longleftrightarrow> (\<forall>key v. oc_entries c key = Some v \<longrightarrow> resolves key v)"

interpretation origins: memo_table "origins_sound resolves" origins_get "\<lambda>key v c. origins_put key v c" resolves
  for resolves :: "string \<Rightarrow> 'o list \<Rightarrow> bool"
  by unfold_locales (auto simp: origins_sound_def origins_get_def origins_put_def split: if_splits)

text \<open>\<open>columnOrigins\<close>: what is not known is resolved, and kept where the engine tells origins.\<close>

definition columnOrigins ::
  "(EngineConnection \<Rightarrow> string \<Rightarrow> 'o list option) \<Rightarrow> (string \<Rightarrow> string) \<Rightarrow> EngineConnection \<Rightarrow> string \<Rightarrow>
   'o origin_cache \<Rightarrow> 'o list option \<times> 'o origin_cache" where
  "columnOrigins resolve short_hash connection query c =
     (let key = poolKey short_hash connection @ [CHR 0x00] @ query in
      case origins_get c key of
        Some origins \<Rightarrow> (Some origins, c)
      | None \<Rightarrow>
          (case resolve connection query of
             None \<Rightarrow> (None, c)
           | Some origins \<Rightarrow> (Some origins, origins_put key origins c)))"

text \<open>
  While the catalog does not change, the cache is invisible: what a memo table gives is what was
  resolved.
\<close>

lemma columnOrigins_transparent:
  assumes "origins_sound (\<lambda>key v. \<forall>c q. key = poolKey h c @ [CHR 0x00] @ q \<longrightarrow> resolve c q = Some v) cache"
  shows "fst (columnOrigins resolve h connection query cache) = resolve connection query"
proof -
  let ?key = "poolKey h connection @ [CHR 0x00] @ query"
  show ?thesis
  proof (cases "origins_get cache ?key")
    case (Some v)
    from origins.lookup_result [OF assms Some] have "resolve connection query = Some v" by blast
    with Some show ?thesis by (simp add: columnOrigins_def)
  qed (simp add: columnOrigins_def split: option.splits)
qed

text \<open>
  An invalidation between the resolution and the \<open>put\<close> does not reach what is put: the origins of
  the old catalog stay.
\<close>

lemma stale_origins_stay: "origins_get (origins_put key stale (origins_forget i c)) key = Some stale"
  by (simp add: origins_get_def origins_put_def)

end
