(* ===== verification/Cassandra_Engine.thy ===== *)
theory Cassandra_Engine
  imports Cassandra Engine_Connection Nosql Base64
begin

section \<open>The Cassandra engine (engine/cassandra.go)\<close>

text \<open>
  The driver gocql answers: whether a session opens, the error of a command, the rows and columns
  of a query with the error of closing it, and the metadata of a keyspace. A row is a map from
  column names to values, absent where the server sent null. What the methods send is a list of
  calls.
\<close>

subsection \<open>Values and types\<close>

text \<open>
  The Go types gocql scans into. \<open>CNumber\<close> is printed by \<open>fmt.Sprint\<close>; \<open>CDecimal\<close> and \<open>CVarint\<close> may
  be nil pointers; \<open>CTime\<close> is its UTC time in RFC 3339.
\<close>

datatype cql_value =
    CNil
  | CUUID string
  | CBytes string
  | CBool bool
  | CTime string
  | CAddress string
  | CDecimal "string option"
  | CVarint "string option"
  | CText string
  | CNumber string

datatype cql_kind =
    CqlCustom | CqlAscii | CqlBigInt | CqlBlob | CqlBoolean | CqlCounter | CqlDecimal | CqlDouble | CqlFloat
  | CqlInt | CqlTextKind | CqlTimestamp | CqlUUIDKind | CqlVarchar | CqlVarintKind | CqlTimeUUID | CqlInet | CqlDate
  | CqlTime | CqlSmallInt | CqlTinyInt | CqlDuration | CqlList | CqlMap | CqlSet | CqlUDT | CqlTuple

text \<open>\<open>gocql.TypeInfo\<close>: a plain type, a collection, a tuple, a user-defined type.\<close>

datatype cql_type =
    CqlPlain cql_kind
  | CqlMapOf cql_type cql_type
  | CqlCollection cql_kind cql_type
  | CqlTupleOf "cql_type list"
  | CqlUser string

fun type_kind :: "cql_type \<Rightarrow> cql_kind" where
  "type_kind (CqlPlain k) = k"
| "type_kind (CqlMapOf _ _) = CqlMap"
| "type_kind (CqlCollection k _) = k"
| "type_kind (CqlTupleOf _) = CqlTuple"
| "type_kind (CqlUser _) = CqlUDT"

datatype column_kind = PartitionKey | Clustering | Static | Regular

record cql_column =
  cc_Name :: string
  cc_Kind :: column_kind
  cc_Type :: cql_type
  cc_Order :: string

text \<open>The key columns, and all columns in the order of the driver's \<open>OrderedColumns\<close>.\<close>

record cql_table =
  ct_PartitionKey :: "cql_column list"
  ct_Clustering :: "cql_column list"
  ct_Columns :: "cql_column list"

definition column_of :: "cql_table \<Rightarrow> string \<Rightarrow> cql_column option" where
  "column_of t name = find (\<lambda>c. cc_Name c = name) (ct_Columns t)"

datatype cql_call =
    CqlExec string
  | CqlIterate string "int option"
  | CqlMetadata string
  | CqlBatch "(string \<times> cql_value list) list"

text \<open>
  \<open>qd_type_name\<close> prints a type, \<open>qd_parse\<close> is the conversion of a text by \<open>strconv\<close>, \<open>time\<close> and
  gocql for the types whose texts are not integers, \<open>qd_syntax_error\<close> the message of a text that is
  no integer of its width or no truth value, \<open>qd_quote\<close> is \<open>%q\<close>, and \<open>qd_shown\<close> how a value that \<open>jsonSafe\<close>
  leaves alone is shown.
\<close>

record cql_driver =
  qd_open :: "string \<Rightarrow> string option"
  qd_exec :: "string \<Rightarrow> string option"
  qd_columns :: "string \<Rightarrow> string list"
  qd_rows :: "string \<Rightarrow> (string \<Rightarrow> cql_value) list"
  qd_close :: "string \<Rightarrow> string option"
  qd_tables :: "string \<Rightarrow> string + (string \<Rightarrow> cql_table option)"
  qd_batch :: "(string \<times> cql_value list) list \<Rightarrow> string option"
  qd_type_name :: "cql_kind \<Rightarrow> string"
  qd_parse :: "cql_kind \<Rightarrow> string \<Rightarrow> string + cql_value"
  qd_syntax_error :: "cql_kind \<Rightarrow> string \<Rightarrow> string"
  qd_quote :: "string \<Rightarrow> string"
  qd_shown :: "cql_value \<Rightarrow> driver_value"

definition double_quoted :: "string \<Rightarrow> string" where
  "double_quoted v = [CHR 0x22] @ double_char (CHR 0x22) v @ [CHR 0x22]"

subsection \<open>The session\<close>

text \<open>What \<open>cassandraSession\<close> sets in the cluster's configuration, or its error.\<close>

record cluster_config =
  cg_hosts :: "string list"
  cg_port :: int
  cg_consistency :: string
  cg_page_size :: "int option"
  cg_keyspace :: "string option"
  cg_password :: "(string \<times> string) option"
  cg_tls :: "tls_config option"
  cg_tunnel :: bool

definition cassandra_cluster ::
  "unicode \<Rightarrow> tls_world \<Rightarrow> (string \<Rightarrow> string option) \<Rightarrow> EngineConnection \<Rightarrow> string \<Rightarrow> string + cluster_config" where
  "cassandra_cluster u tw consistency_error connection keyspace =
     (let consistency = (if ec_CassandraConsistency connection = [] then ''QUORUM'' else ec_CassandraConsistency connection) in
      case consistency_error consistency of
        Some e \<Rightarrow> Inl (''Cassandra consistency: '' @ e)
      | None \<Rightarrow>
          bind_result
            (if tls_Mode (ec_TLS connection) \<noteq> ''disable'' \<and> tls_Mode (ec_TLS connection) \<noteq> []
             then tlsConfig u tw (ec_TLS connection) (ec_Host connection) else Inr None)
            (\<lambda>tls. Inr
               \<lparr>cg_hosts = (if ec_ContactPoints connection = [] then [ec_Host connection] else ec_ContactPoints connection),
                cg_port = ec_Port connection, cg_consistency = consistency,
                cg_page_size = (if 0 < ec_CassandraPageSize connection then Some (ec_CassandraPageSize connection) else None),
                cg_keyspace = (if keyspace \<noteq> [] then Some keyspace else None),
                cg_password = (if ec_Username connection \<noteq> [] then Some (ec_Username connection, ec_Password connection) else None),
                cg_tls = tls, cg_tunnel = ssh_enabled (ec_SSH connection)\<rparr>))"

definition in_session ::
  "cql_driver \<Rightarrow> string \<Rightarrow> 'c list \<times> (string + 'r) \<Rightarrow> 'c list \<times> (string + 'r)" where
  "in_session d keyspace body = (case qd_open d keyspace of Some e \<Rightarrow> ([], Inl e) | None \<Rightarrow> body)"

subsection \<open>Reading\<close>

text \<open>The loop over the rows: it stops at the limit and then calls the result truncated.\<close>

fun read_rows :: "int \<Rightarrow> nat \<Rightarrow> 'r list \<Rightarrow> 'r list \<times> bool" where
  "read_rows limit n [] = ([], False)"
| "read_rows limit n (r # rs) =
     (if limit \<le> int (Suc n) then ([r], True)
      else case read_rows limit (Suc n) rs of (kept, more_left) \<Rightarrow> (r # kept, more_left))"

lemma read_rows_take:
  "int n < limit \<Longrightarrow> read_rows limit n rs = (take (nat limit - n) rs, nat limit - n \<le> length rs)"
proof (induction rs arbitrary: n)
  case (Cons r rs)
  show ?case
  proof (cases "limit \<le> int (Suc n)")
    case True
    with Cons.prems have "nat limit - n = 1" by auto
    with True show ?thesis by simp
  next
    case False
    then have "nat limit - n = Suc (nat limit - Suc n)" by auto
    with Cons.IH [of "Suc n"] False show ?thesis by simp
  qed
qed auto

text \<open>Bytes are shown as the JSON of a byte slice: its base64 text in quotation marks.\<close>

definition jsonSafe :: "cql_driver \<Rightarrow> cql_value \<Rightarrow> driver_value" where
  "jsonSafe d v =
     (case v of
        CUUID s \<Rightarrow> TextV s
      | CBytes b \<Rightarrow> TextV ([CHR 0x22] @ b64_encode b @ [CHR 0x22])
      | _ \<Rightarrow> qd_shown d v)"

definition query_limit :: "int \<Rightarrow> int" where
  "query_limit limit = (if limit \<le> 0 \<or> 10000 < limit then 1000 else limit)"

definition query_page :: "EngineConnection \<Rightarrow> int \<Rightarrow> int" where
  "query_page connection limit =
     (if ec_CassandraPageSize connection \<le> 0 \<or> limit < ec_CassandraPageSize connection then limit
      else ec_CassandraPageSize connection)"

definition CassandraQuery ::
  "unicode \<Rightarrow> cql_driver \<Rightarrow> EngineConnection \<Rightarrow> string \<Rightarrow> string \<Rightarrow> int \<Rightarrow> parse_cache \<Rightarrow>
   (cql_call list \<times> (string + cassandra_result)) \<times> parse_cache" where
  "CassandraQuery u d connection keyspace query requested c =
     (let limit = query_limit requested in
      case qd_open d keyspace of
        Some e \<Rightarrow> (([], Inl e), c)
      | None \<Rightarrow>
          (case ParseCQL u query c of
             ((_, Some e), c') \<Rightarrow> (([], Inl e), c')
           | ((info, None), c') \<Rightarrow>
               (if Kind info \<noteq> Select
                then (([CqlExec query],
                       case qd_exec d query of
                         Some e \<Rightarrow> Inl e
                       | None \<Rightarrow> Inr \<lparr>cr_columns = [], cr_rows = [], cr_affected = 0, cr_truncated = False\<rparr>), c')
                else
                  (case read_rows limit 0 (qd_rows d query) of
                     (rows, limited) \<Rightarrow>
                       (([CqlIterate query (Some (query_page connection limit))],
                         if qd_close d query \<noteq> None \<and> \<not> limited then Inl (the (qd_close d query))
                         else Inr \<lparr>cr_columns = qd_columns d query,
                           cr_rows = map (\<lambda>row. map (\<lambda>n. jsonSafe d (row n)) (qd_columns d query)) rows,
                           cr_affected = 0, cr_truncated = limited\<rparr>), c')))))"

subsection \<open>Row backups\<close>

text \<open>A captured cell: its kind chooses the syntax of the literal.\<close>

datatype cql_cell_kind = CellNull | CellUUID | CellBytes | CellBool | CellTime | CellText | CellNum

record CassandraValue =
  cv_Kind :: cql_cell_kind
  cv_Value :: string

definition raw_cell :: "cql_cell_kind \<Rightarrow> string \<Rightarrow> CassandraValue" where
  "raw_cell k v = \<lparr>cv_Kind = k, cv_Value = v\<rparr>"

definition number_cell :: "string option \<Rightarrow> CassandraValue" where
  "number_cell n = (case n of None \<Rightarrow> raw_cell CellNull [] | Some s \<Rightarrow> raw_cell CellNum s)"

fun encodeCassandraValue :: "cql_value \<Rightarrow> CassandraValue" where
  "encodeCassandraValue CNil = raw_cell CellNull []"
| "encodeCassandraValue (CUUID s) = raw_cell CellUUID s"
| "encodeCassandraValue (CBytes b) = raw_cell CellBytes (b64_encode b)"
| "encodeCassandraValue (CBool b) = raw_cell CellBool (if b then ''true'' else ''false'')"
| "encodeCassandraValue (CTime t) = raw_cell CellTime t"
| "encodeCassandraValue (CAddress a) = raw_cell CellText a"
| "encodeCassandraValue (CDecimal n) = number_cell n"
| "encodeCassandraValue (CVarint n) = number_cell n"
| "encodeCassandraValue (CText s) = raw_cell CellText s"
| "encodeCassandraValue (CNumber s) = raw_cell CellNum s"

record raw_rows =
  cw_columns :: "string list"
  cw_rows :: "CassandraValue list list"
  cw_truncated :: bool

definition CassandraSelectRaw :: "cql_driver \<Rightarrow> string \<Rightarrow> string \<Rightarrow> int \<Rightarrow> cql_call list \<times> (string + raw_rows)" where
  "CassandraSelectRaw d keyspace query limit =
     in_session d keyspace
       (case read_rows limit 0 (qd_rows d query) of
          (rows, limited) \<Rightarrow>
            ([CqlIterate query None],
             if qd_close d query \<noteq> None \<and> \<not> limited then Inl (the (qd_close d query))
             else Inr \<lparr>cw_columns = qd_columns d query,
               cw_rows = map (\<lambda>row. map (\<lambda>n. encodeCassandraValue (row n)) (qd_columns d query)) rows,
               cw_truncated = limited\<rparr>))"

definition cassandraColumnRoundTrippable :: "cql_kind \<Rightarrow> bool" where
  "cassandraColumnRoundTrippable k \<longleftrightarrow>
     k \<in> {CqlAscii, CqlTextKind, CqlVarchar, CqlInt, CqlBigInt, CqlSmallInt, CqlTinyInt, CqlBoolean, CqlUUIDKind,
          CqlTimeUUID, CqlTimestamp, CqlBlob, CqlFloat, CqlDouble, CqlDecimal, CqlVarintKind, CqlInet}"

record CassandraColumnInfo =
  ci_Name :: string
  ci_Kind :: string
  ci_Type :: string
  ci_Supported :: bool

record CassandraTableInfo =
  ti_PrimaryKey :: "string list"
  ti_Columns :: "CassandraColumnInfo list"
  ti_IsCounter :: bool

fun column_kind_name :: "column_kind \<Rightarrow> string" where
  "column_kind_name PartitionKey = ''partition_key''"
| "column_kind_name Clustering = ''clustering''"
| "column_kind_name Static = ''static''"
| "column_kind_name Regular = ''regular''"

definition column_info :: "cql_driver \<Rightarrow> cql_column \<Rightarrow> CassandraColumnInfo" where
  "column_info d col =
     \<lparr>ci_Name = cc_Name col, ci_Kind = column_kind_name (cc_Kind col), ci_Type = qd_type_name d (type_kind (cc_Type col)),
      ci_Supported = cassandraColumnRoundTrippable (type_kind (cc_Type col))\<rparr>"

definition table_info :: "cql_driver \<Rightarrow> string \<Rightarrow> string \<Rightarrow> cql_call list \<times> (string + CassandraTableInfo)" where
  "table_info d keyspace tbl =
     in_session d keyspace
       ([CqlMetadata keyspace],
        case qd_tables d keyspace of
          Inl e \<Rightarrow> Inl e
        | Inr tables \<Rightarrow>
            (case tables tbl of
               None \<Rightarrow> Inl (''table '' @ qd_quote d tbl @ '' not found in keyspace '' @ qd_quote d keyspace)
             | Some t \<Rightarrow> Inr \<lparr>ti_PrimaryKey = map cc_Name (ct_PartitionKey t) @ map cc_Name (ct_Clustering t),
                 ti_Columns = map (column_info d) (ct_Columns t),
                 ti_IsCounter = list_ex (\<lambda>c. type_kind (cc_Type c) = CqlCounter) (ct_Columns t)\<rparr>))"

subsection \<open>Exports, definitions and imports\<close>

definition ValidateCassandraCQLExport :: "cql_driver \<Rightarrow> string \<Rightarrow> string \<Rightarrow> cql_call list \<times> (string + unit)" where
  "ValidateCassandraCQLExport d keyspace tbl =
     in_session d keyspace
       ([CqlMetadata keyspace],
        case qd_tables d keyspace of
          Inl e \<Rightarrow> Inl e
        | Inr tables \<Rightarrow>
            (case tables tbl of
               None \<Rightarrow> Inl (''CQL INSERT export is not available for this table: '' @ tbl @ '' is not a base table'')
             | Some t \<Rightarrow>
                 if list_ex (\<lambda>c. type_kind (cc_Type c) = CqlCounter) (ct_Columns t)
                 then Inl ''CQL INSERT export is not available for this table: counter tables require UPDATE rather than INSERT''
                 else Inr ()))"

fun cqlTypeName :: "cql_driver \<Rightarrow> cql_type \<Rightarrow> string" where
  "cqlTypeName d (CqlPlain k) = qd_type_name d k"
| "cqlTypeName d (CqlMapOf k v) = ''map<'' @ cqlTypeName d k @ '', '' @ cqlTypeName d v @ ''>''"
| "cqlTypeName d (CqlCollection k e) = qd_type_name d k @ ''<'' @ cqlTypeName d e @ ''>''"
| "cqlTypeName d (CqlTupleOf ts) = ''tuple<'' @ str_join '', '' (map (cqlTypeName d) ts) @ ''>''"
| "cqlTypeName d (CqlUser name) = double_quoted name"

definition clustering_order :: "unicode \<Rightarrow> cql_column \<Rightarrow> string" where
  "clustering_order u c = double_quoted (cc_Name c) @ '' '' @ (if equal_fold u (cc_Order c) ''desc'' then ''DESC'' else ''ASC'')"

definition ddl_primary :: "cql_table \<Rightarrow> string" where
  "ddl_primary t =
     (let partition = map (double_quoted \<circ> cc_Name) (ct_PartitionKey t);
          clustering = map (double_quoted \<circ> cc_Name) (ct_Clustering t);
          first = (if 1 < length partition then ''('' @ str_join '', '' partition @ '')'' else str_join '', '' partition) in
      if clustering = [] then first else first @ '', '' @ str_join '', '' clustering)"

definition table_ddl :: "unicode \<Rightarrow> cql_driver \<Rightarrow> string \<Rightarrow> string \<Rightarrow> cql_table \<Rightarrow> string" where
  "table_ddl u d keyspace name t =
     (let columns = map (\<lambda>c. ''  '' @ double_quoted (cc_Name c) @ '' '' @ cqlTypeName d (cc_Type c)) (ct_Columns t)
            @ [''  PRIMARY KEY ('' @ ddl_primary t @ '')'']; newline = [CHR 0x0A] in
      ''CREATE TABLE '' @ double_quoted keyspace @ ''.'' @ double_quoted name @ '' ('' @ newline
      @ str_join ('','' @ newline) columns @ newline @ '')''
      @ (if ct_Clustering t = [] then []
         else newline @ ''WITH CLUSTERING ORDER BY ('' @ str_join '', '' (map (clustering_order u) (ct_Clustering t)) @ '')'')
      @ '';'')"

definition cassandraDDL ::
  "unicode \<Rightarrow> cql_driver \<Rightarrow> EngineConnection \<Rightarrow> string \<Rightarrow> string \<Rightarrow> string \<Rightarrow> cql_call list \<times> (string + string)" where
  "cassandraDDL u d connection kind given name =
     (if kind \<noteq> ''table'' then ([], Inl (''no definition available for Cassandra '' @ kind @ '' objects''))
      else let keyspace = (if given = [] then ec_Database connection else given) in
       in_session d keyspace
         ([CqlMetadata keyspace],
          case qd_tables d keyspace of
            Inl e \<Rightarrow> Inl e
          | Inr tables \<Rightarrow> (case tables name of None \<Rightarrow> Inl ''object not found'' | Some t \<Rightarrow> Inr (table_ddl u d keyspace name t))))"

text \<open>\<open>strconv.ParseInt(v, 10, bits)\<close>.\<close>

definition parse_int :: "cql_driver \<Rightarrow> cql_kind \<Rightarrow> nat \<Rightarrow> string \<Rightarrow> string + cql_value" where
  "parse_int d k bits v =
     (case atoi v of (i, ok) \<Rightarrow>
        if ok \<and> - (2 ^ (bits - 1)) \<le> i \<and> i < 2 ^ (bits - 1) then Inr (CNumber (decimal i)) else Inl (qd_syntax_error d k v))"

definition true_texts :: "string list" where
  "true_texts = [''1'', ''t'', ''T'', ''TRUE'', ''true'', ''True'']"

definition false_texts :: "string list" where
  "false_texts = [''0'', ''f'', ''F'', ''FALSE'', ''false'', ''False'']"

definition cassandraImportValue :: "cql_driver \<Rightarrow> string \<Rightarrow> cql_kind \<Rightarrow> string + cql_value" where
  "cassandraImportValue d v k =
     (if k = CqlInt then parse_int d k 32 v
      else if k = CqlBigInt \<or> k = CqlCounter then parse_int d k 64 v
      else if k = CqlSmallInt then parse_int d k 16 v
      else if k = CqlTinyInt then parse_int d k 8 v
      else if k = CqlBoolean
      then (if v \<in> set true_texts then Inr (CBool True) else if v \<in> set false_texts then Inr (CBool False) else Inl (qd_syntax_error d k v))
      else if k \<in> {CqlFloat, CqlDouble, CqlTimestamp, CqlUUIDKind, CqlTimeUUID} then qd_parse d k v
      else if k = CqlBlob then Inr (CBytes v)
      else Inr (CText v))"

text \<open>One row: the values of the columns, nil where the file has none; the first that fails.\<close>

fun import_values :: "cql_driver \<Rightarrow> string \<Rightarrow> (cql_column \<times> string option) list \<Rightarrow> string + cql_value list" where
  "import_values d row [] = Inr []"
| "import_values d row ((col, raw) # rest) =
     (case (case raw of None \<Rightarrow> Inr CNil | Some v \<Rightarrow> cassandraImportValue d v (type_kind (cc_Type col))) of
        Inl e \<Rightarrow> Inl (''row '' @ row @ '' column '' @ cc_Name col @ '': '' @ e)
      | Inr value \<Rightarrow> map_sum id ((#) value) (import_values d row rest))"

fun converted_rows :: "cql_driver \<Rightarrow> string \<Rightarrow> cql_column list \<Rightarrow> nat \<Rightarrow> string option list list \<Rightarrow> string + (string \<times> cql_value list) list" where
  "converted_rows d statement cols k [] = Inr []"
| "converted_rows d statement cols k (row # rows) =
     (case import_values d (decimal (int k + 1)) (zip cols row) of
        Inl e \<Rightarrow> Inl e
      | Inr values \<Rightarrow> map_sum id ((#) (statement, values)) (converted_rows d statement cols (Suc k) rows))"

definition import_statement :: "string \<Rightarrow> string \<Rightarrow> string list \<Rightarrow> string" where
  "import_statement keyspace tbl columns =
     ''INSERT INTO '' @ double_quoted keyspace @ ''.'' @ double_quoted tbl @ '' ('' @ str_join '', '' (map double_quoted columns)
     @ '') VALUES ('' @ str_join '', '' (map (\<lambda>_. ''?'') columns) @ '')''"

fun import_columns :: "cql_driver \<Rightarrow> cql_table \<Rightarrow> string list \<Rightarrow> string + cql_column list" where
  "import_columns d t [] = Inr []"
| "import_columns d t (name # names) =
     (case column_of t name of
        None \<Rightarrow> Inl (''import column '' @ qd_quote d name @ '' not found'')
      | Some c \<Rightarrow> map_sum id ((#) c) (import_columns d t names))"

text \<open>Rows have the length of the columns; all are converted before the one batch is sent.\<close>

definition CassandraImport ::
  "cql_driver \<Rightarrow> string \<Rightarrow> string \<Rightarrow> string list \<Rightarrow> string option list list \<Rightarrow> cql_call list \<times> (string + unit)" where
  "CassandraImport d keyspace tbl columns rows =
     in_session d keyspace
       (case qd_tables d keyspace of
          Inl e \<Rightarrow> ([CqlMetadata keyspace], Inl e)
        | Inr tables \<Rightarrow>
            (case tables tbl of
               None \<Rightarrow> ([CqlMetadata keyspace], Inl ''import table not found'')
             | Some t \<Rightarrow>
                 (case import_columns d t columns of
                    Inl e \<Rightarrow> ([CqlMetadata keyspace], Inl e)
                  | Inr cols \<Rightarrow>
                      (case converted_rows d (import_statement keyspace tbl columns) cols 0 rows of
                         Inl e \<Rightarrow> ([CqlMetadata keyspace], Inl e)
                       | Inr batch \<Rightarrow>
                           ([CqlMetadata keyspace, CqlBatch batch],
                            case qd_batch d batch of Some e \<Rightarrow> Inl e | None \<Rightarrow> Inr ())))))"

subsection \<open>What holds of them\<close>

text \<open>No read returns more rows than its limit, and what it leaves out it tells.\<close>

lemma select_within_limit:
  assumes "CassandraSelectRaw d keyspace query limit = (calls, Inr r)" and "0 < limit"
  shows "int (length (cw_rows r)) \<le> limit" and "cw_truncated r \<longleftrightarrow> nat limit \<le> length (qd_rows d query)"
    and "\<not> cw_truncated r \<Longrightarrow> length (cw_rows r) = length (qd_rows d query)"
  using assms read_rows_take [of 0 limit "qd_rows d query"]
  by (auto simp: CassandraSelectRaw_def in_session_def split: option.splits if_splits)

text \<open>
  A result that has just as many rows as were asked for is called truncated, though nothing of it
  is missing.
\<close>

lemma full_result_is_called_truncated:
  assumes "qd_open d keyspace = None" and "ParseCQL u query c = ((info, None), c')" and "Kind info = Select"
    and "int (length (qd_rows d query)) = query_limit requested"
  shows "\<exists>calls r. fst (CassandraQuery u d connection keyspace query requested c) = (calls, Inr r)
    \<and> length (cr_rows r) = length (qd_rows d query) \<and> cr_truncated r"
proof -
  have "0 < query_limit requested" by (simp add: query_limit_def)
  moreover have "nat (query_limit requested) = length (qd_rows d query)" using assms(4) by linarith
  ultimately have "read_rows (query_limit requested) 0 (qd_rows d query) = (qd_rows d query, True)"
    using read_rows_take [of 0 "query_limit requested" "qd_rows d query"] by simp
  with assms(1-3) show ?thesis by (simp add: CassandraQuery_def Let_def)
qed

text \<open>A name in quotation marks is read back as it is.\<close>

lemma double_quoted_reads_back: "undouble (CHR 0x22) (butlast (tl (double_quoted name))) = name"
  by (simp add: double_quoted_def)

text \<open>A definition forgets which columns are static.\<close>

lemma ddl_ignores_static:
  "table_ddl u d keyspace name (t\<lparr>ct_Columns := map (\<lambda>c. c\<lparr>cc_Kind := Regular\<rparr>) (ct_Columns t)\<rparr>) = table_ddl u d keyspace name t"
  by (simp add: table_ddl_def ddl_primary_def comp_def Let_def)

text \<open>An integer that is imported fits the width of its column.\<close>

lemma imported_integer_fits:
  "parse_int d k bits v = Inr x \<Longrightarrow> \<exists>i. x = CNumber (decimal i) \<and> atoi v = (i, True) \<and> - (2 ^ (bits - 1)) \<le> i \<and> i < 2 ^ (bits - 1)"
  by (auto simp: parse_int_def split: prod.splits if_splits)

text \<open>Bytes that are shown and imported again are other bytes: the import takes the text for them.\<close>

lemma blob_does_not_round_trip:
  assumes "jsonSafe d (CBytes b) = TextV v"
  shows "cassandraImportValue d v CqlBlob = Inr (CBytes v)" and "v \<noteq> b"
proof -
  have "length b \<le> length (b64_encode b)" by (induction b rule: b64_encode.induct) auto
  with assms have "length b < length v" by (auto simp: jsonSafe_def)
  then show "v \<noteq> b" by auto
qed (simp add: cassandraImportValue_def)

text \<open>
  An import converts every row before it sends them, all in one logged batch: nothing is sent where
  a column is unknown or a value does not convert.
\<close>

lemma map_sum_Inr: "map_sum f g x = Inr y \<Longrightarrow> (\<And>z. x = Inr z \<Longrightarrow> y = g z \<Longrightarrow> thesis) \<Longrightarrow> thesis"
  by (cases x) auto

lemma converted_rows_all:
  "converted_rows d statement cols k rows = Inr batch \<Longrightarrow>
     length batch = length rows \<and> list_all (\<lambda>(s, _). s = statement) batch
     \<and> (\<forall>i < length rows. \<exists>row. import_values d row (zip cols (rows ! i)) = Inr (snd (batch ! i)))"
proof (induction rows arbitrary: k batch)
  case (Cons row rows)
  then obtain vs rest where 1: "import_values d (decimal (int k + 1)) (zip cols row) = Inr vs"
    and 2: "converted_rows d statement cols (Suc k) rows = Inr rest" and "batch = (statement, vs) # rest"
    by (auto split: sum.splits elim: map_sum_Inr)
  with Cons.IH [OF 2] show ?case by (auto simp: nth_Cons split: nat.splits)
qed auto

lemma import_is_one_batch:
  assumes "CassandraImport d keyspace tbl columns rows = (calls, res)"
  shows "calls = [] \<or> calls = [CqlMetadata keyspace] \<and> (\<exists>e. res = Inl e)
    \<or> (\<exists>batch. calls = [CqlMetadata keyspace, CqlBatch batch] \<and> length batch = length rows
         \<and> (res = Inr () \<longleftrightarrow> qd_batch d batch = None))"
  using assms converted_rows_all
  by (fastforce simp: CassandraImport_def in_session_def split: option.splits sum.splits)

end
