(* ===== verification/Cassandra_Backup.thy ===== *)
theory Cassandra_Backup
  imports Cassandra_Engine
begin

section \<open>Row backups of Cassandra (api/cassandra_rowbackup.go)\<close>

text \<open>
  The rows an UPDATE or DELETE of one table is about to change are read and stored; a restore
  writes them back with one INSERT or UPDATE for each row, in batches that the policies judge
  before the first one runs.
\<close>

subsection \<open>What is saved\<close>

definition cassandra_clause :: "string \<Rightarrow> Token \<Rightarrow> Token list \<Rightarrow> string" where
  "cassandra_clause raw w after =
     trim_right_of {CHR '';'', CHR '' '', CHR 0x09, CHR 0x0D, CHR 0x0A}
       (trim_space (substring raw (End w)
          (case find (\<lambda>t. Lower t = ''if'') after of None \<Rightarrow> length raw | Some t \<Rightarrow> Start t)))"

definition cassandraBackupTargetOf :: "Info \<Rightarrow> backupTarget option" where
  "cassandraBackupTargetOf info =
     (case Tables info of
        [tbl] \<Rightarrow>
          (if Command info \<noteq> Update \<and> Command info \<noteq> Delete \<or> \<not> HasWhere info then None
           else case dropWhile (\<lambda>t. Lower t \<noteq> ''where'') (top_level (Tokens info)) of
             [] \<Rightarrow> None
           | w # after \<Rightarrow>
               (let clause = cassandra_clause (Raw info) w after in
                if clause = [] then None
                else Some \<lparr>bt_kind = (if Command info = Delete then ''delete'' else ''update''),
                       bt_schema = Schema tbl, bt_table = Name tbl, bt_where = clause\<rparr>))
      | _ \<Rightarrow> None)"

definition cassandraQuotedTable :: "string \<Rightarrow> string \<Rightarrow> string" where
  "cassandraQuotedTable keyspace tbl = double_quoted keyspace @ ''.'' @ double_quoted tbl"

definition cassandraLiteral :: "CassandraValue \<Rightarrow> string" where
  "cassandraLiteral v =
     (case cv_Kind v of
        CellNull \<Rightarrow> ''null''
      | CellBool \<Rightarrow> cv_Value v
      | CellNum \<Rightarrow> cv_Value v
      | CellUUID \<Rightarrow> cv_Value v
      | CellBytes \<Rightarrow> (case b64_decode (cv_Value v) of None \<Rightarrow> ''0x'' | Some raw \<Rightarrow> ''0x'' @ hex_encode raw)
      | _ \<Rightarrow> quoted_string False (cv_Value v))"

record cassandraRowBackupPayload =
  cb_BackupID :: string
  cb_UserID :: string
  cb_Statement :: string
  cb_Keyspace :: string
  cb_Table :: string
  cb_PrimaryKey :: "string list"
  cb_Columns :: "string list"
  cb_Rows :: "CassandraValue list list"

definition cassandraBackupSelectList :: "unicode \<Rightarrow> backupTarget \<Rightarrow> Info \<Rightarrow> string list \<Rightarrow> string" where
  "cassandraBackupSelectList u plan info primaryKey =
     (if bt_kind plan \<noteq> ''update'' then ''*''
      else case assignedColumns info of
        None \<Rightarrow> ''*''
      | Some cols \<Rightarrow>
          (let inKey = map (to_lower u) primaryKey in
           if list_ex (\<lambda>n. n \<in> set inKey) (map fst cols) then ''*''
           else str_join '', '' (map double_quoted primaryKey @ map snd cols)))"

definition backup_query :: "unicode \<Rightarrow> backupTarget \<Rightarrow> Info \<Rightarrow> string \<Rightarrow> string list \<Rightarrow> string" where
  "backup_query u plan info keyspace primaryKey =
     ''SELECT '' @ cassandraBackupSelectList u plan info primaryKey @ '' FROM ''
     @ cassandraQuotedTable keyspace (bt_table plan) @ '' WHERE '' @ bt_where plan"

text \<open>Why a table is not backed up.\<close>

definition backup_refusal :: "cql_driver \<Rightarrow> string \<Rightarrow> CassandraTableInfo \<Rightarrow> string option" where
  "backup_refusal d tbl info =
     (if ti_IsCounter info then Some ''counter tables cannot be backed up''
      else if ti_PrimaryKey info = [] then Some (tbl @ '' has no primary key information'')
      else map_option
        (\<lambda>c. ''column '' @ qd_quote d (ci_Name c) @ '' has a type ('' @ ci_Type c @ '') row backups don'' @ [CHR 0x27] @ ''t support yet'')
        (find (\<lambda>c. \<not> ci_Supported c) (ti_Columns info)))"

definition backed_up_rows ::
  "unicode \<Rightarrow> (cassandraRowBackupPayload, 's) backup_store \<Rightarrow> Identity \<Rightarrow> Connection \<Rightarrow> backupTarget \<Rightarrow> string \<Rightarrow>
   string \<Rightarrow> string list \<Rightarrow> raw_rows \<Rightarrow> 's captured" where
  "backed_up_rows u b identity connection plan keyspace statement primaryKey r =
     (if cw_rows r = [] then NothingToBackUp
      else if cw_truncated r
      then CaptureBlocked (''This '' @ to_upper u (bt_kind plan) @ '' changes more than '' @ decimal (int rowBackupLimit)
             @ '' rows, too many to back up.'')
      else keep_backup b identity connection keyspace (bt_table plan) (bt_kind plan) (length (cw_rows r))
        \<lparr>cb_BackupID = bs_fresh_id b, cb_UserID = UserID identity, cb_Statement = statement, cb_Keyspace = keyspace,
         cb_Table = bt_table plan, cb_PrimaryKey = primaryKey, cb_Columns = cw_columns r, cb_Rows = cw_rows r\<rparr>)"

definition cassandraCaptureBackup ::
  "unicode \<Rightarrow> cql_driver \<Rightarrow> (cassandraRowBackupPayload, 's) backup_store \<Rightarrow> Identity \<Rightarrow> Connection \<Rightarrow> Info \<Rightarrow>
   string \<Rightarrow> string \<Rightarrow> 's captured \<times> cql_call list" where
  "cassandraCaptureBackup u d b identity connection info keyspace statement =
     (case (if bs_vault b then cassandraBackupTargetOf info else None) of
        None \<Rightarrow> (NothingToBackUp, [])
      | Some plan \<Rightarrow>
          (let ks = (if bt_schema plan = [] then keyspace else bt_schema plan) in
           if ks = [] then (CaptureSkipped ''no keyspace selected'', [])
           else case table_info d ks (bt_table plan) of
             (calls, Inl e) \<Rightarrow> (CaptureSkipped (''table metadata could not be read: '' @ e), calls)
           | (calls, Inr ti) \<Rightarrow>
               (case backup_refusal d (bt_table plan) ti of
                  Some reason \<Rightarrow> (CaptureSkipped reason, calls)
                | None \<Rightarrow>
                    (case CassandraSelectRaw d ks (backup_query u plan info ks (ti_PrimaryKey ti)) (int rowBackupLimit + 1) of
                       (reads, Inl e) \<Rightarrow> (CaptureSkipped (''the changed rows could not be read: '' @ e), calls @ reads)
                     | (reads, Inr r) \<Rightarrow>
                         (backed_up_rows u b identity connection plan ks statement (ti_PrimaryKey ti) r, calls @ reads)))))"

definition openCassandraRowBackup ::
  "bool \<Rightarrow> ('s \<Rightarrow> string + cassandraRowBackupPayload) \<Rightarrow> 's RowBackup \<Rightarrow> string + cassandraRowBackupPayload" where
  "openCassandraRowBackup vault unseal = open_backup vault unseal (\<lambda>p. (cb_BackupID p, cb_UserID p))"

subsection \<open>What a restore runs\<close>

text \<open>The first column of a name, whatever its case; the value of a row there, or null.\<close>

definition column_index :: "unicode \<Rightarrow> cassandraRowBackupPayload \<Rightarrow> string \<Rightarrow> nat option" where
  "column_index u p name = map_option fst (find (\<lambda>(i, c). equal_fold u c name) (enumerate 0 (cb_Columns p)))"

definition row_literal :: "CassandraValue list \<Rightarrow> nat option \<Rightarrow> string" where
  "row_literal row i =
     (case i of None \<Rightarrow> ''null'' | Some i \<Rightarrow> if i < length row then cassandraLiteral (row ! i) else ''null'')"

definition in_key :: "unicode \<Rightarrow> cassandraRowBackupPayload \<Rightarrow> string \<Rightarrow> bool" where
  "in_key u p name \<longleftrightarrow> to_lower u name \<in> set (map (to_lower u) (cb_PrimaryKey p))"

definition restore_insert_row :: "cassandraRowBackupPayload \<Rightarrow> CassandraValue list \<Rightarrow> string" where
  "restore_insert_row p row =
     ''INSERT INTO '' @ cassandraQuotedTable (cb_Keyspace p) (cb_Table p) @ '' ('' @ str_join '', '' (map double_quoted (cb_Columns p))
     @ '') VALUES ('' @ str_join '', '' (map (\<lambda>i. row_literal row (Some i)) [0 ..< length (cb_Columns p)]) @ '')''"

definition restored_equation :: "unicode \<Rightarrow> cassandraRowBackupPayload \<Rightarrow> CassandraValue list \<Rightarrow> string \<Rightarrow> string" where
  "restored_equation u p row c = double_quoted c @ '' = '' @ row_literal row (column_index u p c)"

definition restore_update_row :: "unicode \<Rightarrow> cassandraRowBackupPayload \<Rightarrow> CassandraValue list \<Rightarrow> string list" where
  "restore_update_row u p row =
     (let assignments = map (restored_equation u p row) (filter (\<lambda>c. \<not> in_key u p c) (cb_Columns p));
          conditions = map (restored_equation u p row) (filter (in_key u p) (cb_Columns p)) in
      if assignments = [] \<or> conditions = [] then []
      else [''UPDATE '' @ cassandraQuotedTable (cb_Keyspace p) (cb_Table p) @ '' SET '' @ str_join '', '' assignments
            @ '' WHERE '' @ str_join '' AND '' conditions])"

definition cassandraRestoreStatements :: "unicode \<Rightarrow> string \<Rightarrow> cassandraRowBackupPayload \<Rightarrow> string list" where
  "cassandraRestoreStatements u kind p =
     (if kind = ''delete'' then map (restore_insert_row p) (cb_Rows p)
      else concat (map (restore_update_row u p) (cb_Rows p)))"

text \<open>Groups of at most fifty statements, each of them one batch.\<close>

function groups_of :: "nat \<Rightarrow> 'a list \<Rightarrow> 'a list list" where
  "groups_of n xs = (if xs = [] \<or> n = 0 then [] else take n xs # groups_of n (drop n xs))"
  by pat_completeness auto
termination
  by (relation "measure (\<lambda>(n, xs). length xs)") auto

declare groups_of.simps [simp del]

definition batch_text :: "string list \<Rightarrow> string" where
  "batch_text statements =
     ''BEGIN BATCH'' @ [CHR 0x0A] @ concat (map (\<lambda>s. ''  '' @ s @ '';'' @ [CHR 0x0A]) statements) @ ''APPLY BATCH''"

definition cassandraRestoreBatches :: "string list \<Rightarrow> string list" where
  "cassandraRestoreBatches statements = map batch_text (groups_of 50 statements)"

definition cassandraRestoreScript :: "unicode \<Rightarrow> 's RowBackup \<Rightarrow> cassandraRowBackupPayload \<Rightarrow> string" where
  "cassandraRestoreScript u item p =
     ''-- Restores '' @ decimal (int (rb_Rows item)) @ '' row(s) of '' @ cassandraQuotedTable (cb_Keyspace p) (cb_Table p)
     @ '' backed up before this '' @ to_upper u (rb_Kind item) @ '':'' @ [CHR 0x0A]
     @ comment_lines ''--   '' (cb_Statement p) @ ''-- Review before running.'' @ [CHR 0x0A, CHR 0x0A]
     @ concat (map (\<lambda>b. b @ '';'' @ [CHR 0x0A, CHR 0x0A]) (cassandraRestoreBatches (cassandraRestoreStatements u (rb_Kind item) p)))"

subsection \<open>Applying a backup\<close>

text \<open>The loop that judges: the refusal of the first batch that may not run, or what was parsed.\<close>

fun judge_batches ::
  "server \<Rightarrow> unit world \<Rightarrow> Identity \<Rightarrow> AccessRole \<Rightarrow> Connection \<Rightarrow> string list \<Rightarrow> parse_cache \<Rightarrow>
   (unit event list + Info list) \<times> parse_cache" where
  "judge_batches s w identity role connection [] c = (Inr [], c)"
| "judge_batches s w identity role connection (batch # batches) c =
     (case ParseCQL (srv_tables s) batch c of
        ((_, Some e), c') \<Rightarrow> (Inl [refuse 400 ''PARSE_ERROR'' e], c')
      | ((info, None), c') \<Rightarrow>
          (case judge s w identity role connection info False (srv_shared s \<and> IsAdmin identity) of
             Inl _ \<Rightarrow> (Inl [refuse 500 ''INTERNAL'' ''governance rules unavailable''], c')
           | Inr (decision, _) \<Rightarrow>
               (if Effect decision \<noteq> Allow
                then (Inl [recordActivity batch ''blocked'' 0 ''deny'' (PolicyID decision) [],
                           refuse 403 ''POLICY_DENIED'' (Reason decision)], c')
                else (case judge_batches s w identity role connection batches c' of
                        (r, c'') \<Rightarrow> (map_sum id ((#) info) r, c'')))))"

text \<open>The loop that runs: the calls of the batches up to the first that fails, with its error.\<close>

fun run_cql_batches ::
  "unicode \<Rightarrow> (nat \<Rightarrow> cql_driver) \<Rightarrow> EngineConnection \<Rightarrow> string \<Rightarrow> nat \<Rightarrow> string list \<Rightarrow> parse_cache \<Rightarrow>
   (cql_call list \<times> (string \<times> string) option) \<times> parse_cache" where
  "run_cql_batches u d connection keyspace k [] c = (([], None), c)"
| "run_cql_batches u d connection keyspace k (batch # batches) c =
     (case CassandraQuery u (d k) connection keyspace batch 0 c of
        ((calls, Inl e), c') \<Rightarrow> ((calls, Some (batch, e)), c')
      | ((calls, Inr _), c') \<Rightarrow>
          (case run_cql_batches u d connection keyspace (Suc k) batches c' of
             ((more_calls, err), c'') \<Rightarrow> ((calls @ more_calls, err), c'')))"

definition restored_record :: "'s RowBackup \<Rightarrow> cassandraRowBackupPayload \<Rightarrow> Info list \<Rightarrow> string" where
  "restored_record item p infos =
     ''-- Row backup restore: '' @ decimal (int (rb_Rows item)) @ '' row(s) of '' @ cassandraQuotedTable (cb_Keyspace p) (cb_Table p)
     @ [CHR 0x0A] @ (case infos of [] \<Rightarrow> [] | info # _ \<Rightarrow> Raw info)"

definition applyCassandraRowBackup ::
  "server \<Rightarrow> unit world \<Rightarrow> (nat \<Rightarrow> cql_driver) \<Rightarrow> bool \<Rightarrow> ('s \<Rightarrow> string + cassandraRowBackupPayload) \<Rightarrow> Identity \<Rightarrow>
   Connection \<Rightarrow> string + EngineConnection \<Rightarrow> 's RowBackup \<Rightarrow> parse_cache \<Rightarrow>
   (cql_call, 's RowBackup) nosql_event list \<times> parse_cache" where
  "applyCassandraRowBackup s w d vault unseal identity connection opened item c =
     (case openCassandraRowBackup vault unseal item of
        Inl _ \<Rightarrow> (answered (Refused 500 ''INTERNAL'' ''the backup could not be read''), c)
      | Inr p \<Rightarrow>
          (let batches = cassandraRestoreBatches (cassandraRestoreStatements (srv_tables s) (rb_Kind item) p) in
           if cassandraRestoreStatements (srv_tables s) (rb_Kind item) p = [] then (answered (Answer 200), c)
           else case role_of (srv_access s) (UserID identity) of
             Inl _ \<Rightarrow> (answered (Refused 401 ''UNAUTHORIZED'' ''role missing''), c)
           | Inr role \<Rightarrow>
               (case w_policies w of
                  Inl _ \<Rightarrow> (answered (Refused 500 ''INTERNAL'' ''governance rules unavailable''), c)
                | Inr policies \<Rightarrow>
                    (case judge_batches s w identity role connection batches c of
                       (Inl evs, c') \<Rightarrow> (map Event evs, c')
                     | (Inr infos, c') \<Rightarrow>
                         (case opened of
                            Inl e \<Rightarrow> (answered (Refused 502 ''EXEC_ERROR'' e), c')
                          | Inr target \<Rightarrow>
                              (let timeout = withConnectionTimeout connection
                                     (res_queryTimeout (resolvePolicies (srv_tables s) policies identity connection)) (10 * 60) in
                               case run_cql_batches (srv_tables s) d target (cb_Keyspace p) 0 batches c' of
                                 ((calls, err), c'') \<Rightarrow>
                                   (map (\<lambda>call. Called call timeout) calls
                                    @ (case err of
                                         Some (batch, e) \<Rightarrow>
                                           [Event (recordActivity batch ''error'' 0 ''allow'' [] []),
                                            Event (Responded (Refused 502 ''EXEC_ERROR'' e))]
                                       | None \<Rightarrow>
                                           [Event (recordActivity (restored_record item p infos) ''success''
                                              (int (rb_Rows item)) ''allow'' [] []),
                                            Event (Responded (Answer 200))]), c'')))))))"

subsection \<open>What a restore writes\<close>

text \<open>What the server reads from a term: null, a string, a blob, or a bare constant.\<close>

datatype cql_term = TermNull | TermString string | TermBlob string | TermBare string

definition read_term :: "string \<Rightarrow> cql_term option" where
  "read_term s =
     (if s = ''null'' then Some TermNull
      else case s of
        [] \<Rightarrow> None
      | a # rest \<Rightarrow>
          (if a = CHR 0x27 then (case read_body False rest of Some (v, []) \<Rightarrow> Some (TermString v) | _ \<Rightarrow> None)
           else if has_prefix ''0x'' s then map_option TermBlob (hex_decode (drop 2 s))
           else Some (TermBare s)))"

text \<open>A text that is neither of the others, as a number, a truth value and a UUID are.\<close>

definition bare_text :: "string \<Rightarrow> bool" where
  "bare_text s \<longleftrightarrow> s \<noteq> [] \<and> s \<noteq> ''null'' \<and> hd s \<noteq> CHR 0x27 \<and> \<not> has_prefix ''0x'' s"

fun cql_meaning :: "cql_value \<Rightarrow> cql_term" where
  "cql_meaning CNil = TermNull"
| "cql_meaning (CUUID s) = TermBare s"
| "cql_meaning (CBytes b) = TermBlob b"
| "cql_meaning (CBool b) = TermBare (if b then ''true'' else ''false'')"
| "cql_meaning (CTime t) = TermString t"
| "cql_meaning (CAddress a) = TermString a"
| "cql_meaning (CDecimal n) = (case n of None \<Rightarrow> TermNull | Some s \<Rightarrow> TermBare s)"
| "cql_meaning (CVarint n) = (case n of None \<Rightarrow> TermNull | Some s \<Rightarrow> TermBare s)"
| "cql_meaning (CText s) = TermString s"
| "cql_meaning (CNumber s) = TermBare s"

fun bare_part :: "cql_value \<Rightarrow> string option" where
  "bare_part (CUUID s) = Some s"
| "bare_part (CDecimal n) = n"
| "bare_part (CVarint n) = n"
| "bare_part (CNumber s) = Some s"
| "bare_part _ = None"

lemma read_term_string: "read_term (quoted_string False v) = Some (TermString v)"
proof -
  have "read_body False (literal_body False v @ [CHR 0x27]) = Some (v, [])"
    using read_body_literal [of "[]" False v] by (simp add: not_quote_def)
  then show ?thesis by (simp add: read_term_def quoted_string_def)
qed

lemma read_term_bare: "bare_text s \<Longrightarrow> read_term s = Some (TermBare s)"
  by (cases s) (auto simp: read_term_def bare_text_def)

text \<open>
  The literal a restore writes is read as the value that was saved: no text closes its string, and
  the bytes of a blob come back.
\<close>

lemma restored_literal_reads_back:
  assumes "\<forall>s. bare_part v = Some s \<longrightarrow> bare_text s"
  shows "read_term (cassandraLiteral (encodeCassandraValue v)) = Some (cql_meaning v)"
proof (cases v)
  case (CBytes b) then show ?thesis
    by (simp add: cassandraLiteral_def raw_cell_def b64_round_trip read_term_def)
next
  case (CBool b)
  have "bare_text (if b then ''true'' else ''false'')" by (cases b) (simp_all add: bare_text_def)
  from read_term_bare [OF this] CBool show ?thesis by (simp add: cassandraLiteral_def raw_cell_def)
next
  case CNil then show ?thesis by (simp add: cassandraLiteral_def raw_cell_def read_term_def)
next
  case (CDecimal n) with assms show ?thesis
    by (cases n) (simp_all add: cassandraLiteral_def raw_cell_def number_cell_def read_term_bare, simp add: read_term_def)
next
  case (CVarint n) with assms show ?thesis
    by (cases n) (simp_all add: cassandraLiteral_def raw_cell_def number_cell_def read_term_bare, simp add: read_term_def)
qed (use assms in \<open>simp_all add: cassandraLiteral_def raw_cell_def read_term_string read_term_bare\<close>)

text \<open>Each statement is in one batch, in order, and no batch has more than fifty.\<close>

lemma groups_of_all:
  assumes "0 < n"
  shows "concat (groups_of n xs) = xs" and "\<forall>g \<in> set (groups_of n xs). g \<noteq> [] \<and> length g \<le> n"
proof (induction xs rule: length_induct)
  case (1 xs)
  have step: "xs \<noteq> [] \<Longrightarrow> groups_of n xs = take n xs # groups_of n (drop n xs)" "xs = [] \<Longrightarrow> groups_of n xs = []"
    using assms by (subst groups_of.simps, simp)+
  have "xs \<noteq> [] \<Longrightarrow> length (drop n xs) < length xs" using assms by (cases xs) auto
  { case 1 with step "1.IH" \<open>xs \<noteq> [] \<Longrightarrow> length (drop n xs) < length xs\<close> show ?case
      by (cases "xs = []") auto }
  { case 2
    show ?case
    proof (cases "xs = []")
      case True with step(2) show ?thesis by simp
    next
      case False
      have "\<forall>g \<in> set (groups_of n (drop n xs)). g \<noteq> [] \<and> length g \<le> n"
        using "1.IH" \<open>xs \<noteq> [] \<Longrightarrow> length (drop n xs) < length xs\<close> [OF False] by blast
      with step(1) [OF False] False assms show ?thesis by auto
    qed }
qed

lemma restore_batches_cover:
  "\<exists>gs. cassandraRestoreBatches statements = map batch_text gs \<and> concat gs = statements
     \<and> (\<forall>g \<in> set gs. g \<noteq> [] \<and> length g \<le> 50)"
  unfolding cassandraRestoreBatches_def using groups_of_all [of 50 statements] by (intro exI conjI refl) simp_all

text \<open>
  A column is looked up by its name without regard to case, so where two columns differ in their
  case only, the second is restored with the value of the first.
\<close>

definition two_cases :: cassandraRowBackupPayload where
  "two_cases = \<lparr>cb_BackupID = ''b'', cb_UserID = ''u'', cb_Statement = [], cb_Keyspace = ''k'', cb_Table = ''t'',
     cb_PrimaryKey = [''id''], cb_Columns = [''id'', ''name'', ''Name''],
     cb_Rows = [[raw_cell CellNum ''1'', raw_cell CellNum ''2'', raw_cell CellNum ''3'']]\<rparr>"

lemma columns_differing_in_case_are_confused:
  "map (restored_equation ascii_tables two_cases (cb_Rows two_cases ! 0)) [''name'', ''Name'']
     = [double_quoted ''name'' @ '' = 2'', double_quoted ''Name'' @ '' = 2'']"
  by code_simp

subsection \<open>A restore is judged as a whole\<close>

lemma judge_batches_allowed:
  assumes "judge_batches s w identity role connection batches c = (Inr infos, c')"
  shows "list_all2 (\<lambda>batch info. (\<exists>b b'. ParseCQL (srv_tables s) batch b = ((info, None), b'))
    \<and> (\<exists>decision limits. judge s w identity role connection info False (srv_shared s \<and> IsAdmin identity) = Inr (decision, limits)
         \<and> Effect decision = Allow)) batches infos"
  using assms
proof (induction batches arbitrary: c c' infos)
  case (Cons batch batches)
  then obtain info b' decision limits rest b'' where "ParseCQL (srv_tables s) batch c = ((info, None), b')"
    and "judge s w identity role connection info False (srv_shared s \<and> IsAdmin identity) = Inr (decision, limits)"
    and "Effect decision = Allow" and "judge_batches s w identity role connection batches b' = (Inr rest, b'')"
    and "infos = info # rest"
    by (auto split: prod.splits option.splits sum.splits if_splits elim: map_sum_Inr)
  with Cons.IH show ?case by auto
qed simp

lemma run_batches_calls:
  "fst (run_cql_batches u d connection keyspace k batches c) = (calls, err) \<Longrightarrow> call \<in> set calls \<Longrightarrow>
     \<exists>batch \<in> set batches. call = CqlExec batch \<or> (\<exists>page. call = CqlIterate batch page)"
proof (induction batches arbitrary: k c calls err)
  case (Cons batch batches)
  have one: "\<exists>page. set ran \<subseteq> {CqlExec batch, CqlIterate batch page}"
    if "CassandraQuery u (d k) connection keyspace batch 0 c = ((ran, r), c')" for ran r c'
    using that by (auto simp: CassandraQuery_def Let_def split: option.splits prod.splits if_splits)
  obtain ran r c' where q: "CassandraQuery u (d k) connection keyspace batch 0 c = ((ran, r), c')"
    by (metis surj_pair)
  show ?case
  proof (cases r)
    case (Inl e) with q Cons.prems one [OF q] show ?thesis by auto
  next
    case (Inr x)
    obtain ran2 err2 c2 where q2: "run_cql_batches u d connection keyspace (Suc k) batches c' = ((ran2, err2), c2)"
      by (metis surj_pair)
    with q Inr Cons.prems have "call \<in> set ran \<or> call \<in> set ran2" by auto
    with one [OF q] Cons.IH [of "Suc k" c' ran2 err2] q2 show ?thesis by fastforce
  qed
qed simp

text \<open>
  Nothing is sent before every batch of the restore was parsed and allowed: what is sent is one of
  them, on the connection of the backup.
\<close>

lemma calls_of_called: "calls_of (map (\<lambda>c. Called c t) cs) = map (\<lambda>c. (c, t)) cs"
  by (induction cs) simp_all

lemma cassandra_restore_is_judged_first:
  assumes "(call, t) \<in> set (calls_of (fst (applyCassandraRowBackup s w d vault unseal identity connection opened item c)))"
  shows "\<exists>p role. openCassandraRowBackup vault unseal item = Inr p \<and> role_of (srv_access s) (UserID identity) = Inr role
    \<and> (let batches = cassandraRestoreBatches (cassandraRestoreStatements (srv_tables s) (rb_Kind item) p) in
       (\<exists>batch \<in> set batches. call = CqlExec batch \<or> (\<exists>page. call = CqlIterate batch page))
       \<and> (\<forall>batch \<in> set batches. \<exists>info b b' decision limits. ParseCQL (srv_tables s) batch b = ((info, None), b')
            \<and> judge s w identity role connection info False (srv_shared s \<and> IsAdmin identity) = Inr (decision, limits)
            \<and> Effect decision = Allow))"
proof -
  from assms obtain p where p: "openCassandraRowBackup vault unseal item = Inr p"
    by (auto simp: applyCassandraRowBackup_def split: sum.splits)
  let ?batches = "cassandraRestoreBatches (cassandraRestoreStatements (srv_tables s) (rb_Kind item) p)"
  from assms p obtain role infos c' target calls err c'' where role: "role_of (srv_access s) (UserID identity) = Inr role"
    and judged: "judge_batches s w identity role connection ?batches c = (Inr infos, c')"
    and ran: "run_cql_batches (srv_tables s) d target (cb_Keyspace p) 0 ?batches c' = ((calls, err), c'')"
    and call: "call \<in> set calls"
    by (auto simp: applyCassandraRowBackup_def Let_def calls_of_called split: sum.splits prod.splits if_splits option.splits)
  have "\<exists>batch \<in> set ?batches. call = CqlExec batch \<or> (\<exists>page. call = CqlIterate batch page)"
    using run_batches_calls [of _ d target] ran call by (metis fst_conv)
  moreover have "\<exists>info b b' decision limits. ParseCQL (srv_tables s) batch b = ((info, None), b')
      \<and> judge s w identity role connection info False (srv_shared s \<and> IsAdmin identity) = Inr (decision, limits)
      \<and> Effect decision = Allow" if "batch \<in> set ?batches" for batch
    using judge_batches_allowed [OF judged] that unfolding list_all2_conv_all_nth by (metis in_set_conv_nth)
  ultimately show ?thesis using p role by (auto simp: Let_def)
qed

end
