(* ===== verification/Spec2Isabelle.thy ===== *)
theory Spec2Isabelle
  imports Guard_Properties Governance_Properties Query_Properties Clients_Properties
    Transactions_Properties Audit_Properties Activity Import_Properties Export_Properties
    Row_Backup_Properties Multirun Scheduler_Properties Mongo_Properties Redis_Api Elasticsearch
    Pools Schema_Cache Cassandra_Backup
begin

text \<open>
  Verification library of the Rowset Studio core (src/rowset-core, written in Go): what a
  statement goes through from the request until its answer and its record.

  The program. A request names a connection and a text. The guard parses the text and decides
  with the guardrails of the resolved policies (sqlguard/parser.go, policy/policy.go,
  api/policies.go); the topology chooses the node it runs on (api/topology.go); the request
  handler asks for confirmation or approval, runs it with a timeout, streams its rows under the
  row limit and records it (api/query.go, api/stream.go). Other callers enter beside it: manual
  transactions (api/transactions.go, api/mongo_transactions.go), embedded clients, deferred and
  escalated statements (api/clients.go, api/escalation.go), and the guards of the other engines
  (api/mongodb.go, api/redis.go, api/elasticsearch.go, api/nosqlwrite.go). What ran is kept in a
  hash chain (store/audit.go) that one writer fills from a queue (activity/activity.go). Around
  the request stand the bulk paths, which enter the same guard: CSV files are imported and tables
  exported (api/csvimport.go, api/export.go), rows are saved before a write and restored
  (api/rowbackup.go, store/rowbackups.go), statements run on a schedule (api/schedule.go,
  api/scheduler.go, store/schedules.go) and on several connections (api/multirun.go).

  The theories, in the order in which the code calls them.
  Prelude holds Go's strings and errors and the shared lemmas.
  Lexer, Splitter, Constant, Strconv, Classify, Statement and Cql model sqlguard/parser.go and
  sqlguard/cql.go: tokens, statements, three-valued constants, classification and batches.
  Memo is the contract of a cache and Parse_Cache interprets it on ParseDialect's.
  Policy models the guardrails. Lexer_Correct, Statement_Correct and Guard_Properties hold what
  is proved of them.
  Keyed_Store is the contract of a table with keys; Domain, Overrides and Custom_Policies model
  the records of domain/models.go, the policy overrides of store/governance.go with their
  resolution in api/policies.go, and the custom policies with their clock windows;
  Governance_Properties what holds of them.
  Routing models the choice of a node and its state, Streaming the NDJSON stream and its limits,
  Query the request from executeQuery to its record; Query_Properties their composition.
  Clients models Run, ExecuteDeferred, EvaluateStatement, the result stream and the guards of the
  other engines; Clients_Properties what governs them.
  Transactions models the table of open transactions, the claim of an entry, the reaper, commit,
  rollback and the end of a connection, as operations and as a step relation over interleaved
  requests; Transactions_Properties its invariants.
  Audit_Log models the chain, its verification and the retention, Audit_Properties what a verified
  chain promises; Activity the queue, its writer, flush and shutdown, against the contract of a
  backend that the tables of Audit_Log meet.
  Text_Encoding (UTF-8, hexadecimal) and Sql_Text (names and literals per engine) are what the
  bulk paths print; Csv is encoding/csv as the code configures it. Csv_Import models the uploads
  and the import in one transaction, Export the governed SELECT and the files it writes, Cassandra
  the handler of one CQL statement; Import_Properties and Export_Properties what holds of them.
  Backup_Values models the values a payload keeps, Row_Backup which statements are recognized,
  what is read and stored before they run, Row_Restore the plan of a restore and its transaction;
  Row_Backup_Properties that a restore puts back what the write changed.
  Schedule models the recurrence with its time zone, Paths the file paths, Scheduler the tables,
  the requests and the tick, Scheduled_Runs a run, its file, and the step relation of ticks,
  requests and tasks; Scheduler_Properties the properties of every reachable state.
  Multirun models a script on several connections with its workers as a step relation.
  Nosql holds what the handlers of the other engines share: the policies, the judgement, the
  record and the store of a backup (api/nosqlwrite.go, api/rowbackup.go). Mongo models the
  filters, documents and engine calls (engine/mongodb.go), Mongo_Api the handlers with their row
  backups and restores (api/mongodb.go, api/mongo_rowbackup.go), Mongo_Properties what holds of
  them. Base64 is Go's encoding/base64; Redis models engine/redis.go and Redis_Api its handlers
  and backups (api/redis.go, api/redis_rowbackup.go); Elasticsearch models engine/elasticsearch.go
  and its handlers and backups (api/elasticsearch.go, api/elasticsearch_rowbackup.go).
  Engine_Connection models the settings of a connection, TLS, SSH and the key of a pool
  (engine/tls.go, engine/ssh.go, engine/engine.go, engine/additional.go), Pools the manager of the
  pools as a step relation (engine/engine.go), Schema_Cache the shared loads of a schema and the
  ring of column origins (engine/schemacache.go, engine/origincache.go). Cassandra_Engine models
  the methods of engine/cassandra.go over what the driver answers, Cassandra_Backup the backups and
  restores of its rows (api/cassandra_rowbackup.go).

  State and errors. A Go struct is a record and an enum a datatype, with the source's names where
  HOL allows them; a Go map is a function to an option type, a slice a list. An error is the left
  summand of a sum, an HTTP answer a datatype of its own. Go's int is int, and a word where the
  width is what a property is about. Nothing is assumed about the engines behind the
  program: their answers, the clock, the random identifiers and SHA-256 are arguments
  of the definitions. Concurrency is a step relation whose steps are the sections that
  a mutex or a database transaction makes atomic.

  What the lemmas show. The guard never takes an unreadable or unscoped text for a harmless one and
  its report covers every statement of a script; the policies that are applied are the most
  specific ones and stay in their bounds, and custom policies only tighten them; no statement runs
  that was not judged under them, on whichever path it enters, and it runs on an allowed node,
  isolated, within the timeout and under the row limit; each request is answered and recorded once;
  transactions end once, are bounded in number, are not reaped while they run and are reaped when
  idle; what was recorded is stored once and in order, a flush is true, the chain verifies, and a
  changed covered field is detected as long as SHA-256 does not collide and the chain head is
  known. An import sends the values of the file as literals only, all or nothing; an exported file
  reads back; a restore undoes the write; a schedule starts each query once, one run at a time,
  with its owner's rights of that moment, and its result appears whole in its folder. A MongoDB
  update and a bulk write to Redis run only after they were judged, a filter counts as a predicate
  exactly when it restricts the documents, a Redis scan ends and returns at most its limit, and a
  key that was backed up is restored as it was. No pool is lost or given for another key, and what
  was invalidated, a pool or a schema, is not given to a later request.

  Recursion and bounds. Every loop of the code that is modelled ends: the lexer on the remaining
  text, the constant folding on the tokens, the splitter on the tokens, the purge on the rows
  left; no definition needs fuel whose exhaustion a theorem would have to exclude, except where
  a theory says so and proves the fuel is enough.

  Not modelled: the drivers of the databases (engine), the schema reader, the HTTP plumbing
  (routes, middleware, sessions), users and logins (auth), the vault,
  the connections API, the AI and Slack integrations, notebooks and saved queries, the desktop
  shell and the TypeScript front end.
\<close>

end
